(* ===== verification/Prelude.thy ===== *)
theory Prelude
  imports Main "HOL-Library.Char_ord" "HOL-Library.List_Lexorder" "HOL-Library.Sublist"
    "HOL-Library.Multiset"
begin

text \<open>
  What the components share: Go's fixed-width integers, the part of the packages \<open>strings\<close>,
  \<open>strconv\<close> and \<open>sort\<close> that the sources use, error values, map reads, and the generic facts
  on lists behind ``filter the candidates, sort them stably, take the first''.

  A Go \<open>string\<close> is a byte sequence and \<open>char\<close> is a byte, so Go's \<open><\<close> on strings is the
  lexicographic order of \<open>List_Lexorder\<close>.  \<open>ToLower\<close>, \<open>EqualFold\<close> and \<open>TrimSpace\<close> are modelled
  on the ASCII range; bytes from 128 on are neither folded nor trimmed, where Go would decode
  them as UTF-8.  Times are nanoseconds counted from Go's zero time (so \<open>IsZero\<close> is \<open>= 0\<close>),
  durations are nanoseconds.
\<close>

named_theorems go_eval \<open>rules that evaluate string operations on literals\<close>
named_theorems handler_defs \<open>definitions of the reconcilers and of the calls they make\<close>

type_synonym gotime = int
type_synonym duration = int
type_synonym strmap = "string \<rightharpoonup> string"

subsection \<open>Fixed-width integers\<close>

definition wrap32 :: "int \<Rightarrow> int" where
  "wrap32 n = (n + 2 ^ 31) mod 2 ^ 32 - 2 ^ 31"

definition wrap64 :: "int \<Rightarrow> int" where
  "wrap64 n = (n + 2 ^ 63) mod 2 ^ 64 - 2 ^ 63"

definition nanosecond :: duration where "nanosecond = 1"
definition second :: duration where "second = 1000000000"
definition minute :: duration where "minute = 60 * second"

text \<open>\<^verbatim>\<open>time.Duration(n) * time.Second\<close>: an \<open>int64\<close> multiplication.\<close>

definition durationSeconds :: "int \<Rightarrow> duration" where
  "durationSeconds n = wrap64 (n * second)"

lemma wrap64_id: "- (2 ^ 63) \<le> n \<Longrightarrow> n < 2 ^ 63 \<Longrightarrow> wrap64 n = n"
  by (simp add: wrap64_def)

lemma wrap32_id: "- (2 ^ 31) \<le> n \<Longrightarrow> n < 2 ^ 31 \<Longrightarrow> wrap32 n = n"
  by (simp add: wrap32_def)

lemma wrap32_range: "- (2 ^ 31) \<le> wrap32 n \<and> wrap32 n < 2 ^ 31"
  by (simp add: wrap32_def)

lemma durationSeconds_exact:
  "0 \<le> n \<Longrightarrow> n \<le> 9223372036 \<Longrightarrow> durationSeconds n = n * 1000000000"
  by (simp add: durationSeconds_def second_def wrap64_def)

subsection \<open>The package strings\<close>

definition byte :: "char \<Rightarrow> nat" where "byte c = of_char c"

definition isSpace :: "char \<Rightarrow> bool" where
  "isSpace c \<longleftrightarrow> c \<in> {CHR 0x09, CHR 0x0A, CHR 0x0B, CHR 0x0C, CHR 0x0D, CHR 0x20}"

definition toLowerChar :: "char \<Rightarrow> char" where
  "toLowerChar c = (if 65 \<le> byte c \<and> byte c \<le> 90 then char_of (byte c + 32) else c)"

definition ToLower :: "string \<Rightarrow> string" where
  "ToLower s = map toLowerChar s"

definition TrimSpace :: "string \<Rightarrow> string" where
  "TrimSpace s = rev (dropWhile isSpace (rev (dropWhile isSpace s)))"

definition EqualFold :: "string \<Rightarrow> string \<Rightarrow> bool" where
  "EqualFold s t \<longleftrightarrow> ToLower s = ToLower t"

definition HasPrefix :: "string \<Rightarrow> string \<Rightarrow> bool" where
  "HasPrefix s p \<longleftrightarrow> prefix p s"

definition TrimPrefix :: "string \<Rightarrow> string \<Rightarrow> string" where
  "TrimPrefix s p = (if prefix p s then drop (length p) s else s)"

definition TrimSuffix :: "string \<Rightarrow> string \<Rightarrow> string" where
  "TrimSuffix s p = (if suffix p s then take (length s - length p) s else s)"

fun Contains :: "string \<Rightarrow> string \<Rightarrow> bool" where
  "Contains [] t \<longleftrightarrow> t = []"
| "Contains (c # cs) t \<longleftrightarrow> prefix t (c # cs) \<or> Contains cs t"

fun Join :: "string list \<Rightarrow> string \<Rightarrow> string" where
  "Join [] sep = []"
| "Join [x] sep = x"
| "Join (x # y # ys) sep = x @ sep @ Join (y # ys) sep"

text \<open>\<^verbatim>\<open>strings.Fields\<close>: the maximal runs of non-space bytes.\<close>

function Fields :: "string \<Rightarrow> string list" where
  "Fields s =
     (let t = dropWhile isSpace s in
      if t = [] then []
      else takeWhile (\<lambda>c. \<not> isSpace c) t # Fields (dropWhile (\<lambda>c. \<not> isSpace c) t))"
  by pat_completeness auto
termination
proof (relation "measure length", simp)
  fix s t :: string
  assume t: "t = dropWhile isSpace s" "t \<noteq> []"
  then have "\<not> isSpace (hd t)" using hd_dropWhile by blast
  with t(2) have "length (dropWhile (\<lambda>c. \<not> isSpace c) t) < length t"
    by (cases t) (auto intro: le_imp_less_Suc length_dropWhile_le)
  also have "length t \<le> length s" using t(1) by (simp add: length_dropWhile_le)
  finally show "(dropWhile (\<lambda>c. \<not> isSpace c) t, s) \<in> measure length" by simp
qed

declare Fields.simps [simp del]

text \<open>Case folding and the space test decided on the bits of a character, for evaluation.\<close>

lemma isSpace_code [code]:
  "isSpace (Char b0 b1 b2 b3 b4 b5 b6 b7) \<longleftrightarrow>
     \<not> b7 \<and> \<not> b6 \<and> \<not> b4 \<and> (if b5 then \<not> b3 \<and> \<not> b2 \<and> \<not> b1 \<and> \<not> b0 else b3 \<and> \<not> (b1 \<and> b2) \<and> (b0 \<or> b1 \<or> b2))"
  by (cases b0; cases b1; cases b2; cases b3; cases b4; cases b5; cases b6; cases b7) (simp_all add: isSpace_def byte_def)

lemma toLowerChar_code [code]:
  "toLowerChar (Char b0 b1 b2 b3 b4 b5 b6 b7) =
     (if \<not> b7 \<and> b6 \<and> \<not> b5 \<and> (if b4 then \<not> b3 \<or> \<not> b2 \<and> \<not> (b1 \<and> b0) else b0 \<or> b1 \<or> b2 \<or> b3) then Char b0 b1 b2 b3 b4 True b6 b7
      else Char b0 b1 b2 b3 b4 b5 b6 b7)"
  by (cases b0; cases b1; cases b2; cases b3; cases b4; cases b5; cases b6; cases b7)
    (simp_all add: toLowerChar_def byte_def char_of_def bit_0)

lemma byte_lower: "n \<le> 90 \<Longrightarrow> byte (char_of (n + 32)) = n + 32"
  by (simp add: byte_def)

lemma toLowerChar_idem [simp]: "toLowerChar (toLowerChar c) = toLowerChar c"
  by (auto simp: toLowerChar_def byte_lower)

lemma ToLower_idem [simp]: "ToLower (ToLower s) = ToLower s"
  by (simp add: ToLower_def o_def)

lemma ToLower_append [simp]: "ToLower (s @ t) = ToLower s @ ToLower t"
  by (simp add: ToLower_def)

lemma ToLower_eq_Nil [simp]: "ToLower s = [] \<longleftrightarrow> s = []"
  by (simp add: ToLower_def)

lemma ToLower_Nil [simp]: "ToLower [] = []"
  by (simp add: ToLower_def)

lemma EqualFold_refl [simp]: "EqualFold s s"
  by (simp add: EqualFold_def)

lemma EqualFold_sym: "EqualFold s t \<longleftrightarrow> EqualFold t s"
  by (auto simp: EqualFold_def)

lemma TrimSpace_Nil [simp]: "TrimSpace [] = []"
  by (simp add: TrimSpace_def)

lemma dropWhile_id_iff: "dropWhile P xs = xs \<longleftrightarrow> xs = [] \<or> \<not> P (hd xs)"
proof (cases xs)
  case (Cons y ys)
  have "length (dropWhile P ys) < length xs"
    using length_dropWhile_le [of P ys] Cons by (simp add: le_imp_less_Suc)
  then have "dropWhile P ys \<noteq> xs" by auto
  with Cons show ?thesis by auto
qed simp

lemma dropWhile_dropWhile [simp]: "dropWhile P (dropWhile P xs) = dropWhile P xs"
  by (induction xs) auto

lemma hd_rev_dropWhile_rev:
  assumes "\<not> P (hd xs)" and "dropWhile P (rev xs) \<noteq> []"
  shows "\<not> P (hd (rev (dropWhile P (rev xs))))"
proof -
  have "rev (takeWhile P (rev xs) @ dropWhile P (rev xs)) = xs" by simp
  then have "rev (dropWhile P (rev xs)) @ rev (takeWhile P (rev xs)) = xs"
    by (metis rev_append)
  with assms show ?thesis by (metis hd_append2 rev_is_Nil_conv)
qed

lemma TrimSpace_idem [simp]: "TrimSpace (TrimSpace s) = TrimSpace s"
proof -
  let ?t = "dropWhile isSpace s" and ?u = "rev (dropWhile isSpace (rev (dropWhile isSpace s)))"
  have "dropWhile isSpace ?u = ?u"
  proof (cases "?u = []")
    case False
    then have "?t \<noteq> []" by (metis dropWhile.simps(1) rev.simps(1))
    then have "\<not> isSpace (hd ?t)" using hd_dropWhile by blast
    with False have "\<not> isSpace (hd ?u)" using hd_rev_dropWhile_rev [of isSpace ?t] by simp
    then show ?thesis by (simp add: dropWhile_id_iff)
  next
    case True
    then show ?thesis by (metis dropWhile.simps(1))
  qed
  then show ?thesis by (simp add: TrimSpace_def)
qed

lemma Contains_Nil [simp]: "Contains s []"
  by (cases s) auto

lemma Contains_iff: "Contains s t \<longleftrightarrow> (\<exists>u v. s = u @ t @ v)"
proof (induction s)
  case Nil
  then show ?case by auto
next
  case (Cons c cs)
  show ?case
  proof
    assume "Contains (c # cs) t"
    then consider "prefix t (c # cs)" | u v where "cs = u @ t @ v"
      using Cons by auto
    then show "\<exists>u v. c # cs = u @ t @ v"
      by cases (auto simp: prefix_def intro: exI [of _ "[]"] exI [of _ "c # _"],
          metis append_Cons)
  next
    assume "\<exists>u v. c # cs = u @ t @ v"
    then obtain u v where uv: "c # cs = u @ t @ v" by blast
    show "Contains (c # cs) t"
    proof (cases u)
      case Nil
      with uv show ?thesis by (metis Contains.simps(2) append_Nil prefixI)
    next
      case (Cons d ds)
      with uv \<open>Contains cs t = _\<close> show ?thesis by auto
    qed
  qed
qed

lemma HasPrefix_append [simp]: "HasPrefix (p @ s) p"
  by (simp add: HasPrefix_def)

subsection \<open>Number formatting and quoting\<close>

fun natDigits :: "nat \<Rightarrow> string" where
  "natDigits n =
     (if n < 10 then [char_of (48 + n)]
      else natDigits (n div 10) @ [char_of (48 + n mod 10)])"

declare natDigits.simps [simp del]

text \<open>The verb \<^verbatim>\<open>%d\<close>.\<close>

definition itoa :: "int \<Rightarrow> string" where
  "itoa n = (if n < 0 then CHR ''-'' # natDigits (nat (- n)) else natDigits (nat n))"

text \<open>The verb \<^verbatim>\<open>%03d\<close> on a non-negative number.\<close>

definition itoa3 :: "nat \<Rightarrow> string" where
  "itoa3 n = replicate (3 - length (natDigits n)) (CHR ''0'') @ natDigits n"

definition hexDigit :: "nat \<Rightarrow> char" where
  "hexDigit n = (if n < 10 then char_of (48 + n) else char_of (87 + n))"

definition quoteChar :: "char \<Rightarrow> string" where
  "quoteChar c =
     (if c = CHR 0x22 \<or> c = CHR 0x5C then [CHR 0x5C, c]
      else if c = CHR 0x07 then [CHR 0x5C, CHR ''a'']
      else if c = CHR 0x08 then [CHR 0x5C, CHR ''b'']
      else if c = CHR 0x0C then [CHR 0x5C, CHR ''f'']
      else if c = CHR 0x0A then [CHR 0x5C, CHR ''n'']
      else if c = CHR 0x0D then [CHR 0x5C, CHR ''r'']
      else if c = CHR 0x09 then [CHR 0x5C, CHR ''t'']
      else if c = CHR 0x0B then [CHR 0x5C, CHR ''v'']
      else if byte c < 32 \<or> byte c = 127
        then [CHR 0x5C, CHR ''x'', hexDigit (byte c div 16), hexDigit (byte c mod 16)]
      else [c])"

text \<open>The verb \<^verbatim>\<open>%q\<close>.\<close>

definition quote :: "string \<Rightarrow> string" where
  "quote s = CHR 0x22 # concat (map quoteChar s) @ [CHR 0x22]"

lemma natDigits_nonempty [simp]: "natDigits n \<noteq> []"
  by (subst natDigits.simps) simp

subsection \<open>Errors\<close>

text \<open>
  A Go error is its text and what \<^verbatim>\<open>errors.Is\<close>, \<^verbatim>\<open>apierrors.IsNotFound\<close> and
  \<^verbatim>\<open>apierrors.IsConflict\<close> find in its chain.  Wrapping with \<^verbatim>\<open>%w\<close> keeps the kind.
\<close>

datatype error_kind = Plain | NotFound | Conflict | Canceled | DeadlineExceeded

record go_error =
  errKind :: error_kind
  errText :: string

definition Errorf :: "string \<Rightarrow> go_error" where
  "Errorf msg = \<lparr>errKind = Plain, errText = msg\<rparr>"

definition wrapErr :: "string \<Rightarrow> go_error \<Rightarrow> go_error" where
  "wrapErr msg e = \<lparr>errKind = errKind e, errText = msg @ errText e\<rparr>"

definition IsNotFound :: "go_error \<Rightarrow> bool" where
  "IsNotFound e \<longleftrightarrow> errKind e = NotFound"

text \<open>\<^verbatim>\<open>client.IgnoreNotFound\<close>.\<close>

definition IgnoreNotFound :: "go_error \<Rightarrow> go_error option" where
  "IgnoreNotFound e = (if IsNotFound e then None else Some e)"

lemma errKind_wrapErr [simp]: "errKind (wrapErr msg e) = errKind e"
  by (simp add: wrapErr_def)

subsection \<open>Maps\<close>

text \<open>Reading a missing key of a \<^verbatim>\<open>map[string]string\<close> gives the empty string.\<close>

definition mapGet :: "strmap \<Rightarrow> string \<Rightarrow> string" where
  "mapGet m k = (case m k of None \<Rightarrow> [] | Some v \<Rightarrow> v)"

lemma mapGet_upd [simp]: "mapGet (m(k \<mapsto> v)) k' = (if k' = k then v else mapGet m k')"
  by (simp add: mapGet_def)

lemma mapGet_empty [simp]: "mapGet Map.empty k = []"
  by (simp add: mapGet_def)

subsection \<open>Stable sorting\<close>

text \<open>
  \<^verbatim>\<open>sort.SliceStable\<close>: an insertion sort that puts an element in front of the elements that are
  not smaller, run from the right, so elements that the order does not separate keep their order.
\<close>

fun insertStable :: "('a \<Rightarrow> 'a \<Rightarrow> bool) \<Rightarrow> 'a \<Rightarrow> 'a list \<Rightarrow> 'a list" where
  "insertStable lt x [] = [x]"
| "insertStable lt x (y # ys) =
     (if lt y x then y # insertStable lt x ys else x # y # ys)"

definition SliceStable :: "('a \<Rightarrow> 'a \<Rightarrow> bool) \<Rightarrow> 'a list \<Rightarrow> 'a list" where
  "SliceStable lt xs = foldr (insertStable lt) xs []"

lemma mset_insertStable [simp]: "mset (insertStable lt x ys) = add_mset x (mset ys)"
  by (induction ys) auto

lemma mset_SliceStable [simp]: "mset (SliceStable lt xs) = mset xs"
  by (induction xs) (auto simp: SliceStable_def)

lemma set_SliceStable [simp]: "set (SliceStable lt xs) = set xs"
  by (metis mset_SliceStable set_mset_mset)

lemma length_SliceStable [simp]: "length (SliceStable lt xs) = length xs"
  by (metis mset_SliceStable size_mset)

lemma SliceStable_eq_Nil [simp]: "SliceStable lt xs = [] \<longleftrightarrow> xs = []"
  by (metis length_SliceStable length_0_conv)

lemma map_insertStable:
  "map f (insertStable (\<lambda>a b. lt (f a) (f b)) x ys) = insertStable lt (f x) (map f ys)"
  by (induction ys) auto

lemma map_SliceStable: "map f (SliceStable (\<lambda>a b. lt (f a) (f b)) xs) = SliceStable lt (map f xs)"
  by (induction xs) (auto simp: SliceStable_def map_insertStable)

text \<open>
  The contract of a comparison function given to \<^verbatim>\<open>sort.SliceStable\<close>: a strict weak order.
  The packages guardrails, escalation and thresholds each pass one.
\<close>

locale precedence =
  fixes lt :: "'a \<Rightarrow> 'a \<Rightarrow> bool"
  assumes lt_asym: "lt x y \<Longrightarrow> \<not> lt y x"
    and lt_trans: "lt x y \<Longrightarrow> lt y z \<Longrightarrow> lt x z"
    and incomp_trans:
      "\<not> lt x y \<Longrightarrow> \<not> lt y x \<Longrightarrow> \<not> lt y z \<Longrightarrow> \<not> lt z y \<Longrightarrow> \<not> lt x z"
begin

lemma lt_irrefl: "\<not> lt x x"
  using lt_asym by blast

lemma not_lt_trans: "\<not> lt y x \<Longrightarrow> \<not> lt z y \<Longrightarrow> \<not> lt z x"
proof
  assume yx: "\<not> lt y x" and zy: "\<not> lt z y" and zx: "lt z x"
  have "\<not> lt x y" using zx zy lt_trans by blast
  moreover have "\<not> lt y z" using zx yx lt_trans by blast
  ultimately show False using incomp_trans [of z y x] yx zy zx by blast
qed

lemma sorted_insertStable:
  "sorted_wrt (\<lambda>a b. \<not> lt b a) ys \<Longrightarrow> sorted_wrt (\<lambda>a b. \<not> lt b a) (insertStable lt x ys)"
proof (induction ys)
  case (Cons y ys)
  have mem: "set (insertStable lt x ys) = insert x (set ys)"
    by (metis mset_insertStable set_mset_add_mset_insert set_mset_mset)
  show ?case
  proof (cases "lt y x")
    case True
    with Cons mem show ?thesis by (auto dest: lt_asym)
  next
    case False
    with Cons show ?thesis by (auto dest: not_lt_trans)
  qed
qed simp

lemma sorted_SliceStable: "sorted_wrt (\<lambda>a b. \<not> lt b a) (SliceStable lt xs)"
  by (induction xs) (auto simp: SliceStable_def sorted_insertStable)

lemma hd_SliceStable_least:
  assumes "xs \<noteq> []" and "y \<in> set xs"
  shows "\<not> lt y (hd (SliceStable lt xs))"
proof -
  obtain z zs where z: "SliceStable lt xs = z # zs"
    using assms(1) by (metis SliceStable_eq_Nil list.exhaust)
  have "y \<in> set (z # zs)" using assms(2) set_SliceStable [of lt xs] z by simp
  with sorted_SliceStable [of xs] z show ?thesis by (auto simp: lt_irrefl)
qed

lemma hd_SliceStable_in: "xs \<noteq> [] \<Longrightarrow> hd (SliceStable lt xs) \<in> set xs"
  by (metis SliceStable_eq_Nil hd_in_set set_SliceStable)

text \<open>
  Where the order separates the candidates, the first one depends only on the set of candidates.
\<close>

lemma hd_SliceStable_set_eq:
  assumes "set xs = set ys" and "xs \<noteq> []"
    and "\<And>a b. a \<in> set xs \<Longrightarrow> b \<in> set xs \<Longrightarrow> a \<noteq> b \<Longrightarrow> lt a b \<or> lt b a"
  shows "hd (SliceStable lt xs) = hd (SliceStable lt ys)"
proof -
  let ?a = "hd (SliceStable lt xs)" and ?b = "hd (SliceStable lt ys)"
  have ys: "ys \<noteq> []" using assms(1,2) by auto
  have a: "?a \<in> set xs" by (rule hd_SliceStable_in [OF assms(2)])
  have b: "?b \<in> set xs" using hd_SliceStable_in [OF ys] assms(1) by simp
  have "\<not> lt ?a ?b" using hd_SliceStable_least [OF ys] a assms(1) by blast
  moreover have "\<not> lt ?b ?a" using hd_SliceStable_least [OF assms(2) b] .
  ultimately show ?thesis using assms(3) [OF a b] by blast
qed

text \<open>
  Where elements that the order does not separate are equal, the sorted list depends only on the
  multiset of elements.
\<close>

lemma sorted_mset_unique:
  "\<lbrakk>sorted_wrt (\<lambda>a b. \<not> lt b a) xs; sorted_wrt (\<lambda>a b. \<not> lt b a) ys; mset xs = mset ys;
    \<And>a b. a \<in> set xs \<Longrightarrow> b \<in> set xs \<Longrightarrow> \<not> lt a b \<Longrightarrow> \<not> lt b a \<Longrightarrow> a = b\<rbrakk> \<Longrightarrow> xs = ys"
proof (induction xs arbitrary: ys)
  case (Cons x xs)
  then obtain y ys' where ys: "ys = y # ys'" by (cases ys) auto
  have set: "set (x # xs) = set (y # ys')" using Cons.prems(3) ys by (metis set_mset_mset)
  then have "y \<in> set (x # xs)" "x \<in> set (y # ys')" by (metis list.set_intros(1))+
  then have "\<not> lt y x" "\<not> lt x y"
    using Cons.prems(1,2) lt_irrefl unfolding ys by auto
  then have "x = y" using Cons.prems(4) [of x y] \<open>y \<in> set (x # xs)\<close> by simp
  moreover have "xs = ys'"
  proof (rule Cons.IH)
    show "sorted_wrt (\<lambda>a b. \<not> lt b a) xs" "sorted_wrt (\<lambda>a b. \<not> lt b a) ys'"
      using Cons.prems(1,2) ys by simp_all
    show "mset xs = mset ys'" using Cons.prems(3) \<open>x = y\<close> ys by simp
    show "\<And>a b. a \<in> set xs \<Longrightarrow> b \<in> set xs \<Longrightarrow> \<not> lt a b \<Longrightarrow> \<not> lt b a \<Longrightarrow> a = b"
      using Cons.prems(4) by simp
  qed
  ultimately show ?case by (simp add: ys)
qed simp

lemma SliceStable_mset_eq:
  assumes "mset xs = mset ys"
    and "\<And>a b. a \<in> set xs \<Longrightarrow> b \<in> set xs \<Longrightarrow> \<not> lt a b \<Longrightarrow> \<not> lt b a \<Longrightarrow> a = b"
  shows "SliceStable lt xs = SliceStable lt ys"
  by (rule sorted_mset_unique) (use assms in \<open>simp_all add: sorted_SliceStable\<close>)

text \<open>The sort is stable: each class of elements equivalent to \<open>z\<close> keeps its order.\<close>

lemma filter_insertStable:
  "\<lbrakk>sorted_wrt (\<lambda>a b. \<not> lt b a) ys\<rbrakk> \<Longrightarrow>
   filter (\<lambda>a. \<not> lt a z \<and> \<not> lt z a) (insertStable lt x ys) =
   filter (\<lambda>a. \<not> lt a z \<and> \<not> lt z a) (x # ys)"
proof (induction ys)
  case (Cons y ys)
  show ?case
  proof (cases "lt y x")
    case True
    then have "\<not> ((\<not> lt y z \<and> \<not> lt z y) \<and> (\<not> lt x z \<and> \<not> lt z x))"
      using incomp_trans by blast
    with Cons True show ?thesis by auto
  qed simp
qed simp

lemma SliceStable_stable:
  "filter (\<lambda>a. \<not> lt a z \<and> \<not> lt z a) (SliceStable lt xs) =
   filter (\<lambda>a. \<not> lt a z \<and> \<not> lt z a) xs"
proof (induction xs)
  case (Cons x xs)
  have "filter (\<lambda>a. \<not> lt a z \<and> \<not> lt z a) (insertStable lt x (SliceStable lt xs)) =
    filter (\<lambda>a. \<not> lt a z \<and> \<not> lt z a) (x # SliceStable lt xs)"
    by (rule filter_insertStable [OF sorted_SliceStable])
  with Cons show ?case by (simp add: SliceStable_def)
qed (simp add: SliceStable_def)

end

subsection \<open>Collecting matches\<close>

text \<open>
  The loop that the three resolvers share: items that are not eligible are skipped, the first
  match error ends the loop, and a match is appended.
\<close>

fun collectMatches ::
  "('a \<Rightarrow> bool) \<Rightarrow> ('a \<Rightarrow> go_error + 'b option) \<Rightarrow> 'a list \<Rightarrow> go_error + 'b list" where
  "collectMatches eligible match [] = Inr []"
| "collectMatches eligible match (x # xs) =
     (if \<not> eligible x then collectMatches eligible match xs
      else case match x of
        Inl e \<Rightarrow> Inl e
      | Inr None \<Rightarrow> collectMatches eligible match xs
      | Inr (Some b) \<Rightarrow>
          (case collectMatches eligible match xs of
             Inl e \<Rightarrow> Inl e
           | Inr bs \<Rightarrow> Inr (b # bs)))"

lemma collectMatches_set:
  "collectMatches eligible match xs = Inr bs \<Longrightarrow>
   set bs = {b. \<exists>x\<in>set xs. eligible x \<and> match x = Inr (Some b)}"
  by (induction xs arbitrary: bs) (auto split: if_splits sum.splits option.splits)

lemma collectMatches_error:
  "collectMatches eligible match xs = Inl e \<longleftrightarrow>
   (\<exists>ys x zs. xs = ys @ x # zs \<and> eligible x \<and> match x = Inl e \<and>
      (\<forall>y\<in>set ys. eligible y \<longrightarrow> \<not> isl (match y)))"
  (is "_ \<longleftrightarrow> ?R xs")
proof (induction xs)
  case (Cons a xs)
  have step: "?R (a # xs) \<longleftrightarrow>
      (eligible a \<and> match a = Inl e) \<or> (\<not> (eligible a \<and> isl (match a)) \<and> ?R xs)"
  proof
    assume "?R (a # xs)"
    then obtain ys x zs where *: "a # xs = ys @ x # zs" "eligible x" "match x = Inl e"
      "\<forall>y\<in>set ys. eligible y \<longrightarrow> \<not> isl (match y)" by blast
    then show "(eligible a \<and> match a = Inl e) \<or> (\<not> (eligible a \<and> isl (match a)) \<and> ?R xs)"
      by (cases ys) auto
  next
    assume "(eligible a \<and> match a = Inl e) \<or> (\<not> (eligible a \<and> isl (match a)) \<and> ?R xs)"
    then show "?R (a # xs)"
    proof (elim disjE conjE exE)
      assume "eligible a" "match a = Inl e"
      then show ?thesis by (intro exI [of _ "[]"]) auto
    next
      fix ys x zs
      assume "\<not> (eligible a \<and> isl (match a))" "xs = ys @ x # zs" "eligible x" "match x = Inl e"
        "\<forall>y\<in>set ys. eligible y \<longrightarrow> \<not> isl (match y)"
      then show ?thesis by (intro exI [of _ "a # ys"]) auto
    qed
  qed
  show ?case unfolding step using Cons
    by (auto split: sum.splits option.splits)
qed simp

lemma collectMatches_total:
  "(\<And>x. x \<in> set xs \<Longrightarrow> eligible x \<Longrightarrow> \<not> isl (match x)) \<Longrightarrow>
   \<exists>bs. collectMatches eligible match xs = Inr bs"
proof (induction xs)
  case (Cons a xs)
  then obtain bs where bs: "collectMatches eligible match xs = Inr bs" by auto
  have "eligible a \<Longrightarrow> \<exists>m. match a = Inr m"
    using Cons.prems [of a] by (cases "match a") auto
  with bs show ?case by (auto split: option.split)
qed simp

lemmas go_eval_strings [go_eval] =
  ToLower_def toLowerChar_def TrimSpace_def isSpace_def byte_def EqualFold_def HasPrefix_def
  TrimPrefix_def TrimSuffix_def char_of_def bit_0

end
