(* ===== verification/ApiTypes.thy ===== *)
theory ApiTypes
  imports Prelude
begin

text \<open>
  The data model: the custom resources of \<^verbatim>\<open>api/v1alpha1\<close> and the value types of
  \<^verbatim>\<open>internal/domain\<close> that the modelled operations read or write.  Go structs are records with
  a prefix per struct, pointers are options, \<^verbatim>\<open>*metav1.Time\<close> is \<open>gotime option\<close> (nanoseconds),
  \<^verbatim>\<open>map[string]string\<close> is a partial map.  \<open>ObjectMeta\<close>, \<open>OwnerReference\<close> and \<open>LabelSelector\<close>
  are the published data types of the Kubernetes API machinery; how a selector selects is a
  parameter of the operations that use it.
\<close>

subsection \<open>Kubernetes metadata\<close>

record OwnerReference =
  or_Kind :: string
  or_Name :: string
  or_UID :: string
  or_Controller :: "bool option"

record ObjectMeta =
  om_Name :: string
  om_Namespace :: string
  om_UID :: string
  om_ResourceVersion :: string
  om_Generation :: int
  om_Labels :: strmap
  om_Annotations :: strmap
  om_OwnerReferences :: "OwnerReference list"

record LabelSelectorRequirement =
  lsr_Key :: string
  lsr_Operator :: string
  lsr_Values :: "string list"

record LabelSelector =
  ls_MatchLabels :: "(string \<times> string) list"
  ls_MatchExpressions :: "LabelSelectorRequirement list"

text \<open>\<^verbatim>\<open>metav1.LabelSelectorAsSelector\<close> followed by \<^verbatim>\<open>Matches\<close>, a parameter of the model.\<close>

type_synonym selector_fn = "LabelSelector \<Rightarrow> go_error + (strmap \<Rightarrow> bool)"

type_synonym NamespacedName = "string \<times> string"

definition emptyMeta :: ObjectMeta where
  "emptyMeta = \<lparr>om_Name = [], om_Namespace = [], om_UID = [], om_ResourceVersion = [],
     om_Generation = 0, om_Labels = Map.empty, om_Annotations = Map.empty,
     om_OwnerReferences = []\<rparr>"

abbreviation GroupVersionString :: string where
  "GroupVersionString \<equiv> ''aiops.platform/v1alpha1''"

subsection \<open>Phases and outcomes\<close>

abbreviation PhaseWaitingApproval :: string where "PhaseWaitingApproval \<equiv> ''WaitingApproval''"
abbreviation PhaseApproved :: string where "PhaseApproved \<equiv> ''Approved''"
abbreviation PhaseExecuting :: string where "PhaseExecuting \<equiv> ''Executing''"
abbreviation PhaseSucceeded :: string where "PhaseSucceeded \<equiv> ''Succeeded''"
abbreviation PhaseFailed :: string where "PhaseFailed \<equiv> ''Failed''"
abbreviation PhaseRejected :: string where "PhaseRejected \<equiv> ''Rejected''"
abbreviation PhaseCompleted :: string where "PhaseCompleted \<equiv> ''Completed''"
abbreviation PhaseEscalated :: string where "PhaseEscalated \<equiv> ''Escalated''"

abbreviation EffectivenessPhaseNotVerified :: string where
  "EffectivenessPhaseNotVerified \<equiv> ''NotVerified''"
abbreviation EffectivenessPhaseVerifying :: string where
  "EffectivenessPhaseVerifying \<equiv> ''Verifying''"
abbreviation EffectivenessPhaseCompleted :: string where
  "EffectivenessPhaseCompleted \<equiv> ''Completed''"

abbreviation EffectivenessOutcomeEffective :: string where
  "EffectivenessOutcomeEffective \<equiv> ''Effective''"
abbreviation EffectivenessOutcomeIneffective :: string where
  "EffectivenessOutcomeIneffective \<equiv> ''Ineffective''"
abbreviation EffectivenessOutcomeRegressed :: string where
  "EffectivenessOutcomeRegressed \<equiv> ''Regressed''"
abbreviation EffectivenessOutcomeInconclusive :: string where
  "EffectivenessOutcomeInconclusive \<equiv> ''Inconclusive''"

abbreviation InvestigationOutcomeConfirmed :: string where
  "InvestigationOutcomeConfirmed \<equiv> ''Confirmed''"
abbreviation InvestigationOutcomeInconclusive :: string where
  "InvestigationOutcomeInconclusive \<equiv> ''Inconclusive''"
abbreviation InvestigationOutcomeNoIssueFound :: string where
  "InvestigationOutcomeNoIssueFound \<equiv> ''NoIssueFound''"
abbreviation InvestigationOutcomeUnknown :: string where
  "InvestigationOutcomeUnknown \<equiv> ''Unknown''"

subsection \<open>Targets and evidence references\<close>

record TargetRef =
  t_Cluster :: string
  t_Namespace :: string
  t_Kind :: string
  t_Name :: string
  t_APIVersion :: string
  t_Service :: string

record DataClassification =
  dc_Level :: string
  dc_SensitivityTags :: "string list"
  dc_Source :: string
  dc_PolicyVersion :: string

record PayloadRef =
  pr_Scheme :: string
  pr_Digest :: string
  pr_Encrypted :: bool
  pr_ExpiresAt :: "gotime option"
  pr_RetentionClass :: string

record EvidenceRef =
  ev_ID :: string
  ev_Kind :: string
  ev_Source :: string
  ev_Summary :: string
  ev_Query :: string
  ev_QueryDigest :: string
  ev_ContentDigest :: string
  ev_DigestAlgorithm :: string
  ev_DigestCanonicalization :: string
  ev_RedactionProfile :: string
  ev_Classification :: "DataClassification option"
  ev_Truncated :: bool
  ev_TruncationReason :: string
  ev_LimitDimension :: string
  ev_Limit :: int
  ev_OriginalCount :: int
  ev_RetainedCount :: int
  ev_OriginalBytes :: int
  ev_RetainedBytes :: int
  ev_CollectedAt :: "gotime option"
  ev_PayloadRef :: "PayloadRef option"
  ev_Reason :: string
  ev_Link :: string
  ev_RelatedTargets :: "TargetRef list"

definition emptyEvidenceRef :: EvidenceRef where
  "emptyEvidenceRef = \<lparr>ev_ID = [], ev_Kind = [], ev_Source = [], ev_Summary = [], ev_Query = [],
     ev_QueryDigest = [], ev_ContentDigest = [], ev_DigestAlgorithm = [],
     ev_DigestCanonicalization = [], ev_RedactionProfile = [], ev_Classification = None,
     ev_Truncated = False, ev_TruncationReason = [], ev_LimitDimension = [], ev_Limit = 0,
     ev_OriginalCount = 0, ev_RetainedCount = 0, ev_OriginalBytes = 0, ev_RetainedBytes = 0,
     ev_CollectedAt = None, ev_PayloadRef = None, ev_Reason = [], ev_Link = [],
     ev_RelatedTargets = []\<rparr>"

record ResourceStatus =
  rs_Phase :: string
  rs_Message :: string
  rs_ObservedGeneration :: int
  rs_UpdatedAt :: gotime

definition emptyResourceStatus :: ResourceStatus where
  "emptyResourceStatus =
     \<lparr>rs_Phase = [], rs_Message = [], rs_ObservedGeneration = 0, rs_UpdatedAt = 0\<rparr>"

record NamespacedObjectReference =
  nor_Name :: string
  nor_Namespace :: string

subsection \<open>RemediationPlan\<close>

record RemediationStep =
  step_Name :: string
  step_ActionType :: string
  step_Description :: string
  step_Parameters :: strmap

record RemediationPlanSpec =
  ps_Target :: TargetRef
  ps_RecommendedBy :: string
  ps_Severity :: string
  ps_Confidence :: int
  ps_DryRun :: bool
  ps_TTLSeconds :: int
  ps_ApprovalTimeoutSeconds :: int
  ps_Summary :: string
  ps_RollbackPlan :: "string list"
  ps_References :: "string list"
  ps_Steps :: "RemediationStep list"

record RemediationPlanStatus =
  pst_Resource :: ResourceStatus
  pst_FinishedAt :: "gotime option"

record RemediationPlan =
  plan_Meta :: ObjectMeta
  plan_Spec :: RemediationPlanSpec
  plan_Status :: RemediationPlanStatus

subsection \<open>AgentAction\<close>

record AgentActionSpec =
  as_Target :: TargetRef
  as_ActionType :: string
  as_Parameters :: strmap
  as_ApprovedBy :: string
  as_DryRunResult :: string
  as_TTLSeconds :: int
  as_ApprovalTimeoutSeconds :: int
  as_RollbackPlan :: "string list"

record AgentActionApprovalStatus =
  apv_Approved :: bool
  apv_ApprovedBy :: string
  apv_Source :: string
  apv_ActionDigest :: string
  apv_ApprovedGeneration :: int
  apv_ApprovedAt :: "gotime option"
  apv_EscalatedAt :: "gotime option"
  apv_DecidedAt :: "gotime option"
  apv_DecidedBy :: string

record AgentActionNotificationStatus =
  ns_LastAttemptAt :: "gotime option"
  ns_RetryCount :: int
  ns_LastError :: string

record AgentActionDryRunStatus =
  dr_Result :: string
  dr_RecordedAt :: "gotime option"

record AgentActionExecutionStatus =
  ex_Phase :: string
  ex_Outcome :: string
  ex_ExecutionID :: string
  ex_IdempotencyKey :: string
  ex_Attempt :: int
  ex_FailureReason :: string
  ex_Executor :: string
  ex_Summary :: string
  ex_StartedAt :: "gotime option"
  ex_FinishedAt :: "gotime option"
  ex_ExternalRef :: string
  ex_Retryable :: bool

definition emptyExecutionStatus :: AgentActionExecutionStatus where
  "emptyExecutionStatus = \<lparr>ex_Phase = [], ex_Outcome = [], ex_ExecutionID = [],
     ex_IdempotencyKey = [], ex_Attempt = 0, ex_FailureReason = [], ex_Executor = [],
     ex_Summary = [], ex_StartedAt = None, ex_FinishedAt = None, ex_ExternalRef = [],
     ex_Retryable = False\<rparr>"

record EffectivenessHealthCondition =
  ehc_Type :: string
  ehc_Status :: string
  ehc_Reason :: string
  ehc_Message :: string

record EffectivenessHealthSnapshot =
  ehs_Generation :: int
  ehs_ObservedGeneration :: int
  ehs_DesiredReplicas :: int
  ehs_UpdatedReplicas :: int
  ehs_AvailableReplicas :: int
  ehs_ReadyReplicas :: int
  ehs_Conditions :: "EffectivenessHealthCondition list"

record EffectivenessBaseline =
  eb_CapturedAt :: "gotime option"
  eb_Target :: TargetRef
  eb_TargetUID :: string
  eb_RiskSignalRef :: "NamespacedObjectReference option"
  eb_EvidenceRefs :: "EvidenceRef list"
  eb_Health :: "EffectivenessHealthSnapshot option"
  eb_Digest :: string
  eb_UnavailableReason :: string

record AgentActionEffectivenessStatus =
  ef_Phase :: string
  ef_Outcome :: string
  ef_Message :: string
  ef_VerificationRef :: "NamespacedObjectReference option"
  ef_Baseline :: "EffectivenessBaseline option"
  ef_PostActionHealth :: "EffectivenessHealthSnapshot option"
  ef_StartedAt :: "gotime option"
  ef_FinishedAt :: "gotime option"
  ef_SettlingUntil :: "gotime option"
  ef_ObservationUntil :: "gotime option"

definition emptyEffectiveness :: AgentActionEffectivenessStatus where
  "emptyEffectiveness = \<lparr>ef_Phase = [], ef_Outcome = [], ef_Message = [],
     ef_VerificationRef = None, ef_Baseline = None, ef_PostActionHealth = None,
     ef_StartedAt = None, ef_FinishedAt = None, ef_SettlingUntil = None,
     ef_ObservationUntil = None\<rparr>"

record AgentActionStatus =
  ast_Resource :: ResourceStatus
  ast_FinishedAt :: "gotime option"
  ast_Approval :: "AgentActionApprovalStatus option"
  ast_Notification :: "AgentActionNotificationStatus option"
  ast_DryRunResult :: "AgentActionDryRunStatus option"
  ast_Execution :: "AgentActionExecutionStatus option"
  ast_Effectiveness :: "AgentActionEffectivenessStatus option"

definition emptyActionStatus :: AgentActionStatus where
  "emptyActionStatus = \<lparr>ast_Resource = emptyResourceStatus, ast_FinishedAt = None,
     ast_Approval = None, ast_Notification = None, ast_DryRunResult = None,
     ast_Execution = None, ast_Effectiveness = None\<rparr>"

record AgentAction =
  act_Meta :: ObjectMeta
  act_Spec :: AgentActionSpec
  act_Status :: AgentActionStatus

abbreviation actPhase :: "AgentAction \<Rightarrow> string" where
  "actPhase a \<equiv> rs_Phase (ast_Resource (act_Status a))"

abbreviation planPhase :: "RemediationPlan \<Rightarrow> string" where
  "planPhase p \<equiv> rs_Phase (pst_Resource (plan_Status p))"

definition actionKey :: "AgentAction \<Rightarrow> NamespacedName" where
  "actionKey a = (om_Namespace (act_Meta a), om_Name (act_Meta a))"

definition planKey :: "RemediationPlan \<Rightarrow> NamespacedName" where
  "planKey p = (om_Namespace (plan_Meta p), om_Name (plan_Meta p))"

subsection \<open>ApprovalPolicy\<close>

abbreviation ApprovalActionAuto :: string where "ApprovalActionAuto \<equiv> ''auto''"
abbreviation ApprovalActionManual :: string where "ApprovalActionManual \<equiv> ''manual''"
abbreviation ApprovalActionReject :: string where "ApprovalActionReject \<equiv> ''reject''"

record ActionTypeRule =
  atr_ActionType :: string
  atr_Action :: string
  atr_Reason :: string

record SeverityRule =
  sr_MinSeverity :: string
  sr_MaxSeverity :: string
  sr_Action :: string
  sr_Reason :: string
  sr_TimeoutSec :: int

record EscalationRule =
  er_Trigger :: string
  er_Condition :: int
  er_Action :: string
  er_Targets :: "string list"
  er_NotificationTemplate :: string

record NotificationChannel =
  nc_Type :: string
  nc_URL :: string
  nc_Headers :: strmap
  nc_SlackTeams :: "string list"
  nc_EmailAddresses :: "string list"
  nc_PagerDutyKey :: string
  nc_Enabled :: bool

record EscalationConfig =
  ec_EscalationChainRef :: string
  ec_Rules :: "EscalationRule list"
  ec_NotificationChannels :: "NotificationChannel list"

record ApprovalPolicySpec =
  ap_Scope :: string
  ap_ResourceSelector :: "LabelSelector option"
  ap_NamespaceSelector :: "LabelSelector option"
  ap_ActionTypeRules :: "ActionTypeRule list"
  ap_SeverityRules :: "SeverityRule list"
  ap_DefaultApprovalTimeout :: int
  ap_Escalation :: "EscalationConfig option"
  ap_Priority :: int
  ap_Enabled :: bool

record ApprovalPolicy =
  pol_Meta :: ObjectMeta
  pol_Spec :: ApprovalPolicySpec
  pol_Phase :: string

subsection \<open>EscalationChain and NamespaceThreshold\<close>

record EscalationCondition =
  econ_Type :: string
  econ_Threshold :: int
  econ_SeverityMin :: string
  econ_SeverityMax :: string

record EscalationAction =
  eact_Type :: string
  eact_Details :: strmap
  eact_Enabled :: bool

record Assignee =
  asg_Type :: string
  asg_Name :: string
  asg_Channels :: "string list"
  asg_Enabled :: bool

record EscalationStage =
  stg_Name :: string
  stg_Delay :: int
  stg_Condition :: "EscalationCondition option"
  stg_Actions :: "EscalationAction list"
  stg_Assignees :: "Assignee list"
  stg_NotificationTemplate :: string
  stg_Timeout :: int

record EscalationChainSpec =
  chs_ResourceSelector :: "LabelSelector option"
  chs_Priority :: int
  chs_Stages :: "EscalationStage list"
  chs_Enabled :: bool

record EscalationChain =
  ch_Meta :: ObjectMeta
  ch_Spec :: EscalationChainSpec
  ch_Phase :: string

record NamespaceThresholdSpec =
  nts_NamespaceSelector :: "LabelSelector option"
  nts_ActivePlansLimit :: int
  nts_PendingApprovalsLimit :: int
  nts_DefaultTTLSeconds :: int
  nts_DefaultApprovalTimeoutSeconds :: int
  nts_ProtectionLevel :: string
  nts_Priority :: int
  nts_Enabled :: bool

record NamespaceThreshold =
  nt_Meta :: ObjectMeta
  nt_Spec :: NamespaceThresholdSpec
  nt_Phase :: string

subsection \<open>The domain package\<close>

abbreviation SeverityLow :: string where "SeverityLow \<equiv> ''low''"
abbreviation SeverityMedium :: string where "SeverityMedium \<equiv> ''medium''"
abbreviation SeverityHigh :: string where "SeverityHigh \<equiv> ''high''"
abbreviation SeverityUnsafe :: string where "SeverityUnsafe \<equiv> ''unsafe''"

record ResourceRef =
  r_Cluster :: string
  r_Namespace :: string
  r_Kind :: string
  r_Name :: string
  r_APIVersion :: string
  r_Service :: string

record Remediation =
  rem_ActionType :: string
  rem_Description :: string
  rem_Parameters :: strmap
  rem_RollbackPlan :: "string list"

text \<open>
  \<^verbatim>\<open>domain.ApprovalAction\<close> is a string type with three constants; the decision functions produce
  no other value.
\<close>

datatype ApprovalAction = ApprovalAuto | ApprovalManual | ApprovalReject

record ApprovalDecision =
  ad_Action :: ApprovalAction
  ad_ApprovedBy :: string
  ad_Reason :: string
  ad_DryRunResult :: string

abbreviation ExecutionOutcomeSucceeded :: string where "ExecutionOutcomeSucceeded \<equiv> ''Succeeded''"
abbreviation ExecutionOutcomeFailed :: string where "ExecutionOutcomeFailed \<equiv> ''Failed''"
abbreviation ExecutionOutcomeUnknown :: string where "ExecutionOutcomeUnknown \<equiv> ''Unknown''"

record ExecutionResult =
  res_ExecutionID :: string
  res_Outcome :: string
  res_FailureReason :: string
  res_StartedAt :: gotime
  res_FinishedAt :: gotime
  res_ExternalRef :: string
  res_Retryable :: bool
  res_Executor :: string
  res_Status :: string
  res_Summary :: string
  res_Outputs :: strmap

definition emptyExecutionResult :: ExecutionResult where
  "emptyExecutionResult = \<lparr>res_ExecutionID = [], res_Outcome = [], res_FailureReason = [],
     res_StartedAt = 0, res_FinishedAt = 0, res_ExternalRef = [], res_Retryable = False,
     res_Executor = [], res_Status = [], res_Summary = [], res_Outputs = Map.empty\<rparr>"

subsection \<open>Conversions of the package controllers\<close>

definition targetToResource :: "TargetRef \<Rightarrow> ResourceRef" where
  "targetToResource t = \<lparr>r_Cluster = t_Cluster t, r_Namespace = t_Namespace t,
     r_Kind = t_Kind t, r_Name = t_Name t, r_APIVersion = t_APIVersion t,
     r_Service = t_Service t\<rparr>"

definition setResourceStatus ::
  "string \<Rightarrow> string \<Rightarrow> int \<Rightarrow> gotime \<Rightarrow> ResourceStatus \<Rightarrow> ResourceStatus" where
  "setResourceStatus phase message generation now st =
     st\<lparr>rs_Phase := phase, rs_Message := message, rs_ObservedGeneration := generation,
        rs_UpdatedAt := now\<rparr>"

definition remediationFromPlan :: "RemediationPlan \<Rightarrow> Remediation" where
  "remediationFromPlan plan =
     (case ps_Steps (plan_Spec plan) of
        [] \<Rightarrow> \<lparr>rem_ActionType = [], rem_Description = [], rem_Parameters = Map.empty,
               rem_RollbackPlan = ps_RollbackPlan (plan_Spec plan)\<rparr>
      | step # _ \<Rightarrow> \<lparr>rem_ActionType = step_ActionType step,
               rem_Description = step_Description step,
               rem_Parameters = step_Parameters step,
               rem_RollbackPlan = ps_RollbackPlan (plan_Spec plan)\<rparr>)"

definition targetRefString :: "TargetRef \<Rightarrow> string" where
  "targetRefString t = t_Namespace t @ ''/'' @ t_Name t @ '' '' @ t_Kind t"

definition defaultRollbackPlan :: "string \<Rightarrow> string list" where
  "defaultRollbackPlan actionType =
     (if actionType = ''kubernetes.rolloutRestart'' then
        [''verify the restarted Deployment rollout and revert the triggering workload change if health does not recover'']
      else if actionType = ''kubernetes.rolloutPause'' then
        [''resume rollout after validation'', ''revert deployment image if crash loop persists'']
      else if actionType = ''kubernetes.scaleDeployment'' then [''restore previous replica count'']
      else if actionType = ''gitops.createPullRequest'' then [''close PR if mitigation is not needed'']
      else if actionType = ''runbook.triggerWorkflow'' then
        [''cancel workflow run if approval is revoked'']
      else if actionType = ''notification.sendSlack'' then
        [''notify responders that the alert was informational only'']
      else [''manual rollback required''])"

lemma rs_simps [simp]:
  "rs_Phase (setResourceStatus p m g n st) = p"
  "rs_Message (setResourceStatus p m g n st) = m"
  "rs_ObservedGeneration (setResourceStatus p m g n st) = g"
  "rs_UpdatedAt (setResourceStatus p m g n st) = n"
  by (simp_all add: setResourceStatus_def)

end
