(* ===== verification/Kube.thy ===== *)
theory Kube
  imports ApiTypes
begin

text \<open>
  The boundary of the program: the Kubernetes API client, the clock, the event recorder and the
  notifier.  None of them is code of the repository, so they are a parameter: the record \<open>kube\<close>
  gives the answer to each call as an arbitrary function of the \<^emph>\<open>history\<close>, the list of everything
  that happened before (newest first).  An environment that fails at any call, that lets other
  writers change an object between two calls, or that truncates times when it stores an object is
  one choice of these functions, so a property that holds for every \<open>kube\<close> holds for all of them.
  Every call that can be observed from outside appends an \<open>event\<close> with its arguments and outcome.

  The theory also holds the request type of \<^verbatim>\<open>internal/executor/contract.go\<close>, the projection of
  \<^verbatim>\<open>appsv1.Deployment\<close> that the executor uses, and the part of \<open>InvestigationRequest\<close> that the
  verification step of an action writes.
\<close>

subsection \<open>Deployments\<close>

record HealthCondition =
  hc_Type :: string
  hc_Status :: string
  hc_Reason :: string
  hc_Message :: string

record HealthSnapshot =
  hs_Generation :: int
  hs_ObservedGeneration :: int
  hs_DesiredReplicas :: int
  hs_UpdatedReplicas :: int
  hs_AvailableReplicas :: int
  hs_ReadyReplicas :: int
  hs_Conditions :: "HealthCondition list"

definition emptyHealthSnapshot :: HealthSnapshot where
  "emptyHealthSnapshot = \<lparr>hs_Generation = 0, hs_ObservedGeneration = 0, hs_DesiredReplicas = 0,
     hs_UpdatedReplicas = 0, hs_AvailableReplicas = 0, hs_ReadyReplicas = 0, hs_Conditions = []\<rparr>"

record Deployment =
  dep_Namespace :: string
  dep_Name :: string
  dep_UID :: string
  dep_Generation :: int
  dep_Replicas :: "int option"
  dep_TemplateAnnotations :: "strmap option"
  dep_ObservedGeneration :: int
  dep_UpdatedReplicas :: int
  dep_AvailableReplicas :: int
  dep_ReadyReplicas :: int
  dep_Conditions :: "HealthCondition list"

subsection \<open>Executor requests\<close>

text \<open>A value of type \<^verbatim>\<open>any\<close>: a string, an integer, or something else.\<close>

datatype goAny = GoString string | GoInt int | GoOther string

record PolicySnapshot =
  psn_Reference :: string
  psn_Version :: string
  psn_Digest :: string
  psn_ObservedGeneration :: int

definition emptyPolicySnapshot :: PolicySnapshot where
  "emptyPolicySnapshot = \<lparr>psn_Reference = [], psn_Version = [], psn_Digest = [],
     psn_ObservedGeneration = 0\<rparr>"

record ExecutorRequest =
  rq_ExecutionID :: string
  rq_IdempotencyKey :: string
  rq_ActionDigest :: string
  rq_ActionType :: string
  rq_ActionIndex :: int
  rq_Target :: ResourceRef
  rq_TargetUID :: string
  rq_Parameters :: "string \<rightharpoonup> goAny"
  rq_ApprovedPolicySnapshot :: PolicySnapshot
  rq_ApprovedBy :: string
  rq_DryRunResult :: string
  rq_RollbackPlan :: "string list"
  rq_Timeout :: duration
  rq_Attempt :: int

record ExecutorBaseline =
  xb_CapturedAt :: gotime
  xb_Target :: ResourceRef
  xb_TargetUID :: string
  xb_Health :: HealthSnapshot
  xb_Digest :: string

definition emptyResourceRef :: ResourceRef where
  "emptyResourceRef = \<lparr>r_Cluster = [], r_Namespace = [], r_Kind = [], r_Name = [],
     r_APIVersion = [], r_Service = []\<rparr>"

definition emptyExecutorBaseline :: ExecutorBaseline where
  "emptyExecutorBaseline = \<lparr>xb_CapturedAt = 0, xb_Target = emptyResourceRef, xb_TargetUID = [],
     xb_Health = emptyHealthSnapshot, xb_Digest = []\<rparr>"

subsection \<open>Messages and investigations\<close>

record Message =
  msg_Title :: string
  msg_Summary :: string
  msg_Body :: string
  msg_Fields :: "string \<rightharpoonup> goAny"

record InvestigationCorrelation =
  cor_AgentActionRef :: NamespacedObjectReference
  cor_ExecutionID :: string
  cor_BaselineDigest :: string

record InvestigationQuery =
  iq_Name :: string
  iq_DatasourceRef :: string
  iq_QueryType :: string
  iq_Query :: string
  iq_QueryTemplate :: string
  iq_Reasons :: "string list"

text \<open>The fields of \<open>InvestigationRequest\<close> that the action controller writes or reads.\<close>

record InvestigationRequest =
  iv_Meta :: ObjectMeta
  iv_Target :: TargetRef
  iv_Purpose :: string
  iv_Correlation :: "InvestigationCorrelation option"
  iv_Lookback :: duration
  iv_Profile :: string
  iv_Question :: string
  iv_Queries :: "InvestigationQuery list"
  iv_Mode :: string
  iv_CreateRiskSignal :: bool
  iv_Phase :: string
  iv_Outcome :: string

subsection \<open>Events and environments\<close>

datatype event =
    ETick gotime
  | EGetAction NamespacedName
  | EUpdateActionStatus AgentAction "go_error option"
  | EDeleteAction NamespacedName "go_error option"
  | ECreateOrUpdateAction NamespacedName "go_error + AgentAction"
  | EGetPlan NamespacedName
  | EUpdatePlan RemediationPlan "go_error option"
  | EUpdatePlanStatus RemediationPlan "go_error option"
  | EDeletePlan NamespacedName "go_error option"
  | EGetDeployment NamespacedName
  | EPatchDeployment Deployment "go_error option"
  | EDispatch ExecutorRequest
  | EResolve ExecutorRequest
  | EWebhook string Message "go_error option"
  | ENotify Message "go_error option"
  | ERecord string string string
  | ECreateOrUpdateInvestigation NamespacedName "go_error + InvestigationRequest"
  | ERead string

type_synonym history = "event list"

record kube =
  k_now :: "history \<Rightarrow> gotime"
  k_getAction :: "history \<Rightarrow> NamespacedName \<Rightarrow> go_error + AgentAction"
  k_updateActionStatus :: "history \<Rightarrow> AgentAction \<Rightarrow> go_error + AgentAction"
  k_deleteAction :: "history \<Rightarrow> NamespacedName \<Rightarrow> go_error option"
  k_createOrUpdateAction :: "history \<Rightarrow> NamespacedName \<Rightarrow>
     (AgentAction \<Rightarrow> go_error + AgentAction) \<Rightarrow> go_error + AgentAction"
  k_controllerRefAction :: "RemediationPlan \<Rightarrow> AgentAction \<Rightarrow> go_error + AgentAction"
  k_listActions :: "history \<Rightarrow> string \<Rightarrow> go_error + AgentAction list"
  k_getPlan :: "history \<Rightarrow> NamespacedName \<Rightarrow> go_error + RemediationPlan"
  k_listPlans :: "history \<Rightarrow> string \<Rightarrow> go_error + RemediationPlan list"
  k_updatePlan :: "history \<Rightarrow> RemediationPlan \<Rightarrow> go_error + RemediationPlan"
  k_updatePlanStatus :: "history \<Rightarrow> RemediationPlan \<Rightarrow> go_error + RemediationPlan"
  k_deletePlan :: "history \<Rightarrow> NamespacedName \<Rightarrow> go_error option"
  k_getNamespaceLabels :: "history \<Rightarrow> string \<Rightarrow> go_error + strmap"
  k_listPolicies :: "history \<Rightarrow> go_error + ApprovalPolicy list"
  k_listThresholds :: "history \<Rightarrow> go_error + NamespaceThreshold list"
  k_listChains :: "history \<Rightarrow> string \<Rightarrow> go_error + EscalationChain list"
  k_getChain :: "history \<Rightarrow> string \<Rightarrow> string \<Rightarrow> go_error + EscalationChain"
  k_getRiskSignalEvidence :: "history \<Rightarrow> NamespacedName \<Rightarrow> go_error + EvidenceRef list"
  k_getInvestigation :: "history \<Rightarrow> NamespacedName \<Rightarrow> go_error + InvestigationRequest"
  k_createOrUpdateInvestigation :: "history \<Rightarrow> NamespacedName \<Rightarrow>
     (InvestigationRequest \<Rightarrow> go_error + InvestigationRequest) \<Rightarrow> go_error + InvestigationRequest"
  k_controllerRefInvestigation ::
     "AgentAction \<Rightarrow> InvestigationRequest \<Rightarrow> go_error + InvestigationRequest"
  k_getDeployment :: "history \<Rightarrow> NamespacedName \<Rightarrow> go_error + Deployment"
  k_patchDeployment :: "history \<Rightarrow> Deployment \<Rightarrow> go_error + Deployment"
  k_webhook :: "history \<Rightarrow> string \<Rightarrow> Message \<Rightarrow> go_error option"
  k_notify :: "history \<Rightarrow> Message \<Rightarrow> go_error option"

definition errorOf :: "go_error + 'a \<Rightarrow> go_error option" where
  "errorOf r = (case r of Inl e \<Rightarrow> Some e | Inr _ \<Rightarrow> None)"

definition tick :: "kube \<Rightarrow> history \<Rightarrow> gotime \<times> history" where
  "tick k h = (k_now k h, ETick (k_now k h) # h)"

definition getAction :: "kube \<Rightarrow> NamespacedName \<Rightarrow> history \<Rightarrow> (go_error + AgentAction) \<times> history" where
  "getAction k key h = (k_getAction k h key, EGetAction key # h)"

definition updateActionStatus ::
  "kube \<Rightarrow> AgentAction \<Rightarrow> history \<Rightarrow> (go_error + AgentAction) \<times> history" where
  "updateActionStatus k a h =
     (let r = k_updateActionStatus k h a in (r, EUpdateActionStatus a (errorOf r) # h))"

definition recordEvent :: "bool \<Rightarrow> string \<times> string \<times> string \<Rightarrow> history \<Rightarrow> history" where
  "recordEvent recorder ev h =
     (case ev of (ty, reason, message) \<Rightarrow>
        if \<not> recorder \<or> reason = [] then h else ERecord ty reason message # h)"

definition deleteAction ::
  "kube \<Rightarrow> NamespacedName \<Rightarrow> history \<Rightarrow> go_error option \<times> history" where
  "deleteAction k key h = (let r = k_deleteAction k h key in (r, EDeleteAction key r # h))"

definition getDeployment ::
  "kube \<Rightarrow> NamespacedName \<Rightarrow> history \<Rightarrow> (go_error + Deployment) \<times> history" where
  "getDeployment k key h = (k_getDeployment k h key, EGetDeployment key # h)"

definition patchDeployment ::
  "kube \<Rightarrow> Deployment \<Rightarrow> history \<Rightarrow> (go_error + Deployment) \<times> history" where
  "patchDeployment k d h =
     (let r = k_patchDeployment k h d in (r, EPatchDeployment d (errorOf r) # h))"

definition postWebhook ::
  "kube \<Rightarrow> string \<Rightarrow> Message \<Rightarrow> history \<Rightarrow> go_error option \<times> history" where
  "postWebhook k url m h = (let r = k_webhook k h url m in (r, EWebhook url m r # h))"

definition sendNotification :: "kube \<Rightarrow> Message \<Rightarrow> history \<Rightarrow> go_error option \<times> history" where
  "sendNotification k m h = (let r = k_notify k h m in (r, ENotify m r # h))"

lemmas kube_calls [handler_defs] = tick_def getAction_def updateActionStatus_def deleteAction_def
  getDeployment_def patchDeployment_def postWebhook_def sendNotification_def

subsection \<open>Reconcile outcomes\<close>

text \<open>
  A reconciler returns \<^verbatim>\<open>(ctrl.Result, error)\<close>; \<open>Panicked\<close> is a nil dereference.
\<close>

datatype outcome = Done duration "go_error option" | Panicked

abbreviation Stop :: outcome where "Stop \<equiv> Done 0 None"
abbreviation Requeue :: "duration \<Rightarrow> outcome" where "Requeue d \<equiv> Done d None"
abbreviation Fail :: "go_error \<Rightarrow> outcome" where "Fail e \<equiv> Done 0 (Some e)"

text \<open>\<^verbatim>\<open>time.Time.Sub\<close> saturates at the ends of \<open>int64\<close>.\<close>

definition subTime :: "gotime \<Rightarrow> gotime \<Rightarrow> duration" where
  "subTime t u = max (- (2 ^ 63)) (min (2 ^ 63 - 1) (t - u))"

lemma subTime_exact: "0 \<le> t - u \<Longrightarrow> t - u < 2 ^ 63 \<Longrightarrow> subTime t u = t - u"
  by (simp add: subTime_def)

lemma snd_tick [simp]: "snd (tick k h) = ETick (k_now k h) # h"
  by (simp add: tick_def)

lemma errorOf_simps [simp]: "errorOf (Inl e) = Some e" "errorOf (Inr x) = None"
  by (simp_all add: errorOf_def)

subsection \<open>What a call may add to the history\<close>

text \<open>
  \<open>emits P h h'\<close>: the history grew from \<open>h\<close> to \<open>h'\<close> and every new event satisfies \<open>P\<close>.
  \<open>newEvents h h'\<close> are those events, newest first.
\<close>

definition emits :: "(event \<Rightarrow> bool) \<Rightarrow> history \<Rightarrow> history \<Rightarrow> bool" where
  "emits P h h' \<longleftrightarrow> (\<exists>g. h' = g @ h \<and> (\<forall>e\<in>set g. P e))"

definition newEvents :: "history \<Rightarrow> history \<Rightarrow> event list" where
  "newEvents h h' = take (length h' - length h) h'"

lemma emits_refl [simp]: "emits P h h"
  by (simp add: emits_def)

lemma emits_Cons [simp]: "P e \<Longrightarrow> emits P h (e # h)"
  by (auto simp: emits_def)

lemma emits_ConsI: "P e \<Longrightarrow> emits P h h' \<Longrightarrow> emits P h (e # h')"
  by (auto simp: emits_def intro: exI [of _ "e # _"])

lemma emits_trans: "emits P h h' \<Longrightarrow> emits P h' h'' \<Longrightarrow> emits P h h''"
  by (auto simp: emits_def)

lemma emits_mono: "emits P h h' \<Longrightarrow> (\<And>e. P e \<Longrightarrow> Q e) \<Longrightarrow> emits Q h h'"
  by (auto simp: emits_def)

lemma newEvents_append [simp]: "newEvents h (g @ h) = g"
  by (simp add: newEvents_def)

lemma newEvents_Nil [simp]: "newEvents h h = []"
  by (simp add: newEvents_def)

lemma newEvents_Cons: "emits P h h' \<Longrightarrow> newEvents h (e # h') = e # newEvents h h'"
  by (auto simp: emits_def newEvents_def Suc_diff_le)

lemma newEvents_one [simp]: "newEvents h (e # h) = [e]"
  using newEvents_append [of h "[e]"] by simp

lemma emits_iff: "emits P h h' \<longleftrightarrow> h' = newEvents h h' @ h \<and> (\<forall>e\<in>set (newEvents h h'). P e)"
  by (auto simp: emits_def newEvents_def)

lemma emits_newEvents: "emits P h h' \<Longrightarrow> e \<in> set (newEvents h h') \<Longrightarrow> P e"
  by (auto simp: emits_iff)

subsection \<open>An idle environment\<close>

text \<open>
  An environment in which every call fails and the clock shows one second per event; the concrete
  environments of the examples replace some of its answers.
\<close>

definition idleKube :: kube where
  "idleKube =
     (let e = Errorf ''unavailable'' in
      \<lparr>k_now = (\<lambda>h. second * (int (length h) + 1)),
       k_getAction = (\<lambda>_ _. Inl e), k_updateActionStatus = (\<lambda>_ _. Inl e),
       k_deleteAction = (\<lambda>_ _. Some e), k_createOrUpdateAction = (\<lambda>_ _ _. Inl e),
       k_controllerRefAction = (\<lambda>_ _. Inl e), k_listActions = (\<lambda>_ _. Inl e),
       k_getPlan = (\<lambda>_ _. Inl e), k_listPlans = (\<lambda>_ _. Inl e), k_updatePlan = (\<lambda>_ _. Inl e),
       k_updatePlanStatus = (\<lambda>_ _. Inl e), k_deletePlan = (\<lambda>_ _. Some e),
       k_getNamespaceLabels = (\<lambda>_ _. Inl e), k_listPolicies = (\<lambda>_. Inl e),
       k_listThresholds = (\<lambda>_. Inl e), k_listChains = (\<lambda>_ _. Inl e),
       k_getChain = (\<lambda>_ _ _. Inl e), k_getRiskSignalEvidence = (\<lambda>_ _. Inl e),
       k_getInvestigation = (\<lambda>_ _. Inl e), k_createOrUpdateInvestigation = (\<lambda>_ _ _. Inl e),
       k_controllerRefInvestigation = (\<lambda>_ _. Inl e), k_getDeployment = (\<lambda>_ _. Inl e),
       k_patchDeployment = (\<lambda>_ _. Inl e), k_webhook = (\<lambda>_ _ _. Some e),
       k_notify = (\<lambda>_ _. Some e)\<rparr>)"

subsection \<open>Counting\<close>

definition isDispatch :: "event \<Rightarrow> bool" where
  "isDispatch e \<longleftrightarrow> (case e of EDispatch rq \<Rightarrow> True | _ \<Rightarrow> False)"

definition dispatches :: "history \<Rightarrow> nat" where
  "dispatches h = length (filter isDispatch h)"

lemma isDispatch_simps [simp]:
  "isDispatch (EDispatch rq)" "\<not> isDispatch (ETick t)" "\<not> isDispatch (EGetAction key)"
  "\<not> isDispatch (EUpdateActionStatus a r)" "\<not> isDispatch (EDeleteAction key r)"
  "\<not> isDispatch (ECreateOrUpdateAction key ra)" "\<not> isDispatch (EGetPlan key)"
  "\<not> isDispatch (EUpdatePlan p r)" "\<not> isDispatch (EUpdatePlanStatus p r)"
  "\<not> isDispatch (EDeletePlan key r)" "\<not> isDispatch (EGetDeployment key)"
  "\<not> isDispatch (EPatchDeployment d r)" "\<not> isDispatch (EResolve rq)"
  "\<not> isDispatch (EWebhook u m r)" "\<not> isDispatch (ENotify m r)" "\<not> isDispatch (ERecord x y z)"
  "\<not> isDispatch (ECreateOrUpdateInvestigation key ri)" "\<not> isDispatch (ERead x)"
  by (simp_all add: isDispatch_def)

lemma dispatches_simps [simp]:
  "dispatches [] = 0"
  "dispatches (e # h) = (if isDispatch e then Suc (dispatches h) else dispatches h)"
  by (simp_all add: dispatches_def)

lemma dispatches_append [simp]: "dispatches (g @ h) = dispatches g + dispatches h"
  by (simp add: dispatches_def)

end
