(* ===== verification/Executor.thy ===== *)
theory Executor
  imports Kube
begin

text \<open>
  The package \<^verbatim>\<open>internal/executor\<close> (\<^verbatim>\<open>contract.go\<close>, \<^verbatim>\<open>router.go\<close>, \<^verbatim>\<open>notification.go\<close>) and the
  digests of \<^verbatim>\<open>internal/canonicaldigest\<close> that identify an execution.  The interface \<open>Executor\<close>
  with its optional recovery interfaces is the record \<open>backend\<close> of functions; the locale
  \<open>router_backend\<close> is what the action controller relies on, and it is interpreted on the four
  backends of the package.  \<open>EDispatch\<close> and \<open>EResolve\<close> are ghost events that mark the calls of
  \<^verbatim>\<open>Router.Execute\<close> and \<^verbatim>\<open>Router.Resolve\<close> that reach a backend.

  The canonical JSON text of a value (\<^verbatim>\<open>encoding/json\<close> and the Unicode normalisation of
  \<^verbatim>\<open>golang.org/x/text\<close>) and SHA-256 are the record \<open>codec\<close> of parameters.
\<close>

subsection \<open>Digests and identities\<close>

record IdentityInput =
  id_ActionRef :: string
  id_AgentActionUID :: string
  id_Generation :: int
  id_ActionIndex :: int
  id_Target :: ResourceRef
  id_TargetUID :: string
  id_ActionDigest :: string
  id_ActionType :: string
  id_Parameters :: "string \<rightharpoonup> goAny"

record codec =
  cd_sha256 :: "string \<Rightarrow> string"
  cd_spec :: "AgentActionSpec \<Rightarrow> string"
  cd_identity :: "IdentityInput \<Rightarrow> string"
  cd_baseline :: "ResourceRef \<times> string \<times> HealthSnapshot \<Rightarrow> string"
  cd_verify :: "string \<times> string \<Rightarrow> string"

definition hexEncode :: "string \<Rightarrow> string" where
  "hexEncode s = concat (map (\<lambda>c. [hexDigit (byte c div 16), hexDigit (byte c mod 16)]) s)"

abbreviation AlgorithmSHA256 :: string where "AlgorithmSHA256 \<equiv> ''sha256''"

definition digestString :: "codec \<Rightarrow> string \<Rightarrow> string" where
  "digestString cd payload = AlgorithmSHA256 @ '':'' @ hexEncode (cd_sha256 cd payload)"

record ExecutionIdentity =
  eid_ExecutionID :: string
  eid_IdempotencyKey :: string

definition BuildExecutionIdentity :: "codec \<Rightarrow> IdentityInput \<Rightarrow> ExecutionIdentity" where
  "BuildExecutionIdentity cd inp =
     (let digest = digestString cd (cd_identity cd inp);
          hexDigest = TrimPrefix digest (AlgorithmSHA256 @ '':'');
          shortDigest = (if length hexDigest > 32 then take 32 hexDigest else hexDigest) in
      \<lparr>eid_ExecutionID = ''exec-'' @ shortDigest, eid_IdempotencyKey = digest\<rparr>)"

definition StringParameters :: "strmap \<Rightarrow> (string \<rightharpoonup> goAny)" where
  "StringParameters values = (\<lambda>key. map_option GoString (values key))"

subsection \<open>Backends\<close>

type_synonym exec_fn =
  "kube \<Rightarrow> ExecutorRequest \<Rightarrow> history \<Rightarrow> (ExecutionResult \<times> go_error option) \<times> history"
type_synonym 'a probe_fn =
  "kube \<Rightarrow> ExecutorRequest \<Rightarrow> history \<Rightarrow> ('a \<times> bool \<times> go_error option) \<times> history"

record backend =
  b_Name :: string
  b_Execute :: exec_fn
  b_Resolve :: "ExecutionResult probe_fn option"
  b_CaptureBaseline :: "ExecutorBaseline probe_fn option"
  b_ObserveHealth :: "HealthSnapshot probe_fn option"

abbreviation KubernetesRolloutRestartAction :: string where
  "KubernetesRolloutRestartAction \<equiv> ''kubernetes.rolloutRestart''"
abbreviation kubernetesRestartedByAnnotation :: string where
  "kubernetesRestartedByAnnotation \<equiv> ''fluxseer.io/restarted-by''"
abbreviation kubernetesExecutionIDAnnotation :: string where
  "kubernetesExecutionIDAnnotation \<equiv> ''fluxseer.io/execution-id''"
abbreviation kubernetesName :: string where "kubernetesName \<equiv> ''kubernetes-executor''"

subsubsection \<open>The Kubernetes backend\<close>

definition validateKubernetesRestartRequest :: "ExecutorRequest \<Rightarrow> go_error option" where
  "validateKubernetesRestartRequest action =
     (if rq_ActionType action \<noteq> KubernetesRolloutRestartAction then
        Some (Errorf (''unsupported Kubernetes action type '' @ quote (rq_ActionType action)))
      else if r_Kind (rq_Target action) \<noteq> ''Deployment'' then
        Some (Errorf (''rollout restart requires Deployment target, got ''
                @ quote (r_Kind (rq_Target action))))
      else if r_APIVersion (rq_Target action) \<noteq> [] \<and> r_APIVersion (rq_Target action) \<noteq> ''apps/v1'' then
        Some (Errorf (''rollout restart requires apps/v1 target, got ''
                @ quote (r_APIVersion (rq_Target action))))
      else if r_Namespace (rq_Target action) = [] \<or> r_Name (rq_Target action) = [] then
        Some (Errorf ''rollout restart requires namespace and name'')
      else if rq_TargetUID action = [] then
        Some (Errorf ''rollout restart requires target UID'')
      else if rq_ExecutionID action = [] \<or> rq_IdempotencyKey action = [] then
        Some (Errorf ''rollout restart requires execution and idempotency identity'')
      else None)"

definition kubernetesSuccessResult ::
  "string \<Rightarrow> ExecutorRequest \<Rightarrow> gotime \<Rightarrow> gotime \<Rightarrow> Deployment \<Rightarrow> string \<Rightarrow> ExecutionResult" where
  "kubernetesSuccessResult name action startedAt finishedAt d summary =
     emptyExecutionResult\<lparr>
       res_ExecutionID := rq_ExecutionID action,
       res_Outcome := ExecutionOutcomeSucceeded,
       res_Executor := name, res_Status := ''succeeded'', res_Summary := summary,
       res_ExternalRef := ''apps/v1/Deployment/'' @ dep_Namespace d @ ''/'' @ dep_Name d,
       res_FinishedAt := finishedAt,
       res_Outputs := [''target'' \<mapsto> dep_Name d, ''targetUID'' \<mapsto> dep_UID d,
                       ''executionID'' \<mapsto> rq_ExecutionID action],
       res_StartedAt := startedAt\<rparr>"

definition kubernetesFailureResult ::
  "string \<Rightarrow> ExecutorRequest \<Rightarrow> gotime \<Rightarrow> gotime \<Rightarrow> string \<Rightarrow> go_error \<Rightarrow> ExecutionResult" where
  "kubernetesFailureResult name action startedAt finishedAt reason err =
     emptyExecutionResult\<lparr>
       res_ExecutionID := rq_ExecutionID action,
       res_Outcome := ExecutionOutcomeFailed,
       res_FailureReason := reason,
       res_Executor := name, res_Status := ''failed'', res_Summary := errText err,
       res_FinishedAt := finishedAt,
       res_Retryable := False,
       res_StartedAt := startedAt\<rparr>"

definition simulatedResult :: "ExecutorRequest \<Rightarrow> gotime \<Rightarrow> gotime \<Rightarrow> ExecutionResult" where
  "simulatedResult action startedAt finishedAt =
     emptyExecutionResult\<lparr>
       res_ExecutionID := rq_ExecutionID action,
       res_Outcome := ExecutionOutcomeSucceeded,
       res_Executor := kubernetesName, res_Status := ''succeeded'',
       res_Summary := ''Simulated '' @ rq_ActionType action @ '' on ''
         @ r_Namespace (rq_Target action) @ ''/'' @ r_Name (rq_Target action)
         @ '' approved by '' @ rq_ApprovedBy action,
       res_Outputs := [''target'' \<mapsto> r_Name (rq_Target action),
                       ''dryRun'' \<mapsto> rq_DryRunResult action],
       res_StartedAt := startedAt, res_FinishedAt := finishedAt\<rparr>"

definition targetKey :: "ExecutorRequest \<Rightarrow> NamespacedName" where
  "targetKey action = (r_Namespace (rq_Target action), r_Name (rq_Target action))"

definition targetText :: "ExecutorRequest \<Rightarrow> string" where
  "targetText action = r_Namespace (rq_Target action) @ ''/'' @ r_Name (rq_Target action)"

text \<open>
  \<^verbatim>\<open>Annotations != nil && Annotations[execution-id] == id\<close> on a Deployment's pod template.
\<close>

definition executionRecorded :: "Deployment \<Rightarrow> string \<Rightarrow> bool" where
  "executionRecorded d executionID \<longleftrightarrow>
     (case dep_TemplateAnnotations d of
        None \<Rightarrow> False
      | Some m \<Rightarrow> mapGet m kubernetesExecutionIDAnnotation = executionID)"

definition annotateRestart :: "string \<Rightarrow> Deployment \<Rightarrow> Deployment" where
  "annotateRestart executionID d =
     (let m = (case dep_TemplateAnnotations d of None \<Rightarrow> Map.empty | Some m \<Rightarrow> m) in
      d\<lparr>dep_TemplateAnnotations := Some (m(kubernetesRestartedByAnnotation \<mapsto> ''fluxseer-rca'',
                                           kubernetesExecutionIDAnnotation \<mapsto> executionID))\<rparr>)"

definition uidMismatch :: "string \<Rightarrow> ExecutorRequest \<Rightarrow> Deployment \<Rightarrow> go_error" where
  "uidMismatch lead action d =
     Errorf (lead @ ''target UID mismatch: expected '' @ quote (rq_TargetUID action)
             @ '', got '' @ quote (dep_UID d))"

text \<open>The flag \<open>client\<close> says whether \<^verbatim>\<open>e.Client\<close> is set.\<close>

definition KubernetesExecutor_Execute :: "bool \<Rightarrow> exec_fn" where
  "KubernetesExecutor_Execute client k action h =
     (let (startedAt, h) = tick k h in
      if \<not> client then
        (let (finishedAt, h) = tick k h in
         ((simulatedResult action startedAt finishedAt, None), h))
      else case validateKubernetesRestartRequest action of
        Some err \<Rightarrow>
          (let (finishedAt, h) = tick k h in
           ((kubernetesFailureResult kubernetesName action startedAt finishedAt
               ''ValidationFailed'' err, Some err), h))
      | None \<Rightarrow>
        (case getDeployment k (targetKey action) h of
           (Inl err, h) \<Rightarrow>
             (let (finishedAt, h) = tick k h in
              ((kubernetesFailureResult kubernetesName action startedAt finishedAt
                  ''TargetNotFound'' err,
                Some (wrapErr (''get deployment '' @ targetText action @ '': '') err)), h))
         | (Inr deployment, h) \<Rightarrow>
             if dep_UID deployment \<noteq> rq_TargetUID action then
               (let err = uidMismatch [] action deployment; (finishedAt, h) = tick k h in
                ((kubernetesFailureResult kubernetesName action startedAt finishedAt
                    ''TargetUIDMismatch'' err, Some err), h))
             else if executionRecorded deployment (rq_ExecutionID action) then
               (let (finishedAt, h) = tick k h in
                ((kubernetesSuccessResult kubernetesName action startedAt finishedAt deployment
                    ''rollout restart already recorded for execution identity'', None), h))
             else
               (case patchDeployment k (annotateRestart (rq_ExecutionID action) deployment) h of
                  (Inl err, h) \<Rightarrow>
                    (let uncertain = errKind err = Canceled \<or> errKind err = DeadlineExceeded;
                         reason = (if uncertain then ''TimeoutAfterDispatch''
                                   else ''KubernetesPatchFailed'');
                         outcome = (if uncertain then ExecutionOutcomeUnknown
                                    else ExecutionOutcomeFailed);
                         (finishedAt, h) = tick k h in
                     (((kubernetesFailureResult kubernetesName action startedAt finishedAt
                          reason err)\<lparr>res_Outcome := outcome\<rparr>,
                       Some (wrapErr (''patch deployment '' @ targetText action @ '': '') err)), h))
                | (Inr patched, h) \<Rightarrow>
                    (let (finishedAt, h) = tick k h in
                     ((kubernetesSuccessResult kubernetesName action startedAt finishedAt patched
                         ''rollout restart annotation applied'', None), h)))))"

definition deploymentHealthSnapshot :: "Deployment \<Rightarrow> HealthSnapshot" where
  "deploymentHealthSnapshot d =
     \<lparr>hs_Generation = dep_Generation d, hs_ObservedGeneration = dep_ObservedGeneration d,
      hs_DesiredReplicas = (case dep_Replicas d of None \<Rightarrow> 1 | Some n \<Rightarrow> n),
      hs_UpdatedReplicas = dep_UpdatedReplicas d, hs_AvailableReplicas = dep_AvailableReplicas d,
      hs_ReadyReplicas = dep_ReadyReplicas d, hs_Conditions = dep_Conditions d\<rparr>"

definition KubernetesExecutor_CaptureBaseline :: "codec \<Rightarrow> bool \<Rightarrow> ExecutorBaseline probe_fn" where
  "KubernetesExecutor_CaptureBaseline cd client k action h =
     (if \<not> client then ((emptyExecutorBaseline, False, None), h)
      else case validateKubernetesRestartRequest action of
        Some err \<Rightarrow> ((emptyExecutorBaseline, False, Some err), h)
      | None \<Rightarrow>
        (case getDeployment k (targetKey action) h of
           (Inl err, h) \<Rightarrow>
             ((emptyExecutorBaseline, False,
               Some (wrapErr (''get baseline deployment '' @ targetText action @ '': '') err)), h)
         | (Inr deployment, h) \<Rightarrow>
             if dep_UID deployment \<noteq> rq_TargetUID action then
               ((emptyExecutorBaseline, False, Some (uidMismatch ''baseline '' action deployment)), h)
             else
               (let snapshot = deploymentHealthSnapshot deployment; (now, h) = tick k h in
                ((\<lparr>xb_CapturedAt = now, xb_Target = rq_Target action,
                   xb_TargetUID = dep_UID deployment, xb_Health = snapshot,
                   xb_Digest = digestString cd
                     (cd_baseline cd (rq_Target action, dep_UID deployment, snapshot))\<rparr>,
                  True, None), h))))"

definition KubernetesExecutor_ObserveHealth :: "bool \<Rightarrow> HealthSnapshot probe_fn" where
  "KubernetesExecutor_ObserveHealth client k action h =
     (if \<not> client then ((emptyHealthSnapshot, False, None), h)
      else case validateKubernetesRestartRequest action of
        Some err \<Rightarrow> ((emptyHealthSnapshot, False, Some err), h)
      | None \<Rightarrow>
        (case getDeployment k (targetKey action) h of
           (Inl err, h) \<Rightarrow>
             ((emptyHealthSnapshot, False,
               Some (wrapErr (''get observed deployment '' @ targetText action @ '': '') err)), h)
         | (Inr deployment, h) \<Rightarrow>
             if dep_UID deployment \<noteq> rq_TargetUID action then
               ((emptyHealthSnapshot, False, Some (uidMismatch ''observed '' action deployment)), h)
             else ((deploymentHealthSnapshot deployment, True, None), h)))"

definition KubernetesExecutor_Resolve :: "bool \<Rightarrow> ExecutionResult probe_fn" where
  "KubernetesExecutor_Resolve client k action h =
     (if \<not> client then ((emptyExecutionResult, False, None), h)
      else if rq_ActionType action \<noteq> KubernetesRolloutRestartAction then
        ((emptyExecutionResult, False, None), h)
      else case validateKubernetesRestartRequest action of
        Some err \<Rightarrow>
          ((kubernetesFailureResult kubernetesName action 0 0 ''ValidationFailed'' err, False,
            Some err), h)
      | None \<Rightarrow>
        (case getDeployment k (targetKey action) h of
           (Inl err, h) \<Rightarrow>
             if IsNotFound err then ((emptyExecutionResult, False, None), h)
             else ((emptyExecutionResult, False, Some err), h)
         | (Inr deployment, h) \<Rightarrow>
             if dep_UID deployment \<noteq> rq_TargetUID action then
               (let err = uidMismatch [] action deployment in
                ((kubernetesFailureResult kubernetesName action 0 0 ''TargetUIDMismatch'' err, False,
                  Some err), h))
             else if \<not> executionRecorded deployment (rq_ExecutionID action) then
               ((emptyExecutionResult, False, None), h)
             else
               (let (now, h) = tick k h in
                ((kubernetesSuccessResult kubernetesName action 0 now deployment
                    ''rollout restart recovered by read-after-write'', True, None), h))))"

subsubsection \<open>The other backends\<close>

definition GitOpsExecutor_Execute :: exec_fn where
  "GitOpsExecutor_Execute k action h =
     (let (startedAt, h) = tick k h; (finishedAt, h) = tick k h in
      ((emptyExecutionResult\<lparr>
          res_ExecutionID := rq_ExecutionID action,
          res_Outcome := ExecutionOutcomeSucceeded,
          res_Executor := ''gitops-executor'', res_Status := ''succeeded'',
          res_Summary := ''Simulated GitOps change for '' @ r_Name (rq_Target action),
          res_Outputs := [''branch'' \<mapsto> ''github.com/FluxSeer/fluxseer-rca/remediation'',
                          ''actionType'' \<mapsto> rq_ActionType action],
          res_StartedAt := startedAt, res_FinishedAt := finishedAt\<rparr>, None), h))"

definition RunbookExecutor_Execute :: exec_fn where
  "RunbookExecutor_Execute k action h =
     (let (startedAt, h) = tick k h; (finishedAt, h) = tick k h in
      ((emptyExecutionResult\<lparr>
          res_ExecutionID := rq_ExecutionID action,
          res_Outcome := ExecutionOutcomeSucceeded,
          res_Executor := ''runbook-executor'', res_Status := ''succeeded'',
          res_Summary := ''Simulated runbook execution for '' @ r_Service (rq_Target action),
          res_Outputs := [''workflow'' \<mapsto> ''incident-stabilization'',
                          ''actionType'' \<mapsto> rq_ActionType action],
          res_StartedAt := startedAt, res_FinishedAt := finishedAt\<rparr>, None), h))"

text \<open>\<^verbatim>\<open>webhook.Notifier.Notify\<close>: the HTTP exchange is the environment's.\<close>

definition webhookNotify ::
  "kube \<Rightarrow> string \<Rightarrow> Message \<Rightarrow> history \<Rightarrow> go_error option \<times> history" where
  "webhookNotify k url m h =
     (if TrimSpace url = [] then (Some (Errorf ''webhook URL is empty''), h)
      else postWebhook k url m h)"

definition notificationChannel :: "ExecutorRequest \<Rightarrow> string" where
  "notificationChannel action =
     (let channel = (case rq_Parameters action ''channel'' of
                       Some (GoString v) \<Rightarrow> v
                     | _ \<Rightarrow> []) in
      if channel = [] then ''webhook'' else channel)"

definition NotificationExecutor_Execute :: "string \<Rightarrow> exec_fn" where
  "NotificationExecutor_Execute url k action h =
     (let (startedAt, h) = tick k h;
          channel = notificationChannel action;
          target = r_Name (rq_Target action);
          finish = (\<lambda>summary h. let (finishedAt, h) = tick k h in
            ((emptyExecutionResult\<lparr>
                res_ExecutionID := rq_ExecutionID action,
                res_Outcome := ExecutionOutcomeSucceeded,
                res_Executor := ''notification-executor'', res_Status := ''succeeded'',
                res_Summary := summary,
                res_Outputs := [''channel'' \<mapsto> channel, ''actionType'' \<mapsto> rq_ActionType action],
                res_StartedAt := startedAt, res_FinishedAt := finishedAt\<rparr>, None), h));
          summary = ''Simulated notification sent to '' @ channel @ '' for '' @ target in
      if url = [] then finish summary h
      else
        (case webhookNotify k url
           \<lparr>msg_Title = ''FluxSeer RCA Notification'', msg_Summary = summary,
            msg_Body = rq_DryRunResult action,
            msg_Fields = [''target'' \<mapsto> GoString target,
                          ''namespace'' \<mapsto> GoString (r_Namespace (rq_Target action)),
                          ''actionType'' \<mapsto> GoString (rq_ActionType action)]\<rparr> h of
           (Some err, h) \<Rightarrow> ((emptyExecutionResult, Some err), h)
         | (None, h) \<Rightarrow>
             finish (''Webhook notification sent to '' @ channel @ '' for '' @ target) h))"

definition KubernetesExecutor :: "codec \<Rightarrow> bool \<Rightarrow> backend" where
  "KubernetesExecutor cd client =
     \<lparr>b_Name = kubernetesName, b_Execute = KubernetesExecutor_Execute client,
      b_Resolve = Some (KubernetesExecutor_Resolve client),
      b_CaptureBaseline = Some (KubernetesExecutor_CaptureBaseline cd client),
      b_ObserveHealth = Some (KubernetesExecutor_ObserveHealth client)\<rparr>"

definition plainBackend :: "string \<Rightarrow> exec_fn \<Rightarrow> backend" where
  "plainBackend name f = \<lparr>b_Name = name, b_Execute = f, b_Resolve = None,
     b_CaptureBaseline = None, b_ObserveHealth = None\<rparr>"

definition GitOpsExecutor :: backend where
  "GitOpsExecutor = plainBackend ''gitops-executor'' GitOpsExecutor_Execute"

definition RunbookExecutor :: backend where
  "RunbookExecutor = plainBackend ''runbook-executor'' RunbookExecutor_Execute"

definition NotificationExecutor :: "string \<Rightarrow> backend" where
  "NotificationExecutor url =
     plainBackend ''notification-executor'' (NotificationExecutor_Execute url)"

subsection \<open>The router\<close>

record Router =
  ro_Kubernetes :: backend
  ro_GitOps :: backend
  ro_Runbook :: backend
  ro_Notify :: backend

definition NewRouter :: "backend \<Rightarrow> backend \<Rightarrow> backend \<Rightarrow> backend \<Rightarrow> Router" where
  "NewRouter k8s gitops runbook notify =
     \<lparr>ro_Kubernetes = k8s, ro_GitOps = gitops, ro_Runbook = runbook, ro_Notify = notify\<rparr>"

definition noExecutor :: "string \<Rightarrow> go_error" where
  "noExecutor actionType =
     Errorf (''no executor registered for action type '' @ quote actionType)"

definition executorFor :: "Router \<Rightarrow> string \<Rightarrow> go_error + backend" where
  "executorFor r actionType =
     (if HasPrefix actionType ''kubernetes.'' then Inr (ro_Kubernetes r)
      else if HasPrefix actionType ''gitops.'' then Inr (ro_GitOps r)
      else if HasPrefix actionType ''runbook.'' then Inr (ro_Runbook r)
      else if HasPrefix actionType ''notification.'' then Inr (ro_Notify r)
      else Inl (noExecutor actionType))"

definition Router_Execute :: "Router \<Rightarrow> exec_fn" where
  "Router_Execute r k request h =
     (case executorFor r (rq_ActionType request) of
        Inl err \<Rightarrow> ((emptyExecutionResult, Some err), h)
      | Inr b \<Rightarrow> b_Execute b k request (EDispatch request # h))"

definition Router_Resolve :: "Router \<Rightarrow> ExecutionResult probe_fn" where
  "Router_Resolve r k request h =
     (case executorFor r (rq_ActionType request) of
        Inl err \<Rightarrow> ((emptyExecutionResult, False, Some err), h)
      | Inr b \<Rightarrow>
          (case b_Resolve b of
             None \<Rightarrow> ((emptyExecutionResult, False, None), h)
           | Some f \<Rightarrow> f k request (EResolve request # h)))"

definition Router_CaptureBaseline :: "Router \<Rightarrow> ExecutorBaseline probe_fn" where
  "Router_CaptureBaseline r k request h =
     (case executorFor r (rq_ActionType request) of
        Inl err \<Rightarrow> ((emptyExecutorBaseline, False, Some err), h)
      | Inr b \<Rightarrow>
          (case b_CaptureBaseline b of
             None \<Rightarrow> ((emptyExecutorBaseline, False, None), h)
           | Some f \<Rightarrow> f k request h))"

definition Router_ObserveHealth :: "Router \<Rightarrow> HealthSnapshot probe_fn" where
  "Router_ObserveHealth r k request h =
     (case executorFor r (rq_ActionType request) of
        Inl err \<Rightarrow> ((emptyHealthSnapshot, False, Some err), h)
      | Inr b \<Rightarrow>
          (case b_ObserveHealth b of
             None \<Rightarrow> ((emptyHealthSnapshot, False, None), h)
           | Some f \<Rightarrow> f k request h))"


subsection \<open>What the backends may do\<close>

fun readEvent :: "event \<Rightarrow> bool" where
  "readEvent (ETick t) = True"
| "readEvent (EGetDeployment key) = True"
| "readEvent e = False"

fun backendEvent :: "event \<Rightarrow> bool" where
  "backendEvent (EPatchDeployment d r) = True"
| "backendEvent (EWebhook u m r) = True"
| "backendEvent e = readEvent e"

lemma readEvent_backendEvent: "readEvent e \<Longrightarrow> backendEvent e"
  by (cases e) auto

lemma backendEvent_noDispatch: "backendEvent e \<Longrightarrow> \<not> isDispatch e"
  by (cases e) auto

lemmas probe_defs = KubernetesExecutor_CaptureBaseline_def KubernetesExecutor_ObserveHealth_def
  KubernetesExecutor_Resolve_def

lemmas execute_defs = KubernetesExecutor_Execute_def GitOpsExecutor_Execute_def
  RunbookExecutor_Execute_def NotificationExecutor_Execute_def webhookNotify_def

text \<open>
  The contract between the router and its backends: executing touches only Deployments and
  webhooks, and the recovery and observation calls only read.
\<close>

locale router_backend =
  fixes b :: backend
  assumes execute_emits: "emits backendEvent h (snd (b_Execute b k rq h))"
    and resolve_emits: "b_Resolve b = Some f \<Longrightarrow> emits readEvent h (snd (f k rq h))"
    and capture_emits: "b_CaptureBaseline b = Some g \<Longrightarrow> emits readEvent h (snd (g k rq h))"
    and observe_emits: "b_ObserveHealth b = Some o' \<Longrightarrow> emits readEvent h (snd (o' k rq h))"

lemma plain_router_backend:
  "(\<And>k rq h. emits backendEvent h (snd (f k rq h))) \<Longrightarrow> router_backend (plainBackend name f)"
  by unfold_locales (auto simp: plainBackend_def)

lemma kubernetes_execute_emits:
  "emits backendEvent h (snd (KubernetesExecutor_Execute client k rq h))"
  by (simp add: KubernetesExecutor_Execute_def handler_defs Let_def emits_ConsI
      split: option.split sum.split)

lemma kubernetes_probe_emits:
  "emits readEvent h (snd (KubernetesExecutor_Resolve client k rq h))"
  "emits readEvent h (snd (KubernetesExecutor_CaptureBaseline cd client k rq h))"
  "emits readEvent h (snd (KubernetesExecutor_ObserveHealth client k rq h))"
  by (simp_all add: probe_defs handler_defs Let_def emits_ConsI split: option.split sum.split)

lemma plain_execute_emits:
  "emits backendEvent h (snd (GitOpsExecutor_Execute k rq h))"
  "emits backendEvent h (snd (RunbookExecutor_Execute k rq h))"
  "emits backendEvent h (snd (NotificationExecutor_Execute url k rq h))"
  by (simp_all add: execute_defs handler_defs Let_def emits_ConsI split: option.split)

interpretation kubernetesBackend: router_backend "KubernetesExecutor cd client" for cd client
  by unfold_locales
    (auto simp: KubernetesExecutor_def kubernetes_execute_emits kubernetes_probe_emits)

interpretation gitopsBackend: router_backend GitOpsExecutor
  unfolding GitOpsExecutor_def by (rule plain_router_backend) (rule plain_execute_emits)

interpretation runbookBackend: router_backend RunbookExecutor
  unfolding RunbookExecutor_def by (rule plain_router_backend) (rule plain_execute_emits)

interpretation notificationBackend: router_backend "NotificationExecutor url" for url
  unfolding NotificationExecutor_def by (rule plain_router_backend) (rule plain_execute_emits)

text \<open>What the action controller relies on of its router.\<close>

locale action_router =
  fixes r :: Router
  assumes backends: "executorFor r t = Inr b \<Longrightarrow> router_backend b"
begin

lemma execute_unknown:
  "executorFor r (rq_ActionType rq) = Inl e \<Longrightarrow>
   Router_Execute r k rq h = ((emptyExecutionResult, Some e), h)"
  by (simp add: Router_Execute_def)

lemma execute_known:
  assumes "executorFor r (rq_ActionType rq) = Inr b"
  shows "emits backendEvent (EDispatch rq # h) (snd (Router_Execute r k rq h))"
  using router_backend.execute_emits [OF backends [OF assms]] assms
  by (simp add: Router_Execute_def)

lemma execute_dispatches:
  "newEvents h (snd (Router_Execute r k rq h)) = [] \<or>
   (\<exists>g. newEvents h (snd (Router_Execute r k rq h)) = g @ [EDispatch rq] \<and>
      (\<forall>e\<in>set g. backendEvent e))"
proof (cases "executorFor r (rq_ActionType rq)")
  case (Inl e)
  then show ?thesis by (simp add: execute_unknown)
next
  case (Inr b)
  then obtain g where "snd (Router_Execute r k rq h) = g @ EDispatch rq # h"
    and g: "\<forall>e\<in>set g. backendEvent e"
    using execute_known unfolding emits_def by blast
  then have "newEvents h (snd (Router_Execute r k rq h)) = g @ [EDispatch rq]"
    using newEvents_append [of h "g @ [EDispatch rq]"] by simp
  with g show ?thesis by blast
qed

lemma execute_emits:
  "emits (\<lambda>e. e = EDispatch rq \<or> backendEvent e) h (snd (Router_Execute r k rq h))"
proof (cases "executorFor r (rq_ActionType rq)")
  case (Inl e)
  then show ?thesis by (simp add: execute_unknown)
next
  case (Inr b)
  have "emits (\<lambda>e. e = EDispatch rq \<or> backendEvent e) (EDispatch rq # h)
      (snd (Router_Execute r k rq h))"
    by (rule emits_mono [OF execute_known [OF Inr]]) simp
  then show ?thesis by (rule emits_trans [rotated]) simp
qed

lemma resolve_emits:
  "emits (\<lambda>e. e = EResolve rq \<or> readEvent e) h (snd (Router_Resolve r k rq h))"
proof (cases "executorFor r (rq_ActionType rq)")
  case (Inr b)
  show ?thesis
  proof (cases "b_Resolve b")
    case (Some f)
    have "emits readEvent (EResolve rq # h) (snd (f k rq (EResolve rq # h)))"
      by (rule router_backend.resolve_emits [OF backends [OF Inr] Some])
    then have "emits (\<lambda>e. e = EResolve rq \<or> readEvent e) (EResolve rq # h)
        (snd (f k rq (EResolve rq # h)))"
      by (rule emits_mono) simp
    then show ?thesis
      using Inr Some by (auto simp: Router_Resolve_def intro: emits_trans [rotated])
  qed (simp add: Router_Resolve_def Inr)
qed (simp add: Router_Resolve_def)

lemma capture_emits: "emits readEvent h (snd (Router_CaptureBaseline r k rq h))"
  using router_backend.capture_emits [OF backends]
  by (auto simp: Router_CaptureBaseline_def split: sum.split option.split)

lemma observe_emits: "emits readEvent h (snd (Router_ObserveHealth r k rq h))"
  using router_backend.observe_emits [OF backends]
  by (auto simp: Router_ObserveHealth_def split: sum.split option.split)

end

text \<open>The router that \<^verbatim>\<open>internal/operatorapp\<close> builds.\<close>

definition programRouter :: "codec \<Rightarrow> bool \<Rightarrow> string \<Rightarrow> Router" where
  "programRouter cd client url =
     NewRouter (KubernetesExecutor cd client) GitOpsExecutor RunbookExecutor
       (NotificationExecutor url)"

interpretation progRouter: action_router "programRouter cd client url" for cd client url
  by (rule action_router.intro)
    (auto simp: executorFor_def programRouter_def NewRouter_def
      intro: kubernetesBackend.router_backend_axioms gitopsBackend.router_backend_axioms
        runbookBackend.router_backend_axioms notificationBackend.router_backend_axioms
      split: if_splits)

subsection \<open>The Kubernetes backend is idempotent\<close>

text \<open>
  An environment that does not lose patches: once a patch that records \<open>executionID\<close> on \<open>key\<close>
  succeeded, every read of \<open>key\<close> finds the same object with the annotation.
\<close>

definition durablePatches :: "kube \<Rightarrow> NamespacedName \<Rightarrow> string \<Rightarrow> string \<Rightarrow> bool" where
  "durablePatches k key uid executionID \<longleftrightarrow>
     (\<forall>h d. EPatchDeployment d None \<in> set h \<and> executionRecorded d executionID \<longrightarrow>
        (\<exists>d'. k_getDeployment k h key = Inr d' \<and> dep_UID d' = uid \<and>
              executionRecorded d' executionID))"

lemma executionRecorded_annotateRestart [simp]: "executionRecorded (annotateRestart i d) i"
  by (simp add: executionRecorded_def annotateRestart_def Let_def)

lemma dep_UID_annotateRestart [simp]: "dep_UID (annotateRestart i d) = dep_UID d"
  by (simp add: annotateRestart_def Let_def)

lemma outcome_kubernetesSuccessResult [simp]:
  "res_Outcome (kubernetesSuccessResult n a s f d m) = ExecutionOutcomeSucceeded"
  "res_ExecutionID (kubernetesSuccessResult n a s f d m) = rq_ExecutionID a"
  by (simp_all add: kubernetesSuccessResult_def)

lemma executeEvents_cases:
  assumes "validateKubernetesRestartRequest action = None"
    and "k_getDeployment k (ETick (k_now k h) # h) (targetKey action) = Inr dep"
    and "dep_UID dep = rq_TargetUID action"
  shows "executionRecorded dep (rq_ExecutionID action) \<Longrightarrow>
      \<exists>t. newEvents h (snd (KubernetesExecutor_Execute True k action h)) =
          [ETick t, EGetDeployment (targetKey action), ETick (k_now k h)]"
    and "\<not> executionRecorded dep (rq_ExecutionID action) \<Longrightarrow>
      \<exists>t e. newEvents h (snd (KubernetesExecutor_Execute True k action h)) =
          [ETick t, EPatchDeployment (annotateRestart (rq_ExecutionID action) dep) e,
           EGetDeployment (targetKey action), ETick (k_now k h)]"
  using assms
  by (auto simp: KubernetesExecutor_Execute_def handler_defs Let_def newEvents_def
      split: sum.split)

subsection \<open>Concrete inputs\<close>

definition demoDeployment :: Deployment where
  "demoDeployment = \<lparr>dep_Namespace = ''prod'', dep_Name = ''api'', dep_UID = ''u1'',
     dep_Generation = 3, dep_Replicas = Some 2, dep_TemplateAnnotations = None,
     dep_ObservedGeneration = 3, dep_UpdatedReplicas = 2, dep_AvailableReplicas = 1,
     dep_ReadyReplicas = 1, dep_Conditions = []\<rparr>"

definition demoTarget :: ResourceRef where
  "demoTarget = \<lparr>r_Cluster = [], r_Namespace = ''prod'', r_Kind = ''Deployment'',
     r_Name = ''api'', r_APIVersion = ''apps/v1'', r_Service = []\<rparr>"

definition demoRequest :: ExecutorRequest where
  "demoRequest = \<lparr>rq_ExecutionID = ''exec-1'', rq_IdempotencyKey = ''sha256:1'',
     rq_ActionDigest = [], rq_ActionType = KubernetesRolloutRestartAction, rq_ActionIndex = 0,
     rq_Target = demoTarget, rq_TargetUID = ''u1'', rq_Parameters = Map.empty,
     rq_ApprovedPolicySnapshot = emptyPolicySnapshot, rq_ApprovedBy = [], rq_DryRunResult = [],
     rq_RollbackPlan = [], rq_Timeout = 0, rq_Attempt = 1\<rparr>"

text \<open>A cluster with that Deployment, which keeps what is patched.\<close>

definition clusterKube :: kube where
  "clusterKube = idleKube\<lparr>
     k_getDeployment := (\<lambda>h key.
       if (\<exists>e\<in>set h. case e of EPatchDeployment d None \<Rightarrow> executionRecorded d ''exec-1'' | _ \<Rightarrow> False)
       then Inr (annotateRestart ''exec-1'' demoDeployment) else Inr demoDeployment),
     k_patchDeployment := (\<lambda>h d. Inr d)\<rparr>"

definition demoCodec :: codec where
  "demoCodec = \<lparr>cd_sha256 = (\<lambda>s. take 32 (s @ replicate 32 (CHR 0x00))), cd_spec = as_ActionType,
     cd_identity = id_AgentActionUID, cd_baseline = (\<lambda>(t, uid, hs). uid),
     cd_verify = (\<lambda>(uid, i). uid @ i)\<rparr>"

lemma demoRequest_valid [simp]: "validateKubernetesRestartRequest demoRequest = None"
  by (simp add: validateKubernetesRestartRequest_def demoRequest_def demoTarget_def)

lemma demoRequest_fields [simp]:
  "targetKey demoRequest = (''prod'', ''api'')" "rq_ExecutionID demoRequest = ''exec-1''"
  "rq_TargetUID demoRequest = ''u1''"
  by (simp_all add: demoRequest_def demoTarget_def targetKey_def)

lemma demoDeployment_simps [simp]:
  "dep_UID demoDeployment = ''u1''" "\<not> executionRecorded demoDeployment i"
  by (simp_all add: demoDeployment_def executionRecorded_def)

lemma clusterKube_durable: "durablePatches clusterKube key ''u1'' ''exec-1''"
proof -
  have "(\<exists>e\<in>set h. case e of EPatchDeployment d None \<Rightarrow> executionRecorded d ''exec-1'' | _ \<Rightarrow> False)"
    if "EPatchDeployment d None \<in> set h" "executionRecorded d ''exec-1''" for h d
    by (rule bexI [OF _ that(1)]) (simp add: that(2))
  then show ?thesis by (auto simp: durablePatches_def clusterKube_def)
qed

text \<open>C4: the Kubernetes backend patches a Deployment only for a valid rollout-restart request, only
  the object that it has read under the request's namespace and name, only when that object has
  the UID that the request was approved for and does not yet carry the execution identity, and the
  patch changes nothing but the two restart annotations.
\<close>

theorem kubernetes_patch_guarded:
  assumes "EPatchDeployment d e \<in> set (newEvents h (snd (KubernetesExecutor_Execute client k action h)))"
  shows "client \<and> validateKubernetesRestartRequest action = None \<and>
    (\<exists>dep. k_getDeployment k (ETick (k_now k h) # h) (targetKey action) = Inr dep \<and>
       dep_UID dep = rq_TargetUID action \<and>
       \<not> executionRecorded dep (rq_ExecutionID action) \<and>
       d = annotateRestart (rq_ExecutionID action) dep)"
  using assms
  by (simp add: KubernetesExecutor_Execute_def handler_defs Let_def newEvents_def
      split: if_splits option.splits sum.splits)

theorem kubernetes_patch_guarded_witness:
  "\<exists>dep. k_getDeployment clusterKube [ETick second] (targetKey demoRequest) = Inr dep \<and>
     dep_UID dep = ''u1'' \<and> annotateRestart ''exec-1'' demoDeployment = annotateRestart ''exec-1'' dep"
proof -
  have tick0: "k_now clusterKube [] = second"
    by (simp add: clusterKube_def idleKube_def Let_def)
  have read: "k_getDeployment clusterKube (ETick (k_now clusterKube []) # []) (targetKey demoRequest) =
      Inr demoDeployment"
    by (simp add: clusterKube_def)
  obtain t e where "newEvents [] (snd (KubernetesExecutor_Execute True clusterKube demoRequest [])) =
      [ETick t, EPatchDeployment (annotateRestart ''exec-1'' demoDeployment) e,
       EGetDeployment (''prod'', ''api''), ETick (k_now clusterKube [])]"
    using executeEvents_cases(2) [OF demoRequest_valid read] by auto
  then have "EPatchDeployment (annotateRestart ''exec-1'' demoDeployment) e \<in>
      set (newEvents [] (snd (KubernetesExecutor_Execute True clusterKube demoRequest [])))"
    by simp
  from kubernetes_patch_guarded [OF this] tick0 show ?thesis by auto
qed

text \<open>
   with an environment that does not lose patches, once a restart has been applied under an
  execution identity, executing the same request again applies no second patch and reports
  success, and \<^verbatim>\<open>Resolve\<close> recovers the execution as found and succeeded.
\<close>

theorem kubernetes_restart_idempotent:
  assumes durable: "durablePatches k (targetKey action) (rq_TargetUID action) (rq_ExecutionID action)"
    and valid: "validateKubernetesRestartRequest action = None"
    and applied: "EPatchDeployment d None \<in> set h" "executionRecorded d (rq_ExecutionID action)"
  shows "(\<forall>d' e. EPatchDeployment d' e \<notin>
        set (newEvents h (snd (KubernetesExecutor_Execute True k action h)))) \<and>
    res_Outcome (fst (fst (KubernetesExecutor_Execute True k action h))) = ExecutionOutcomeSucceeded \<and>
    snd (fst (KubernetesExecutor_Execute True k action h)) = None \<and>
    (\<exists>res. fst (KubernetesExecutor_Resolve True k action h) = (res, True, None) \<and>
       res_Outcome res = ExecutionOutcomeSucceeded \<and>
       res_ExecutionID res = rq_ExecutionID action)"
proof -
  have read: "\<exists>d'. k_getDeployment k (g @ h) (targetKey action) = Inr d' \<and>
      dep_UID d' = rq_TargetUID action \<and> executionRecorded d' (rq_ExecutionID action)" for g
    using durable applied unfolding durablePatches_def by (metis Un_iff set_append)
  have type: "rq_ActionType action = KubernetesRolloutRestartAction"
    using valid by (simp add: validateKubernetesRestartRequest_def split: if_splits)
  obtain d1 where d1: "k_getDeployment k (ETick (k_now k h) # h) (targetKey action) = Inr d1"
      "dep_UID d1 = rq_TargetUID action" "executionRecorded d1 (rq_ExecutionID action)"
    using read [of "[ETick (k_now k h)]"] by auto
  obtain d2 where d2: "k_getDeployment k h (targetKey action) = Inr d2"
      "dep_UID d2 = rq_TargetUID action" "executionRecorded d2 (rq_ExecutionID action)"
    using read [of "[]"] by auto
  show ?thesis
    using executeEvents_cases(1) [OF valid d1] d1 d2 valid type
    by (auto simp: KubernetesExecutor_Execute_def KubernetesExecutor_Resolve_def handler_defs Let_def)
qed

theorem kubernetes_restart_idempotent_witness:
  "let h = [EPatchDeployment (annotateRestart ''exec-1'' demoDeployment) None] in
   res_Outcome (fst (fst (KubernetesExecutor_Execute True clusterKube demoRequest h))) =
     ExecutionOutcomeSucceeded \<and>
   fst (snd (fst (KubernetesExecutor_Resolve True clusterKube demoRequest h)))"
  using kubernetes_restart_idempotent
    [of clusterKube demoRequest "annotateRestart ''exec-1'' demoDeployment"
        "[EPatchDeployment (annotateRestart ''exec-1'' demoDeployment) None]"]
  by (auto simp: clusterKube_durable Let_def)

text \<open>
   the router rejects an action type without a registered prefix before anything happens, and
  for every other type the first event of the execution is the dispatch of exactly that request,
  after which the backend of the program only reads the clock, reads or patches Deployments and
  posts webhooks.
\<close>

theorem router_dispatch:
  "let t = rq_ActionType rq; r = programRouter cd client url;
       known = (HasPrefix t ''kubernetes.'' \<or> HasPrefix t ''gitops.'' \<or>
                HasPrefix t ''runbook.'' \<or> HasPrefix t ''notification.'') in
   if known
   then (\<exists>g. snd (Router_Execute r k rq h) = g @ EDispatch rq # h \<and> list_all backendEvent g)
   else Router_Execute r k rq h = ((emptyExecutionResult, Some (noExecutor t)), h)"
proof (cases "executorFor (programRouter cd client url) (rq_ActionType rq)")
  case (Inl e)
  then show ?thesis
    by (auto simp: executorFor_def Router_Execute_def Let_def split: if_splits)
next
  case (Inr b)
  from progRouter.execute_known [OF Inr, of h k] Inr show ?thesis
    by (auto simp: executorFor_def emits_def Let_def list_all_iff split: if_splits)
qed

lemma length_hexEncode [simp]: "length (hexEncode s) = 2 * length s"
  by (induction s) (auto simp: hexEncode_def)

text \<open>
   with a 32-byte hash, an execution identity is \<^verbatim>\<open>exec-\<close> with 32 hexadecimal digits, the
  idempotency key has 71 characters, and the identity is determined by the key.
\<close>

theorem execution_identity_shape:
  assumes "length (cd_sha256 cd (cd_identity cd inp)) = 32"
  shows "length (eid_ExecutionID (BuildExecutionIdentity cd inp)) = 37 \<and>
    length (eid_IdempotencyKey (BuildExecutionIdentity cd inp)) = 71 \<and>
    eid_ExecutionID (BuildExecutionIdentity cd inp) =
      ''exec-'' @ take 32 (drop 7 (eid_IdempotencyKey (BuildExecutionIdentity cd inp)))"
  using assms
  by (simp add: BuildExecutionIdentity_def digestString_def TrimPrefix_def Let_def)

theorem execution_identity_shape_witness:
  "length (eid_ExecutionID (BuildExecutionIdentity demoCodec
     \<lparr>id_ActionRef = ''prod/a'', id_AgentActionUID = ''uid-1'', id_Generation = 1, id_ActionIndex = 0,
      id_Target = demoTarget, id_TargetUID = ''u1'', id_ActionDigest = [], id_ActionType = [],
      id_Parameters = Map.empty\<rparr>)) = 37"
  by (rule execution_identity_shape [THEN conjunct1]) (simp add: demoCodec_def)

end
