(* ===== verification/Effectiveness.thy ===== *)
theory Effectiveness
  imports Executor
begin

text \<open>
  \<^verbatim>\<open>internal/controllers/effectiveness.go\<close>: the classification of a remediation from the health
  of the target before and after it and the outcome of the verification investigation.
\<close>

record effectivenessEvaluation =
  ee_Outcome :: string
  ee_Message :: string

definition healthIsHealthy :: "HealthSnapshot \<Rightarrow> bool" where
  "healthIsHealthy s =
     (let desired = hs_DesiredReplicas s in
      if desired \<le> 0 then True
      else if hs_AvailableReplicas s < desired \<or> hs_ReadyReplicas s < desired
              \<or> hs_UpdatedReplicas s < desired then False
      else if hs_Generation s > 0 \<and> hs_ObservedGeneration s < hs_Generation s then False
      else \<not> list_ex (\<lambda>c. (hc_Type c = ''Available'' \<and> hc_Status c = ''False'') \<or>
                         (hc_Type c = ''Progressing'' \<and> hc_Status c = ''False'')) (hs_Conditions s))"

definition toHealthCondition :: "EffectivenessHealthCondition \<Rightarrow> HealthCondition" where
  "toHealthCondition c = \<lparr>hc_Type = ehc_Type c, hc_Status = ehc_Status c, hc_Reason = ehc_Reason c,
     hc_Message = ehc_Message c\<rparr>"

definition healthSnapshotIsHealthy :: "EffectivenessHealthSnapshot \<Rightarrow> bool" where
  "healthSnapshotIsHealthy s = healthIsHealthy
     \<lparr>hs_Generation = ehs_Generation s, hs_ObservedGeneration = ehs_ObservedGeneration s,
      hs_DesiredReplicas = ehs_DesiredReplicas s, hs_UpdatedReplicas = ehs_UpdatedReplicas s,
      hs_AvailableReplicas = ehs_AvailableReplicas s, hs_ReadyReplicas = ehs_ReadyReplicas s,
      hs_Conditions = map toHealthCondition (ehs_Conditions s)\<rparr>"

definition healthImproved :: "EffectivenessHealthSnapshot \<Rightarrow> HealthSnapshot \<Rightarrow> bool" where
  "healthImproved baseline post =
     (if healthIsHealthy post \<and> \<not> healthSnapshotIsHealthy baseline then True
      else hs_AvailableReplicas post > ehs_AvailableReplicas baseline
        \<or> hs_ReadyReplicas post > ehs_ReadyReplicas baseline
        \<or> hs_UpdatedReplicas post > ehs_UpdatedReplicas baseline)"

text \<open>
  The map \<^verbatim>\<open>baselineConditions\<close>: the last condition of each type; a missing key reads as the
  zero condition.
\<close>

definition baselineCondition :: "EffectivenessHealthCondition list \<Rightarrow> string \<Rightarrow> HealthCondition" where
  "baselineCondition cs ty =
     fold (\<lambda>c acc. if ehc_Type c = ty then toHealthCondition c else acc) cs
       \<lparr>hc_Type = [], hc_Status = [], hc_Reason = [], hc_Message = []\<rparr>"

definition conditionRegressed :: "EffectivenessHealthCondition list \<Rightarrow> HealthCondition \<Rightarrow> bool" where
  "conditionRegressed baseline c \<longleftrightarrow>
     (hc_Type c = ''Available'' \<and> hc_Status c = ''False'' \<and>
        hc_Status (baselineCondition baseline (hc_Type c)) \<noteq> ''False'') \<or>
     (hc_Type c = ''Progressing'' \<and> hc_Status c = ''False'' \<and>
        EqualFold (hc_Reason c) ''ProgressDeadlineExceeded'' \<and>
        \<not> EqualFold (hc_Reason (baselineCondition baseline (hc_Type c))) ''ProgressDeadlineExceeded'')"

definition materiallyRegressed :: "EffectivenessHealthSnapshot \<Rightarrow> HealthSnapshot \<Rightarrow> bool" where
  "materiallyRegressed baseline post =
     (if hs_AvailableReplicas post < ehs_AvailableReplicas baseline
         \<or> hs_ReadyReplicas post < ehs_ReadyReplicas baseline
         \<or> hs_UpdatedReplicas post < ehs_UpdatedReplicas baseline then True
      else list_ex (conditionRegressed (ehs_Conditions baseline)) (hs_Conditions post))"

definition evaluateEffectiveness ::
  "EffectivenessBaseline option \<Rightarrow> HealthSnapshot \<Rightarrow> bool \<Rightarrow> InvestigationRequest option
   \<Rightarrow> effectivenessEvaluation" where
  "evaluateEffectiveness baseline post observed verification =
     (let inconclusive = (\<lambda>m. \<lparr>ee_Outcome = EffectivenessOutcomeInconclusive, ee_Message = m\<rparr>);
          ineffective = (\<lambda>m. \<lparr>ee_Outcome = EffectivenessOutcomeIneffective, ee_Message = m\<rparr>) in
      case Option.bind baseline eb_Health of
        None \<Rightarrow> inconclusive ''pre-action health baseline is missing''
      | Some health \<Rightarrow>
        (case verification of
           None \<Rightarrow> inconclusive ''verification investigation is missing''
         | Some v \<Rightarrow>
           if \<not> observed then inconclusive ''post-action health observation is unavailable''
           else if hs_DesiredReplicas post \<noteq> ehs_DesiredReplicas health then
             inconclusive ''target replica intent changed during the verification window''
           else if materiallyRegressed health post then
             \<lparr>ee_Outcome = EffectivenessOutcomeRegressed,
              ee_Message = ''post-action workload health is objectively worse than the pre-action baseline''\<rparr>
           else if iv_Outcome v = InvestigationOutcomeNoIssueFound then
             (if \<not> healthIsHealthy post then
                ineffective ''verification found no new event but the target health is still below the desired state''
              else if \<not> healthImproved health post then
                inconclusive ''verification found no issue but the post-action health did not improve over baseline''
              else \<lparr>ee_Outcome = EffectivenessOutcomeEffective,
                    ee_Message = ''target health improved and the original incident condition was not observed in the verification window''\<rparr>)
           else if iv_Outcome v = InvestigationOutcomeConfirmed then
             ineffective ''the original incident condition remains observed after the action''
           else if iv_Outcome v = InvestigationOutcomeInconclusive
                   \<or> iv_Outcome v = InvestigationOutcomeUnknown then
             inconclusive ''verification evidence was insufficient to establish remediation effectiveness''
           else inconclusive ''verification returned an unsupported outcome''))"

text \<open>
  \<^verbatim>\<open>effectivenessHealthSnapshotFromExecutor\<close> of the action controller, and the inverse of the
  conversion inside \<open>healthSnapshotIsHealthy\<close>.
\<close>

definition effectivenessHealthSnapshotFromExecutor ::
  "HealthSnapshot \<Rightarrow> EffectivenessHealthSnapshot" where
  "effectivenessHealthSnapshotFromExecutor s =
     \<lparr>ehs_Generation = hs_Generation s, ehs_ObservedGeneration = hs_ObservedGeneration s,
      ehs_DesiredReplicas = hs_DesiredReplicas s, ehs_UpdatedReplicas = hs_UpdatedReplicas s,
      ehs_AvailableReplicas = hs_AvailableReplicas s, ehs_ReadyReplicas = hs_ReadyReplicas s,
      ehs_Conditions = map (\<lambda>c. \<lparr>ehc_Type = hc_Type c, ehc_Status = hc_Status c,
         ehc_Reason = hc_Reason c, ehc_Message = hc_Message c\<rparr>) (hs_Conditions s)\<rparr>"

subsection \<open>Properties\<close>

lemma condition_surjective [simp]:
  "\<lparr>hc_Type = hc_Type c, hc_Status = hc_Status c, hc_Reason = hc_Reason c,
     hc_Message = hc_Message c\<rparr> = (c :: HealthCondition)"
  by (cases c) simp

lemma snapshot_roundtrip [simp]:
  "healthSnapshotIsHealthy (effectivenessHealthSnapshotFromExecutor s) = healthIsHealthy s"
  by (cases s)
    (simp add: healthSnapshotIsHealthy_def effectivenessHealthSnapshotFromExecutor_def
      toHealthCondition_def o_def)

lemma healthy_iff:
  "healthIsHealthy s \<longleftrightarrow> hs_DesiredReplicas s \<le> 0 \<or>
     (hs_DesiredReplicas s \<le> hs_AvailableReplicas s \<and> hs_DesiredReplicas s \<le> hs_ReadyReplicas s \<and>
      hs_DesiredReplicas s \<le> hs_UpdatedReplicas s \<and>
      (hs_Generation s \<le> 0 \<or> hs_Generation s \<le> hs_ObservedGeneration s) \<and>
      (\<forall>c\<in>set (hs_Conditions s).
         hc_Type c \<in> {''Available'', ''Progressing''} \<longrightarrow> hc_Status c \<noteq> ''False''))"
  by (simp add: healthIsHealthy_def Let_def list_ex_iff not_less)

lemma evaluate_outcome_cases:
  "ee_Outcome (evaluateEffectiveness b p ob v) \<in>
     {EffectivenessOutcomeEffective, EffectivenessOutcomeIneffective, EffectivenessOutcomeRegressed,
      EffectivenessOutcomeInconclusive}"
  by (simp add: evaluateEffectiveness_def Let_def split: option.split)

text \<open>
   a remediation counts as effective exactly when a health baseline and the verification
  exist, the health was observed afterwards, the desired replica count did not change, the
  investigation found no issue, and the observed health is healthy, not materially worse than the
  baseline, and better than it.
\<close>

theorem effective_iff:
  "ee_Outcome (evaluateEffectiveness baseline post observed verification) =
     EffectivenessOutcomeEffective \<longleftrightarrow>
   (\<exists>health v. Option.bind baseline eb_Health = Some health \<and> verification = Some v \<and> observed \<and>
      hs_DesiredReplicas post = ehs_DesiredReplicas health \<and>
      iv_Outcome v = InvestigationOutcomeNoIssueFound \<and>
      healthIsHealthy post \<and> healthImproved health post \<and> \<not> materiallyRegressed health post)"
  by (simp add: evaluateEffectiveness_def Let_def split: option.split)

text \<open>
   an effective verdict means that something objectively got better.  Either the target was
  below its desired state before the action, or one of the three replica counters is now larger;
  and no replica counter is smaller.
\<close>

theorem effective_means_better:
  assumes "ee_Outcome (evaluateEffectiveness (Some b) post observed verification) =
      EffectivenessOutcomeEffective"
    and "eb_Health b = Some health"
  shows "(\<not> healthSnapshotIsHealthy health
          \<or> hs_AvailableReplicas post > ehs_AvailableReplicas health
          \<or> hs_ReadyReplicas post > ehs_ReadyReplicas health
          \<or> hs_UpdatedReplicas post > ehs_UpdatedReplicas health) \<and>
    hs_AvailableReplicas post \<ge> ehs_AvailableReplicas health \<and>
    hs_ReadyReplicas post \<ge> ehs_ReadyReplicas health \<and>
    hs_UpdatedReplicas post \<ge> ehs_UpdatedReplicas health"
  using assms
  by (auto simp: evaluateEffectiveness_def healthImproved_def materiallyRegressed_def Let_def
      split: option.splits if_splits)

definition demoHealth :: HealthSnapshot where
  "demoHealth = \<lparr>hs_Generation = 4, hs_ObservedGeneration = 4, hs_DesiredReplicas = 2,
     hs_UpdatedReplicas = 2, hs_AvailableReplicas = 2, hs_ReadyReplicas = 2, hs_Conditions = []\<rparr>"

definition demoBaseline :: EffectivenessBaseline where
  "demoBaseline = \<lparr>eb_CapturedAt = Some 1,
     eb_Target = \<lparr>t_Cluster = [], t_Namespace = ''prod'', t_Kind = ''Deployment'', t_Name = ''api'',
       t_APIVersion = ''apps/v1'', t_Service = []\<rparr>,
     eb_TargetUID = ''u1'', eb_RiskSignalRef = None, eb_EvidenceRefs = [],
     eb_Health = Some (effectivenessHealthSnapshotFromExecutor
       (deploymentHealthSnapshot demoDeployment)),
     eb_Digest = [], eb_UnavailableReason = []\<rparr>"

definition demoVerification :: InvestigationRequest where
  "demoVerification = \<lparr>iv_Meta = emptyMeta, iv_Target = eb_Target demoBaseline, iv_Purpose = [],
     iv_Correlation = None, iv_Lookback = 0, iv_Profile = [], iv_Question = [], iv_Queries = [],
     iv_Mode = [], iv_CreateRiskSignal = False, iv_Phase = PhaseCompleted,
     iv_Outcome = InvestigationOutcomeNoIssueFound\<rparr>"

lemma demo_effective:
  "ee_Outcome (evaluateEffectiveness (Some demoBaseline) demoHealth True (Some demoVerification)) =
     EffectivenessOutcomeEffective"
  by (simp add: evaluateEffectiveness_def demoBaseline_def demoHealth_def demoVerification_def
      demoDeployment_def deploymentHealthSnapshot_def effectivenessHealthSnapshotFromExecutor_def
      materiallyRegressed_def healthIsHealthy_def healthImproved_def Let_def)

theorem effective_means_better_witness:
  "hs_AvailableReplicas demoHealth \<ge> 1"
  using effective_means_better [OF demo_effective, of "effectivenessHealthSnapshotFromExecutor
       (deploymentHealthSnapshot demoDeployment)"]
  by (simp add: demoBaseline_def demoHealth_def)

end
