(* ===== verification/Guardrails.thy ===== *)
theory Guardrails
  imports ApiTypes
begin

text \<open>
  The package \<^verbatim>\<open>internal/guardrails\<close>: the legacy allowlist engine (\<^verbatim>\<open>engine.go\<close>) and the
  policy engine (\<^verbatim>\<open>policy_engine.go\<close>) that resolves an \<open>ApprovalPolicy\<close> and falls back to it.
  The API reader's \<open>List\<close> is an argument (its answer), the label-selector semantics is the
  parameter \<open>asSel\<close>.
\<close>

subsection \<open>The legacy engine\<close>

record Policy =
  gp_AllowedActionTypes :: "string list"
  gp_ProtectedNamespaces :: "string list"
  gp_AutoApproveMaxSeverity :: string
  gp_RequireApprovalAtOrAbove :: string

record ReviewInput =
  ri_Resource :: ResourceRef
  ri_Severity :: string
  ri_Remediation :: Remediation
  ri_Environment :: string

definition severityRank :: "string \<Rightarrow> nat" where
  "severityRank severity =
     (if severity = SeverityLow then 1
      else if severity = SeverityMedium then 2
      else if severity = SeverityHigh then 3
      else if severity = SeverityUnsafe then 4
      else 99)"

definition Engine_Evaluate :: "Policy \<Rightarrow> ReviewInput \<Rightarrow> ApprovalDecision" where
  "Engine_Evaluate pol inp =
     (let action = rem_ActionType (ri_Remediation inp); severity = ri_Severity inp in
      if action \<notin> set (gp_AllowedActionTypes pol) then
        \<lparr>ad_Action = ApprovalReject, ad_ApprovedBy = [],
         ad_Reason = ''action type '' @ quote action @ '' is not allowlisted'',
         ad_DryRunResult = []\<rparr>
      else if r_Namespace (ri_Resource inp) \<in> set (gp_ProtectedNamespaces pol)
              \<and> severity = SeverityHigh then
        \<lparr>ad_Action = ApprovalManual, ad_ApprovedBy = [],
         ad_Reason = ''high-severity action against protected namespace requires human approval'',
         ad_DryRunResult = ''dry-run: target exists, policy passes, approval required''\<rparr>
      else
        (let autoApproveMax = (if gp_AutoApproveMaxSeverity pol = [] then SeverityLow
                               else gp_AutoApproveMaxSeverity pol);
             approvalMin = (if gp_RequireApprovalAtOrAbove pol = [] then SeverityMedium
                            else gp_RequireApprovalAtOrAbove pol) in
         if severityRank severity \<le> severityRank autoApproveMax then
           \<lparr>ad_Action = ApprovalAuto, ad_ApprovedBy = ''fluxseer-rca-policy-engine'',
            ad_Reason = ''low-risk recommendation auto approved'',
            ad_DryRunResult = ''dry-run: safe to execute''\<rparr>
         else if severityRank approvalMin \<le> severityRank severity
                 \<and> severity \<noteq> SeverityUnsafe then
           \<lparr>ad_Action = ApprovalManual, ad_ApprovedBy = [],
            ad_Reason = ''severity threshold requires human approval'',
            ad_DryRunResult = ''dry-run: target exists, rollback plan present''\<rparr>
         else
           \<lparr>ad_Action = ApprovalReject, ad_ApprovedBy = [],
            ad_Reason = ''unsafe or unsupported severity'', ad_DryRunResult = []\<rparr>))"

subsection \<open>Policy matching\<close>

record PolicyReviewInput =
  pri_Review :: ReviewInput
  pri_ResourceLabels :: strmap
  pri_NamespaceLabels :: strmap

record PolicyReference =
  pref_APIVersion :: string
  pref_Kind :: string
  pref_Name :: string
  pref_Namespace :: string
  pref_UID :: string
  pref_ResourceVersion :: string
  pref_Generation :: int
  pref_Version :: string
  pref_MatchLevel :: string
  pref_Priority :: int

record PolicyEvaluation =
  pe_Decision :: ApprovalDecision
  pe_Policy :: "PolicyReference option"
  pe_Source :: string
  pe_ApprovalTimeoutSeconds :: int
  pe_Escalation :: "EscalationConfig option"

abbreviation PolicyMatchResource :: string where "PolicyMatchResource \<equiv> ''Resource''"
abbreviation PolicyMatchNamespace :: string where "PolicyMatchNamespace \<equiv> ''Namespace''"
abbreviation PolicyMatchCluster :: string where "PolicyMatchCluster \<equiv> ''Cluster''"
abbreviation policyScopeCluster :: string where "policyScopeCluster \<equiv> ''Cluster''"
abbreviation PolicySourceCRD :: string where "PolicySourceCRD \<equiv> ''ApprovalPolicy''"
abbreviation PolicySourceLegacy :: string where "PolicySourceLegacy \<equiv> ''LegacyGuardrails''"

record policyMatch =
  pm_policy :: ApprovalPolicy
  pm_level :: string
  pm_rank :: nat

text \<open>A nil selector selects nothing here.\<close>

definition policySelectorMatches ::
  "selector_fn \<Rightarrow> LabelSelector option \<Rightarrow> strmap \<Rightarrow> go_error + bool" where
  "policySelectorMatches asSel selector values =
     (case selector of
        None \<Rightarrow> Inr False
      | Some s \<Rightarrow> (case asSel s of Inl e \<Rightarrow> Inl e | Inr m \<Rightarrow> Inr (m values)))"

text \<open>
  \<^verbatim>\<open>matchApprovalPolicy\<close>: \<open>None\<close> is the source's \<open>matched = false\<close>.  The namespace selector is
  read twice in the source; both reads give the same answer.
\<close>

definition matchApprovalPolicy ::
  "selector_fn \<Rightarrow> ApprovalPolicy \<Rightarrow> PolicyReviewInput \<Rightarrow> go_error + (string \<times> nat) option" where
  "matchApprovalPolicy asSel policy inp =
     (let spec = pol_Spec policy;
          targetNS = r_Namespace (ri_Resource (pri_Review inp));
          rest = (case policySelectorMatches asSel (ap_NamespaceSelector spec) (pri_NamespaceLabels inp) of
                    Inl e \<Rightarrow> Inl e
                  | Inr namespaceMatch \<Rightarrow>
                      (let namespaceMatch' =
                         (if ap_Scope spec \<noteq> policyScopeCluster \<and> ap_NamespaceSelector spec = None
                             \<and> om_Namespace (pol_Meta policy) = targetNS
                          then True else namespaceMatch) in
                       if namespaceMatch' then Inr (Some (PolicyMatchNamespace, 2))
                       else if ap_Scope spec = policyScopeCluster
                         then Inr (Some (PolicyMatchCluster, 1))
                       else Inr None)) in
      case policySelectorMatches asSel (ap_ResourceSelector spec) (pri_ResourceLabels inp) of
        Inl e \<Rightarrow> Inl e
      | Inr resourceMatch \<Rightarrow>
          if resourceMatch then
            (case policySelectorMatches asSel (ap_NamespaceSelector spec) (pri_NamespaceLabels inp) of
               Inl e \<Rightarrow> Inl e
             | Inr namespaceMatch \<Rightarrow>
                 if ap_Scope spec = policyScopeCluster
                    \<or> om_Namespace (pol_Meta policy) = targetNS \<or> namespaceMatch
                 then Inr (Some (PolicyMatchResource, 3))
                 else rest)
          else rest)"

definition policyEligible :: "ApprovalPolicy \<Rightarrow> bool" where
  "policyEligible p \<longleftrightarrow>
     \<not> (\<not> ap_Enabled (pol_Spec p) \<or> pol_Phase p = ''Invalid'' \<or> pol_Phase p = ''Disabled'')"

definition policyQName :: "ApprovalPolicy \<Rightarrow> string" where
  "policyQName p = om_Namespace (pol_Meta p) @ ''/'' @ om_Name (pol_Meta p)"

definition policyLess :: "policyMatch \<Rightarrow> policyMatch \<Rightarrow> bool" where
  "policyLess a b =
     (if pm_rank a \<noteq> pm_rank b then pm_rank a > pm_rank b
      else if ap_Priority (pol_Spec (pm_policy a)) \<noteq> ap_Priority (pol_Spec (pm_policy b))
        then ap_Priority (pol_Spec (pm_policy a)) > ap_Priority (pol_Spec (pm_policy b))
      else policyQName (pm_policy a) < policyQName (pm_policy b))"

definition policyCandidate ::
  "selector_fn \<Rightarrow> PolicyReviewInput \<Rightarrow> ApprovalPolicy \<Rightarrow> go_error + policyMatch option" where
  "policyCandidate asSel inp p =
     (case matchApprovalPolicy asSel p inp of
        Inl e \<Rightarrow> Inl (wrapErr (''match ApprovalPolicy '' @ policyQName p @ '': '') e)
      | Inr None \<Rightarrow> Inr None
      | Inr (Some (level, rank)) \<Rightarrow>
          Inr (Some \<lparr>pm_policy = p, pm_level = level, pm_rank = rank\<rparr>))"

definition selectApprovalPolicy ::
  "selector_fn \<Rightarrow> ApprovalPolicy list \<Rightarrow> PolicyReviewInput \<Rightarrow> go_error + policyMatch option" where
  "selectApprovalPolicy asSel policies inp =
     (case collectMatches policyEligible (policyCandidate asSel inp) policies of
        Inl e \<Rightarrow> Inl e
      | Inr [] \<Rightarrow> Inr None
      | Inr (m # ms) \<Rightarrow> Inr (Some (hd (SliceStable policyLess (m # ms)))))"

subsection \<open>Rule evaluation\<close>

definition normalizeSeverity :: "string \<Rightarrow> string" where
  "normalizeSeverity v = ToLower (TrimSpace v)"

definition policySeverityRank :: "string \<Rightarrow> nat" where
  "policySeverityRank v =
     (let n = normalizeSeverity v in
      if n = ''info'' then 1 else if n = ''low'' then 2 else if n = ''medium'' then 3
      else if n = ''high'' then 4 else if n = ''critical'' then 5 else 0)"

definition severityInRange :: "string \<Rightarrow> string \<Rightarrow> string \<Rightarrow> bool" where
  "severityInRange v minimum maximum =
     (let rank = policySeverityRank v in
      if rank = 0 then False
      else if minimum \<noteq> [] \<and> (policySeverityRank minimum = 0 \<or> rank < policySeverityRank minimum)
        then False
      else if maximum \<noteq> [] \<and> (policySeverityRank maximum = 0 \<or> rank > policySeverityRank maximum)
        then False
      else True)"

definition decisionFromRule :: "string \<Rightarrow> string \<Rightarrow> string \<Rightarrow> ApprovalDecision" where
  "decisionFromRule action reason fallbackReason =
     (let r = (if reason = [] then fallbackReason else reason) in
      if action = ApprovalActionAuto then
        \<lparr>ad_Action = ApprovalAuto, ad_ApprovedBy = ''fluxseer-rca-policy-engine'', ad_Reason = r,
         ad_DryRunResult = ''dry-run: policy approved for execution''\<rparr>
      else if action = ApprovalActionReject then
        \<lparr>ad_Action = ApprovalReject, ad_ApprovedBy = [], ad_Reason = r, ad_DryRunResult = []\<rparr>
      else if action = ApprovalActionManual \<or> action = [] then
        \<lparr>ad_Action = ApprovalManual, ad_ApprovedBy = [], ad_Reason = r,
         ad_DryRunResult = ''dry-run: policy requires human approval''\<rparr>
      else
        \<lparr>ad_Action = ApprovalReject, ad_ApprovedBy = [],
         ad_Reason = ''unsupported ApprovalPolicy action '' @ quote action, ad_DryRunResult = []\<rparr>)"

definition evaluatePolicy :: "ApprovalPolicy \<Rightarrow> PolicyReviewInput \<Rightarrow> ApprovalDecision \<times> int" where
  "evaluatePolicy policy inp =
     (let spec = pol_Spec policy;
          actionType = rem_ActionType (ri_Remediation (pri_Review inp));
          severity = normalizeSeverity (ri_Severity (pri_Review inp)) in
      case find (\<lambda>rule. atr_ActionType rule = actionType) (ap_ActionTypeRules spec) of
        Some rule \<Rightarrow>
          (decisionFromRule (atr_Action rule) (atr_Reason rule) ''action type policy rule'',
           ap_DefaultApprovalTimeout spec)
      | None \<Rightarrow>
          (case find (\<lambda>rule. severityInRange severity (sr_MinSeverity rule) (sr_MaxSeverity rule))
                  (ap_SeverityRules spec) of
             Some rule \<Rightarrow>
               (decisionFromRule (sr_Action rule) (sr_Reason rule) ''severity policy rule'',
                if sr_TimeoutSec rule > 0 then sr_TimeoutSec rule
                else ap_DefaultApprovalTimeout spec)
           | None \<Rightarrow>
               (\<lparr>ad_Action = ApprovalManual, ad_ApprovedBy = [],
                 ad_Reason = ''matching ApprovalPolicy has no rule for this action or severity'',
                 ad_DryRunResult = ''dry-run: policy match requires explicit review''\<rparr>,
                ap_DefaultApprovalTimeout spec)))"

definition resourceVersionOr :: "ObjectMeta \<Rightarrow> string" where
  "resourceVersionOr m =
     (if om_ResourceVersion m = [] then ''generation-'' @ itoa (om_Generation m)
      else om_ResourceVersion m)"

definition policyReference :: "ApprovalPolicy \<Rightarrow> string \<Rightarrow> PolicyReference" where
  "policyReference policy level =
     (let m = pol_Meta policy in
      \<lparr>pref_APIVersion = GroupVersionString, pref_Kind = ''ApprovalPolicy'',
       pref_Name = om_Name m, pref_Namespace = om_Namespace m, pref_UID = om_UID m,
       pref_ResourceVersion = om_ResourceVersion m, pref_Generation = om_Generation m,
       pref_Version = resourceVersionOr m, pref_MatchLevel = level,
       pref_Priority = ap_Priority (pol_Spec policy)\<rparr>)"

subsection \<open>The policy engine\<close>

text \<open>
  \<open>legacy\<close> is the possibly nil \<^verbatim>\<open>*Engine\<close>.  \<open>listed\<close> is the reader's answer to
  \<^verbatim>\<open>List(ApprovalPolicyList)\<close>, \<open>None\<close> when the engine has no reader.
\<close>

definition evaluateLegacy :: "Policy option \<Rightarrow> PolicyReviewInput \<Rightarrow> PolicyEvaluation" where
  "evaluateLegacy legacy inp =
     (case legacy of
        None \<Rightarrow>
          \<lparr>pe_Decision = \<lparr>ad_Action = ApprovalManual, ad_ApprovedBy = [],
             ad_Reason = ''no policy engine fallback is configured'', ad_DryRunResult = []\<rparr>,
           pe_Policy = None, pe_Source = PolicySourceLegacy, pe_ApprovalTimeoutSeconds = 0,
           pe_Escalation = None\<rparr>
      | Some pol \<Rightarrow>
          \<lparr>pe_Decision = Engine_Evaluate pol (pri_Review inp),
           pe_Policy = None, pe_Source = PolicySourceLegacy, pe_ApprovalTimeoutSeconds = 0,
           pe_Escalation = None\<rparr>)"

definition PolicyEngine_Evaluate ::
  "selector_fn \<Rightarrow> bool \<Rightarrow> Policy option \<Rightarrow> (go_error + ApprovalPolicy list) option
   \<Rightarrow> PolicyReviewInput \<Rightarrow> go_error + PolicyEvaluation" where
  "PolicyEngine_Evaluate asSel enabled legacy listed inp =
     (if \<not> enabled then Inr (evaluateLegacy legacy inp)
      else case listed of
        None \<Rightarrow> Inl (Errorf ''policy engine requires a Kubernetes reader when enabled'')
      | Some (Inl e) \<Rightarrow> Inl (wrapErr ''list ApprovalPolicy resources: '' e)
      | Some (Inr policies) \<Rightarrow>
          (case selectApprovalPolicy asSel policies inp of
             Inl e \<Rightarrow> Inl e
           | Inr None \<Rightarrow> Inr (evaluateLegacy legacy inp)
           | Inr (Some matched) \<Rightarrow>
               (let (decision, timeout) = evaluatePolicy (pm_policy matched) inp in
                Inr \<lparr>pe_Decision = decision,
                     pe_Policy = Some (policyReference (pm_policy matched) (pm_level matched)),
                     pe_Source = PolicySourceCRD,
                     pe_ApprovalTimeoutSeconds = timeout,
                     pe_Escalation = ap_Escalation (pol_Spec (pm_policy matched))\<rparr>)))"

subsection \<open>The order of candidates\<close>

interpretation policyOrder: precedence policyLess
proof
  fix x y z :: policyMatch
  show "policyLess x y \<Longrightarrow> \<not> policyLess y x"
    by (auto simp: policyLess_def split: if_splits)
  show "policyLess x y \<Longrightarrow> policyLess y z \<Longrightarrow> policyLess x z"
    by (auto simp: policyLess_def split: if_splits)
  show "\<not> policyLess x y \<Longrightarrow> \<not> policyLess y x \<Longrightarrow> \<not> policyLess y z \<Longrightarrow> \<not> policyLess z y
      \<Longrightarrow> \<not> policyLess x z"
    by (auto simp: policyLess_def split: if_splits)
qed

lemma matchApprovalPolicy_rank:
  "matchApprovalPolicy asSel p inp = Inr (Some (level, rank)) \<Longrightarrow>
   (level, rank) \<in> {(PolicyMatchResource, 3), (PolicyMatchNamespace, 2), (PolicyMatchCluster, 1)}"
  by (auto simp: matchApprovalPolicy_def Let_def split: sum.splits if_splits)

lemma policyCandidate_policy:
  "policyCandidate asSel inp p = Inr (Some m) \<Longrightarrow>
   pm_policy m = p \<and> matchApprovalPolicy asSel p inp = Inr (Some (pm_level m, pm_rank m))"
  by (auto simp: policyCandidate_def split: sum.splits option.splits)

lemma selectApprovalPolicy_in:
  assumes "selectApprovalPolicy asSel policies inp = Inr (Some m)"
  obtains ms where "collectMatches policyEligible (policyCandidate asSel inp) policies = Inr ms"
    and "ms \<noteq> []" and "m = hd (SliceStable policyLess ms)" and "m \<in> set ms"
proof -
  from assms obtain x xs where
    c: "collectMatches policyEligible (policyCandidate asSel inp) policies = Inr (x # xs)"
    and m: "m = hd (SliceStable policyLess (x # xs))"
    by (auto simp: selectApprovalPolicy_def split: sum.splits list.splits)
  then show ?thesis
    using that policyOrder.hd_SliceStable_in [of "x # xs"] by auto
qed


subsection \<open>Properties\<close>

text \<open>
   the policy engine judges a remediation by the best candidate: an enabled policy, not marked
  invalid or disabled, that matches the input, such that no other such policy matches at a higher
  level, nor at the same level with a higher priority, nor at the same level and priority with a
  smaller qualified name.
\<close>

theorem select_policy_best:
  assumes "selectApprovalPolicy asSel policies inp = Inr (Some m)"
  shows "pm_policy m \<in> set policies \<and> policyEligible (pm_policy m)
    \<and> matchApprovalPolicy asSel (pm_policy m) inp = Inr (Some (pm_level m, pm_rank m))
    \<and> (\<forall>p\<in>set policies. \<forall>level rank. policyEligible p
         \<and> matchApprovalPolicy asSel p inp = Inr (Some (level, rank)) \<longrightarrow>
         rank \<le> pm_rank m
         \<and> (rank = pm_rank m \<longrightarrow>
              ap_Priority (pol_Spec p) \<le> ap_Priority (pol_Spec (pm_policy m)))
         \<and> (rank = pm_rank m \<and> ap_Priority (pol_Spec p) = ap_Priority (pol_Spec (pm_policy m))
              \<longrightarrow> policyQName (pm_policy m) \<le> policyQName p))"
proof -
  obtain ms where c: "collectMatches policyEligible (policyCandidate asSel inp) policies = Inr ms"
    and ne: "ms \<noteq> []" and m: "m = hd (SliceStable policyLess ms)" "m \<in> set ms"
    using selectApprovalPolicy_in [OF assms] .
  note s = collectMatches_set [OF c]
  have "rank \<le> pm_rank m
      \<and> (rank = pm_rank m \<longrightarrow> ap_Priority (pol_Spec p) \<le> ap_Priority (pol_Spec (pm_policy m)))
      \<and> (rank = pm_rank m \<and> ap_Priority (pol_Spec p) = ap_Priority (pol_Spec (pm_policy m))
           \<longrightarrow> policyQName (pm_policy m) \<le> policyQName p)"
    if "p \<in> set policies" "policyEligible p"
      "matchApprovalPolicy asSel p inp = Inr (Some (level, rank))" for p level rank
  proof -
    let ?c = "\<lparr>pm_policy = p, pm_level = level, pm_rank = rank\<rparr>"
    have "?c \<in> set ms" using that unfolding s by (auto simp: policyCandidate_def)
    then have "\<not> policyLess ?c m" using m(1) ne policyOrder.hd_SliceStable_least by blast
    then show ?thesis by (auto simp: policyLess_def split: if_splits)
  qed
  moreover have "pm_policy m \<in> set policies \<and> policyEligible (pm_policy m)
      \<and> matchApprovalPolicy asSel (pm_policy m) inp = Inr (Some (pm_level m, pm_rank m))"
    using m(2) unfolding s by (auto dest: policyCandidate_policy)
  ultimately show ?thesis by blast
qed

definition demoPolicy :: "string \<Rightarrow> int \<Rightarrow> ActionTypeRule list \<Rightarrow> ApprovalPolicy" where
  "demoPolicy name prio rules =
     \<lparr>pol_Meta = emptyMeta\<lparr>om_Name := name, om_Namespace := ''prod'', om_ResourceVersion := ''7''\<rparr>,
      pol_Spec = \<lparr>ap_Scope = [], ap_ResourceSelector = None, ap_NamespaceSelector = None,
        ap_ActionTypeRules = rules, ap_SeverityRules = [], ap_DefaultApprovalTimeout = 3600,
        ap_Escalation = None, ap_Priority = prio, ap_Enabled = True\<rparr>, pol_Phase = ''Valid''\<rparr>"

definition demoReview :: "string \<Rightarrow> string \<Rightarrow> PolicyReviewInput" where
  "demoReview action severity =
     \<lparr>pri_Review = \<lparr>ri_Resource = \<lparr>r_Cluster = [], r_Namespace = ''prod'', r_Kind = ''Deployment'',
          r_Name = ''web'', r_APIVersion = ''apps/v1'', r_Service = []\<rparr>,
        ri_Severity = severity, ri_Remediation = \<lparr>rem_ActionType = action, rem_Description = [],
          rem_Parameters = Map.empty, rem_RollbackPlan = []\<rparr>, ri_Environment = []\<rparr>,
      pri_ResourceLabels = Map.empty, pri_NamespaceLabels = Map.empty\<rparr>"

lemmas demo_policy_defs = demoPolicy_def demoReview_def emptyMeta_def
lemmas select_defs = selectApprovalPolicy_def policyEligible_def policyCandidate_def
  matchApprovalPolicy_def policySelectorMatches_def SliceStable_def policyLess_def policyQName_def

lemma demoPolicy_selected:
  "selectApprovalPolicy (\<lambda>_. Inr (\<lambda>_. True)) [demoPolicy ''a'' 1 [], demoPolicy ''b'' 4 []]
     (demoReview ''x'' ''low'')
   = Inr (Some \<lparr>pm_policy = demoPolicy ''b'' 4 [], pm_level = PolicyMatchNamespace, pm_rank = 2\<rparr>)"
  by (simp add: select_defs demo_policy_defs)

theorem select_policy_best_witness:
  "ap_Priority (pol_Spec (demoPolicy ''a'' 1 [])) \<le> ap_Priority (pol_Spec (demoPolicy ''b'' 4 []))"
  using select_policy_best [OF demoPolicy_selected]
  by (simp add: select_defs demo_policy_defs)

text \<open>
   the selected policy does not depend on the order in which the API server lists the
  policies, as long as qualified names are unique and selectors are valid.
\<close>

theorem select_policy_list_order:
  assumes "set policies = set policies'" and "inj_on policyQName (set policies)"
    and "\<And>s. \<not> isl (asSel s)"
  shows "selectApprovalPolicy asSel policies inp = selectApprovalPolicy asSel policies' inp"
proof -
  let ?match = "policyCandidate asSel inp"
  have ok: "\<not> isl (?match p)" for p
    using assms(3) by (auto simp: policyCandidate_def matchApprovalPolicy_def
        policySelectorMatches_def Let_def isl_def split: sum.splits option.splits if_splits)
  obtain xs ys where xs: "collectMatches policyEligible ?match policies = Inr xs"
    and ys: "collectMatches policyEligible ?match policies' = Inr ys"
    using collectMatches_total [of policies policyEligible ?match]
      collectMatches_total [of policies' policyEligible ?match] ok by blast
  have eq: "set xs = set ys"
    using collectMatches_set [OF xs] collectMatches_set [OF ys] assms(1) by simp
  have tot: "policyLess a b \<or> policyLess b a" if "a \<in> set xs" "b \<in> set xs" "a \<noteq> b" for a b
  proof -
    from that collectMatches_set [OF xs] obtain p q where
      p: "p \<in> set policies" "?match p = Inr (Some a)" and q: "q \<in> set policies" "?match q = Inr (Some b)"
      by auto
    then have "pm_policy a \<noteq> pm_policy b"
      using that(3) by (metis policyCandidate_policy sum.inject(2) option.inject)
    then have "policyQName (pm_policy a) \<noteq> policyQName (pm_policy b)"
      using p q assms(2) by (metis inj_onD policyCandidate_policy)
    then show ?thesis by (auto simp: policyLess_def)
  qed
  have "xs \<noteq> [] \<Longrightarrow> hd (SliceStable policyLess xs) = hd (SliceStable policyLess ys)"
    using policyOrder.hd_SliceStable_set_eq [OF eq] tot by blast
  with eq xs ys show ?thesis
    by (auto simp: selectApprovalPolicy_def split: list.splits)
qed

theorem select_policy_list_order_witness:
  "selectApprovalPolicy (\<lambda>_. Inr (\<lambda>_. True)) [demoPolicy ''b'' 4 [], demoPolicy ''a'' 1 []]
     (demoReview ''x'' ''low'')
   = Inr (Some \<lparr>pm_policy = demoPolicy ''b'' 4 [], pm_level = PolicyMatchNamespace, pm_rank = 2\<rparr>)"
proof -
  have "selectApprovalPolicy (\<lambda>_. Inr (\<lambda>_. True)) [demoPolicy ''b'' 4 [], demoPolicy ''a'' 1 []]
      (demoReview ''x'' ''low'')
    = selectApprovalPolicy (\<lambda>_. Inr (\<lambda>_. True)) [demoPolicy ''a'' 1 [], demoPolicy ''b'' 4 []]
      (demoReview ''x'' ''low'')"
    by (rule select_policy_list_order) (auto simp: policyQName_def demo_policy_defs)
  then show ?thesis by (simp add: demoPolicy_selected)
qed


lemma demo_auto_evaluated:
  "PolicyEngine_Evaluate (\<lambda>_. Inr (\<lambda>_. True)) True None
     (Some (Inr [demoPolicy ''a'' 1 [\<lparr>atr_ActionType = ''x'', atr_Action = ''auto'', atr_Reason = []\<rparr>]]))
     (demoReview ''x'' ''low'')
   = Inr \<lparr>pe_Decision = \<lparr>ad_Action = ApprovalAuto, ad_ApprovedBy = ''fluxseer-rca-policy-engine'',
        ad_Reason = ''action type policy rule'',
        ad_DryRunResult = ''dry-run: policy approved for execution''\<rparr>,
      pe_Policy = Some (policyReference (demoPolicy ''a'' 1
        [\<lparr>atr_ActionType = ''x'', atr_Action = ''auto'', atr_Reason = []\<rparr>]) ''Namespace''),
      pe_Source = PolicySourceCRD, pe_ApprovalTimeoutSeconds = 3600, pe_Escalation = None\<rparr>"
  by (simp add: PolicyEngine_Evaluate_def select_defs demo_policy_defs evaluatePolicy_def
      decisionFromRule_def)


text \<open>
   a maximum auto-approval severity that is not one of the four known severities ranks 99 and
  so auto-approves every allowlisted action whatever its severity, except a high-severity one in
  a protected namespace: with \<open>Low\<close> in place of \<open>low\<close>, an \<open>unsafe\<close> action is auto-approved.
\<close>

theorem legacy_unknown_maximum_fails_open:
  assumes "gp_AutoApproveMaxSeverity pol \<notin> {[], SeverityLow, SeverityMedium, SeverityHigh, SeverityUnsafe}"
    and "rem_ActionType (ri_Remediation inp) \<in> set (gp_AllowedActionTypes pol)"
    and "ri_Severity inp \<noteq> SeverityHigh"
  shows "ad_Action (Engine_Evaluate pol inp) = ApprovalAuto"
proof -
  have "severityRank (gp_AutoApproveMaxSeverity pol) = 99"
    using assms(1) by (simp add: severityRank_def)
  moreover have "severityRank (ri_Severity inp) \<le> 99" by (simp add: severityRank_def)
  ultimately show ?thesis using assms by (simp add: Engine_Evaluate_def Let_def)
qed

theorem legacy_unknown_maximum_fails_open_witness:
  "ad_Action (Engine_Evaluate \<lparr>gp_AllowedActionTypes = [''x''], gp_ProtectedNamespaces = [''prod''],
      gp_AutoApproveMaxSeverity = ''Low'', gp_RequireApprovalAtOrAbove = ''medium''\<rparr>
      (pri_Review (demoReview ''x'' SeverityUnsafe))) = ApprovalAuto"
  by (rule legacy_unknown_maximum_fails_open) (simp_all add: demoReview_def)

text \<open>
   with the maximum set to a known severity below \<open>unsafe\<close>, the legacy engine never
  auto-approves an \<open>unsafe\<close> or unknown severity, and never acts on an action type that is not
  allowlisted.
\<close>

theorem legacy_known_maximum_safe:
  assumes "gp_AutoApproveMaxSeverity pol \<in> {[], SeverityLow, SeverityMedium, SeverityHigh}"
    and "ad_Action (Engine_Evaluate pol inp) = ApprovalAuto"
  shows "ri_Severity inp \<in> {SeverityLow, SeverityMedium, SeverityHigh}
    \<and> rem_ActionType (ri_Remediation inp) \<in> set (gp_AllowedActionTypes pol)"
proof -
  let ?max = "if gp_AutoApproveMaxSeverity pol = [] then SeverityLow
    else gp_AutoApproveMaxSeverity pol"
  have allowed: "rem_ActionType (ri_Remediation inp) \<in> set (gp_AllowedActionTypes pol)"
    and le: "severityRank (ri_Severity inp) \<le> severityRank ?max"
    using assms(2) by (simp_all add: Engine_Evaluate_def Let_def split: if_splits)
  have "severityRank ?max \<le> 3" using assms(1) by (elim insertE) (simp_all add: severityRank_def)
  with le have "severityRank (ri_Severity inp) \<le> 3" by linarith
  then show ?thesis using allowed by (simp add: severityRank_def split: if_splits)
qed

theorem legacy_known_maximum_safe_witness:
  "ri_Severity (pri_Review (demoReview ''x'' ''low'')) \<in> {SeverityLow, SeverityMedium, SeverityHigh}"
  using legacy_known_maximum_safe [of "\<lparr>gp_AllowedActionTypes = [''x''], gp_ProtectedNamespaces = [],
      gp_AutoApproveMaxSeverity = [], gp_RequireApprovalAtOrAbove = []\<rparr>"
      "pri_Review (demoReview ''x'' ''low'')"]
  by (simp add: Engine_Evaluate_def severityRank_def demoReview_def)

end
