(* ===== verification/Escalation.thy ===== *)
theory Escalation
  imports Guardrails
begin

text \<open>
  The package \<^verbatim>\<open>internal/escalation\<close>: resolution of the \<open>EscalationChain\<close> for a resource, by
  explicit reference or by label selector.  The answers of the API reader (\<open>List\<close>, \<open>Get\<close>) are
  arguments.
\<close>

record EscalationResolveRequest =
  erq_Namespace :: string
  erq_EscalationChainRef :: string
  erq_ResourceLabels :: strmap

record ChainReference =
  cref_APIVersion :: string
  cref_Kind :: string
  cref_Name :: string
  cref_Namespace :: string
  cref_UID :: string
  cref_ResourceVersion :: string
  cref_Generation :: int
  cref_Version :: string
  cref_Priority :: int

record Route =
  rt_Chain :: EscalationChain
  rt_Reference :: ChainReference

text \<open>
  The reader: \<open>cr_List ns\<close> is the answer to \<^verbatim>\<open>List(InNamespace(ns))\<close>, \<open>cr_Get ns name\<close> the
  answer to \<^verbatim>\<open>Get\<close>.
\<close>

record chain_reader =
  cr_List :: "string \<Rightarrow> go_error + EscalationChain list"
  cr_Get :: "string \<Rightarrow> string \<Rightarrow> go_error + EscalationChain"

definition chainEligible :: "EscalationChain \<Rightarrow> bool" where
  "chainEligible c \<longleftrightarrow>
     \<not> (\<not> chs_Enabled (ch_Spec c) \<or> ch_Phase c = ''Invalid'' \<or> ch_Phase c = ''Disabled'')"

text \<open>A nil selector selects every resource here.\<close>

definition chainSelectorMatches ::
  "selector_fn \<Rightarrow> LabelSelector option \<Rightarrow> strmap \<Rightarrow> go_error + bool" where
  "chainSelectorMatches asSel selector values =
     (case selector of
        None \<Rightarrow> Inr True
      | Some s \<Rightarrow> (case asSel s of Inl e \<Rightarrow> Inl e | Inr m \<Rightarrow> Inr (m values)))"

definition chainQName :: "EscalationChain \<Rightarrow> string" where
  "chainQName c = om_Namespace (ch_Meta c) @ ''/'' @ om_Name (ch_Meta c)"

definition chainCandidate ::
  "selector_fn \<Rightarrow> strmap \<Rightarrow> EscalationChain \<Rightarrow> go_error + EscalationChain option" where
  "chainCandidate asSel values c =
     (case chainSelectorMatches asSel (chs_ResourceSelector (ch_Spec c)) values of
        Inl e \<Rightarrow> Inl (wrapErr (''match EscalationChain '' @ chainQName c @ '': '') e)
      | Inr matched \<Rightarrow> Inr (if matched then Some c else None))"

definition chainSpecific :: "EscalationChain \<Rightarrow> bool" where
  "chainSpecific c \<longleftrightarrow> chs_ResourceSelector (ch_Spec c) \<noteq> None"

definition chainLess :: "EscalationChain \<Rightarrow> EscalationChain \<Rightarrow> bool" where
  "chainLess a b =
     (if chs_Priority (ch_Spec a) \<noteq> chs_Priority (ch_Spec b)
        then chs_Priority (ch_Spec a) > chs_Priority (ch_Spec b)
      else if chainSpecific a \<noteq> chainSpecific b then chainSpecific a
      else om_Name (ch_Meta a) < om_Name (ch_Meta b))"

definition routeForChain :: "EscalationChain \<Rightarrow> Route" where
  "routeForChain c =
     (let m = ch_Meta c in
      \<lparr>rt_Chain = c,
       rt_Reference =
         \<lparr>cref_APIVersion = GroupVersionString, cref_Kind = ''EscalationChain'',
          cref_Name = om_Name m, cref_Namespace = om_Namespace m, cref_UID = om_UID m,
          cref_ResourceVersion = om_ResourceVersion m, cref_Generation = om_Generation m,
          cref_Version = resourceVersionOr m, cref_Priority = chs_Priority (ch_Spec c)\<rparr>\<rparr>)"

definition resolveReference ::
  "chain_reader \<Rightarrow> string \<Rightarrow> string \<Rightarrow> go_error + Route option" where
  "resolveReference rd ns name =
     (case cr_Get rd ns name of
        Inl e \<Rightarrow>
          if IsNotFound e
          then Inl (Errorf (''referenced EscalationChain '' @ ns @ ''/'' @ name @ '' was not found''))
          else Inl (wrapErr (''get EscalationChain '' @ ns @ ''/'' @ name @ '': '') e)
      | Inr chain \<Rightarrow>
          if \<not> chainEligible chain
          then Inl (Errorf (''referenced EscalationChain '' @ ns @ ''/'' @ name
                  @ '' is disabled or invalid''))
          else Inr (Some (routeForChain chain)))"

definition Router_Resolve_chain ::
  "selector_fn \<Rightarrow> chain_reader option \<Rightarrow> EscalationResolveRequest \<Rightarrow> go_error + Route option" where
  "Router_Resolve_chain asSel reader req =
     (case reader of
        None \<Rightarrow> Inl (Errorf ''escalation router requires a Kubernetes reader'')
      | Some rd \<Rightarrow>
          if erq_EscalationChainRef req \<noteq> []
          then resolveReference rd (erq_Namespace req) (erq_EscalationChainRef req)
          else
            (case cr_List rd (erq_Namespace req) of
               Inl e \<Rightarrow> Inl (wrapErr (''list EscalationChain resources in namespace ''
                           @ quote (erq_Namespace req) @ '': '') e)
             | Inr chs \<Rightarrow>
                 (case collectMatches chainEligible (chainCandidate asSel (erq_ResourceLabels req)) chs of
                    Inl e \<Rightarrow> Inl e
                  | Inr [] \<Rightarrow> Inr None
                  | Inr (c # cs) \<Rightarrow>
                      Inr (Some (routeForChain (hd (SliceStable chainLess (c # cs))))))))"

definition ResolveForPolicy ::
  "selector_fn \<Rightarrow> chain_reader option \<Rightarrow> string \<Rightarrow> EscalationConfig option \<Rightarrow> strmap
   \<Rightarrow> go_error + Route option" where
  "ResolveForPolicy asSel reader ns config labels =
     (case config of
        None \<Rightarrow> Inr None
      | Some c \<Rightarrow> Router_Resolve_chain asSel reader
          \<lparr>erq_Namespace = ns, erq_EscalationChainRef = ec_EscalationChainRef c,
           erq_ResourceLabels = labels\<rparr>)"

interpretation chainOrder: precedence chainLess
proof
  fix x y z :: EscalationChain
  show "chainLess x y \<Longrightarrow> \<not> chainLess y x"
    by (auto simp: chainLess_def split: if_splits)
  show "chainLess x y \<Longrightarrow> chainLess y z \<Longrightarrow> chainLess x z"
    by (auto simp: chainLess_def split: if_splits)
  show "\<not> chainLess x y \<Longrightarrow> \<not> chainLess y x \<Longrightarrow> \<not> chainLess y z \<Longrightarrow> \<not> chainLess z y
      \<Longrightarrow> \<not> chainLess x z"
    by (auto simp: chainLess_def split: if_splits)
qed

lemma chainCandidate_Some:
  "chainCandidate asSel values c = Inr (Some d) \<longleftrightarrow>
   d = c \<and> chainSelectorMatches asSel (chs_ResourceSelector (ch_Spec c)) values = Inr True"
  by (auto simp: chainCandidate_def split: sum.splits)

lemma rt_Chain_routeForChain [simp]: "rt_Chain (routeForChain c) = c"
  by (simp add: routeForChain_def Let_def)

text \<open>
   a route resolved by selector leads to an eligible chain of the request's namespace whose
  selector matches the resource, and no other eligible matching chain precedes it (higher
  priority, then an explicit selector, then the smaller name).
\<close>

theorem escalation_best_chain:
  assumes "Router_Resolve_chain asSel (Some rd) req = Inr (Some route)"
    and "erq_EscalationChainRef req = []"
    and "cr_List rd (erq_Namespace req) = Inr chs"
  shows "rt_Chain route \<in> set chs \<and> chainEligible (rt_Chain route)
    \<and> chainSelectorMatches asSel (chs_ResourceSelector (ch_Spec (rt_Chain route)))
        (erq_ResourceLabels req) = Inr True
    \<and> (\<forall>c\<in>set chs. chainEligible c
         \<and> chainSelectorMatches asSel (chs_ResourceSelector (ch_Spec c)) (erq_ResourceLabels req)
             = Inr True
         \<longrightarrow> \<not> chainLess c (rt_Chain route))"
proof -
  from assms obtain x xs where
    c: "collectMatches chainEligible (chainCandidate asSel (erq_ResourceLabels req)) chs
          = Inr (x # xs)"
    and r: "rt_Chain route = hd (SliceStable chainLess (x # xs))"
    by (auto simp: Router_Resolve_chain_def split: sum.splits list.splits)
  note s = collectMatches_set [OF c]
  have "rt_Chain route \<in> set (x # xs)"
    using r chainOrder.hd_SliceStable_in [of "x # xs"] by simp
  then show ?thesis
    using r s chainOrder.hd_SliceStable_least [of "x # xs"] by (auto simp: chainCandidate_Some)
qed

definition demoChain :: "string \<Rightarrow> int \<Rightarrow> bool \<Rightarrow> EscalationChain" where
  "demoChain name prio enabled =
     \<lparr>ch_Meta = emptyMeta\<lparr>om_Name := name, om_Namespace := ''ops''\<rparr>,
      ch_Spec = \<lparr>chs_ResourceSelector = None, chs_Priority = prio, chs_Stages = [],
        chs_Enabled = enabled\<rparr>, ch_Phase = ''Valid''\<rparr>"

definition demoChainReader :: chain_reader where
  "demoChainReader =
     \<lparr>cr_List = (\<lambda>ns. Inr [demoChain ''a'' 1 True, demoChain ''b'' 9 False, demoChain ''c'' 5 True]),
      cr_Get = (\<lambda>ns n. Inl \<lparr>errKind = NotFound, errText = ''gone''\<rparr>)\<rparr>"

definition demoChainRequest :: EscalationResolveRequest where
  "demoChainRequest = \<lparr>erq_Namespace = ''ops'', erq_EscalationChainRef = [],
     erq_ResourceLabels = Map.empty\<rparr>"

lemma demoChain_resolved:
  "Router_Resolve_chain (\<lambda>_. Inr (\<lambda>_. True)) (Some demoChainReader) demoChainRequest
     = Inr (Some (routeForChain (demoChain ''c'' 5 True)))"
  by (simp add: Router_Resolve_chain_def demoChainRequest_def demoChainReader_def demoChain_def
      chainEligible_def chainCandidate_def chainSelectorMatches_def SliceStable_def chainLess_def)

theorem escalation_best_chain_witness:
  "\<not> chainLess (demoChain ''a'' 1 True) (rt_Chain (routeForChain (demoChain ''c'' 5 True)))"
  using escalation_best_chain [OF demoChain_resolved, of
      "[demoChain ''a'' 1 True, demoChain ''b'' 9 False, demoChain ''c'' 5 True]"]
  by (simp add: demoChainRequest_def demoChainReader_def demoChain_def chainEligible_def
      chainSelectorMatches_def)

text \<open>
   when the chains of a namespace have different names and valid selectors, the resolved route
  does not depend on the order in which the API server lists them.
\<close>

theorem escalation_list_order:
  assumes "cr_List rd (erq_Namespace req) = Inr chs"
    and "cr_List rd' (erq_Namespace req) = Inr chs'"
    and "set chs = set chs'"
    and "inj_on (\<lambda>c. om_Name (ch_Meta c)) (set chs)"
    and "\<And>s. \<not> isl (asSel s)"
    and "erq_EscalationChainRef req = []"
  shows "Router_Resolve_chain asSel (Some rd) req = Router_Resolve_chain asSel (Some rd') req"
proof -
  let ?match = "chainCandidate asSel (erq_ResourceLabels req)"
  let ?col = "collectMatches chainEligible ?match"
  have ok: "\<not> isl (?match c)" for c
    using assms(5) by (auto simp: chainCandidate_def chainSelectorMatches_def isl_def
        split: sum.splits option.splits)
  obtain xs ys where xs: "?col chs = Inr xs" and ys: "?col chs' = Inr ys"
    using collectMatches_total [of chs chainEligible ?match]
      collectMatches_total [of chs' chainEligible ?match] ok by blast
  have eq: "set xs = set ys"
    using collectMatches_set [OF xs] collectMatches_set [OF ys] assms(3) by simp
  have sub: "set xs \<subseteq> set chs"
    using collectMatches_set [OF xs] by (auto simp: chainCandidate_Some)
  have tot: "chainLess a b \<or> chainLess b a" if "a \<in> set xs" "b \<in> set xs" "a \<noteq> b" for a b
  proof -
    have "om_Name (ch_Meta a) \<noteq> om_Name (ch_Meta b)"
      using assms(4) that sub by (auto dest: inj_onD)
    then show ?thesis by (auto simp: chainLess_def)
  qed
  have "xs \<noteq> [] \<Longrightarrow> hd (SliceStable chainLess xs) = hd (SliceStable chainLess ys)"
    using chainOrder.hd_SliceStable_set_eq [OF eq] tot by blast
  with eq xs ys assms show ?thesis
    by (auto simp: Router_Resolve_chain_def split: list.splits)
qed

theorem escalation_list_order_witness:
  "Router_Resolve_chain (\<lambda>_. Inr (\<lambda>_. True)) (Some (demoChainReader\<lparr>cr_List :=
       (\<lambda>ns. Inr [demoChain ''c'' 5 True, demoChain ''b'' 9 False, demoChain ''a'' 1 True])\<rparr>))
     demoChainRequest = Inr (Some (routeForChain (demoChain ''c'' 5 True)))"
proof -
  let ?rd = "demoChainReader\<lparr>cr_List :=
       (\<lambda>ns. Inr [demoChain ''c'' 5 True, demoChain ''b'' 9 False, demoChain ''a'' 1 True])\<rparr>"
  have "Router_Resolve_chain (\<lambda>_. Inr (\<lambda>_. True)) (Some ?rd) demoChainRequest
      = Router_Resolve_chain (\<lambda>_. Inr (\<lambda>_. True)) (Some demoChainReader) demoChainRequest"
    by (rule escalation_list_order
        [where chs = "[demoChain ''c'' 5 True, demoChain ''b'' 9 False, demoChain ''a'' 1 True]"
           and chs' = "[demoChain ''a'' 1 True, demoChain ''b'' 9 False, demoChain ''c'' 5 True]"])
      (auto simp: demoChainReader_def demoChainRequest_def demoChain_def)
  then show ?thesis by (simp add: demoChain_resolved)
qed

end
