(* ===== verification/AgentActionController.thy ===== *)
theory AgentActionController
  imports Effectiveness Escalation
begin

text \<open>
  \<^verbatim>\<open>internal/controllers/agentaction_controller.go\<close>: the state machine that takes an approved
  \<open>AgentAction\<close> through its execution, waits for approval and escalates, recovers uncertain
  executions, verifies the effect and finally deletes expired actions.

  Every operation is a function of the environment and the history that returns the result of
  the reconcile and the extended history.  Each read of the clock is a \<open>tick\<close> at the place where
  the code evaluates \<^verbatim>\<open>now()\<close>.  After \<^verbatim>\<open>Status().Update\<close> the object is the one that the API
  server answered.  A nil dereference is the outcome \<open>Panicked\<close>.
\<close>

subsection \<open>Constants and events\<close>

abbreviation annotationTargetUID :: string where
  "annotationTargetUID \<equiv> ''fluxseer-rca.aiops.platform/target-uid''"
abbreviation annotationRiskSignalRef :: string where
  "annotationRiskSignalRef \<equiv> ''fluxseer-rca.aiops.platform/risk-signal-ref''"
abbreviation annotationEscalationChainRef :: string where
  "annotationEscalationChainRef \<equiv> ''fluxseer-rca.aiops.platform/escalation-chain-ref''"
abbreviation retainAnnotation :: string where
  "retainAnnotation \<equiv> ''fluxseer-rca.aiops.platform/retain''"
abbreviation labelManagedBy :: string where
  "labelManagedBy \<equiv> ''fluxseer-rca.aiops.platform/managed-by''"
abbreviation annotationLineageSource :: string where
  "annotationLineageSource \<equiv> ''fluxseer-rca.aiops.platform/lineage-source''"
abbreviation annotationLineageSourceKind :: string where
  "annotationLineageSourceKind \<equiv> ''fluxseer-rca.aiops.platform/lineage-source-kind''"
abbreviation annotationLineageSourceAPI :: string where
  "annotationLineageSourceAPI \<equiv> ''fluxseer-rca.aiops.platform/lineage-source-api-version''"
abbreviation annotationLineageSourceUID :: string where
  "annotationLineageSourceUID \<equiv> ''fluxseer-rca.aiops.platform/lineage-source-uid''"
abbreviation annotationInvestigationDepth :: string where
  "annotationInvestigationDepth \<equiv> ''fluxseer-rca.aiops.platform/investigation-depth''"

definition effectivenessSettlingPeriod :: duration where
  "effectivenessSettlingPeriod = 5 * minute"
definition effectivenessObservationWindow :: duration where
  "effectivenessObservationWindow = 2 * minute"
abbreviation effectivenessVerificationDataSource :: string where
  "effectivenessVerificationDataSource \<equiv> ''kubernetes-events''"

text \<open>The arrow U+2192 in UTF-8, with which the code joins two phases.\<close>

definition arrow :: string where "arrow = [CHR 0xE2, CHR 0x86, CHR 0x92]"

definition phaseTransitionEvent :: "string \<Rightarrow> string \<Rightarrow> string \<times> string \<times> string" where
  "phaseTransitionEvent originalPhase newPhase =
     (if originalPhase = newPhase then ([], [], [])
      else
        (let transition = originalPhase @ arrow @ newPhase in
         if transition = arrow @ ''WaitingApproval'' then
           (''Normal'', ''ApprovalRequired'', ''AgentAction is waiting for approval'')
         else if transition = arrow @ ''Approved'' then
           (''Normal'', ''ApprovalGranted'', ''AgentAction has been approved'')
         else if transition = arrow @ ''Rejected'' then
           (''Warning'', ''ApprovalDenied'', ''AgentAction was rejected by guardrails'')
         else if transition = ''Approved'' @ arrow @ ''Executing''
                 \<or> transition = ''WaitingApproval'' @ arrow @ ''Executing'' then
           (''Normal'', ''ExecutionStarted'', ''AgentAction is now executing'')
         else if transition = ''WaitingApproval'' @ arrow @ ''Escalated'' then
           (''Warning'', ''EscalationTriggered'',
            ''AgentAction approval timeout reached; escalating for review'')
         else if transition = ''Executing'' @ arrow @ ''Succeeded'' then
           (''Normal'', ''ExecutionSucceeded'', ''AgentAction execution completed successfully'')
         else if transition = ''Executing'' @ arrow @ ''Failed'' then
           (''Warning'', ''ExecutionFailed'', ''AgentAction execution failed'')
         else
           (''Normal'', ''PhaseTransition'',
            ''phase changed from '' @ quote originalPhase @ '' to '' @ quote newPhase)))"

definition recordPhaseTransition :: "bool \<Rightarrow> string \<Rightarrow> string \<Rightarrow> history \<Rightarrow> history" where
  "recordPhaseTransition recorder fromPhase toPhase h =
     (if \<not> recorder \<or> fromPhase = toPhase then h
      else recordEvent recorder (phaseTransitionEvent fromPhase toPhase) h)"

text \<open>
  The reconciler's fields.  A \<open>bool\<close> says whether the pointer is set; the escalation router reads
  through the same API client.
\<close>

record AgentActionReconciler =
  rc_Scheme :: bool
  rc_Executor :: "Router option"
  rc_EscalationRouter :: bool
  rc_PolicyPackEnabled :: bool
  rc_Notifier :: bool
  rc_EventRecorder :: bool

subsection \<open>Approval\<close>

definition agentActionSpecDigest :: "codec \<Rightarrow> AgentAction \<Rightarrow> string" where
  "agentActionSpecDigest cd action =
     digestString cd (cd_spec cd ((act_Spec action)\<lparr>as_ApprovedBy := []\<rparr>))"

definition isAgentActionApproved :: "codec \<Rightarrow> AgentAction \<Rightarrow> bool" where
  "isAgentActionApproved cd action =
     (case ast_Approval (act_Status action) of
        None \<Rightarrow> False
      | Some approval \<Rightarrow>
          if apv_ActionDigest approval \<noteq> agentActionSpecDigest cd action then False
          else if apv_Approved approval then True
          else apv_Source approval = ''ManualApprovalRequired''
               \<and> as_ApprovedBy (act_Spec action) \<noteq> [])"

definition statusChangedAction :: "AgentAction \<Rightarrow> AgentAction \<Rightarrow> bool" where
  "statusChangedAction before after \<longleftrightarrow> act_Status before \<noteq> act_Status after"

abbreviation updateStatus :: "(AgentActionStatus \<Rightarrow> AgentActionStatus) \<Rightarrow> AgentAction \<Rightarrow> AgentAction" where
  "updateStatus f a \<equiv> a\<lparr>act_Status := f (act_Status a)\<rparr>"

definition setActionPhase :: "string \<Rightarrow> string \<Rightarrow> gotime \<Rightarrow> AgentAction \<Rightarrow> AgentAction" where
  "setActionPhase phase message now a =
     updateStatus (\<lambda>s. s\<lparr>ast_Resource :=
        setResourceStatus phase message (om_Generation (act_Meta a)) now (ast_Resource s)\<rparr>) a"

text \<open>
  The recurring tail of a handler: write the status; on an error return it, otherwise record the
  phase transition and go on with the object that the server answered.
\<close>

definition writeStatus ::
  "kube \<Rightarrow> AgentAction \<Rightarrow> (AgentAction \<Rightarrow> history \<Rightarrow> outcome \<times> history) \<Rightarrow> history
   \<Rightarrow> outcome \<times> history" where
  "writeStatus k action continue h =
     (case updateActionStatus k action h of
        (Inl err, h) \<Rightarrow> (Fail err, h)
      | (Inr action, h) \<Rightarrow> continue action h)"

subsection \<open>Waiting for approval\<close>

definition kubeChainReader :: "kube \<Rightarrow> history \<Rightarrow> chain_reader" where
  "kubeChainReader k h = \<lparr>cr_List = k_listChains k h, cr_Get = k_getChain k h\<rparr>"

text \<open>Resolution of the escalation route, lines 699 to 710.\<close>

definition escalationRoute ::
  "selector_fn \<Rightarrow> AgentActionReconciler \<Rightarrow> kube \<Rightarrow> AgentAction \<Rightarrow> history
   \<Rightarrow> (go_error + Route option) \<times> history" where
  "escalationRoute asSel rc k action h =
     (if rc_Notifier rc \<and> rc_EscalationRouter rc then
        (Router_Resolve_chain asSel (Some (kubeChainReader k h))
           \<lparr>erq_Namespace = om_Namespace (act_Meta action),
            erq_EscalationChainRef =
              mapGet (om_Annotations (act_Meta action)) annotationEscalationChainRef,
            erq_ResourceLabels = om_Labels (act_Meta action)\<rparr>,
         ERead ''EscalationChain'' # h)
      else (Inr None, h))"

definition escalationMessage :: "AgentAction \<Rightarrow> Route option \<Rightarrow> Message" where
  "escalationMessage action route =
     (let fields = [''namespace'' \<mapsto> GoString (om_Namespace (act_Meta action)),
                    ''name'' \<mapsto> GoString (om_Name (act_Meta action)),
                    ''actionType'' \<mapsto> GoString (as_ActionType (act_Spec action))];
          fields = (case route of
             None \<Rightarrow> fields
           | Some rt \<Rightarrow> fields(''escalationChain'' \<mapsto> GoString (cref_Name (rt_Reference rt)),
                ''escalationChainVersion'' \<mapsto> GoString (cref_Version (rt_Reference rt)),
                ''escalationStageCount'' \<mapsto> GoInt (int (length (chs_Stages (ch_Spec (rt_Chain rt)))))))
      in \<lparr>msg_Title = ''FluxSeer RCA approval escalation'',
          msg_Summary = targetRefString (as_Target (act_Spec action)) @ '' exceeded its ''
            @ itoa (as_ApprovalTimeoutSeconds (act_Spec action)) @ ''s approval timeout'',
          msg_Body = rs_Message (ast_Resource (act_Status action)),
          msg_Fields = fields\<rparr>)"

text \<open>The end of \<^verbatim>\<open>reconcileApprovalTimeout\<close>: persist the phase \<open>Escalated\<close>.\<close>

definition markEscalated ::
  "AgentActionReconciler \<Rightarrow> kube \<Rightarrow> gotime \<Rightarrow> AgentAction \<Rightarrow> history \<Rightarrow> outcome \<times> history" where
  "markEscalated rc k now original h =
     (case ast_Approval (act_Status original) of
        None \<Rightarrow> (Panicked, h)
      | Some approval \<Rightarrow>
          (let action = updateStatus (\<lambda>s. s\<lparr>ast_Approval := Some (approval\<lparr>apv_EscalatedAt := Some now\<rparr>)\<rparr>)
             (setActionPhase PhaseEscalated ''approval timeout exceeded, escalation notified'' now
                original) in
           if statusChangedAction original action then
             writeStatus k action (\<lambda>updated h.
               (Stop, recordPhaseTransition (rc_EventRecorder rc) (actPhase original)
                  (actPhase updated) h)) h
           else (Stop, h)))"

definition setLastError :: "string \<Rightarrow> AgentAction \<Rightarrow> AgentAction option" where
  "setLastError e action =
     (case ast_Notification (act_Status action) of
        None \<Rightarrow> None
      | Some n \<Rightarrow> Some (updateStatus (\<lambda>s. s\<lparr>ast_Notification := Some (n\<lparr>ns_LastError := e\<rparr>)\<rparr>) action))"

definition notifyEscalation ::
  "AgentActionReconciler \<Rightarrow> kube \<Rightarrow> gotime \<Rightarrow> Route option \<Rightarrow> AgentAction \<Rightarrow> history
   \<Rightarrow> outcome \<times> history" where
  "notifyEscalation rc k now route action h =
     (let attemptCount = (case ast_Notification (act_Status action) of
                            None \<Rightarrow> 1
                          | Some n \<Rightarrow> wrap32 (ns_RetryCount n + 1));
          action = updateStatus (\<lambda>s. s\<lparr>ast_Notification :=
            Some \<lparr>ns_LastAttemptAt = Some now, ns_RetryCount = attemptCount, ns_LastError = []\<rparr>\<rparr>) action in
      writeStatus k action (\<lambda>action h.
        case sendNotification k (escalationMessage action route) h of
          (Some notifyErr, h) \<Rightarrow>
            (case setLastError (errText notifyErr) action of
               None \<Rightarrow> (Panicked, h)
             | Some action \<Rightarrow>
                 writeStatus k action (\<lambda>_ h.
                   (Fail notifyErr,
                    recordEvent (rc_EventRecorder rc)
                      (''Warning'', ''NotificationRetryFailed'',
                       ''escalation notification attempt '' @ itoa attemptCount @ '' failed: ''
                         @ errText notifyErr) h)) h)
        | (None, h) \<Rightarrow>
            (case setLastError [] action of
               None \<Rightarrow> (Panicked, h)
             | Some action \<Rightarrow> markEscalated rc k now action h)) h)"

definition reconcileApprovalTimeout ::
  "selector_fn \<Rightarrow> AgentActionReconciler \<Rightarrow> kube \<Rightarrow> AgentAction \<Rightarrow> gotime \<Rightarrow> history
   \<Rightarrow> outcome \<times> history" where
  "reconcileApprovalTimeout asSel rc k action now h =
     (if actPhase action = PhaseEscalated \<or> as_ApprovalTimeoutSeconds (act_Spec action) \<le> 0
         \<or> rs_UpdatedAt (ast_Resource (act_Status action)) = 0 then (Stop, h)
      else
        (let deadline = rs_UpdatedAt (ast_Resource (act_Status action))
               + durationSeconds (as_ApprovalTimeoutSeconds (act_Spec action)) in
         if now < deadline then (Requeue (subTime deadline now), h)
         else
           (case escalationRoute asSel rc k action h of
              (Inl err, h) \<Rightarrow> (Fail err, h)
            | (Inr route, h) \<Rightarrow>
                if rc_Notifier rc then notifyEscalation rc k now route action h
                else markEscalated rc k now action h)))"

definition reconcilePending ::
  "codec \<Rightarrow> selector_fn \<Rightarrow> AgentActionReconciler \<Rightarrow> kube \<Rightarrow> AgentAction \<Rightarrow> gotime \<Rightarrow> history
   \<Rightarrow> outcome \<times> history" where
  "reconcilePending cd asSel rc k action now h =
     (let digest = agentActionSpecDigest cd action;
          stale = (case ast_Approval (act_Status action) of
                     None \<Rightarrow> True
                   | Some approval \<Rightarrow> apv_ActionDigest approval \<noteq> digest) in
      if stale then
        (let pending = updateStatus (\<lambda>s. s\<lparr>ast_Approval :=
               Some \<lparr>apv_Approved = False, apv_ApprovedBy = [], apv_Source = ''Pending'',
                     apv_ActionDigest = digest,
                     apv_ApprovedGeneration = om_Generation (act_Meta action),
                     apv_ApprovedAt = None, apv_EscalatedAt = None, apv_DecidedAt = None,
                     apv_DecidedBy = []\<rparr>\<rparr>)
             (setActionPhase PhaseWaitingApproval ''waiting for human approval'' now action) in
         if statusChangedAction action pending then
           writeStatus k pending (\<lambda>updated h.
             (Stop, recordPhaseTransition (rc_EventRecorder rc) (actPhase action)
                (actPhase updated) h)) h
         else (Stop, h))
      else reconcileApprovalTimeout asSel rc k action now h)"

subsection \<open>Expiry\<close>

definition reconcileTerminalStateTTL ::
  "kube \<Rightarrow> AgentAction \<Rightarrow> gotime \<Rightarrow> history \<Rightarrow> outcome \<times> history" where
  "reconcileTerminalStateTTL k action now h =
     (if as_TTLSeconds (act_Spec action) = 0 then (Stop, h)
      else if om_Annotations (act_Meta action) retainAnnotation \<noteq> None then (Stop, h)
      else case ast_FinishedAt (act_Status action) of
        None \<Rightarrow> (Stop, h)
      | Some finishedAt \<Rightarrow>
          (let expireTime = finishedAt + durationSeconds (as_TTLSeconds (act_Spec action)) in
           if now > expireTime then
             (case deleteAction k (actionKey action) h of
                (Some err, h) \<Rightarrow> (Done 0 (IgnoreNotFound err), h)
              | (None, h) \<Rightarrow> (Stop, h))
           else (Requeue (subTime expireTime now), h)))"

subsection \<open>Execution\<close>

definition targetUIDOf :: "AgentAction \<Rightarrow> string" where
  "targetUIDOf action = TrimSpace (mapGet (om_Annotations (act_Meta action)) annotationTargetUID)"

definition executorRequestForPersistedAction :: "AgentAction \<Rightarrow> ExecutorRequest" where
  "executorRequestForPersistedAction action =
     (let spec = act_Spec action;
          request =
            \<lparr>rq_ExecutionID = [], rq_IdempotencyKey = [], rq_ActionDigest = [],
             rq_ActionType = as_ActionType spec, rq_ActionIndex = 0,
             rq_Target = targetToResource (as_Target spec), rq_TargetUID = [],
             rq_Parameters = StringParameters (as_Parameters spec),
             rq_ApprovedPolicySnapshot = emptyPolicySnapshot,
             rq_ApprovedBy = as_ApprovedBy spec, rq_DryRunResult = as_DryRunResult spec,
             rq_RollbackPlan = as_RollbackPlan spec, rq_Timeout = 0, rq_Attempt = 1\<rparr>;
          request = (case ast_Approval (act_Status action) of
             None \<Rightarrow> request
           | Some approval \<Rightarrow> request\<lparr>rq_ActionDigest := apv_ActionDigest approval,
                                   rq_ApprovedBy := apv_ApprovedBy approval\<rparr>);
          request = (case ast_Execution (act_Status action) of
             None \<Rightarrow> request
           | Some ex \<Rightarrow> request\<lparr>rq_ExecutionID := ex_ExecutionID ex,
                             rq_IdempotencyKey := ex_IdempotencyKey ex,
                             rq_Attempt := ex_Attempt ex\<rparr>) in
      request\<lparr>rq_TargetUID := targetUIDOf action\<rparr>)"

definition executionFinishedAt :: "AgentActionExecutionStatus option \<Rightarrow> gotime \<Rightarrow> gotime" where
  "executionFinishedAt execution now =
     (case Option.bind execution ex_StartedAt of
        None \<Rightarrow> now
      | Some startedAt \<Rightarrow> if \<not> now > startedAt then startedAt + nanosecond else now)"

definition failBeforeDispatch ::
  "kube \<Rightarrow> AgentAction \<Rightarrow> ExecutorRequest \<Rightarrow> string \<Rightarrow> go_error \<Rightarrow> gotime \<Rightarrow> history
   \<Rightarrow> outcome \<times> history" where
  "failBeforeDispatch k action request reason dispatchErr now h =
     (let finishedAt = executionFinishedAt (ast_Execution (act_Status action)) now;
          failed = updateStatus (\<lambda>s. s\<lparr>
            ast_FinishedAt := Some finishedAt,
            ast_Execution := Some (emptyExecutionStatus\<lparr>
              ex_Phase := ''Failed'', ex_Outcome := ExecutionOutcomeFailed,
              ex_ExecutionID := rq_ExecutionID request,
              ex_IdempotencyKey := rq_IdempotencyKey request,
              ex_Attempt := wrap32 (rq_Attempt request), ex_FailureReason := reason,
              ex_Summary := errText dispatchErr, ex_FinishedAt := Some finishedAt,
              ex_Retryable := False\<rparr>),
            ast_Effectiveness := Some (emptyEffectiveness\<lparr>
              ef_Phase := EffectivenessPhaseNotVerified,
              ef_Message := ''post-action verification was not started because the pre-action baseline could not be captured''\<rparr>)\<rparr>)
            (setActionPhase PhaseFailed (errText dispatchErr) finishedAt action) in
      writeStatus k failed (\<lambda>_ h. (Fail dispatchErr, h)) h)"

text \<open>
  \<^verbatim>\<open>recordExecutionSuccess\<close> first builds the execution status and, when a baseline exists, the
  effectiveness status to verify; \<open>None\<close> is the nil dereference of \<^verbatim>\<open>Baseline.CapturedAt\<close>.
\<close>

definition successExecution ::
  "AgentAction \<Rightarrow> ExecutorRequest \<Rightarrow> ExecutionResult \<Rightarrow> gotime \<Rightarrow> AgentActionExecutionStatus" where
  "successExecution action request result now =
     emptyExecutionStatus\<lparr>
       ex_Phase := ''Succeeded'',
       ex_Outcome := (if res_Outcome result = [] then ExecutionOutcomeSucceeded
                      else res_Outcome result),
       ex_ExecutionID := (if res_ExecutionID result = [] then rq_ExecutionID request
                          else res_ExecutionID result),
       ex_FailureReason := res_FailureReason result, ex_Executor := res_Executor result,
       ex_Summary := res_Summary result, ex_FinishedAt := Some now,
       ex_ExternalRef := res_ExternalRef result, ex_Retryable := res_Retryable result,
       ex_IdempotencyKey := rq_IdempotencyKey request,
       ex_Attempt := wrap32 (rq_Attempt request),
       ex_StartedAt := (case Option.bind (ast_Execution (act_Status action)) ex_StartedAt of
          Some startedAt \<Rightarrow> Some startedAt
        | None \<Rightarrow> if res_StartedAt result \<noteq> 0 then Some (res_StartedAt result) else None)\<rparr>"

definition verifyingEffectiveness ::
  "AgentAction \<Rightarrow> (AgentActionEffectivenessStatus \<times> EffectivenessBaseline) option" where
  "verifyingEffectiveness action =
     (case ast_Effectiveness (act_Status action) of
        None \<Rightarrow> None
      | Some ef \<Rightarrow>
          (case ef_Baseline ef of
             None \<Rightarrow> None
           | Some baseline \<Rightarrow>
               Some (ef\<lparr>ef_Phase := EffectivenessPhaseVerifying, ef_Outcome := [],
                        ef_Message := ''execution succeeded; waiting for the target to settle before read-only verification''\<rparr>,
                     baseline)))"

text \<open>
  Keep the order ``baseline captured before execution started''; a nil \<^verbatim>\<open>CapturedAt\<close> is never
  before anything, and \<^verbatim>\<open>Add\<close> on it panics.
\<close>

definition orderedStart ::
  "EffectivenessBaseline \<Rightarrow> AgentActionExecutionStatus \<Rightarrow> AgentActionExecutionStatus option" where
  "orderedStart baseline ex =
     (case eb_CapturedAt baseline of
        None \<Rightarrow> None
      | Some capturedAt \<Rightarrow>
          (case ex_StartedAt ex of
             None \<Rightarrow> Some (ex\<lparr>ex_StartedAt := Some (capturedAt + second)\<rparr>)
           | Some startedAt \<Rightarrow>
               if \<not> capturedAt < startedAt
               then Some (ex\<lparr>ex_StartedAt := Some (capturedAt + second)\<rparr>)
               else Some ex))"

definition succeededAction ::
  "AgentAction \<Rightarrow> ExecutionResult \<Rightarrow> AgentActionExecutionStatus \<Rightarrow> AgentActionEffectivenessStatus
   \<Rightarrow> gotime \<Rightarrow> AgentAction" where
  "succeededAction action result ex ef now =
     (let finishedAt = executionFinishedAt (Some ex) now;
          ef = (if ef_Baseline ef \<noteq> None then
                  ef\<lparr>ef_StartedAt := Some finishedAt,
                     ef_SettlingUntil := Some (now + effectivenessSettlingPeriod),
                     ef_ObservationUntil := Some (now + (effectivenessSettlingPeriod
                                                          + effectivenessObservationWindow))\<rparr>
                else ef) in
      updateStatus (\<lambda>s. s\<lparr>ast_FinishedAt := Some finishedAt,
          ast_Execution := Some (ex\<lparr>ex_FinishedAt := Some finishedAt\<rparr>),
          ast_Effectiveness := Some ef\<rparr>)
        (setActionPhase PhaseSucceeded (res_Summary result) finishedAt action))"

definition recordExecutionSuccess ::
  "AgentActionReconciler \<Rightarrow> kube \<Rightarrow> AgentAction \<Rightarrow> ExecutorRequest \<Rightarrow> ExecutionResult \<Rightarrow> gotime
   \<Rightarrow> history \<Rightarrow> outcome \<times> history" where
  "recordExecutionSuccess rc k action request result now h =
     (let ex = successExecution action request result now;
          notVerified = emptyEffectiveness\<lparr>ef_Phase := EffectivenessPhaseNotVerified,
            ef_Message := ''post-action remediation effectiveness verification is unavailable without a pre-action baseline''\<rparr>;
          statuses = (case verifyingEffectiveness action of
             None \<Rightarrow> Some (ex, notVerified)
           | Some (ef, baseline) \<Rightarrow> map_option (\<lambda>ex. (ex, ef)) (orderedStart baseline ex)) in
      case statuses of
        None \<Rightarrow> (Panicked, h)
      | Some (ex, ef) \<Rightarrow>
          (let final = succeededAction action result ex ef now in
           writeStatus k final (\<lambda>updated h.
             (let h = recordPhaseTransition (rc_EventRecorder rc) (actPhase action)
                        (actPhase updated) h;
                  ef = (case ast_Effectiveness (act_Status updated) of
                          Some e \<Rightarrow> Some e
                        | None \<Rightarrow> ast_Effectiveness (act_Status final)) in
              case Option.bind ef ef_SettlingUntil of
                None \<Rightarrow> (Stop, h)
              | Some settlingUntil \<Rightarrow> (Requeue (max 0 (subTime settlingUntil now)), h))) h))"

subsection \<open>Baselines\<close>

definition effectivenessBaselineFromExecutor ::
  "ExecutorBaseline \<Rightarrow> NamespacedObjectReference option \<Rightarrow> AgentAction \<Rightarrow> EffectivenessBaseline" where
  "effectivenessBaselineFromExecutor baseline riskSignalRef action =
     \<lparr>eb_CapturedAt = Some (xb_CapturedAt baseline), eb_Target = as_Target (act_Spec action),
      eb_TargetUID = xb_TargetUID baseline, eb_RiskSignalRef = riskSignalRef,
      eb_EvidenceRefs = [],
      eb_Health = Some (effectivenessHealthSnapshotFromExecutor (xb_Health baseline)),
      eb_Digest = xb_Digest baseline, eb_UnavailableReason = []\<rparr>"

text \<open>\<^verbatim>\<open>splitNamespacedName\<close>: split at the first slash.\<close>

definition splitNamespacedName :: "string \<Rightarrow> string \<times> string" where
  "splitNamespacedName value =
     (let v = TrimSpace value in
      if CHR ''/'' \<in> set v
      then (takeWhile (\<lambda>c. c \<noteq> CHR ''/'') v, drop 1 (dropWhile (\<lambda>c. c \<noteq> CHR ''/'') v))
      else ([], v))"

definition riskSignalRefFromAction :: "AgentAction \<Rightarrow> NamespacedObjectReference option" where
  "riskSignalRefFromAction action =
     (let value = TrimSpace (mapGet (om_Annotations (act_Meta action)) annotationRiskSignalRef) in
      if value = [] then None
      else
        (let (ns, name) = splitNamespacedName value in
         if name = [] then None
         else Some \<lparr>nor_Name = name,
                    nor_Namespace = (if ns = [] then om_Namespace (act_Meta action) else ns)\<rparr>))"

definition populateBaselineEvidence ::
  "kube \<Rightarrow> EffectivenessBaseline \<Rightarrow> history \<Rightarrow> (go_error + EffectivenessBaseline) \<times> history" where
  "populateBaselineEvidence k baseline h =
     (case eb_RiskSignalRef baseline of
        None \<Rightarrow> (Inr baseline, h)
      | Some ref \<Rightarrow>
          (case k_getRiskSignalEvidence k h (nor_Namespace ref, nor_Name ref) of
             Inl err \<Rightarrow>
               (if IgnoreNotFound err = None then Inr baseline
                else Inl (wrapErr (''get baseline RiskSignal '' @ nor_Namespace ref @ ''/''
                            @ nor_Name ref @ '': '') err),
                ERead ''RiskSignal'' # h)
           | Inr evidence \<Rightarrow>
               (Inr (baseline\<lparr>eb_EvidenceRefs := evidence\<rparr>), ERead ''RiskSignal'' # h)))"

subsection \<open>Dispatch\<close>

definition identityInputFor :: "codec \<Rightarrow> AgentAction \<Rightarrow> IdentityInput" where
  "identityInputFor cd action =
     \<lparr>id_ActionRef = om_Namespace (act_Meta action) @ ''/'' @ om_Name (act_Meta action),
      id_AgentActionUID = om_UID (act_Meta action),
      id_Generation = om_Generation (act_Meta action), id_ActionIndex = 0,
      id_Target = targetToResource (as_Target (act_Spec action)),
      id_TargetUID = targetUIDOf action, id_ActionDigest = agentActionSpecDigest cd action,
      id_ActionType = as_ActionType (act_Spec action),
      id_Parameters = StringParameters (as_Parameters (act_Spec action))\<rparr>"

definition executionRequestFor ::
  "codec \<Rightarrow> AgentAction \<Rightarrow> AgentActionApprovalStatus \<Rightarrow> ExecutorRequest" where
  "executionRequestFor cd action approval =
     (let identity = BuildExecutionIdentity cd (identityInputFor cd action) in
      \<lparr>rq_ExecutionID = eid_ExecutionID identity, rq_IdempotencyKey = eid_IdempotencyKey identity,
       rq_ActionDigest = agentActionSpecDigest cd action,
       rq_ActionType = as_ActionType (act_Spec action), rq_ActionIndex = 0,
       rq_Target = targetToResource (as_Target (act_Spec action)),
       rq_TargetUID = targetUIDOf action,
       rq_Parameters = StringParameters (as_Parameters (act_Spec action)),
       rq_ApprovedPolicySnapshot = emptyPolicySnapshot,
       rq_ApprovedBy = apv_ApprovedBy approval,
       rq_DryRunResult = as_DryRunResult (act_Spec action),
       rq_RollbackPlan = as_RollbackPlan (act_Spec action), rq_Timeout = 0, rq_Attempt = 1\<rparr>)"

text \<open>The status that is persisted before the backend is called, lines 181 to 211.\<close>

definition executingAction ::
  "codec \<Rightarrow> AgentAction \<Rightarrow> AgentActionApprovalStatus \<Rightarrow> ExecutorRequest \<Rightarrow> gotime \<Rightarrow> AgentAction" where
  "executingAction cd action approval request startedAt =
     (let manual = \<not> apv_Approved approval in
      updateStatus (\<lambda>s. s\<lparr>
         ast_Approval := Some
           \<lparr>apv_Approved = True,
            apv_ApprovedBy = (if manual then as_ApprovedBy (act_Spec action)
                              else apv_ApprovedBy approval),
            apv_Source = (if manual then ''ManualApprovalConfirmed'' else apv_Source approval),
            apv_ActionDigest = agentActionSpecDigest cd action,
            apv_ApprovedGeneration = om_Generation (act_Meta action),
            apv_ApprovedAt = (if manual then Some startedAt else apv_ApprovedAt approval),
            apv_EscalatedAt = apv_EscalatedAt approval,
            apv_DecidedAt = apv_DecidedAt approval,
            apv_DecidedBy = apv_DecidedBy approval\<rparr>,
         ast_Execution := Some (emptyExecutionStatus\<lparr>
           ex_Phase := ''Executing'', ex_ExecutionID := rq_ExecutionID request,
           ex_IdempotencyKey := rq_IdempotencyKey request,
           ex_Attempt := wrap32 (rq_Attempt request), ex_StartedAt := Some startedAt\<rparr>)\<rparr>)
       (setActionPhase PhaseExecuting ''approved action is executing'' startedAt action))"

text \<open>After a failed backend call, lines 233 to 281.\<close>

definition unknownExecution ::
  "AgentAction \<Rightarrow> ExecutionResult \<Rightarrow> go_error \<Rightarrow> gotime \<Rightarrow> AgentAction" where
  "unknownExecution action result err finishedAt =
     (let ex = (case ast_Execution (act_Status action) of
                  None \<Rightarrow> emptyExecutionStatus | Some ex \<Rightarrow> ex) in
      updateStatus (\<lambda>s. s\<lparr>ast_Execution := Some (ex\<lparr>
          ex_Phase := ''Unknown'', ex_Outcome := res_Outcome result,
          ex_FailureReason := (if res_FailureReason result = [] then errText err
                               else res_FailureReason result),
          ex_Summary := errText err, ex_FinishedAt := Some finishedAt, ex_Retryable := False\<rparr>)\<rparr>)
        (setActionPhase PhaseExecuting ''execution outcome is unknown; waiting for backend recovery''
           finishedAt action))"

definition failedExecution :: "AgentAction \<Rightarrow> go_error \<Rightarrow> gotime \<Rightarrow> AgentAction" where
  "failedExecution action err finishedAt =
     (let ex = (case ast_Execution (act_Status action) of
                  None \<Rightarrow> emptyExecutionStatus | Some ex \<Rightarrow> ex) in
      updateStatus (\<lambda>s. s\<lparr>ast_FinishedAt := Some finishedAt,
          ast_Execution := Some (ex\<lparr>
            ex_Phase := ''Failed'', ex_Outcome := ExecutionOutcomeFailed,
            ex_FailureReason := errText err, ex_Summary := errText err,
            ex_FinishedAt := Some finishedAt, ex_Retryable := False\<rparr>)\<rparr>)
        (setActionPhase PhaseFailed (errText err) finishedAt action))"

definition recordExecutionError ::
  "AgentActionReconciler \<Rightarrow> kube \<Rightarrow> NamespacedName \<Rightarrow> ExecutionResult \<Rightarrow> go_error \<Rightarrow> history
   \<Rightarrow> outcome \<times> history" where
  "recordExecutionError rc k key result err h =
     (case getAction k key h of
        (Inl e, h) \<Rightarrow> (Done 0 (IgnoreNotFound e), h)
      | (Inr action, h) \<Rightarrow>
          (let (now, h) = tick k h;
               finishedAt = executionFinishedAt (ast_Execution (act_Status action)) now in
           if res_Outcome result = ExecutionOutcomeUnknown then
             writeStatus k (unknownExecution action result err finishedAt)
               (\<lambda>_ h. (Requeue (5 * second), h)) h
           else
             (let failed = failedExecution action err finishedAt; originalExecution = PhaseFailed in
              writeStatus k failed (\<lambda>updated h.
                (Fail err, recordPhaseTransition (rc_EventRecorder rc) originalExecution
                   (actPhase updated) h)) h)))"

definition dispatch ::
  "AgentActionReconciler \<Rightarrow> kube \<Rightarrow> NamespacedName \<Rightarrow> Router \<Rightarrow> ExecutorRequest \<Rightarrow> history
   \<Rightarrow> outcome \<times> history" where
  "dispatch rc k key r request h =
     (case Router_Execute r k request h of
        ((result, Some err), h) \<Rightarrow> recordExecutionError rc k key result err h
      | ((result, None), h) \<Rightarrow>
          (case getAction k key h of
             (Inl e, h) \<Rightarrow> (Done 0 (IgnoreNotFound e), h)
           | (Inr action, h) \<Rightarrow>
               (let (now, h) = tick k h in
                recordExecutionSuccess rc k action request result now h)))"

text \<open>Persist the execution identity, then call the backend, lines 223 to 286.\<close>

definition persistAndDispatch ::
  "AgentActionReconciler \<Rightarrow> kube \<Rightarrow> NamespacedName \<Rightarrow> Router \<Rightarrow> ExecutorRequest \<Rightarrow> AgentAction
   \<Rightarrow> AgentAction \<Rightarrow> history \<Rightarrow> outcome \<times> history" where
  "persistAndDispatch rc k key r request original action h =
     (if statusChangedAction original action then
        writeStatus k action (\<lambda>updated h.
          dispatch rc k key r request
            (recordPhaseTransition (rc_EventRecorder rc) (actPhase original) (actPhase updated) h)) h
      else dispatch rc k key r request h)"

definition withBaseline ::
  "AgentActionReconciler \<Rightarrow> kube \<Rightarrow> NamespacedName \<Rightarrow> Router \<Rightarrow> ExecutorRequest \<Rightarrow> AgentAction
   \<Rightarrow> AgentAction \<Rightarrow> ExecutorBaseline \<Rightarrow> history \<Rightarrow> outcome \<times> history" where
  "withBaseline rc k key r request original action baseline h =
     (case populateBaselineEvidence k
        (effectivenessBaselineFromExecutor baseline (riskSignalRefFromAction action) action) h of
        (Inl err, h) \<Rightarrow>
          (let (now, h) = tick k h in
           failBeforeDispatch k action request ''BaselineEvidenceUnavailable'' err now h)
      | (Inr apiBaseline, h) \<Rightarrow>
          persistAndDispatch rc k key r request original
            (updateStatus (\<lambda>s. s\<lparr>ast_Effectiveness := Some (emptyEffectiveness\<lparr>
               ef_Phase := EffectivenessPhaseNotVerified,
               ef_Message := ''immutable pre-action health baseline captured before dispatch'',
               ef_Baseline := Some apiBaseline\<rparr>)\<rparr>) action) h)"

text \<open>
  A nil \<^verbatim>\<open>*executor.Router\<close> answers an unknown action type with the error and panics on every
  other one.
\<close>

definition nilRouterError :: "string \<Rightarrow> go_error option" where
  "nilRouterError actionType =
     (if HasPrefix actionType ''kubernetes.'' \<or> HasPrefix actionType ''gitops.''
         \<or> HasPrefix actionType ''runbook.'' \<or> HasPrefix actionType ''notification.''
      then None else Some (noExecutor actionType))"

definition executeApproved ::
  "codec \<Rightarrow> AgentActionReconciler \<Rightarrow> kube \<Rightarrow> NamespacedName \<Rightarrow> AgentAction \<Rightarrow> history
   \<Rightarrow> outcome \<times> history" where
  "executeApproved cd rc k key action h =
     (case ast_Approval (act_Status action) of
        None \<Rightarrow> (Panicked, h)
      | Some approval \<Rightarrow>
          (let request = executionRequestFor cd action approval in
           case rc_Executor rc of
             None \<Rightarrow>
               (case nilRouterError (rq_ActionType request) of
                  None \<Rightarrow> (Panicked, h)
                | Some err \<Rightarrow>
                    (let (now, h) = tick k h in
                     failBeforeDispatch k action request ''BaselineCaptureFailed'' err now h))
           | Some r \<Rightarrow>
               (case Router_CaptureBaseline r k request h of
                  ((baseline, baselineFound, Some err), h) \<Rightarrow>
                    (let (now, h) = tick k h in
                     failBeforeDispatch k action request ''BaselineCaptureFailed'' err now h)
                | ((baseline, baselineFound, None), h) \<Rightarrow>
                    (let (now, h) = tick k h;
                         startedAt = (if baselineFound \<and> \<not> now > xb_CapturedAt baseline
                                      then xb_CapturedAt baseline + nanosecond else now);
                         executing = executingAction cd action approval request startedAt in
                     if baselineFound
                     then withBaseline rc k key r request action executing baseline h
                     else persistAndDispatch rc k key r request action executing h))))"

subsection \<open>Effectiveness verification\<close>

definition effectivenessVerificationName :: "codec \<Rightarrow> AgentAction \<Rightarrow> string \<Rightarrow> string" where
  "effectivenessVerificationName cd action executionID =
     (let digest = digestString cd (cd_verify cd (om_UID (act_Meta action), executionID));
          suf = TrimPrefix digest (AlgorithmSHA256 @ '':'');
          suf = (if length suf > 16 then take 16 suf else suf);
          maxPrefix = 63 - length ''-verify-'' - length suf;
          pre = om_Name (act_Meta action);
          pre = (if length pre > maxPrefix then take maxPrefix pre else pre) in
      pre @ ''-verify-'' @ suf)"

text \<open>The function that \<^verbatim>\<open>controllerutil.CreateOrUpdate\<close> applies to the verification request.\<close>

definition verificationMutate ::
  "kube \<Rightarrow> AgentAction \<Rightarrow> AgentActionExecutionStatus \<Rightarrow> EffectivenessBaseline \<Rightarrow> InvestigationRequest
   \<Rightarrow> go_error + InvestigationRequest" where
  "verificationMutate k action ex baseline verification =
     (case k_controllerRefInvestigation k action verification of
        Inl err \<Rightarrow> Inl err
      | Inr v \<Rightarrow>
          (let m = act_Meta action; vm = iv_Meta v in
           Inr (v\<lparr>
             iv_Meta := vm\<lparr>
               om_Labels := (om_Labels vm)(labelManagedBy \<mapsto> ''agentaction-controller''),
               om_Annotations := (om_Annotations vm)(
                 annotationLineageSource \<mapsto> om_Namespace m @ ''/'' @ om_Name m,
                 annotationLineageSourceKind \<mapsto> ''AgentAction'',
                 annotationLineageSourceAPI \<mapsto> GroupVersionString,
                 annotationLineageSourceUID \<mapsto> om_UID m,
                 annotationTargetUID \<mapsto> eb_TargetUID baseline,
                 annotationInvestigationDepth \<mapsto> ''0'')\<rparr>,
             iv_Target := as_Target (act_Spec action),
             iv_Purpose := ''effectivenessVerification'',
             iv_Correlation := Some
               \<lparr>cor_AgentActionRef = \<lparr>nor_Name = om_Name m, nor_Namespace = om_Namespace m\<rparr>,
                cor_ExecutionID = ex_ExecutionID ex, cor_BaselineDigest = eb_Digest baseline\<rparr>,
             iv_Lookback := effectivenessObservationWindow,
             iv_Profile := ''effectivenessverification'',
             iv_Question := ''Verify whether '' @ targetRefString (as_Target (act_Spec action))
               @ '' recovered after execution '' @ ex_ExecutionID ex,
             iv_Queries := [\<lparr>iq_Name = ''post-action-workload-events'',
                iq_DatasourceRef = effectivenessVerificationDataSource, iq_QueryType = ''event'',
                iq_Query = [], iq_QueryTemplate = [],
                iq_Reasons = [''BackOff'', ''Unhealthy'', ''Failed'', ''FailedCreate'',
                              ''ProgressDeadlineExceeded'']\<rparr>],
             iv_Mode := ''readOnly'',
             iv_CreateRiskSignal := False\<rparr>)))"

definition createEffectivenessVerification ::
  "codec \<Rightarrow> AgentActionReconciler \<Rightarrow> kube \<Rightarrow> AgentAction \<Rightarrow> AgentActionExecutionStatus
   \<Rightarrow> EffectivenessBaseline \<Rightarrow> history \<Rightarrow> (go_error + InvestigationRequest) \<times> history" where
  "createEffectivenessVerification cd rc k action ex baseline h =
     (if \<not> rc_Scheme rc then
        (Inl (Errorf ''AgentAction reconciler requires a scheme to create verification InvestigationRequest''), h)
      else
        (let key = (om_Namespace (act_Meta action),
                    effectivenessVerificationName cd action (ex_ExecutionID ex));
             r = k_createOrUpdateInvestigation k h key (verificationMutate k action ex baseline) in
         (r, ECreateOrUpdateInvestigation key r # h)))"

definition completedEffectiveness ::
  "AgentAction \<Rightarrow> AgentActionEffectivenessStatus \<Rightarrow> InvestigationRequest
   \<Rightarrow> HealthSnapshot \<times> bool \<times> go_error option \<Rightarrow> gotime \<Rightarrow> AgentAction" where
  "completedEffectiveness action ef verification observation now =
     (case observation of (postHealth, observed, observeErr) \<Rightarrow>
        (let ok = observed \<and> observeErr = None;
             evaluation = (case observeErr of
                Some e \<Rightarrow> \<lparr>ee_Outcome = EffectivenessOutcomeInconclusive,
                            ee_Message = ''post-action health observation failed: '' @ errText e\<rparr>
              | None \<Rightarrow> evaluateEffectiveness (ef_Baseline ef) postHealth ok (Some verification)) in
         updateStatus (\<lambda>s. s\<lparr>ast_Effectiveness := Some (ef\<lparr>
             ef_Phase := EffectivenessPhaseCompleted, ef_Outcome := ee_Outcome evaluation,
             ef_Message := ee_Message evaluation, ef_FinishedAt := Some now,
             ef_PostActionHealth := (if ok then Some (effectivenessHealthSnapshotFromExecutor postHealth)
                                     else ef_PostActionHealth ef)\<rparr>)\<rparr>) action))"

definition observeHealth ::
  "AgentActionReconciler \<Rightarrow> kube \<Rightarrow> ExecutorRequest \<Rightarrow> history
   \<Rightarrow> ((HealthSnapshot \<times> bool \<times> go_error option) \<times> history) option" where
  "observeHealth rc k request h =
     (case rc_Executor rc of
        Some r \<Rightarrow> Some (Router_ObserveHealth r k request h)
      | None \<Rightarrow>
          (case nilRouterError (rq_ActionType request) of
             None \<Rightarrow> None
           | Some err \<Rightarrow> Some ((emptyHealthSnapshot, False, Some err), h)))"

definition finishVerification ::
  "AgentActionReconciler \<Rightarrow> kube \<Rightarrow> AgentAction \<Rightarrow> AgentActionEffectivenessStatus
   \<Rightarrow> NamespacedObjectReference \<Rightarrow> gotime \<Rightarrow> history \<Rightarrow> outcome \<times> history" where
  "finishVerification rc k action ef ref now h =
     (case k_getInvestigation k h (nor_Namespace ref, nor_Name ref) of
        Inl err \<Rightarrow>
          (case IgnoreNotFound err of
             None \<Rightarrow> (Requeue (5 * second), ERead ''InvestigationRequest'' # h)
           | Some e \<Rightarrow> (Fail e, ERead ''InvestigationRequest'' # h))
      | Inr verification \<Rightarrow>
          if iv_Phase verification \<noteq> PhaseCompleted \<and> iv_Phase verification \<noteq> PhaseFailed
          then (Requeue (5 * second), ERead ''InvestigationRequest'' # h)
          else
            (case observeHealth rc k (executorRequestForPersistedAction action)
               (ERead ''InvestigationRequest'' # h) of
               None \<Rightarrow> (Panicked, ERead ''InvestigationRequest'' # h)
             | Some (observation, h) \<Rightarrow>
                 writeStatus k (completedEffectiveness action ef verification observation now)
                   (\<lambda>_ h. (Stop, h)) h))"

text \<open>\<^verbatim>\<open>until != nil && now.Before(until)\<close>, with the time that is left.\<close>

definition remainingWait :: "gotime option \<Rightarrow> gotime \<Rightarrow> duration option" where
  "remainingWait until now =
     (case until of
        None \<Rightarrow> None
      | Some t \<Rightarrow> if now < t then Some (subTime t now) else None)"

definition reconcileEffectivenessVerification ::
  "codec \<Rightarrow> AgentActionReconciler \<Rightarrow> kube \<Rightarrow> AgentAction \<Rightarrow> gotime \<Rightarrow> history
   \<Rightarrow> outcome \<times> history" where
  "reconcileEffectivenessVerification cd rc k action now h =
     (case (ast_Effectiveness (act_Status action), ast_Execution (act_Status action)) of
        (Some ef, Some ex) \<Rightarrow>
          (case ef_Baseline ef of
             None \<Rightarrow> (Stop, h)
           | Some baseline \<Rightarrow>
               if ex_Outcome ex \<noteq> ExecutionOutcomeSucceeded then (Stop, h)
               else
                 (case (remainingWait (ef_SettlingUntil ef) now, ef_VerificationRef ef) of
                    (Some d, _) \<Rightarrow> (Requeue d, h)
                  | (None, None) \<Rightarrow>
                      (case createEffectivenessVerification cd rc k action ex baseline h of
                         (Inl err, h) \<Rightarrow> (Fail err, h)
                       | (Inr verification, h) \<Rightarrow>
                           writeStatus k (updateStatus (\<lambda>s. s\<lparr>ast_Effectiveness := Some (ef\<lparr>
                               ef_VerificationRef := Some
                                 \<lparr>nor_Name = om_Name (iv_Meta verification),
                                  nor_Namespace = om_Namespace (iv_Meta verification)\<rparr>,
                               ef_Message := ''read-only verification investigation created; waiting for post-action evidence''\<rparr>)\<rparr>) action)
                             (\<lambda>_ h. (Requeue (5 * second), h)) h)
                  | (None, Some ref) \<Rightarrow>
                      (case remainingWait (ef_ObservationUntil ef) now of
                         Some d \<Rightarrow> (Requeue d, h)
                       | None \<Rightarrow> finishVerification rc k action ef ref now h)))
      | _ \<Rightarrow> (Stop, h))"

subsection \<open>The reconciler\<close>

definition recoverExecution ::
  "AgentActionReconciler \<Rightarrow> kube \<Rightarrow> AgentAction \<Rightarrow> history \<Rightarrow> outcome \<times> history" where
  "recoverExecution rc k action h =
     (let request = executorRequestForPersistedAction action in
      case rc_Executor rc of
        None \<Rightarrow> (Requeue (5 * second), h)
      | Some r \<Rightarrow>
          (case Router_Resolve r k request h of
             ((result, found, Some err), h) \<Rightarrow> (Fail err, h)
           | ((result, found, None), h) \<Rightarrow>
               if found then
                 (let (now, h) = tick k h in
                  recordExecutionSuccess rc k action request result now h)
               else (Requeue (5 * second), h)))"

definition verifying :: "AgentAction \<Rightarrow> bool" where
  "verifying action \<longleftrightarrow>
     (case ast_Effectiveness (act_Status action) of
        None \<Rightarrow> False
      | Some ef \<Rightarrow> ef_Phase ef = EffectivenessPhaseVerifying)"

definition executionIdentified :: "AgentAction \<Rightarrow> bool" where
  "executionIdentified action \<longleftrightarrow>
     (case ast_Execution (act_Status action) of
        None \<Rightarrow> False
      | Some ex \<Rightarrow> ex_ExecutionID ex \<noteq> [])"

definition AgentAction_Reconcile ::
  "codec \<Rightarrow> selector_fn \<Rightarrow> AgentActionReconciler \<Rightarrow> kube \<Rightarrow> NamespacedName \<Rightarrow> history
   \<Rightarrow> outcome \<times> history" where
  "AgentAction_Reconcile cd asSel rc k key h =
     (case getAction k key h of
        (Inl err, h) \<Rightarrow> (Done 0 (IgnoreNotFound err), h)
      | (Inr action, h) \<Rightarrow>
          if verifying action then
            (let (now, h) = tick k h in reconcileEffectivenessVerification cd rc k action now h)
          else if actPhase action = PhaseSucceeded \<or> actPhase action = PhaseFailed
                  \<or> actPhase action = PhaseRejected then
            (let (now, h) = tick k h in reconcileTerminalStateTTL k action now h)
          else if actPhase action = PhaseExecuting \<and> executionIdentified action then
            recoverExecution rc k action h
          else if \<not> isAgentActionApproved cd action then
            (let (now, h) = tick k h in reconcilePending cd asSel rc k action now h)
          else executeApproved cd rc k key action h)"

text \<open>\<^verbatim>\<open>mapPendingEscalationActions\<close>: the actions to requeue when a chain changes.\<close>

definition mapPendingEscalationActions ::
  "kube \<Rightarrow> EscalationChain \<Rightarrow> history \<Rightarrow> NamespacedName list" where
  "mapPendingEscalationActions k chain h =
     (case k_listActions k h (om_Namespace (ch_Meta chain)) of
        Inl err \<Rightarrow> []
      | Inr actions \<Rightarrow>
          map actionKey (filter (\<lambda>action.
            (let ref = mapGet (om_Annotations (act_Meta action)) annotationEscalationChainRef in
             actPhase action = PhaseWaitingApproval \<and>
             \<not> (ref \<noteq> [] \<and> ref \<noteq> om_Name (ch_Meta chain)))) actions))"

end
