(* ===== verification/Thresholds.thy ===== *)
theory Thresholds
  imports Guardrails
begin

text \<open>
  The package \<^verbatim>\<open>internal/thresholds\<close>: which \<open>NamespaceThreshold\<close> governs a namespace and whether
  the namespace's usage exceeds it.  The API reader's answer to \<open>List\<close> is an argument.
\<close>

abbreviation ThresholdMatchDirect :: string where "ThresholdMatchDirect \<equiv> ''DirectNamespace''"
abbreviation ThresholdMatchSelector :: string where
  "ThresholdMatchSelector \<equiv> ''NamespaceSelector''"

record ThresholdResolveRequest =
  trq_Namespace :: string
  trq_NamespaceLabels :: strmap

record Usage =
  us_ActivePlans :: int
  us_PendingApprovals :: int

record ThresholdReference =
  tref_APIVersion :: string
  tref_Kind :: string
  tref_Name :: string
  tref_Namespace :: string
  tref_UID :: string
  tref_ResourceVersion :: string
  tref_Generation :: int
  tref_Version :: string
  tref_Priority :: int
  tref_MatchType :: string

record Resolution =
  rsl_Threshold :: NamespaceThreshold
  rsl_Reference :: ThresholdReference

record Violation =
  vio_Resource :: string
  vio_Current :: int
  vio_Limit :: int
  vio_Reason :: string

record EnforcementResult =
  enf_Allowed :: bool
  enf_Violations :: "Violation list"
  enf_Resolution :: "Resolution option"

record thresholdMatch =
  tm_threshold :: NamespaceThreshold
  tm_matchType :: string

definition thresholdEligible :: "NamespaceThreshold \<Rightarrow> bool" where
  "thresholdEligible t \<longleftrightarrow>
     \<not> (\<not> nts_Enabled (nt_Spec t) \<or> nt_Phase t = ''Invalid'' \<or> nt_Phase t = ''Disabled'')"

text \<open>\<^verbatim>\<open>matchThreshold\<close>; \<open>None\<close> is \<open>matched = false\<close>.\<close>

definition matchThreshold ::
  "selector_fn \<Rightarrow> NamespaceThreshold \<Rightarrow> ThresholdResolveRequest \<Rightarrow> go_error + string option" where
  "matchThreshold asSel t req =
     (case nts_NamespaceSelector (nt_Spec t) of
        None \<Rightarrow> Inr (if om_Namespace (nt_Meta t) = trq_Namespace req
                     then Some ThresholdMatchDirect else None)
      | Some s \<Rightarrow>
          (case asSel s of
             Inl e \<Rightarrow> Inl e
           | Inr m \<Rightarrow> Inr (if m (trq_NamespaceLabels req) then Some ThresholdMatchSelector
                          else None)))"

definition thresholdQName :: "NamespaceThreshold \<Rightarrow> string" where
  "thresholdQName t = om_Namespace (nt_Meta t) @ ''/'' @ om_Name (nt_Meta t)"

definition thresholdCandidate ::
  "selector_fn \<Rightarrow> ThresholdResolveRequest \<Rightarrow> NamespaceThreshold \<Rightarrow> go_error + thresholdMatch option" where
  "thresholdCandidate asSel req t =
     (case matchThreshold asSel t req of
        Inl e \<Rightarrow> Inl (wrapErr (''match NamespaceThreshold '' @ thresholdQName t @ '': '') e)
      | Inr None \<Rightarrow> Inr None
      | Inr (Some mt) \<Rightarrow> Inr (Some \<lparr>tm_threshold = t, tm_matchType = mt\<rparr>))"

definition thresholdLess :: "thresholdMatch \<Rightarrow> thresholdMatch \<Rightarrow> bool" where
  "thresholdLess a b =
     (let pa = nts_Priority (nt_Spec (tm_threshold a));
          pb = nts_Priority (nt_Spec (tm_threshold b)) in
      if pa \<noteq> pb then pa > pb
      else if tm_matchType a \<noteq> tm_matchType b then tm_matchType a = ThresholdMatchDirect
      else thresholdQName (tm_threshold a) < thresholdQName (tm_threshold b))"

definition thresholdReference :: "NamespaceThreshold \<Rightarrow> string \<Rightarrow> ThresholdReference" where
  "thresholdReference t matchType =
     (let m = nt_Meta t in
      \<lparr>tref_APIVersion = GroupVersionString, tref_Kind = ''NamespaceThreshold'',
       tref_Name = om_Name m, tref_Namespace = om_Namespace m, tref_UID = om_UID m,
       tref_ResourceVersion = om_ResourceVersion m, tref_Generation = om_Generation m,
       tref_Version = resourceVersionOr m, tref_Priority = nts_Priority (nt_Spec t),
       tref_MatchType = matchType\<rparr>)"

text \<open>\<open>listed\<close> is \<open>None\<close> when the enforcer has no reader.\<close>

definition Enforcer_Resolve ::
  "selector_fn \<Rightarrow> (go_error + NamespaceThreshold list) option \<Rightarrow> ThresholdResolveRequest
   \<Rightarrow> go_error + Resolution option" where
  "Enforcer_Resolve asSel listed req =
     (case listed of
        None \<Rightarrow> Inl (Errorf ''threshold enforcer requires a Kubernetes reader'')
      | Some (Inl e) \<Rightarrow> Inl (wrapErr ''list NamespaceThreshold resources: '' e)
      | Some (Inr items) \<Rightarrow>
          (case collectMatches thresholdEligible (thresholdCandidate asSel req) items of
             Inl e \<Rightarrow> Inl e
           | Inr [] \<Rightarrow> Inr None
           | Inr (m # ms) \<Rightarrow>
               (let selected = hd (SliceStable thresholdLess (m # ms)) in
                Inr (Some \<lparr>rsl_Threshold = tm_threshold selected,
                           rsl_Reference = thresholdReference (tm_threshold selected)
                                             (tm_matchType selected)\<rparr>))))"

definition thresholdViolations :: "NamespaceThresholdSpec \<Rightarrow> Usage \<Rightarrow> Violation list" where
  "thresholdViolations spec usage =
     (if nts_ActivePlansLimit spec > 0 \<and> us_ActivePlans usage > nts_ActivePlansLimit spec
      then [\<lparr>vio_Resource = ''activePlans'', vio_Current = us_ActivePlans usage,
             vio_Limit = nts_ActivePlansLimit spec,
             vio_Reason = ''active RemediationPlan count exceeds namespace threshold''\<rparr>]
      else []) @
     (if nts_PendingApprovalsLimit spec > 0
         \<and> us_PendingApprovals usage > nts_PendingApprovalsLimit spec
      then [\<lparr>vio_Resource = ''pendingApprovals'', vio_Current = us_PendingApprovals usage,
             vio_Limit = nts_PendingApprovalsLimit spec,
             vio_Reason = ''pending approval count exceeds namespace threshold''\<rparr>]
      else [])"

definition Enforcer_Evaluate ::
  "selector_fn \<Rightarrow> (go_error + NamespaceThreshold list) option \<Rightarrow> ThresholdResolveRequest \<Rightarrow> Usage
   \<Rightarrow> go_error + EnforcementResult" where
  "Enforcer_Evaluate asSel listed req usage =
     (case Enforcer_Resolve asSel listed req of
        Inl e \<Rightarrow> Inl e
      | Inr None \<Rightarrow> Inr \<lparr>enf_Allowed = True, enf_Violations = [], enf_Resolution = None\<rparr>
      | Inr (Some rsl) \<Rightarrow>
          (let violations = thresholdViolations (nt_Spec (rsl_Threshold rsl)) usage in
           Inr \<lparr>enf_Allowed = (length violations = 0), enf_Violations = violations,
                enf_Resolution = Some rsl\<rparr>))"

definition Enforcer_Enforce ::
  "selector_fn \<Rightarrow> (go_error + NamespaceThreshold list) option \<Rightarrow> ThresholdResolveRequest \<Rightarrow> Usage
   \<Rightarrow> go_error + EnforcementResult" where
  "Enforcer_Enforce = Enforcer_Evaluate"

text \<open>
  \<open>thresholdLess\<close> is an order only on the two match types that \<open>matchThreshold\<close> produces: on a
  third one it would not be asymmetric.  \<open>wfMatch\<close> is that well-formedness.
\<close>

definition wfMatch :: "thresholdMatch \<Rightarrow> bool" where
  "wfMatch m \<longleftrightarrow> tm_matchType m \<in> {ThresholdMatchDirect, ThresholdMatchSelector}"

lemma thresholdCandidate_Some:
  "thresholdCandidate asSel req t = Inr (Some m) \<longleftrightarrow>
   tm_threshold m = t \<and> matchThreshold asSel t req = Inr (Some (tm_matchType m))"
  by (auto simp: thresholdCandidate_def split: sum.splits option.splits)

lemma thresholdCandidate_wf: "thresholdCandidate asSel req t = Inr (Some m) \<Longrightarrow> wfMatch m"
  by (auto simp: thresholdCandidate_Some matchThreshold_def wfMatch_def
      split: option.splits sum.splits if_splits)

text \<open>The order restricted to well-formed matches, and equal to it there.\<close>

definition thresholdLessWf :: "thresholdMatch \<Rightarrow> thresholdMatch \<Rightarrow> bool" where
  "thresholdLessWf a b \<longleftrightarrow> wfMatch a \<and> wfMatch b \<and> thresholdLess a b \<or> wfMatch a \<and> \<not> wfMatch b"

interpretation thresholdOrder: precedence thresholdLessWf
proof
  fix x y z :: thresholdMatch
  note defs = thresholdLessWf_def thresholdLess_def wfMatch_def Let_def
  show "thresholdLessWf x y \<Longrightarrow> \<not> thresholdLessWf y x"
    by (auto simp: defs split: if_splits)
  show "thresholdLessWf x y \<Longrightarrow> thresholdLessWf y z \<Longrightarrow> thresholdLessWf x z"
    by (auto simp: defs split: if_splits)
  show "\<not> thresholdLessWf x y \<Longrightarrow> \<not> thresholdLessWf y x \<Longrightarrow> \<not> thresholdLessWf y z
      \<Longrightarrow> \<not> thresholdLessWf z y \<Longrightarrow> \<not> thresholdLessWf x z"
    by (auto simp: defs split: if_splits)
qed

lemma insertStable_cong:
  "(\<And>y. y \<in> set ys \<Longrightarrow> lt y x = lt' y x) \<Longrightarrow> insertStable lt x ys = insertStable lt' x ys"
  by (induction ys) auto

lemma SliceStable_thresholdLess:
  "(\<And>m. m \<in> set ms \<Longrightarrow> wfMatch m) \<Longrightarrow> SliceStable thresholdLess ms = SliceStable thresholdLessWf ms"
proof (induction ms)
  case (Cons m ms)
  then have eq: "SliceStable thresholdLess ms = SliceStable thresholdLessWf ms" by simp
  have "insertStable thresholdLess m (SliceStable thresholdLessWf ms)
      = insertStable thresholdLessWf m (SliceStable thresholdLessWf ms)"
    by (rule insertStable_cong) (use Cons.prems in \<open>auto simp: thresholdLessWf_def\<close>)
  with eq show ?case by (simp add: SliceStable_def)
qed (simp add: SliceStable_def)

text \<open>
   the threshold that governs a namespace is an eligible one that matches it, directly or by
  selector, and no other eligible matching threshold precedes it (higher priority, then a direct
  match, then the smaller qualified name).
\<close>

theorem threshold_best_match:
  assumes "Enforcer_Resolve asSel (Some (Inr items)) req = Inr (Some rsl)"
  shows "\<exists>m. tm_threshold m = rsl_Threshold rsl \<and> rsl_Threshold rsl \<in> set items
    \<and> thresholdEligible (rsl_Threshold rsl)
    \<and> matchThreshold asSel (rsl_Threshold rsl) req = Inr (Some (tm_matchType m))
    \<and> tref_MatchType (rsl_Reference rsl) = tm_matchType m
    \<and> (\<forall>t\<in>set items. \<forall>mt. thresholdEligible t \<and> matchThreshold asSel t req = Inr (Some mt)
         \<longrightarrow> \<not> thresholdLess \<lparr>tm_threshold = t, tm_matchType = mt\<rparr> m)"
proof -
  from assms obtain x xs where
    c: "collectMatches thresholdEligible (thresholdCandidate asSel req) items = Inr (x # xs)"
    and r: "rsl = \<lparr>rsl_Threshold = tm_threshold (hd (SliceStable thresholdLess (x # xs))),
        rsl_Reference = thresholdReference (tm_threshold (hd (SliceStable thresholdLess (x # xs))))
          (tm_matchType (hd (SliceStable thresholdLess (x # xs))))\<rparr>"
    by (auto simp: Enforcer_Resolve_def Let_def split: sum.splits list.splits)
  let ?m = "hd (SliceStable thresholdLess (x # xs))"
  note s = collectMatches_set [OF c]
  have wf: "wfMatch m" if "m \<in> set (x # xs)" for m
    using that s thresholdCandidate_wf by blast
  note eq = SliceStable_thresholdLess [of "x # xs", OF wf]
  have m: "?m \<in> set (x # xs)" using thresholdOrder.hd_SliceStable_in [of "x # xs"] eq by simp
  have least: "\<not> thresholdLess m ?m" if "m \<in> set (x # xs)" for m
    using thresholdOrder.hd_SliceStable_least [of "x # xs" m] that wf [OF m] wf [OF that] eq
    by (simp add: thresholdLessWf_def)
  have cand: "\<lparr>tm_threshold = t, tm_matchType = mt\<rparr> \<in> set (x # xs)"
    if "t \<in> set items" "thresholdEligible t" "matchThreshold asSel t req = Inr (Some mt)" for t mt
    using that unfolding s by (auto simp: thresholdCandidate_Some)
  have "tm_threshold ?m \<in> set items \<and> thresholdEligible (tm_threshold ?m)
      \<and> matchThreshold asSel (tm_threshold ?m) req = Inr (Some (tm_matchType ?m))"
    using m unfolding s by (auto simp: thresholdCandidate_Some)
  then show ?thesis
    using r least cand by (intro exI [of _ ?m]) (auto simp: thresholdReference_def Let_def)
qed

definition demoThreshold :: "string \<Rightarrow> int \<Rightarrow> int \<Rightarrow> NamespaceThreshold" where
  "demoThreshold name prio limit =
     \<lparr>nt_Meta = emptyMeta\<lparr>om_Name := name, om_Namespace := ''prod''\<rparr>,
      nt_Spec = \<lparr>nts_NamespaceSelector = None, nts_ActivePlansLimit = limit,
        nts_PendingApprovalsLimit = 0, nts_DefaultTTLSeconds = 0,
        nts_DefaultApprovalTimeoutSeconds = 0, nts_ProtectionLevel = ''standard'',
        nts_Priority = prio, nts_Enabled = True\<rparr>, nt_Phase = ''Valid''\<rparr>"

lemma demoThreshold_resolved:
  "Enforcer_Resolve (\<lambda>_. Inr (\<lambda>_. True))
     (Some (Inr [demoThreshold ''a'' 1 3, demoThreshold ''b'' 2 7]))
     \<lparr>trq_Namespace = ''prod'', trq_NamespaceLabels = Map.empty\<rparr>
   = Inr (Some \<lparr>rsl_Threshold = demoThreshold ''b'' 2 7,
       rsl_Reference = thresholdReference (demoThreshold ''b'' 2 7) ThresholdMatchDirect\<rparr>)"
  by (simp add: Enforcer_Resolve_def demoThreshold_def thresholdEligible_def thresholdCandidate_def
      matchThreshold_def SliceStable_def thresholdLess_def emptyMeta_def)

theorem threshold_best_match_witness:
  "\<exists>m. tm_threshold m = demoThreshold ''b'' 2 7
     \<and> \<not> thresholdLess \<lparr>tm_threshold = demoThreshold ''a'' 1 3,
            tm_matchType = ThresholdMatchDirect\<rparr> m"
  using threshold_best_match [OF demoThreshold_resolved]
  by (auto simp: demoThreshold_def thresholdEligible_def matchThreshold_def emptyMeta_def)

text \<open>
   enforcement allows a namespace exactly when no positive limit of the governing threshold is
  exceeded; a limit of zero (or below) never blocks, and each violation reports the usage and the
  limit it exceeds.
\<close>

theorem threshold_allowed_iff:
  assumes "Enforcer_Resolve asSel listed req = Inr (Some rsl)"
  shows "\<exists>res. Enforcer_Enforce asSel listed req usage = Inr res
    \<and> enf_Resolution res = Some rsl
    \<and> (enf_Allowed res \<longleftrightarrow>
         (nts_ActivePlansLimit (nt_Spec (rsl_Threshold rsl)) \<le> 0
            \<or> us_ActivePlans usage \<le> nts_ActivePlansLimit (nt_Spec (rsl_Threshold rsl)))
       \<and> (nts_PendingApprovalsLimit (nt_Spec (rsl_Threshold rsl)) \<le> 0
            \<or> us_PendingApprovals usage \<le> nts_PendingApprovalsLimit (nt_Spec (rsl_Threshold rsl))))
    \<and> (\<forall>v\<in>set (enf_Violations res). 0 < vio_Limit v \<and> vio_Limit v < vio_Current v)"
  using assms
  by (auto simp: Enforcer_Enforce_def Enforcer_Evaluate_def thresholdViolations_def Let_def)

theorem threshold_allowed_iff_witness:
  "\<exists>res. Enforcer_Enforce (\<lambda>_. Inr (\<lambda>_. True))
       (Some (Inr [demoThreshold ''a'' 1 3, demoThreshold ''b'' 2 7]))
       \<lparr>trq_Namespace = ''prod'', trq_NamespaceLabels = Map.empty\<rparr>
       \<lparr>us_ActivePlans = 8, us_PendingApprovals = 100\<rparr> = Inr res
     \<and> \<not> enf_Allowed res"
  using threshold_allowed_iff [OF demoThreshold_resolved,
      of "\<lparr>us_ActivePlans = 8, us_PendingApprovals = 100\<rparr>"]
  by (auto simp: demoThreshold_def)

end
