(* ===== verification/RemediationPlanController.thy ===== *)
theory RemediationPlanController
  imports AgentActionController Thresholds
begin

text \<open>
  \<^verbatim>\<open>internal/controllers/remediationplan_controller.go\<close> and
  \<^verbatim>\<open>internal/controllers/remediationplan_ttl_controller.go\<close>: a new \<open>RemediationPlan\<close> is checked
  against the namespace's thresholds, judged once by the policy engine or the legacy guardrails,
  turned into an \<open>AgentAction\<close> with the decision in its status, and deleted when its TTL is over.
\<close>

subsection \<open>The reconciler\<close>

record PolicyEngine =
  eng_Reader :: bool
  eng_Legacy :: "Policy option"
  eng_Enabled :: bool

text \<open>\<open>pc_Thresholds\<close> is \<open>None\<close> without an enforcer, and otherwise says whether it has a reader.\<close>

record RemediationPlanReconciler =
  pc_Guardrails :: "Policy option"
  pc_PolicyEngine :: "PolicyEngine option"
  pc_Thresholds :: "bool option"
  pc_PolicyPackEnabled :: bool
  pc_EventRecorder :: bool

abbreviation approvalDecisionActor :: string where
  "approvalDecisionActor \<equiv> ''fluxseer-rca-policy-engine''"
abbreviation annotationRiskSignalUID :: string where
  "annotationRiskSignalUID \<equiv> ''fluxseer-rca.aiops.platform/risk-signal-uid''"

abbreviation updatePlanStatusOf ::
  "(RemediationPlanStatus \<Rightarrow> RemediationPlanStatus) \<Rightarrow> RemediationPlan \<Rightarrow> RemediationPlan" where
  "updatePlanStatusOf f p \<equiv> p\<lparr>plan_Status := f (plan_Status p)\<rparr>"

definition setPlanPhase :: "string \<Rightarrow> string \<Rightarrow> gotime \<Rightarrow> RemediationPlan \<Rightarrow> RemediationPlan" where
  "setPlanPhase phase message now p =
     updatePlanStatusOf (\<lambda>s. s\<lparr>pst_Resource :=
        setResourceStatus phase message (om_Generation (plan_Meta p)) now (pst_Resource s)\<rparr>) p"

text \<open>
  \<^verbatim>\<open>before.Status != after.Status\<close> compares the pointers \<^verbatim>\<open>FinishedAt\<close>, and \<^verbatim>\<open>DeepCopy\<close> makes a
  new one.
\<close>

definition statusChangedPlan :: "RemediationPlan \<Rightarrow> RemediationPlan \<Rightarrow> bool" where
  "statusChangedPlan before after \<longleftrightarrow>
     plan_Status before \<noteq> plan_Status after \<or> pst_FinishedAt (plan_Status after) \<noteq> None"

definition updatePlanStatus ::
  "kube \<Rightarrow> RemediationPlan \<Rightarrow> history \<Rightarrow> (go_error + RemediationPlan) \<times> history" where
  "updatePlanStatus k p h =
     (let r = k_updatePlanStatus k h p in (r, EUpdatePlanStatus p (errorOf r) # h))"

subsection \<open>Usage and policy evaluation\<close>

definition namespaceLabels ::
  "kube \<Rightarrow> string \<Rightarrow> history \<Rightarrow> (go_error + strmap) \<times> history" where
  "namespaceLabels k ns h =
     (if ns = [] then (Inr Map.empty, h)
      else
        (case k_getNamespaceLabels k h ns of
           Inl err \<Rightarrow>
             (if IsNotFound err then Inr Map.empty
              else Inl (wrapErr (''get target namespace '' @ quote ns @ '': '') err), ERead ns # h)
         | Inr labels \<Rightarrow> (Inr labels, ERead ns # h)))"

definition planActive :: "RemediationPlan \<Rightarrow> bool" where
  "planActive p \<longleftrightarrow>
     \<not> (planPhase p = PhaseSucceeded \<or> planPhase p = PhaseFailed \<or> planPhase p = PhaseRejected
        \<or> planPhase p = PhaseCompleted)"

definition approvalPending :: "AgentAction \<Rightarrow> bool" where
  "approvalPending a \<longleftrightarrow> actPhase a = PhaseWaitingApproval \<or> actPhase a = PhaseEscalated"

definition namespaceUsage ::
  "kube \<Rightarrow> string \<Rightarrow> history \<Rightarrow> (go_error + Usage) \<times> history" where
  "namespaceUsage k ns h =
     (case k_listPlans k h ns of
        Inl err \<Rightarrow>
          (Inl (wrapErr (''list remediation plans in namespace '' @ quote ns @ '': '') err),
           ERead ''RemediationPlan'' # h)
      | Inr plans \<Rightarrow>
          (let h = ERead ''RemediationPlan'' # h in
           case k_listActions k h ns of
             Inl err \<Rightarrow>
               (Inl (wrapErr (''list agent actions in namespace '' @ quote ns @ '': '') err),
                ERead ''AgentAction'' # h)
           | Inr actions \<Rightarrow>
               (Inr \<lparr>us_ActivePlans = wrap32 (int (length (filter planActive plans))),
                     us_PendingApprovals = wrap32 (int (length (filter approvalPending actions)))\<rparr>,
                ERead ''AgentAction'' # h)))"

definition reviewInputOf :: "RemediationPlan \<Rightarrow> ReviewInput" where
  "reviewInputOf plan =
     \<lparr>ri_Resource = targetToResource (ps_Target (plan_Spec plan)),
      ri_Severity = ps_Severity (plan_Spec plan),
      ri_Remediation = remediationFromPlan plan, ri_Environment = []\<rparr>"

definition targetNamespaceOf :: "RemediationPlan \<Rightarrow> string" where
  "targetNamespaceOf plan =
     (if t_Namespace (ps_Target (plan_Spec plan)) = [] then om_Namespace (plan_Meta plan)
      else t_Namespace (ps_Target (plan_Spec plan)))"

definition evaluatePolicy_plan ::
  "selector_fn \<Rightarrow> RemediationPlanReconciler \<Rightarrow> kube \<Rightarrow> RemediationPlan \<Rightarrow> history
   \<Rightarrow> (go_error + PolicyEvaluation) \<times> history" where
  "evaluatePolicy_plan asSel pc k plan h =
     (case pc_PolicyEngine pc of
        None \<Rightarrow>
          (case pc_Guardrails pc of
             None \<Rightarrow>
               (Inl (Errorf ''remediation plan reconciler requires a guardrails evaluator''), h)
           | Some pol \<Rightarrow>
               (Inr \<lparr>pe_Decision = Engine_Evaluate pol (reviewInputOf plan), pe_Policy = None,
                     pe_Source = PolicySourceLegacy, pe_ApprovalTimeoutSeconds = 0,
                     pe_Escalation = None\<rparr>, h))
      | Some eng \<Rightarrow>
          (case namespaceLabels k (targetNamespaceOf plan) h of
             (Inl err, h) \<Rightarrow> (Inl err, h)
           | (Inr nsLabels, h) \<Rightarrow>
               (PolicyEngine_Evaluate asSel (eng_Enabled eng) (eng_Legacy eng)
                  (if eng_Reader eng then Some (k_listPolicies k h) else None)
                  \<lparr>pri_Review = reviewInputOf plan, pri_ResourceLabels = om_Labels (plan_Meta plan),
                   pri_NamespaceLabels = nsLabels\<rparr>,
                if eng_Enabled eng \<and> eng_Reader eng then ERead ''ApprovalPolicy'' # h else h)))"

definition approvalSource :: "PolicyEvaluation \<Rightarrow> string \<Rightarrow> string" where
  "approvalSource evaluation fallback =
     (case pe_Policy evaluation of
        None \<Rightarrow> fallback
      | Some p \<Rightarrow> pref_Kind p @ ''/'' @ pref_Namespace p @ ''/'' @ pref_Name p @ ''@'' @ pref_Version p)"

subsection \<open>Thresholds\<close>

definition violationText :: "Violation \<Rightarrow> string" where
  "violationText v = vio_Resource v @ ''='' @ itoa (vio_Current v) @ '' exceeds limit=''
     @ itoa (vio_Limit v)"

definition rejectForThreshold ::
  "RemediationPlanReconciler \<Rightarrow> kube \<Rightarrow> RemediationPlan \<Rightarrow> EnforcementResult \<Rightarrow> gotime \<Rightarrow> history
   \<Rightarrow> outcome \<times> history" where
  "rejectForThreshold pc k original result now h =
     (let message = (case enf_Resolution result of
             None \<Rightarrow> ''namespace threshold exceeded''
           | Some rsl \<Rightarrow>
               (let ref = rsl_Reference rsl in
                ''namespace threshold '' @ tref_Namespace ref @ ''/'' @ tref_Name ref @ ''@''
                @ tref_Version ref @ '' exceeded''));
          plan = updatePlanStatusOf (\<lambda>s. s\<lparr>pst_FinishedAt := Some now\<rparr>)
            (setPlanPhase PhaseRejected
               (message @ '': '' @ Join (map violationText (enf_Violations result)) ''; '') now original) in
      if \<not> statusChangedPlan original plan then (Stop, h)
      else
        (case updatePlanStatus k plan h of
           (Inl err, h) \<Rightarrow>
             if errKind err \<noteq> Conflict then (Fail err, h)
             else (Stop, recordEvent (pc_EventRecorder pc)
                     (''Warning'', ''NamespaceThresholdExceeded'',
                      rs_Message (pst_Resource (plan_Status plan))) h)
         | (Inr plan, h) \<Rightarrow>
             (Stop, recordEvent (pc_EventRecorder pc)
                (''Warning'', ''NamespaceThresholdExceeded'',
                 rs_Message (pst_Resource (plan_Status plan))) h)))"

text \<open>Defaults of the threshold that the plan leaves open; the flag says that one was taken.\<close>

definition applyNamespaceDefaults ::
  "NamespaceThresholdSpec \<Rightarrow> RemediationPlan \<Rightarrow> RemediationPlan \<times> bool" where
  "applyNamespaceDefaults threshold plan =
     (let ttl = ps_TTLSeconds (plan_Spec plan) = 0 \<and> nts_DefaultTTLSeconds threshold > 0;
          plan1 = (if ttl then plan\<lparr>plan_Spec := (plan_Spec plan)\<lparr>
                     ps_TTLSeconds := nts_DefaultTTLSeconds threshold\<rparr>\<rparr> else plan);
          timeout = ps_ApprovalTimeoutSeconds (plan_Spec plan) = 0
                    \<and> nts_DefaultApprovalTimeoutSeconds threshold > 0;
          plan2 = (if timeout then plan1\<lparr>plan_Spec := (plan_Spec plan1)\<lparr>
                     ps_ApprovalTimeoutSeconds := nts_DefaultApprovalTimeoutSeconds threshold\<rparr>\<rparr>
                   else plan1) in
      (plan2, ttl \<or> timeout))"

definition persistNamespaceDefaults ::
  "kube \<Rightarrow> RemediationPlan \<Rightarrow> history \<Rightarrow> (go_error + RemediationPlan) \<times> history" where
  "persistNamespaceDefaults k plan h =
     (let r = k_updatePlan k h plan in (r, EUpdatePlan plan (errorOf r) # h))"

subsection \<open>The owned action\<close>

definition setIfNonempty :: "string \<Rightarrow> string \<Rightarrow> strmap \<Rightarrow> strmap" where
  "setIfNonempty key v m = (if v \<noteq> [] then m(key \<mapsto> v) else m)"

definition planActionKey :: "RemediationPlan \<Rightarrow> NamespacedName" where
  "planActionKey plan = (om_Namespace (plan_Meta plan), om_Name (plan_Meta plan) @ ''-action'')"

text \<open>The function that \<^verbatim>\<open>controllerutil.CreateOrUpdate\<close> applies to the action.\<close>

definition actionMutate ::
  "kube \<Rightarrow> RemediationPlan \<Rightarrow> PolicyEvaluation \<Rightarrow> int \<Rightarrow> AgentAction \<Rightarrow> go_error + AgentAction" where
  "actionMutate k plan evaluation approvalTimeoutSeconds action =
     (case k_controllerRefAction k plan action of
        Inl err \<Rightarrow> Inl err
      | Inr action \<Rightarrow>
          (let step = remediationFromPlan plan;
               decision = pe_Decision evaluation;
               planAnn = mapGet (om_Annotations (plan_Meta plan));
               chainRef = (case pe_Escalation evaluation of
                             None \<Rightarrow> [] | Some c \<Rightarrow> ec_EscalationChainRef c);
               ann = setIfNonempty annotationRiskSignalUID (planAnn annotationRiskSignalUID)
                      (setIfNonempty annotationRiskSignalRef (planAnn annotationRiskSignalRef)
                        (setIfNonempty annotationTargetUID (planAnn annotationTargetUID)
                          (setIfNonempty annotationEscalationChainRef chainRef
                             (om_Annotations (act_Meta action))))) in
           Inr (action\<lparr>
             act_Meta := (act_Meta action)\<lparr>om_Labels := om_Labels (plan_Meta plan),
                                            om_Annotations := ann\<rparr>,
             act_Spec := (act_Spec action)\<lparr>
               as_Target := ps_Target (plan_Spec plan),
               as_ActionType := rem_ActionType step,
               as_Parameters := rem_Parameters step,
               as_DryRunResult := ad_DryRunResult decision,
               as_TTLSeconds := ps_TTLSeconds (plan_Spec plan),
               as_ApprovalTimeoutSeconds := approvalTimeoutSeconds,
               as_RollbackPlan := ps_RollbackPlan (plan_Spec plan),
               as_ApprovedBy := (if ad_Action decision = ApprovalAuto then ad_ApprovedBy decision
                                 else as_ApprovedBy (act_Spec action))\<rparr>\<rparr>)))"

definition createOrUpdateAction ::
  "kube \<Rightarrow> NamespacedName \<Rightarrow> (AgentAction \<Rightarrow> go_error + AgentAction) \<Rightarrow> history
   \<Rightarrow> (go_error + AgentAction) \<times> history" where
  "createOrUpdateAction k key mutate h =
     (let r = k_createOrUpdateAction k h key mutate in (r, ECreateOrUpdateAction key r # h))"

text \<open>The decision in the plan's status, lines 154 to 164.\<close>

definition decidePlan ::
  "kube \<Rightarrow> ApprovalDecision \<Rightarrow> RemediationPlan \<Rightarrow> history \<Rightarrow> RemediationPlan \<times> history" where
  "decidePlan k decision plan h =
     (case ad_Action decision of
        ApprovalAuto \<Rightarrow>
          (let (now, h) = tick k h in
           (setPlanPhase PhaseApproved ''policy auto-approved remediation plan'' now plan, h))
      | ApprovalManual \<Rightarrow>
          (let (now, h) = tick k h in
           (setPlanPhase PhaseWaitingApproval ''human approval required before execution'' now plan, h))
      | ApprovalReject \<Rightarrow>
          (let (now, h) = tick k h; (finishedAt, h) = tick k h in
           (updatePlanStatusOf (\<lambda>s. s\<lparr>pst_FinishedAt := Some finishedAt\<rparr>)
              (setPlanPhase PhaseRejected (ad_Reason decision) now plan), h)))"

text \<open>The decision in the action's status, lines 171 to 209.\<close>

definition decideAction ::
  "codec \<Rightarrow> PolicyEvaluation \<Rightarrow> gotime \<Rightarrow> AgentAction \<Rightarrow> AgentAction" where
  "decideAction cd evaluation recordedAt action =
     (let decision = pe_Decision evaluation;
          approval = (\<lambda>approved by source.
            \<lparr>apv_Approved = approved, apv_ApprovedBy = by,
             apv_Source = approvalSource evaluation source,
             apv_ActionDigest = agentActionSpecDigest cd action,
             apv_ApprovedGeneration = om_Generation (act_Meta action),
             apv_ApprovedAt = None, apv_EscalatedAt = None,
             apv_DecidedAt = Some recordedAt, apv_DecidedBy = approvalDecisionActor\<rparr>);
          action1 = updateStatus (\<lambda>s. s\<lparr>ast_DryRunResult :=
            Some \<lparr>dr_Result = ad_DryRunResult decision, dr_RecordedAt = Some recordedAt\<rparr>\<rparr>) action in
      case ad_Action decision of
        ApprovalAuto \<Rightarrow>
          updateStatus (\<lambda>s. s\<lparr>ast_Approval :=
              Some (approval True (ad_ApprovedBy decision) ''GuardrailsAutoApproval'')\<rparr>)
            (setActionPhase PhaseApproved (ad_Reason decision) recordedAt action1)
      | ApprovalManual \<Rightarrow>
          updateStatus (\<lambda>s. s\<lparr>ast_Approval := Some (approval False [] ''ManualApprovalRequired'')\<rparr>)
            (setActionPhase PhaseWaitingApproval (ad_Reason decision) recordedAt action1)
      | ApprovalReject \<Rightarrow>
          updateStatus (\<lambda>s. s\<lparr>ast_FinishedAt := Some recordedAt,
              ast_Approval := Some (approval False [] ''GuardrailsRejected'')\<rparr>)
            (setActionPhase PhaseRejected (ad_Reason decision) recordedAt action1))"

subsection \<open>Reconcile\<close>

text \<open>Persist the plan's decision, lines 218 to 225.\<close>

definition persistPlanDecision ::
  "kube \<Rightarrow> RemediationPlan \<Rightarrow> RemediationPlan \<Rightarrow> history \<Rightarrow> outcome \<times> history" where
  "persistPlanDecision k originalPlan plan h =
     (if statusChangedPlan originalPlan plan then
        (case updatePlanStatus k plan h of
           (Inl err, h) \<Rightarrow> (Fail err, h)
         | (Inr _, h) \<Rightarrow> (Stop, h))
      else (Stop, h))"

definition decideAndPersist ::
  "codec \<Rightarrow> RemediationPlanReconciler \<Rightarrow> kube \<Rightarrow> RemediationPlan \<Rightarrow> PolicyEvaluation \<Rightarrow> AgentAction
   \<Rightarrow> history \<Rightarrow> outcome \<times> history" where
  "decideAndPersist cd pc k plan evaluation action h =
     (let (decided, h) = decidePlan k (pe_Decision evaluation) plan h;
          (recordedAt, h) = tick k h;
          decidedAction = decideAction cd evaluation recordedAt action in
      if statusChangedAction action decidedAction then
        writeStatus k decidedAction (\<lambda>updated h.
          persistPlanDecision k plan decided
            (recordPhaseTransition (pc_EventRecorder pc) (actPhase action) (actPhase updated) h)) h
      else persistPlanDecision k plan decided h)"

definition judgePlan ::
  "codec \<Rightarrow> selector_fn \<Rightarrow> RemediationPlanReconciler \<Rightarrow> kube \<Rightarrow> RemediationPlan \<Rightarrow> history
   \<Rightarrow> outcome \<times> history" where
  "judgePlan cd asSel pc k plan h =
     (case evaluatePolicy_plan asSel pc k plan h of
        (Inl err, h) \<Rightarrow> (Fail err, h)
      | (Inr evaluation, h) \<Rightarrow>
          (let timeout = (if pe_ApprovalTimeoutSeconds evaluation > 0
                          then pe_ApprovalTimeoutSeconds evaluation
                          else ps_ApprovalTimeoutSeconds (plan_Spec plan)) in
           case createOrUpdateAction k (planActionKey plan)
             (actionMutate k plan evaluation timeout) h of
             (Inl err, h) \<Rightarrow> (Fail err, h)
           | (Inr action, h) \<Rightarrow> decideAndPersist cd pc k plan evaluation action h))"

text \<open>Threshold enforcement, lines 66 to 102, followed by the judgement.\<close>

definition enforceThresholds ::
  "codec \<Rightarrow> selector_fn \<Rightarrow> RemediationPlanReconciler \<Rightarrow> kube \<Rightarrow> bool \<Rightarrow> RemediationPlan \<Rightarrow> history
   \<Rightarrow> outcome \<times> history" where
  "enforceThresholds cd asSel pc k reader plan h =
     (case namespaceLabels k (targetNamespaceOf plan) h of
        (Inl err, h) \<Rightarrow> (Fail err, h)
      | (Inr labels, h) \<Rightarrow>
          (case namespaceUsage k (targetNamespaceOf plan) h of
             (Inl err, h) \<Rightarrow> (Fail err, h)
           | (Inr usage, h) \<Rightarrow>
               (let enforced = Enforcer_Enforce asSel
                      (if reader then Some (k_listThresholds k h) else None)
                      \<lparr>trq_Namespace = targetNamespaceOf plan, trq_NamespaceLabels = labels\<rparr> usage;
                    h = (if reader then ERead ''NamespaceThreshold'' # h else h) in
                case enforced of
                  Inl err \<Rightarrow> (Fail err, h)
                | Inr result \<Rightarrow>
                    if \<not> enf_Allowed result then
                      (let (now, h) = tick k h in rejectForThreshold pc k plan result now h)
                    else
                      (case enf_Resolution result of
                         None \<Rightarrow> judgePlan cd asSel pc k plan h
                       | Some rsl \<Rightarrow>
                           (let (plan', changed) =
                                  applyNamespaceDefaults (nt_Spec (rsl_Threshold rsl)) plan in
                            if changed then
                              (case persistNamespaceDefaults k plan' h of
                                 (Inl err, h) \<Rightarrow> (Fail err, h)
                               | (Inr plan'', h) \<Rightarrow> judgePlan cd asSel pc k plan'' h)
                            else judgePlan cd asSel pc k plan' h)))))"

definition RemediationPlan_Reconcile ::
  "codec \<Rightarrow> selector_fn \<Rightarrow> RemediationPlanReconciler \<Rightarrow> kube \<Rightarrow> NamespacedName \<Rightarrow> history
   \<Rightarrow> outcome \<times> history" where
  "RemediationPlan_Reconcile cd asSel pc k key h =
     (case k_getPlan k h key of
        Inl err \<Rightarrow> (Done 0 (IgnoreNotFound err), EGetPlan key # h)
      | Inr plan \<Rightarrow>
          (let h = EGetPlan key # h in
           if planPhase plan \<noteq> [] then (Stop, h)
           else case pc_Thresholds pc of
             Some reader \<Rightarrow> enforceThresholds cd asSel pc k reader plan h
           | None \<Rightarrow> judgePlan cd asSel pc k plan h))"

text \<open>\<^verbatim>\<open>mapPendingPolicyPlans\<close>: the undecided plans, when a policy or a threshold changes.\<close>

definition mapPendingPolicyPlans :: "kube \<Rightarrow> history \<Rightarrow> NamespacedName list" where
  "mapPendingPolicyPlans k h =
     (case k_listPlans k h [] of
        Inl err \<Rightarrow> []
      | Inr plans \<Rightarrow> map planKey (filter (\<lambda>p. planPhase p = []) plans))"

subsection \<open>Expiry\<close>

definition hasRetainAnnotation :: "RemediationPlan \<Rightarrow> bool" where
  "hasRetainAnnotation plan \<longleftrightarrow> om_Annotations (plan_Meta plan) retainAnnotation \<noteq> None"

definition ownedByPlan :: "AgentAction \<Rightarrow> RemediationPlan \<Rightarrow> bool" where
  "ownedByPlan action plan \<longleftrightarrow>
     list_ex (\<lambda>owner. or_Kind owner = ''RemediationPlan'' \<and> or_Name owner = om_Name (plan_Meta plan))
       (om_OwnerReferences (act_Meta action))
     \<or> om_Name (act_Meta action) = om_Name (plan_Meta plan) @ ''-action''"

definition isTerminalAgentActionPhase :: "string \<Rightarrow> bool" where
  "isTerminalAgentActionPhase phase \<longleftrightarrow>
     phase = PhaseSucceeded \<or> phase = PhaseFailed \<or> phase = PhaseRejected"

text \<open>
  The loop of \<^verbatim>\<open>terminalFinishedAt\<close> over the actions: \<open>None\<close> is the early return on an owned
  action that is not finished, otherwise the latest finishing time and the number of owned actions.
\<close>

fun latestFinish :: "RemediationPlan \<Rightarrow> gotime \<Rightarrow> nat \<Rightarrow> AgentAction list \<Rightarrow> (gotime \<times> nat) option" where
  "latestFinish plan latest n [] = Some (latest, n)"
| "latestFinish plan latest n (a # as) =
     (if \<not> ownedByPlan a plan then latestFinish plan latest n as
      else if \<not> isTerminalAgentActionPhase (actPhase a) then None
      else case ast_FinishedAt (act_Status a) of
        None \<Rightarrow> None
      | Some t \<Rightarrow> latestFinish plan (if t > latest then t else latest) (Suc n) as)"

definition terminalFinishedAt ::
  "kube \<Rightarrow> RemediationPlan \<Rightarrow> history \<Rightarrow> (go_error + gotime option) \<times> history" where
  "terminalFinishedAt k plan h =
     (if planPhase plan = PhaseRejected then (Inr None, h)
      else
        (case k_listActions k h (om_Namespace (plan_Meta plan)) of
           Inl err \<Rightarrow> (Inl err, ERead ''AgentAction'' # h)
         | Inr actions \<Rightarrow>
             (case latestFinish plan 0 0 actions of
                None \<Rightarrow> (Inr None, ERead ''AgentAction'' # h)
              | Some (latest, actionCount) \<Rightarrow>
                  (Inr (if actionCount = 0 \<or> latest = 0 then None else Some latest),
                   ERead ''AgentAction'' # h))))"

definition expirePlan ::
  "kube \<Rightarrow> RemediationPlan \<Rightarrow> history \<Rightarrow> outcome \<times> history" where
  "expirePlan k plan h =
     (case pst_FinishedAt (plan_Status plan) of
        None \<Rightarrow> (Panicked, h)
      | Some finishedAt \<Rightarrow>
          (let expiresAt = finishedAt + durationSeconds (ps_TTLSeconds (plan_Spec plan));
               (now, h) = tick k h in
           if \<not> now < expiresAt then
             (let r = k_deletePlan k h (planKey plan); h = EDeletePlan (planKey plan) r # h in
              case r of
                Some err \<Rightarrow> (if IsNotFound err then (Stop, h) else (Fail err, h))
              | None \<Rightarrow> (Stop, h))
           else
             (let (now2, h) = tick k h in (Requeue (subTime expiresAt now2), h))))"

definition RemediationPlanTTL_Reconcile ::
  "kube \<Rightarrow> NamespacedName \<Rightarrow> history \<Rightarrow> outcome \<times> history" where
  "RemediationPlanTTL_Reconcile k key h =
     (case k_getPlan k h key of
        Inl err \<Rightarrow> (Done 0 (IgnoreNotFound err), EGetPlan key # h)
      | Inr plan \<Rightarrow>
          (let h = EGetPlan key # h in
           if ps_TTLSeconds (plan_Spec plan) \<le> 0 \<or> hasRetainAnnotation plan then (Stop, h)
           else case pst_FinishedAt (plan_Status plan) of
             Some _ \<Rightarrow> expirePlan k plan h
           | None \<Rightarrow>
               (case terminalFinishedAt k plan h of
                  (Inl err, h) \<Rightarrow> (Fail err, h)
                | (Inr None, h) \<Rightarrow> (Stop, h)
                | (Inr (Some finishedAt), h) \<Rightarrow>
                    (case updatePlanStatus k
                       (updatePlanStatusOf (\<lambda>s. s\<lparr>pst_FinishedAt := Some finishedAt\<rparr>) plan) h of
                       (Inl err, h) \<Rightarrow> (if IsNotFound err then (Stop, h) else (Fail err, h))
                     | (Inr plan, h) \<Rightarrow> expirePlan k plan h))))"

end
