(* ===== verification/ActionSafety.thy ===== *)
theory ActionSafety
  imports AgentActionController
begin

text \<open>
  Safety of the action controller: which events each handler can add to the history, that a
  backend is only called for an approved action whose execution identity has been persisted, and
  that a run of the controller calls it at most once.
\<close>

subsection \<open>What the handlers may emit\<close>

text \<open>\<open>actionEvent W\<close>: no dispatch, and every status written satisfies \<open>W\<close>.\<close>

fun actionEvent :: "(AgentAction \<Rightarrow> bool) \<Rightarrow> event \<Rightarrow> bool" where
  "actionEvent W (EDispatch rq) = False"
| "actionEvent W (EUpdateActionStatus a r) = W a"
| "actionEvent W e = True"

abbreviation anyWrite :: "AgentAction \<Rightarrow> bool" where "anyWrite \<equiv> (\<lambda>_. True)"

named_theorems emit_intros \<open>what an operation may add to the history\<close>

lemma readEvent_actionEvent: "readEvent e \<Longrightarrow> actionEvent W e"
  by (cases e) auto

lemma backendEvent_actionEvent: "backendEvent e \<Longrightarrow> actionEvent W e"
  by (cases e) (auto dest: readEvent_actionEvent)

lemma actionEvent_mono: "actionEvent W e \<Longrightarrow> (\<And>a. W a \<Longrightarrow> V a) \<Longrightarrow> actionEvent V e"
  by (cases e) auto

lemma actionEvent_noDispatch: "actionEvent W e \<Longrightarrow> \<not> isDispatch e"
  by (cases e) auto

text \<open>
  Each rule has the form ``if the history up to \<open>h\<close> is fine, so is the one the operation leaves'',
  so that the rules follow the structure of a handler.
\<close>

lemma emits_ConsI' [emit_intros]: "actionEvent W e \<Longrightarrow> emits (actionEvent W) h0 h \<Longrightarrow>
  emits (actionEvent W) h0 (e # h)"
  by (rule emits_ConsI)

lemma writeStatus_emits:
  assumes "W a"
    and "\<And>a' h'. emits (actionEvent W) h0 h' \<Longrightarrow> emits (actionEvent W) h0 (snd (c a' h'))"
    and "emits (actionEvent W) h0 h"
  shows "emits (actionEvent W) h0 (snd (writeStatus k a c h))"
  using assms by (auto simp: writeStatus_def handler_defs Let_def emits_ConsI split: sum.split)

lemma writeStatus_last_emits [emit_intros]:
  "W a \<Longrightarrow> (\<And>a' h'. emits (actionEvent W) h0 h' \<Longrightarrow> emits (actionEvent W) h0 (f a' h')) \<Longrightarrow>
   emits (actionEvent W) h0 h \<Longrightarrow>
   emits (actionEvent W) h0 (snd (writeStatus k a (\<lambda>a h. (g a h, f a h)) h))"
  by (rule writeStatus_emits) simp_all

lemma recordEvent_emits [emit_intros]:
  "emits (actionEvent W) h0 h \<Longrightarrow> emits (actionEvent W) h0 (recordEvent b ev h)"
  by (simp add: recordEvent_def emits_ConsI split: prod.split)

lemma recordPhaseTransition_emits [emit_intros]:
  "emits (actionEvent W) h0 h \<Longrightarrow> emits (actionEvent W) h0 (recordPhaseTransition b p q h)"
  by (simp add: recordPhaseTransition_def recordEvent_emits)

lemma markEscalated_emits [emit_intros]:
  "emits (actionEvent anyWrite) h0 h \<Longrightarrow>
   emits (actionEvent anyWrite) h0 (snd (markEscalated rc k now a h))"
  by (auto simp: markEscalated_def Let_def split: option.split intro!: emit_intros)

lemma notifyEscalation_emits [emit_intros]:
  "emits (actionEvent anyWrite) h0 h \<Longrightarrow>
   emits (actionEvent anyWrite) h0 (snd (notifyEscalation rc k now route a h))"
  unfolding notifyEscalation_def Let_def
  by (rule writeStatus_emits)
    (simp_all add: handler_defs Let_def emit_intros split: option.split)

lemma escalationRoute_emits:
  "escalationRoute asSel rc k a h = (r, h') \<Longrightarrow> emits (actionEvent W) h0 h \<Longrightarrow>
   emits (actionEvent W) h0 h'"
  by (auto simp: escalationRoute_def emits_ConsI split: if_splits)

lemma reconcileApprovalTimeout_emits [emit_intros]:
  "emits (actionEvent anyWrite) h0 h \<Longrightarrow>
   emits (actionEvent anyWrite) h0 (snd (reconcileApprovalTimeout asSel rc k a now h))"
  by (cases "escalationRoute asSel rc k a h")
    (auto simp: reconcileApprovalTimeout_def Let_def split: sum.split
      intro!: emit_intros elim!: escalationRoute_emits)

lemma reconcilePending_emits [emit_intros]:
  "emits (actionEvent anyWrite) h0 h \<Longrightarrow>
   emits (actionEvent anyWrite) h0 (snd (reconcilePending cd asSel rc k a now h))"
  by (auto simp: reconcilePending_def Let_def intro!: emit_intros)

lemma reconcileTerminalStateTTL_emits [emit_intros]:
  "emits (actionEvent W) h0 h \<Longrightarrow>
   emits (actionEvent W) h0 (snd (reconcileTerminalStateTTL k a now h))"
  by (simp add: reconcileTerminalStateTTL_def handler_defs Let_def emits_ConsI split: option.split)

subsection \<open>Settled actions\<close>

text \<open>
  An action is settled when the controller will not call a backend for it any more: a terminal
  phase, or the phase \<open>Executing\<close> with a recorded execution identity.
\<close>

definition settled :: "AgentAction \<Rightarrow> bool" where
  "settled a \<longleftrightarrow> actPhase a \<in> {PhaseSucceeded, PhaseFailed, PhaseRejected} \<or>
     (actPhase a = PhaseExecuting \<and> executionIdentified a)"

definition settledAt :: "NamespacedName \<Rightarrow> AgentAction \<Rightarrow> bool" where
  "settledAt key a \<longleftrightarrow> settled a \<and> actionKey a = key"

lemma actionKey_simps [simp]:
  "actionKey (a\<lparr>act_Status := s\<rparr>) = actionKey a"
  "actionKey (setActionPhase p m t a) = actionKey a"
  "act_Meta (setActionPhase p m t a) = act_Meta a"
  "act_Spec (setActionPhase p m t a) = act_Spec a"
  by (simp_all add: actionKey_def setActionPhase_def)

lemma actPhase_setActionPhase [simp]:
  "rs_Phase (ast_Resource (act_Status (setActionPhase p m t a))) = p"
  "ast_Execution (act_Status (setActionPhase p m t a)) = ast_Execution (act_Status a)"
  "ast_Approval (act_Status (setActionPhase p m t a)) = ast_Approval (act_Status a)"
  "ast_Effectiveness (act_Status (setActionPhase p m t a)) = ast_Effectiveness (act_Status a)"
  "ast_FinishedAt (act_Status (setActionPhase p m t a)) = ast_FinishedAt (act_Status a)"
  by (simp_all add: setActionPhase_def)

lemma succeededAction_settled: "actionKey a = key \<Longrightarrow> settledAt key (succeededAction a res ex ef now)"
  by (simp add: succeededAction_def settledAt_def settled_def Let_def)

lemma failedExecution_settled: "actionKey a = key \<Longrightarrow> settledAt key (failedExecution a err t)"
  by (simp add: failedExecution_def settledAt_def settled_def Let_def)

lemma unknownExecution_settled:
  "actionKey a = key \<Longrightarrow> executionIdentified a \<Longrightarrow> settledAt key (unknownExecution a res err t)"
  by (auto simp: unknownExecution_def settledAt_def settled_def executionIdentified_def Let_def
      split: option.splits)

lemma completedEffectiveness_eq:
  "\<exists>e. completedEffectiveness a ef v obs now =
     a\<lparr>act_Status := (act_Status a)\<lparr>ast_Effectiveness := e\<rparr>\<rparr>"
  by (cases obs) (auto simp: completedEffectiveness_def Let_def)

lemma settledAt_effectiveness:
  "settledAt key a \<Longrightarrow> settledAt key (a\<lparr>act_Status := (act_Status a)\<lparr>ast_Effectiveness := e\<rparr>\<rparr>)"
  by (simp add: settledAt_def settled_def executionIdentified_def)

lemma recordExecutionSuccess_emits [emit_intros]:
  "(\<And>ex ef. W (succeededAction a res ex ef now)) \<Longrightarrow> emits (actionEvent W) h0 h \<Longrightarrow>
   emits (actionEvent W) h0 (snd (recordExecutionSuccess rc k a rq res now h))"
  unfolding recordExecutionSuccess_def Let_def
  by (auto split: option.split prod.split
      intro!: writeStatus_emits recordPhaseTransition_emits)

lemma failBeforeDispatch_emits [emit_intros]:
  "actionKey a = key \<Longrightarrow> emits (actionEvent (settledAt key)) h0 h \<Longrightarrow>
   emits (actionEvent (settledAt key)) h0 (snd (failBeforeDispatch k a rq reason err now h))"
  by (auto simp: failBeforeDispatch_def settledAt_def settled_def Let_def intro!: emit_intros)

lemma createEffectivenessVerification_emits:
  "createEffectivenessVerification cd rc k a ex b h = (r, h') \<Longrightarrow>
   emits (actionEvent W) h0 h \<Longrightarrow> emits (actionEvent W) h0 h'"
  by (auto simp: createEffectivenessVerification_def Let_def emits_ConsI split: if_splits)

context action_router
begin

lemma capture_actionEvent:
  "Router_CaptureBaseline r k rq h = (x, h') \<Longrightarrow> emits (actionEvent W) h0 h \<Longrightarrow>
   emits (actionEvent W) h0 h'"
  using capture_emits [of h k rq]
  by (auto intro: emits_trans emits_mono [OF _ readEvent_actionEvent])

lemma observe_actionEvent:
  "Router_ObserveHealth r k rq h = (x, h') \<Longrightarrow> emits (actionEvent W) h0 h \<Longrightarrow>
   emits (actionEvent W) h0 h'"
  using observe_emits [of h k rq]
  by (auto intro: emits_trans emits_mono [OF _ readEvent_actionEvent])

lemma resolve_actionEvent:
  assumes "Router_Resolve r k rq h = (x, h')" and "emits (actionEvent W) h0 h"
  shows "emits (actionEvent W) h0 h'"
proof -
  have "emits (actionEvent W) h (snd (Router_Resolve r k rq h))"
    by (rule emits_mono [OF resolve_emits]) (auto intro: readEvent_actionEvent)
  with assms show ?thesis by (auto intro: emits_trans)
qed

lemma finishVerification_emits:
  assumes "rc_Executor rc = Some r"
    and "\<And>e. W (a\<lparr>act_Status := (act_Status a)\<lparr>ast_Effectiveness := e\<rparr>\<rparr>)"
    and "emits (actionEvent W) h0 h"
  shows "emits (actionEvent W) h0 (snd (finishVerification rc k a ef ref now h))"
proof -
  have "W (completedEffectiveness a ef v obs now)" for v obs
    using completedEffectiveness_eq [of a ef v obs now] assms(2) by auto
  with assms show ?thesis
    by (auto simp: finishVerification_def observeHealth_def split: sum.split option.split prod.split
        intro!: emit_intros elim!: observe_actionEvent)
qed

lemma reconcileEffectivenessVerification_emits:
  assumes "rc_Executor rc = Some r"
    and "\<And>e. W (a\<lparr>act_Status := (act_Status a)\<lparr>ast_Effectiveness := e\<rparr>\<rparr>)"
    and "emits (actionEvent W) h0 h"
  shows "emits (actionEvent W) h0 (snd (reconcileEffectivenessVerification cd rc k a now h))"
  using assms
  by (auto simp: reconcileEffectivenessVerification_def split: option.split sum.split prod.split
      intro!: emit_intros finishVerification_emits
      elim!: createEffectivenessVerification_emits)

lemma recoverExecution_emits:
  assumes "rc_Executor rc = Some r" and "\<And>res ex ef now. W (succeededAction a res ex ef now)"
    and "emits (actionEvent W) h0 h"
  shows "emits (actionEvent W) h0 (snd (recoverExecution rc k a h))"
  using assms
  by (auto simp: recoverExecution_def handler_defs Let_def split: option.split prod.split
      intro!: emit_intros elim!: resolve_actionEvent)

end

subsection \<open>The dispatch\<close>

text \<open>The execution identity that the controller builds is never empty.\<close>

lemma executionID_nonempty [simp]: "eid_ExecutionID (BuildExecutionIdentity cd inp) \<noteq> []"
  by (simp add: BuildExecutionIdentity_def Let_def)

lemma executionRequestFor_ID [simp]: "rq_ExecutionID (executionRequestFor cd a apv) \<noteq> []"
  by (simp add: executionRequestFor_def Let_def)

text \<open>\<open>a\<close> is a status that carries the identity of the request \<open>rq\<close>.\<close>

definition carriesRequest :: "ExecutorRequest \<Rightarrow> AgentAction \<Rightarrow> bool" where
  "carriesRequest rq a \<longleftrightarrow> actPhase a = PhaseExecuting \<and>
     (\<exists>ex. ast_Execution (act_Status a) = Some ex \<and> ex_ExecutionID ex = rq_ExecutionID rq \<and>
           ex_IdempotencyKey ex = rq_IdempotencyKey rq)"

lemma carriesRequest_executing [simp]:
  "carriesRequest rq (executingAction cd a apv rq t)"
  "actionKey (executingAction cd a apv rq t) = actionKey a"
  by (simp_all add: carriesRequest_def executingAction_def Let_def)

lemma carriesRequest_effectiveness [simp]:
  "carriesRequest rq (a\<lparr>act_Status := (act_Status a)\<lparr>ast_Effectiveness := e\<rparr>\<rparr>) \<longleftrightarrow> carriesRequest rq a"
  by (simp add: carriesRequest_def)

lemma carriesRequest_settled:
  "carriesRequest rq a \<Longrightarrow> rq_ExecutionID rq \<noteq> [] \<Longrightarrow> settled a \<and> executionIdentified a"
  by (auto simp: carriesRequest_def settled_def executionIdentified_def)

text \<open>
  The status that is written before a dispatch always differs from the one that was read, so the
  write is never skipped.
\<close>

lemma statusChanged_if_carries:
  "\<not> (actPhase a = PhaseExecuting \<and> executionIdentified a) \<Longrightarrow> carriesRequest rq b \<Longrightarrow>
   rq_ExecutionID rq \<noteq> [] \<Longrightarrow> statusChangedAction a b"
  by (auto simp: statusChangedAction_def carriesRequest_def executionIdentified_def)

text \<open>
  \<open>dispatchPoint key rq h h'\<close>: from \<open>h\<close> the controller came, without a dispatch, to \<open>h'\<close>, where a
  status with the identity of \<open>rq\<close> has just been written for \<open>key\<close>.
\<close>

definition dispatchPoint :: "NamespacedName \<Rightarrow> ExecutorRequest \<Rightarrow> history \<Rightarrow> history \<Rightarrow> bool" where
  "dispatchPoint key rq h h' \<longleftrightarrow>
     (\<exists>h1 a recs. emits (actionEvent (settledAt key)) h h1 \<and>
        h' = recs @ EUpdateActionStatus a None # h1 \<and>
        list_all (\<lambda>e. \<exists>x y z. e = ERecord x y z) recs \<and>
        carriesRequest rq a \<and> actionKey a = key)"

lemma recordPhaseTransition_recs:
  "\<exists>recs. recordPhaseTransition b p q h = recs @ h \<and>
     list_all (\<lambda>e. \<exists>x y z. e = ERecord x y z) recs"
  by (auto simp: recordPhaseTransition_def recordEvent_def split: prod.split
      intro: exI [of _ "[]"] exI [of _ "[ERecord _ _ _]"])

lemma persistAndDispatch_cases:
  assumes "\<not> (actPhase a = PhaseExecuting \<and> executionIdentified a)"
    and "carriesRequest rq b" and "rq_ExecutionID rq \<noteq> []" and "actionKey b = key"
    and "emits (actionEvent (settledAt key)) h0 h"
  shows "emits (actionEvent (settledAt key)) h0 (snd (persistAndDispatch rc k key' r rq a b h)) \<or>
    (\<exists>h'. dispatchPoint key rq h0 h' \<and>
       persistAndDispatch rc k key' r rq a b h = dispatch rc k key' r rq h')"
proof (cases "k_updateActionStatus k h b")
  case (Inl e)
  have "settledAt key b" using carriesRequest_settled assms by (auto simp: settledAt_def)
  with Inl assms show ?thesis
    by (auto simp: persistAndDispatch_def statusChanged_if_carries writeStatus_def handler_defs
        intro: emit_intros)
next
  case (Inr b')
  obtain recs where recs: "recordPhaseTransition (rc_EventRecorder rc) (actPhase a) (actPhase b')
      (EUpdateActionStatus b None # h) = recs @ EUpdateActionStatus b None # h"
    "list_all (\<lambda>e. \<exists>x y z. e = ERecord x y z) recs"
    using recordPhaseTransition_recs by blast
  have "dispatchPoint key rq h0 (recs @ EUpdateActionStatus b None # h)"
    using recs(2) assms unfolding dispatchPoint_def by blast
  with Inr recs(1) assms show ?thesis
    by (auto simp: persistAndDispatch_def statusChanged_if_carries writeStatus_def handler_defs)
qed

lemma withBaseline_cases:
  assumes "\<not> (actPhase a = PhaseExecuting \<and> executionIdentified a)"
    and "carriesRequest rq b" and "rq_ExecutionID rq \<noteq> []" and "actionKey b = key"
    and "emits (actionEvent (settledAt key)) h0 h"
  shows "emits (actionEvent (settledAt key)) h0
      (snd (withBaseline rc k key' r rq a b bl h)) \<or>
    (\<exists>h'. dispatchPoint key rq h0 h' \<and>
       withBaseline rc k key' r rq a b bl h = dispatch rc k key' r rq h')"
proof (cases "populateBaselineEvidence k
    (effectivenessBaselineFromExecutor bl (riskSignalRefFromAction b) b) h")
  case (Pair x h1)
  have h1: "emits (actionEvent (settledAt key)) h0 h1"
    using Pair assms(5)
    by (auto simp: populateBaselineEvidence_def intro!: emit_intros split: option.splits sum.splits)
  show ?thesis
  proof (cases x)
    case (Inl e)
    with Pair h1 assms(4) show ?thesis
      by (auto simp: withBaseline_def handler_defs Let_def intro!: emit_intros)
  next
    case (Inr apiBaseline)
    show ?thesis
      unfolding withBaseline_def Pair Inr prod.case sum.case
      by (rule persistAndDispatch_cases [OF assms(1) _ assms(3) _ h1]) (simp_all add: assms)
  qed
qed

context action_router
begin

lemma executeApproved_cases:
  assumes "rc_Executor rc = Some r"
    and "\<not> (actPhase a = PhaseExecuting \<and> executionIdentified a)"
    and "actionKey a = key" and "emits (actionEvent (settledAt key)) h0 h"
    and "ast_Approval (act_Status a) = Some apv"
  shows "emits (actionEvent (settledAt key)) h0 (snd (executeApproved cd rc k key' a h)) \<or>
    (\<exists>h'. dispatchPoint key (executionRequestFor cd a apv) h0 h' \<and>
       executeApproved cd rc k key' a h =
         dispatch rc k key' r (executionRequestFor cd a apv) h')"
proof -
  obtain bl found err h1 where
      fields: "Router_CaptureBaseline r k (executionRequestFor cd a apv) h = ((bl, found, err), h1)"
    by (metis prod.collapse)
  have h1: "emits (actionEvent (settledAt key)) h0 h1"
    by (rule capture_actionEvent [OF fields assms(4)])
  have tick: "emits (actionEvent (settledAt key)) h0 (ETick t # h1)" for t
    using h1 by (simp add: emits_ConsI)
  show ?thesis
  proof (cases err)
    case (Some e)
    with fields h1 assms show ?thesis
      by (auto simp: executeApproved_def handler_defs Let_def intro!: emit_intros)
  next
    case None
    show ?thesis
    proof (cases found)
      case True
      then show ?thesis
        using withBaseline_cases [OF assms(2) carriesRequest_executing(1) executionRequestFor_ID
            _ tick] assms None fields
        by (simp add: executeApproved_def handler_defs Let_def)
    next
      case False
      then show ?thesis
        using persistAndDispatch_cases [OF assms(2) carriesRequest_executing(1)
            executionRequestFor_ID _ tick] assms None fields
        by (simp add: executeApproved_def handler_defs Let_def)
    qed
  qed
qed


text \<open>What follows a dispatch: the backend's events, then status writes of finished executions.\<close>

lemma dispatch_emits:
  assumes reads: "\<And>h2 a. emits (\<lambda>e. e = EDispatch rq \<or> backendEvent e) h h2 \<Longrightarrow>
      k_getAction k h2 key = Inr a \<Longrightarrow>
      (\<forall>res ex ef now. W (succeededAction a res ex ef now)) \<and> (\<forall>err t. W (failedExecution a err t)) \<and>
      (\<forall>res err t. W (unknownExecution a res err t))"
  shows "emits (actionEvent W) h (snd (dispatch rc k key r rq h)) \<or>
    emits (actionEvent W) (EDispatch rq # h) (snd (dispatch rc k key r rq h))"
proof -
  obtain res err h2 where x: "Router_Execute r k rq h = ((res, err), h2)" by (metis prod.collapse)
  have all: "emits (\<lambda>e. e = EDispatch rq \<or> backendEvent e) h h2"
    using execute_emits [of rq h k] x by simp
  have after: "emits (actionEvent W) h1 (snd (dispatch rc k key r rq h))"
    if h1: "emits (actionEvent W) h1 h2" for h1
    using reads [OF all] h1 x
    by (auto simp: dispatch_def recordExecutionError_def handler_defs Let_def
        split: option.split sum.split intro!: emit_intros)
  show ?thesis
  proof (cases "executorFor r (rq_ActionType rq)")
    case (Inl e)
    then have "h2 = h" using x by (simp add: execute_unknown)
    then show ?thesis using after [of h] by simp
  next
    case (Inr b)
    have "emits backendEvent (EDispatch rq # h) h2" using execute_known [OF Inr, of h k] x by simp
    then have "emits (actionEvent W) (EDispatch rq # h) h2"
      by (rule emits_mono) (rule backendEvent_actionEvent)
    then show ?thesis using after by blast
  qed
qed

text \<open>A reconcile either never dispatches, or reaches exactly one dispatch point.\<close>

lemma Reconcile_cases:
  assumes "rc_Executor rc = Some r"
  shows "emits (actionEvent anyWrite) h (snd (AgentAction_Reconcile cd asSel rc k key h)) \<or>
    (\<exists>a apv h1. k_getAction k h key = Inr a \<and> ast_Approval (act_Status a) = Some apv \<and>
       isAgentActionApproved cd a \<and> \<not> settled a \<and>
       dispatchPoint (actionKey a) (executionRequestFor cd a apv) h h1 \<and>
       AgentAction_Reconcile cd asSel rc k key h =
         dispatch rc k key r (executionRequestFor cd a apv) h1)"
proof (cases "k_getAction k h key")
  case (Inl e)
  then show ?thesis by (simp add: AgentAction_Reconcile_def handler_defs)
next
  case (Inr a)
  let ?h = "EGetAction key # h"
  have start: "emits (actionEvent W) h ?h" for W by simp
  show ?thesis
  proof (cases "verifying a \<or> settled a \<or> \<not> isAgentActionApproved cd a")
    case True
    then show ?thesis
      using Inr assms start
      by (auto simp: AgentAction_Reconcile_def settled_def handler_defs Let_def
          intro!: emit_intros reconcileEffectivenessVerification_emits recoverExecution_emits)
  next
    case False
    then obtain apv where apv: "ast_Approval (act_Status a) = Some apv"
      by (auto simp: isAgentActionApproved_def split: option.splits)
    have "AgentAction_Reconcile cd asSel rc k key h = executeApproved cd rc k key a ?h"
      using Inr False by (auto simp: AgentAction_Reconcile_def settled_def handler_defs)
    moreover have "\<not> (actPhase a = PhaseExecuting \<and> executionIdentified a)"
      using False by (auto simp: settled_def)
    ultimately show ?thesis
      using executeApproved_cases [OF assms _ refl start apv, of cd k key] False Inr apv
      by (auto intro: emits_mono actionEvent_mono)
  qed
qed

text \<open>For a settled action a reconcile never dispatches, and keeps it settled.\<close>

lemma Reconcile_settled:
  assumes "rc_Executor rc = Some r" and "k_getAction k h key = Inr a" and "settledAt key a"
  shows "emits (actionEvent (settledAt key)) h (snd (AgentAction_Reconcile cd asSel rc k key h))"
proof -
  have start: "emits (actionEvent (settledAt key)) h (EGetAction key # h)" by simp
  have key: "actionKey a = key" using assms(3) by (simp add: settledAt_def)
  show ?thesis
  proof (cases "verifying a")
    case True
    then show ?thesis
      using assms start
      by (auto simp: AgentAction_Reconcile_def handler_defs Let_def intro!: emit_intros
          reconcileEffectivenessVerification_emits settledAt_effectiveness)
  next
    case False
    then show ?thesis
      using assms start key
      by (auto simp: AgentAction_Reconcile_def settledAt_def settled_def handler_defs Let_def
          intro!: emit_intros)
        (auto simp: recoverExecution_emits succeededAction_settled)
  qed
qed

end

lemma actionEvent_dispatches:
  "emits (actionEvent W) h h' \<Longrightarrow> dispatches h' = dispatches h"
proof -
  have "\<forall>e\<in>set g. actionEvent W e \<Longrightarrow> dispatches g = 0" for g
    by (induction g) (auto dest: actionEvent_noDispatch)
  then show "emits (actionEvent W) h h' \<Longrightarrow> dispatches h' = dispatches h"
    by (auto simp: emits_def)
qed

lemma emits_noDispatch_new:
  "emits (actionEvent W) h h' \<Longrightarrow> EDispatch rq \<notin> set (newEvents h h')"
  using emits_newEvents by fastforce

lemma dispatchPoint_emits: "dispatchPoint key rq h h' \<Longrightarrow> emits (actionEvent anyWrite) h h'"
proof -
  assume "dispatchPoint key rq h h'"
  then obtain h1 a recs where h1: "emits (actionEvent (settledAt key)) h h1"
    and h': "h' = recs @ EUpdateActionStatus a None # h1"
    and recs: "list_all (\<lambda>e. \<exists>x y z. e = ERecord x y z) recs"
    by (auto simp: dispatchPoint_def)
  have "emits (actionEvent anyWrite) h h1" using h1 by (rule emits_mono) (auto elim: actionEvent_mono)
  then have "emits (actionEvent anyWrite) h (EUpdateActionStatus a None # h1)"
    by (simp add: emits_ConsI)
  moreover have "emits (actionEvent anyWrite) (EUpdateActionStatus a None # h1) h'"
    using recs h' by (auto simp: emits_def list_all_iff)
  ultimately show ?thesis by (rule emits_trans)
qed

subsection \<open>A store and an approved action\<close>

text \<open>The last accepted status write for a key.\<close>

fun lastWrite :: "NamespacedName \<Rightarrow> history \<Rightarrow> AgentAction option" where
  "lastWrite key [] = None"
| "lastWrite key (EUpdateActionStatus a None # h) =
     (if actionKey a = key then Some a else lastWrite key h)"
| "lastWrite key (e # h) = lastWrite key h"

text \<open>A store with the action \<open>a\<close> that keeps the status that was written last.\<close>

definition storeKube :: "AgentAction \<Rightarrow> kube" where
  "storeKube a = idleKube\<lparr>
     k_getAction := (\<lambda>h key.
       if key \<noteq> actionKey a then Inl \<lparr>errKind = NotFound, errText = ''not found''\<rparr>
       else case lastWrite key h of
         None \<Rightarrow> Inr a
       | Some b \<Rightarrow> Inr (a\<lparr>act_Status := act_Status b\<rparr>)),
     k_updateActionStatus := (\<lambda>h a. Inr a)\<rparr>"

definition demoActionSpec :: AgentActionSpec where
  "demoActionSpec = \<lparr>as_Target = eb_Target demoBaseline, as_ActionType = ''notification.sendSlack'',
     as_Parameters = Map.empty, as_ApprovedBy = [], as_DryRunResult = [], as_TTLSeconds = 60,
     as_ApprovalTimeoutSeconds = 30, as_RollbackPlan = []\<rparr>"

definition demoAction :: AgentAction where
  "demoAction =
     (let meta = emptyMeta\<lparr>om_Name := ''fix'', om_Namespace := ''prod'', om_UID := ''uid-1'',
                            om_Generation := 1\<rparr>;
          bare = \<lparr>act_Meta = meta, act_Spec = demoActionSpec, act_Status = emptyActionStatus\<rparr> in
      bare\<lparr>act_Status := emptyActionStatus\<lparr>
        ast_Resource := emptyResourceStatus\<lparr>rs_Phase := PhaseApproved\<rparr>,
        ast_Approval := Some \<lparr>apv_Approved = True, apv_ApprovedBy = ''fluxseer-rca-policy-engine'',
          apv_Source = ''GuardrailsAutoApproval'',
          apv_ActionDigest = agentActionSpecDigest demoCodec bare, apv_ApprovedGeneration = 1,
          apv_ApprovedAt = None, apv_EscalatedAt = None, apv_DecidedAt = None,
          apv_DecidedBy = []\<rparr>\<rparr>\<rparr>)"

definition demoReconciler :: AgentActionReconciler where
  "demoReconciler = \<lparr>rc_Scheme = True, rc_Executor = Some (programRouter demoCodec False []),
     rc_EscalationRouter = False, rc_PolicyPackEnabled = False, rc_Notifier = False,
     rc_EventRecorder = True\<rparr>"

definition everySelector :: selector_fn where "everySelector = (\<lambda>_. Inr (\<lambda>_. True))"

abbreviation demoKey :: NamespacedName where "demoKey \<equiv> (''prod'', ''fix'')"

definition demoRun :: "history \<Rightarrow> outcome \<times> history" where
  "demoRun h = AgentAction_Reconcile demoCodec everySelector demoReconciler (storeKube demoAction)
     demoKey h"

lemma newEvents_from_Nil [simp]: "newEvents [] h = h"
  by (simp add: newEvents_def)

lemma demoAction_simps [simp]:
  "actionKey demoAction = demoKey" "actPhase demoAction = PhaseApproved"
  "as_ActionType (act_Spec demoAction) = ''notification.sendSlack''"
  "ast_Execution (act_Status demoAction) = None" "ast_Effectiveness (act_Status demoAction) = None"
  "isAgentActionApproved demoCodec demoAction"
  by (simp_all add: demoAction_def actionKey_def isAgentActionApproved_def agentActionSpecDigest_def
      demoActionSpec_def emptyActionStatus_def emptyResourceStatus_def Let_def)

lemma demoAction_approval: "\<exists>apv. ast_Approval (act_Status demoAction) = Some apv"
  by (simp add: demoAction_def Let_def)

lemma storeKube_simps [simp]:
  "k_getAction (storeKube a) h (actionKey a) =
     (case lastWrite (actionKey a) h of None \<Rightarrow> Inr a | Some b \<Rightarrow> Inr (a\<lparr>act_Status := act_Status b\<rparr>))"
  "k_updateActionStatus (storeKube a) h b = Inr b"
  by (simp_all add: storeKube_def)

lemma demo_dispatches:
  "\<exists>rq. EDispatch rq \<in> set (newEvents [] (snd (demoRun [])))"
proof -
  obtain apv where apv: "ast_Approval (act_Status demoAction) = Some apv"
    using demoAction_approval by blast
  let ?rq = "executionRequestFor demoCodec demoAction apv"
  let ?k = "storeKube demoAction"
  have type: "rq_ActionType ?rq = ''notification.sendSlack''"
    by (simp add: executionRequestFor_def Let_def)
  have prefixes: "\<not> HasPrefix ''notification.sendSlack'' ''kubernetes.''"
    "\<not> HasPrefix ''notification.sendSlack'' ''gitops.''"
    "\<not> HasPrefix ''notification.sendSlack'' ''runbook.''"
    "HasPrefix ''notification.sendSlack'' ''notification.''"
    by (simp_all add: HasPrefix_def)
  have exec: "executorFor (programRouter demoCodec False []) (rq_ActionType ?rq) =
      Inr (NotificationExecutor [])"
    by (simp add: executorFor_def type prefixes programRouter_def NewRouter_def)
  have changed: "statusChangedAction demoAction (executingAction demoCodec demoAction apv ?rq t)" for t
    by (rule statusChanged_if_carries [of _ ?rq]) simp_all
  have phase: "actPhase (executingAction demoCodec demoAction apv ?rq t) = PhaseExecuting" for t
    using carriesRequest_executing(1) unfolding carriesRequest_def by blast
  have "demoRun [] = executeApproved demoCodec demoReconciler ?k demoKey demoAction
      [EGetAction demoKey]"
    using storeKube_simps(1) [of demoAction "[]"]
    by (simp add: demoRun_def AgentAction_Reconcile_def handler_defs verifying_def executionIdentified_def)
  also have "\<dots> = dispatch demoReconciler ?k demoKey (programRouter demoCodec False []) ?rq h'"
    if "h' = recordPhaseTransition True PhaseApproved PhaseExecuting
      (EUpdateActionStatus (executingAction demoCodec demoAction apv ?rq
          (k_now ?k [EGetAction demoKey])) None # ETick (k_now ?k [EGetAction demoKey]) # [EGetAction demoKey])" for h'
    using that exec apv
    by (simp add: executeApproved_def demoReconciler_def Router_CaptureBaseline_def
        NotificationExecutor_def plainBackend_def handler_defs Let_def persistAndDispatch_def
        changed phase writeStatus_def)
  finally obtain h' where run: "demoRun [] =
      dispatch demoReconciler ?k demoKey (programRouter demoCodec False []) ?rq h'"
    by blast
  have "EDispatch ?rq \<in> set (snd (Router_Execute (programRouter demoCodec False []) ?k ?rq h'))"
    using progRouter.execute_known [OF exec, of h' ?k] by (auto simp: emits_def)
  moreover have "snd (Router_Execute (programRouter demoCodec False []) ?k ?rq h') = h2 \<Longrightarrow>
      emits (actionEvent anyWrite) h2 (snd (demoRun []))" for h2
    unfolding run
    by (auto simp: dispatch_def recordExecutionError_def handler_defs Let_def
        split: prod.split option.split sum.split intro!: emit_intros)
  ultimately show ?thesis by (auto simp: emits_def)
qed

subsection \<open>No execution without approval\<close>



text \<open>C3: when a reconcile dispatches, it has persisted the identity first: the new history is, newest
  first, events without a dispatch, the dispatch, recorded Kubernetes Events, the accepted status
  update that carries the phase \<open>Executing\<close> with the request's execution identity and idempotency
  key, and events without a dispatch.
\<close>

theorem identity_persisted_before_dispatch:
  assumes "rc_Executor rc = Some (programRouter cd' client url)"
    and "EDispatch rq \<in> set (newEvents h (snd (AgentAction_Reconcile cd asSel rc k key h)))"
  shows "\<exists>post recs a pre.
    snd (AgentAction_Reconcile cd asSel rc k key h) =
      post @ EDispatch rq # recs @ EUpdateActionStatus a None # pre @ h \<and>
    list_all (\<lambda>e. \<exists>x y z. e = ERecord x y z) recs \<and>
    carriesRequest rq a \<and> \<not> list_ex isDispatch post \<and> \<not> list_ex isDispatch pre"
proof -
  from progRouter.Reconcile_cases [OF assms(1)] emits_noDispatch_new assms(2)
  obtain a apv h1 where h1: "dispatchPoint (actionKey a) (executionRequestFor cd a apv) h h1"
    and eq: "AgentAction_Reconcile cd asSel rc k key h =
      dispatch rc k key (programRouter cd' client url) (executionRequestFor cd a apv) h1"
    by blast
  let ?h' = "snd (AgentAction_Reconcile cd asSel rc k key h)" and ?rq = "executionRequestFor cd a apv"
  have "emits (actionEvent anyWrite) h1 ?h' \<or> emits (actionEvent anyWrite) (EDispatch ?rq # h1) ?h'"
    using progRouter.dispatch_emits [where W = anyWrite] unfolding eq by blast
  moreover have "\<not> emits (actionEvent anyWrite) h1 ?h'"
    using emits_noDispatch_new [OF emits_trans [OF dispatchPoint_emits [OF h1]]] assms(2) by blast
  ultimately obtain post where post: "?h' = post @ EDispatch ?rq # h1"
      "\<forall>e\<in>set post. actionEvent anyWrite e"
    by (auto simp: emits_def)
  from h1 obtain pre b recs where pre: "\<forall>e\<in>set pre. actionEvent (settledAt (actionKey a)) e"
    and h1_eq: "h1 = recs @ EUpdateActionStatus b None # pre @ h"
    and recs: "list_all (\<lambda>e. \<exists>x y z. e = ERecord x y z) recs" and b: "carriesRequest ?rq b"
    by (auto simp: dispatchPoint_def emits_def)
  have "newEvents h ?h' = post @ EDispatch ?rq # recs @ EUpdateActionStatus b None # pre"
    using newEvents_append [of h "post @ EDispatch ?rq # recs @ EUpdateActionStatus b None # pre"]
    by (simp add: post(1) h1_eq)
  with assms(2) post(2) pre recs have "rq = ?rq"
    by (auto simp: list_all_iff dest: bspec)
  moreover have "\<not> list_ex isDispatch post" "\<not> list_ex isDispatch pre"
    using post(2) pre by (auto simp: list_ex_iff dest: actionEvent_noDispatch)
  ultimately show ?thesis using post(1) h1_eq recs b by blast
qed

theorem identity_persisted_before_dispatch_witness:
  "\<exists>rq post recs a pre. snd (demoRun []) =
     post @ EDispatch rq # recs @ EUpdateActionStatus a None # pre \<and> carriesRequest rq a"
proof -
  obtain rq where rq: "EDispatch rq \<in> set (newEvents [] (snd (demoRun [])))"
    using demo_dispatches by blast
  have "rc_Executor demoReconciler = Some (programRouter demoCodec False [])"
    by (simp add: demoReconciler_def)
  from identity_persisted_before_dispatch [OF this rq [unfolded demoRun_def]] show ?thesis
    unfolding demoRun_def append_Nil2 by blast
qed

subsection \<open>At most one execution\<close>

text \<open>
  A store that answers a read with the object of that name and the status that was accepted last.
\<close>

definition faithfulReads :: "kube \<Rightarrow> NamespacedName \<Rightarrow> bool" where
  "faithfulReads k key \<longleftrightarrow>
     (\<forall>h a. k_getAction k h key = Inr a \<longrightarrow> actionKey a = key \<and>
        (\<forall>b. lastWrite key h = Some b \<longrightarrow> act_Status a = act_Status b))"

text \<open>
  A run: reconciles of one action, in any number, between events of others (anything but a
  dispatch by somebody else or a status write to this action).
\<close>

inductive actionRun ::
  "codec \<Rightarrow> selector_fn \<Rightarrow> AgentActionReconciler \<Rightarrow> kube \<Rightarrow> NamespacedName \<Rightarrow> history \<Rightarrow> bool"
  for cd asSel rc k key where
  start: "actionRun cd asSel rc k key []"
| reconcile: "actionRun cd asSel rc k key h \<Longrightarrow>
    actionRun cd asSel rc k key (snd (AgentAction_Reconcile cd asSel rc k key h))"
| other: "actionRun cd asSel rc k key h \<Longrightarrow> actionEvent (\<lambda>a. actionKey a \<noteq> key) e \<Longrightarrow>
    actionRun cd asSel rc k key (e # h)"

lemma settled_status: "act_Status a = act_Status b \<Longrightarrow> settled a = settled b"
  "act_Status a = act_Status b \<Longrightarrow> executionIdentified a = executionIdentified b"
  by (simp_all add: settled_def executionIdentified_def)

lemma lastWrite_step:
  "actionEvent (settledAt key) e \<Longrightarrow> \<exists>b. lastWrite key h = Some b \<and> settled b \<Longrightarrow>
   \<exists>b. lastWrite key (e # h) = Some b \<and> settled b"
proof (cases e)
  case (EUpdateActionStatus a r)
  assume "actionEvent (settledAt key) e" "\<exists>b. lastWrite key h = Some b \<and> settled b"
  with EUpdateActionStatus show ?thesis by (cases r) (auto simp: settledAt_def)
qed simp_all

lemma lastWrite_settled:
  "emits (actionEvent (settledAt key)) h h' \<Longrightarrow> \<exists>b. lastWrite key h = Some b \<and> settled b \<Longrightarrow>
   \<exists>b. lastWrite key h' = Some b \<and> settled b"
proof -
  assume h: "\<exists>b. lastWrite key h = Some b \<and> settled b"
  have "\<forall>e\<in>set g. actionEvent (settledAt key) e \<Longrightarrow> \<exists>b. lastWrite key (g @ h) = Some b \<and> settled b"
    for g
    by (induction g) (use h lastWrite_step in auto)
  then show "emits (actionEvent (settledAt key)) h h' \<Longrightarrow>
    \<exists>b. lastWrite key h' = Some b \<and> settled b"
    by (auto simp: emits_def)
qed

lemma lastWrite_other:
  "actionEvent (\<lambda>a. actionKey a \<noteq> key) e \<Longrightarrow> lastWrite key (e # h) = lastWrite key h"
proof (cases e)
  case (EUpdateActionStatus a r)
  assume "actionEvent (\<lambda>a. actionKey a \<noteq> key) e"
  with EUpdateActionStatus show ?thesis by (cases r) auto
qed simp_all

lemma lastWrite_backend:
  "emits (\<lambda>e. e = EDispatch rq \<or> backendEvent e) h h' \<Longrightarrow> lastWrite key h' = lastWrite key h"
proof -
  have "\<forall>e\<in>set g. e = EDispatch rq \<or> backendEvent e \<Longrightarrow> lastWrite key (g @ h) = lastWrite key h" for g
  proof (induction g)
    case (Cons e g)
    then show ?case by (cases e) auto
  qed simp
  then show "emits (\<lambda>e. e = EDispatch rq \<or> backendEvent e) h h' \<Longrightarrow> ?thesis"
    by (auto simp: emits_def)
qed

lemma dispatchPoint_lastWrite:
  assumes "dispatchPoint key rq h h'"
  shows "\<exists>a. lastWrite key h' = Some a \<and> carriesRequest rq a"
proof -
  obtain h1 a recs where h': "h' = recs @ EUpdateActionStatus a None # h1"
    and recs: "list_all (\<lambda>e. \<exists>x y z. e = ERecord x y z) recs"
    and a: "carriesRequest rq a" "actionKey a = key"
    using assms by (auto simp: dispatchPoint_def)
  have "lastWrite key (recs @ EUpdateActionStatus a None # h1) = Some a"
    using recs by (induction recs) (auto simp: a)
  with h' a show ?thesis by simp
qed

text \<open>The reads after a dispatch find an identified execution, so they are written back settled.\<close>

lemma dispatch_settles:
  assumes "faithfulReads k key" and "dispatchPoint key rq h h1" and "rq_ExecutionID rq \<noteq> []"
  shows "emits (actionEvent (settledAt key)) h1
      (snd (dispatch rc k key (programRouter cd client url) rq h1)) \<or>
    emits (actionEvent (settledAt key)) (EDispatch rq # h1)
      (snd (dispatch rc k key (programRouter cd client url) rq h1))"
proof (rule progRouter.dispatch_emits)
  fix h2 a
  assume h2: "emits (\<lambda>e. e = EDispatch rq \<or> backendEvent e) h1 h2" and a: "k_getAction k h2 key = Inr a"
  obtain b where b: "lastWrite key h2 = Some b" "carriesRequest rq b"
    using dispatchPoint_lastWrite [OF assms(2)] lastWrite_backend [OF h2, of key] by auto
  have "actionKey a = key" "act_Status a = act_Status b"
    using assms(1) a b(1) by (auto simp: faithfulReads_def)
  moreover then have "executionIdentified a"
    using carriesRequest_settled [OF b(2) assms(3)] settled_status(2) by blast
  ultimately show "(\<forall>res ex ef now. settledAt key (succeededAction a res ex ef now)) \<and>
      (\<forall>err t. settledAt key (failedExecution a err t)) \<and>
      (\<forall>res err t. settledAt key (unknownExecution a res err t))"
    by (auto intro: succeededAction_settled failedExecution_settled unknownExecution_settled)
qed

definition onceInvariant :: "NamespacedName \<Rightarrow> history \<Rightarrow> bool" where
  "onceInvariant key h \<longleftrightarrow> dispatches h = 0 \<or>
     dispatches h = 1 \<and> (\<exists>b. lastWrite key h = Some b \<and> settled b)"

lemma onceInvariant_unsettled:
  assumes "faithfulReads k key" and "k_getAction k h key = Inr a" and "\<not> settled a"
    and "onceInvariant key h"
  shows "dispatches h = 0"
proof -
  have "\<not> settled b" if "lastWrite key h = Some b" for b
  proof -
    have "act_Status a = act_Status b" using assms(1,2) that unfolding faithfulReads_def by blast
    then show ?thesis using settled_status(1) assms(3) by blast
  qed
  with assms(4) show ?thesis unfolding onceInvariant_def by blast
qed

lemma onceInvariant_quiet:
  assumes "dispatches h = 0" and "emits (actionEvent W) h h'"
  shows "onceInvariant key h'"
  using actionEvent_dispatches [OF assms(2)] assms(1) by (simp add: onceInvariant_def)

lemma onceInvariant_settled:
  assumes "onceInvariant key h" and "emits (actionEvent (settledAt key)) h h'"
  shows "onceInvariant key h'"
  using assms(1) actionEvent_dispatches [OF assms(2)] lastWrite_settled [OF assms(2)]
  unfolding onceInvariant_def by presburger

lemma onceInvariant_dispatched:
  assumes "faithfulReads k key" and "dispatchPoint key rq h h1" and "rq_ExecutionID rq \<noteq> []"
    and "dispatches h = 0"
  shows "onceInvariant key (snd (dispatch rc k key (programRouter cd client url) rq h1))"
proof -
  have zero: "dispatches h1 = 0"
    using actionEvent_dispatches [OF dispatchPoint_emits [OF assms(2)]] assms(4) by simp
  obtain b where "lastWrite key h1 = Some b" "settled b"
    using dispatchPoint_lastWrite [OF assms(2)] carriesRequest_settled [OF _ assms(3)] by blast
  then have "onceInvariant key (EDispatch rq # h1)" by (simp add: onceInvariant_def zero)
  then show ?thesis
    using dispatch_settles [OF assms(1-3)] onceInvariant_settled onceInvariant_quiet [OF zero]
    by blast
qed

lemma onceInvariant_reconcile:
  assumes rc: "rc_Executor rc = Some (programRouter cd' client url)"
    and reads: "faithfulReads k key" and inv: "onceInvariant key h"
  shows "onceInvariant key (snd (AgentAction_Reconcile cd asSel rc k key h))"
proof (cases "k_getAction k h key")
  case (Inl e)
  then have "snd (AgentAction_Reconcile cd asSel rc k key h) = EGetAction key # h"
    by (simp add: AgentAction_Reconcile_def handler_defs)
  with inv show ?thesis by (simp add: onceInvariant_def)
next
  case (Inr a)
  then have key: "actionKey a = key" using reads unfolding faithfulReads_def by blast
  show ?thesis
  proof (cases "settled a")
    case True
    then have "settledAt key a" by (simp add: settledAt_def key)
    from onceInvariant_settled [OF inv progRouter.Reconcile_settled [OF rc Inr this]]
    show ?thesis .
  next
    case False
    note zero = onceInvariant_unsettled [OF reads Inr False inv]
    consider "emits (actionEvent anyWrite) h (snd (AgentAction_Reconcile cd asSel rc k key h))"
      | apv h1 where "dispatchPoint key (executionRequestFor cd a apv) h h1"
        "AgentAction_Reconcile cd asSel rc k key h =
          dispatch rc k key (programRouter cd' client url) (executionRequestFor cd a apv) h1"
      using progRouter.Reconcile_cases [OF rc, of h cd asSel k key] Inr key
      by (metis sum.inject(2))
    then show ?thesis
    proof cases
      case 1
      then show ?thesis by (rule onceInvariant_quiet [OF zero])
    next
      case 2
      then show ?thesis using onceInvariant_dispatched [OF reads 2(1) _ zero] by simp
    qed
  qed
qed

text \<open>C2: with a store that returns what was written last, any number of reconciles of an action, at
  any times, with failing calls and lost results, call a backend at most once.
\<close>

theorem at_most_once_dispatch:
  assumes "actionRun cd asSel rc k key h" and "faithfulReads k key"
    and "rc_Executor rc = Some (programRouter cd' client url)"
  shows "dispatches h \<le> 1"
proof -
  have "onceInvariant key h"
    using assms(1)
  proof (induction rule: actionRun.induct)
    case start
    then show ?case by (simp add: onceInvariant_def)
  next
    case (reconcile h)
    then show ?case using onceInvariant_reconcile assms(2,3) by blast
  next
    case (other h e)
    then show ?case
      using lastWrite_other actionEvent_noDispatch by (auto simp: onceInvariant_def)
  qed
  then show ?thesis by (auto simp: onceInvariant_def)
qed

lemma storeKube_faithful: "faithfulReads (storeKube a) (actionKey a)"
  by (auto simp: faithfulReads_def split: option.splits)

theorem at_most_once_dispatch_witness:
  "dispatches (snd (demoRun [])) = 1 \<and> dispatches (snd (demoRun (snd (demoRun [])))) \<le> 1"
proof -
  have rc: "rc_Executor demoReconciler = Some (programRouter demoCodec False [])"
    by (simp add: demoReconciler_def)
  have reads: "faithfulReads (storeKube demoAction) demoKey"
    using storeKube_faithful [of demoAction] by simp
  have run1: "actionRun demoCodec everySelector demoReconciler (storeKube demoAction) demoKey
      (snd (demoRun []))"
    unfolding demoRun_def by (intro actionRun.intros)
  then have run2: "actionRun demoCodec everySelector demoReconciler (storeKube demoAction) demoKey
      (snd (demoRun (snd (demoRun []))))"
    by (subst demoRun_def) (rule actionRun.reconcile)
  obtain rq where "EDispatch rq \<in> set (snd (demoRun []))" using demo_dispatches by auto
  then have "1 \<le> dispatches (snd (demoRun []))"
    by (auto simp: dispatches_def in_set_conv_decomp)
  with at_most_once_dispatch [OF run1 reads rc] at_most_once_dispatch [OF run2 reads rc]
  show ?thesis by linarith
qed

end
