(* ===== verification/ActionProperties.thy ===== *)
theory ActionProperties
  imports ActionSafety
begin

text \<open>
  The functional behaviour of the action controller's branches: waiting for approval and
  escalation, the timestamps of an execution, expiry, the digest that binds an approval to its
  content, and the absence of nil dereferences.
\<close>

subsection \<open>The digest binds an approval to the content\<close>

lemma byte_less: "byte c < 256"
  by (simp add: byte_def)

lemma hexDigit_inj: "m < 16 \<Longrightarrow> n < 16 \<Longrightarrow> hexDigit m = hexDigit n \<Longrightarrow> m = n"
  by (auto simp: hexDigit_def char_of_eq_iff take_bit_eq_mod split: if_splits)

lemma hexEncode_Cons:
  "hexEncode (c # s) = hexDigit (byte c div 16) # hexDigit (byte c mod 16) # hexEncode s"
  by (simp add: hexEncode_def)

lemma hexEncode_inj: "hexEncode s = hexEncode t \<Longrightarrow> s = t"
proof (induction s arbitrary: t)
  case Nil
  then show ?case by (cases t) (simp_all add: hexEncode_Cons, simp add: hexEncode_def)
next
  case (Cons c s)
  then obtain d u where t: "t = d # u" by (cases t) (auto simp: hexEncode_Cons, simp add: hexEncode_def)
  have "byte c div 16 = byte d div 16" "byte c mod 16 = byte d mod 16"
    using Cons.prems byte_less [of c] byte_less [of d]
    by (auto simp: t hexEncode_Cons intro!: hexDigit_inj)
  then have "byte c = byte d" by (metis div_mult_mod_eq)
  then have "c = d" by (simp add: byte_def)
  with Cons t show ?case by (simp add: hexEncode_Cons)
qed

text \<open>C7: editing an action after it was approved revokes the approval: if the spec (without
  \<^verbatim>\<open>approvedBy\<close>) of an approved action is replaced by one that the hash distinguishes, the action
  is not approved any more; changing \<^verbatim>\<open>approvedBy\<close> alone keeps the digest.
\<close>

theorem edit_revokes_approval:
  assumes "isAgentActionApproved cd a"
    and "cd_sha256 cd (cd_spec cd (spec\<lparr>as_ApprovedBy := []\<rparr>)) \<noteq>
         cd_sha256 cd (cd_spec cd ((act_Spec a)\<lparr>as_ApprovedBy := []\<rparr>))"
  shows "\<not> isAgentActionApproved cd (a\<lparr>act_Spec := spec\<rparr>) \<and>
    agentActionSpecDigest cd (a\<lparr>act_Spec := (act_Spec a)\<lparr>as_ApprovedBy := who\<rparr>\<rparr>) =
      agentActionSpecDigest cd a"
  using assms
  by (auto simp: isAgentActionApproved_def agentActionSpecDigest_def digestString_def
      dest: hexEncode_inj split: option.splits if_splits)

theorem edit_revokes_approval_witness:
  "\<not> isAgentActionApproved demoCodec
     (demoAction\<lparr>act_Spec := demoActionSpec\<lparr>as_ActionType := ''gitops.createPullRequest''\<rparr>\<rparr>)"
proof -
  have "cd_sha256 demoCodec (cd_spec demoCodec
        ((demoActionSpec\<lparr>as_ActionType := ''gitops.createPullRequest''\<rparr>)\<lparr>as_ApprovedBy := []\<rparr>)) \<noteq>
      cd_sha256 demoCodec (cd_spec demoCodec ((act_Spec demoAction)\<lparr>as_ApprovedBy := []\<rparr>))"
    by (simp add: demoCodec_def demoActionSpec_def)
  from edit_revokes_approval [OF _ this] show ?thesis by simp
qed

subsection \<open>Waiting for approval\<close>

text \<open> an action that waits for approval is left alone until its deadline, which is
  \<^verbatim>\<open>approvalTimeoutSeconds\<close> after the status was last updated: nothing is written, nobody is
  notified, and the reconcile asks to be called again when the deadline is due.
\<close>

theorem approval_wait_is_quiet:
  assumes "actPhase a \<noteq> PhaseEscalated"
    and "0 < as_ApprovalTimeoutSeconds (act_Spec a)"
    and "as_ApprovalTimeoutSeconds (act_Spec a) \<le> 9223372036"
    and "rs_UpdatedAt (ast_Resource (act_Status a)) \<noteq> 0"
    and "deadline = rs_UpdatedAt (ast_Resource (act_Status a))
           + as_ApprovalTimeoutSeconds (act_Spec a) * 1000000000"
    and "now < deadline"
  shows "reconcileApprovalTimeout asSel rc k a now h = (Requeue (subTime deadline now), h)"
  using assms by (simp add: reconcileApprovalTimeout_def durationSeconds_exact)

theorem approval_wait_is_quiet_witness:
  "reconcileApprovalTimeout everySelector demoReconciler idleKube
     (setActionPhase PhaseWaitingApproval [] 5 demoAction) 1000 [] =
   (Requeue (subTime 30000000005 1000), [])"
  by (rule approval_wait_is_quiet)
    (simp_all add: setActionPhase_def demoAction_def demoActionSpec_def Let_def)

text \<open>A server that answers a status update with the object that was sent.\<close>

definition echoes :: "kube \<Rightarrow> bool" where
  "echoes k \<longleftrightarrow> (\<forall>h a a'. k_updateActionStatus k h a = Inr a' \<longrightarrow> a' = a)"

lemma echoes_storeKube [simp]: "echoes (storeKube a)"
  by (simp add: echoes_def)

lemma writeStatus_echo:
  "echoes k \<Longrightarrow> writeStatus k a c h =
     (case k_updateActionStatus k h a of
        Inl err \<Rightarrow> (Fail err, EUpdateActionStatus a (Some err) # h)
      | Inr a' \<Rightarrow> c a (EUpdateActionStatus a None # h))"
  by (auto simp: writeStatus_def handler_defs echoes_def Let_def split: sum.split)

lemma writeStatus_echo_emits:
  "echoes k \<Longrightarrow> W a \<Longrightarrow>
   (\<And>h'. emits (actionEvent W) h0 h' \<Longrightarrow> emits (actionEvent W) h0 (snd (c a h'))) \<Longrightarrow>
   emits (actionEvent W) h0 h \<Longrightarrow> emits (actionEvent W) h0 (snd (writeStatus k a c h))"
  by (auto simp: writeStatus_echo emits_ConsI split: sum.split)

text \<open>\<open>keepsApproval apv b\<close>: the approval of \<open>b\<close> is \<open>apv\<close> up to the time of escalation.\<close>

definition keepsApproval :: "AgentActionApprovalStatus \<Rightarrow> AgentAction \<Rightarrow> bool" where
  "keepsApproval apv b \<longleftrightarrow> (\<exists>t. ast_Approval (act_Status b) = Some (apv\<lparr>apv_EscalatedAt := t\<rparr>))"

lemma keepsApproval_self: "ast_Approval (act_Status a) = Some apv \<Longrightarrow> keepsApproval apv a"
  by (cases apv) (auto simp: keepsApproval_def)

lemma keepsApproval_notification:
  "keepsApproval apv (a\<lparr>act_Status := (act_Status a)\<lparr>ast_Notification := n\<rparr>\<rparr>) = keepsApproval apv a"
  by (simp add: keepsApproval_def)

lemma setLastError_keeps: "setLastError e a = Some b \<Longrightarrow> keepsApproval apv b = keepsApproval apv a"
  by (auto simp: setLastError_def keepsApproval_notification split: option.splits)

lemma markEscalated_keeps:
  "echoes k \<Longrightarrow> keepsApproval apv a \<Longrightarrow> emits (actionEvent (keepsApproval apv)) h0 h \<Longrightarrow>
   emits (actionEvent (keepsApproval apv)) h0 (snd (markEscalated rc k now a h))"
  by (auto simp: markEscalated_def keepsApproval_def Let_def split: option.split intro!: emit_intros)

lemma notifyEscalation_keeps:
  assumes "echoes k" and "keepsApproval apv a" and "emits (actionEvent (keepsApproval apv)) h0 h"
  shows "emits (actionEvent (keepsApproval apv)) h0 (snd (notifyEscalation rc k now route a h))"
  using assms unfolding notifyEscalation_def Let_def
  by (intro writeStatus_echo_emits)
    (auto simp: handler_defs Let_def keepsApproval_notification setLastError_keeps
      split: option.split intro!: emit_intros markEscalated_keeps)

text \<open>
   an action that guardrails left waiting for a human stays approvable.  As long as its spec
  is unchanged, no reconcile of the pending branch, before or after the timeout, with or without
  delivery failures, changes the approval record except for the time of the escalation; in
  particular the source \<^verbatim>\<open>ManualApprovalRequired\<close> survives.
\<close>

theorem pending_keeps_manual_approval:
  assumes "echoes k" and "ast_Approval (act_Status a) = Some apv"
    and "apv_ActionDigest apv = agentActionSpecDigest cd a"
    and "EUpdateActionStatus b e \<in> set (newEvents h (snd (reconcilePending cd asSel rc k a now h)))"
  shows "\<exists>t. ast_Approval (act_Status b) = Some (apv\<lparr>apv_EscalatedAt := t\<rparr>)"
proof -
  obtain x h1 where route: "escalationRoute asSel rc k a h = (x, h1)" by (metis prod.collapse)
  have h1: "emits (actionEvent (keepsApproval apv)) h h1"
    by (rule escalationRoute_emits [OF route]) simp
  have "emits (actionEvent (keepsApproval apv)) h (snd (reconcilePending cd asSel rc k a now h))"
    using assms(1-3) h1 route
    by (auto simp: reconcilePending_def reconcileApprovalTimeout_def Let_def keepsApproval_self
        split: sum.split intro: markEscalated_keeps notifyEscalation_keeps)
  from emits_newEvents [OF this assms(4)] show ?thesis by (simp add: keepsApproval_def)
qed

definition demoWaiting :: AgentAction where
  "demoWaiting =
     demoAction\<lparr>act_Status := emptyActionStatus\<lparr>
       ast_Resource := emptyResourceStatus\<lparr>rs_Phase := PhaseWaitingApproval, rs_UpdatedAt := 5\<rparr>,
       ast_Approval := Some \<lparr>apv_Approved = False, apv_ApprovedBy = [],
         apv_Source = ''ManualApprovalRequired'',
         apv_ActionDigest = agentActionSpecDigest demoCodec demoAction, apv_ApprovedGeneration = 1,
         apv_ApprovedAt = None, apv_EscalatedAt = None, apv_DecidedAt = None,
         apv_DecidedBy = []\<rparr>\<rparr>\<rparr>"

definition notifyingKube :: kube where
  "notifyingKube = (storeKube demoWaiting)\<lparr>k_notify := (\<lambda>_ _. None)\<rparr>"

definition demoNotifier :: AgentActionReconciler where
  "demoNotifier = demoReconciler\<lparr>rc_Notifier := True\<rparr>"

lemma notifyingKube_simps [simp]:
  "k_updateActionStatus notifyingKube h a = Inr a" "k_notify notifyingKube h m = None"
  "echoes notifyingKube"
  by (simp_all add: notifyingKube_def echoes_def)

lemma demoWaiting_simps [simp]:
  "actPhase demoWaiting = PhaseWaitingApproval"
  "rs_UpdatedAt (ast_Resource (act_Status demoWaiting)) = 5"
  "as_ApprovalTimeoutSeconds (act_Spec demoWaiting) = 30"
  "ast_Notification (act_Status demoWaiting) = None"
  "agentActionSpecDigest demoCodec demoWaiting = agentActionSpecDigest demoCodec demoAction"
  by (simp_all add: demoWaiting_def demoAction_def demoActionSpec_def emptyActionStatus_def
      agentActionSpecDigest_def Let_def)

lemma demoWaiting_approval:
  "\<exists>apv. ast_Approval (act_Status demoWaiting) = Some apv \<and>
     apv_ActionDigest apv = agentActionSpecDigest demoCodec demoAction \<and>
     apv_Source apv = ''ManualApprovalRequired''"
  by (simp add: demoWaiting_def)

abbreviation demoEscalation :: "outcome \<times> history" where
  "demoEscalation \<equiv>
     reconcileApprovalTimeout everySelector demoNotifier notifyingKube demoWaiting 40000000000 []"

lemma demo_escalation:
  "\<exists>b. EUpdateActionStatus b None \<in> set (newEvents [] (snd demoEscalation)) \<and>
     actPhase b = PhaseEscalated"
proof -
  obtain apv where apv: "ast_Approval (act_Status demoWaiting) = Some apv"
    using demoWaiting_approval by blast
  define c where "c = updateStatus (\<lambda>s. s\<lparr>ast_Notification := Some
      \<lparr>ns_LastAttemptAt = Some 40000000000, ns_RetryCount = 1, ns_LastError = []\<rparr>\<rparr>) demoWaiting"
  have c: "setLastError [] c = Some c" "ast_Approval (act_Status c) = Some apv"
      "actPhase c = PhaseWaitingApproval"
    by (simp_all add: c_def setLastError_def apv)
  have "\<exists>h. snd demoEscalation = snd (markEscalated demoNotifier notifyingKube 40000000000 c h)"
    using c(1)
    by (simp add: reconcileApprovalTimeout_def escalationRoute_def notifyEscalation_def
        writeStatus_echo demoNotifier_def demoReconciler_def durationSeconds_exact handler_defs
        c_def [symmetric] Let_def) blast
  moreover have "\<exists>b. EUpdateActionStatus b None \<in>
      set (snd (markEscalated demoNotifier notifyingKube 40000000000 c h)) \<and>
      actPhase b = PhaseEscalated" for h
  proof -
    define d where "d = updateStatus (\<lambda>s. s\<lparr>ast_Approval := Some (apv\<lparr>apv_EscalatedAt := Some 40000000000\<rparr>)\<rparr>)
      (setActionPhase PhaseEscalated ''approval timeout exceeded, escalation notified'' 40000000000 c)"
    have d: "actPhase d = PhaseEscalated" by (simp add: d_def)
    then have "statusChangedAction c d" using c(3) by (auto simp: statusChangedAction_def)
    then have "snd (markEscalated demoNotifier notifyingKube 40000000000 c h) =
        recordPhaseTransition (rc_EventRecorder demoNotifier) (actPhase c) (actPhase d)
          (EUpdateActionStatus d None # h)"
      using c(2) by (simp add: markEscalated_def d_def [symmetric] writeStatus_echo Let_def)
    with d show ?thesis
      using recordPhaseTransition_recs [of "rc_EventRecorder demoNotifier" "actPhase c" "actPhase d"
          "EUpdateActionStatus d None # h"]
      by auto
  qed
  ultimately show ?thesis by auto
qed

theorem pending_keeps_manual_approval_witness:
  "\<exists>b apv. EUpdateActionStatus b None \<in> set (newEvents []
       (snd (reconcilePending demoCodec everySelector demoNotifier notifyingKube demoWaiting
          40000000000 []))) \<and>
     ast_Approval (act_Status b) = Some apv \<and> apv_Source apv = ''ManualApprovalRequired''"
proof -
  obtain apv where apv: "ast_Approval (act_Status demoWaiting) = Some apv"
    "apv_ActionDigest apv = agentActionSpecDigest demoCodec demoWaiting"
    "apv_Source apv = ''ManualApprovalRequired''"
    using demoWaiting_approval by auto
  have eq: "reconcilePending demoCodec everySelector demoNotifier notifyingKube demoWaiting
      40000000000 [] = demoEscalation"
    using apv by (simp add: reconcilePending_def)
  obtain b where b: "EUpdateActionStatus b None \<in> set (newEvents []
      (snd (reconcilePending demoCodec everySelector demoNotifier notifyingKube demoWaiting
         40000000000 [])))"
    using demo_escalation unfolding eq by blast
  from pending_keeps_manual_approval [OF notifyingKube_simps(3) apv(1,2) b] b apv(3)
  show ?thesis by auto
qed

lemma setLastError_phase: "setLastError e a = Some b \<Longrightarrow> actPhase b = actPhase a"
  by (auto simp: setLastError_def split: option.splits)

text \<open>
  Every write of the phase \<open>Escalated\<close> since \<open>h0\<close> came directly after a delivered notification.
\<close>

definition escalationsNotified :: "history \<Rightarrow> history \<Rightarrow> bool" where
  "escalationsNotified h0 h \<longleftrightarrow>
     (\<exists>g. h = g @ h0 \<and>
        (\<forall>post b e rest. g = post @ EUpdateActionStatus b e # rest \<and> actPhase b = PhaseEscalated \<longrightarrow>
           (\<exists>m pre. rest = ENotify m None # pre)))"

lemma escalationsNotified_refl: "escalationsNotified h h"
  by (simp add: escalationsNotified_def)

lemma escalationsNotified_quiet:
  assumes "escalationsNotified h0 h"
    and "\<And>b r. ev = EUpdateActionStatus b r \<Longrightarrow> actPhase b \<noteq> PhaseEscalated"
  shows "escalationsNotified h0 (ev # h)"
proof -
  from assms(1) obtain g where g: "h = g @ h0"
    "\<forall>post b e rest. g = post @ EUpdateActionStatus b e # rest \<and> actPhase b = PhaseEscalated \<longrightarrow>
       (\<exists>m pre. rest = ENotify m None # pre)"
    by (auto simp: escalationsNotified_def)
  have "\<exists>m pre. rest = ENotify m None # pre"
    if "ev # g = post @ EUpdateActionStatus b e # rest" "actPhase b = PhaseEscalated" for post b e rest
    using that g(2) assms(2) by (cases post) auto
  with g(1) show ?thesis unfolding escalationsNotified_def by (intro exI [of _ "ev # g"]) auto
qed

lemma escalationsNotified_write:
  assumes "escalationsNotified h0 h"
  shows "escalationsNotified h0 (EUpdateActionStatus b e # ENotify m None # h)"
proof -
  from assms obtain g where g: "h = g @ h0"
    "\<forall>post b e rest. g = post @ EUpdateActionStatus b e # rest \<and> actPhase b = PhaseEscalated \<longrightarrow>
       (\<exists>m pre. rest = ENotify m None # pre)"
    by (auto simp: escalationsNotified_def)
  have "\<exists>m pre. rest = ENotify m None # pre"
    if "EUpdateActionStatus b e # ENotify m None # g = post @ EUpdateActionStatus c r # rest"
      "actPhase c = PhaseEscalated" for post c r rest
    using that g(2) by (auto simp: Cons_eq_append_conv)
  with g(1) show ?thesis
    unfolding escalationsNotified_def
    by (intro exI [of _ "EUpdateActionStatus b e # ENotify m None # g"]) auto
qed

lemma escalationsNotified_record:
  "escalationsNotified h0 h \<Longrightarrow> escalationsNotified h0 (recordPhaseTransition r p q h)"
  "escalationsNotified h0 h \<Longrightarrow> escalationsNotified h0 (recordEvent r ev h)"
  by (auto simp: recordPhaseTransition_def recordEvent_def split: prod.split
      intro: escalationsNotified_quiet)

lemma markEscalated_notified:
  assumes "echoes k" and "escalationsNotified h0 h"
  shows "escalationsNotified h0 (snd (markEscalated rc k now a (ENotify m None # h)))"
  using assms
  by (auto simp: markEscalated_def writeStatus_echo Let_def split: option.split sum.split
      intro: escalationsNotified_record escalationsNotified_write escalationsNotified_quiet)

lemma notifyEscalation_notified:
  assumes "echoes k" and "escalationsNotified h0 h" and "actPhase a \<noteq> PhaseEscalated"
  shows "escalationsNotified h0 (snd (notifyEscalation rc k now route a h))"
  using assms
  by (auto simp: notifyEscalation_def writeStatus_echo handler_defs Let_def setLastError_phase
      split: option.split sum.split
      intro!: markEscalated_notified escalationsNotified_record(2) escalationsNotified_quiet)

text \<open>
   with a notifier, the phase \<open>Escalated\<close> is written only directly after the escalation
  notification was delivered; so a failed delivery leaves the action waiting and is retried.
\<close>

theorem escalated_only_after_notification:
  assumes "echoes k" and "rc_Notifier rc" and "actPhase a \<noteq> PhaseEscalated"
    and "EUpdateActionStatus b e \<in>
      set (newEvents h (snd (reconcileApprovalTimeout asSel rc k a now h)))"
    and "actPhase b = PhaseEscalated"
  shows "\<exists>post m pre. snd (reconcileApprovalTimeout asSel rc k a now h) =
    post @ EUpdateActionStatus b e # ENotify m None # pre @ h"
proof -
  obtain x h1 where route: "escalationRoute asSel rc k a h = (x, h1)" by (metis prod.collapse)
  then have h1: "escalationsNotified h h1"
    by (auto simp: escalationRoute_def escalationsNotified_refl split: if_splits
        intro: escalationsNotified_quiet)
  then have "escalationsNotified h (snd (reconcileApprovalTimeout asSel rc k a now h))"
    using assms(1-3) route notifyEscalation_notified [OF assms(1) h1 assms(3)]
    by (auto simp: reconcileApprovalTimeout_def Let_def escalationsNotified_refl split: sum.split)
  then obtain g where g: "snd (reconcileApprovalTimeout asSel rc k a now h) = g @ h"
    "\<forall>post b e rest. g = post @ EUpdateActionStatus b e # rest \<and> actPhase b = PhaseEscalated \<longrightarrow>
       (\<exists>m pre. rest = ENotify m None # pre)"
    by (auto simp: escalationsNotified_def)
  from assms(4) obtain post rest where "g = post @ EUpdateActionStatus b e # rest"
    by (auto simp: g(1) in_set_conv_decomp)
  moreover then obtain m pre where "rest = ENotify m None # pre" using g(2) assms(5) by blast
  ultimately show ?thesis using g(1) by auto
qed

theorem escalated_only_after_notification_witness:
  "\<exists>b post m pre. snd demoEscalation = post @ EUpdateActionStatus b None # ENotify m None # pre"
proof -
  obtain b where b: "EUpdateActionStatus b None \<in> set (newEvents [] (snd demoEscalation))"
    "actPhase b = PhaseEscalated"
    using demo_escalation by blast
  from escalated_only_after_notification [OF notifyingKube_simps(3) _ _ b] show ?thesis
    unfolding append_Nil2 by (auto simp: demoNotifier_def)
qed

subsection \<open>The times of an execution\<close>

lemma orderedStart_total:
  "eb_CapturedAt bl = Some c \<Longrightarrow>
   \<exists>ex' s. orderedStart bl ex = Some ex' \<and> ex_StartedAt ex' = Some s \<and> c < s"
  by (auto simp: orderedStart_def second_def split: option.split)

text \<open>
   the status that is written for a succeeded execution keeps the order of its life cycle: when
  a health baseline had been captured at \<open>c\<close>, the execution started strictly after \<open>c\<close> and
  finished strictly after it started, the verification is opened with a settling period of five
  minutes and an observation window of another two, counted from the current time.
\<close>

theorem execution_times_ordered:
  assumes "ast_Effectiveness (act_Status a) = Some ef" and "ef_Baseline ef = Some bl"
    and "eb_CapturedAt bl = Some c"
    and "EUpdateActionStatus b e \<in> set (newEvents h (snd (recordExecutionSuccess rc k a rq res now h)))"
  shows "\<exists>ex s f ef'. ast_Execution (act_Status b) = Some ex \<and> ex_StartedAt ex = Some s \<and>
    ex_FinishedAt ex = Some f \<and> ast_FinishedAt (act_Status b) = Some f \<and> c < s \<and> s < f \<and>
    actPhase b = PhaseSucceeded \<and>
    ast_Effectiveness (act_Status b) = Some ef' \<and> ef_Phase ef' = EffectivenessPhaseVerifying \<and>
    ef_Baseline ef' = Some bl \<and> ef_SettlingUntil ef' = Some (now + 300 * 1000000000) \<and>
    ef_ObservationUntil ef' = Some (now + 420 * 1000000000)"
proof -
  define ex where "ex = successExecution a rq res now"
  obtain ex' s where ex': "orderedStart bl ex = Some ex'"
    and s: "ex_StartedAt ex' = Some s" "c < s"
    using orderedStart_total [OF assms(3)] by blast
  define ef1 where "ef1 = ef\<lparr>ef_Phase := EffectivenessPhaseVerifying, ef_Outcome := [],
    ef_Message := ''execution succeeded; waiting for the target to settle before read-only verification''\<rparr>"
  let ?b = "succeededAction a res ex' ef1 now"
  have "emits (actionEvent (\<lambda>b. b = ?b)) h (snd (recordExecutionSuccess rc k a rq res now h))"
    using assms(1,2) ex'
    by (auto simp: recordExecutionSuccess_def verifyingEffectiveness_def ex_def [symmetric]
        ef1_def [symmetric] Let_def split: option.split
        intro!: writeStatus_emits recordPhaseTransition_emits)
  from emits_newEvents [OF this assms(4)] have b: "b = ?b" by simp
  have "s < executionFinishedAt (Some ex') now"
    using s(1) by (simp add: executionFinishedAt_def nanosecond_def)
  then show ?thesis
    using s assms(2)
    by (simp add: b succeededAction_def ef1_def effectivenessSettlingPeriod_def
        effectivenessObservationWindow_def minute_def second_def Let_def)
qed

definition demoExecuted :: AgentAction where
  "demoExecuted = demoAction\<lparr>act_Status := (act_Status demoAction)\<lparr>
     ast_Effectiveness := Some (emptyEffectiveness\<lparr>ef_Baseline := Some demoBaseline\<rparr>)\<rparr>\<rparr>"

theorem execution_times_ordered_witness:
  "\<exists>b e ex s. EUpdateActionStatus b e \<in> set (newEvents []
      (snd (recordExecutionSuccess demoReconciler idleKube demoExecuted demoRequest
         emptyExecutionResult 9 []))) \<and>
     ast_Execution (act_Status b) = Some ex \<and> ex_StartedAt ex = Some s \<and> 1 < s"
proof -
  have update: "k_updateActionStatus idleKube h a = Inl (Errorf ''unavailable'')" for h a
    by (simp add: idleKube_def Let_def)
  have ef: "ast_Effectiveness (act_Status demoExecuted) =
      Some (emptyEffectiveness\<lparr>ef_Baseline := Some demoBaseline\<rparr>)"
    by (simp add: demoExecuted_def)
  have bl: "eb_CapturedAt demoBaseline = Some 1" by (simp add: demoBaseline_def)
  obtain ex' where "orderedStart demoBaseline
      (successExecution demoExecuted demoRequest emptyExecutionResult 9) = Some ex'"
    using orderedStart_total [OF bl] by blast
  then have "\<exists>b e. EUpdateActionStatus b e \<in> set (newEvents []
      (snd (recordExecutionSuccess demoReconciler idleKube demoExecuted demoRequest
         emptyExecutionResult 9 [])))"
    by (simp add: recordExecutionSuccess_def verifyingEffectiveness_def ef writeStatus_def
        handler_defs update Let_def)
  then obtain b e where be: "EUpdateActionStatus b e \<in> set (newEvents []
      (snd (recordExecutionSuccess demoReconciler idleKube demoExecuted demoRequest
         emptyExecutionResult 9 [])))"
    by blast
  from execution_times_ordered [OF ef _ bl be] be show ?thesis by auto
qed

subsection \<open>Expiry\<close>

text \<open>
   a finished action is deleted exactly when a TTL is set, it is not marked to be retained, its
  finishing time is known and the clock is past that time plus the TTL (for TTLs that fit a Go
  duration); otherwise nothing happens to it.
\<close>

theorem ttl_deletes_exactly_when_expired:
  assumes "0 \<le> as_TTLSeconds (act_Spec a)" and "as_TTLSeconds (act_Spec a) \<le> 9223372036"
  shows "newEvents h (snd (reconcileTerminalStateTTL k a now h)) =
    (if as_TTLSeconds (act_Spec a) \<noteq> 0 \<and> om_Annotations (act_Meta a) retainAnnotation = None \<and>
        (\<exists>f. ast_FinishedAt (act_Status a) = Some f \<and>
             now > f + as_TTLSeconds (act_Spec a) * 1000000000)
     then [EDeleteAction (actionKey a) (k_deleteAction k h (actionKey a))] else [])"
  using assms
  by (auto simp: reconcileTerminalStateTTL_def durationSeconds_exact handler_defs Let_def
      split: option.split)

definition demoFinished :: "int \<Rightarrow> AgentAction" where
  "demoFinished ttl = demoAction\<lparr>act_Spec := demoActionSpec\<lparr>as_TTLSeconds := ttl\<rparr>,
     act_Status := (act_Status demoAction)\<lparr>ast_FinishedAt := Some 1000\<rparr>\<rparr>"

lemma demoFinished_simps [simp]:
  "as_TTLSeconds (act_Spec (demoFinished ttl)) = ttl"
  "om_Annotations (act_Meta (demoFinished ttl)) = Map.empty"
  "ast_FinishedAt (act_Status (demoFinished ttl)) = Some 1000"
  "actionKey (demoFinished ttl) = demoKey"
  by (simp_all add: demoFinished_def demoAction_def emptyMeta_def actionKey_def Let_def)

theorem ttl_deletes_exactly_when_expired_witness:
  "newEvents [] (snd (reconcileTerminalStateTTL idleKube (demoFinished 60) 60000001001 [])) =
     [EDeleteAction demoKey (k_deleteAction idleKube [] demoKey)] \<and>
   newEvents [] (snd (reconcileTerminalStateTTL idleKube (demoFinished 60) 60000001000 [])) = []"
  using ttl_deletes_exactly_when_expired [of "demoFinished 60" "[]" idleKube 60000001001]
    ttl_deletes_exactly_when_expired [of "demoFinished 60" "[]" idleKube 60000001000]
  by simp

text \<open>
   a TTL of 9223372037 seconds or a little more does not fit a Go duration: the product wraps to
  a negative number, and the action is deleted as soon as it is finished.
\<close>

theorem ttl_overflow_deletes_at_once:
  "newEvents h (snd (reconcileTerminalStateTTL k (demoFinished 9223372037) 1000 h)) =
     [EDeleteAction demoKey (k_deleteAction k h demoKey)]"
  by (simp add: reconcileTerminalStateTTL_def durationSeconds_def wrap64_def second_def handler_defs
      Let_def split: option.split)

subsection \<open>The event of a failed execution\<close>

text \<open>
   a failed execution is persisted as failed, but its Kubernetes Event \<^verbatim>\<open>ExecutionFailed\<close> is
  never recorded: the phase to compare with is read after it was overwritten, so the transition
  looks like no transition.
\<close>

theorem failed_execution_event_lost:
  assumes "echoes k" and "res_Outcome result \<noteq> ExecutionOutcomeUnknown"
  shows "\<forall>x y z. ERecord x y z \<notin> set (newEvents h (snd (recordExecutionError rc k key result err h)))"
  using assms
  by (auto simp: recordExecutionError_def writeStatus_echo handler_defs failedExecution_def
      recordPhaseTransition_def newEvents_def Let_def split: sum.splits)

lemma storeKube_now: "k_now (storeKube a) h = second * (int (length h) + 1)"
  by (simp add: storeKube_def idleKube_def Let_def)

theorem failed_execution_event_lost_witness:
  "\<exists>b. snd (recordExecutionError demoReconciler (storeKube demoAction) demoKey emptyExecutionResult
       (Errorf ''boom'') []) =
     [EUpdateActionStatus b None, ETick (2 * second), EGetAction demoKey] \<and>
     actPhase b = PhaseFailed \<and>
     ERecord ''Warning'' ''ExecutionFailed'' ''AgentAction execution failed'' \<notin>
       set (newEvents [] (snd (recordExecutionError demoReconciler (storeKube demoAction) demoKey
         emptyExecutionResult (Errorf ''boom'') [])))"
proof -
  have "\<exists>b. snd (recordExecutionError demoReconciler (storeKube demoAction) demoKey
      emptyExecutionResult (Errorf ''boom'') []) =
      [EUpdateActionStatus b None, ETick (2 * second), EGetAction demoKey] \<and> actPhase b = PhaseFailed"
    using storeKube_simps(1) [of demoAction "[]"]
    by (simp add: recordExecutionError_def writeStatus_echo handler_defs failedExecution_def
        recordPhaseTransition_def storeKube_now emptyExecutionResult_def Let_def)
  moreover have "res_Outcome emptyExecutionResult \<noteq> ExecutionOutcomeUnknown"
    by (simp add: emptyExecutionResult_def)
  note failed_execution_event_lost [OF echoes_storeKube this]
  ultimately show ?thesis by blast
qed

subsection \<open>Names of verification requests\<close>

text \<open>
   the name of the verification investigation is never longer than the 63 characters that a
  Kubernetes name segment allows, for every action name and a 32-byte hash, and still ends with
  16 hexadecimal digits of the digest.
\<close>

theorem verification_name_bounded:
  assumes "length (cd_sha256 cd (cd_verify cd (om_UID (act_Meta a), i))) = 32"
  shows "length (effectivenessVerificationName cd a i) \<le> 63 \<and>
    suffix (take 16 (hexEncode (cd_sha256 cd (cd_verify cd (om_UID (act_Meta a), i)))))
      (effectivenessVerificationName cd a i)"
  using assms
  by (auto simp: effectivenessVerificationName_def digestString_def TrimPrefix_def Let_def
      suffix_def)

theorem verification_name_bounded_witness:
  "length (effectivenessVerificationName demoCodec demoAction ''exec-1'') \<le> 63"
  by (rule verification_name_bounded [THEN conjunct1]) (simp add: demoCodec_def)

subsection \<open>No nil dereference\<close>

text \<open>Every baseline that an action carries has its capture time.\<close>

definition wfBaseline :: "AgentAction \<Rightarrow> bool" where
  "wfBaseline a \<longleftrightarrow>
     (\<forall>ef bl. ast_Effectiveness (act_Status a) = Some ef \<and> ef_Baseline ef = Some bl \<longrightarrow>
        eb_CapturedAt bl \<noteq> None)"

lemma writeStatus_no_panic:
  "(\<And>a' h'. fst (c a' h') \<noteq> Panicked) \<Longrightarrow> fst (writeStatus k a c h) \<noteq> Panicked"
  by (auto simp: writeStatus_def handler_defs Let_def split: sum.split)

lemma writeStatus_done_no_panic [simp]:
  "fst (writeStatus k a (\<lambda>a h. (Done (d a h) (e a h), f a h)) h) \<noteq> Panicked"
  by (rule writeStatus_no_panic) simp

lemma recordExecutionSuccess_no_panic:
  assumes "wfBaseline a"
  shows "fst (recordExecutionSuccess rc k a rq res now h) \<noteq> Panicked"
proof -
  have "orderedStart bl ex \<noteq> None"
    if "verifyingEffectiveness a = Some (ef, bl)" for ef bl ex
    using assms that orderedStart_total
    by (fastforce simp: verifyingEffectiveness_def wfBaseline_def split: option.splits)
  then show ?thesis
    by (auto simp: recordExecutionSuccess_def Let_def split: option.splits
        intro!: writeStatus_no_panic)
qed

lemma markEscalated_no_panic:
  "ast_Approval (act_Status a) \<noteq> None \<Longrightarrow> fst (markEscalated rc k now a h) \<noteq> Panicked"
  by (auto simp: markEscalated_def Let_def split: if_splits)

lemma notifyEscalation_no_panic:
  assumes "echoes k" and "ast_Approval (act_Status a) \<noteq> None"
  shows "fst (notifyEscalation rc k now route a h) \<noteq> Panicked"
  using assms
  by (auto simp: notifyEscalation_def writeStatus_echo setLastError_def handler_defs Let_def
      split: sum.split option.split intro!: markEscalated_no_panic)

lemma reconcilePending_no_panic:
  assumes "echoes k"
  shows "fst (reconcilePending cd asSel rc k a now h) \<noteq> Panicked"
  using assms
  by (auto simp: reconcilePending_def reconcileApprovalTimeout_def Let_def
      markEscalated_no_panic notifyEscalation_no_panic
      split: option.split sum.split prod.split)

lemma dispatch_no_panic:
  assumes "\<And>h a. k_getAction k h key = Inr a \<Longrightarrow> wfBaseline a"
  shows "fst (dispatch rc k key r rq h) \<noteq> Panicked"
  using assms
  by (auto simp: dispatch_def recordExecutionError_def handler_defs Let_def
      split: prod.split option.split sum.split
      intro!: writeStatus_no_panic recordExecutionSuccess_no_panic)

lemma executeApproved_no_panic:
  assumes "rc_Executor rc = Some r" and "isAgentActionApproved cd a"
    and "\<And>h a. k_getAction k h key = Inr a \<Longrightarrow> wfBaseline a"
  shows "fst (executeApproved cd rc k key a h) \<noteq> Panicked"
proof -
  obtain apv where "ast_Approval (act_Status a) = Some apv"
    using assms(2) by (auto simp: isAgentActionApproved_def split: option.splits)
  with assms(1,3) show ?thesis
    by (auto simp: executeApproved_def failBeforeDispatch_def withBaseline_def
        persistAndDispatch_def handler_defs Let_def split: prod.split option.split sum.split
        intro!: writeStatus_no_panic dispatch_no_panic)
qed

lemma reconcileEffectivenessVerification_no_panic:
  assumes "rc_Executor rc = Some r"
  shows "fst (reconcileEffectivenessVerification cd rc k a now h) \<noteq> Panicked"
  using assms
  by (auto simp: reconcileEffectivenessVerification_def finishVerification_def observeHealth_def
      split: prod.split option.split sum.split intro!: writeStatus_no_panic)

lemma recoverExecution_no_panic:
  assumes "wfBaseline a"
  shows "fst (recoverExecution rc k a h) \<noteq> Panicked"
  using assms
  by (auto simp: recoverExecution_def handler_defs Let_def split: prod.split option.split
      intro!: recordExecutionSuccess_no_panic)

text \<open>C9: a reconciler with an executor never dereferences nil, whatever the environment answers to its
  calls, as long as a status update returns what was sent and stored baselines have their capture
  time.
\<close>

theorem reconcile_never_panics:
  assumes "rc_Executor rc = Some r" and "echoes k"
    and "\<And>h a. k_getAction k h key = Inr a \<Longrightarrow> wfBaseline a"
  shows "fst (AgentAction_Reconcile cd asSel rc k key h) \<noteq> Panicked"
proof (cases "k_getAction k h key")
  case (Inl e)
  then show ?thesis by (simp add: AgentAction_Reconcile_def handler_defs)
next
  case (Inr a)
  have ttl: "fst (reconcileTerminalStateTTL k a now h) \<noteq> Panicked" for now h
    by (auto simp: reconcileTerminalStateTTL_def handler_defs Let_def split: option.split)
  show ?thesis
    using Inr assms
    by (simp add: AgentAction_Reconcile_def handler_defs Let_def ttl
        reconcileEffectivenessVerification_no_panic recoverExecution_no_panic
        reconcilePending_no_panic executeApproved_no_panic)
qed

theorem reconcile_never_panics_witness:
  "fst (AgentAction_Reconcile demoCodec everySelector demoReconciler
     (idleKube\<lparr>k_getAction := (\<lambda>_ _. Inr demoAction)\<rparr>) demoKey []) \<noteq> Panicked"
proof (rule reconcile_never_panics [of _ "programRouter demoCodec False []"])
  show "rc_Executor demoReconciler = Some (programRouter demoCodec False [])"
    by (simp add: demoReconciler_def)
  show "echoes (idleKube\<lparr>k_getAction := (\<lambda>_ _. Inr demoAction)\<rparr>)"
    by (simp add: echoes_def idleKube_def Let_def)
  show "\<And>h a. k_getAction (idleKube\<lparr>k_getAction := (\<lambda>_ _. Inr demoAction)\<rparr>) h demoKey = Inr a \<Longrightarrow>
      wfBaseline a"
    by (auto simp: wfBaseline_def)
qed

end
