(* ===== verification/PlanProperties.thy ===== *)
theory PlanProperties
  imports RemediationPlanController ActionProperties
begin

text \<open>
  Properties of the plan controller: the decision on an action is the decision of the policy
  evaluation and is bound to the action's content, thresholds stop a plan before anything is
  created, decided plans are left alone, expiry; and two consequences of how the two controllers
  work together.
\<close>

subsection \<open>The decision\<close>

lemma agentActionSpecDigest_status [simp]:
  "agentActionSpecDigest cd (a\<lparr>act_Status := s\<rparr>) = agentActionSpecDigest cd a"
  "agentActionSpecDigest cd (setActionPhase p m t a) = agentActionSpecDigest cd a"
  by (simp_all add: agentActionSpecDigest_def setActionPhase_def)

lemma decideAction_spec [simp]:
  "act_Spec (decideAction cd ev t a) = act_Spec a"
  "agentActionSpecDigest cd' (decideAction cd ev t a) = agentActionSpecDigest cd' a"
  "actionKey (decideAction cd ev t a) = actionKey a"
  by (simp_all add: decideAction_def Let_def split: ApprovalAction.split)

lemma decideAction_phase:
  "actPhase (decideAction cd ev t a) =
     (case ad_Action (pe_Decision ev) of
        ApprovalAuto \<Rightarrow> PhaseApproved
      | ApprovalManual \<Rightarrow> PhaseWaitingApproval
      | ApprovalReject \<Rightarrow> PhaseRejected)"
  by (simp add: decideAction_def Let_def split: ApprovalAction.split)

text \<open>
  \<open>planVersion k plan0 plan\<close>: \<open>plan\<close> is \<open>plan0\<close>, or the server's answer to writing \<open>plan0\<close> with a
  threshold's defaults filled in.  \<open>judgedBy\<close>: a status that carries the decision of an evaluation
  of such a plan.
\<close>

definition planVersion :: "kube \<Rightarrow> RemediationPlan \<Rightarrow> RemediationPlan \<Rightarrow> bool" where
  "planVersion k plan0 plan \<longleftrightarrow> plan = plan0 \<or>
     (\<exists>h th. k_updatePlan k h (fst (applyNamespaceDefaults th plan0)) = Inr plan)"

definition judgedBy ::
  "codec \<Rightarrow> selector_fn \<Rightarrow> RemediationPlanReconciler \<Rightarrow> kube \<Rightarrow> RemediationPlan \<Rightarrow> AgentAction \<Rightarrow> bool" where
  "judgedBy cd asSel pc k plan0 b \<longleftrightarrow>
     (\<exists>plan h h' ev t a. planVersion k plan0 plan \<and>
        evaluatePolicy_plan asSel pc k plan h = (Inr ev, h') \<and> b = decideAction cd ev t a)"

lemma updatePlanStatus_emits:
  "updatePlanStatus k p h = (r, h') \<Longrightarrow> emits (actionEvent W) h0 h \<Longrightarrow> emits (actionEvent W) h0 h'"
  by (auto simp: updatePlanStatus_def Let_def intro: emit_intros)

lemma persistPlanDecision_emits [emit_intros]:
  "emits (actionEvent W) h0 h \<Longrightarrow> emits (actionEvent W) h0 (snd (persistPlanDecision k p q h))"
  by (cases "updatePlanStatus k q h")
    (auto simp: persistPlanDecision_def split: sum.split elim: updatePlanStatus_emits)

lemma decidePlan_emits:
  "decidePlan k d p h = (q, h') \<Longrightarrow> emits (actionEvent W) h0 h \<Longrightarrow> emits (actionEvent W) h0 h'"
  by (auto simp: decidePlan_def handler_defs Let_def split: ApprovalAction.splits intro!: emit_intros)

lemma decideAndPersist_emits:
  assumes "\<And>t. W (decideAction cd ev t a)" and "emits (actionEvent W) h0 h"
  shows "emits (actionEvent W) h0 (snd (decideAndPersist cd pc k plan ev a h))"
proof -
  obtain q h1 where q: "decidePlan k (pe_Decision ev) plan h = (q, h1)" by (metis prod.collapse)
  have "emits (actionEvent W) h0 h1" by (rule decidePlan_emits [OF q assms(2)])
  with q assms(1) show ?thesis
    by (auto simp: decideAndPersist_def handler_defs Let_def intro!: emit_intros writeStatus_emits)
qed

lemma namespaceLabels_emits:
  "namespaceLabels k ns h = (r, h') \<Longrightarrow> emits (actionEvent W) h0 h \<Longrightarrow> emits (actionEvent W) h0 h'"
  by (auto simp: namespaceLabels_def split: if_splits sum.splits intro!: emit_intros)

lemma namespaceUsage_emits:
  "namespaceUsage k ns h = (r, h') \<Longrightarrow> emits (actionEvent W) h0 h \<Longrightarrow> emits (actionEvent W) h0 h'"
  by (auto simp: namespaceUsage_def Let_def split: sum.splits intro!: emit_intros)

lemma evaluatePolicy_plan_emits:
  "evaluatePolicy_plan asSel pc k plan h = (r, h') \<Longrightarrow> emits (actionEvent W) h0 h \<Longrightarrow>
   emits (actionEvent W) h0 h'"
  by (cases "namespaceLabels k (targetNamespaceOf plan) h")
    (auto simp: evaluatePolicy_plan_def split: option.splits sum.splits if_splits
      intro!: emit_intros elim: namespaceLabels_emits)

lemma judgePlan_emits:
  assumes "emits (actionEvent (judgedBy cd asSel pc k plan0)) h0 h" and "planVersion k plan0 plan"
  shows "emits (actionEvent (judgedBy cd asSel pc k plan0)) h0
    (snd (judgePlan cd asSel pc k plan h))"
proof -
  obtain x h1 where x: "evaluatePolicy_plan asSel pc k plan h = (x, h1)" by (metis prod.collapse)
  have h1: "emits (actionEvent (judgedBy cd asSel pc k plan0)) h0 h1"
    by (rule evaluatePolicy_plan_emits [OF x assms(1)])
  show ?thesis
  proof (cases x)
    case (Inl e)
    with x h1 show ?thesis by (simp add: judgePlan_def)
  next
    case (Inr ev)
    then have "judgedBy cd asSel pc k plan0 (decideAction cd ev t a)" for t a
      using x assms(2) unfolding judgedBy_def by blast
    with x h1 Inr show ?thesis
      by (auto simp: judgePlan_def createOrUpdateAction_def Let_def split: sum.split
          intro!: decideAndPersist_emits emit_intros)
  qed
qed

lemma rejectForThreshold_emits:
  "emits (actionEvent W) h0 h \<Longrightarrow> emits (actionEvent W) h0 (snd (rejectForThreshold pc k p res now h))"
  by (auto simp: rejectForThreshold_def Let_def split: sum.split prod.split
      intro!: emit_intros elim!: updatePlanStatus_emits)

lemma applyNamespaceDefaults_unchanged:
  "applyNamespaceDefaults th plan = (plan', False) \<Longrightarrow> plan' = plan"
  by (auto simp: applyNamespaceDefaults_def Let_def split: if_splits)

lemma planVersion_self [simp]: "planVersion k plan plan"
  by (simp add: planVersion_def)

lemma planVersion_defaults:
  "applyNamespaceDefaults th plan = (plan', c) \<Longrightarrow> k_updatePlan k h plan' = Inr plan'' \<Longrightarrow>
   planVersion k plan plan''"
  unfolding planVersion_def by (metis fst_conv)

lemma enforceThresholds_emits:
  assumes "emits (actionEvent (judgedBy cd asSel pc k plan)) h0 h"
  shows "emits (actionEvent (judgedBy cd asSel pc k plan)) h0
    (snd (enforceThresholds cd asSel pc k reader plan h))"
proof -
  obtain x h1 where x: "namespaceLabels k (targetNamespaceOf plan) h = (x, h1)"
    by (metis prod.collapse)
  obtain y h2 where y: "namespaceUsage k (targetNamespaceOf plan) h1 = (y, h2)"
    by (metis prod.collapse)
  have h1: "emits (actionEvent (judgedBy cd asSel pc k plan)) h0 h1"
    by (rule namespaceLabels_emits [OF x assms])
  have h2: "emits (actionEvent (judgedBy cd asSel pc k plan)) h0 h2"
    by (rule namespaceUsage_emits [OF y h1])
  show ?thesis
    using x y h1 h2
    by (auto simp: enforceThresholds_def persistNamespaceDefaults_def handler_defs Let_def
        dest!: applyNamespaceDefaults_unchanged
        split: sum.split option.split prod.split
        intro!: emit_intros judgePlan_emits rejectForThreshold_emits intro: planVersion_defaults)
qed

lemma RemediationPlan_Reconcile_emits:
  assumes "k_getPlan k h key = Inr plan"
  shows "emits (actionEvent (judgedBy cd asSel pc k plan)) h
    (snd (RemediationPlan_Reconcile cd asSel pc k key h))"
  using assms
  by (auto simp: RemediationPlan_Reconcile_def Let_def split: option.split
      intro!: emit_intros enforceThresholds_emits judgePlan_emits)


subsection \<open>Manual approval\<close>

lemma PolicyEngine_Evaluate_policy:
  assumes "PolicyEngine_Evaluate asSel enabled legacy listed inp = Inr ev"
  shows "pe_Source ev = PolicySourceLegacy \<and> pe_Policy ev = None \<or>
    pe_Source ev = PolicySourceCRD \<and> (\<exists>p. pe_Policy ev = Some p \<and> pref_Kind p = ''ApprovalPolicy'')"
  using assms
  by (auto simp: PolicyEngine_Evaluate_def evaluateLegacy_def policyReference_def Let_def
      split: if_splits option.splits sum.splits prod.splits)

text \<open> when guardrails ask for a human and a human then fills in \<^verbatim>\<open>spec.approvedBy\<close>, the action
  counts as approved exactly when the verdict came from the legacy engine.  A manual verdict of an
  \<open>ApprovalPolicy\<close> resource records the policy's name as its source, which the action controller
  does not accept, so such an action can never be approved.
\<close>

theorem manual_approval_honoured_iff_legacy:
  assumes "PolicyEngine_Evaluate asSel enabled legacy listed inp = Inr ev"
    and "ad_Action (pe_Decision ev) = ApprovalManual" and "who \<noteq> []"
  shows "isAgentActionApproved cd
      ((decideAction cd ev t a)\<lparr>act_Spec := (act_Spec a)\<lparr>as_ApprovedBy := who\<rparr>\<rparr>) \<longleftrightarrow>
    pe_Source ev = PolicySourceLegacy"
  using PolicyEngine_Evaluate_policy [OF assms(1)] assms(2,3)
  by (auto simp: isAgentActionApproved_def decideAction_def agentActionSpecDigest_def
      approvalSource_def Let_def)

definition manualEvaluation :: PolicyEvaluation where
  "manualEvaluation = evaluateLegacy None \<lparr>pri_Review = \<lparr>ri_Resource = demoTarget,
     ri_Severity = ''high'', ri_Remediation = \<lparr>rem_ActionType = ''notification.sendSlack'',
       rem_Description = [], rem_Parameters = Map.empty, rem_RollbackPlan = []\<rparr>,
     ri_Environment = []\<rparr>, pri_ResourceLabels = Map.empty, pri_NamespaceLabels = Map.empty\<rparr>"

theorem manual_approval_honoured_iff_legacy_witness:
  "isAgentActionApproved demoCodec ((decideAction demoCodec manualEvaluation 7 demoAction)\<lparr>
     act_Spec := (act_Spec demoAction)\<lparr>as_ApprovedBy := ''alice''\<rparr>\<rparr>) \<longleftrightarrow>
   pe_Source manualEvaluation = PolicySourceLegacy"
proof (rule manual_approval_honoured_iff_legacy)
  show "PolicyEngine_Evaluate everySelector False None None
     \<lparr>pri_Review = \<lparr>ri_Resource = demoTarget, ri_Severity = ''high'',
       ri_Remediation = \<lparr>rem_ActionType = ''notification.sendSlack'', rem_Description = [],
         rem_Parameters = Map.empty, rem_RollbackPlan = []\<rparr>, ri_Environment = []\<rparr>,
      pri_ResourceLabels = Map.empty, pri_NamespaceLabels = Map.empty\<rparr> = Inr manualEvaluation"
    by (simp add: PolicyEngine_Evaluate_def manualEvaluation_def)
  show "ad_Action (pe_Decision manualEvaluation) = ApprovalManual"
    by (simp add: manualEvaluation_def evaluateLegacy_def)
qed simp

subsection \<open>Decided and rejected plans\<close>

text \<open>
   a plan whose decision is recorded is never judged again: its reconcile reads the plan and
  does nothing else.
\<close>

theorem decided_plan_untouched:
  assumes "k_getPlan k h key = Inr plan" and "planPhase plan \<noteq> []"
  shows "RemediationPlan_Reconcile cd asSel pc k key h = (Stop, EGetPlan key # h)"
  using assms by (simp add: RemediationPlan_Reconcile_def)

definition planEvent :: "event \<Rightarrow> bool" where
  "planEvent e \<longleftrightarrow>
     (case e of
        EUpdatePlanStatus p r \<Rightarrow> planPhase p = PhaseRejected \<and> pst_FinishedAt (plan_Status p) \<noteq> None
      | ETick _ \<Rightarrow> True | ERead _ \<Rightarrow> True | EGetPlan _ \<Rightarrow> True | ERecord _ _ _ \<Rightarrow> True
      | _ \<Rightarrow> False)"

lemma planEvent_simps [simp]:
  "planEvent (ETick t)" "planEvent (ERead s)" "planEvent (EGetPlan key)" "planEvent (ERecord x y z)"
  "planEvent (EUpdatePlanStatus p r) \<longleftrightarrow>
     planPhase p = PhaseRejected \<and> pst_FinishedAt (plan_Status p) \<noteq> None"
  by (simp_all add: planEvent_def)

lemma rejectForThreshold_planEvents:
  "emits planEvent h0 h \<Longrightarrow> emits planEvent h0 (snd (rejectForThreshold pc k p res now h))"
  by (auto simp: rejectForThreshold_def updatePlanStatus_def setPlanPhase_def recordEvent_def Let_def
      emits_ConsI split: sum.split)

lemma rejectForThreshold_writes:
  "\<exists>p' r. EUpdatePlanStatus p' r \<in> set (snd (rejectForThreshold pc k p res now h)) \<and>
     planPhase p' = PhaseRejected"
  by (auto simp: rejectForThreshold_def updatePlanStatus_def setPlanPhase_def recordEvent_def
      statusChangedPlan_def Let_def split: sum.split)

text \<open>
   a plan in a namespace whose usage exceeds its threshold is stopped before an action exists:
  the reconcile only reads, writes the plan's status as \<open>Rejected\<close> with its finishing time, and
  records an event; it creates and updates no action.
\<close>

theorem threshold_rejects_before_creation:
  assumes "k_getPlan k h key = Inr plan" and "planPhase plan = []"
    and "pc_Thresholds pc = Some reader"
    and "namespaceLabels k (targetNamespaceOf plan) (EGetPlan key # h) = (Inr labels, h1)"
    and "namespaceUsage k (targetNamespaceOf plan) h1 = (Inr usage, h2)"
    and "Enforcer_Enforce asSel (if reader then Some (k_listThresholds k h2) else None)
           \<lparr>trq_Namespace = targetNamespaceOf plan, trq_NamespaceLabels = labels\<rparr> usage = Inr result"
    and "\<not> enf_Allowed result"
  shows "emits planEvent h (snd (RemediationPlan_Reconcile cd asSel pc k key h)) \<and>
    (\<exists>p r. EUpdatePlanStatus p r \<in> set (snd (RemediationPlan_Reconcile cd asSel pc k key h)) \<and>
       planPhase p = PhaseRejected)"
proof -
  have h1: "emits planEvent h h1"
    using assms(4) by (auto simp: namespaceLabels_def emits_ConsI split: if_splits sum.splits)
  have h2: "emits planEvent h h2"
    using assms(5) h1 by (auto simp: namespaceUsage_def Let_def emits_ConsI split: sum.splits)
  let ?h3 = "if reader then ERead ''NamespaceThreshold'' # h2 else h2"
  have "emits planEvent h (ETick t # ?h3)" for t using h2 by (auto intro!: emits_ConsI)
  moreover have "snd (RemediationPlan_Reconcile cd asSel pc k key h) =
      snd (rejectForThreshold pc k plan result (k_now k ?h3) (ETick (k_now k ?h3) # ?h3))"
    using assms by (simp add: RemediationPlan_Reconcile_def enforceThresholds_def handler_defs Let_def)
  ultimately show ?thesis
    using rejectForThreshold_planEvents rejectForThreshold_writes by metis
qed

subsection \<open>A retried decision\<close>

lemma decideAction_reopens:
  assumes "ad_Action (pe_Decision ev) = ApprovalAuto"
  shows "isAgentActionApproved cd (decideAction cd ev t a)"
    and "actPhase (decideAction cd ev t a) = PhaseApproved"
    and "verifying (decideAction cd ev t a) = verifying a"
  using assms
  by (simp_all add: isAgentActionApproved_def decideAction_def verifying_def Let_def)


definition demoPlan :: RemediationPlan where
  "demoPlan = \<lparr>plan_Meta = emptyMeta\<lparr>om_Name := ''fix'', om_Namespace := ''prod''\<rparr>,
     plan_Spec = \<lparr>ps_Target = eb_Target demoBaseline, ps_RecommendedBy = [], ps_Severity = ''low'',
       ps_Confidence = 90, ps_DryRun = False, ps_TTLSeconds = 60, ps_ApprovalTimeoutSeconds = 30,
       ps_Summary = [], ps_RollbackPlan = [], ps_References = [],
       ps_Steps = [\<lparr>step_Name = ''notify'', step_ActionType = ''notification.sendSlack'',
         step_Description = [], step_Parameters = Map.empty\<rparr>]\<rparr>,
     plan_Status = \<lparr>pst_Resource = emptyResourceStatus, pst_FinishedAt = None\<rparr>\<rparr>"

definition executedAction :: AgentAction where
  "executedAction = setActionPhase PhaseSucceeded ''sent'' 5 demoAction"

text \<open>A cluster in which writing the plan's status fails and the action was executed already.\<close>

definition flakyKube :: kube where
  "flakyKube = idleKube\<lparr>
     k_getPlan := (\<lambda>_ _. Inr demoPlan),
     k_updatePlanStatus := (\<lambda>_ _. Inl (Errorf ''timeout'')),
     k_createOrUpdateAction := (\<lambda>_ _ _. Inr executedAction),
     k_updateActionStatus := (\<lambda>h a. Inr a)\<rparr>"

definition demoPlanReconciler :: RemediationPlanReconciler where
  "demoPlanReconciler =
     \<lparr>pc_Guardrails = Some \<lparr>gp_AllowedActionTypes = [''notification.sendSlack''],
        gp_ProtectedNamespaces = [], gp_AutoApproveMaxSeverity = ''low'',
        gp_RequireApprovalAtOrAbove = ''medium''\<rparr>,
      pc_PolicyEngine = None, pc_Thresholds = None, pc_PolicyPackEnabled = False,
      pc_EventRecorder = False\<rparr>"

lemma flakyKube_simps [simp]:
  "k_getPlan flakyKube h key = Inr demoPlan" "k_updateActionStatus flakyKube h a = Inr a"
  "k_createOrUpdateAction flakyKube h key f = Inr executedAction"
  by (simp_all add: flakyKube_def)

lemma demoPlan_phase [simp]: "planPhase demoPlan = []"
  by (simp add: demoPlan_def emptyResourceStatus_def)

lemma executedAction_simps [simp]: "settled executedAction" "\<not> verifying executedAction"
  by (simp_all add: executedAction_def settled_def verifying_def)

lemma demoPlan_auto:
  "\<exists>ev. evaluatePolicy_plan asSel demoPlanReconciler k demoPlan h = (Inr ev, h) \<and>
     ad_Action (pe_Decision ev) = ApprovalAuto"
  by (simp add: evaluatePolicy_plan_def demoPlanReconciler_def Engine_Evaluate_def reviewInputOf_def
      remediationFromPlan_def demoPlan_def severityRank_def Let_def)



theorem decided_plan_untouched_witness:
  "RemediationPlan_Reconcile demoCodec everySelector demoPlanReconciler
     (idleKube\<lparr>k_getPlan := (\<lambda>_ _. Inr (setPlanPhase PhaseApproved [] 3 demoPlan))\<rparr>) (''prod'', ''fix'') [] =
   (Stop, [EGetPlan (''prod'', ''fix'')])"
  by (rule decided_plan_untouched [of _ _ _ "setPlanPhase PhaseApproved [] 3 demoPlan"])
    (simp_all add: setPlanPhase_def)

text \<open>A namespace with two active plans and a limit of one.\<close>

definition crowdedKube :: kube where
  "crowdedKube = idleKube\<lparr>
     k_getPlan := (\<lambda>_ _. Inr demoPlan),
     k_getNamespaceLabels := (\<lambda>_ _. Inr Map.empty),
     k_listPlans := (\<lambda>_ _. Inr [demoPlan, demoPlan]),
     k_listActions := (\<lambda>_ _. Inr []),
     k_listThresholds := (\<lambda>_. Inr [demoThreshold ''limits'' 1 1])\<rparr>"

theorem threshold_rejects_before_creation_witness:
  "\<exists>p r. EUpdatePlanStatus p r \<in> set (snd (RemediationPlan_Reconcile demoCodec everySelector
       (demoPlanReconciler\<lparr>pc_Thresholds := Some True\<rparr>) crowdedKube (''prod'', ''fix'') [])) \<and>
     planPhase p = PhaseRejected"
proof -
  have ns: "targetNamespaceOf demoPlan = ''prod''"
    by (simp add: targetNamespaceOf_def demoPlan_def demoBaseline_def)
  have labels: "namespaceLabels crowdedKube (targetNamespaceOf demoPlan)
      (EGetPlan (''prod'', ''fix'') # []) = (Inr Map.empty, [ERead ''prod'', EGetPlan (''prod'', ''fix'')])"
    by (simp add: namespaceLabels_def crowdedKube_def ns)
  have usage: "namespaceUsage crowdedKube (targetNamespaceOf demoPlan)
      [ERead ''prod'', EGetPlan (''prod'', ''fix'')] =
      (Inr \<lparr>us_ActivePlans = 2, us_PendingApprovals = 0\<rparr>,
       [ERead ''AgentAction'', ERead ''RemediationPlan'', ERead ''prod'', EGetPlan (''prod'', ''fix'')])"
    by (simp add: namespaceUsage_def crowdedKube_def planActive_def wrap32_def Let_def)
  obtain result where result: "Enforcer_Enforce everySelector
      (if True then Some (k_listThresholds crowdedKube
         [ERead ''AgentAction'', ERead ''RemediationPlan'', ERead ''prod'', EGetPlan (''prod'', ''fix'')])
       else None)
      \<lparr>trq_Namespace = targetNamespaceOf demoPlan, trq_NamespaceLabels = Map.empty\<rparr>
      \<lparr>us_ActivePlans = 2, us_PendingApprovals = 0\<rparr> = Inr result"
    and denied: "\<not> enf_Allowed result"
    by (simp add: Enforcer_Enforce_def Enforcer_Evaluate_def Enforcer_Resolve_def crowdedKube_def
        demoThreshold_def thresholdEligible_def thresholdCandidate_def matchThreshold_def
        SliceStable_def thresholdViolations_def ns Let_def)
  have get: "k_getPlan crowdedKube [] (''prod'', ''fix'') = Inr demoPlan"
    by (simp add: crowdedKube_def)
  have pc: "pc_Thresholds (demoPlanReconciler\<lparr>pc_Thresholds := Some True\<rparr>) = Some True" by simp
  show ?thesis
    using threshold_rejects_before_creation
      [OF get demoPlan_phase pc labels usage result denied, of demoCodec]
    by blast
qed

subsection \<open>Expiry of plans\<close>

lemma latestFinish_correct:
  "latestFinish plan latest n as = Some (t, m) \<Longrightarrow>
   latest \<le> t \<and> n \<le> m \<and>
   (\<forall>a\<in>set as. ownedByPlan a plan \<longrightarrow>
      isTerminalAgentActionPhase (actPhase a) \<and>
      (\<exists>f. ast_FinishedAt (act_Status a) = Some f \<and> f \<le> t)) \<and>
   (t = latest \<or> (\<exists>a\<in>set as. ownedByPlan a plan \<and> ast_FinishedAt (act_Status a) = Some t))"
proof (induction as arbitrary: latest n)
  case (Cons a as)
  show ?case
  proof (cases "ownedByPlan a plan")
    case False
    with Cons show ?thesis by (auto; blast)
  next
    case True
    with Cons.prems obtain f where f: "ast_FinishedAt (act_Status a) = Some f"
      "isTerminalAgentActionPhase (actPhase a)"
      "latestFinish plan (if f > latest then f else latest) (Suc n) as = Some (t, m)"
      by (auto split: if_splits option.splits)
    from Cons.IH [OF f(3)] f(1,2) True show ?thesis by (fastforce split: if_splits)
  qed
qed simp

lemma expirePlan_extends: "\<exists>g. snd (expirePlan k p h) = g @ h"
proof -
  have "emits (\<lambda>_. True) h (snd (expirePlan k p h))"
    by (simp add: expirePlan_def handler_defs Let_def emits_ConsI split: option.split)
  then show ?thesis by (auto simp: emits_def)
qed

lemma expirePlan_deletes:
  assumes "EDeletePlan key r \<in> set (newEvents h (snd (expirePlan k plan h)))"
  shows "key = planKey plan \<and>
    (\<exists>f. pst_FinishedAt (plan_Status plan) = Some f \<and>
       f + durationSeconds (ps_TTLSeconds (plan_Spec plan)) \<le> k_now k h)"
  using assms
  by (auto simp: expirePlan_def handler_defs newEvents_def Let_def split: option.splits if_splits)

text \<open>A server that answers a plan's status update with the plan that was sent.\<close>

definition echoesPlan :: "kube \<Rightarrow> bool" where
  "echoesPlan k \<longleftrightarrow> (\<forall>h p p'. k_updatePlanStatus k h p = Inr p' \<longrightarrow> p' = p)"

text \<open>
   a plan is deleted by the TTL controller only when a positive TTL is set, the plan is not
  marked to be retained, and the clock has passed the TTL after its finishing time; a plan without a
  recorded finishing time is deleted only if every action that it owns has finished, and its
  finishing time is the latest of theirs.
\<close>

theorem plan_deleted_only_when_expired:
  assumes "EDeletePlan key' r \<in>
      set (newEvents h (snd (RemediationPlanTTL_Reconcile k key h)))"
    and "echoesPlan k"
  shows "\<exists>plan f h'. k_getPlan k h key = Inr plan \<and> key' = planKey plan \<and>
    0 < ps_TTLSeconds (plan_Spec plan) \<and> \<not> hasRetainAnnotation plan \<and>
    f + durationSeconds (ps_TTLSeconds (plan_Spec plan)) \<le> k_now k h' \<and>
    (pst_FinishedAt (plan_Status plan) = Some f \<or>
     (\<exists>h0 actions. k_listActions k h0 (om_Namespace (plan_Meta plan)) = Inr actions \<and>
        list_ex (\<lambda>a. ownedByPlan a plan \<and> ast_FinishedAt (act_Status a) = Some f) actions \<and>
        list_all (\<lambda>a. \<not> ownedByPlan a plan \<or>
          isTerminalAgentActionPhase (actPhase a) \<and>
          (\<exists>g. ast_FinishedAt (act_Status a) = Some g \<and> g \<le> f)) actions))"
proof -
  from assms(1) obtain plan where plan: "k_getPlan k h key = Inr plan"
    "0 < ps_TTLSeconds (plan_Spec plan)" "\<not> hasRetainAnnotation plan"
    by (auto simp: RemediationPlanTTL_Reconcile_def newEvents_def Let_def split: sum.splits if_splits)
  have expire: "\<exists>f. key' = planKey p \<and> pst_FinishedAt (plan_Status p) = Some f \<and>
      f + durationSeconds (ps_TTLSeconds (plan_Spec p)) \<le> k_now k h'"
    if run: "snd (RemediationPlanTTL_Reconcile k key h) = snd (expirePlan k p h')"
      and quiet: "emits (\<lambda>e. \<not> (\<exists>x y. e = EDeletePlan x y)) h h'" for p h'
  proof -
    have "EDeletePlan key' r \<in> set (newEvents h' (snd (expirePlan k p h')))"
    proof -
      obtain g where g: "snd (expirePlan k p h') = g @ h'" using expirePlan_extends by blast
      obtain g0 where g0: "h' = g0 @ h" "\<forall>e\<in>set g0. \<not> (\<exists>x y. e = EDeletePlan x y)"
        using quiet by (auto simp: emits_def)
      have "newEvents h (snd (RemediationPlanTTL_Reconcile k key h)) = g @ g0"
        using newEvents_append [of h "g @ g0"] run g g0(1) by simp
      with assms(1) g0(2) have "EDeletePlan key' r \<in> set g" by (metis Un_iff set_append)
      with g show ?thesis by simp
    qed
    from expirePlan_deletes [OF this] show ?thesis by blast
  qed
  show ?thesis
  proof (cases "pst_FinishedAt (plan_Status plan)")
    case (Some f)
    then have "snd (RemediationPlanTTL_Reconcile k key h) = snd (expirePlan k plan (EGetPlan key # h))"
      using plan by (simp add: RemediationPlanTTL_Reconcile_def Let_def)
    from expire [OF this] Some plan show ?thesis by auto
  next
    case None
    let ?h1 = "EGetPlan key # h"
    let ?h2 = "ERead ''AgentAction'' # ?h1"
    from assms(1) plan None obtain actions t n where
      acts: "k_listActions k ?h1 (om_Namespace (plan_Meta plan)) = Inr actions"
        "latestFinish plan 0 0 actions = Some (t, n)" "t \<noteq> 0"
      and run: "snd (RemediationPlanTTL_Reconcile k key h) =
        snd (case updatePlanStatus k
             (updatePlanStatusOf (\<lambda>s. s\<lparr>pst_FinishedAt := Some t\<rparr>) plan) ?h2 of
             (Inl err, h) \<Rightarrow> (if IsNotFound err then (Stop, h) else (Fail err, h))
           | (Inr plan, h) \<Rightarrow> expirePlan k plan h)"
      by (auto simp: RemediationPlanTTL_Reconcile_def terminalFinishedAt_def newEvents_def Let_def
          split: sum.splits option.splits if_splits)
    let ?p = "updatePlanStatusOf (\<lambda>s. s\<lparr>pst_FinishedAt := Some t\<rparr>) plan"
    from run assms have run2: "snd (RemediationPlanTTL_Reconcile k key h) =
        snd (expirePlan k ?p (EUpdatePlanStatus ?p None # ?h2))"
      by (auto simp: updatePlanStatus_def echoesPlan_def newEvents_def Let_def
          split: sum.splits if_splits)
    have "emits (\<lambda>e. \<not> (\<exists>x y. e = EDeletePlan x y)) h (EUpdatePlanStatus ?p None # ?h2)"
      by (intro emits_ConsI) simp_all
    from expire [OF run2 this] have "key' = planKey plan"
      "t + durationSeconds (ps_TTLSeconds (plan_Spec plan)) \<le> k_now k (EUpdatePlanStatus ?p None # ?h2)"
      by (auto simp: planKey_def)
    moreover from latestFinish_correct [OF acts(2)] acts(3)
    have "list_ex (\<lambda>a. ownedByPlan a plan \<and> ast_FinishedAt (act_Status a) = Some t) actions"
      "list_all (\<lambda>a. \<not> ownedByPlan a plan \<or> isTerminalAgentActionPhase (actPhase a) \<and>
          (\<exists>g. ast_FinishedAt (act_Status a) = Some g \<and> g \<le> t)) actions"
      by (auto simp: list_ex_iff list_all_iff)
    ultimately show ?thesis using plan acts(1) by blast
  qed
qed

definition finishedPlan :: RemediationPlan where
  "finishedPlan = demoPlan\<lparr>plan_Status := (plan_Status demoPlan)\<lparr>pst_FinishedAt := Some 1000\<rparr>\<rparr>"

definition lateKube :: kube where
  "lateKube = idleKube\<lparr>k_now := (\<lambda>_. 60000001000), k_getPlan := (\<lambda>_ _. Inr finishedPlan)\<rparr>"

theorem plan_deleted_only_when_expired_witness:
  "\<exists>r f h'. EDeletePlan (planKey finishedPlan) r \<in>
      set (newEvents [] (snd (RemediationPlanTTL_Reconcile lateKube (''prod'', ''fix'') []))) \<and>
     f + durationSeconds 60 \<le> k_now lateKube h'"
proof -
  have "\<exists>r. EDeletePlan (planKey finishedPlan) r \<in>
      set (newEvents [] (snd (RemediationPlanTTL_Reconcile lateKube (''prod'', ''fix'') [])))"
    by (simp add: RemediationPlanTTL_Reconcile_def expirePlan_def lateKube_def finishedPlan_def
        demoPlan_def hasRetainAnnotation_def emptyMeta_def durationSeconds_exact handler_defs Let_def
        split: option.split)
  then obtain r where r: "EDeletePlan (planKey finishedPlan) r \<in>
      set (newEvents [] (snd (RemediationPlanTTL_Reconcile lateKube (''prod'', ''fix'') [])))"
    by blast
  have echo: "echoesPlan lateKube" by (simp add: echoesPlan_def lateKube_def idleKube_def Let_def)
  have get: "k_getPlan lateKube [] key = Inr finishedPlan" for key by (simp add: lateKube_def)
  have ttl: "ps_TTLSeconds (plan_Spec finishedPlan) = 60"
    by (simp add: finishedPlan_def demoPlan_def)
  obtain plan f h' where "k_getPlan lateKube [] (''prod'', ''fix'') = Inr plan"
      "f + durationSeconds (ps_TTLSeconds (plan_Spec plan)) \<le> k_now lateKube h'"
    using plan_deleted_only_when_expired [OF r echo] by blast
  then have "f + durationSeconds 60 \<le> k_now lateKube h'" by (simp add: get ttl [symmetric])
  with r show ?thesis by blast
qed

end
