(* ===== verification/QueryPolicy.thy ===== *)
theory QueryPolicy
  imports ApiTypes
begin

text \<open>
  The package \<^verbatim>\<open>internal/querypolicy\<close>: the check of a rendered query against a datasource's
  query policy (\<^verbatim>\<open>policy.go\<close>), with the scanners for PromQL (\<^verbatim>\<open>promql.go\<close>), LogQL (\<^verbatim>\<open>logql.go\<close>)
  and quoted text (\<^verbatim>\<open>syntax.go\<close>).

  Queries are ASCII here, where a byte is a rune; the scanners' positions are suffixes of the
  query instead of indices.  The text of a duration in a message is the parameter \<open>dur\<close>.
\<close>

subsection \<open>Data\<close>

record PromQLPolicy =
  pq_AllowedFunctions :: "string list"
  pq_DeniedFunctions :: "string list"
  pq_AllowSubqueries :: "bool option"
  pq_AllowOffset :: "bool option"
  pq_AllowAtModifier :: "bool option"

record LogQLPolicy =
  lq_AllowedPipelineStages :: "string list"
  lq_DeniedPipelineStages :: "string list"

record DataSourceQueryPolicy =
  qp_Mode :: string
  qp_AllowedTemplates :: "string list"
  qp_MaxRange :: duration
  qp_AllowRegexMatchers :: bool
  qp_RequireTargetScope :: bool
  qp_Prometheus :: PromQLPolicy
  qp_Loki :: LogQLPolicy

text \<open>A datasource: its type, and its policy when it provides one.\<close>

record QuerySource =
  qs_Type :: string
  qs_Policy :: "DataSourceQueryPolicy option"

record QueryRequest =
  qr_DatasourceName :: string
  qr_TemplateName :: string
  qr_FromTemplate :: bool
  qr_Query :: string
  qr_QueryType :: string
  qr_Lookback :: duration
  qr_Target :: ResourceRef
  qr_Labels :: strmap

abbreviation DecisionAllowed :: string where "DecisionAllowed \<equiv> ''allowed''"
abbreviation DecisionRejected :: string where "DecisionRejected \<equiv> ''rejected''"

record Decision =
  d_Decision :: string
  d_Reason :: string
  d_Message :: string

definition allow :: "string \<Rightarrow> string \<Rightarrow> Decision" where
  "allow reason message = \<lparr>d_Decision = DecisionAllowed, d_Reason = reason, d_Message = message\<rparr>"

definition refuse :: "string \<Rightarrow> string \<Rightarrow> Decision" where
  "refuse reason message = \<lparr>d_Decision = DecisionRejected, d_Reason = reason, d_Message = message\<rparr>"

abbreviation QueryTypeMetric :: string where "QueryTypeMetric \<equiv> ''metric''"
abbreviation QueryTypeLog :: string where "QueryTypeLog \<equiv> ''log''"
abbreviation QueryTypeEvent :: string where "QueryTypeEvent \<equiv> ''event''"

subsection \<open>Characters\<close>

definition isLetter :: "char \<Rightarrow> bool" where
  "isLetter c \<longleftrightarrow> (65 \<le> byte c \<and> byte c \<le> 90) \<or> (97 \<le> byte c \<and> byte c \<le> 122)"

definition isDigit :: "char \<Rightarrow> bool" where
  "isDigit c \<longleftrightarrow> 48 \<le> byte c \<and> byte c \<le> 57"

definition isIdentifierStart :: "char \<Rightarrow> bool" where
  "isIdentifierStart c \<longleftrightarrow> c = CHR ''_'' \<or> isLetter c"

definition isIdentifierPart :: "char \<Rightarrow> bool" where
  "isIdentifierPart c \<longleftrightarrow> c = CHR ''_'' \<or> c = CHR '':'' \<or> isLetter c \<or> isDigit c"

definition isLogQLStageStart :: "char \<Rightarrow> bool" where
  "isLogQLStageStart c \<longleftrightarrow> c = CHR ''_'' \<or> isLetter c"

definition isLogQLStagePart :: "char \<Rightarrow> bool" where
  "isLogQLStagePart c \<longleftrightarrow> c = CHR ''_'' \<or> isLetter c \<or> isDigit c"

definition skipSpaces :: "string \<Rightarrow> string" where
  "skipSpaces s = dropWhile isSpace s"

definition isQuote :: "char \<Rightarrow> bool" where
  "isQuote c \<longleftrightarrow> c = CHR 0x22 \<or> c = CHR 0x27 \<or> c = CHR 0x60"

text \<open>The loop of \<^verbatim>\<open>stripQuotedContent\<close> with its variables \<^verbatim>\<open>quote\<close> and \<^verbatim>\<open>escaped\<close>.\<close>

fun stripQuotedFrom :: "char option \<Rightarrow> bool \<Rightarrow> string \<Rightarrow> string" where
  "stripQuotedFrom q escaped [] = []"
| "stripQuotedFrom None escaped (r # rs) =
     (if isQuote r then CHR '' '' # stripQuotedFrom (Some r) escaped rs
      else r # stripQuotedFrom None escaped rs)"
| "stripQuotedFrom (Some q) escaped (r # rs) =
     CHR '' '' #
     (if q \<noteq> CHR 0x60 \<and> r = CHR 0x5C \<and> \<not> escaped then stripQuotedFrom (Some q) True rs
      else if r = q \<and> \<not> escaped then stripQuotedFrom None False rs
      else stripQuotedFrom (Some q) False rs)"

definition stripQuotedContent :: "string \<Rightarrow> string" where
  "stripQuotedContent value = stripQuotedFrom None False value"

subsection \<open>Lists of names\<close>

definition normalizedSet :: "string list \<Rightarrow> string set" where
  "normalizedSet items =
     set (filter (\<lambda>n. n \<noteq> []) (map (\<lambda>item. ToLower (TrimSpace item)) items))"

text \<open>The empty string is the source's ``none found''.\<close>

definition firstDenied :: "string list \<Rightarrow> string list \<Rightarrow> string" where
  "firstDenied items denied =
     (case find (\<lambda>item. ToLower (TrimSpace item) \<in> normalizedSet denied) items of
        None \<Rightarrow> []
      | Some item \<Rightarrow> ToLower (TrimSpace item))"

definition firstNotAllowed :: "string list \<Rightarrow> string list \<Rightarrow> string" where
  "firstNotAllowed items allowed =
     (if allowed = [] then []
      else case find (\<lambda>item. ToLower (TrimSpace item) \<notin> normalizedSet allowed) items of
        None \<Rightarrow> []
      | Some item \<Rightarrow> ToLower (TrimSpace item))"

definition explicitlyFalse :: "bool option \<Rightarrow> bool" where
  "explicitlyFalse v \<longleftrightarrow> v = Some False"

subsection \<open>PromQL\<close>

definition promQLAggregators :: "string list" where
  "promQLAggregators = [''sum'', ''min'', ''max'', ''avg'', ''group'', ''stddev'', ''stdvar'',
     ''count'', ''count_values'', ''bottomk'', ''topk'', ''quantile'']"

definition promQLNonFunctions :: "string list" where
  "promQLNonFunctions = [''bool'', ''by'', ''group_left'', ''group_right'', ''ignoring'',
     ''offset'', ''on'', ''without'']"

definition startsWith :: "char \<Rightarrow> string \<Rightarrow> bool" where
  "startsWith c s \<longleftrightarrow> (case s of [] \<Rightarrow> False | d # _ \<Rightarrow> d = c)"

text \<open>\<^verbatim>\<open>matchingParen\<close>: the rest after the parenthesis that closes the current depth.\<close>

fun afterMatchingParen :: "int \<Rightarrow> string \<Rightarrow> string option" where
  "afterMatchingParen depth [] = None"
| "afterMatchingParen depth (c # cs) =
     (if c = CHR ''('' then afterMatchingParen (depth + 1) cs
      else if c = CHR '')'' then
        (if depth - 1 = 0 then Some cs else afterMatchingParen (depth - 1) cs)
      else afterMatchingParen depth cs)"

fun aggregatorModifier :: "string list \<Rightarrow> string \<Rightarrow> string option" where
  "aggregatorModifier [] j = Some j"
| "aggregatorModifier (modifier # ms) j =
     (if \<not> HasPrefix (ToLower j) modifier then aggregatorModifier ms j
      else
        (let after = drop (length modifier) j in
         if after \<noteq> [] \<and> isIdentifierPart (hd after) then aggregatorModifier ms j
         else
           (let after = skipSpaces after in
            if \<not> startsWith (CHR ''('') after then None
            else map_option skipSpaces (afterMatchingParen 0 after))))"

definition hasPromQLAggregatorCall :: "string \<Rightarrow> bool" where
  "hasPromQLAggregatorCall s =
     (case aggregatorModifier [''by'', ''without''] (skipSpaces s) of
        None \<Rightarrow> False
      | Some j \<Rightarrow> startsWith (CHR ''('') j)"

function promQLFunctionsFrom :: "string list \<Rightarrow> string \<Rightarrow> string list" where
  "promQLFunctionsFrom seen [] = []"
| "promQLFunctionsFrom seen (c # cs) =
     (if \<not> isIdentifierStart c then promQLFunctionsFrom seen cs
      else
        (let identifier = ToLower (c # takeWhile isIdentifierPart cs);
             rest = dropWhile isIdentifierPart cs in
         if identifier \<in> set promQLNonFunctions then promQLFunctionsFrom seen rest
         else
           (let j = skipSpaces rest;
                isCall = startsWith (CHR ''('') j
                  \<or> (identifier \<in> set promQLAggregators \<and> hasPromQLAggregatorCall j) in
            if isCall \<and> identifier \<notin> set seen
            then identifier # promQLFunctionsFrom (identifier # seen) rest
            else promQLFunctionsFrom seen rest)))"
  by pat_completeness auto
termination
  by (relation "measure (\<lambda>(seen, s). length s)")
    (auto intro: le_imp_less_Suc length_dropWhile_le)

definition promQLFunctions :: "string \<Rightarrow> string list" where
  "promQLFunctions query = promQLFunctionsFrom [] query"

function hasPromQLSubquery :: "string \<Rightarrow> bool" where
  "hasPromQLSubquery [] = False"
| "hasPromQLSubquery (c # cs) =
     (if c \<noteq> CHR ''['' then hasPromQLSubquery cs
      else if CHR '']'' \<notin> set cs then False
      else if CHR '':'' \<in> set (takeWhile (\<lambda>d. d \<noteq> CHR '']'') cs) then True
      else hasPromQLSubquery (drop 1 (dropWhile (\<lambda>d. d \<noteq> CHR '']'') cs)))"
  by pat_completeness auto
termination
  by (relation "measure length")
    (auto intro: le_less_trans [OF diff_le_self] le_imp_less_Suc length_dropWhile_le)

fun hasPromQLAtModifier :: "string \<Rightarrow> bool" where
  "hasPromQLAtModifier [] = False"
| "hasPromQLAtModifier (c # cs) =
     (if c \<noteq> CHR ''@'' then hasPromQLAtModifier cs
      else if startsWith (CHR ''@'') cs then hasPromQLAtModifier cs
      else True)"

text \<open>The scan of \<^verbatim>\<open>hasWordToken\<close>; \<open>prev\<close> is the character before the position.\<close>

fun wordTokenFrom :: "char option \<Rightarrow> string \<Rightarrow> string \<Rightarrow> bool" where
  "wordTokenFrom prev token lower =
     ((HasPrefix lower token \<and>
       (case prev of None \<Rightarrow> True | Some c \<Rightarrow> \<not> isIdentifierPart c) \<and>
       (let after = drop (length token) lower in after = [] \<or> \<not> isIdentifierPart (hd after))) \<or>
      (case lower of [] \<Rightarrow> False | c # cs \<Rightarrow> wordTokenFrom (Some c) token cs))"

declare wordTokenFrom.simps [simp del]

definition hasWordToken :: "string \<Rightarrow> string \<Rightarrow> bool" where
  "hasWordToken query token = wordTokenFrom None (ToLower token) (ToLower query)"

definition validatePromQLPolicy :: "PromQLPolicy \<Rightarrow> QueryRequest \<Rightarrow> Decision" where
  "validatePromQLPolicy policy req =
     (let query = stripQuotedContent (qr_Query req);
          functions = promQLFunctions query;
          denied = firstDenied functions (pq_DeniedFunctions policy);
          notAllowed = firstNotAllowed functions (pq_AllowedFunctions policy) in
      if denied \<noteq> [] then
        refuse ''function_denied'' (''PromQL function '' @ quote denied
          @ '' is denied by datasource queryPolicy.prometheus'')
      else if notAllowed \<noteq> [] then
        refuse ''function_not_allowed'' (''PromQL function '' @ quote notAllowed
          @ '' is not allowed by datasource queryPolicy.prometheus.allowedFunctions'')
      else if explicitlyFalse (pq_AllowSubqueries policy) \<and> hasPromQLSubquery query then
        refuse ''subquery_denied''
          ''PromQL subquery syntax is denied by datasource queryPolicy.prometheus.allowSubqueries=false''
      else if explicitlyFalse (pq_AllowOffset policy) \<and> hasWordToken query ''offset'' then
        refuse ''offset_denied''
          ''PromQL offset modifier is denied by datasource queryPolicy.prometheus.allowOffset=false''
      else if explicitlyFalse (pq_AllowAtModifier policy) \<and> hasPromQLAtModifier query then
        refuse ''at_modifier_denied''
          ''PromQL @ modifier is denied by datasource queryPolicy.prometheus.allowAtModifier=false''
      else allow ''allowed'' ''PromQL syntax policy allowed query'')"

subsection \<open>LogQL\<close>

text \<open>
  \<^verbatim>\<open>nextLogQLStage\<close> at the head of a suffix: the stage and the suffix at the returned index.
\<close>

definition nextLogQLStage :: "string \<Rightarrow> (string \<times> string) option" where
  "nextLogQLStage s =
     (if HasPrefix s ''|='' \<or> HasPrefix s ''!='' then Some (''line_filter'', drop 1 s)
      else if HasPrefix s ''|~'' \<or> HasPrefix s ''!~'' then Some (''regex_filter'', drop 1 s)
      else if \<not> startsWith (CHR ''|'') s then None
      else
        (let i = skipSpaces (drop 1 s) in
         if i = [] \<or> \<not> isLogQLStageStart (hd i) then None
         else Some (ToLower (takeWhile isLogQLStagePart i), dropWhile isLogQLStagePart i)))"

lemma nextLogQLStage_shorter:
  assumes "nextLogQLStage s = Some (stage, next)"
  shows "length next < length s"
proof (cases s)
  case Nil
  with assms show ?thesis by (simp add: nextLogQLStage_def startsWith_def HasPrefix_def)
next
  case (Cons c cs)
  have "length (dropWhile isLogQLStagePart (skipSpaces cs)) \<le> length cs"
    by (metis length_dropWhile_le le_trans skipSpaces_def)
  with Cons assms show ?thesis
    by (auto simp: nextLogQLStage_def Let_def split: if_splits)
qed

text \<open>The loop's \<^verbatim>\<open>i++\<close> runs after \<^verbatim>\<open>i = next\<close> too, so one more character is skipped.\<close>

function logQLStagesFrom :: "string list \<Rightarrow> string \<Rightarrow> string list" where
  "logQLStagesFrom seen [] = []"
| "logQLStagesFrom seen (c # cs) =
     (case nextLogQLStage (c # cs) of
        None \<Rightarrow> logQLStagesFrom seen cs
      | Some (stage, next) \<Rightarrow>
          (if stage \<in> set seen then logQLStagesFrom seen (drop 1 next)
           else stage # logQLStagesFrom (stage # seen) (drop 1 next)))"
  by pat_completeness auto
termination
  by (relation "measure (\<lambda>(seen, s). length s)")
    (auto dest!: nextLogQLStage_shorter)

definition logQLPipelineStages :: "string \<Rightarrow> string list" where
  "logQLPipelineStages query = logQLStagesFrom [] query"

definition validateLogQLPolicy :: "LogQLPolicy \<Rightarrow> QueryRequest \<Rightarrow> Decision" where
  "validateLogQLPolicy policy req =
     (let stages = logQLPipelineStages (stripQuotedContent (qr_Query req));
          denied = firstDenied stages (lq_DeniedPipelineStages policy);
          notAllowed = firstNotAllowed stages (lq_AllowedPipelineStages policy) in
      if denied \<noteq> [] then
        refuse ''pipeline_stage_denied'' (''LogQL pipeline stage '' @ quote denied
          @ '' is denied by datasource queryPolicy.loki'')
      else if notAllowed \<noteq> [] then
        refuse ''pipeline_stage_not_allowed'' (''LogQL pipeline stage '' @ quote notAllowed
          @ '' is not allowed by datasource queryPolicy.loki.allowedPipelineStages'')
      else allow ''allowed'' ''LogQL syntax policy allowed query'')"

subsection \<open>The policy\<close>

definition templateAllowed :: "string \<Rightarrow> string list \<Rightarrow> bool" where
  "templateAllowed name allowedTemplates \<longleftrightarrow>
     list_ex (\<lambda>candidate. EqualFold (TrimSpace candidate) name) allowedTemplates"

definition containsRegexMatcher :: "string \<Rightarrow> bool" where
  "containsRegexMatcher query \<longleftrightarrow>
     Contains query ''=~'' \<or> Contains query ''!~'' \<or> Contains query ''|~''"

fun firstNonEmpty :: "string list \<Rightarrow> string" where
  "firstNonEmpty [] = []"
| "firstNonEmpty (v # vs) = (if TrimSpace v \<noteq> [] then TrimSpace v else firstNonEmpty vs)"

definition labelMatcher :: "string \<Rightarrow> string \<Rightarrow> string" where
  "labelMatcher label v = label @ ''='' @ [CHR 0x22] @ v @ [CHR 0x22]"

definition hasTargetScope :: "QueryRequest \<Rightarrow> bool" where
  "hasTargetScope req =
     (if qr_QueryType req \<in> {QueryTypeEvent, ''deploymentCondition'', ''serviceConfiguration'',
           ''probeConfiguration'', ''containerTermination''} then True
      else
        (let query = qr_Query req;
             ns = firstNonEmpty [r_Namespace (qr_Target req), mapGet (qr_Labels req) ''namespace''] in
         if ns \<noteq> [] \<and> \<not> Contains query (labelMatcher ''namespace'' ns) then False
         else list_ex (\<lambda>value. let v = TrimSpace value in
             v \<noteq> [] \<and> (Contains query (labelMatcher ''app'' v)
                        \<or> Contains query (labelMatcher ''workload'' v)
                        \<or> Contains query (labelMatcher ''pod'' v)
                        \<or> Contains query (labelMatcher ''container'' v)))
           [mapGet (qr_Labels req) ''app'', r_Service (qr_Target req), r_Name (qr_Target req)]))"

definition validateBackendSyntax ::
  "QuerySource \<Rightarrow> DataSourceQueryPolicy \<Rightarrow> QueryRequest \<Rightarrow> Decision" where
  "validateBackendSyntax source policy req =
     (let backend = ToLower (TrimSpace (qs_Type source)) in
      if backend = ''prometheus'' \<or> qr_QueryType req = QueryTypeMetric then
        validatePromQLPolicy (qp_Prometheus policy) req
      else if backend = ''loki'' \<or> qr_QueryType req = QueryTypeLog then
        validateLogQLPolicy (qp_Loki policy) req
      else allow ''allowed'' ''query policy has no backend-specific syntax restrictions for datasource'')"

definition Validate :: "(duration \<Rightarrow> string) \<Rightarrow> QuerySource option \<Rightarrow> QueryRequest \<Rightarrow> Decision" where
  "Validate dur source req =
     (case source of
        None \<Rightarrow> allow ''no_policy'' ''datasource has no query policy''
      | Some src \<Rightarrow>
        (case qs_Policy src of
           None \<Rightarrow> allow ''no_policy'' ''datasource has no query policy''
         | Some policy \<Rightarrow>
             (let mode = TrimSpace (qp_Mode policy); name = TrimSpace (qr_TemplateName req) in
              if mode = [] \<or> mode = ''LegacyUnrestricted'' then
                allow ''legacy_unrestricted''
                  ''datasource query policy allows legacy unrestricted queries''
              else if mode \<noteq> ''TemplatesOnly'' then
                refuse ''mode_unsupported'' (''datasource queryPolicy.mode '' @ quote (qp_Mode policy)
                  @ '' is not supported'')
              else if name = [] \<or> \<not> qr_FromTemplate req then
                refuse ''template_required''
                  ''datasource queryPolicy.mode=TemplatesOnly requires a named query template''
              else if \<not> templateAllowed name (qp_AllowedTemplates policy) then
                refuse ''template_not_allowed'' (''query template '' @ quote name
                  @ '' is not allowed by datasource queryPolicy.allowedTemplates'')
              else if qp_MaxRange policy > 0 \<and> qr_Lookback req > qp_MaxRange policy then
                refuse ''range_exceeded'' (''query lookback '' @ dur (qr_Lookback req)
                  @ '' exceeds datasource queryPolicy.maxRange '' @ dur (qp_MaxRange policy))
              else if \<not> qp_AllowRegexMatchers policy \<and> containsRegexMatcher (qr_Query req) then
                refuse ''regex_denied'' (''query template '' @ quote name
                  @ '' rendered a regex matcher denied by datasource queryPolicy'')
              else if qp_RequireTargetScope policy \<and> \<not> hasTargetScope req then
                refuse ''target_scope_required'' (''query template '' @ quote name
                  @ '' did not render required target scope'')
              else
                (let decision = validateBackendSyntax src policy req in
                 if d_Decision decision = DecisionRejected then decision
                 else allow ''allowed'' ''query policy allowed datasource query''))))"

subsection \<open>The scanners\<close>

lemma stripQuotedFrom_no_quotes:
  "c \<in> set (stripQuotedFrom q escaped s) \<Longrightarrow> \<not> isQuote c"
  by (induction q escaped s rule: stripQuotedFrom.induct)
    (auto simp: isQuote_def split: if_splits)

lemma length_stripQuotedFrom [simp]: "length (stripQuotedFrom q escaped s) = length s"
  by (induction q escaped s rule: stripQuotedFrom.induct) auto

lemma stripQuotedFrom_plain: "(\<And>c. c \<in> set s \<Longrightarrow> \<not> isQuote c) \<Longrightarrow> stripQuotedFrom None e s = s"
  by (induction s) auto

text \<open>
   stripping replaces characters one by one, leaves no quote in the result, and does nothing to
  its own result; so the scanners never see text inside quotes as syntax.
\<close>

theorem strip_quoted_content:
  "length (stripQuotedContent s) = length s \<and>
   list_all (\<lambda>c. \<not> isQuote c) (stripQuotedContent s) \<and>
   stripQuotedContent (stripQuotedContent s) = stripQuotedContent s"
  using stripQuotedFrom_no_quotes
  by (auto simp: stripQuotedContent_def list_all_iff intro!: stripQuotedFrom_plain)

lemma hasPromQLAtModifier_char: "hasPromQLAtModifier s \<longleftrightarrow> CHR ''@'' \<in> set s"
proof (induction s)
  case (Cons c cs)
  then show ?case by (cases cs) (auto simp: startsWith_def)
qed simp

text \<open>
   the check for the \<open>@\<close> modifier, which skips an \<open>@\<close> followed by another one, still reports
  exactly the queries that contain an \<open>@\<close>.
\<close>

theorem at_modifier_iff: "hasPromQLAtModifier s \<longleftrightarrow> CHR ''@'' \<in> set s"
  by (rule hasPromQLAtModifier_char)

lemma subquery_split:
  "CHR '']'' \<in> set cs \<Longrightarrow>
   cs = takeWhile (\<lambda>d. d \<noteq> CHR '']'') cs @ CHR '']'' # drop 1 (dropWhile (\<lambda>d. d \<noteq> CHR '']'') cs)"
  by (induction cs) auto

lemma subquery_found:
  "hasPromQLSubquery s \<Longrightarrow>
   \<exists>u v w. s = u @ CHR ''['' # v @ CHR '']'' # w \<and> CHR '']'' \<notin> set v \<and> CHR '':'' \<in> set v"
proof (induction s rule: hasPromQLSubquery.induct)
  case (2 c cs)
  let ?v = "takeWhile (\<lambda>d. d \<noteq> CHR '']'') cs"
  let ?w = "drop 1 (dropWhile (\<lambda>d. d \<noteq> CHR '']'') cs)"
  show ?case
  proof (cases "c = CHR ''['' \<and> CHR '']'' \<in> set cs")
    case False
    then obtain u v w where "cs = u @ CHR ''['' # v @ CHR '']'' # w" "CHR '']'' \<notin> set v"
        "CHR '':'' \<in> set v"
      using 2 by (auto split: if_splits)
    then show ?thesis by (intro exI [of _ "c # u"] exI [of _ v] exI [of _ w]) simp
  next
    case True
    then have cs: "cs = ?v @ CHR '']'' # ?w" using subquery_split by blast
    have v: "CHR '']'' \<notin> set ?v" by (auto dest: set_takeWhileD)
    show ?thesis
    proof (cases "CHR '':'' \<in> set ?v")
      case colon: True
      then show ?thesis
        using True cs v by (intro exI [of _ "[]"] exI [of _ ?v] exI [of _ ?w]) simp
    next
      case False
      then obtain u v w where "?w = u @ CHR ''['' # v @ CHR '']'' # w" "CHR '']'' \<notin> set v"
          "CHR '':'' \<in> set v"
        using 2 True by auto
      then show ?thesis
        using True cs
        by (intro exI [of _ "c # ?v @ CHR '']'' # u"] exI [of _ v] exI [of _ w]) simp
    qed
  qed
qed simp

lemma subquery_complete:
  "CHR '']'' \<notin> set v \<Longrightarrow> CHR '':'' \<in> set v \<Longrightarrow>
   hasPromQLSubquery (u @ CHR ''['' # v @ CHR '']'' # w)"
proof (induction "length u" arbitrary: u rule: less_induct)
  case less
  show ?case
  proof (cases u)
    case Nil
    have "takeWhile (\<lambda>d. d \<noteq> CHR '']'') (v @ CHR '']'' # w) = v"
      using less.prems(1) by (auto simp: takeWhile_append takeWhile_eq_all_conv)
    with Nil less.prems show ?thesis by auto
  next
    case (Cons c cs)
    show ?thesis
    proof (cases "c = CHR ''['' \<and> CHR '']'' \<in> set cs")
      case True
      let ?P = "\<lambda>d. d \<noteq> CHR '']''" and ?x = "CHR ''['' # v @ CHR '']'' # w"
      let ?r = "drop 1 (dropWhile ?P cs)"
      have "length ?r < length u"
        using Cons by (simp add: less_Suc_eq_le le_trans [OF diff_le_self length_dropWhile_le])
      from less.hyps [OF this less.prems] have found: "hasPromQLSubquery (?r @ ?x)" .
      have "dropWhile ?P (cs @ ?x) = dropWhile ?P cs @ ?x"
        by (rule dropWhile_append1 [of "CHR '']''"]) (use True in auto)
      moreover have "dropWhile ?P cs \<noteq> []" using True by (auto simp: dropWhile_eq_Nil_conv)
      ultimately have "drop 1 (dropWhile ?P (cs @ ?x)) = ?r @ ?x"
        by (cases "dropWhile ?P cs") auto
      with found have "hasPromQLSubquery (drop 1 (dropWhile ?P (cs @ ?x)))" by simp
      with Cons True show ?thesis by simp
    next
      case False
      then consider "c \<noteq> CHR ''[''" | "c = CHR ''[''" "CHR '']'' \<notin> set cs" by blast
      then show ?thesis
      proof cases
        case 1
        then show ?thesis using Cons less.hyps [of cs] less.prems by simp
      next
        case 2
        then have "takeWhile (\<lambda>d. d \<noteq> CHR '']'') (cs @ CHR ''['' # v @ CHR '']'' # w) =
            cs @ CHR ''['' # v"
          using less.prems(1)
          by (auto simp: takeWhile_append takeWhile_eq_all_conv)
        with Cons 2 less.prems show ?thesis by simp
      qed
    qed
  qed
qed

text \<open>
   the subquery check reports exactly the queries in which some bracket \<open>[\<close> is followed, before
  the next \<open>]\<close>, by a colon.
\<close>

theorem subquery_iff:
  "hasPromQLSubquery s \<longleftrightarrow>
   (\<exists>u v w. s = u @ CHR ''['' # v @ CHR '']'' # w \<and> CHR '']'' \<notin> set v \<and> CHR '':'' \<in> set v)"
  using subquery_found subquery_complete by blast

subsection \<open>Names found by the scanners\<close>

lemma TrimSpace_id: "(\<And>c. c \<in> set s \<Longrightarrow> \<not> isSpace c) \<Longrightarrow> TrimSpace s = s"
proof -
  assume s: "\<And>c. c \<in> set s \<Longrightarrow> \<not> isSpace c"
  have "dropWhile isSpace s = s" using s by (cases s) auto
  moreover have "dropWhile isSpace (rev s) = rev s"
    using s by (cases "s = []") (auto simp: dropWhile_id_iff hd_rev)
  ultimately show ?thesis by (simp add: TrimSpace_def)
qed

definition isName :: "string \<Rightarrow> bool" where
  "isName s \<longleftrightarrow> s \<noteq> [] \<and> ToLower s = s \<and> TrimSpace s = s"

lemma isSpace_toLowerChar: "isIdentifierPart c \<Longrightarrow> \<not> isSpace (toLowerChar c)"
  by (auto simp: isIdentifierPart_def isSpace_def toLowerChar_def isLetter_def isDigit_def byte_def
      char_of_eq_iff take_bit_eq_mod)

lemma isName_lower:
  "s \<noteq> [] \<Longrightarrow> (\<And>c. c \<in> set s \<Longrightarrow> isIdentifierPart c) \<Longrightarrow> isName (ToLower s)"
  unfolding isName_def using isSpace_toLowerChar
  by (auto simp: ToLower_def o_def intro!: TrimSpace_id)

lemma promQLFunctionsFrom_names:
  "f \<in> set (promQLFunctionsFrom seen s) \<Longrightarrow> isName f"
proof (induction seen s rule: promQLFunctionsFrom.induct)
  case (2 seen c cs)
  have "isIdentifierStart c \<Longrightarrow> isName (ToLower (c # takeWhile isIdentifierPart cs))"
    by (rule isName_lower)
      (auto simp: isIdentifierStart_def isIdentifierPart_def dest: set_takeWhileD)
  with 2 show ?case by (auto simp: Let_def split: if_splits)
qed simp

lemma firstDenied_Nil: "firstDenied items denied = [] \<longleftrightarrow>
    list_all (\<lambda>item. ToLower (TrimSpace item) \<notin> normalizedSet denied) items"
proof -
  have "[] \<notin> normalizedSet denied" by (simp add: normalizedSet_def)
  then show ?thesis
    unfolding firstDenied_def list_all_iff
    by (auto simp: find_None_iff find_Some_iff split: option.splits)
qed

lemma firstNotAllowed_Nil:
  "(\<And>i. i \<in> set items \<Longrightarrow> isName i) \<Longrightarrow> firstNotAllowed items allowed = [] \<longleftrightarrow>
    allowed = [] \<or> list_all (\<lambda>i. i \<in> normalizedSet allowed) items"
  unfolding firstNotAllowed_def list_all_iff
  by (auto simp: find_None_iff find_Some_iff isName_def split: option.splits)

text \<open>
   a PromQL query passes exactly when every function or aggregation that it calls is not
  denied and, if there is an allow list, is on it, and none of the subquery, offset and \<open>@\<close> syntax
  that the policy forbids explicitly occurs outside quotes.
\<close>

theorem promql_allowed_iff:
  "d_Decision (validatePromQLPolicy policy req) = DecisionAllowed \<longleftrightarrow>
   (let q = stripQuotedContent (qr_Query req) in
    list_all (\<lambda>f. f \<notin> normalizedSet (pq_DeniedFunctions policy)) (promQLFunctions q) \<and>
    (pq_AllowedFunctions policy = [] \<or>
     list_all (\<lambda>f. f \<in> normalizedSet (pq_AllowedFunctions policy)) (promQLFunctions q)) \<and>
    \<not> (pq_AllowSubqueries policy = Some False \<and> hasPromQLSubquery q) \<and>
    \<not> (pq_AllowOffset policy = Some False \<and> hasWordToken q ''offset'') \<and>
    \<not> (pq_AllowAtModifier policy = Some False \<and> CHR ''@'' \<in> set q))"
proof -
  let ?fs = "promQLFunctions (stripQuotedContent (qr_Query req))"
  have names: "f \<in> set ?fs \<Longrightarrow> isName f" for f
    using promQLFunctionsFrom_names by (auto simp: promQLFunctions_def)
  have "list_all (\<lambda>i. ToLower (TrimSpace i) \<notin> A) ?fs \<longleftrightarrow> list_all (\<lambda>f. f \<notin> A) ?fs" for A
    using names by (auto simp: list_all_iff isName_def)
  then show ?thesis
    using firstNotAllowed_Nil [OF names] firstDenied_Nil [of ?fs]
    by (simp add: hasPromQLAtModifier_char validatePromQLPolicy_def allow_def refuse_def explicitlyFalse_def Let_def)
qed

subsection \<open>A denied function is found\<close>

lemma takeWhile_boundary:
  "u \<noteq> [] \<Longrightarrow> \<not> P (last u) \<Longrightarrow>
   takeWhile P (u @ v) = takeWhile P u \<and> dropWhile P (u @ v) = dropWhile P u @ v \<and>
   dropWhile P u \<noteq> [] \<and> last (dropWhile P u) = last u"
  by (induction u) (auto split: if_splits)

text \<open>\<open>callsAt f s\<close>: the text \<open>s\<close> starts with a call of the function \<open>f\<close>.\<close>

definition callsAt :: "string \<Rightarrow> string \<Rightarrow> bool" where
  "callsAt f s \<longleftrightarrow> f \<noteq> [] \<and> isIdentifierStart (hd f) \<and> list_all isIdentifierPart f \<and>
     HasPrefix s f \<and> startsWith (CHR ''('') (skipSpaces (drop (length f) s))"

lemma callsAt_split:
  assumes "callsAt f s"
  obtains c f' r where "f = c # f'" "s = c # f' @ r" "isIdentifierStart c"
    "takeWhile isIdentifierPart (f' @ r) = f'" "dropWhile isIdentifierPart (f' @ r) = r"
    "startsWith (CHR ''('') (skipSpaces r)"
proof -
  obtain r where s: "s = f @ r" and r: "startsWith (CHR ''('') (skipSpaces r)"
    using assms by (auto simp: callsAt_def HasPrefix_def prefix_def)
  have "r = [] \<or> \<not> isIdentifierPart (hd r)"
    using r by (cases r) (auto simp: startsWith_def skipSpaces_def isIdentifierPart_def isSpace_def
        isLetter_def isDigit_def byte_def split: if_splits)
  moreover obtain c f' where f: "f = c # f'" using assms by (cases f) (auto simp: callsAt_def)
  ultimately have "takeWhile isIdentifierPart (f' @ r) = f'" "dropWhile isIdentifierPart (f' @ r) = r"
    using assms by (cases r; force simp: callsAt_def list_all_iff takeWhile_append dropWhile_append)+
  then show thesis using that f s r assms by (simp add: callsAt_def)
qed

lemma promQLFunctionsFrom_seen:
  "\<lbrakk>callsAt f s; ToLower f \<notin> set promQLNonFunctions; ToLower f \<notin> set seen\<rbrakk> \<Longrightarrow>
   ToLower f \<in> set (promQLFunctionsFrom seen s)"
  by (erule callsAt_split) (simp add: Let_def)

lemma promQLFunctionsFrom_finds:
  "\<lbrakk>callsAt f s; ToLower f \<notin> set promQLNonFunctions; ToLower f \<notin> set seen;
    u = [] \<or> \<not> isIdentifierPart (last u)\<rbrakk> \<Longrightarrow>
   ToLower f \<in> set (promQLFunctionsFrom seen (u @ s))"
proof (induction "length u" arbitrary: seen u rule: less_induct)
  case less
  show ?case
  proof (cases u)
    case Nil
    then show ?thesis using promQLFunctionsFrom_seen less.prems by simp
  next
    case (Cons c cs)
    let ?id = "ToLower (c # takeWhile isIdentifierPart (cs @ s))"
    let ?rest = "dropWhile isIdentifierPart (cs @ s)"
    show ?thesis
    proof (cases "isIdentifierStart c")
      case False
      with less Cons show ?thesis by (auto split: if_splits)
    next
      case True
      then have "isIdentifierPart c" by (auto simp: isIdentifierStart_def isIdentifierPart_def)
      then have cs: "cs \<noteq> []" "\<not> isIdentifierPart (last cs)"
        using less.prems(4) Cons by (auto split: if_splits)
      let ?w = "dropWhile isIdentifierPart cs"
      have w: "?rest = ?w @ s" "?w = [] \<or> \<not> isIdentifierPart (last ?w)" "length ?w < length u"
        using takeWhile_boundary [where P = isIdentifierPart and v = s, OF cs] cs(2) Cons
        by (simp_all add: less_Suc_eq_le length_dropWhile_le)
      have rest: "ToLower f \<in> set (promQLFunctionsFrom seen' ?rest)" if "ToLower f \<notin> set seen'" for seen'
        unfolding w(1) using less.hyps [OF w(3) less.prems(1,2) that w(2)] .
      show ?thesis
        using True rest [OF less.prems(3)] rest [of "?id # seen"] less.prems(3) Cons
        by (cases "ToLower f = ?id") (auto simp: Let_def)
    qed
  qed
qed


definition demoQuery :: QueryRequest where
  "demoQuery =
     \<lparr>qr_DatasourceName = ''prom'', qr_TemplateName = ''errors'', qr_FromTemplate = True,
      qr_Query = ''sum(Rate (errors{})[5m])'', qr_QueryType = QueryTypeMetric,
      qr_Lookback = 300, 
      qr_Target = \<lparr>r_Cluster = [], r_Namespace = ''prod'', r_Kind = ''Deployment'',
        r_Name = ''api'', r_APIVersion = ''apps/v1'', r_Service = ''api''\<rparr>,
      qr_Labels = Map.empty\<rparr>"

definition demoSource :: QuerySource where
  "demoSource =
     \<lparr>qs_Type = ''prometheus'',
      qs_Policy = Some
        \<lparr>qp_Mode = ''TemplatesOnly'', qp_AllowedTemplates = [''errors''], qp_MaxRange = 0,
         qp_AllowRegexMatchers = True, qp_RequireTargetScope = False,
         qp_Prometheus = \<lparr>pq_AllowedFunctions = [], pq_DeniedFunctions = [''irate'', ''RATE ''],
           pq_AllowSubqueries = None, pq_AllowOffset = None, pq_AllowAtModifier = None\<rparr>,
         qp_Loki = \<lparr>lq_AllowedPipelineStages = [], lq_DeniedPipelineStages = []\<rparr>\<rparr>\<rparr>"


subsection \<open>A pipeline stage that is not seen\<close>

lemma logQLStagesFrom_none:
  "CHR ''|'' \<notin> set s \<Longrightarrow> CHR ''!'' \<notin> set s \<Longrightarrow> logQLStagesFrom seen s = []"
proof (induction s)
  case (Cons c s)
  then have "nextLogQLStage (c # s) = None"
    by (auto simp: nextLogQLStage_def startsWith_def HasPrefix_def)
  with Cons show ?case by simp
qed simp

definition isStageName :: "string \<Rightarrow> bool" where
  "isStageName s \<longleftrightarrow> s \<noteq> [] \<and> isLogQLStageStart (hd s) \<and> list_all isLogQLStagePart s"

lemma isLogQLStagePart_plain:
  "isLogQLStagePart c \<Longrightarrow>
   c \<notin> {CHR ''|'', CHR ''!'', CHR ''='', CHR ''~''} \<and> \<not> isSpace c \<and> \<not> isQuote c"
  by (auto simp: isLogQLStagePart_def isLetter_def isDigit_def isSpace_def isQuote_def byte_def)

lemma isLogQLStagePart_ident: "isLogQLStagePart c \<Longrightarrow> isIdentifierPart c"
  by (auto simp: isLogQLStagePart_def isIdentifierPart_def)

lemma nextLogQLStage_named:
  assumes "isStageName a" and "rest = [] \<or> \<not> isLogQLStagePart (hd rest)"
  shows "nextLogQLStage (CHR ''|'' # a @ rest) = Some (ToLower a, rest)"
proof -
  obtain c a' where a: "a = c # a'" using assms(1) by (cases a) (auto simp: isStageName_def)
  have parts: "\<And>d. d \<in> set a \<Longrightarrow> isLogQLStagePart d" and start: "isLogQLStageStart c"
    using assms(1) by (auto simp: isStageName_def list_all_iff a)
  then have c: "c \<notin> {CHR ''|'', CHR ''!'', CHR ''='', CHR ''~''}" "\<not> isSpace c"
    using isLogQLStagePart_plain [of c] by (auto simp: a)
  have "takeWhile isLogQLStagePart (a @ rest) = a" "dropWhile isLogQLStagePart (a @ rest) = rest"
    using parts assms(2) by (cases rest; auto simp: takeWhile_append dropWhile_append)+
  moreover have "CHR ''='' \<noteq> c" "CHR ''~'' \<noteq> c" using c(1) by auto
  ultimately show ?thesis
    using c start
    by (simp add: nextLogQLStage_def HasPrefix_def startsWith_def skipSpaces_def a Let_def)
qed

lemma isStageName_no_bar: "isStageName b \<Longrightarrow> CHR ''|'' \<notin> set b \<and> CHR ''!'' \<notin> set b"
  using isLogQLStagePart_plain by (auto simp: isStageName_def list_all_iff)

lemma stages_adjacent:
  assumes "isStageName a" and "isStageName b"
  shows "logQLPipelineStages (CHR ''|'' # a @ CHR ''|'' # b) = [ToLower a]"
    and "ToLower a \<noteq> ToLower b \<Longrightarrow>
      logQLPipelineStages (CHR ''|'' # a @ '' |'' @ b) = [ToLower a, ToLower b]"
proof -
  have bar: "\<not> isLogQLStagePart (CHR ''|'')" "\<not> isLogQLStagePart (CHR '' '')"
    by (simp_all add: isLogQLStagePart_def isLetter_def isDigit_def byte_def)
  show "logQLPipelineStages (CHR ''|'' # a @ CHR ''|'' # b) = [ToLower a]"
    using nextLogQLStage_named [OF assms(1), of "CHR ''|'' # b"] bar isStageName_no_bar [OF assms(2)]
    by (simp add: logQLPipelineStages_def logQLStagesFrom_none)
  have "nextLogQLStage (CHR ''|'' # a @ '' |'' @ b) = Some (ToLower a, '' |'' @ b)"
    by (rule nextLogQLStage_named [OF assms(1)]) (simp add: bar)
  moreover have "nextLogQLStage (CHR ''|'' # b) = Some (ToLower b, [])"
    using nextLogQLStage_named [OF assms(2), of "[]"] by simp
  ultimately show "ToLower a \<noteq> ToLower b \<Longrightarrow>
      logQLPipelineStages (CHR ''|'' # a @ '' |'' @ b) = [ToLower a, ToLower b]"
    by (simp add: logQLPipelineStages_def)
qed

lemma stageName_chars: "isStageName b \<Longrightarrow> c \<in> set b \<Longrightarrow> \<not> isQuote c \<and> \<not> isSpace c"
  unfolding isStageName_def list_all_iff using isLogQLStagePart_plain by blast

text \<open> a LogQL stage that follows another one without a space is not seen: the policy that denies
  the stage \<open>b\<close> accepts \<open>|a|b\<close> although it rejects the equivalent \<open>|a |b\<close>.
\<close>

theorem logql_adjacent_stage_bypass:
  assumes "isStageName a" and "isStageName b" and "ToLower a \<noteq> ToLower b"
    and "lq_DeniedPipelineStages policy = [b]" and "lq_AllowedPipelineStages policy = []"
  shows "d_Decision (validateLogQLPolicy policy (req\<lparr>qr_Query := CHR ''|'' # a @ CHR ''|'' # b\<rparr>)) =
      DecisionAllowed \<and>
    d_Decision (validateLogQLPolicy policy (req\<lparr>qr_Query := CHR ''|'' # a @ '' |'' @ b\<rparr>)) =
      DecisionRejected"
proof -
  have plain: "\<not> isQuote (CHR ''|'')" "\<not> isQuote (CHR '' '')" by (simp_all add: isQuote_def)
  have "\<not> isQuote c" if "c \<in> set (CHR ''|'' # a @ '' |'' @ b)" for c
    using that plain stageName_chars [OF assms(1), of c] stageName_chars [OF assms(2), of c] by auto
  then have strip:
    "stripQuotedContent (CHR ''|'' # a @ CHR ''|'' # b) = CHR ''|'' # a @ CHR ''|'' # b"
    "stripQuotedContent (CHR ''|'' # a @ '' |'' @ b) = CHR ''|'' # a @ '' |'' @ b"
    unfolding stripQuotedContent_def by (intro stripQuotedFrom_plain; simp)+
  have names: "isName (ToLower a)" "isName (ToLower b)"
    using assms(1,2) isLogQLStagePart_ident unfolding isStageName_def list_all_iff
    by (blast intro: isName_lower)+
  have "TrimSpace b = b" using stageName_chars [OF assms(2)] by (blast intro: TrimSpace_id)
  then have denied: "normalizedSet [b] = {ToLower b}"
    using names(2) by (simp add: normalizedSet_def isName_def)
  have one: "firstDenied [ToLower a] [b] = []"
    using assms(3) names by (simp add: firstDenied_def denied isName_def)
  have two: "firstDenied [ToLower a, ToLower b] [b] = ToLower b"
    using assms(3) names by (simp add: firstDenied_def denied isName_def)
  have none: "firstNotAllowed items [] = []" for items by (simp add: firstNotAllowed_def)
  have "ToLower b \<noteq> []" using names(2) by (simp add: isName_def)
  moreover have "logQLPipelineStages (stripQuotedContent (CHR ''|'' # a @ CHR ''|'' # b)) = [ToLower a]"
    "logQLPipelineStages (stripQuotedContent (CHR ''|'' # a @ '' |'' @ b)) = [ToLower a, ToLower b]"
    unfolding strip by (fact stages_adjacent(1) [OF assms(1,2)] stages_adjacent(2) [OF assms(1-3)])+
  ultimately show ?thesis
    using one two none assms(4,5) by (simp add: validateLogQLPolicy_def allow_def refuse_def Let_def)
qed

theorem logql_adjacent_stage_bypass_witness:
  "d_Decision (validateLogQLPolicy
      \<lparr>lq_AllowedPipelineStages = [], lq_DeniedPipelineStages = [''line_format'']\<rparr>
      (demoQuery\<lparr>qr_Query := ''|json|line_format''\<rparr>)) = DecisionAllowed \<and>
   d_Decision (validateLogQLPolicy
      \<lparr>lq_AllowedPipelineStages = [], lq_DeniedPipelineStages = [''line_format'']\<rparr>
      (demoQuery\<lparr>qr_Query := ''|json |line_format''\<rparr>)) = DecisionRejected"
proof -
  have "isStageName ''json''" "isStageName ''line_format''"
    "ToLower ''json'' \<noteq> ToLower ''line_format''" by code_simp+
  from logql_adjacent_stage_bypass [OF this, of
      "\<lparr>lq_AllowedPipelineStages = [], lq_DeniedPipelineStages = [''line_format'']\<rparr>" demoQuery]
  show ?thesis by simp
qed

end
