(* ===== verification/DomainTypes.thy ===== *)
theory DomainTypes
  imports ApiTypes Complex_Main
begin

text \<open>
  The value types of the investigation: signals, observations and what a model provider receives
  and returns (\<^verbatim>\<open>internal/domain/types.go\<close>), scheduling evidence (\<^verbatim>\<open>internal/domain/scheduling.go\<close>)
  and the results of deterministic diagnostics (\<^verbatim>\<open>internal/diagnostic/types.go\<close>).
  String types with constants (severities, query types, statuses) are strings.  A \<^verbatim>\<open>float64\<close> is its
  rational value or one of the non-finite values.
\<close>

datatype float64 = Finite rat | Infinite bool | NaN

subsection \<open>Signals and evidence\<close>

record Signal =
  sgn_ID :: string
  sgn_Kind :: string
  sgn_Source :: string
  sgn_Severity :: string
  sgn_Message :: string
  sgn_Resource :: ResourceRef
  sgn_Attributes :: strmap
  sgn_Timestamp :: gotime

record TimelineEvent =
  tle_Timestamp :: gotime
  tle_Kind :: string
  tle_Summary :: string

record Evidence =
  evd_Kind :: string
  evd_Source :: string
  evd_Summary :: string
  evd_Query :: string
  evd_Reason :: string
  evd_Link :: string

record TimeRange =
  trg_Start :: gotime
  trg_End :: gotime

record MetricObservation =
  mob_Name :: string
  mob_Value :: float64
  mob_Unit :: string

record LogObservation =
  lob_Line :: string

record EventObservation =
  eob_Reason :: string
  eob_Message :: string

record DeploymentConditionObservation =
  dco_Type :: string
  dco_Status :: string
  dco_Reason :: string
  dco_Message :: string
  dco_AvailableReplicas :: int
  dco_DesiredReplicas :: int

record ServiceConfigurationObservation =
  sco_ServiceName :: string
  sco_ServicePortName :: string
  sco_ServicePort :: int
  sco_TargetPortRaw :: string
  sco_TargetPortResolved :: int
  sco_TargetPortNamed :: bool
  sco_WorkloadKind :: string
  sco_WorkloadName :: string
  sco_ContainerName :: string
  sco_ContainerPortName :: string
  sco_ContainerPort :: int
  sco_Resolution :: string
  sco_MismatchConfirmed :: bool
  sco_Reason :: string

record ProbeConfigurationObservation =
  pco_WorkloadKind :: string
  pco_WorkloadName :: string
  pco_ContainerName :: string
  pco_ProbeType :: string
  pco_ProbeScheme :: string
  pco_ProbePath :: string
  pco_ProbePortRaw :: string
  pco_ProbePortResolved :: int
  pco_ProbePortNamed :: bool
  pco_ContainerPortName :: string
  pco_ContainerPort :: int
  pco_Resolution :: string
  pco_MismatchConfirmed :: bool
  pco_Reason :: string

record ContainerTerminationObservation =
  cto_PodName :: string
  cto_PodUID :: string
  cto_ContainerName :: string
  cto_RestartCount :: int
  cto_WaitingReason :: string
  cto_LastTerminatedReason :: string
  cto_LastTerminatedExitCode :: int
  cto_LastTerminatedSignal :: int
  cto_LastTerminatedFinishedAt :: string

record ObservationValue =
  obv_Metric :: "MetricObservation option"
  obv_Log :: "LogObservation option"
  obv_Event :: "EventObservation option"
  obv_DeploymentCondition :: "DeploymentConditionObservation option"
  obv_ServiceConfiguration :: "ServiceConfigurationObservation option"
  obv_ProbeConfiguration :: "ProbeConfigurationObservation option"
  obv_ContainerTermination :: "ContainerTerminationObservation option"

record Observation =
  obs_ID :: string
  obs_SchemaVersion :: string
  obs_DataSourceRef :: string
  obs_Capability :: string
  obs_QueryDigest :: string
  obs_TimeRange :: TimeRange
  obs_Type :: string
  obs_Value :: ObservationValue
  obs_Summary :: string
  obs_ContentDigest :: string
  obs_DigestAlgorithm :: string
  obs_DigestCanonicalization :: string
  obs_RedactionProfile :: string
  obs_Classification :: "DataClassification option"
  obs_Truncated :: bool
  obs_TruncationReason :: string
  obs_LimitDimension :: string
  obs_Limit :: int
  obs_OriginalCount :: int
  obs_RetainedCount :: int
  obs_OriginalBytes :: int
  obs_RetainedBytes :: int
  obs_CollectedAt :: gotime
  obs_RelatedTargets :: "ResourceRef list"

subsection \<open>Input and output of a model provider\<close>

record IncidentContext =
  ict_ID :: string
  ict_Cluster :: string
  ict_Service :: string
  ict_Resource :: ResourceRef
  ict_Summary :: string
  ict_Signals :: "Signal list"
  ict_Metadata :: strmap
  ict_GeneratedAt :: gotime

record EvidenceBundle =
  bun_Logs :: "string list"
  bun_Metrics :: "string \<rightharpoonup> float64"
  bun_Traces :: "string list"
  bun_Events :: "string list"
  bun_References :: "Evidence list"
  bun_Observations :: "Observation list"

record ResourceTimeline =
  rtl_Resource :: ResourceRef
  rtl_Events :: "TimelineEvent list"

record IngestionOutput =
  ing_Context :: IncidentContext
  ing_Evidence :: EvidenceBundle
  ing_Signals :: "Signal list"
  ing_Timeline :: ResourceTimeline
  ing_DedupedFrom :: int

record RCASummary =
  rcs_Hypothesis :: string
  rcs_Causes :: "string list"
  rcs_Evidence :: "string list"

record Confidence =
  cnf_Score :: int
  cnf_Severity :: string
  cnf_Rationale :: string
  cnf_EvidenceCoverage :: string

record ReasoningOutput =
  rso_RiskTitle :: string
  rso_RiskSummary :: string
  rso_Severity :: string
  rso_Confidence :: Confidence
  rso_RCA :: RCASummary
  rso_Remediation :: Remediation
  rso_RunbookRefs :: "string list"
  rso_ServiceDocs :: "string list"
  rso_Provider :: string
  rso_ProviderRequestID :: string
  rso_InputTokens :: int
  rso_OutputTokens :: int

record ModelMessage =
  mms_Role :: string
  mms_Content :: string

subsection \<open>Scheduling evidence\<close>

record SchedulingEvent =
  sev_ID :: string
  sev_UID :: string
  sev_PodUID :: string
  sev_Source :: string
  sev_Reason :: string
  sev_Message :: string
  sev_Type :: string
  sev_ObservedAt :: gotime
  sev_LastObservedAt :: gotime
  sev_TimeKnown :: bool
  sev_Stale :: bool

record SchedulingResourceRequirements =
  srr_Requests :: strmap
  srr_Limits :: strmap

record SchedulingContainerResources =
  scr_Name :: string
  scr_Requests :: strmap
  scr_Limits :: strmap

record SchedulingToleration =
  stl_Key :: string
  stl_Operator :: string
  stl_Value :: string
  stl_Effect :: string
  stl_TolerationSeconds :: "int option"

record SchedulingNodeSelectorRequirement =
  snr_Key :: string
  snr_Operator :: string
  snr_Values :: "string list"

record SchedulingNodeSelectorTerm =
  snt_Weight :: int
  snt_MatchExpressions :: "SchedulingNodeSelectorRequirement list"
  snt_MatchFields :: "SchedulingNodeSelectorRequirement list"

record SchedulingEvidence =
  sce_ID :: string
  sce_PodUID :: string
  sce_Namespace :: string
  sce_Name :: string
  sce_Source :: string
  sce_Phase :: string
  sce_NodeName :: string
  sce_PodScheduledStatus :: string
  sce_PodScheduledReason :: string
  sce_PodScheduledMessage :: string
  sce_SchedulingGates :: "string list"
  sce_ResourceRequests :: SchedulingResourceRequirements
  sce_ContainerResources :: "SchedulingContainerResources list"
  sce_InitRequests :: "SchedulingResourceRequirements list"
  sce_InitContainerResources :: "SchedulingContainerResources list"
  sce_NodeSelector :: strmap
  sce_NodeAffinityRequired :: "SchedulingNodeSelectorTerm list"
  sce_NodeAffinityPreferred :: "SchedulingNodeSelectorTerm list"
  sce_Tolerations :: "SchedulingToleration list"
  sce_Events :: "SchedulingEvent list"
  sce_Coverage :: string
  sce_CoverageReason :: string
  sce_IncidentStart :: gotime
  sce_IncidentEnd :: gotime
  sce_CollectedAt :: gotime
  sce_Truncated :: bool
  sce_Stale :: bool

subsection \<open>Diagnostics\<close>

abbreviation ClaimObservation :: string where "ClaimObservation \<equiv> ''Observation''"
abbreviation ClaimFailureMechanism :: string where "ClaimFailureMechanism \<equiv> ''FailureMechanism''"
abbreviation ClaimRootCause :: string where "ClaimRootCause \<equiv> ''RootCause''"

record CandidateClaim =
  cc_ID :: string
  cc_Type :: string
  cc_Statement :: string
  cc_TargetUID :: string
  cc_EvidenceRefs :: "string list"

record Requirement =
  rqm_ID :: string
  rqm_Capability :: string
  rqm_Description :: string
  rqm_Required :: bool

record SchedulingObservation =
  sob_ID :: string
  sob_PodUID :: string
  sob_PodNamespace :: string
  sob_PodName :: string
  sob_Source :: string
  sob_EventPodUID :: string
  sob_Phase :: string
  sob_NodeName :: string
  sob_PodScheduledStatus :: string
  sob_PodScheduledReason :: string
  sob_PodScheduledMessage :: string
  sob_SchedulingGates :: "string list"
  sob_EventReason :: string
  sob_EventMessage :: string
  sob_EvidenceRefs :: "string list"
  sob_CollectedAt :: gotime
  sob_IncidentStart :: gotime
  sob_IncidentEnd :: gotime
  sob_Coverage :: string
  sob_CoverageReason :: string
  sob_StateCollected :: bool
  sob_Truncated :: bool
  sob_Stale :: bool

record MatchResult =
  mtr_Applicable :: bool
  mtr_Reason :: string

record DiagnosticResult =
  dgr_DiagnosticID :: string
  dgr_DiagnosticVersion :: string
  dgr_Status :: string
  dgr_Summary :: string
  dgr_Claims :: "CandidateClaim list"
  dgr_MissingRequirements :: "Requirement list"
  dgr_Warnings :: "string list"

definition emptyObservationValue :: ObservationValue where
  "emptyObservationValue = \<lparr>obv_Metric = None, obv_Log = None, obv_Event = None,
     obv_DeploymentCondition = None, obv_ServiceConfiguration = None, obv_ProbeConfiguration = None,
     obv_ContainerTermination = None\<rparr>"

definition emptyObservation :: Observation where
  "emptyObservation = \<lparr>obs_ID = [], obs_SchemaVersion = [], obs_DataSourceRef = [], obs_Capability = [],
     obs_QueryDigest = [], obs_TimeRange = \<lparr>trg_Start = 0, trg_End = 0\<rparr>, obs_Type = [],
     obs_Value = emptyObservationValue, obs_Summary = [], obs_ContentDigest = [],
     obs_DigestAlgorithm = [], obs_DigestCanonicalization = [], obs_RedactionProfile = [],
     obs_Classification = None, obs_Truncated = False, obs_TruncationReason = [],
     obs_LimitDimension = [], obs_Limit = 0, obs_OriginalCount = 0, obs_RetainedCount = 0,
     obs_OriginalBytes = 0, obs_RetainedBytes = 0, obs_CollectedAt = 0, obs_RelatedTargets = []\<rparr>"

end
