(* ===== verification/Accounting.thy ===== *)
theory Accounting
  imports DomainTypes
begin

text \<open>
  The package \<^verbatim>\<open>internal/diagnostic\<close>: its claim types (\<^verbatim>\<open>types.go\<close>) and the accounting of diagnostic
  candidates (\<^verbatim>\<open>accounting.go\<close>): every candidate is validated against its evidence, candidates with a
  conflicting identity are rejected, and of several valid candidates for one claim one is proposed.

  The digests of canonical JSON and the canonical text of a time are parameters.  A Go map that
  groups indices by a key is the function from the key to the list of indices; the groups are
  disjoint, so the order in which the map is traversed does not matter.
\<close>

subsection \<open>Data\<close>

abbreviation ProposedClaim :: string where "ProposedClaim \<equiv> ''ProposedClaim''"
abbreviation RetainedHypothesis :: string where "RetainedHypothesis \<equiv> ''RetainedHypothesis''"
abbreviation RejectedCandidate :: string where "RejectedCandidate \<equiv> ''Rejected''"
abbreviation Deduplicated :: string where "Deduplicated \<equiv> ''Deduplicated''"

record EvidenceIdentity =
  ei_ID :: string
  ei_TargetUID :: string
  ei_IncidentStart :: gotime
  ei_IncidentEnd :: gotime
  ei_Authorized :: bool
  ei_Valid :: bool
  ei_Incomplete :: bool

record CandidateRecord =
  crd_DiagnosticID :: string
  crd_DiagnosticVersion :: string
  crd_IncidentStart :: gotime
  crd_IncidentEnd :: gotime
  crd_Candidate :: CandidateClaim
  crd_Evidence :: "EvidenceIdentity list"

record CandidateResolution =
  rsn_CandidateID :: string
  rsn_CandidateFingerprint :: string
  rsn_ClaimFingerprint :: string
  rsn_Disposition :: string
  rsn_CanonicalClaimID :: string
  rsn_DuplicateOf :: string
  rsn_Reason :: string

text \<open>The coverage is the \<^verbatim>\<open>float64\<close> 0 or 1.\<close>

record DispositionSummary =
  dsm_Total :: nat
  dsm_ProposedClaimCount :: nat
  dsm_RetainedHypothesisCount :: nat
  dsm_RejectedCandidateCount :: nat
  dsm_DeduplicatedCount :: nat
  dsm_DispositionCoverage :: nat
  dsm_CoverageKnown :: bool

record AccountingResult =
  acr_Resolutions :: "CandidateResolution list"
  acr_Summary :: DispositionSummary

record accountingItem =
  it_record :: CandidateRecord
  it_res :: CandidateResolution
  it_state :: string
  it_reason :: string
  it_eligible :: bool
  it_identityKey :: string

text \<open>What the fingerprints hash, and the digest functions on it.\<close>

record CandidatePayload =
  cpl_DiagnosticID :: string
  cpl_DiagnosticVersion :: string
  cpl_CandidateID :: string
  cpl_ClaimType :: string
  cpl_Statement :: string
  cpl_TargetUID :: string
  cpl_IncidentStart :: string
  cpl_IncidentEnd :: string
  cpl_Evidence :: "string list"

record ClaimPayload =
  lpl_ClaimType :: string
  lpl_Statement :: string
  lpl_TargetUID :: string
  lpl_IncidentStart :: string
  lpl_IncidentEnd :: string

record EvidencePayload =
  epl_TargetUID :: string
  epl_IncidentStart :: string
  epl_IncidentEnd :: string
  epl_Authorized :: bool
  epl_Valid :: bool
  epl_Incomplete :: bool

record accounting_codec =
  ac_candidate :: "CandidatePayload \<Rightarrow> string"
  ac_claim :: "ClaimPayload \<Rightarrow> string"
  ac_evidence :: "EvidencePayload \<Rightarrow> string"
  ac_time :: "gotime \<Rightarrow> string"

subsection \<open>Fingerprints\<close>

definition canonicalTime :: "accounting_codec \<Rightarrow> gotime \<Rightarrow> string" where
  "canonicalTime ac t = (if t = 0 then [] else ac_time ac t)"

definition normalizeClaimStatement :: "string \<Rightarrow> string" where
  "normalizeClaimStatement v = Join (Fields (ToLower (TrimSpace v))) '' ''"

definition uniqueStrings :: "string list \<Rightarrow> string list" where
  "uniqueStrings values = sort (remdups (filter (\<lambda>v. v \<noteq> []) (map TrimSpace values)))"

text \<open>The first identity of each trimmed, non-empty id.\<close>

fun evidenceIdentityMap :: "EvidenceIdentity list \<Rightarrow> (string \<times> EvidenceIdentity) list" where
  "evidenceIdentityMap [] = []"
| "evidenceIdentityMap (v # vs) =
     (let key = TrimSpace (ei_ID v) in
      if key = [] then evidenceIdentityMap vs
      else (key, v\<lparr>ei_ID := key\<rparr>) # filter (\<lambda>(k, _). k \<noteq> key) (evidenceIdentityMap vs))"

definition zeroIdentity :: EvidenceIdentity where
  "zeroIdentity = \<lparr>ei_ID = [], ei_TargetUID = [], ei_IncidentStart = 0, ei_IncidentEnd = 0,
     ei_Authorized = False, ei_Valid = False, ei_Incomplete = False\<rparr>"

definition FingerprintCandidate :: "accounting_codec \<Rightarrow> CandidateRecord \<Rightarrow> string" where
  "FingerprintCandidate ac r =
     (let c = crd_Candidate r;
          byID = map_of (evidenceIdentityMap (crd_Evidence r));
          entry = (\<lambda>ref. let i = (case byID ref of Some i \<Rightarrow> i | None \<Rightarrow> zeroIdentity) in
             Join [ref, ei_TargetUID i, canonicalTime ac (ei_IncidentStart i),
                   canonicalTime ac (ei_IncidentEnd i)] ''|'') in
      ac_candidate ac
        \<lparr>cpl_DiagnosticID = TrimSpace (crd_DiagnosticID r),
         cpl_DiagnosticVersion = TrimSpace (crd_DiagnosticVersion r),
         cpl_CandidateID = TrimSpace (cc_ID c), cpl_ClaimType = cc_Type c,
         cpl_Statement = normalizeClaimStatement (cc_Statement c),
         cpl_TargetUID = TrimSpace (cc_TargetUID c),
         cpl_IncidentStart = canonicalTime ac (crd_IncidentStart r),
         cpl_IncidentEnd = canonicalTime ac (crd_IncidentEnd r),
         cpl_Evidence = sort (map entry (uniqueStrings (cc_EvidenceRefs c)))\<rparr>)"

definition FingerprintClaim :: "accounting_codec \<Rightarrow> CandidateRecord \<Rightarrow> string" where
  "FingerprintClaim ac r =
     (let c = crd_Candidate r in
      ac_claim ac
        \<lparr>lpl_ClaimType = cc_Type c, lpl_Statement = normalizeClaimStatement (cc_Statement c),
         lpl_TargetUID = TrimSpace (cc_TargetUID c),
         lpl_IncidentStart = canonicalTime ac (crd_IncidentStart r),
         lpl_IncidentEnd = canonicalTime ac (crd_IncidentEnd r)\<rparr>)"

subsection \<open>Validation\<close>

definition normalizeCandidateRecord :: "CandidateRecord \<Rightarrow> CandidateRecord" where
  "normalizeCandidateRecord r =
     (let c = crd_Candidate r in
      r\<lparr>crd_DiagnosticID := TrimSpace (crd_DiagnosticID r),
        crd_DiagnosticVersion := TrimSpace (crd_DiagnosticVersion r),
        crd_Candidate := c\<lparr>cc_ID := TrimSpace (cc_ID c),
          cc_Statement := TrimSpace (cc_Statement c),
          cc_TargetUID := TrimSpace (cc_TargetUID c),
          cc_EvidenceRefs := uniqueStrings (cc_EvidenceRefs c)\<rparr>\<rparr>)"

definition evidenceFingerprint :: "accounting_codec \<Rightarrow> EvidenceIdentity \<Rightarrow> string" where
  "evidenceFingerprint ac v =
     ac_evidence ac
       \<lparr>epl_TargetUID = TrimSpace (ei_TargetUID v),
        epl_IncidentStart = canonicalTime ac (ei_IncidentStart v),
        epl_IncidentEnd = canonicalTime ac (ei_IncidentEnd v),
        epl_Authorized = ei_Authorized v, epl_Valid = ei_Valid v,
        epl_Incomplete = ei_Incomplete v\<rparr>"

text \<open>
  The loop of \<^verbatim>\<open>evidenceIdentityConflicts\<close> with its maps \<^verbatim>\<open>first\<close> and \<^verbatim>\<open>result\<close>; a conflicting entry
  does not replace the first one.
\<close>

fun evidenceConflictsFrom ::
  "accounting_codec \<Rightarrow> (string \<rightharpoonup> string) \<Rightarrow> EvidenceIdentity list \<Rightarrow> string list" where
  "evidenceConflictsFrom ac first [] = []"
| "evidenceConflictsFrom ac first (v # vs) =
     (let key = TrimSpace (ei_ID v); fp = evidenceFingerprint ac v in
      if key = [] then evidenceConflictsFrom ac first vs
      else case first key of
        Some previous \<Rightarrow>
          if previous \<noteq> fp then key # evidenceConflictsFrom ac first vs
          else evidenceConflictsFrom ac (first(key \<mapsto> fp)) vs
      | None \<Rightarrow> evidenceConflictsFrom ac (first(key \<mapsto> fp)) vs)"

definition evidenceIdentityConflicts :: "accounting_codec \<Rightarrow> EvidenceIdentity list \<Rightarrow> string list" where
  "evidenceIdentityConflicts ac values = evidenceConflictsFrom ac Map.empty values"

definition incidentWindowCompatible :: "gotime \<Rightarrow> gotime \<Rightarrow> gotime \<Rightarrow> gotime \<Rightarrow> bool" where
  "incidentWindowCompatible cs ce es ee =
     (if cs = 0 \<and> ce = 0 \<and> es = 0 \<and> ee = 0 then True
      else if cs = 0 \<or> ce = 0 \<or> es = 0 \<or> ee = 0 then False
      else if ce < cs \<or> ee < es then False
      else \<not> ce < es \<and> \<not> ee < cs)"

text \<open>The checks of one evidence reference; \<open>None\<close> is no objection.\<close>

definition evidenceObjection ::
  "CandidateRecord \<Rightarrow> (string \<rightharpoonup> EvidenceIdentity) \<Rightarrow> string list \<Rightarrow> string \<Rightarrow> string option" where
  "evidenceObjection r evidence conflicts ref =
     (case evidence ref of
        None \<Rightarrow> Some ''EvidenceReferenceNotFound''
      | Some i \<Rightarrow>
          if ref \<in> set conflicts then Some ''EvidenceIdentityConflict''
          else if \<not> ei_Authorized i then Some ''EvidenceUnauthorized''
          else if \<not> ei_Valid i then Some ''EvidenceInvalid''
          else if ei_TargetUID i = [] then Some ''EvidenceTargetUIDMissing''
          else if ei_TargetUID i \<noteq> cc_TargetUID (crd_Candidate r)
            then Some ''EvidenceTargetUIDMismatch''
          else if \<not> incidentWindowCompatible (crd_IncidentStart r) (crd_IncidentEnd r)
                     (ei_IncidentStart i) (ei_IncidentEnd i)
            then Some ''EvidenceOutsideIncidentWindow''
          else None)"

fun firstObjection :: "(string \<Rightarrow> string option) \<Rightarrow> string list \<Rightarrow> string option" where
  "firstObjection f [] = None"
| "firstObjection f (x # xs) = (case f x of Some e \<Rightarrow> Some e | None \<Rightarrow> firstObjection f xs)"

definition validateCandidate ::
  "accounting_codec \<Rightarrow> CandidateRecord \<Rightarrow> string \<times> string \<times> bool" where
  "validateCandidate ac r =
     (let c = crd_Candidate r;
          evidence = map_of (evidenceIdentityMap (crd_Evidence r));
          conflicts = evidenceIdentityConflicts ac (crd_Evidence r) in
      if cc_ID c = [] then (RejectedCandidate, ''MissingCandidateID'', False)
      else if crd_DiagnosticID r = [] \<or> crd_DiagnosticVersion r = [] then
        (RejectedCandidate, ''MissingDiagnosticIdentity'', False)
      else if cc_TargetUID c = [] then (RejectedCandidate, ''MissingTargetUID'', False)
      else if cc_Statement c = [] then (RejectedCandidate, ''MissingCandidateStatement'', False)
      else if cc_Type c \<noteq> ClaimObservation \<and> cc_Type c \<noteq> ClaimFailureMechanism
              \<and> cc_Type c \<noteq> ClaimRootCause then (RejectedCandidate, ''InvalidClaimType'', False)
      else if cc_EvidenceRefs c = [] then (RetainedHypothesis, ''EvidenceRefsMissing'', False)
      else case firstObjection (evidenceObjection r evidence conflicts) (cc_EvidenceRefs c) of
        Some reason \<Rightarrow> (RejectedCandidate, reason, False)
      | None \<Rightarrow>
          if list_ex (\<lambda>ref. case evidence ref of Some i \<Rightarrow> ei_Incomplete i | None \<Rightarrow> False)
               (cc_EvidenceRefs c)
          then (RetainedHypothesis, ''EvidenceIncomplete'', False)
          else (ProposedClaim, ''CandidateAcceptedForVerification'', True))"

subsection \<open>Accounting\<close>

definition accountItem :: "accounting_codec \<Rightarrow> CandidateRecord \<Rightarrow> accountingItem" where
  "accountItem ac record =
     (let r = normalizeCandidateRecord record in
      case validateCandidate ac r of (state, reason, eligible) \<Rightarrow>
        \<lparr>it_record = r,
         it_res = \<lparr>rsn_CandidateID = cc_ID (crd_Candidate r),
           rsn_CandidateFingerprint = FingerprintCandidate ac r,
           rsn_ClaimFingerprint = FingerprintClaim ac r, rsn_Disposition = state,
           rsn_CanonicalClaimID = [], rsn_DuplicateOf = [], rsn_Reason = reason\<rparr>,
         it_state = state, it_reason = reason, it_eligible = eligible,
         it_identityKey = cc_ID (crd_Candidate r)\<rparr>)"

definition identityFingerprints :: "accountingItem list \<Rightarrow> string \<Rightarrow> string list" where
  "identityFingerprints items key =
     remdups (map (\<lambda>i. rsn_CandidateFingerprint (it_res i))
       (filter (\<lambda>i. it_identityKey i \<noteq> [] \<and> it_identityKey i = key) items))"

definition rejectConflict :: "accountingItem list \<Rightarrow> accountingItem \<Rightarrow> accountingItem" where
  "rejectConflict items i =
     (if it_identityKey i \<noteq> [] \<and> length (identityFingerprints items (it_identityKey i)) > 1 then
        i\<lparr>it_state := RejectedCandidate, it_reason := ''CandidateIdentityConflict'',
          it_eligible := False,
          it_res := (it_res i)\<lparr>rsn_Disposition := RejectedCandidate,
            rsn_Reason := ''CandidateIdentityConflict''\<rparr>\<rparr>
      else i)"

definition byClaim :: "accountingItem list \<Rightarrow> string \<Rightarrow> nat list" where
  "byClaim items fp =
     filter (\<lambda>i. it_eligible (items ! i) \<and> rsn_ClaimFingerprint (it_res (items ! i)) = fp)
       [0..<length items]"

definition candidateLess :: "accountingItem \<Rightarrow> accountingItem \<Rightarrow> bool" where
  "candidateLess l r =
     (if rsn_CandidateFingerprint (it_res l) \<noteq> rsn_CandidateFingerprint (it_res r)
      then rsn_CandidateFingerprint (it_res l) < rsn_CandidateFingerprint (it_res r)
      else rsn_CandidateID (it_res l) < rsn_CandidateID (it_res r))"

definition proposeRes :: "CandidateResolution \<Rightarrow> CandidateResolution \<Rightarrow> CandidateResolution" where
  "proposeRes canonical r =
     r\<lparr>rsn_Disposition := ProposedClaim, rsn_CanonicalClaimID := rsn_CandidateID canonical,
       rsn_Reason := ''CandidateAcceptedForVerification''\<rparr>"

definition duplicateRes :: "CandidateResolution \<Rightarrow> CandidateResolution \<Rightarrow> CandidateResolution" where
  "duplicateRes canonical r =
     r\<lparr>rsn_Disposition := Deduplicated, rsn_CanonicalClaimID := rsn_CandidateID canonical,
       rsn_DuplicateOf := rsn_CandidateID canonical, rsn_Reason := ''DuplicateClaimFingerprint''\<rparr>"

definition resolveItem :: "accountingItem list \<Rightarrow> nat \<Rightarrow> CandidateResolution" where
  "resolveItem items index =
     (let res = it_res (items ! index) in
      if \<not> it_eligible (items ! index) then res
      else
        (let indexes = SliceStable (\<lambda>i j. candidateLess (items ! i) (items ! j))
               (byClaim items (rsn_ClaimFingerprint res));
             canonical = it_res (items ! hd indexes) in
         if index = hd indexes then proposeRes canonical res else duplicateRes canonical res))"

definition resolutionLess :: "CandidateResolution \<Rightarrow> CandidateResolution \<Rightarrow> bool" where
  "resolutionLess l r =
     (if rsn_CandidateFingerprint l \<noteq> rsn_CandidateFingerprint r
      then rsn_CandidateFingerprint l < rsn_CandidateFingerprint r
      else if rsn_CandidateID l \<noteq> rsn_CandidateID r then rsn_CandidateID l < rsn_CandidateID r
      else rsn_Disposition l < rsn_Disposition r)"

definition countDisposition :: "string \<Rightarrow> CandidateResolution list \<Rightarrow> nat" where
  "countDisposition d rs = length (filter (\<lambda>r. rsn_Disposition r = d) rs)"

definition summarizeDispositions :: "CandidateResolution list \<Rightarrow> DispositionSummary" where
  "summarizeDispositions rs =
     \<lparr>dsm_Total = length rs, dsm_ProposedClaimCount = countDisposition ProposedClaim rs,
      dsm_RetainedHypothesisCount = countDisposition RetainedHypothesis rs,
      dsm_RejectedCandidateCount = countDisposition RejectedCandidate rs,
      dsm_DeduplicatedCount = countDisposition Deduplicated rs,
      dsm_DispositionCoverage = (if length rs > 0 then 1 else 0),
      dsm_CoverageKnown = (length rs > 0)\<rparr>"

definition accountedItems :: "accounting_codec \<Rightarrow> CandidateRecord list \<Rightarrow> accountingItem list" where
  "accountedItems ac records =
     (let items = map (accountItem ac) records in map (rejectConflict items) items)"

definition AccountCandidates :: "accounting_codec \<Rightarrow> CandidateRecord list \<Rightarrow> AccountingResult" where
  "AccountCandidates ac records =
     (let items = accountedItems ac records;
          resolutions = SliceStable resolutionLess
            (map (resolveItem items) [0..<length items]) in
      \<lparr>acr_Resolutions = resolutions, acr_Summary = summarizeDispositions resolutions\<rparr>)"

subsection \<open>The orders\<close>

definition keyLess :: "CandidateResolution \<Rightarrow> CandidateResolution \<Rightarrow> bool" where
  "keyLess l r =
     (if rsn_CandidateFingerprint l \<noteq> rsn_CandidateFingerprint r
      then rsn_CandidateFingerprint l < rsn_CandidateFingerprint r
      else rsn_CandidateID l < rsn_CandidateID r)"

lemma candidateLess_key: "candidateLess l r = keyLess (it_res l) (it_res r)"
  by (simp add: candidateLess_def keyLess_def)

interpretation keyOrder: precedence keyLess
  by unfold_locales (auto simp: keyLess_def split: if_splits)

interpretation resolutionOrder: precedence resolutionLess
  by unfold_locales (auto simp: resolutionLess_def split: if_splits)

subsection \<open>Items\<close>

text \<open>What an item's resolution looks like before the groups are resolved.\<close>

definition itemOk :: "accountingItem \<Rightarrow> bool" where
  "itemOk i \<longleftrightarrow>
     rsn_CanonicalClaimID (it_res i) = [] \<and> rsn_DuplicateOf (it_res i) = [] \<and>
     (if it_eligible i
      then rsn_Disposition (it_res i) = ProposedClaim \<and>
           rsn_Reason (it_res i) = ''CandidateAcceptedForVerification''
      else rsn_Disposition (it_res i) \<in> {RetainedHypothesis, RejectedCandidate})"

lemma validateCandidate_ok:
  "validateCandidate ac r = (state, reason, eligible) \<Longrightarrow>
   (if eligible then state = ProposedClaim \<and> reason = ''CandidateAcceptedForVerification''
    else state \<in> {RetainedHypothesis, RejectedCandidate})"
  unfolding validateCandidate_def Let_def by (auto split: if_splits option.splits)

lemma itemOk_account: "itemOk (accountItem ac r)"
  using validateCandidate_ok [of ac "normalizeCandidateRecord r"]
  by (auto simp: accountItem_def itemOk_def Let_def split: prod.splits)

lemma itemOk_reject: "itemOk i \<Longrightarrow> itemOk (rejectConflict items i)"
  by (auto simp: itemOk_def rejectConflict_def split: if_splits)

lemma accountedItems_ok: "i \<in> set (accountedItems ac records) \<Longrightarrow> itemOk i"
  by (auto simp: accountedItems_def Let_def intro: itemOk_reject itemOk_account)

lemma accountedItems_fingerprints:
  "map (\<lambda>i. rsn_CandidateFingerprint (it_res i)) (accountedItems ac records) =
   map (\<lambda>r. FingerprintCandidate ac (normalizeCandidateRecord r)) records"
  by (simp add: accountedItems_def rejectConflict_def accountItem_def Let_def split: prod.splits)

lemma length_accountedItems [simp]: "length (accountedItems ac records) = length records"
  by (simp add: accountedItems_def Let_def)

subsection \<open>Groups\<close>

lemma byClaim_in: "i \<in> set (byClaim items fp) \<longleftrightarrow>
    i < length items \<and> it_eligible (items ! i) \<and> rsn_ClaimFingerprint (it_res (items ! i)) = fp"
  by (auto simp: byClaim_def)

definition groupIndexes :: "accountingItem list \<Rightarrow> string \<Rightarrow> nat list" where
  "groupIndexes items fp =
     SliceStable (\<lambda>i j. candidateLess (items ! i) (items ! j)) (byClaim items fp)"

lemma resolveItem_eq:
  "resolveItem items i =
     (let res = it_res (items ! i); k = hd (groupIndexes items (rsn_ClaimFingerprint res)) in
      if \<not> it_eligible (items ! i) then res
      else if i = k then proposeRes (it_res (items ! k)) res
      else duplicateRes (it_res (items ! k)) res)"
  by (simp add: resolveItem_def groupIndexes_def Let_def)

lemma groupIndexes_hd:
  "byClaim items fp \<noteq> [] \<Longrightarrow> hd (groupIndexes items fp) \<in> set (byClaim items fp)"
  unfolding groupIndexes_def by (metis SliceStable_eq_Nil hd_in_set set_SliceStable)

lemma resolveItem_fingerprints [simp]:
  "rsn_CandidateFingerprint (resolveItem items i) = rsn_CandidateFingerprint (it_res (items ! i))"
  "rsn_ClaimFingerprint (resolveItem items i) = rsn_ClaimFingerprint (it_res (items ! i))"
  "rsn_CandidateID (resolveItem items i) = rsn_CandidateID (it_res (items ! i))"
  by (simp_all add: resolveItem_eq proposeRes_def duplicateRes_def Let_def)

lemma resolveItem_disposition:
  assumes "itemOk (items ! i)"
  shows "rsn_Disposition (resolveItem items i) = ProposedClaim \<longleftrightarrow>
      it_eligible (items ! i) \<and>
      i = hd (groupIndexes items (rsn_ClaimFingerprint (it_res (items ! i))))"
    and "rsn_Disposition (resolveItem items i) \<in>
      {ProposedClaim, RetainedHypothesis, RejectedCandidate, Deduplicated}"
  using assms
  by (auto simp: resolveItem_eq itemOk_def proposeRes_def duplicateRes_def Let_def)

definition resolveAll :: "accountingItem list \<Rightarrow> CandidateResolution list" where
  "resolveAll items = map (resolveItem items) [0..<length items]"

lemma AccountCandidates_eqs:
  "acr_Resolutions (AccountCandidates ac records) =
     SliceStable resolutionLess (resolveAll (accountedItems ac records))"
  "acr_Summary (AccountCandidates ac records) =
     summarizeDispositions (acr_Resolutions (AccountCandidates ac records))"
  by (simp_all add: AccountCandidates_def resolveAll_def Let_def)

lemma resolveAll_dispositions:
  "list_all itemOk items \<Longrightarrow> list_all (\<lambda>r. rsn_Disposition r \<in>
     {ProposedClaim, RetainedHypothesis, RejectedCandidate, Deduplicated}) (resolveAll items)"
  unfolding resolveAll_def list.pred_map
  unfolding list_all_iff o_def by (intro ballI resolveItem_disposition(2)) simp

lemma countDisposition_sum:
  "list_all (\<lambda>r. rsn_Disposition r \<in>
     {ProposedClaim, RetainedHypothesis, RejectedCandidate, Deduplicated}) rs \<Longrightarrow>
   countDisposition ProposedClaim rs + countDisposition RetainedHypothesis rs +
     countDisposition RejectedCandidate rs + countDisposition Deduplicated rs = length rs"
proof (induction rs)
  case (Cons r rs)
  from Cons.prems have "rsn_Disposition r = ProposedClaim \<or> rsn_Disposition r = RetainedHypothesis \<or>
      rsn_Disposition r = RejectedCandidate \<or> rsn_Disposition r = Deduplicated" by simp
  with Cons show ?case by (elim disjE) (simp_all add: countDisposition_def)
qed (simp add: countDisposition_def)

text \<open>C39: no candidate is lost or counted twice: the resolutions are as many as the records and carry
  the same fingerprints, and the four counts of the summary add up to the total.
\<close>

theorem accounting_conserves:
  "mset (map rsn_CandidateFingerprint (acr_Resolutions (AccountCandidates ac records))) =
     mset (map (\<lambda>r. FingerprintCandidate ac (normalizeCandidateRecord r)) records) \<and>
   (let s = acr_Summary (AccountCandidates ac records) in
    dsm_Total s = length records \<and>
    dsm_ProposedClaimCount s + dsm_RetainedHypothesisCount s + dsm_RejectedCandidateCount s
      + dsm_DeduplicatedCount s = dsm_Total s)"
proof -
  let ?items = "accountedItems ac records"
  let ?rs = "acr_Resolutions (AccountCandidates ac records)"
  have ok: "list_all itemOk ?items" using accountedItems_ok by (auto simp: list_all_iff)
  have "map rsn_CandidateFingerprint (resolveAll ?items) =
      map (\<lambda>i. rsn_CandidateFingerprint (it_res i)) ?items"
    by (auto simp: resolveAll_def intro!: nth_equalityI)
  then have "mset (map rsn_CandidateFingerprint ?rs) =
      mset (map (\<lambda>r. FingerprintCandidate ac (normalizeCandidateRecord r)) records)"
    by (metis AccountCandidates_eqs(1) accountedItems_fingerprints mset_SliceStable mset_map)
  moreover have "length ?rs = length records"
    by (simp add: AccountCandidates_eqs resolveAll_def)
  moreover have "list_all (\<lambda>r. rsn_Disposition r \<in>
      {ProposedClaim, RetainedHypothesis, RejectedCandidate, Deduplicated}) ?rs"
    using resolveAll_dispositions [OF ok]
    by (simp add: AccountCandidates_eqs list_all_iff)
  ultimately show ?thesis
    using countDisposition_sum [of ?rs]
    by (simp add: AccountCandidates_eqs(2) summarizeDispositions_def Let_def)
qed

subsection \<open>One proposal per claim\<close>

lemma resolveAll_proposed:
  assumes "list_all itemOk items"
  shows "length (filter (\<lambda>r. rsn_Disposition r = ProposedClaim \<and> rsn_ClaimFingerprint r = fp)
      (resolveAll items)) = (if byClaim items fp = [] then 0 else 1)"
proof -
  let ?Q = "\<lambda>i. rsn_Disposition (resolveItem items i) = ProposedClaim \<and>
      rsn_ClaimFingerprint (resolveItem items i) = fp"
  have Q: "?Q i \<longleftrightarrow> i \<in> set (byClaim items fp) \<and> i = hd (groupIndexes items fp)"
    if "i < length items" for i
    using resolveItem_disposition(1) [of items i] that assms by (auto simp: byClaim_in list_all_iff)
  have "length (filter (\<lambda>r. rsn_Disposition r = ProposedClaim \<and> rsn_ClaimFingerprint r = fp)
      (resolveAll items)) = length (filter ?Q [0..<length items])"
    by (simp add: resolveAll_def filter_map o_def)
  also have "\<dots> = card (set (filter ?Q [0..<length items]))"
    by (rule distinct_card [symmetric]) simp
  also have "set (filter ?Q [0..<length items]) =
      (if byClaim items fp = [] then {} else {hd (groupIndexes items fp)})"
  proof -
    have "set (filter ?Q [0..<length items]) =
        {i \<in> set (byClaim items fp). i = hd (groupIndexes items fp)}"
      using Q by (auto simp: byClaim_in simp del: resolveItem_fingerprints)
    then show ?thesis using groupIndexes_hd [of items fp] by auto
  qed
  finally show ?thesis by simp
qed

lemma resolveAll_duplicate:
  assumes "list_all itemOk items" and "r \<in> set (resolveAll items)"
    and "rsn_Disposition r = Deduplicated"
  shows "\<exists>p\<in>set (resolveAll items). rsn_Disposition p = ProposedClaim \<and>
    rsn_ClaimFingerprint p = rsn_ClaimFingerprint r \<and> rsn_CandidateID p = rsn_DuplicateOf r"
proof -
  obtain i where i: "i < length items" "r = resolveItem items i"
    using assms(2) by (auto simp: resolveAll_def)
  let ?fp = "rsn_ClaimFingerprint (it_res (items ! i))"
  let ?k = "hd (groupIndexes items ?fp)"
  have "it_eligible (items ! i)"
    using assms(1,3) i by (auto simp: resolveItem_eq itemOk_def list_all_iff Let_def split: if_splits)
  then have "byClaim items ?fp \<noteq> []" using i(1) byClaim_in [of i items ?fp] by auto
  then have k: "?k < length items" "it_eligible (items ! ?k)"
      "rsn_ClaimFingerprint (it_res (items ! ?k)) = ?fp"
    using groupIndexes_hd by (auto simp: byClaim_in)
  have "rsn_Disposition (resolveItem items ?k) = ProposedClaim"
    using resolveItem_disposition(1) [of items ?k] assms(1) k by (simp add: list_all_iff)
  moreover have "rsn_DuplicateOf r = rsn_CandidateID (it_res (items ! ?k))"
    using i(2) assms(3) \<open>it_eligible (items ! i)\<close>
    by (auto simp: resolveItem_eq proposeRes_def duplicateRes_def Let_def split: if_splits)
  ultimately show ?thesis
    using k i by (intro bexI [of _ "resolveItem items ?k"]) (auto simp: resolveAll_def)
qed

lemma byClaim_nonempty:
  "byClaim items fp \<noteq> [] \<longleftrightarrow>
   list_ex (\<lambda>i. it_eligible i \<and> rsn_ClaimFingerprint (it_res i) = fp) items"
proof -
  have "byClaim items fp \<noteq> [] \<longleftrightarrow> (\<exists>i. i \<in> set (byClaim items fp))"
    by (metis length_greater_0_conv length_pos_if_in_set nth_mem)
  then show ?thesis by (auto simp: byClaim_in list_ex_length)
qed

text \<open>
   of the candidates that pass validation exactly one per claim fingerprint is proposed for
  verification, and every candidate that is marked as a duplicate names the proposed candidate of
  the same claim.
\<close>

theorem accounting_one_proposal:
  "(let rs = acr_Resolutions (AccountCandidates ac records) in
    length (filter (\<lambda>r. rsn_Disposition r = ProposedClaim \<and> rsn_ClaimFingerprint r = fp) rs) =
      (if list_ex (\<lambda>i. it_eligible i \<and> rsn_ClaimFingerprint (it_res i) = fp)
            (accountedItems ac records) then 1 else 0) \<and>
    list_all (\<lambda>r. list_ex (\<lambda>p. rsn_Disposition p = ProposedClaim \<and>
        rsn_ClaimFingerprint p = rsn_ClaimFingerprint r \<and> rsn_CandidateID p = rsn_DuplicateOf r) rs)
      (filter (\<lambda>r. rsn_Disposition r = Deduplicated) rs))"
proof -
  let ?items = "accountedItems ac records"
  let ?P = "\<lambda>r. rsn_Disposition r = ProposedClaim \<and> rsn_ClaimFingerprint r = fp"
  have ok: "list_all itemOk ?items" using accountedItems_ok by (auto simp: list_all_iff)
  have "mset (filter ?P (SliceStable resolutionLess (resolveAll ?items))) =
      mset (filter ?P (resolveAll ?items))"
    by simp
  then have "length (filter ?P (SliceStable resolutionLess (resolveAll ?items))) =
      length (filter ?P (resolveAll ?items))"
    by (rule mset_eq_length)
  moreover have "list_all (\<lambda>r. list_ex (\<lambda>p. rsn_Disposition p = ProposedClaim \<and>
        rsn_ClaimFingerprint p = rsn_ClaimFingerprint r \<and> rsn_CandidateID p = rsn_DuplicateOf r)
        (resolveAll ?items)) (filter (\<lambda>r. rsn_Disposition r = Deduplicated) (resolveAll ?items))"
    using resolveAll_duplicate [OF ok] unfolding list_all_iff list_ex_iff by simp
  ultimately show ?thesis
    using resolveAll_proposed [OF ok, of fp]
    unfolding AccountCandidates_eqs(1) Let_def byClaim_nonempty [symmetric]
    by (simp add: list_all_iff list_ex_iff)
qed

subsection \<open>The order of the records does not matter\<close>

lemma mset_group:
  assumes "finite C" and "\<And>x. x \<in> set xs \<Longrightarrow> P x \<Longrightarrow> g x \<in> C"
  shows "mset (map f (filter P xs)) = (\<Sum>c\<in>C. mset (map f (filter (\<lambda>x. P x \<and> g x = c) xs)))"
  using assms(2)
proof (induction xs)
  case (Cons x xs)
  show ?case
  proof (cases "P x")
    case True
    then have "(\<Sum>c\<in>C. mset (map f (filter (\<lambda>y. P y \<and> g y = c) (x # xs)))) =
        (\<Sum>c\<in>C. (if g x = c then {#f x#} else {#}) +
          mset (map f (filter (\<lambda>y. P y \<and> g y = c) xs)))"
      by (intro sum.cong) auto
    also have "\<dots> = {#f x#} + mset (map f (filter P xs))"
      using Cons True assms(1) by (simp add: sum.distrib sum.delta)
    finally show ?thesis using True by simp
  qed (use Cons in simp)
qed simp

fun resolveGroup :: "CandidateResolution list \<Rightarrow> CandidateResolution list" where
  "resolveGroup [] = []"
| "resolveGroup (k # ks) = proposeRes k k # map (duplicateRes k) ks"

definition groupItems :: "accountingItem list \<Rightarrow> string \<Rightarrow> accountingItem list" where
  "groupItems items fp = filter (\<lambda>i. it_eligible i \<and> rsn_ClaimFingerprint (it_res i) = fp) items"

lemma groupIndexes_items:
  "map (\<lambda>i. it_res (items ! i)) (groupIndexes items fp) =
   SliceStable keyLess (map it_res (groupItems items fp))"
proof -
  have idx: "map ((!) items) (byClaim items fp) = groupItems items fp"
    unfolding byClaim_def groupItems_def
    by (metis (no_types, lifting) filter_cong filter_map map_nth o_apply)
  have "map (\<lambda>i. it_res (items ! i)) (groupIndexes items fp) =
      SliceStable keyLess (map (\<lambda>i. it_res (items ! i)) (byClaim items fp))"
    unfolding groupIndexes_def candidateLess_key by (rule map_SliceStable)
  also have "map (\<lambda>i. it_res (items ! i)) (byClaim items fp) = map it_res (groupItems items fp)"
    by (simp flip: idx)
  finally show ?thesis .
qed

lemma resolve_byClaim:
  "mset (map (resolveItem items) (byClaim items fp)) =
   mset (resolveGroup (SliceStable keyLess (map it_res (groupItems items fp))))"
proof (cases "groupIndexes items fp")
  case Nil
  then have "byClaim items fp = []" by (simp add: groupIndexes_def)
  with Nil show ?thesis by (simp flip: groupIndexes_items)
next
  case (Cons k ks)
  have perm: "mset (k # ks) = mset (byClaim items fp)"
    by (simp flip: Cons add: groupIndexes_def)
  then have "distinct (k # ks)" by (metis byClaim_def distinct_filter distinct_upt mset_eq_imp_distinct_iff)
  have members: "i \<in> set (byClaim items fp)" if "i \<in> set (k # ks)" for i
    using perm that by (metis set_mset_mset)
  have "map (resolveItem items) (k # ks) = resolveGroup (map (\<lambda>i. it_res (items ! i)) (k # ks))"
    using \<open>distinct (k # ks)\<close> members Cons
    by (auto simp: resolveItem_eq byClaim_in Let_def)
  then show ?thesis
    using perm Cons by (metis groupIndexes_items mset_map)
qed

lemma resolveAll_mset:
  "mset (resolveAll items) =
   mset (map it_res (filter (\<lambda>i. \<not> it_eligible i) items)) +
   (\<Sum>fp\<in>set (map (\<lambda>i. rsn_ClaimFingerprint (it_res i)) items).
      mset (resolveGroup (SliceStable keyLess (map it_res (groupItems items fp)))))"
proof -
  let ?idx = "[0..<length items]" and ?e = "\<lambda>i. it_eligible (items ! i)"
  have "mset (resolveAll items) =
      mset (map (resolveItem items) (filter (\<lambda>i. \<not> ?e i) ?idx)) +
      mset (map (resolveItem items) (filter ?e ?idx))"
    unfolding resolveAll_def mset_map mset_filter image_mset_union [symmetric]
    by (metis multiset_partition union_commute)
  moreover have "map (resolveItem items) (filter (\<lambda>i. \<not> ?e i) ?idx) =
      map it_res (map ((!) items) (filter (\<lambda>i. \<not> ?e i) ?idx))"
    by (auto simp: resolveItem_eq)
  moreover have "map ((!) items) (filter (\<lambda>i. \<not> ?e i) ?idx) = filter (\<lambda>i. \<not> it_eligible i) items"
    by (metis (no_types, lifting) filter_cong filter_map map_nth o_apply)
  moreover have "mset (map (resolveItem items) (filter ?e ?idx)) =
      (\<Sum>fp\<in>set (map (\<lambda>i. rsn_ClaimFingerprint (it_res i)) items).
        mset (map (resolveItem items) (byClaim items fp)))"
    unfolding byClaim_def
    by (rule mset_group [where g = "\<lambda>i. rsn_ClaimFingerprint (it_res (items ! i))"]) auto
  ultimately show ?thesis by (simp only: resolve_byClaim)
qed

lemma group_ties:
  assumes "list_all itemOk items"
    and "a \<in> set (map it_res (groupItems items fp))" "b \<in> set (map it_res (groupItems items fp))"
    and "\<not> keyLess a b" "\<not> keyLess b a"
  shows "a = b"
proof -
  have "rsn_CandidateFingerprint a = rsn_CandidateFingerprint b \<and>
      rsn_CandidateID a = rsn_CandidateID b"
    using assms(4,5) by (auto simp: keyLess_def split: if_splits)
  with assms(1-3) show ?thesis
    by (auto simp: groupItems_def itemOk_def list_all_iff intro!: CandidateResolution.equality)
qed

lemma accountedItems_mset:
  assumes "mset records = mset records'"
  shows "mset (accountedItems ac records) = mset (accountedItems ac records')"
proof -
  let ?a = "map (accountItem ac) records" and ?b = "map (accountItem ac) records'"
  have items: "mset ?a = mset ?b" using assms by simp
  have "length (identityFingerprints ?a key) = length (identityFingerprints ?b key)" for key
    using mset_eq_setD [OF items] by (simp add: identityFingerprints_def length_remdups_card_conv)
  then have "rejectConflict ?a = rejectConflict ?b" by (simp add: rejectConflict_def fun_eq_iff)
  then show ?thesis unfolding accountedItems_def Let_def by (metis items mset_map)
qed

text \<open>
   accounting is deterministic: the resolutions and the summary depend on which records are
  given, not on their order, even when candidates tie.
\<close>

theorem accounting_order_independent:
  assumes "mset records = mset records'"
  shows "mset (acr_Resolutions (AccountCandidates ac records)) =
      mset (acr_Resolutions (AccountCandidates ac records')) \<and>
    acr_Summary (AccountCandidates ac records) = acr_Summary (AccountCandidates ac records')"
proof -
  let ?a = "accountedItems ac records" and ?b = "accountedItems ac records'"
  have ab: "mset ?a = mset ?b" by (rule accountedItems_mset [OF assms])
  have ok: "list_all itemOk ?a" using accountedItems_ok by (auto simp: list_all_iff)
  have "SliceStable keyLess (map it_res (groupItems ?a fp)) =
      SliceStable keyLess (map it_res (groupItems ?b fp))" for fp
    by (rule keyOrder.SliceStable_mset_eq) (use ab group_ties [OF ok] in \<open>simp_all add: groupItems_def\<close>)
  then have rs: "mset (resolveAll ?a) = mset (resolveAll ?b)"
    unfolding resolveAll_mset using mset_eq_setD [OF ab] ab by simp
  have count: "countDisposition d xs = size (filter_mset (\<lambda>r. rsn_Disposition r = d) (mset xs))" for d xs
    by (metis countDisposition_def mset_filter size_mset)
  have "length (resolveAll ?a) = length (resolveAll ?b)" using rs by (rule mset_eq_length)
  then show ?thesis
    using rs by (simp add: AccountCandidates_eqs summarizeDispositions_def count)
qed

definition demoAccountingCodec :: accounting_codec where
  "demoAccountingCodec = \<lparr>ac_candidate = cpl_CandidateID, ac_claim = lpl_Statement,
     ac_evidence = epl_TargetUID, ac_time = \<lambda>t. [char_of (nat t)]\<rparr>"

definition demoCandidate :: "string \<Rightarrow> CandidateRecord" where
  "demoCandidate ident =
     \<lparr>crd_DiagnosticID = ''sched'', crd_DiagnosticVersion = ''v1'', crd_IncidentStart = 5,
      crd_IncidentEnd = 9,
      crd_Candidate = \<lparr>cc_ID = ident, cc_Type = ClaimRootCause, cc_Statement = ''No  memory'',
        cc_TargetUID = ''u'', cc_EvidenceRefs = [''e'']\<rparr>,
      crd_Evidence = [\<lparr>ei_ID = ''e'', ei_TargetUID = ''u'', ei_IncidentStart = 6,
        ei_IncidentEnd = 7, ei_Authorized = True, ei_Valid = True, ei_Incomplete = False\<rparr>]\<rparr>"

theorem accounting_order_independent_witness:
  "dsm_ProposedClaimCount (acr_Summary (AccountCandidates demoAccountingCodec
     [demoCandidate ''b'', demoCandidate ''a''])) = 1 \<and>
   dsm_DeduplicatedCount (acr_Summary (AccountCandidates demoAccountingCodec
     [demoCandidate ''b'', demoCandidate ''a''])) = 1"
proof -
  have "mset [demoCandidate ''b'', demoCandidate ''a''] = mset [demoCandidate ''a'', demoCandidate ''b'']"
    by simp
  from accounting_order_independent [OF this, of demoAccountingCodec]
  have "acr_Summary (AccountCandidates demoAccountingCodec [demoCandidate ''b'', demoCandidate ''a'']) =
      acr_Summary (AccountCandidates demoAccountingCodec [demoCandidate ''a'', demoCandidate ''b''])"
    by blast
  moreover have "dsm_ProposedClaimCount (acr_Summary (AccountCandidates demoAccountingCodec
        [demoCandidate ''a'', demoCandidate ''b''])) = 1"
    "dsm_DeduplicatedCount (acr_Summary (AccountCandidates demoAccountingCodec
        [demoCandidate ''a'', demoCandidate ''b''])) = 1"
    by code_simp+
  ultimately show ?thesis by simp
qed

end
