(* ===== verification/Scope.thy ===== *)
theory Scope
  imports ApiTypes
begin

text \<open>
  The resolution of a Deployment's ownership chain (\<^verbatim>\<open>internal/scope/resolver.go\<close>).  The Kubernetes
  reader is the record \<open>scope_reader\<close>: what a Get returns for a Deployment, and what a List returns
  for a namespace, a selector and a limit (the items and the continue token).  Of an object the
  resolver reads its metadata, and of a Deployment its selector too.  The selector is the parameter
  \<open>selector_fn\<close>.
\<close>

subsection \<open>Data\<close>

record Limits =
  lim_MaxReplicaSets :: int
  lim_MaxPods :: int

record ScopeRef =
  srf_APIVersion :: string
  srf_Kind :: string
  srf_Namespace :: string
  srf_Name :: string
  srf_UID :: string

record ScopeWarning =
  swn_Code :: string
  swn_Message :: string
  swn_Resource :: "ScopeRef option"

record ScopeResult =
  scp_Deployment :: ScopeRef
  scp_ReplicaSets :: "ScopeRef list"
  scp_Pods :: "ScopeRef list"
  scp_Warnings :: "ScopeWarning list"
  scp_Complete :: bool

record ScopeDeployment =
  sdp_Meta :: ObjectMeta
  sdp_Selector :: "LabelSelector option"

type_synonym list_fn = "string \<Rightarrow> (strmap \<Rightarrow> bool) \<Rightarrow> int \<Rightarrow> go_error + ObjectMeta list \<times> string"

record scope_reader =
  srd_GetDeployment :: "NamespacedName \<Rightarrow> go_error + ScopeDeployment"
  srd_ListReplicaSets :: list_fn
  srd_ListPods :: list_fn

record Resolver =
  rsv_reader :: "scope_reader option"
  rsv_limits :: Limits

definition emptyScopeRef :: ScopeRef where
  "emptyScopeRef = \<lparr>srf_APIVersion = [], srf_Kind = [], srf_Namespace = [], srf_Name = [], srf_UID = []\<rparr>"

definition emptyScopeResult :: ScopeResult where
  "emptyScopeResult = \<lparr>scp_Deployment = emptyScopeRef, scp_ReplicaSets = [], scp_Pods = [], scp_Warnings = [],
     scp_Complete = False\<rparr>"

subsection \<open>Operations\<close>

definition normalizedLimits :: "Limits \<Rightarrow> Limits" where
  "normalizedLimits l = \<lparr>lim_MaxReplicaSets = (if lim_MaxReplicaSets l \<le> 0 then 20 else lim_MaxReplicaSets l),
     lim_MaxPods = (if lim_MaxPods l \<le> 0 then 100 else lim_MaxPods l)\<rparr>"

definition NewResolver :: "scope_reader option \<Rightarrow> Limits \<Rightarrow> Resolver" where
  "NewResolver reader limits = \<lparr>rsv_reader = reader, rsv_limits = normalizedLimits limits\<rparr>"

definition resourceRef :: "ObjectMeta \<Rightarrow> string \<Rightarrow> string \<Rightarrow> ScopeRef" where
  "resourceRef m apiVersion kind = \<lparr>srf_APIVersion = apiVersion, srf_Kind = kind, srf_Namespace = om_Namespace m,
     srf_Name = om_Name m, srf_UID = om_UID m\<rparr>"

definition controllerOwner :: "OwnerReference list \<Rightarrow> string \<Rightarrow> OwnerReference option" where
  "controllerOwner refs kind =
     find (\<lambda>r. or_Controller r = Some True \<and> or_Kind r = kind \<and> or_UID r \<noteq> []) refs"

definition controllerOwnerMatches :: "OwnerReference list \<Rightarrow> string \<Rightarrow> string \<Rightarrow> string \<Rightarrow> bool" where
  "controllerOwnerMatches refs kind name uid =
     (case controllerOwner refs kind of None \<Rightarrow> False | Some owner \<Rightarrow> or_Name owner = name \<and> or_UID owner = uid)"

definition scopeRefLess :: "ScopeRef \<Rightarrow> ScopeRef \<Rightarrow> bool" where
  "scopeRefLess a b =
     (if srf_Namespace a \<noteq> srf_Namespace b then srf_Namespace a < srf_Namespace b
      else if srf_Name a \<noteq> srf_Name b then srf_Name a < srf_Name b
      else srf_UID a < srf_UID b)"

text \<open>
  \<^verbatim>\<open>sort.Slice\<close>: within one list the references have the same API version and kind, so references that
  the comparison does not separate are equal and the unstable sort has one result.
\<close>

definition sortResourceRefs :: "ScopeRef list \<Rightarrow> ScopeRef list" where
  "sortResourceRefs = SliceStable scopeRefLess"

definition scopeFail :: "ScopeResult \<Rightarrow> string \<Rightarrow> string \<Rightarrow> ScopeRef option \<Rightarrow> ScopeResult" where
  "scopeFail r code msg res = r\<lparr>scp_Complete := False,
     scp_Warnings := scp_Warnings r @ [\<lparr>swn_Code = code, swn_Message = msg, swn_Resource = res\<rparr>]\<rparr>"

definition scopeWarn :: "ScopeResult \<Rightarrow> string \<Rightarrow> string \<Rightarrow> ScopeRef \<Rightarrow> ScopeResult" where
  "scopeWarn r code msg ref = r\<lparr>scp_Warnings := scp_Warnings r @
     [\<lparr>swn_Code = code, swn_Message = msg, swn_Resource = Some ref\<rparr>]\<rparr>"

text \<open>A list that is longer than its limit, or continued, is cut and makes the result incomplete.\<close>

definition cutItems :: "string \<Rightarrow> string \<Rightarrow> int \<Rightarrow> ScopeResult \<Rightarrow> ObjectMeta list \<times> string \<Rightarrow>
    ScopeResult \<times> ObjectMeta list" where
  "cutItems code kind limit r listing =
     (case listing of (items, continue) \<Rightarrow>
        if int (length items) > limit \<or> continue \<noteq> [] then
          (scopeFail r code (kind @ '' scope exceeded limit '' @ itoa limit) (Some (scp_Deployment r)),
           take (nat (min (int (length items)) limit)) items)
        else (r, items))"

definition addReplicaSet :: "ObjectMeta \<Rightarrow> (strmap \<Rightarrow> bool) \<Rightarrow> ScopeResult \<times> string set \<Rightarrow> ObjectMeta \<Rightarrow>
    ScopeResult \<times> string set" where
  "addReplicaSet deployment selector acc replica =
     (case acc of (r, owned) \<Rightarrow>
        let ref = resourceRef replica ''apps/v1'' ''ReplicaSet'' in
        if \<not> controllerOwnerMatches (om_OwnerReferences replica) ''Deployment'' (om_Name deployment) (om_UID deployment)
        then (scopeWarn r ''OwnerMismatch'' ''ReplicaSet selector matched but controller OwnerReference does not match the target Deployment UID'' ref, owned)
        else if \<not> selector (om_Labels replica) then
          (scopeWarn r ''SelectorMismatch'' ''ReplicaSet controller owner matched but labels failed the Deployment selector'' ref, owned)
        else (r\<lparr>scp_ReplicaSets := scp_ReplicaSets r @ [ref]\<rparr>, insert (om_UID replica) owned))"

definition addPod :: "string set \<Rightarrow> ScopeResult \<Rightarrow> ObjectMeta \<Rightarrow> ScopeResult" where
  "addPod owned r pod =
     (let ref = resourceRef pod ''v1'' ''Pod'' in
      case controllerOwner (om_OwnerReferences pod) ''ReplicaSet'' of
        None \<Rightarrow> scopeWarn r ''OwnerMismatch'' ''Pod selector matched but it has no controller ReplicaSet OwnerReference'' ref
      | Some owner \<Rightarrow>
          if or_UID owner \<notin> owned then
            scopeWarn r ''OwnerMismatch'' ''Pod controller ReplicaSet UID is not in the validated Deployment scope'' ref
          else r\<lparr>scp_Pods := scp_Pods r @ [ref]\<rparr>)"

definition resolvePods :: "scope_reader \<Rightarrow> Limits \<Rightarrow> string \<Rightarrow> string \<Rightarrow> (strmap \<Rightarrow> bool) \<Rightarrow>
    ScopeResult \<times> string set \<Rightarrow> ScopeResult \<times> go_error option" where
  "resolvePods reader limits namespace name selector acc =
     (case acc of (r, owned) \<Rightarrow>
      case srd_ListPods reader namespace selector (lim_MaxPods limits + 1) of
        Inl e \<Rightarrow> (scopeFail r ''PodListFailed'' (''list Pods: '' @ errText e) (Some (scp_Deployment r)),
            Some (wrapErr (''list Pods for Deployment '' @ namespace @ ''/'' @ name @ '': '') e))
      | Inr listing \<Rightarrow>
          let (r, pods) = cutItems ''PodLimitExceeded'' ''Pod'' (lim_MaxPods limits) r listing;
              r = foldl (addPod owned) r pods in
          (r\<lparr>scp_ReplicaSets := sortResourceRefs (scp_ReplicaSets r), scp_Pods := sortResourceRefs (scp_Pods r)\<rparr>, None))"

definition resolveOwned :: "scope_reader \<Rightarrow> Limits \<Rightarrow> string \<Rightarrow> string \<Rightarrow> ObjectMeta \<Rightarrow> (strmap \<Rightarrow> bool) \<Rightarrow>
    ScopeResult \<Rightarrow> ScopeResult \<times> go_error option" where
  "resolveOwned reader limits namespace name deployment selector r =
     (case srd_ListReplicaSets reader namespace selector (lim_MaxReplicaSets limits + 1) of
        Inl e \<Rightarrow> (scopeFail r ''ReplicaSetListFailed'' (''list ReplicaSets: '' @ errText e) (Some (scp_Deployment r)),
            Some (wrapErr (''list ReplicaSets for Deployment '' @ namespace @ ''/'' @ name @ '': '') e))
      | Inr listing \<Rightarrow>
          let (r, replicas) = cutItems ''ReplicaSetLimitExceeded'' ''ReplicaSet'' (lim_MaxReplicaSets limits) r listing in
          resolvePods reader limits namespace name selector
            (foldl (addReplicaSet deployment selector) (r, {}) replicas))"

definition ResolveDeployment :: "selector_fn \<Rightarrow> Resolver option \<Rightarrow> string \<Rightarrow> string \<Rightarrow>
    ScopeResult \<times> go_error option" where
  "ResolveDeployment sel resolver namespace name =
     (let r = emptyScopeResult\<lparr>scp_Complete := True\<rparr> in
      case Option.bind resolver rsv_reader of
        None \<Rightarrow> (r, Some (Errorf ''scope resolver requires a Kubernetes reader''))
      | Some reader \<Rightarrow>
          if namespace = [] \<or> name = [] then
            (scopeFail r ''InvalidTarget'' ''Deployment namespace and name are required'' None,
             Some (Errorf ''deployment namespace and name are required''))
          else case srd_GetDeployment reader (namespace, name) of
            Inl e \<Rightarrow>
              (if IsNotFound e then
                 scopeFail r ''ResourceNotFound'' (''Deployment '' @ namespace @ ''/'' @ name @ '' was not found'') None
               else r,
               Some (wrapErr (''get Deployment '' @ namespace @ ''/'' @ name @ '': '') e))
          | Inr deployment \<Rightarrow>
              let ref = resourceRef (sdp_Meta deployment) ''apps/v1'' ''Deployment'';
                  r = r\<lparr>scp_Deployment := ref\<rparr> in
              if om_Namespace (sdp_Meta deployment) \<noteq> namespace then
                (scopeFail r ''NamespaceMismatch'' ''resolved Deployment namespace differs from requested namespace'' (Some ref),
                 Some (Errorf (''deployment '' @ namespace @ ''/'' @ name @ '' resolved outside requested namespace'')))
              else case sdp_Selector deployment of
                None \<Rightarrow>
                  (scopeFail r ''InvalidTarget'' ''Deployment has no selector'' (Some ref),
                   Some (Errorf (''deployment '' @ namespace @ ''/'' @ name @ '' has no selector'')))
              | Some ls \<Rightarrow>
                  (case sel ls of
                     Inl e \<Rightarrow>
                       (scopeFail r ''InvalidTarget'' (''Deployment selector is invalid: '' @ errText e) (Some ref),
                        Some (wrapErr (''parse Deployment '' @ namespace @ ''/'' @ name @ '' selector: '') e))
                   | Inr selector \<Rightarrow>
                       resolveOwned reader (rsv_limits (the resolver)) namespace name (sdp_Meta deployment) selector r))"

subsection \<open>The validated ownership chain\<close>

text \<open>
  The specification: of the listed ReplicaSets those that the Deployment controls by name and UID and that
  its selector selects, and of the listed Pods those whose controller is one of these ReplicaSets.
\<close>

definition ownedReplicaSet :: "ObjectMeta \<Rightarrow> (strmap \<Rightarrow> bool) \<Rightarrow> ObjectMeta \<Rightarrow> bool" where
  "ownedReplicaSet deployment selector rs \<longleftrightarrow>
     (\<exists>owner. controllerOwner (om_OwnerReferences rs) ''Deployment'' = Some owner \<and>
        or_Name owner = om_Name deployment \<and> or_UID owner = om_UID deployment) \<and>
     selector (om_Labels rs)"

definition ownedPod :: "ObjectMeta set \<Rightarrow> ObjectMeta \<Rightarrow> bool" where
  "ownedPod replicas pod \<longleftrightarrow>
     (\<exists>owner. controllerOwner (om_OwnerReferences pod) ''ReplicaSet'' = Some owner \<and>
        or_UID owner \<in> om_UID ` replicas)"

definition rsRef :: "ObjectMeta \<Rightarrow> ScopeRef" where "rsRef m = resourceRef m ''apps/v1'' ''ReplicaSet''"
definition podRef :: "ObjectMeta \<Rightarrow> ScopeRef" where "podRef m = resourceRef m ''v1'' ''Pod''"

lemma scopeWarn_simps [simp]:
  "scp_Deployment (scopeWarn r c m x) = scp_Deployment r" "scp_ReplicaSets (scopeWarn r c m x) = scp_ReplicaSets r"
  "scp_Pods (scopeWarn r c m x) = scp_Pods r" "scp_Complete (scopeWarn r c m x) = scp_Complete r"
  by (simp_all add: scopeWarn_def)

lemma scopeFail_simps [simp]:
  "scp_Deployment (scopeFail r c m x) = scp_Deployment r" "scp_ReplicaSets (scopeFail r c m x) = scp_ReplicaSets r"
  "scp_Pods (scopeFail r c m x) = scp_Pods r" "\<not> scp_Complete (scopeFail r c m x)"
  by (simp_all add: scopeFail_def)

lemma addReplicaSet_owned:
  "addReplicaSet d sel (r, owned) m =
     (if ownedReplicaSet d sel m then (r\<lparr>scp_ReplicaSets := scp_ReplicaSets r @ [rsRef m]\<rparr>, insert (om_UID m) owned)
      else (fst (addReplicaSet d sel (r, owned) m), owned))"
  by (auto simp: addReplicaSet_def ownedReplicaSet_def controllerOwnerMatches_def rsRef_def Let_def
      split: option.splits)

lemma addReplicaSet_other:
  assumes "\<not> ownedReplicaSet d sel m"
  shows "scp_ReplicaSets (fst (addReplicaSet d sel (r, owned) m)) = scp_ReplicaSets r"
    "scp_Pods (fst (addReplicaSet d sel (r, owned) m)) = scp_Pods r"
    "scp_Deployment (fst (addReplicaSet d sel (r, owned) m)) = scp_Deployment r"
    "scp_Complete (fst (addReplicaSet d sel (r, owned) m)) = scp_Complete r"
  using assms
  by (auto simp: addReplicaSet_def ownedReplicaSet_def controllerOwnerMatches_def Let_def split: option.splits)

lemma foldl_addReplicaSet:
  "\<exists>r'. foldl (addReplicaSet d sel) (r, owned) ms = (r', owned \<union> om_UID ` {m \<in> set ms. ownedReplicaSet d sel m}) \<and>
     scp_ReplicaSets r' = scp_ReplicaSets r @ map rsRef (filter (ownedReplicaSet d sel) ms) \<and>
     scp_Pods r' = scp_Pods r \<and> scp_Deployment r' = scp_Deployment r \<and> scp_Complete r' = scp_Complete r"
proof (induction ms arbitrary: r owned)
  case (Cons m ms)
  show ?case
  proof (cases "ownedReplicaSet d sel m")
    case True
    then have step: "addReplicaSet d sel (r, owned) m =
        (r\<lparr>scp_ReplicaSets := scp_ReplicaSets r @ [rsRef m]\<rparr>, insert (om_UID m) owned)"
      by (simp add: addReplicaSet_owned)
    have "{x \<in> set (m # ms). ownedReplicaSet d sel x} = insert m {x \<in> set ms. ownedReplicaSet d sel x}"
      using True by auto
    then show ?thesis
      using Cons [of "r\<lparr>scp_ReplicaSets := scp_ReplicaSets r @ [rsRef m]\<rparr>" "insert (om_UID m) owned"] True
      by (simp add: step)
  next
    case False
    obtain r1 where step: "addReplicaSet d sel (r, owned) m = (r1, owned)"
      using False addReplicaSet_owned [of d sel r owned m] by simp
    have "{x \<in> set (m # ms). ownedReplicaSet d sel x} = {x \<in> set ms. ownedReplicaSet d sel x}"
      using False by auto
    then show ?thesis
      using Cons [of r1 owned] addReplicaSet_other [OF False, of r owned] False by (simp add: step)
  qed
qed simp

lemma foldl_addPod:
  "scp_Pods (foldl (addPod (om_UID ` R)) r ms) = scp_Pods r @ map podRef (filter (ownedPod R) ms) \<and>
   scp_ReplicaSets (foldl (addPod (om_UID ` R)) r ms) = scp_ReplicaSets r \<and>
   scp_Deployment (foldl (addPod (om_UID ` R)) r ms) = scp_Deployment r \<and>
   scp_Complete (foldl (addPod (om_UID ` R)) r ms) = scp_Complete r"
proof (induction ms arbitrary: r)
  case (Cons m ms)
  have "addPod (om_UID ` R) r m = r\<lparr>scp_Pods := scp_Pods r @ [podRef m]\<rparr>" if "ownedPod R m"
    using that by (auto simp: addPod_def ownedPod_def podRef_def Let_def)
  moreover have "scp_Pods (addPod (om_UID ` R) r m) = scp_Pods r \<and>
      scp_ReplicaSets (addPod (om_UID ` R) r m) = scp_ReplicaSets r \<and>
      scp_Deployment (addPod (om_UID ` R) r m) = scp_Deployment r \<and>
      scp_Complete (addPod (om_UID ` R) r m) = scp_Complete r" if "\<not> ownedPod R m"
    using that by (auto simp: addPod_def ownedPod_def Let_def split: option.splits)
  ultimately show ?case using Cons by (cases "ownedPod R m") auto
qed simp

lemma cutItems_eq:
  assumes "0 \<le> limit"
  shows "snd (cutItems code kind limit r (items, cont)) = take (nat limit) items"
    and "scp_Complete (fst (cutItems code kind limit r (items, cont))) \<longleftrightarrow>
      scp_Complete r \<and> int (length items) \<le> limit \<and> cont = []"
    and "scp_Deployment (fst (cutItems code kind limit r (items, cont))) = scp_Deployment r"
    and "scp_ReplicaSets (fst (cutItems code kind limit r (items, cont))) = scp_ReplicaSets r"
    and "scp_Pods (fst (cutItems code kind limit r (items, cont))) = scp_Pods r"
  using assms by (auto simp: cutItems_def min_def nat_le_iff)

lemma normalizedLimits_pos:
  "0 < lim_MaxReplicaSets (normalizedLimits l)" "0 < lim_MaxPods (normalizedLimits l)"
  by (simp_all add: normalizedLimits_def)

lemma resolveOwned_result:
  assumes "resolveOwned reader (normalizedLimits l) ns name d selector r0 = (r, None)"
    and "scp_Complete r0" "scp_ReplicaSets r0 = []" "scp_Pods r0 = []"
  obtains rss c1 ps c2 where
    "srd_ListReplicaSets reader ns selector (lim_MaxReplicaSets (normalizedLimits l) + 1) = Inr (rss, c1)"
    "srd_ListPods reader ns selector (lim_MaxPods (normalizedLimits l) + 1) = Inr (ps, c2)"
    "scp_Deployment r = scp_Deployment r0"
    "scp_ReplicaSets r = sortResourceRefs (map rsRef (filter (ownedReplicaSet d selector)
       (take (nat (lim_MaxReplicaSets (normalizedLimits l))) rss)))"
    "scp_Pods r = sortResourceRefs (map podRef (filter (ownedPod {m \<in> set (take (nat (lim_MaxReplicaSets
       (normalizedLimits l))) rss). ownedReplicaSet d selector m}) (take (nat (lim_MaxPods (normalizedLimits l))) ps)))"
    "scp_Complete r \<longleftrightarrow> int (length rss) \<le> lim_MaxReplicaSets (normalizedLimits l) \<and> c1 = [] \<and>
       int (length ps) \<le> lim_MaxPods (normalizedLimits l) \<and> c2 = []"
proof -
  let ?L = "normalizedLimits l"
  note cut = cutItems_eq [OF less_imp_le]
  obtain rss c1 where rs: "srd_ListReplicaSets reader ns selector (lim_MaxReplicaSets ?L + 1) = Inr (rss, c1)"
    using assms(1) by (auto simp: resolveOwned_def split: sum.splits)
  let ?rss = "take (nat (lim_MaxReplicaSets ?L)) rss"
  let ?R = "{m \<in> set ?rss. ownedReplicaSet d selector m}"
  obtain r1 where r1: "cutItems ''ReplicaSetLimitExceeded'' ''ReplicaSet'' (lim_MaxReplicaSets ?L) r0 (rss, c1) = (r1, ?rss)"
    using cut(1) [OF normalizedLimits_pos(1)] by (metis prod.collapse)
  have r1': "scp_Complete r1 \<longleftrightarrow> int (length rss) \<le> lim_MaxReplicaSets ?L \<and> c1 = []"
    "scp_Deployment r1 = scp_Deployment r0" "scp_ReplicaSets r1 = []" "scp_Pods r1 = []"
    using cut(2-5) [OF normalizedLimits_pos(1), of "''ReplicaSetLimitExceeded''" "''ReplicaSet''" l r0 rss c1] assms(2-4) r1
    by simp_all
  obtain r2 where r2: "foldl (addReplicaSet d selector) (r1, {}) ?rss = (r2, om_UID ` ?R)"
    "scp_ReplicaSets r2 = map rsRef (filter (ownedReplicaSet d selector) ?rss)" "scp_Pods r2 = []"
    "scp_Deployment r2 = scp_Deployment r0" "scp_Complete r2 = scp_Complete r1"
    using foldl_addReplicaSet [of d selector r1 "{}" ?rss] r1' by auto
  have pods: "resolvePods reader ?L ns name selector (r2, om_UID ` ?R) = (r, None)"
    using assms(1) by (simp add: resolveOwned_def rs r1 r2(1))
  then obtain ps c2 where ps: "srd_ListPods reader ns selector (lim_MaxPods ?L + 1) = Inr (ps, c2)"
    by (auto simp: resolvePods_def split: sum.splits)
  let ?ps = "take (nat (lim_MaxPods ?L)) ps"
  obtain r3 where r3: "cutItems ''PodLimitExceeded'' ''Pod'' (lim_MaxPods ?L) r2 (ps, c2) = (r3, ?ps)"
    using cut(1) [OF normalizedLimits_pos(2)] by (metis prod.collapse)
  have r3': "scp_Complete r3 \<longleftrightarrow> scp_Complete r1 \<and> int (length ps) \<le> lim_MaxPods ?L \<and> c2 = []"
    "scp_Deployment r3 = scp_Deployment r0" "scp_ReplicaSets r3 = scp_ReplicaSets r2" "scp_Pods r3 = []"
    using cut(2-5) [OF normalizedLimits_pos(2), of "''PodLimitExceeded''" "''Pod''" l r2 ps c2] r2 r3 by simp_all
  have r: "r = (foldl (addPod (om_UID ` ?R)) r3 ?ps)\<lparr>
      scp_ReplicaSets := sortResourceRefs (scp_ReplicaSets (foldl (addPod (om_UID ` ?R)) r3 ?ps)),
      scp_Pods := sortResourceRefs (scp_Pods (foldl (addPod (om_UID ` ?R)) r3 ?ps))\<rparr>"
    using pods by (simp add: resolvePods_def ps r3 Let_def)
  show ?thesis
    using foldl_addPod [of ?R r3 ?ps] r1' r2 r3' by (intro that [OF rs ps]) (simp_all add: r)
qed

lemma ResolveDeployment_success:
  assumes "ResolveDeployment sel (Some (NewResolver (Some reader) l)) ns name = (r, None)"
  obtains d ls selector where "srd_GetDeployment reader (ns, name) = Inr d" "om_Namespace (sdp_Meta d) = ns"
    "sdp_Selector d = Some ls" "sel ls = Inr selector"
    "resolveOwned reader (normalizedLimits l) ns name (sdp_Meta d) selector
       (emptyScopeResult\<lparr>scp_Complete := True, scp_Deployment := resourceRef (sdp_Meta d) ''apps/v1'' ''Deployment''\<rparr>) =
       (r, None)"
  using assms
  by (auto simp: ResolveDeployment_def NewResolver_def Let_def split: if_splits sum.splits option.splits)

interpretation scopeRefs: precedence scopeRefLess
  by unfold_locales (auto simp: scopeRefLess_def split: if_splits)

lemma set_sortResourceRefs [simp]: "set (sortResourceRefs xs) = set xs"
  by (simp add: sortResourceRefs_def)

lemma length_sortResourceRefs [simp]: "length (sortResourceRefs xs) = length xs"
  by (simp add: sortResourceRefs_def)

lemma length_filter_take: "length (filter P (take n xs)) \<le> n"
  by (rule order_trans [OF length_filter_le]) simp

text \<open>C28: a resolution that succeeds returns exactly the validated ownership chain of what the API server
  listed: the first listed ReplicaSets within the limit that the Deployment controls (by name and UID) and
  selects, and the first listed Pods within the limit whose controller is one of those ReplicaSets, each
  sorted; and the result is complete exactly when neither list was longer than its limit or continued.\<close>

theorem scope_refines_ownership:
  assumes "ResolveDeployment sel (Some (NewResolver (Some reader) l)) ns name = (r, None)"
  shows "\<exists>d ls selector rss c1 ps c2.
    srd_GetDeployment reader (ns, name) = Inr d \<and> om_Namespace (sdp_Meta d) = ns \<and>
    sdp_Selector d = Some ls \<and> sel ls = Inr selector \<and>
    srd_ListReplicaSets reader ns selector (lim_MaxReplicaSets (normalizedLimits l) + 1) = Inr (rss, c1) \<and>
    srd_ListPods reader ns selector (lim_MaxPods (normalizedLimits l) + 1) = Inr (ps, c2) \<and>
    (let rss' = filter (ownedReplicaSet (sdp_Meta d) selector) (take (nat (lim_MaxReplicaSets (normalizedLimits l))) rss);
         ps' = filter (ownedPod (set rss')) (take (nat (lim_MaxPods (normalizedLimits l))) ps) in
     scp_Deployment r = resourceRef (sdp_Meta d) ''apps/v1'' ''Deployment'' \<and>
     scp_ReplicaSets r = sortResourceRefs (map rsRef rss') \<and> scp_Pods r = sortResourceRefs (map podRef ps') \<and>
     (scp_Complete r \<longleftrightarrow> int (length rss) \<le> lim_MaxReplicaSets (normalizedLimits l) \<and> c1 = [] \<and>
       int (length ps) \<le> lim_MaxPods (normalizedLimits l) \<and> c2 = []))"
proof -
  obtain d ls selector where d: "srd_GetDeployment reader (ns, name) = Inr d" "om_Namespace (sdp_Meta d) = ns"
    "sdp_Selector d = Some ls" "sel ls = Inr selector" and
    owned: "resolveOwned reader (normalizedLimits l) ns name (sdp_Meta d) selector
       (emptyScopeResult\<lparr>scp_Complete := True, scp_Deployment := resourceRef (sdp_Meta d) ''apps/v1'' ''Deployment''\<rparr>) =
       (r, None)"
    using ResolveDeployment_success [OF assms] by blast
  show ?thesis
    by (rule resolveOwned_result [OF owned])
      (use d in \<open>auto simp: emptyScopeResult_def Let_def\<close>)
qed

definition exampleReader :: scope_reader where
  "exampleReader = \<lparr>
     srd_GetDeployment = (\<lambda>_. Inr \<lparr>sdp_Meta = emptyMeta\<lparr>om_Name := ''web'', om_Namespace := ''prod'', om_UID := ''d1''\<rparr>,
        sdp_Selector = Some \<lparr>ls_MatchLabels = [], ls_MatchExpressions = []\<rparr>\<rparr>),
     srd_ListReplicaSets = (\<lambda>_ _ _. Inr ([emptyMeta\<lparr>om_Name := ''web-1'', om_Namespace := ''prod'', om_UID := ''r1'',
        om_OwnerReferences := [\<lparr>or_Kind = ''Deployment'', or_Name = ''web'', or_UID = ''d1'', or_Controller = Some True\<rparr>]\<rparr>,
        emptyMeta\<lparr>om_Name := ''old-1'', om_Namespace := ''prod'', om_UID := ''r0'',
        om_OwnerReferences := [\<lparr>or_Kind = ''Deployment'', or_Name = ''web'', or_UID = ''d0'', or_Controller = Some True\<rparr>]\<rparr>], [])),
     srd_ListPods = (\<lambda>_ _ _. Inr ([emptyMeta\<lparr>om_Name := ''web-1-b'', om_Namespace := ''prod'', om_UID := ''p2'',
        om_OwnerReferences := [\<lparr>or_Kind = ''ReplicaSet'', or_Name = ''web-1'', or_UID = ''r1'', or_Controller = Some True\<rparr>]\<rparr>,
        emptyMeta\<lparr>om_Name := ''old-1-a'', om_Namespace := ''prod'', om_UID := ''p0'',
        om_OwnerReferences := [\<lparr>or_Kind = ''ReplicaSet'', or_Name = ''old-1'', or_UID = ''r0'', or_Controller = Some True\<rparr>]\<rparr>], []))\<rparr>"

abbreviation everyLabel :: selector_fn where "everyLabel \<equiv> (\<lambda>_. Inr (\<lambda>_. True))"

definition exampleScope :: ScopeResult where
  "exampleScope = fst (ResolveDeployment everyLabel
     (Some (NewResolver (Some exampleReader) \<lparr>lim_MaxReplicaSets = 0, lim_MaxPods = 0\<rparr>)) ''prod'' ''web'')"

lemma exampleScope_ok:
  "ResolveDeployment everyLabel (Some (NewResolver (Some exampleReader) \<lparr>lim_MaxReplicaSets = 0, lim_MaxPods = 0\<rparr>))
     ''prod'' ''web'' = (exampleScope, None)"
  "map srf_UID (scp_Pods exampleScope) = [''p2'']" "scp_Complete exampleScope"
  by code_simp+

theorem scope_refines_ownership_witness:
  "\<exists>rss ps :: ObjectMeta list. scp_ReplicaSets exampleScope = sortResourceRefs (map rsRef rss) \<and>
     scp_Pods exampleScope = sortResourceRefs (map podRef ps) \<and> list_all (ownedPod (set rss)) ps \<and>
     map srf_UID (scp_Pods exampleScope) = [''p2'']"
proof -
  obtain Q rss ps where "scp_ReplicaSets exampleScope = sortResourceRefs (map rsRef (filter Q rss))"
    "scp_Pods exampleScope = sortResourceRefs (map podRef (filter (ownedPod (set (filter Q rss))) ps))"
    using scope_refines_ownership [OF exampleScope_ok(1)] unfolding Let_def by blast
  then show ?thesis using exampleScope_ok(2)
    by (intro exI [of _ "filter Q rss"] exI [of _ "filter (ownedPod (set (filter Q rss))) ps"])
      (simp add: list_all_iff)
qed



text \<open> a Deployment read that fails with any error but not-found is returned with \<^verbatim>\<open>Complete\<close> set and no
  warning, although nothing was resolved; so is the call without a reader.  Every other failure of a
  resolution marks the result incomplete.\<close>

theorem scope_failure_completeness:
  assumes "ResolveDeployment sel resolver ns name = (r, Some e)"
  shows "scp_Complete r \<longleftrightarrow> Option.bind resolver rsv_reader = None \<or>
    (ns \<noteq> [] \<and> name \<noteq> [] \<and> (\<exists>reader e'. Option.bind resolver rsv_reader = Some reader \<and>
       srd_GetDeployment reader (ns, name) = Inl e' \<and> \<not> IsNotFound e'))"
proof -
  have pods: "\<not> scp_Complete r'" if "resolvePods reader lm n m s acc = (r', Some e')" for reader lm n m s acc r' e'
    using that by (auto simp: resolvePods_def Let_def split: sum.splits prod.splits)
  have owned: "\<not> scp_Complete r'" if "resolveOwned reader lm n m d s r0 = (r', Some e')" for reader lm n m d s r0 r' e'
    using that by (auto simp: resolveOwned_def Let_def split: sum.splits prod.splits dest: pods)
  show ?thesis
  proof (cases "Option.bind resolver rsv_reader")
    case None
    then show ?thesis using assms by (auto simp: ResolveDeployment_def Let_def)
  next
    case (Some reader)
    then show ?thesis
      using assms by (auto simp: ResolveDeployment_def Let_def split: if_splits sum.splits option.splits dest!: owned)
  qed
qed

theorem scope_failure_completeness_witness:
  "let reader = exampleReader\<lparr>srd_GetDeployment := (\<lambda>_. Inl (Errorf ''forbidden''))\<rparr>;
       res = Some \<lparr>rsv_reader = Some reader, rsv_limits = \<lparr>lim_MaxReplicaSets = 20, lim_MaxPods = 100\<rparr>\<rparr>;
       (r, e) = ResolveDeployment everyLabel res ''prod'' ''web'' in
   scp_Complete r \<and> scp_Warnings r = [] \<and> e = Some (Errorf ''get Deployment prod/web: forbidden'')"
proof -
  let ?reader = "exampleReader\<lparr>srd_GetDeployment := (\<lambda>_. Inl (Errorf ''forbidden''))\<rparr>"
  let ?res = "Some \<lparr>rsv_reader = Some ?reader, rsv_limits = \<lparr>lim_MaxReplicaSets = 20, lim_MaxPods = 100\<rparr>\<rparr>"
  have eq: "ResolveDeployment everyLabel ?res ''prod'' ''web'' =
      (emptyScopeResult\<lparr>scp_Complete := True\<rparr>, Some (Errorf ''get Deployment prod/web: forbidden''))"
    by (simp add: ResolveDeployment_def IsNotFound_def Errorf_def wrapErr_def)
  have "scp_Complete (emptyScopeResult\<lparr>scp_Complete := True\<rparr>)"
    using scope_failure_completeness [OF eq] by (simp add: IsNotFound_def Errorf_def)
  then show ?thesis using eq by (simp add: emptyScopeResult_def)
qed

end
