(* ===== verification/Diagnostics.thy ===== *)
theory Diagnostics
  imports DomainTypes Scope
begin

text \<open>
  The deterministic diagnostics of \<^verbatim>\<open>internal/diagnostic\<close>: image pull (\<^verbatim>\<open>imagepull.go\<close>), scheduling
  (\<^verbatim>\<open>scheduling.go\<close>) and service port (\<^verbatim>\<open>serviceport.go\<close>), and the planner that registers and runs them
  (\<^verbatim>\<open>planner.go\<close>).  The interface \<^verbatim>\<open>Diagnostic\<close> is a record of functions, and what its implementations
  promise is the locale \<open>diagnostic_contract\<close>, interpreted for the three of them.
\<close>

abbreviation StatusSupported :: string where "StatusSupported \<equiv> ''Supported''"
abbreviation StatusInconclusive :: string where "StatusInconclusive \<equiv> ''Inconclusive''"
abbreviation StatusNotApplicable :: string where "StatusNotApplicable \<equiv> ''NotApplicable''"

record EvidenceSet =
  evs_Observations :: "Observation list"
  evs_EvidenceRefs :: "EvidenceRef list"
  evs_Scheduling :: "SchedulingObservation list"
  evs_Scope :: ScopeResult
  evs_IncidentStart :: gotime
  evs_IncidentEnd :: gotime

record Diagnostic =
  dg_ID :: string
  dg_Version :: string
  dg_Match :: "EvidenceSet \<Rightarrow> MatchResult"
  dg_Requirements :: "EvidenceSet \<Rightarrow> Requirement list"
  dg_Evaluate :: "EvidenceSet \<Rightarrow> DiagnosticResult"

definition containsAnyTerm :: "string \<Rightarrow> string list \<Rightarrow> bool" where
  "containsAnyTerm text terms \<longleftrightarrow> list_ex (Contains text) terms"

text \<open>The keys of a Go map used as a set, sorted.\<close>

definition sortedKeyList :: "string list \<Rightarrow> string list" where
  "sortedKeyList keys = sort (remdups keys)"

definition newResult :: "string \<Rightarrow> DiagnosticResult" where
  "newResult diagnosticID = \<lparr>dgr_DiagnosticID = diagnosticID, dgr_DiagnosticVersion = ''v1'', dgr_Status = StatusInconclusive,
     dgr_Summary = [], dgr_Claims = [], dgr_MissingRequirements = [], dgr_Warnings = []\<rparr>"

subsection \<open>Image pull\<close>

definition eventReason :: "Observation \<Rightarrow> string" where
  "eventReason o' = (case obv_Event (obs_Value o') of None \<Rightarrow> [] | Some e \<Rightarrow> eob_Reason e)"

definition eventMessage :: "Observation \<Rightarrow> string" where
  "eventMessage o' = (case obv_Event (obs_Value o') of None \<Rightarrow> [] | Some e \<Rightarrow> eob_Message e)"

definition isImagePullReason :: "string \<Rightarrow> bool" where
  "isImagePullReason reason \<longleftrightarrow> ToLower (TrimSpace reason) \<in> {''errimagepull'', ''imagepullbackoff''}"

definition isImagePullEvidence :: "string \<Rightarrow> string \<Rightarrow> bool" where
  "isImagePullEvidence reason summary \<longleftrightarrow> isImagePullReason reason \<or>
     containsAnyTerm (ToLower (TrimSpace (reason @ '' '' @ summary)))
       [''errimagepull'', ''imagepullbackoff'', ''failed to pull image'', ''pull access denied'',
        ''failed to resolve reference'', ''image pull failed'']"

definition imagePullObservation :: "Observation \<Rightarrow> bool" where
  "imagePullObservation o' \<longleftrightarrow> obs_Type o' = ''event'' \<and>
     isImagePullEvidence (eventReason o') (eventMessage o' @ '' '' @ obs_Summary o') \<and> obs_ID o' \<noteq> []"

definition imagePullRef :: "EvidenceRef \<Rightarrow> bool" where
  "imagePullRef ref \<longleftrightarrow> EqualFold (TrimSpace (ev_Kind ref)) ''event'' \<and>
     isImagePullEvidence (ev_Reason ref) (ev_Summary ref) \<and> ev_ID ref \<noteq> []"

definition imagePullEvidenceIDs :: "EvidenceSet \<Rightarrow> string list" where
  "imagePullEvidenceIDs evidence =
     sortedKeyList (map obs_ID (filter imagePullObservation (evs_Observations evidence)) @
       map ev_ID (filter imagePullRef (evs_EvidenceRefs evidence)))"

definition imagePullTargetUID :: "EvidenceSet \<Rightarrow> string" where
  "imagePullTargetUID evidence =
     (if \<not> scp_Complete (evs_Scope evidence) \<or> length (scp_Pods (evs_Scope evidence)) \<noteq> 1 then []
      else TrimSpace (srf_UID (hd (scp_Pods (evs_Scope evidence)))))"

definition imagePullDetailKinds :: "string \<Rightarrow> string \<Rightarrow> string list" where
  "imagePullDetailKinds summary reason =
     (let text = ToLower (TrimSpace (summary @ '' '' @ reason)) in
      if containsAnyTerm text [''manifest unknown'', ''image not found'', ''not found'', ''repository does not exist'']
      then [''manifest-missing'']
      else if containsAnyTerm text [''unauthorized'', ''authentication required'', ''pull access denied'', ''denied'']
      then [''registry-auth'']
      else if containsAnyTerm text [''no such host'', ''name resolution'', ''dns'', ''timeout'', ''connection refused'',
         ''network is unreachable'']
      then [''registry-network''] else [])"

definition imagePullCauseStatement :: "string \<Rightarrow> string" where
  "imagePullCauseStatement kind =
     (if kind = ''manifest-missing'' then ''The registry reported that the requested image manifest could not be found.''
      else if kind = ''registry-auth'' then ''The registry rejected access to the requested image.''
      else if kind = ''registry-network'' then ''Image retrieval encountered a registry or name-resolution failure.''
      else ''The image-pull failure has a specific provider detail.'')"

definition imagePullRequirements :: "Requirement list" where
  "imagePullRequirements =
     [\<lparr>rqm_ID = ''image-pull-event'', rqm_Capability = ''event'',
       rqm_Description = ''a target-scoped image-pull failure Event (for example ErrImagePull or ImagePullBackOff)'',
       rqm_Required = True\<rparr>,
      \<lparr>rqm_ID = ''image-pull-cause-detail'', rqm_Capability = ''event'',
       rqm_Description = ''untruncated Event detail for a specific image-pull failure mechanism'', rqm_Required = False\<rparr>]"

definition imagePullMatch :: "EvidenceSet \<Rightarrow> MatchResult" where
  "imagePullMatch evidence =
     (let scope = evs_Scope evidence in
      if srf_UID (scp_Deployment scope) \<noteq> [] \<and> scp_Complete scope \<and> scp_Pods scope = [] then
        \<lparr>mtr_Applicable = False, mtr_Reason = ''validated Deployment scope has no Pods''\<rparr>
      else if imagePullEvidenceIDs evidence = [] then
        \<lparr>mtr_Applicable = False, mtr_Reason = ''no image-pull failure evidence''\<rparr>
      else \<lparr>mtr_Applicable = True, mtr_Reason = ''image-pull evidence is present''\<rparr>)"

text \<open>The kinds of detail and the truncation of the evidence behind the identifiers.\<close>

definition imagePullDetails :: "EvidenceSet \<Rightarrow> string list \<Rightarrow> string list" where
  "imagePullDetails evidence ids =
     concat (map (\<lambda>o'. imagePullDetailKinds (eventMessage o' @ '' '' @ obs_Summary o') (eventReason o'))
       (filter (\<lambda>o'. obs_ID o' \<in> set ids) (evs_Observations evidence))) @
     concat (map (\<lambda>r. imagePullDetailKinds (ev_Summary r) (ev_Reason r))
       (filter (\<lambda>r. ev_ID r \<in> set ids) (evs_EvidenceRefs evidence)))"

definition imagePullTruncated :: "EvidenceSet \<Rightarrow> string list \<Rightarrow> bool" where
  "imagePullTruncated evidence ids \<longleftrightarrow>
     list_ex (\<lambda>o'. obs_ID o' \<in> set ids \<and> obs_Truncated o') (evs_Observations evidence) \<or>
     list_ex (\<lambda>r. ev_ID r \<in> set ids \<and> ev_Truncated r) (evs_EvidenceRefs evidence)"

definition imagePullEvaluate :: "EvidenceSet \<Rightarrow> DiagnosticResult" where
  "imagePullEvaluate evidence =
     (let result = newResult ''image-pull''; ids = imagePullEvidenceIDs evidence in
      if ids = [] then
        result\<lparr>dgr_Status := StatusNotApplicable,
          dgr_Summary := ''ImagePullDiagnostic did not find target-scoped image-pull failure evidence.'',
          dgr_MissingRequirements := [imagePullRequirements ! 0]\<rparr>
      else
        let targetUID = imagePullTargetUID evidence;
            claims = [\<lparr>cc_ID = ''image-pull-observed'', cc_Type = ClaimObservation,
                 cc_Statement = ''A target container is waiting because Kubernetes reported an image-pull failure.'',
                 cc_TargetUID = targetUID, cc_EvidenceRefs = ids\<rparr>,
               \<lparr>cc_ID = ''image-pull-failure'', cc_Type = ClaimFailureMechanism,
                 cc_Statement = ''The target container could not retrieve its configured image.'',
                 cc_TargetUID = targetUID, cc_EvidenceRefs = ids\<rparr>];
            detailKinds = imagePullDetails evidence ids;
            truncated = imagePullTruncated evidence ids;
            result = (if truncated then
                result\<lparr>dgr_Status := StatusInconclusive,
                  dgr_Warnings := [''image-pull evidence was truncated; specific failure verification is incomplete''],
                  dgr_MissingRequirements := [imagePullRequirements ! 1]\<rparr>
              else result);
            result = (if detailKinds = [] then
                result\<lparr>dgr_MissingRequirements := dgr_MissingRequirements result @ [imagePullRequirements ! 1],
                  dgr_Warnings := dgr_Warnings result @ [''the image-pull event does not contain a specific failure detail'']\<rparr>
              else result);
            causes = (if detailKinds \<noteq> [] \<and> \<not> truncated then
                map (\<lambda>kind. \<lparr>cc_ID = ''image-pull-cause-'' @ kind, cc_Type = ClaimRootCause,
                  cc_Statement = imagePullCauseStatement kind, cc_TargetUID = targetUID, cc_EvidenceRefs = ids\<rparr>)
                  (sortedKeyList detailKinds)
              else []);
            status = (if truncated then dgr_Status result else StatusSupported) in
        result\<lparr>dgr_Claims := claims @ causes, dgr_Status := status,
          dgr_Summary := ''Image-pull failure evidence matched '' @ itoa (int (length ids)) @
            '' bounded observation(s); causal verification remains separate.''\<rparr>)"

definition ImagePullDiagnostic :: Diagnostic where
  "ImagePullDiagnostic = \<lparr>dg_ID = ''image-pull'', dg_Version = ''v1'', dg_Match = imagePullMatch,
     dg_Requirements = (\<lambda>_. imagePullRequirements), dg_Evaluate = imagePullEvaluate\<rparr>"

subsection \<open>Scheduling\<close>

definition firstNonEmptyScheduling :: "string list \<Rightarrow> string" where
  "firstNonEmptyScheduling values =
     (case find (\<lambda>v. TrimSpace v \<noteq> []) values of Some v \<Rightarrow> TrimSpace v | None \<Rightarrow> ''unknown'')"

definition schedulingRequirements :: "Requirement list" where
  "schedulingRequirements =
     [\<lparr>rqm_ID = ''scheduling-pod-state'', rqm_Capability = [],
       rqm_Description = ''target-scoped Pod scheduling state with a Pod UID'', rqm_Required = True\<rparr>,
      \<lparr>rqm_ID = ''scheduling-failure-evidence'', rqm_Capability = ''event'',
       rqm_Description = ''correlated PodScheduled or FailedScheduling evidence'', rqm_Required = False\<rparr>]"

definition schedulingMatch :: "EvidenceSet \<Rightarrow> MatchResult" where
  "schedulingMatch evidence =
     (if evs_Scheduling evidence = [] then \<lparr>mtr_Applicable = False, mtr_Reason = ''no normalized scheduling evidence''\<rparr>
      else \<lparr>mtr_Applicable = True, mtr_Reason = ''normalized scheduling evidence is present''\<rparr>)"

definition eventMatchesPod :: "SchedulingObservation \<Rightarrow> bool" where
  "eventMatchesPod o' \<longleftrightarrow>
     \<not> (TrimSpace (sob_EventReason o') = [] \<and> TrimSpace (sob_EventMessage o') = []) \<and>
     \<not> (sob_EventPodUID o' \<noteq> [] \<and> sob_EventPodUID o' \<noteq> sob_PodUID o') \<and>
     \<not> sob_Stale o' \<and> \<not> sob_Truncated o'"

definition schedulingEvidenceRefs :: "SchedulingObservation \<Rightarrow> string list" where
  "schedulingEvidenceRefs o' =
     (let refs = sob_EvidenceRefs o';
          refs = (if refs = [] \<and> sob_ID o' \<noteq> [] then [sob_ID o'] else refs) in
      sortedKeyList (filter (\<lambda>r. r \<noteq> []) (map TrimSpace refs)))"

definition schedulingClaim :: "string \<Rightarrow> string \<Rightarrow> string \<Rightarrow> string \<Rightarrow> string list \<Rightarrow> CandidateClaim" where
  "schedulingClaim prefix' type statement podUID refs =
     \<lparr>cc_ID = prefix' @ podUID, cc_Type = type, cc_Statement = statement, cc_TargetUID = podUID, cc_EvidenceRefs = refs\<rparr>"

definition schedulingCandidates :: "string \<Rightarrow> string \<Rightarrow> string list \<Rightarrow> CandidateClaim list" where
  "schedulingCandidates podUID text refs =
     (let text = ToLower text in
      (if containsAnyTerm text [''insufficient cpu'', ''insufficient vcpu''] then
         [schedulingClaim ''scheduling-cause-insufficient-cpu/'' ClaimRootCause
            ''The scheduler reported insufficient CPU for the Pod.'' podUID refs] else []) @
      (if containsAnyTerm text [''insufficient memory''] then
         [schedulingClaim ''scheduling-cause-insufficient-memory/'' ClaimRootCause
            ''The scheduler reported insufficient memory for the Pod.'' podUID refs] else []) @
      (if Contains text ''taint'' \<and> Contains text ''tolerat'' then
         [schedulingClaim ''scheduling-cause-taint-mismatch/'' ClaimRootCause
            ''The scheduler reported an untolerated Node taint for the Pod.'' podUID refs] else []) @
      (if containsAnyTerm text [''node selector'', ''node affinity'', ''affinity mismatch'', ''didn'' @ [CHR 0x27] @ ''t match node''] then
         [schedulingClaim ''scheduling-cause-node-affinity-mismatch/'' ClaimRootCause
            ''The scheduler reported a Node selector or affinity mismatch for the Pod.'' podUID refs] else []))"

record schedulingState =
  ss_Claims :: "CandidateClaim list"
  ss_claimKeys :: "string set"
  ss_Warnings :: "string list"
  ss_validState :: bool
  ss_observedFailure :: bool
  ss_observedGate :: bool
  ss_observedUnassigned :: bool
  ss_assignedPod :: bool

definition appendSchedulingClaim :: "schedulingState \<Rightarrow> CandidateClaim \<Rightarrow> schedulingState" where
  "appendSchedulingClaim st claim =
     (if cc_ID claim = [] \<or> cc_ID claim \<in> ss_claimKeys st then st
      else st\<lparr>ss_claimKeys := insert (cc_ID claim) (ss_claimKeys st), ss_Claims := ss_Claims st @ [claim]\<rparr>)"

definition addWarning :: "string \<Rightarrow> schedulingState \<Rightarrow> schedulingState" where
  "addWarning w st = st\<lparr>ss_Warnings := ss_Warnings st @ [w]\<rparr>"

definition stateCollected :: "SchedulingObservation \<Rightarrow> bool" where
  "stateCollected o' \<longleftrightarrow> sob_StateCollected o' \<or> sob_Coverage o' \<noteq> ''Truncated''"

definition eventText :: "SchedulingObservation \<Rightarrow> string" where
  "eventText o' = (if eventMatchesPod o' then ToLower (Join [sob_EventReason o', sob_EventMessage o'] '' '') else [])"

definition conditionText :: "SchedulingObservation \<Rightarrow> string" where
  "conditionText o' =
     ToLower (Join [sob_PodScheduledStatus o', sob_PodScheduledReason o', sob_PodScheduledMessage o'] '' '')"

definition unschedulable :: "SchedulingObservation \<Rightarrow> bool" where
  "unschedulable o' \<longleftrightarrow>
     (EqualFold (TrimSpace (sob_PodScheduledStatus o')) ''False'' \<and> containsAnyTerm (conditionText o') [''unschedulable'']) \<or>
     containsAnyTerm (eventText o') [''failedscheduling'', ''failed scheduling'']"

text \<open>The body of the loop over the observations.\<close>

definition schedulingStep :: "schedulingState \<Rightarrow> SchedulingObservation \<Rightarrow> schedulingState" where
  "schedulingStep st o' =
     (let podUID = TrimSpace (sob_PodUID o') in
      if podUID = [] then addWarning ''scheduling evidence is missing a Pod UID'' st
      else if sob_Stale o' then addWarning (''scheduling evidence for Pod UID '' @ quote podUID @ '' is stale'') st
      else if sob_Coverage o' \<in> {''Unauthorized'', ''Unavailable'', ''CollectionFailed''} then
        addWarning (''scheduling evidence for Pod UID '' @ quote podUID @ '' is unavailable: '' @
          firstNonEmptyScheduling [sob_CoverageReason o', sob_Coverage o']) st
      else if \<not> stateCollected o' then
        addWarning (''scheduling state for Pod UID '' @ quote podUID @ '' was not collected: '' @
          firstNonEmptyScheduling [sob_CoverageReason o', ''state unavailable'']) st
      else
        let st = st\<lparr>ss_validState := True\<rparr>;
            refs = schedulingEvidenceRefs o';
            st = (if TrimSpace (sob_NodeName o') = [] then
                appendSchedulingClaim (st\<lparr>ss_observedUnassigned := True\<rparr>)
                  (schedulingClaim ''scheduling-observation-unassigned/'' ClaimObservation
                    ''The Pod has not been assigned to a Node.'' podUID refs)
              else st\<lparr>ss_assignedPod := True\<rparr>) in
        if sob_Truncated o' then
          addWarning (''scheduling evidence for Pod UID '' @ quote podUID @ '' was truncated'') st
        else
          let st = (if sob_SchedulingGates o' \<noteq> [] then
                appendSchedulingClaim (st\<lparr>ss_observedGate := True\<rparr>)
                  (schedulingClaim ''scheduling-mechanism-gated/'' ClaimFailureMechanism
                    ''The Pod is blocked by an active scheduling gate.'' podUID refs)
              else st) in
          if \<not> unschedulable o' then st
          else
            let st = appendSchedulingClaim (st\<lparr>ss_observedFailure := True\<rparr>)
                (schedulingClaim ''scheduling-mechanism-unschedulable/'' ClaimFailureMechanism
                  ''The scheduler reported that the Pod could not be scheduled.'' podUID refs) in
            foldl appendSchedulingClaim st
              (schedulingCandidates podUID (eventText o' @ '' '' @ conditionText o') refs))"

definition claimPriority :: "string \<Rightarrow> nat" where
  "claimPriority t = (if t = ClaimObservation then 0 else if t = ClaimFailureMechanism then 1
     else if t = ClaimRootCause then 2 else 3)"

definition claimLess :: "CandidateClaim \<Rightarrow> CandidateClaim \<Rightarrow> bool" where
  "claimLess a b =
     (if claimPriority (cc_Type a) \<noteq> claimPriority (cc_Type b) then claimPriority (cc_Type a) < claimPriority (cc_Type b)
      else if cc_TargetUID a \<noteq> cc_TargetUID b then cc_TargetUID a < cc_TargetUID b
      else cc_ID a < cc_ID b)"

definition sortSchedulingClaims :: "CandidateClaim list \<Rightarrow> CandidateClaim list" where
  "sortSchedulingClaims = SliceStable claimLess"

definition schedulingStart :: schedulingState where
  "schedulingStart = \<lparr>ss_Claims = [], ss_claimKeys = {}, ss_Warnings = [], ss_validState = False,
     ss_observedFailure = False, ss_observedGate = False, ss_observedUnassigned = False, ss_assignedPod = False\<rparr>"

definition schedulingStatus :: "schedulingState \<Rightarrow> string" where
  "schedulingStatus st =
     (if ss_observedFailure st \<or> ss_observedGate st then StatusSupported
      else if \<not> ss_validState st \<or> ss_observedUnassigned st \<or> \<not> ss_assignedPod st then StatusInconclusive
      else StatusNotApplicable)"

definition schedulingEvaluate :: "EvidenceSet \<Rightarrow> DiagnosticResult" where
  "schedulingEvaluate evidence =
     (let result = newResult ''scheduling'' in
      if evs_Scheduling evidence = [] then
        result\<lparr>dgr_Status := StatusNotApplicable,
          dgr_Summary := ''SchedulingDiagnostic did not find normalized Pod scheduling evidence.'',
          dgr_MissingRequirements := [schedulingRequirements ! 0]\<rparr>
      else
        let st = foldl schedulingStep schedulingStart (evs_Scheduling evidence);
            status = schedulingStatus st;
            missing = (if status = StatusInconclusive then [schedulingRequirements ! 1] else []);
            warnings = (if \<not> ss_observedFailure st \<and> ss_observedUnassigned st \<and> \<not> ss_observedGate st then
                ss_Warnings st @ [''Pod is unassigned but no scheduling failure evidence was collected'']
              else ss_Warnings st) in
        result\<lparr>dgr_Status := status, dgr_MissingRequirements := missing, dgr_Warnings := sort warnings,
          dgr_Claims := sortSchedulingClaims (ss_Claims st),
          dgr_Summary := ''Scheduling evidence evaluated for '' @ itoa (int (length (evs_Scheduling evidence))) @
            '' normalized Pod record(s); causal verification remains separate.''\<rparr>)"

definition SchedulingDiagnostic :: Diagnostic where
  "SchedulingDiagnostic = \<lparr>dg_ID = ''scheduling'', dg_Version = ''v1'', dg_Match = schedulingMatch,
     dg_Requirements = (\<lambda>_. schedulingRequirements), dg_Evaluate = schedulingEvaluate\<rparr>"

subsection \<open>Service port\<close>

definition servicePortObservation :: "Observation \<Rightarrow> bool" where
  "servicePortObservation o' \<longleftrightarrow> obs_Type o' = ''serviceConfiguration'' \<and>
     (case obv_ServiceConfiguration (obs_Value o') of None \<Rightarrow> False | Some c \<Rightarrow> sco_MismatchConfirmed c) \<and>
     TrimSpace (obs_ID o') \<noteq> []"

definition servicePortRef :: "EvidenceRef \<Rightarrow> bool" where
  "servicePortRef ref \<longleftrightarrow> EqualFold (TrimSpace (ev_Kind ref)) ''serviceConfiguration'' \<and>
     EqualFold (TrimSpace (ev_Reason ref)) ''ServicePortMismatch'' \<and> TrimSpace (ev_ID ref) \<noteq> []"

definition servicePortEvidenceIDs :: "EvidenceSet \<Rightarrow> string list" where
  "servicePortEvidenceIDs evidence =
     sortedKeyList (map (\<lambda>o'. TrimSpace (obs_ID o')) (filter servicePortObservation (evs_Observations evidence)) @
       map (\<lambda>r. TrimSpace (ev_ID r)) (filter servicePortRef (evs_EvidenceRefs evidence)))"

definition servicePortTargetUID :: "EvidenceSet \<Rightarrow> string" where
  "servicePortTargetUID evidence =
     (if \<not> scp_Complete (evs_Scope evidence) \<or> length (scp_Pods (evs_Scope evidence)) \<noteq> 1 then []
      else TrimSpace (srf_UID (hd (scp_Pods (evs_Scope evidence)))))"

definition servicePortRequirements :: "Requirement list" where
  "servicePortRequirements =
     [\<lparr>rqm_ID = ''service-port-mismatch-evidence'', rqm_Capability = ''serviceConfiguration'',
       rqm_Description = ''confirmed Service targetPort and resolved workload/container port evidence'', rqm_Required = True\<rparr>]"

definition servicePortMatch :: "EvidenceSet \<Rightarrow> MatchResult" where
  "servicePortMatch evidence =
     (if servicePortEvidenceIDs evidence = [] then
        \<lparr>mtr_Applicable = False, mtr_Reason = ''no confirmed service-port mismatch evidence''\<rparr>
      else if servicePortTargetUID evidence = [] then
        \<lparr>mtr_Applicable = False, mtr_Reason = ''service-port evidence has no single validated Pod scope''\<rparr>
      else \<lparr>mtr_Applicable = True, mtr_Reason = ''service-port mismatch evidence is present''\<rparr>)"

definition servicePortEvaluate :: "EvidenceSet \<Rightarrow> DiagnosticResult" where
  "servicePortEvaluate evidence =
     (let result = newResult ''service-port''; ids = servicePortEvidenceIDs evidence;
          targetUID = servicePortTargetUID evidence in
      if ids = [] then
        result\<lparr>dgr_Status := StatusNotApplicable,
          dgr_Summary := ''ServicePortDiagnostic did not find confirmed service-port mismatch evidence.'',
          dgr_MissingRequirements := [servicePortRequirements ! 0]\<rparr>
      else if targetUID = [] then
        result\<lparr>dgr_Summary := ''Service-port mismatch evidence is not scoped to one validated Pod.'',
          dgr_Warnings := [''a shared service configuration cannot be assigned to one Pod without a validated single-Pod scope'']\<rparr>
      else
        result\<lparr>dgr_Claims := [\<lparr>cc_ID = ''service-port-mismatch'', cc_Type = ClaimRootCause,
            cc_Statement = ''ServicePortMismatch is confirmed by Kubernetes Service targetPort and resolved workload/container port evidence.'',
            cc_TargetUID = targetUID, cc_EvidenceRefs = ids\<rparr>],
          dgr_Status := StatusSupported,
          dgr_Summary := ''Service-port configuration evidence matched a bounded targetPort/container-port mismatch; final verification remains separate.''\<rparr>)"

definition ServicePortDiagnostic :: Diagnostic where
  "ServicePortDiagnostic = \<lparr>dg_ID = ''service-port'', dg_Version = ''v1'', dg_Match = servicePortMatch,
     dg_Requirements = (\<lambda>_. servicePortRequirements), dg_Evaluate = servicePortEvaluate\<rparr>"

subsection \<open>Planner\<close>

definition diagnosticKey :: "Diagnostic \<Rightarrow> string" where
  "diagnosticKey d = dg_ID d @ ''@'' @ dg_Version d"

text \<open>A nil diagnostic is \<open>None\<close>; of several with one key the first is kept.\<close>

fun registerDiagnostics :: "string set \<Rightarrow> Diagnostic option list \<Rightarrow> Diagnostic list" where
  "registerDiagnostics seen [] = []"
| "registerDiagnostics seen (None # ds) = registerDiagnostics seen ds"
| "registerDiagnostics seen (Some d # ds) =
     (if diagnosticKey d \<in> seen then registerDiagnostics seen ds
      else d # registerDiagnostics (insert (diagnosticKey d) seen) ds)"

definition diagnosticLess :: "Diagnostic \<Rightarrow> Diagnostic \<Rightarrow> bool" where
  "diagnosticLess a b = (if dg_ID a \<noteq> dg_ID b then dg_ID a < dg_ID b else dg_Version a < dg_Version b)"

definition NewPlanner :: "Diagnostic option list \<Rightarrow> Diagnostic list" where
  "NewPlanner diagnostics = SliceStable diagnosticLess (registerDiagnostics {} diagnostics)"

definition DefaultPlanner :: "Diagnostic list" where
  "DefaultPlanner = NewPlanner [Some ImagePullDiagnostic, Some SchedulingDiagnostic, Some ServicePortDiagnostic]"

definition Candidates :: "Diagnostic list option \<Rightarrow> EvidenceSet \<Rightarrow> Diagnostic list" where
  "Candidates p evidence =
     (case p of None \<Rightarrow> [] | Some ds \<Rightarrow> filter (\<lambda>d. mtr_Applicable (dg_Match d evidence)) ds)"

definition PlannerEvaluate :: "Diagnostic list option \<Rightarrow> EvidenceSet \<Rightarrow> DiagnosticResult list" where
  "PlannerEvaluate p evidence = map (\<lambda>d. dg_Evaluate d evidence) (Candidates p evidence)"

subsection \<open>What the scheduling loop computes\<close>

definition usableScheduling :: "SchedulingObservation \<Rightarrow> bool" where
  "usableScheduling o' \<longleftrightarrow> TrimSpace (sob_PodUID o') \<noteq> [] \<and> \<not> sob_Stale o' \<and>
     sob_Coverage o' \<notin> {''Unauthorized'', ''Unavailable'', ''CollectionFailed''} \<and> stateCollected o'"

definition reportsGate :: "SchedulingObservation \<Rightarrow> bool" where
  "reportsGate o' \<longleftrightarrow> usableScheduling o' \<and> \<not> sob_Truncated o' \<and> sob_SchedulingGates o' \<noteq> []"

definition reportsFailure :: "SchedulingObservation \<Rightarrow> bool" where
  "reportsFailure o' \<longleftrightarrow> usableScheduling o' \<and> \<not> sob_Truncated o' \<and> unschedulable o'"

definition reportsUnassigned :: "SchedulingObservation \<Rightarrow> bool" where
  "reportsUnassigned o' \<longleftrightarrow> usableScheduling o' \<and> TrimSpace (sob_NodeName o') = []"

text \<open>The claims that one observation gives rise to.\<close>

definition claimsOf :: "SchedulingObservation \<Rightarrow> CandidateClaim list" where
  "claimsOf o' =
     (let uid = TrimSpace (sob_PodUID o'); refs = schedulingEvidenceRefs o' in
      (if reportsUnassigned o' then [schedulingClaim ''scheduling-observation-unassigned/'' ClaimObservation
          ''The Pod has not been assigned to a Node.'' uid refs] else []) @
      (if reportsGate o' then [schedulingClaim ''scheduling-mechanism-gated/'' ClaimFailureMechanism
          ''The Pod is blocked by an active scheduling gate.'' uid refs] else []) @
      (if reportsFailure o' then schedulingClaim ''scheduling-mechanism-unschedulable/'' ClaimFailureMechanism
          ''The scheduler reported that the Pod could not be scheduled.'' uid refs #
          schedulingCandidates uid (eventText o' @ '' '' @ conditionText o') refs else []))"

definition addClaim :: "CandidateClaim list \<times> string set \<Rightarrow> CandidateClaim \<Rightarrow> CandidateClaim list \<times> string set" where
  "addClaim acc c = (case acc of (cs, keys) \<Rightarrow>
     if cc_ID c = [] \<or> cc_ID c \<in> keys then (cs, keys) else (cs @ [c], insert (cc_ID c) keys))"

lemma addClaim_pair: "addClaim (cs, keys) c =
    (if cc_ID c = [] \<or> cc_ID c \<in> keys then (cs, keys) else (cs @ [c], insert (cc_ID c) keys))"
  by (simp add: addClaim_def)

definition ss_acc :: "schedulingState \<Rightarrow> CandidateClaim list \<times> string set" where
  "ss_acc st = (ss_Claims st, ss_claimKeys st)"

lemma ss_acc_simps [simp]:
  "ss_acc (st\<lparr>ss_validState := b\<rparr>) = ss_acc st" "ss_acc (st\<lparr>ss_observedFailure := b\<rparr>) = ss_acc st"
  "ss_acc (st\<lparr>ss_observedGate := b\<rparr>) = ss_acc st" "ss_acc (st\<lparr>ss_observedUnassigned := b\<rparr>) = ss_acc st"
  "ss_acc (st\<lparr>ss_assignedPod := b\<rparr>) = ss_acc st" "ss_acc (addWarning w st) = ss_acc st"
  by (simp_all add: ss_acc_def addWarning_def)

lemma ss_acc_append [simp]: "ss_acc (appendSchedulingClaim st c) = addClaim (ss_acc st) c"
  by (simp add: ss_acc_def appendSchedulingClaim_def addClaim_def)

lemma ss_acc_foldl [simp]: "ss_acc (foldl appendSchedulingClaim st cs) = foldl addClaim (ss_acc st) cs"
  by (induction cs arbitrary: st) simp_all

lemma append_other [simp]:
  "ss_Warnings (appendSchedulingClaim st c) = ss_Warnings st"
  "ss_validState (appendSchedulingClaim st c) = ss_validState st"
  "ss_observedFailure (appendSchedulingClaim st c) = ss_observedFailure st"
  "ss_observedGate (appendSchedulingClaim st c) = ss_observedGate st"
  "ss_observedUnassigned (appendSchedulingClaim st c) = ss_observedUnassigned st"
  "ss_assignedPod (appendSchedulingClaim st c) = ss_assignedPod st"
  by (simp_all add: appendSchedulingClaim_def)

lemma foldl_append_other [simp]:
  "ss_Warnings (foldl appendSchedulingClaim st cs) = ss_Warnings st"
  "ss_validState (foldl appendSchedulingClaim st cs) = ss_validState st"
  "ss_observedFailure (foldl appendSchedulingClaim st cs) = ss_observedFailure st"
  "ss_observedGate (foldl appendSchedulingClaim st cs) = ss_observedGate st"
  "ss_observedUnassigned (foldl appendSchedulingClaim st cs) = ss_observedUnassigned st"
  "ss_assignedPod (foldl appendSchedulingClaim st cs) = ss_assignedPod st"
  by (induction cs arbitrary: st) simp_all

lemma schedulingStep_acc: "ss_acc (schedulingStep st o') = foldl addClaim (ss_acc st) (claimsOf o')"
  by (simp add: schedulingStep_def claimsOf_def reportsUnassigned_def reportsGate_def reportsFailure_def
      usableScheduling_def Let_def)

lemma foldl_schedulingStep_acc:
  "ss_acc (foldl schedulingStep st os) = foldl addClaim (ss_acc st) (concat (map claimsOf os))"
  by (induction os arbitrary: st) (simp_all add: schedulingStep_acc)

lemma foldl_addClaim_distinct:
  "foldl addClaim (cs0, cc_ID ` set cs0) cs = (cs', keys) \<Longrightarrow> distinct (map cc_ID cs0) \<Longrightarrow>
     distinct (map cc_ID cs') \<and> set cs' \<subseteq> set cs0 \<union> set cs"
proof (induction cs arbitrary: cs0)
  case (Cons c cs)
  show ?case
  proof (cases "cc_ID c = [] \<or> cc_ID c \<in> cc_ID ` set cs0")
    case True
    then have "foldl addClaim (cs0, cc_ID ` set cs0) cs = (cs', keys)" using Cons.prems by (simp add: addClaim_pair)
    then show ?thesis using Cons by auto
  next
    case False
    then have "foldl addClaim (cs0 @ [c], cc_ID ` set (cs0 @ [c])) cs = (cs', keys)"
      using Cons.prems by (simp add: addClaim_pair)
    from Cons.IH [OF this] show ?thesis using Cons.prems(2) False by auto
  qed
qed auto

lemma foldl_addClaim_all:
  "distinct (map cc_ID cs) \<Longrightarrow> [] \<notin> cc_ID ` set cs \<Longrightarrow> cc_ID ` set cs \<inter> keys = {} \<Longrightarrow>
     fst (foldl addClaim (cs0, keys) cs) = cs0 @ cs"
  by (induction cs arbitrary: cs0 keys) (auto simp: addClaim_pair)

lemma schedulingClaims_distinct:
  "distinct (map cc_ID (ss_Claims (foldl schedulingStep schedulingStart os)))"
  and schedulingClaims_from:
  "c \<in> set (ss_Claims (foldl schedulingStep schedulingStart os)) \<Longrightarrow> \<exists>o'\<in>set os. c \<in> set (claimsOf o')"
proof -
  have "ss_acc (foldl schedulingStep schedulingStart os) = foldl addClaim ([], cc_ID ` set ([] :: CandidateClaim list)) (concat (map claimsOf os))"
    by (simp add: foldl_schedulingStep_acc) (simp add: ss_acc_def schedulingStart_def)
  then obtain keys where "foldl addClaim ([], cc_ID ` set ([] :: CandidateClaim list)) (concat (map claimsOf os)) =
      (ss_Claims (foldl schedulingStep schedulingStart os), keys)"
    unfolding ss_acc_def by metis
  from foldl_addClaim_distinct [OF this]
  show "distinct (map cc_ID (ss_Claims (foldl schedulingStep schedulingStart os)))"
    "c \<in> set (ss_Claims (foldl schedulingStep schedulingStart os)) \<Longrightarrow> \<exists>o'\<in>set os. c \<in> set (claimsOf o')"
    by auto
qed

definition warningsOf :: "SchedulingObservation \<Rightarrow> string list" where
  "warningsOf o' = ss_Warnings (schedulingStep schedulingStart o')"

lemma schedulingStep_flags:
  "ss_validState (schedulingStep st o') \<longleftrightarrow> ss_validState st \<or> usableScheduling o'"
  "ss_observedFailure (schedulingStep st o') \<longleftrightarrow> ss_observedFailure st \<or> reportsFailure o'"
  "ss_observedGate (schedulingStep st o') \<longleftrightarrow> ss_observedGate st \<or> reportsGate o'"
  "ss_observedUnassigned (schedulingStep st o') \<longleftrightarrow> ss_observedUnassigned st \<or> reportsUnassigned o'"
  "ss_assignedPod (schedulingStep st o') \<longleftrightarrow> ss_assignedPod st \<or> usableScheduling o' \<and> TrimSpace (sob_NodeName o') \<noteq> []"
  "ss_Warnings (schedulingStep st o') = ss_Warnings st @ warningsOf o'"
  by (auto simp: schedulingStep_def warningsOf_def schedulingStart_def addWarning_def reportsUnassigned_def
      reportsGate_def reportsFailure_def usableScheduling_def Let_def)

lemma foldl_schedulingStep_flags:
  "ss_validState (foldl schedulingStep st os) \<longleftrightarrow> ss_validState st \<or> (\<exists>o'\<in>set os. usableScheduling o')"
  "ss_observedFailure (foldl schedulingStep st os) \<longleftrightarrow> ss_observedFailure st \<or> (\<exists>o'\<in>set os. reportsFailure o')"
  "ss_observedGate (foldl schedulingStep st os) \<longleftrightarrow> ss_observedGate st \<or> (\<exists>o'\<in>set os. reportsGate o')"
  "ss_observedUnassigned (foldl schedulingStep st os) \<longleftrightarrow> ss_observedUnassigned st \<or> (\<exists>o'\<in>set os. reportsUnassigned o')"
  "ss_assignedPod (foldl schedulingStep st os) \<longleftrightarrow> ss_assignedPod st \<or>
     (\<exists>o'\<in>set os. usableScheduling o' \<and> TrimSpace (sob_NodeName o') \<noteq> [])"
  "ss_Warnings (foldl schedulingStep st os) = ss_Warnings st @ concat (map warningsOf os)"
  by (induction os arbitrary: st) (simp_all add: schedulingStep_flags disj_assoc)

lemma schedulingStart_simps [simp]:
  "\<not> ss_validState schedulingStart" "\<not> ss_observedFailure schedulingStart" "\<not> ss_observedGate schedulingStart"
  "\<not> ss_observedUnassigned schedulingStart" "\<not> ss_assignedPod schedulingStart" "ss_Warnings schedulingStart = []"
  "ss_acc schedulingStart = ([], {})"
  by (simp_all add: schedulingStart_def ss_acc_def)

lemma schedulingStatus_eq:
  "schedulingStatus (foldl schedulingStep schedulingStart os) =
     (if \<exists>o'\<in>set os. reportsFailure o' \<or> reportsGate o' then StatusSupported
      else if (\<exists>o'\<in>set os. usableScheduling o') \<and> (\<forall>o'\<in>set os. \<not> reportsUnassigned o') then StatusNotApplicable
      else StatusInconclusive)"
  by (auto simp: schedulingStatus_def foldl_schedulingStep_flags reportsUnassigned_def)

lemma set_claimsOf:
  assumes "c \<in> set (claimsOf o')"
  shows "usableScheduling o'" "cc_TargetUID c = TrimSpace (sob_PodUID o')" "cc_EvidenceRefs c = schedulingEvidenceRefs o'"
    "cc_Type c = ClaimObservation \<and> reportsUnassigned o' \<or> cc_Type c = ClaimFailureMechanism \<and> (reportsGate o' \<or> reportsFailure o') \<or>
     cc_Type c = ClaimRootCause \<and> reportsFailure o'"
  using assms
  by (auto simp: claimsOf_def schedulingClaim_def schedulingCandidates_def reportsUnassigned_def reportsGate_def
      reportsFailure_def Let_def split: if_splits)

lemma schedulingEvaluate_simps:
  "dgr_Claims (schedulingEvaluate e) = sortSchedulingClaims (ss_Claims (foldl schedulingStep schedulingStart (evs_Scheduling e)))"
  "evs_Scheduling e \<noteq> [] \<Longrightarrow> dgr_Status (schedulingEvaluate e) =
     schedulingStatus (foldl schedulingStep schedulingStart (evs_Scheduling e))"
  "evs_Scheduling e = [] \<Longrightarrow> dgr_Status (schedulingEvaluate e) = StatusNotApplicable"
  by (auto simp: schedulingEvaluate_def newResult_def Let_def schedulingStart_def sortSchedulingClaims_def SliceStable_def)

lemma set_schedulingClaims:
  "c \<in> set (dgr_Claims (schedulingEvaluate e)) \<Longrightarrow> \<exists>o'\<in>set (evs_Scheduling e). c \<in> set (claimsOf o')"
  using schedulingClaims_from by (simp add: schedulingEvaluate_simps sortSchedulingClaims_def)

interpretation claimOrder: precedence claimLess
  by unfold_locales (auto simp: claimLess_def split: if_splits)

lemma distinct_map_SliceStable: "distinct (map f xs) \<Longrightarrow> distinct (map f (SliceStable lt xs))"
  by (metis mset_SliceStable mset_map mset_eq_imp_distinct_iff)

subsection \<open>Identifiers of scheduling claims\<close>

definition claimPrefixes :: "string list" where
  "claimPrefixes = [''scheduling-observation-unassigned/'', ''scheduling-mechanism-gated/'',
     ''scheduling-mechanism-unschedulable/'', ''scheduling-cause-insufficient-cpu/'', ''scheduling-cause-insufficient-memory/'',
     ''scheduling-cause-taint-mismatch/'', ''scheduling-cause-node-affinity-mismatch/'']"

lemma prefix_of_id: "p \<in> set claimPrefixes \<Longrightarrow> takeWhile (\<lambda>c. c \<noteq> CHR ''/'') (p @ u) @ ''/'' = p"
  by (auto simp: claimPrefixes_def)

lemma claim_id_inj:
  "p \<in> set claimPrefixes \<Longrightarrow> q \<in> set claimPrefixes \<Longrightarrow> p @ u = q @ v \<Longrightarrow> p = q \<and> u = v"
  using prefix_of_id [of p u] prefix_of_id [of q v] by auto

lemma claimsOf_ids:
  "\<exists>ps. map cc_ID (claimsOf o') = map (\<lambda>p. p @ TrimSpace (sob_PodUID o')) ps \<and> distinct ps \<and> set ps \<subseteq> set claimPrefixes"
proof -
  let ?t = "ToLower (eventText o' @ '' '' @ conditionText o')"
  let ?ps = "(if reportsUnassigned o' then [claimPrefixes ! 0] else []) @ (if reportsGate o' then [claimPrefixes ! 1] else []) @
    (if reportsFailure o' then claimPrefixes ! 2 #
       (if containsAnyTerm ?t [''insufficient cpu'', ''insufficient vcpu''] then [claimPrefixes ! 3] else []) @
       (if containsAnyTerm ?t [''insufficient memory''] then [claimPrefixes ! 4] else []) @
       (if Contains ?t ''taint'' \<and> Contains ?t ''tolerat'' then [claimPrefixes ! 5] else []) @
       (if containsAnyTerm ?t [''node selector'', ''node affinity'', ''affinity mismatch'', ''didn'' @ [CHR 0x27] @ ''t match node'']
        then [claimPrefixes ! 6] else []) else [])"
  have "map cc_ID (claimsOf o') = map (\<lambda>p. p @ TrimSpace (sob_PodUID o')) ?ps"
    unfolding claimsOf_def schedulingCandidates_def schedulingClaim_def Let_def claimPrefixes_def
    by (simp del: ToLower_append)
  moreover have "distinct ?ps" by (simp add: claimPrefixes_def)
  moreover have "set ?ps \<subseteq> set claimPrefixes" by (auto simp: claimPrefixes_def)
  ultimately show ?thesis by blast
qed

lemma claimsOf_distinct: "distinct (map cc_ID (claimsOf o'))" and claimsOf_id_nonempty: "[] \<notin> cc_ID ` set (claimsOf o')"
proof -
  obtain ps where ps: "map cc_ID (claimsOf o') = map (\<lambda>p. p @ TrimSpace (sob_PodUID o')) ps" "distinct ps"
    "set ps \<subseteq> set claimPrefixes" using claimsOf_ids by blast
  then show "distinct (map cc_ID (claimsOf o'))" by (simp add: distinct_map inj_on_def)
  have "[] \<notin> set ps" using ps(3) by (auto simp: claimPrefixes_def)
  then have "[] \<notin> set (map cc_ID (claimsOf o'))" unfolding ps(1) by auto
  then show "[] \<notin> cc_ID ` set (claimsOf o')" by simp
qed

lemma claimsOf_same_id:
  assumes "c \<in> set (claimsOf a)" "d \<in> set (claimsOf b)" "cc_ID c = cc_ID d"
  shows "TrimSpace (sob_PodUID a) = TrimSpace (sob_PodUID b)"
proof -
  have form: "\<exists>p\<in>set claimPrefixes. cc_ID x = p @ TrimSpace (sob_PodUID y)" if "x \<in> set (claimsOf y)" for x y
    using claimsOf_ids [of y] that by (metis (no_types, lifting) imageE image_eqI list.set_map subsetD)
  then show ?thesis using assms claim_id_inj by metis
qed

lemma all_claims_distinct:
  "distinct (map (\<lambda>o'. TrimSpace (sob_PodUID o')) os) \<Longrightarrow> distinct (map cc_ID (concat (map claimsOf os)))"
proof (induction os)
  case (Cons a os)
  have "cc_ID ` set (claimsOf a) \<inter> cc_ID ` set (concat (map claimsOf os)) = {}"
  proof (rule ccontr)
    assume "cc_ID ` set (claimsOf a) \<inter> cc_ID ` set (concat (map claimsOf os)) \<noteq> {}"
    then obtain c d b where "c \<in> set (claimsOf a)" "b \<in> set os" "d \<in> set (claimsOf b)" "cc_ID c = cc_ID d" by auto
    then have "TrimSpace (sob_PodUID a) \<in> (\<lambda>o'. TrimSpace (sob_PodUID o')) ` set os"
      using claimsOf_same_id by (metis imageI)
    then show False using Cons.prems by simp
  qed
  then show ?case using Cons claimsOf_distinct by (simp add: distinct_append)
qed simp

lemma schedulingClaims_all:
  assumes "distinct (map (\<lambda>o'. TrimSpace (sob_PodUID o')) os)"
  shows "ss_Claims (foldl schedulingStep schedulingStart os) = concat (map claimsOf os)"
proof -
  have "[] \<notin> cc_ID ` set (concat (map claimsOf os))" using claimsOf_id_nonempty by fastforce
  then have "fst (foldl addClaim ([], {}) (concat (map claimsOf os))) = [] @ concat (map claimsOf os)"
    using assms all_claims_distinct by (intro foldl_addClaim_all) auto
  then have "fst (ss_acc (foldl schedulingStep schedulingStart os)) = concat (map claimsOf os)"
    by (simp add: foldl_schedulingStep_acc)
  then show ?thesis by (simp add: ss_acc_def)
qed

subsection \<open>The contract of a diagnostic\<close>

text \<open>The identifiers that the evidence carries, as they are written and trimmed.\<close>

definition evidenceIDs :: "EvidenceSet \<Rightarrow> string set" where
  "evidenceIDs e = (\<Union>o'\<in>set (evs_Observations e). {obs_ID o', TrimSpace (obs_ID o')}) \<union>
     (\<Union>r\<in>set (evs_EvidenceRefs e). {ev_ID r, TrimSpace (ev_ID r)}) \<union>
     (\<Union>o'\<in>set (evs_Scheduling e). set (schedulingEvidenceRefs o'))"

locale diagnostic_contract =
  fixes d :: Diagnostic
  assumes identity: "dgr_DiagnosticID (dg_Evaluate d e) = dg_ID d \<and> dgr_DiagnosticVersion (dg_Evaluate d e) = dg_Version d"
    and proposes: "dgr_Status (dg_Evaluate d e) \<in> {StatusSupported, StatusInconclusive, StatusNotApplicable}"
    and cites: "c \<in> set (dgr_Claims (dg_Evaluate d e)) \<Longrightarrow> set (cc_EvidenceRefs c) \<subseteq> evidenceIDs e"
    and distinct_ids: "distinct (map cc_ID (dgr_Claims (dg_Evaluate d e)))"
    and cause_supported: "c \<in> set (dgr_Claims (dg_Evaluate d e)) \<Longrightarrow> cc_Type c = ClaimRootCause \<Longrightarrow>
      dgr_Status (dg_Evaluate d e) = StatusSupported"
    and not_applicable: "dgr_Status (dg_Evaluate d e) = StatusNotApplicable \<Longrightarrow> dgr_Claims (dg_Evaluate d e) = []"
begin

lemma never_confirms: "dgr_Status (dg_Evaluate d e) \<noteq> ''Confirmed''"
  using proposes [of e] by auto

lemma no_cause_when_inconclusive:
  "dgr_Status (dg_Evaluate d e) \<noteq> StatusSupported \<Longrightarrow>
     list_all (\<lambda>c. cc_Type c \<noteq> ClaimRootCause) (dgr_Claims (dg_Evaluate d e))"
  using cause_supported by (auto simp: list_all_iff)

end

lemma set_sortedKeyList [simp]: "set (sortedKeyList ks) = set ks"
  by (simp add: sortedKeyList_def)

lemma distinct_sortedKeyList [simp]: "distinct (sortedKeyList ks)"
  by (simp add: sortedKeyList_def)

lemma sortedKeyList_eq_Nil [simp]: "sortedKeyList ks = [] \<longleftrightarrow> ks = []"
  using set_sortedKeyList [of ks] by (metis set_empty)

lemma imagePullEvaluate_simps:
  "dgr_DiagnosticID (imagePullEvaluate e) = ''image-pull''" "dgr_DiagnosticVersion (imagePullEvaluate e) = ''v1''"
  "dgr_Status (imagePullEvaluate e) = (if imagePullEvidenceIDs e = [] then StatusNotApplicable
     else if imagePullTruncated e (imagePullEvidenceIDs e) then StatusInconclusive else StatusSupported)"
  by (simp_all add: imagePullEvaluate_def newResult_def Let_def)

definition imagePullKinds :: "EvidenceSet \<Rightarrow> string list" where
  "imagePullKinds e = (if imagePullTruncated e (imagePullEvidenceIDs e) then []
     else sortedKeyList (imagePullDetails e (imagePullEvidenceIDs e)))"

lemma imagePullEvaluate_claims:
  "map cc_ID (dgr_Claims (imagePullEvaluate e)) = (if imagePullEvidenceIDs e = [] then []
     else [''image-pull-observed'', ''image-pull-failure''] @ map (\<lambda>k. ''image-pull-cause-'' @ k) (imagePullKinds e))"
  "map cc_Type (dgr_Claims (imagePullEvaluate e)) = (if imagePullEvidenceIDs e = [] then []
     else [ClaimObservation, ClaimFailureMechanism] @ map (\<lambda>_. ClaimRootCause) (imagePullKinds e))"
  "c \<in> set (dgr_Claims (imagePullEvaluate e)) \<Longrightarrow> cc_EvidenceRefs c = imagePullEvidenceIDs e \<and>
     cc_TargetUID c = imagePullTargetUID e"
  by (auto simp: imagePullEvaluate_def newResult_def imagePullKinds_def Let_def split: if_splits)

lemma imagePullIDs_in: "set (imagePullEvidenceIDs e) \<subseteq> evidenceIDs e"
  by (auto simp: imagePullEvidenceIDs_def evidenceIDs_def)

lemma servicePortIDs_in: "set (servicePortEvidenceIDs e) \<subseteq> evidenceIDs e"
  by (auto simp: servicePortEvidenceIDs_def evidenceIDs_def)

lemma distinct_imagePull_ids: "distinct (map cc_ID (dgr_Claims (imagePullEvaluate e)))"
  unfolding imagePullEvaluate_claims(1)
  by (auto simp: distinct_map inj_on_def imagePullKinds_def)

lemma imagePull_no_cause:
  assumes "dgr_Status (imagePullEvaluate e) \<noteq> StatusSupported" "c \<in> set (dgr_Claims (imagePullEvaluate e))"
  shows "cc_Type c \<noteq> ClaimRootCause"
proof -
  have "cc_Type c \<in> set (map cc_Type (dgr_Claims (imagePullEvaluate e)))" using assms(2) by simp
  then show ?thesis using assms(1)
    unfolding imagePullEvaluate_claims(2)
    by (auto simp: imagePullEvaluate_simps imagePullKinds_def split: if_splits)
qed

interpretation imagePull: diagnostic_contract ImagePullDiagnostic
proof
  fix e c
  note [simp] = ImagePullDiagnostic_def
  show "dgr_DiagnosticID (dg_Evaluate ImagePullDiagnostic e) = dg_ID ImagePullDiagnostic \<and>
      dgr_DiagnosticVersion (dg_Evaluate ImagePullDiagnostic e) = dg_Version ImagePullDiagnostic"
    by (simp add: imagePullEvaluate_simps)
  show "dgr_Status (dg_Evaluate ImagePullDiagnostic e) \<in> {StatusSupported, StatusInconclusive, StatusNotApplicable}"
    by (simp add: imagePullEvaluate_simps)
  show "set (cc_EvidenceRefs c) \<subseteq> evidenceIDs e" if "c \<in> set (dgr_Claims (dg_Evaluate ImagePullDiagnostic e))"
    using that imagePullEvaluate_claims(3) imagePullIDs_in by simp
  show "distinct (map cc_ID (dgr_Claims (dg_Evaluate ImagePullDiagnostic e)))"
    by (simp add: distinct_imagePull_ids)
  show "dgr_Status (dg_Evaluate ImagePullDiagnostic e) = StatusSupported"
    if "c \<in> set (dgr_Claims (dg_Evaluate ImagePullDiagnostic e))" "cc_Type c = ClaimRootCause"
    using that imagePull_no_cause by fastforce
  show "dgr_Claims (dg_Evaluate ImagePullDiagnostic e) = []"
    if "dgr_Status (dg_Evaluate ImagePullDiagnostic e) = StatusNotApplicable"
    using that imagePullEvaluate_claims(1) [of e] by (simp add: imagePullEvaluate_simps split: if_splits)
qed

interpretation servicePort: diagnostic_contract ServicePortDiagnostic
  by unfold_locales
    (use servicePortIDs_in in \<open>auto simp: ServicePortDiagnostic_def servicePortEvaluate_def newResult_def Let_def
      split: if_splits\<close>)

lemma scheduling_status_cases:
  "dgr_Status (schedulingEvaluate e) \<in> {StatusSupported, StatusInconclusive, StatusNotApplicable}"
  by (cases "evs_Scheduling e = []") (simp_all add: schedulingEvaluate_simps schedulingStatus_def)

lemma scheduling_cause_supported:
  assumes "c \<in> set (dgr_Claims (schedulingEvaluate e))" "cc_Type c = ClaimRootCause"
  shows "dgr_Status (schedulingEvaluate e) = StatusSupported"
proof -
  obtain o' where o': "o' \<in> set (evs_Scheduling e)" "c \<in> set (claimsOf o')" using set_schedulingClaims assms(1) by blast
  then have "reportsFailure o'" using set_claimsOf(4) [OF o'(2)] assms(2) by simp
  then show ?thesis using o'(1)
    by (cases "evs_Scheduling e = []") (auto simp: schedulingEvaluate_simps schedulingStatus_eq)
qed

lemma scheduling_not_applicable:
  assumes "dgr_Status (schedulingEvaluate e) = StatusNotApplicable"
  shows "dgr_Claims (schedulingEvaluate e) = []"
proof (rule ccontr)
  assume "dgr_Claims (schedulingEvaluate e) \<noteq> []"
  then obtain c o' where c: "o' \<in> set (evs_Scheduling e)" "c \<in> set (claimsOf o')"
    using set_schedulingClaims by (metis list.set_sel(1))
  then have "reportsUnassigned o' \<or> reportsGate o' \<or> reportsFailure o'" using set_claimsOf(4) by blast
  then show False using assms c(1)
    by (cases "evs_Scheduling e = []") (auto simp: schedulingEvaluate_simps schedulingStatus_eq split: if_splits)
qed

interpretation scheduling: diagnostic_contract SchedulingDiagnostic
proof
  fix e c
  note [simp] = SchedulingDiagnostic_def
  show "dgr_DiagnosticID (dg_Evaluate SchedulingDiagnostic e) = dg_ID SchedulingDiagnostic \<and>
      dgr_DiagnosticVersion (dg_Evaluate SchedulingDiagnostic e) = dg_Version SchedulingDiagnostic"
    by (simp add: schedulingEvaluate_def newResult_def Let_def)
  show "dgr_Status (dg_Evaluate SchedulingDiagnostic e) \<in> {StatusSupported, StatusInconclusive, StatusNotApplicable}"
    using scheduling_status_cases by simp
  show "set (cc_EvidenceRefs c) \<subseteq> evidenceIDs e" if "c \<in> set (dgr_Claims (dg_Evaluate SchedulingDiagnostic e))"
    using that set_schedulingClaims [of c e] set_claimsOf(3) by (fastforce simp: evidenceIDs_def)
  show "distinct (map cc_ID (dgr_Claims (dg_Evaluate SchedulingDiagnostic e)))"
    by (simp add: schedulingEvaluate_simps sortSchedulingClaims_def distinct_map_SliceStable schedulingClaims_distinct)
  show "dgr_Status (dg_Evaluate SchedulingDiagnostic e) = StatusSupported"
    if "c \<in> set (dgr_Claims (dg_Evaluate SchedulingDiagnostic e))" "cc_Type c = ClaimRootCause"
    using that scheduling_cause_supported by simp
  show "dgr_Claims (dg_Evaluate SchedulingDiagnostic e) = []"
    if "dgr_Status (dg_Evaluate SchedulingDiagnostic e) = StatusNotApplicable"
    using that scheduling_not_applicable by simp
qed

subsection \<open>Planner\<close>

interpretation diagnosticOrder: precedence diagnosticLess
  by unfold_locales (auto simp: diagnosticLess_def split: if_splits)

lemma registerDiagnostics_all:
  "distinct (map diagnosticKey ds) \<Longrightarrow> diagnosticKey ` set ds \<inter> seen = {} \<Longrightarrow> registerDiagnostics seen (map Some ds) = ds"
  by (induction ds arbitrary: seen) auto

lemma registerDiagnostics_keys:
  "distinct (map diagnosticKey (registerDiagnostics seen ds)) \<and>
     diagnosticKey ` set (registerDiagnostics seen ds) = diagnosticKey ` {d. Some d \<in> set ds} - seen \<and>
     set (registerDiagnostics seen ds) \<subseteq> {d. Some d \<in> set ds}"
proof (induction seen ds rule: registerDiagnostics.induct)
  case (3 seen d ds)
  have "{x. Some x \<in> set (Some d # ds)} = insert d {x. Some x \<in> set ds}" by auto
  with 3 show ?case by auto
qed auto

lemma DefaultPlanner_eq: "DefaultPlanner = [ImagePullDiagnostic, SchedulingDiagnostic, ServicePortDiagnostic]"
  by (simp add: DefaultPlanner_def NewPlanner_def diagnosticKey_def ImagePullDiagnostic_def SchedulingDiagnostic_def
      ServicePortDiagnostic_def SliceStable_def diagnosticLess_def)

text \<open>What the planner returns when every registered diagnostic keeps the contract.\<close>

lemma planner_contract:
  assumes "\<forall>d\<in>set ds. diagnostic_contract d" and "r \<in> set (PlannerEvaluate (Some ds) e)"
  shows "dgr_Status r \<in> {StatusSupported, StatusInconclusive, StatusNotApplicable}"
    "c \<in> set (dgr_Claims r) \<Longrightarrow> set (cc_EvidenceRefs c) \<subseteq> evidenceIDs e"
    "distinct (map cc_ID (dgr_Claims r))"
    "c \<in> set (dgr_Claims r) \<Longrightarrow> cc_Type c = ClaimRootCause \<Longrightarrow> dgr_Status r = StatusSupported"
    "dgr_Status r = StatusNotApplicable \<Longrightarrow> dgr_Claims r = []"
proof -
  obtain d where d: "diagnostic_contract d" "r = dg_Evaluate d e"
    using assms by (auto simp: PlannerEvaluate_def Candidates_def)
  note laws = diagnostic_contract.proposes [OF d(1)] diagnostic_contract.cites [OF d(1)]
    diagnostic_contract.distinct_ids [OF d(1)] diagnostic_contract.cause_supported [OF d(1)]
    diagnostic_contract.not_applicable [OF d(1)]
  show "dgr_Status r \<in> {StatusSupported, StatusInconclusive, StatusNotApplicable}"
    "c \<in> set (dgr_Claims r) \<Longrightarrow> set (cc_EvidenceRefs c) \<subseteq> evidenceIDs e"
    "distinct (map cc_ID (dgr_Claims r))"
    "c \<in> set (dgr_Claims r) \<Longrightarrow> cc_Type c = ClaimRootCause \<Longrightarrow> dgr_Status r = StatusSupported"
    "dgr_Status r = StatusNotApplicable \<Longrightarrow> dgr_Claims r = []"
    unfolding d(2) using laws by blast+
qed

subsection \<open>Properties\<close>

text \<open>C27: the built-in planner only proposes: whatever the evidence, each of its results comes from one of the
  three built-in diagnostics, in the order of their identifiers and at most once each; no result confirms or
  refutes anything, the claims of one result have distinct identifiers and cite only identifiers that the
  evidence carries, and a root-cause claim occurs only in a supported result.\<close>

theorem default_planner_proposes:
  "subseq (map dgr_DiagnosticID (PlannerEvaluate (Some DefaultPlanner) e)) [''image-pull'', ''scheduling'', ''service-port''] \<and>
   list_all (\<lambda>r. dgr_Status r \<in> {''Supported'', ''Inconclusive'', ''NotApplicable''} \<and>
      distinct (map cc_ID (dgr_Claims r)) \<and>
      list_all (\<lambda>c. set (cc_EvidenceRefs c) \<subseteq> evidenceIDs e) (dgr_Claims r) \<and>
      (filter (\<lambda>c. cc_Type c = ''RootCause'') (dgr_Claims r) = [] \<or> dgr_Status r = ''Supported''))
     (PlannerEvaluate (Some DefaultPlanner) e)"
proof
  have contract: "\<forall>d\<in>set DefaultPlanner. diagnostic_contract d"
    unfolding DefaultPlanner_eq
    using imagePull.diagnostic_contract_axioms scheduling.diagnostic_contract_axioms servicePort.diagnostic_contract_axioms
    by simp
  have "map dgr_DiagnosticID (PlannerEvaluate (Some DefaultPlanner) e) =
      map dg_ID (filter (\<lambda>d. mtr_Applicable (dg_Match d e)) DefaultPlanner)"
    unfolding PlannerEvaluate_def Candidates_def DefaultPlanner_eq
    using imagePull.identity scheduling.identity servicePort.identity by simp
  moreover have "subseq (map dg_ID (filter (\<lambda>d. mtr_Applicable (dg_Match d e)) DefaultPlanner)) (map dg_ID DefaultPlanner)"
    by (intro subseq_map subseq_filter_left)
  moreover have "map dg_ID DefaultPlanner = [''image-pull'', ''scheduling'', ''service-port'']"
    by (simp add: DefaultPlanner_eq ImagePullDiagnostic_def SchedulingDiagnostic_def ServicePortDiagnostic_def)
  ultimately show "subseq (map dgr_DiagnosticID (PlannerEvaluate (Some DefaultPlanner) e))
      [''image-pull'', ''scheduling'', ''service-port'']" by simp
  show "list_all (\<lambda>r. dgr_Status r \<in> {''Supported'', ''Inconclusive'', ''NotApplicable''} \<and>
      distinct (map cc_ID (dgr_Claims r)) \<and>
      list_all (\<lambda>c. set (cc_EvidenceRefs c) \<subseteq> evidenceIDs e) (dgr_Claims r) \<and>
      (filter (\<lambda>c. cc_Type c = ''RootCause'') (dgr_Claims r) = [] \<or> dgr_Status r = ''Supported''))
     (PlannerEvaluate (Some DefaultPlanner) e)"
    unfolding list_all_iff filter_empty_conv using planner_contract [OF contract] by blast
qed

text \<open> the registry does not depend on the order of registration: registering diagnostics with distinct keys
  in any order gives the same planner, sorted by identifier and version.\<close>

theorem planner_order_independent:
  assumes "distinct (map diagnosticKey ds)" and "mset ds = mset ds'"
  shows "NewPlanner (map Some ds) = NewPlanner (map Some ds') \<and>
    sorted_wrt (\<lambda>a b. \<not> diagnosticLess b a) (NewPlanner (map Some ds)) \<and> mset (NewPlanner (map Some ds)) = mset ds"
proof -
  have "distinct (map diagnosticKey ds')" using assms by (metis mset_map mset_eq_imp_distinct_iff)
  then have reg: "registerDiagnostics {} (map Some ds) = ds" "registerDiagnostics {} (map Some ds') = ds'"
    using assms(1) registerDiagnostics_all by simp_all
  have "a = b" if "a \<in> set ds" "b \<in> set ds" "\<not> diagnosticLess a b" "\<not> diagnosticLess b a" for a b
  proof -
    have "diagnosticKey a = diagnosticKey b" using that(3,4) by (auto simp: diagnosticLess_def diagnosticKey_def split: if_splits)
    then show ?thesis using that(1,2) assms(1) by (simp add: distinct_map inj_on_def)
  qed
  then have "SliceStable diagnosticLess ds = SliceStable diagnosticLess ds'"
    using assms(2) by (intro diagnosticOrder.SliceStable_mset_eq)
  then show ?thesis
    using assms(2) by (simp add: NewPlanner_def reg diagnosticOrder.sorted_SliceStable)
qed

theorem planner_order_independent_witness:
  "NewPlanner [Some ServicePortDiagnostic, Some ImagePullDiagnostic, Some SchedulingDiagnostic] = DefaultPlanner"
proof -
  let ?ds = "[ServicePortDiagnostic, ImagePullDiagnostic, SchedulingDiagnostic]"
  have "distinct (map diagnosticKey ?ds)"
    by (simp add: diagnosticKey_def ImagePullDiagnostic_def SchedulingDiagnostic_def ServicePortDiagnostic_def)
  from planner_order_independent [OF this, of "[ImagePullDiagnostic, SchedulingDiagnostic, ServicePortDiagnostic]"]
  show ?thesis by (simp add: DefaultPlanner_def)
qed

text \<open> the status of the scheduling diagnostic is decided by its usable observations (those of a Pod with a
  UID, not stale, with available coverage and a collected state): it is \<^verbatim>\<open>Supported\<close> exactly when an
  untruncated one reports an active gate or an unschedulable Pod, otherwise \<^verbatim>\<open>NotApplicable\<close> when there are
  no observations at all or every Pod of the usable ones is assigned (and there is one), otherwise
  \<^verbatim>\<open>Inconclusive\<close>.\<close>

theorem scheduling_status_exact:
  "dgr_Status (schedulingEvaluate e) =
     (if \<exists>o'\<in>set (evs_Scheduling e). usableScheduling o' \<and> \<not> sob_Truncated o' \<and> (0 < length (sob_SchedulingGates o') \<or> unschedulable o')
      then ''Supported''
      else if evs_Scheduling e = [] \<or> (\<exists>o'\<in>set (evs_Scheduling e). usableScheduling o') \<and>
          (\<nexists>o'. o' \<in> set (evs_Scheduling e) \<and> usableScheduling o' \<and> TrimSpace (sob_NodeName o') = [])
      then ''NotApplicable'' else ''Inconclusive'')"
proof (cases "evs_Scheduling e = []")
  case False
  then show ?thesis
    unfolding schedulingEvaluate_simps(2) [OF False] schedulingStatus_eq
    by (auto simp: reportsFailure_def reportsGate_def reportsUnassigned_def)
qed (simp add: schedulingEvaluate_simps)

text \<open> every claim of the scheduling diagnostic can be traced to one observation of the same Pod that is not
  stale and not unavailable, and cites that observation's references; a failure mechanism or root cause never
  comes from truncated evidence, and a root cause only from a Pod that its condition or a matching event
  reports as unschedulable.\<close>

theorem scheduling_claims_traceable:
  assumes "c \<in> set (dgr_Claims (schedulingEvaluate e))"
  shows "\<exists>o'\<in>set (evs_Scheduling e). cc_TargetUID c = TrimSpace (sob_PodUID o') \<and> cc_TargetUID c \<noteq> [] \<and>
    cc_EvidenceRefs c = schedulingEvidenceRefs o' \<and> \<not> sob_Stale o' \<and>
    sob_Coverage o' \<notin> {''Unauthorized'', ''Unavailable'', ''CollectionFailed''} \<and>
    (cc_Type c = ''Observation'' \<and> TrimSpace (sob_NodeName o') = [] \<or>
     cc_Type c = ''FailureMechanism'' \<and> \<not> sob_Truncated o' \<and> (sob_SchedulingGates o' \<noteq> [] \<or> unschedulable o') \<or>
     cc_Type c = ''RootCause'' \<and> \<not> sob_Truncated o' \<and> unschedulable o')"
proof -
  obtain o' where o': "o' \<in> set (evs_Scheduling e)" "c \<in> set (claimsOf o')" using set_schedulingClaims [OF assms] by blast
  show ?thesis
    using o'(1) set_claimsOf [OF o'(2)]
    by (intro bexI [of _ o']) (auto simp: usableScheduling_def reportsUnassigned_def reportsGate_def reportsFailure_def)
qed

definition demoSchedulingObservation :: SchedulingObservation where
  "demoSchedulingObservation = \<lparr>sob_ID = ''s1'', sob_PodUID = '' u1'', sob_PodNamespace = ''prod'', sob_PodName = ''web'',
     sob_Source = ''k8s'', sob_EventPodUID = [], sob_Phase = ''Pending'', sob_NodeName = [], sob_PodScheduledStatus = ''False'',
     sob_PodScheduledReason = ''Unschedulable'', sob_PodScheduledMessage = ''0/3 nodes: Insufficient cpu'',
     sob_SchedulingGates = [], sob_EventReason = [], sob_EventMessage = [], sob_EvidenceRefs = [], sob_CollectedAt = 1,
     sob_IncidentStart = 0, sob_IncidentEnd = 2, sob_Coverage = ''Complete'', sob_CoverageReason = [],
     sob_StateCollected = True, sob_Truncated = False, sob_Stale = False\<rparr>"

definition schedulingEvidence :: "SchedulingObservation list \<Rightarrow> EvidenceSet" where
  "schedulingEvidence os = \<lparr>evs_Observations = [], evs_EvidenceRefs = [], evs_Scheduling = os, evs_Scope = emptyScopeResult,
     evs_IncidentStart = 0, evs_IncidentEnd = 2\<rparr>"

lemma demo_scheduling_claims:
  "map (\<lambda>c. (cc_ID c, cc_Type c, cc_EvidenceRefs c))
     (dgr_Claims (schedulingEvaluate (schedulingEvidence [demoSchedulingObservation]))) =
     [(''scheduling-observation-unassigned/u1'', ''Observation'', [''s1'']),
      (''scheduling-mechanism-unschedulable/u1'', ''FailureMechanism'', [''s1'']),
      (''scheduling-cause-insufficient-cpu/u1'', ''RootCause'', [''s1''])]"
  by code_simp

theorem scheduling_claims_traceable_witness:
  "\<exists>c\<in>set (dgr_Claims (schedulingEvaluate (schedulingEvidence [demoSchedulingObservation]))).
     cc_Type c = ''RootCause'' \<and> cc_TargetUID c = ''u1'' \<and> unschedulable demoSchedulingObservation"
proof -
  let ?cs = "dgr_Claims (schedulingEvaluate (schedulingEvidence [demoSchedulingObservation]))"
  have "(''scheduling-cause-insufficient-cpu/u1'', ''RootCause'', [''s1'']) \<in>
      set (map (\<lambda>c. (cc_ID c, cc_Type c, cc_EvidenceRefs c)) ?cs)"
    unfolding demo_scheduling_claims by simp
  then obtain c where c: "c \<in> set ?cs" "cc_Type c = ''RootCause''" by auto
  from scheduling_claims_traceable [OF c(1)] c(2)
  have "cc_TargetUID c = TrimSpace (sob_PodUID demoSchedulingObservation)" "unschedulable demoSchedulingObservation"
    by (auto simp: schedulingEvidence_def)
  moreover have "TrimSpace (sob_PodUID demoSchedulingObservation) = ''u1''" by code_simp
  ultimately show ?thesis using c by auto
qed

lemma mset_concat_map: "mset xs = mset ys \<Longrightarrow> mset (concat (map g xs)) = mset (concat (map g ys))"
  by (simp add: mset_concat flip: sum_mset_sum_list)

text \<open>C29: the result of the scheduling diagnostic does not depend on the order in which the Pods were collected:
  for observations of distinct Pods, every permutation gives the same claims in the same order, and the same
  status, warnings, missing requirements and summary.\<close>

theorem scheduling_order_independent:
  assumes "distinct (map (\<lambda>o'. TrimSpace (sob_PodUID o')) (evs_Scheduling e))"
    and "mset os = mset (evs_Scheduling e)"
  shows "schedulingEvaluate (e\<lparr>evs_Scheduling := os\<rparr>) = schedulingEvaluate e"
proof -
  let ?st = "foldl schedulingStep schedulingStart"
  have set_eq: "set os = set (evs_Scheduling e)" using assms(2) by (metis set_mset_mset)
  have "distinct (map (\<lambda>o'. TrimSpace (sob_PodUID o')) os)"
    using assms by (metis mset_map mset_eq_imp_distinct_iff)
  note all = schedulingClaims_all [OF this] schedulingClaims_all [OF assms(1)]
  have ids: "distinct (map cc_ID (concat (map claimsOf os)))" using all_claims_distinct \<open>distinct (map _ os)\<close> by blast
  have "SliceStable claimLess (concat (map claimsOf os)) = SliceStable claimLess (concat (map claimsOf (evs_Scheduling e)))"
  proof (rule claimOrder.SliceStable_mset_eq)
    show "mset (concat (map claimsOf os)) = mset (concat (map claimsOf (evs_Scheduling e)))"
      using assms(2) by (rule mset_concat_map)
    show "a = b" if "a \<in> set (concat (map claimsOf os))" "b \<in> set (concat (map claimsOf os))" "\<not> claimLess a b"
      "\<not> claimLess b a" for a b
    proof -
      have "cc_ID a = cc_ID b" using that(3,4) by (auto simp: claimLess_def split: if_splits)
      then show ?thesis using that(1,2) ids unfolding distinct_map inj_on_def by blast
    qed
  qed
  moreover have "sort (concat (map warningsOf os) @ x) = sort (concat (map warningsOf (evs_Scheduling e)) @ x)" for x
    using mset_concat_map [OF assms(2), of warningsOf] by (intro properties_for_sort) simp_all
  moreover have "length os = length (evs_Scheduling e)" using assms(2) by (rule mset_eq_length)
  moreover have "os = [] \<longleftrightarrow> evs_Scheduling e = []" using assms(2) by (metis mset_zero_iff)
  moreover have "ss_observedFailure (?st os) = ss_observedFailure (?st (evs_Scheduling e))"
    "ss_observedGate (?st os) = ss_observedGate (?st (evs_Scheduling e))"
    "ss_observedUnassigned (?st os) = ss_observedUnassigned (?st (evs_Scheduling e))"
    "schedulingStatus (?st os) = schedulingStatus (?st (evs_Scheduling e))"
    unfolding schedulingStatus_def foldl_schedulingStep_flags set_eq by (rule refl)+
  moreover have "ss_Warnings (?st os) = concat (map warningsOf os)"
    "ss_Warnings (?st (evs_Scheduling e)) = concat (map warningsOf (evs_Scheduling e))"
    unfolding foldl_schedulingStep_flags by simp_all
  moreover have "sort (concat (map warningsOf os)) = sort (concat (map warningsOf (evs_Scheduling e)))"
    using mset_concat_map [OF assms(2), of warningsOf] by (intro properties_for_sort) simp_all
  ultimately show ?thesis
    unfolding schedulingEvaluate_def Let_def sortSchedulingClaims_def
    by (cases "evs_Scheduling e = []") (simp_all add: all cong: if_cong)
qed

theorem scheduling_order_independent_witness:
  "schedulingEvaluate (schedulingEvidence [demoSchedulingObservation\<lparr>sob_PodUID := ''u2''\<rparr>, demoSchedulingObservation]) =
   schedulingEvaluate (schedulingEvidence [demoSchedulingObservation, demoSchedulingObservation\<lparr>sob_PodUID := ''u2''\<rparr>])"
proof -
  let ?a = demoSchedulingObservation and ?b = "demoSchedulingObservation\<lparr>sob_PodUID := ''u2''\<rparr>"
  have "distinct (map (\<lambda>o'. TrimSpace (sob_PodUID o')) (evs_Scheduling (schedulingEvidence [?a, ?b])))" by code_simp
  from scheduling_order_independent [OF this, of "[?b, ?a]"] show ?thesis by (simp add: schedulingEvidence_def)
qed

text \<open> the image-pull diagnostic claims a root cause only from complete detail: with truncated evidence it
  reports \<^verbatim>\<open>Inconclusive\<close> and no root cause, without image-pull evidence it is not applicable, and otherwise its
  root causes are exactly one per kind of detail found in the evidence it cites; a single Pod is named as the
  target only in a complete scope of one Pod.\<close>

theorem image_pull_causes_exact:
  "dgr_Status (imagePullEvaluate e) = (if imagePullEvidenceIDs e = [] then ''NotApplicable''
     else if imagePullTruncated e (imagePullEvidenceIDs e) then ''Inconclusive'' else ''Supported'') \<and>
   map cc_ID (filter (\<lambda>c. cc_Type c = ''RootCause'') (dgr_Claims (imagePullEvaluate e))) =
     (if imagePullEvidenceIDs e = [] \<or> imagePullTruncated e (imagePullEvidenceIDs e) then []
      else map (\<lambda>k. ''image-pull-cause-'' @ k) (sort (remdups (imagePullDetails e (imagePullEvidenceIDs e))))) \<and>
   list_all (\<lambda>c. cc_EvidenceRefs c = imagePullEvidenceIDs e \<and>
      (cc_TargetUID c = [] \<or> scp_Complete (evs_Scope e) \<and> length (scp_Pods (evs_Scope e)) = 1))
     (dgr_Claims (imagePullEvaluate e))"
proof -
  have "map cc_ID (filter (\<lambda>c. cc_Type c = ''RootCause'') (dgr_Claims (imagePullEvaluate e))) =
     (if imagePullEvidenceIDs e = [] \<or> imagePullTruncated e (imagePullEvidenceIDs e) then []
      else map (\<lambda>k. ''image-pull-cause-'' @ k) (sort (remdups (imagePullDetails e (imagePullEvidenceIDs e)))))"
    by (auto simp: imagePullEvaluate_def newResult_def sortedKeyList_def Let_def filter_map o_def)
  moreover have "list_all (\<lambda>c. cc_EvidenceRefs c = imagePullEvidenceIDs e \<and>
      (cc_TargetUID c = [] \<or> scp_Complete (evs_Scope e) \<and> length (scp_Pods (evs_Scope e)) = 1))
     (dgr_Claims (imagePullEvaluate e))"
    using imagePullEvaluate_claims(3) by (auto simp: list_all_iff imagePullTargetUID_def)
  ultimately show ?thesis by (simp add: imagePullEvaluate_simps)
qed

end
