(* ===== verification/InvestigationTypes.thy ===== *)
theory InvestigationTypes
  imports DomainTypes Kube
begin

text \<open>
  The custom resource \<^verbatim>\<open>InvestigationRequest\<close> (\<^verbatim>\<open>api/v1alpha1/investigationrequest_types.go\<close>): its specification
  with retention, budget and loop policies, and its status with the verdict, the claims, the evidence and the
  record of the execution.  A \<^verbatim>\<open>LocalObjectReference\<close> is its name.
\<close>

text \<open>\<^verbatim>\<open>metav1.Condition\<close>, a published type of the API machinery.\<close>

record Condition =
  cnd_Type :: string
  cnd_Status :: string
  cnd_ObservedGeneration :: int
  cnd_LastTransitionTime :: gotime
  cnd_Reason :: string
  cnd_Message :: string

subsection \<open>Specification\<close>

record FindingIdentity =
  fid_SchemaVersion :: string
  fid_ObjectFindingIdentity :: string
  fid_LogicalFindingIdentity :: string
  fid_IncidentOccurrence :: string
  fid_FindingType :: string
  fid_TargetGeneration :: int
  fid_WindowBucket :: string

record EvidenceRetentionEncryption =
  ere_Required :: bool

record EvidenceRetentionAccessPolicy =
  eap_NamespaceScoped :: bool

record EvidenceRetentionPolicy =
  erp_Mode :: string
  erp_Retention :: duration
  erp_StorageRef :: string
  erp_Encryption :: EvidenceRetentionEncryption
  erp_DeletionPolicy :: string
  erp_AccessPolicy :: EvidenceRetentionAccessPolicy

record QueryRetentionPolicy =
  qrp_Mode :: string

record MetricResultLimits =
  mrl_MaxSeries :: int
  mrl_MaxSamples :: int

record LogResultLimits =
  lrl_MaxStreams :: int
  lrl_MaxEntries :: int
  lrl_MaxLines :: int

record EventResultLimits =
  erl_MaxRecords :: int

record QueryResultLimits =
  qrl_Metrics :: MetricResultLimits
  qrl_Logs :: LogResultLimits
  qrl_Events :: EventResultLimits

record InvestigationQueryBudget =
  iqb_MaxTimeRange :: duration
  iqb_MaxQueriesTotal :: int
  iqb_MaxQueriesPerSource :: int
  iqb_MaxConcurrentQueries :: int
  iqb_MaxCumulativeDuration :: duration
  iqb_MaxCumulativeResponseBytes :: int
  iqb_ResultLimits :: QueryResultLimits

record InvestigationLoopPolicy =
  ilp_MaxDepth :: int
  ilp_AllowRiskSignalSource :: bool

record InvestigationTimeRange =
  itr_Lookback :: duration

record EvidenceRequirements =
  ers_Profile :: string

record InvestigationRequestSpec =
  irs_Target :: TargetRef
  irs_Purpose :: string
  irs_Correlation :: "InvestigationCorrelation option"
  irs_TimeRange :: InvestigationTimeRange
  irs_Question :: string
  irs_DataSources :: "string list"
  irs_Queries :: "InvestigationQuery list"
  irs_ModelProviderRef :: string
  irs_Mode :: string
  irs_CreateRiskSignal :: bool
  irs_EvidenceRequirements :: EvidenceRequirements
  irs_EvidenceRetention :: EvidenceRetentionPolicy
  irs_QueryRetention :: QueryRetentionPolicy
  irs_QueryBudget :: InvestigationQueryBudget
  irs_LoopPolicy :: InvestigationLoopPolicy
  irs_TTLSeconds :: int

subsection \<open>Status\<close>

record RCAConfidence =
  rcf_ProviderScore :: float64
  rcf_VerifiedScore :: float64
  rcf_Level :: string
  rcf_Method :: string

record RCAVerdict =
  rvd_Outcome :: string
  rvd_Summary :: string
  rvd_RootCauseEntity :: TargetRef
  rvd_RootCauseType :: string
  rvd_Confidence :: float64
  rvd_ConfidenceDetail :: "RCAConfidence option"

record RCAEvidenceCoverage =
  rec_Profile :: string
  rec_RequiredChecks :: "string list"
  rec_CompletedChecks :: "string list"
  rec_IncompleteChecks :: "string list"
  rec_IssueMatches :: int

record RCAEvidenceLink =
  rel_EvidenceRef :: string
  rel_Role :: string
  rel_Strength :: string

record RCAClaim =
  rcl_ID :: string
  rcl_Statement :: string
  rcl_EvidenceRefs :: "string list"
  rcl_EvidenceLinks :: "RCAEvidenceLink list"
  rcl_Verification :: string

record RCAAlternativeHypothesis =
  rah_Statement :: string
  rah_Disposition :: string
  rah_EvidenceRefs :: "string list"

record RCAMissingEvidence =
  rme_Source :: string
  rme_Reason :: string

record InvestigationFailure =
  ifl_Code :: string
  ifl_Message :: string
  ifl_Stage :: string
  ifl_Retryable :: bool

record RCADegradationReason =
  rdr_Code :: string
  rdr_Stage :: string
  rdr_SourceRef :: "NamespacedObjectReference option"
  rdr_Message :: string

record RCADegradation =
  rdg_Partial :: bool
  rdg_UnavailableSources :: "string list"
  rdg_Reasons :: "RCADegradationReason list"

record RCAExecutionAttempt =
  rea_ID :: string
  rea_ProviderRequestID :: string
  rea_IdempotencyKey :: string
  rea_RetryReason :: string
  rea_Result :: string
  rea_StartedAt :: "gotime option"
  rea_CompletedAt :: "gotime option"

record RCADigest =
  rdi_Algorithm :: string
  rdi_Canonicalization :: string
  rdi_Value :: string

record RCANormalizedResult =
  rnr_RiskTitle :: string
  rnr_RiskSummary :: string
  rnr_Severity :: string
  rnr_ConfidenceScore :: int
  rnr_ConfidenceReason :: string
  rnr_EvidenceCoverage :: string
  rnr_RCAHypothesis :: string
  rnr_RCACauses :: "string list"
  rnr_RCAEvidence :: "string list"
  rnr_ActionType :: string
  rnr_ActionDescription :: string
  rnr_ActionParameters :: strmap
  rnr_RollbackPlan :: "string list"
  rnr_RunbookRefs :: "string list"
  rnr_ServiceDocs :: "string list"
  rnr_Provider :: string

record RCAProviderResult =
  rpr_SchemaVersion :: string
  rpr_ProviderRequestID :: string
  rpr_Digest :: "RCADigest option"
  rpr_Classification :: "DataClassification option"
  rpr_NormalizedResult :: "RCANormalizedResult option"

record ProviderEgressAudit =
  pea_Decision :: string
  pea_Reason :: string
  pea_ProviderType :: string
  pea_EvidenceBundleDigest :: string
  pea_EvidenceKinds :: "string list"
  pea_SensitivityTagsSent :: "string list"
  pea_LogSamplesIncluded :: bool
  pea_MaximumClassificationObserved :: string
  pea_MaximumClassificationAllowed :: string
  pea_MaximumClassificationSent :: string
  pea_ClassificationPolicyVersion :: string

record ProviderEgressAttempt =
  pet_Ordinal :: int
  pet_ProviderRef :: "NamespacedObjectReference option"
  pet_ProviderGeneration :: int
  pet_ProviderType :: string
  pet_Decision :: string
  pet_Result :: string
  pet_Reason :: string
  pet_EvidenceBundleDigest :: string
  pet_EvidenceKinds :: "string list"
  pet_SensitivityTagsSent :: "string list"
  pet_LogSamplesIncluded :: bool
  pet_MaximumClassificationObserved :: string
  pet_MaximumClassificationAllowed :: string
  pet_MaximumClassificationSent :: string
  pet_ClassificationPolicyVersion :: string

record RCAExecution =
  rex_ID :: string
  rex_State :: string
  rex_Provider :: string
  rex_ProviderRef :: "NamespacedObjectReference option"
  rex_ProviderGeneration :: int
  rex_ProviderType :: string
  rex_Model :: string
  rex_RCASchemaVersion :: string
  rex_CanonicalizationVersion :: string
  rex_ReasoningPolicyVersion :: string
  rex_VerifierVersion :: string
  rex_EgressAudit :: "ProviderEgressAudit option"
  rex_EgressAttempts :: "ProviderEgressAttempt list"
  rex_ControllerVersion :: string
  rex_AttemptCount :: int
  rex_Attempts :: "RCAExecutionAttempt list"
  rex_DurationSeconds :: int
  rex_InputTokens :: int
  rex_OutputTokens :: int
  rex_ProviderResult :: "RCAProviderResult option"

record InvestigationLineageSource =
  ils_APIVersion :: string
  ils_Kind :: string
  ils_Namespace :: string
  ils_Name :: string
  ils_UID :: string
  ils_Generation :: int

record InvestigationLineage =
  ill_Source :: InvestigationLineageSource
  ill_TargetUID :: string
  ill_FindingFingerprint :: string
  ill_FindingIdentity :: "FindingIdentity option"
  ill_InvestigationDepth :: int

record InvestigationRequestStatus =
  ist_ResourceStatus :: ResourceStatus
  ist_Outcome :: string
  ist_Failure :: "InvestigationFailure option"
  ist_Summary :: string
  ist_Hypothesis :: string
  ist_Confidence :: float64
  ist_Provider :: string
  ist_Verdict :: "RCAVerdict option"
  ist_EvidenceCoverage :: "RCAEvidenceCoverage option"
  ist_Claims :: "RCAClaim list"
  ist_AlternativeHypotheses :: "RCAAlternativeHypothesis list"
  ist_MissingEvidence :: "RCAMissingEvidence list"
  ist_Degradation :: "RCADegradation option"
  ist_Execution :: "RCAExecution option"
  ist_StartedAt :: "gotime option"
  ist_CompletedAt :: "gotime option"
  ist_EvidenceRefs :: "EvidenceRef list"
  ist_Lineage :: "InvestigationLineage option"
  ist_LinkedRiskSignalRef :: "NamespacedObjectReference option"
  ist_Conditions :: "Condition list"

text \<open>The two times of the metadata that the controller reads stand next to it.\<close>

record Investigation =
  inv_Meta :: ObjectMeta
  inv_CreationTimestamp :: gotime
  inv_DeletionTimestamp :: "gotime option"
  inv_Spec :: InvestigationRequestSpec
  inv_Status :: InvestigationRequestStatus

end
