(* ===== verification/StatusBudget.thy ===== *)
theory StatusBudget
  imports InvestigationTypes
begin

text \<open>
  The size limits of an investigation's status (\<^verbatim>\<open>internal/statusbudget/limits.go\<close>): texts are cut at a rune
  boundary, claims and references are limited in number, and the last references, then the last claims, are
  dropped while the JSON of the status is too long.  The length of that JSON is the parameter \<open>marshal\<close>
  (\<open>None\<close> when it cannot be encoded).
\<close>

subsection \<open>UTF-8\<close>

definition byteIn :: "nat \<Rightarrow> nat \<Rightarrow> char \<Rightarrow> bool" where
  "byteIn lo hi c \<longleftrightarrow> lo \<le> byte c \<and> byte c \<le> hi"

text \<open>
  The size that \<^verbatim>\<open>utf8.DecodeRuneInString\<close> returns: 0 for the empty string, 1 for an ASCII byte and for any
  invalid encoding, otherwise the length of the encoding.  The second byte of some leading bytes has a smaller
  range, which excludes overlong forms, surrogates and values above the last code point.
\<close>

definition secondRange :: "nat \<Rightarrow> nat \<times> nat" where
  "secondRange b = (if b = 0xE0 then (0xA0, 0xBF) else if b = 0xED then (0x80, 0x9F)
     else if b = 0xF0 then (0x90, 0xBF) else if b = 0xF4 then (0x80, 0x8F) else (0x80, 0xBF))"

definition leadSize :: "nat \<Rightarrow> nat" where
  "leadSize b = (if 0xC2 \<le> b \<and> b \<le> 0xDF then 2 else if 0xE0 \<le> b \<and> b \<le> 0xEF then 3
     else if 0xF0 \<le> b \<and> b \<le> 0xF4 then 4 else 1)"

definition runeSize :: "string \<Rightarrow> nat" where
  "runeSize s = (case s of
      [] \<Rightarrow> 0
    | c # r \<Rightarrow>
        let n = leadSize (byte c); (lo, hi) = secondRange (byte c) in
        if n = 1 \<or> length s < n then 1
        else if \<not> byteIn lo hi (hd r) then 1
        else if list_all (byteIn 0x80 0xBF) (take (n - 2) (tl r)) then n else 1)"

subsection \<open>Limits\<close>

abbreviation MaxEvidenceRefs :: nat where "MaxEvidenceRefs \<equiv> 32"
abbreviation MaxClaims :: nat where "MaxClaims \<equiv> 16"
abbreviation MaxEvidenceSummaryBytes :: int where "MaxEvidenceSummaryBytes \<equiv> 1024"
abbreviation MaxClaimStatementBytes :: int where "MaxClaimStatementBytes \<equiv> 1024"
abbreviation MaxSummaryBytes :: int where "MaxSummaryBytes \<equiv> 2048"
abbreviation MaxStatusBytes :: nat where "MaxStatusBytes \<equiv> 65536"

lemma runeSize_pos: "s \<noteq> [] \<Longrightarrow> 0 < runeSize s"
  by (cases s) (auto simp: runeSize_def leadSize_def Let_def split: prod.split)

lemma runeSize_le: "runeSize s \<le> length s"
  by (cases s) (auto simp: runeSize_def Let_def split: prod.split)

text \<open>The loop that counts whole runes; \<open>s\<close> is the text from position \<open>retained\<close> on.\<close>

function retainedBytes :: "string \<Rightarrow> nat \<Rightarrow> nat \<Rightarrow> nat" where
  "retainedBytes s retained maxBytes =
     (if s = [] then retained
      else if retained + runeSize s > maxBytes then retained
      else retainedBytes (drop (runeSize s) s) (retained + runeSize s) maxBytes)"
  by pat_completeness auto
termination
  by (relation "measure (\<lambda>(s, _, _). length s)") (auto simp: runeSize_pos)

declare retainedBytes.simps [simp del]

definition TruncateUTF8 :: "string \<Rightarrow> int \<Rightarrow> string \<times> int \<times> int \<times> bool" where
  "TruncateUTF8 value maxBytes =
     (let originalBytes = int (length value) in
      if maxBytes \<le> 0 then ([], wrap32 originalBytes, 0, originalBytes > 0)
      else if originalBytes \<le> maxBytes then (value, wrap32 originalBytes, wrap32 originalBytes, False)
      else
        let retained = retainedBytes value 0 (nat maxBytes) in
        (take retained value, wrap32 originalBytes, wrap32 (int retained), True))"

definition CompactEvidenceRef :: "EvidenceRef \<Rightarrow> EvidenceRef \<times> bool" where
  "CompactEvidenceRef ref =
     (let (summary, originalBytes, retainedBytes, truncated) = TruncateUTF8 (ev_Summary ref) MaxEvidenceSummaryBytes;
          ref = ref\<lparr>ev_Summary := summary\<rparr>;
          ref = (if ev_OriginalBytes ref = 0 then ref\<lparr>ev_OriginalBytes := originalBytes\<rparr> else ref);
          ref = (if truncated \<or> ev_RetainedBytes ref = 0 then ref\<lparr>ev_RetainedBytes := retainedBytes\<rparr> else ref) in
      (ref\<lparr>ev_Truncated := ev_Truncated ref \<or> truncated\<rparr>, truncated))"

definition CompactEvidenceRefs :: "EvidenceRef list \<Rightarrow> EvidenceRef list \<times> bool" where
  "CompactEvidenceRefs refs =
     (let out = map CompactEvidenceRef (take MaxEvidenceRefs refs) in
      (map fst out, length refs > MaxEvidenceRefs \<or> list_ex snd out))"

definition truncateStatusString :: "string \<Rightarrow> int \<Rightarrow> bool \<Rightarrow> string \<times> bool" where
  "truncateStatusString value maxBytes alreadyTruncated =
     (let (out, _, _, truncated) = TruncateUTF8 value maxBytes in (out, alreadyTruncated \<or> truncated))"

type_synonym marshal_fn = "InvestigationRequestStatus \<Rightarrow> nat option"

definition statusSize :: "marshal_fn \<Rightarrow> InvestigationRequestStatus \<Rightarrow> nat" where
  "statusSize marshal status = (case marshal status of None \<Rightarrow> MaxStatusBytes + 1 | Some n \<Rightarrow> n)"

text \<open>The loop over the claims.\<close>

fun truncateStatements :: "RCAClaim list \<Rightarrow> bool \<Rightarrow> RCAClaim list \<times> bool" where
  "truncateStatements [] truncated = ([], truncated)"
| "truncateStatements (c # cs) truncated =
     (let (statement, truncated) = truncateStatusString (rcl_Statement c) MaxClaimStatementBytes truncated;
          (cs, truncated) = truncateStatements cs truncated in
      (c\<lparr>rcl_Statement := statement\<rparr> # cs, truncated))"

text \<open>The loop over the size; every step drops a reference or a claim.\<close>

function shrinkStatus :: "marshal_fn \<Rightarrow> InvestigationRequestStatus \<Rightarrow> bool \<Rightarrow> InvestigationRequestStatus \<times> bool" where
  "shrinkStatus marshal status truncated =
     (if statusSize marshal status \<le> MaxStatusBytes then (status, truncated)
      else if ist_EvidenceRefs status \<noteq> [] then
        shrinkStatus marshal (status\<lparr>ist_EvidenceRefs := butlast (ist_EvidenceRefs status)\<rparr>) True
      else if ist_Claims status \<noteq> [] then
        shrinkStatus marshal (status\<lparr>ist_Claims := butlast (ist_Claims status)\<rparr>) True
      else (status, True))"
  by pat_completeness auto
termination
  by (relation "measure (\<lambda>(_, s, _). length (ist_EvidenceRefs s) + length (ist_Claims s))") auto

declare shrinkStatus.simps [simp del]

text \<open>The limits on texts and numbers, before the loop over the size.\<close>

definition limitStatus :: "InvestigationRequestStatus \<Rightarrow> InvestigationRequestStatus \<times> bool" where
  "limitStatus status =
     (let (summary, truncated) = truncateStatusString (ist_Summary status) MaxSummaryBytes False;
          (hypothesis, truncated) = truncateStatusString (ist_Hypothesis status) MaxSummaryBytes truncated;
          (verdict, truncated) = (case ist_Verdict status of None \<Rightarrow> (None, truncated)
            | Some v \<Rightarrow>
                let (text, truncated) = truncateStatusString (rvd_Summary v) MaxSummaryBytes truncated in
                (Some (v\<lparr>rvd_Summary := text\<rparr>), truncated));
          (failure, truncated) = (case ist_Failure status of None \<Rightarrow> (None, truncated)
            | Some f \<Rightarrow>
                let (text, truncated) = truncateStatusString (ifl_Message f) MaxSummaryBytes truncated in
                (Some (f\<lparr>ifl_Message := text\<rparr>), truncated));
          (claims, truncated) = truncateStatements (ist_Claims status) truncated;
          truncated = (truncated \<or> length claims > MaxClaims);
          (compacted, refsTruncated) = CompactEvidenceRefs (ist_EvidenceRefs status) in
      (status\<lparr>ist_Summary := summary, ist_Hypothesis := hypothesis, ist_Verdict := verdict, ist_Failure := failure,
         ist_Claims := take MaxClaims claims,
         ist_EvidenceRefs := (if refsTruncated then compacted else ist_EvidenceRefs status)\<rparr>,
       truncated \<or> refsTruncated))"

definition EnforceInvestigationStatus :: "marshal_fn \<Rightarrow> InvestigationRequestStatus \<Rightarrow> InvestigationRequestStatus \<times> bool" where
  "EnforceInvestigationStatus marshal status =
     (let (status, truncated) = limitStatus status in shrinkStatus marshal status truncated)"

subsection \<open>Truncation\<close>

text \<open>
  Well-formed UTF-8, the specification: a sequence of runes, each an ASCII byte or a multi-byte encoding that the
  decoder accepts.
\<close>

function validUTF8 :: "string \<Rightarrow> bool" where
  "validUTF8 s = (if s = [] then True
     else if byte (hd s) < 0x80 \<or> 2 \<le> runeSize s then validUTF8 (drop (runeSize s) s) else False)"
  by pat_completeness auto
termination
  by (relation "measure length") (auto simp: runeSize_pos)

declare validUTF8.simps [simp del]

lemma validUTF8_rune:
  "s \<noteq> [] \<Longrightarrow> validUTF8 s \<longleftrightarrow> (byte (hd s) < 0x80 \<or> 2 \<le> runeSize s) \<and> validUTF8 (drop (runeSize s) s)"
  by (subst validUTF8.simps) simp

lemma validUTF8_Nil [simp]: "validUTF8 []"
  by (simp add: validUTF8.simps)

lemma leadSize_cases: "leadSize b = 1 \<or> leadSize b \<in> {2, 3, 4}"
  by (simp add: leadSize_def)

lemma runeSize_cases: "s \<noteq> [] \<Longrightarrow> runeSize s = 1 \<or> runeSize s = leadSize (byte (hd s))"
  by (cases s) (simp_all add: runeSize_def Let_def split: prod.split)

lemma runeSize_prefix:
  assumes "runeSize s \<le> length p" "prefix p s" "s \<noteq> []"
  shows "runeSize p = runeSize s"
proof -
  have "p \<noteq> []" using assms(1,3) runeSize_pos by fastforce
  then obtain c q r where p: "p = c # q" and s: "s = c # r" and qr: "prefix q r"
    using assms(2) by (cases p; cases s) auto
  let ?n = "leadSize (byte c)"
  consider "?n = 1" | "?n \<noteq> 1" "length p < ?n" | "?n \<noteq> 1" "?n \<le> length p" by linarith
  then show ?thesis
  proof cases
    case 2
    then have "runeSize s = 1" using runeSize_cases [OF assms(3)] assms(1) s by auto
    then show ?thesis using 2 by (simp add: runeSize_def p)
  next
    case 3
    then have "2 \<le> ?n" using leadSize_cases [of "byte c"] by auto
    then obtain d q' where q: "q = d # q'" using 3(2) p by (cases q) auto
    then obtain r' where r: "r = d # r'" "prefix q' r'" using qr by (cases r) auto
    have "take (?n - 2) q' = take (?n - 2) r'"
      using r(2) 3(2) p q by (auto elim!: prefixE)
    moreover have "length p \<le> length s" using assms(2) by (rule prefix_length_le)
    ultimately show ?thesis using 3 p s q r(1) by (simp add: runeSize_def Let_def split: prod.split)
  qed (simp add: runeSize_def p s split: prod.split)
qed

lemma retainedBytes_spec:
  "retained \<le> maxBytes \<Longrightarrow>
   retained \<le> retainedBytes s retained maxBytes \<and> retainedBytes s retained maxBytes \<le> maxBytes \<and>
   retainedBytes s retained maxBytes \<le> retained + length s \<and>
   (retainedBytes s retained maxBytes < retained + length s \<longrightarrow>
      maxBytes < retainedBytes s retained maxBytes + runeSize (drop (retainedBytes s retained maxBytes - retained) s)) \<and>
   (validUTF8 s \<longrightarrow> validUTF8 (take (retainedBytes s retained maxBytes - retained) s) \<and>
      validUTF8 (drop (retainedBytes s retained maxBytes - retained) s))"
proof (induction s retained maxBytes rule: retainedBytes.induct)
  case (1 s retained maxBytes)
  let ?n = "runeSize s"
  consider "s = []" | "s \<noteq> []" "retained + ?n > maxBytes" | "s \<noteq> []" "retained + ?n \<le> maxBytes" by linarith
  then show ?case
  proof cases
    case 1
    then show ?thesis using "1.prems" by (simp add: retainedBytes.simps)
  next
    case 2
    then have "retainedBytes s retained maxBytes = retained" by (simp add: retainedBytes.simps)
    then show ?thesis using 2 "1.prems" by simp
  next
    case 3
    let ?r = "retainedBytes (drop ?n s) (retained + ?n) maxBytes"
    have eq: "retainedBytes s retained maxBytes = ?r" using 3 by (subst retainedBytes.simps) simp
    have ih: "retained + ?n \<le> ?r" "?r \<le> maxBytes" "?r \<le> retained + ?n + length (drop ?n s)"
      "?r < retained + ?n + length (drop ?n s) \<longrightarrow> maxBytes < ?r + runeSize (drop (?r - (retained + ?n)) (drop ?n s))"
      "validUTF8 (drop ?n s) \<longrightarrow> validUTF8 (take (?r - (retained + ?n)) (drop ?n s)) \<and>
         validUTF8 (drop (?r - (retained + ?n)) (drop ?n s))"
      using "1.IH" [OF 3(1) _ 3(2)] 3(2) by (auto simp del: drop_drop length_drop)
    have n: "?n \<le> length s" "0 < ?n" using runeSize_le runeSize_pos 3(1) by auto
    have m: "?r - retained = ?n + (?r - (retained + ?n))" using ih(1) by simp
    have split: "take (?r - retained) s = take ?n s @ take (?r - (retained + ?n)) (drop ?n s)"
      "drop (?r - retained) s = drop (?r - (retained + ?n)) (drop ?n s)"
      using m by (simp_all add: take_add drop_drop add.commute)
    have valid: "validUTF8 (take (?r - retained) s)" if "validUTF8 s"
    proof -
      let ?t = "take (?r - retained) s"
      have "?n \<le> length ?t" using ih(1) n(1) by simp
      then have size: "runeSize ?t = ?n" by (rule runeSize_prefix) (simp_all add: take_is_prefix 3(1))
      have "validUTF8 (drop ?n s)" "byte (hd s) < 0x80 \<or> 2 \<le> ?n" 
        using that validUTF8_rune [OF 3(1)] by blast+
      moreover have "hd ?t = hd s" using n ih(1) 3(1) by (intro hd_take) simp
      moreover have "drop ?n ?t = take (?r - (retained + ?n)) (drop ?n s)" using split(1) n(1) by simp
      moreover have "?t \<noteq> []" using n ih(1) 3(1) by simp
      ultimately show ?thesis using ih(5) size validUTF8_rune [of ?t] by simp
    qed
    have tail: "validUTF8 (drop ?n s)" if "validUTF8 s"
      using that validUTF8_rune [OF 3(1)] by blast
    have len: "retained + ?n + length (drop ?n s) = retained + length s" using n(1) by simp
    have cut: "?r < retained + length s \<longrightarrow> maxBytes < ?r + runeSize (drop (?r - retained) s)"
      using ih(4) unfolding len split(2) .
    have "retained \<le> ?r" "?r \<le> retained + length s" using ih(1,3) len by simp_all
    moreover have "validUTF8 (drop (?r - retained) s)" if "validUTF8 s" using ih(5) tail [OF that] split(2) by simp
    ultimately show ?thesis
      unfolding eq using ih(2) cut valid by blast
  qed
qed

lemma truncate_report:
  assumes "TruncateUTF8 v m = (out, original, retained, truncated)"
  shows "prefix out v \<and> int (length out) \<le> max 0 m \<and> original = wrap32 (int (length v)) \<and>
    retained = wrap32 (int (length out)) \<and> truncated = (out \<noteq> v) \<and>
    (validUTF8 v \<longrightarrow> validUTF8 out) \<and>
    (out = v \<or> max 0 m < int (length out + runeSize (drop (length out) v)))"
proof -
  consider "m \<le> 0" | "0 < m" "int (length v) \<le> m" | "0 < m" "m < int (length v)" by linarith
  then show ?thesis
  proof cases
    case 1
    have "v = [] \<or> 0 < runeSize v" by (cases "v = []") (simp_all add: runeSize_pos)
    moreover have "out = []" "original = wrap32 (int (length v))" "retained = 0" "truncated = (v \<noteq> [])"
      using assms 1 by (simp_all add: TruncateUTF8_def Let_def)
    ultimately show ?thesis using 1 by (auto simp: wrap32_def max_def)
  next
    case 2
    then have "out = v" "original = wrap32 (int (length v))" "retained = wrap32 (int (length v))" "\<not> truncated"
      using assms by (auto simp: TruncateUTF8_def Let_def)
    then show ?thesis using 2 by simp
  next
    case 3
    let ?r = "retainedBytes v 0 (nat m)"
    have spec: "?r \<le> nat m" "?r < length v \<longrightarrow> nat m < ?r + runeSize (drop ?r v)" "validUTF8 v \<longrightarrow> validUTF8 (take ?r v)"
      using retainedBytes_spec [of 0 "nat m" v] by simp_all
    have less: "?r < length v" using spec(1) 3 by linarith
    then have "take ?r v \<noteq> v" by (simp add: not_le)
    moreover have "max 0 m < int (?r + runeSize (drop ?r v))" using spec(2) less 3 by linarith
    moreover have "int ?r \<le> max 0 m" using spec(1) 3 by linarith
    moreover have "out = take ?r v" "original = wrap32 (int (length v))" "retained = wrap32 (int ?r)" "truncated"
      using assms 3 by (simp_all add: TruncateUTF8_def Let_def)
    ultimately show ?thesis using less spec(3) by (simp add: take_is_prefix)
  qed
qed

text \<open> a text that is cut keeps its beginning, stays within the limit, and is cut as late as whole runes allow;
  well-formed UTF-8 stays well formed; and the report says exactly whether anything was cut.\<close>

theorem truncate_keeps_runes:
  assumes "TruncateUTF8 v m = (out, original, retained, truncated)"
  shows "prefix out v \<and> int (length out) \<le> max 0 m \<and> original = wrap32 (int (length v)) \<and>
    retained = wrap32 (int (length out)) \<and> truncated = (out \<noteq> v) \<and>
    (validUTF8 v \<longrightarrow> validUTF8 out) \<and>
    (out = v \<or> max 0 m < int (length out + runeSize (drop (length out) v)))"
  using assms by (rule truncate_report)

theorem truncate_keeps_runes_witness:
  "TruncateUTF8 [CHR ''a'', CHR 0xC3, CHR 0xA9, CHR ''b''] 2 = (''a'', 4, 1, True) \<and>
   prefix ''a'' [CHR ''a'', CHR 0xC3, CHR 0xA9, CHR ''b'']"
proof -
  have t: "TruncateUTF8 [CHR ''a'', CHR 0xC3, CHR 0xA9, CHR ''b''] 2 = (''a'', 4, 1, True)"
    by (simp add: TruncateUTF8_def retainedBytes.simps runeSize_def leadSize_def secondRange_def byteIn_def byte_def
        wrap32_def Let_def)
  from truncate_keeps_runes [OF t] t show ?thesis by simp
qed

subsection \<open>Limits of a status\<close>

lemma TruncateUTF8_report:
  assumes "TruncateUTF8 v m = (out, n, k, t)" "0 \<le> m"
  shows "t = (out \<noteq> v)" "int (length out) \<le> m" "prefix out v" "int (length v) \<le> m \<Longrightarrow> out = v"
proof -
  show "t = (out \<noteq> v)" "int (length out) \<le> m" "prefix out v"
    using truncate_report [OF assms(1)] assms(2) by simp_all
  show "out = v" if "int (length v) \<le> m" using assms that by (auto simp: TruncateUTF8_def Let_def split: if_splits)
qed

lemma truncateStatusString_spec:
  assumes "truncateStatusString v m t0 = (out, t)" "0 \<le> m"
  shows "t = (t0 \<or> out \<noteq> v)" "int (length out) \<le> m" "prefix out v"
proof -
  obtain o' n k t' where r: "TruncateUTF8 v m = (o', n, k, t')" by (metis prod_cases4)
  then have "out = o'" "t = (t0 \<or> t')" using assms(1) by (simp_all add: truncateStatusString_def)
  then show "t = (t0 \<or> out \<noteq> v)" "int (length out) \<le> m" "prefix out v"
    using TruncateUTF8_report [OF r assms(2)] by simp_all
qed

lemma truncateStatements_spec:
  "truncateStatements cs t0 = (cs', t) \<Longrightarrow>
     t = (t0 \<or> cs' \<noteq> cs) \<and> length cs' = length cs \<and>
     (\<forall>c\<in>set cs'. int (length (rcl_Statement c)) \<le> MaxClaimStatementBytes) \<and>
     list_all2 (\<lambda>c' c. c' = c\<lparr>rcl_Statement := rcl_Statement c'\<rparr> \<and> prefix (rcl_Statement c') (rcl_Statement c)) cs' cs"
proof (induction cs t0 arbitrary: cs' t rule: truncateStatements.induct)
  case (2 c cs t0)
  obtain st t1 where st: "truncateStatusString (rcl_Statement c) MaxClaimStatementBytes t0 = (st, t1)" by fastforce
  obtain cs1 t2 where rest: "truncateStatements cs t1 = (cs1, t2)" by fastforce
  have res: "cs' = c\<lparr>rcl_Statement := st\<rparr> # cs1" "t = t2" using "2.prems" by (simp_all add: st rest)
  have "c\<lparr>rcl_Statement := st\<rparr> = c \<longleftrightarrow> st = rcl_Statement c" by (cases c) auto
  then show ?case
    using "2.IH" [OF st [symmetric] refl rest] truncateStatusString_spec [OF st] res by auto
qed simp

lemma CompactEvidenceRef_spec:
  "int (length (ev_Summary (fst (CompactEvidenceRef r)))) \<le> MaxEvidenceSummaryBytes \<and>
   ev_ID (fst (CompactEvidenceRef r)) = ev_ID r \<and>
   (\<not> snd (CompactEvidenceRef r) \<longrightarrow> int (length (ev_Summary r)) \<le> MaxEvidenceSummaryBytes)"
proof -
  obtain out n k t where t: "TruncateUTF8 (ev_Summary r) MaxEvidenceSummaryBytes = (out, n, k, t)" by (metis prod_cases4)
  then show ?thesis using TruncateUTF8_report [OF t] by (auto simp: CompactEvidenceRef_def Let_def)
qed

lemma CompactEvidenceRefs_spec:
  assumes "CompactEvidenceRefs rs = (rs', t)" and "out = (if t then rs' else rs)"
  shows "length out \<le> MaxEvidenceRefs" "\<forall>r\<in>set out. int (length (ev_Summary r)) \<le> MaxEvidenceSummaryBytes"
    "map ev_ID out = take MaxEvidenceRefs (map ev_ID rs)" "t = (out \<noteq> rs)"
proof -
  have rs': "rs' = map (\<lambda>r. fst (CompactEvidenceRef r)) (take MaxEvidenceRefs rs)"
    and t: "t \<longleftrightarrow> length rs > MaxEvidenceRefs \<or> (\<exists>r\<in>set (take MaxEvidenceRefs rs). snd (CompactEvidenceRef r))"
    using assms(1) by (auto simp: CompactEvidenceRefs_def Let_def list_ex_iff)
  have changed: "fst (CompactEvidenceRef r) \<noteq> r" if "snd (CompactEvidenceRef r)" for r
  proof -
    obtain o' n k t' where r: "TruncateUTF8 (ev_Summary r) MaxEvidenceSummaryBytes = (o', n, k, t')" by (metis prod_cases4)
    then have "o' \<noteq> ev_Summary r" "ev_Summary (fst (CompactEvidenceRef r)) = o'"
      using that TruncateUTF8_report(1) [OF r] by (auto simp: CompactEvidenceRef_def Let_def)
    then show ?thesis by metis
  qed
  show "length out \<le> MaxEvidenceRefs" using assms(2) t by (auto simp: rs')
  show "\<forall>r\<in>set out. int (length (ev_Summary r)) \<le> MaxEvidenceSummaryBytes"
    using assms(2) t CompactEvidenceRef_spec by (auto simp: rs')
  show "map ev_ID out = take MaxEvidenceRefs (map ev_ID rs)"
    using assms(2) t CompactEvidenceRef_spec by (auto simp: rs' take_map o_def)
  show "t = (out \<noteq> rs)"
  proof (cases "t")
    case True
    have "rs' \<noteq> rs"
    proof
      assume eq: "rs' = rs"
      then have "length rs \<le> MaxEvidenceRefs" unfolding rs' by (metis length_map length_take min.bounded_iff order_refl)
      then have "take MaxEvidenceRefs rs = rs" by simp
      moreover obtain r where "r \<in> set (take MaxEvidenceRefs rs)" "snd (CompactEvidenceRef r)"
        using True t \<open>length rs \<le> MaxEvidenceRefs\<close> by auto
      ultimately show False using eq changed unfolding rs' by (metis in_set_conv_nth length_map nth_map)
    qed
    then show ?thesis using True assms(2) by simp
  qed (simp add: assms(2))
qed

text \<open>The claims of a status after the limits: the first ones, with the beginning of their statements.\<close>

definition cutClaims :: "RCAClaim list \<Rightarrow> RCAClaim list \<Rightarrow> bool" where
  "cutClaims cs' cs \<longleftrightarrow> length cs' \<le> length cs \<and>
     list_all2 (\<lambda>c' c. c' = c\<lparr>rcl_Statement := rcl_Statement c'\<rparr> \<and> prefix (rcl_Statement c') (rcl_Statement c))
       cs' (take (length cs') cs)"

definition textsBounded :: "InvestigationRequestStatus \<Rightarrow> bool" where
  "textsBounded s \<longleftrightarrow> int (length (ist_Summary s)) \<le> MaxSummaryBytes \<and> int (length (ist_Hypothesis s)) \<le> MaxSummaryBytes \<and>
     (case ist_Verdict s of None \<Rightarrow> True | Some v \<Rightarrow> int (length (rvd_Summary v)) \<le> MaxSummaryBytes) \<and>
     (case ist_Failure s of None \<Rightarrow> True | Some f \<Rightarrow> int (length (ifl_Message f)) \<le> MaxSummaryBytes) \<and>
     list_all (\<lambda>c. int (length (rcl_Statement c)) \<le> MaxClaimStatementBytes) (ist_Claims s) \<and>
     list_all (\<lambda>r. int (length (ev_Summary r)) \<le> MaxEvidenceSummaryBytes) (ist_EvidenceRefs s)"

lemma optional_text:
  assumes "(case x of None \<Rightarrow> (None, t0)
      | Some y \<Rightarrow> let (u, t) = truncateStatusString (get y) m t0 in (Some (put y u), t)) = (x', t')"
    and "0 \<le> m" and get_put: "\<And>y u. get (put y u) = u" "\<And>y u. put y u = y \<longleftrightarrow> u = get y"
  shows "t' = (t0 \<or> x' \<noteq> x) \<and> (case x' of None \<Rightarrow> True | Some y \<Rightarrow> int (length (get y)) \<le> m)"
proof (cases x)
  case None
  then show ?thesis using assms(1) by simp
next
  case (Some y)
  obtain u t where r: "truncateStatusString (get y) m t0 = (u, t)" by fastforce
  then have "x' = Some (put y u)" "t' = t" using assms(1) Some by simp_all
  then show ?thesis using truncateStatusString_spec [OF r assms(2)] Some get_put by simp
qed

lemma limitStatus_spec:
  assumes "limitStatus s = (s', t)"
  shows "t = (s' \<noteq> s)" "textsBounded s'" "length (ist_Claims s') \<le> MaxClaims" "length (ist_EvidenceRefs s') \<le> MaxEvidenceRefs"
    "cutClaims (ist_Claims s') (ist_Claims s)" "map ev_ID (ist_EvidenceRefs s') = take MaxEvidenceRefs (map ev_ID (ist_EvidenceRefs s))"
proof -
  obtain a ta where a: "truncateStatusString (ist_Summary s) MaxSummaryBytes False = (a, ta)" by fastforce
  obtain b tb where b: "truncateStatusString (ist_Hypothesis s) MaxSummaryBytes ta = (b, tb)" by fastforce
  obtain v tv where v: "(case ist_Verdict s of None \<Rightarrow> (None, tb)
            | Some v \<Rightarrow> let (text, t) = truncateStatusString (rvd_Summary v) MaxSummaryBytes tb in
                (Some (v\<lparr>rvd_Summary := text\<rparr>), t)) = (v, tv)" by fastforce
  obtain f tf where f: "(case ist_Failure s of None \<Rightarrow> (None, tv)
            | Some f \<Rightarrow> let (text, t) = truncateStatusString (ifl_Message f) MaxSummaryBytes tv in
                (Some (f\<lparr>ifl_Message := text\<rparr>), t)) = (f, tf)" by fastforce
  obtain cs tc where cs: "truncateStatements (ist_Claims s) tf = (cs, tc)" by fastforce
  obtain rs tr where rs: "CompactEvidenceRefs (ist_EvidenceRefs s) = (rs, tr)" by fastforce
  let ?rs = "if tr then rs else ist_EvidenceRefs s"
  have s': "s' = s\<lparr>ist_Summary := a, ist_Hypothesis := b, ist_Verdict := v, ist_Failure := f,
       ist_Claims := take MaxClaims cs, ist_EvidenceRefs := ?rs\<rparr>"
    and t: "t = (tc \<or> length cs > MaxClaims \<or> tr)"
    using assms by (simp_all add: limitStatus_def a b v f cs rs)
  have "x\<lparr>rvd_Summary := z\<rparr> = x \<longleftrightarrow> z = rvd_Summary x" for x :: RCAVerdict and z by (cases x) auto
  then have v': "tv = (tb \<or> v \<noteq> ist_Verdict s) \<and>
      (case v of None \<Rightarrow> True | Some x \<Rightarrow> int (length (rvd_Summary x)) \<le> MaxSummaryBytes)"
    by (intro optional_text [where get = rvd_Summary and put = "\<lambda>x z. x\<lparr>rvd_Summary := z\<rparr>", OF v]) simp_all
  have "x\<lparr>ifl_Message := z\<rparr> = x \<longleftrightarrow> z = ifl_Message x" for x :: InvestigationFailure and z by (cases x) auto
  then have f': "tf = (tv \<or> f \<noteq> ist_Failure s) \<and>
      (case f of None \<Rightarrow> True | Some x \<Rightarrow> int (length (ifl_Message x)) \<le> MaxSummaryBytes)"
    by (intro optional_text [where get = ifl_Message and put = "\<lambda>x z. x\<lparr>ifl_Message := z\<rparr>", OF f]) simp_all
  note texts = truncateStatusString_spec [OF a] truncateStatusString_spec [OF b] v' f' truncateStatements_spec [OF cs]
  note refs = CompactEvidenceRefs_spec [OF rs refl]
  show "textsBounded s'" using texts refs(2) by (auto simp: textsBounded_def s' list_all_iff dest: in_set_takeD)
  show "length (ist_Claims s') \<le> MaxClaims" "length (ist_EvidenceRefs s') \<le> MaxEvidenceRefs"
    "map ev_ID (ist_EvidenceRefs s') = take MaxEvidenceRefs (map ev_ID (ist_EvidenceRefs s))"
    using refs(1,3) by (simp_all add: s')
  have "list_all2 (\<lambda>c' c. c' = c\<lparr>rcl_Statement := rcl_Statement c'\<rparr> \<and> prefix (rcl_Statement c') (rcl_Statement c))
       (take MaxClaims cs) (take MaxClaims (ist_Claims s))"
    using texts by (auto intro: list_all2_takeI)
  then show "cutClaims (ist_Claims s') (ist_Claims s)"
    using texts by (auto simp: cutClaims_def s' min_def)
  have "take MaxClaims cs = ist_Claims s \<longleftrightarrow> cs = ist_Claims s \<and> length cs \<le> MaxClaims"
  proof
    assume eq: "take MaxClaims cs = ist_Claims s"
    have "length (take MaxClaims cs) = length cs" using eq texts by simp
    then have "length cs \<le> MaxClaims" by simp
    then show "cs = ist_Claims s \<and> length cs \<le> MaxClaims" using eq by simp
  qed auto
  moreover have "s' = s \<longleftrightarrow> a = ist_Summary s \<and> b = ist_Hypothesis s \<and> v = ist_Verdict s \<and> f = ist_Failure s \<and>
      take MaxClaims cs = ist_Claims s \<and> ?rs = ist_EvidenceRefs s"
    unfolding s' by (cases s) (simp only: InvestigationRequestStatus.simps, blast)
  ultimately show "t = (s' \<noteq> s)" using t texts refs(4) by auto
qed

lemma shrinkStatus_spec:
  "shrinkStatus marshal s t = (s', t') \<Longrightarrow>
   \<exists>i j. s' = s\<lparr>ist_EvidenceRefs := take i (ist_EvidenceRefs s), ist_Claims := take j (ist_Claims s)\<rparr> \<and>
     (j < length (ist_Claims s) \<longrightarrow> i = 0) \<and>
     (statusSize marshal s' \<le> MaxStatusBytes \<or> ist_EvidenceRefs s' = [] \<and> ist_Claims s' = []) \<and>
     t' = (t \<or> statusSize marshal s > MaxStatusBytes) \<and>
     (statusSize marshal s \<le> MaxStatusBytes \<longrightarrow> s' = s)"
proof (induction marshal s t arbitrary: s' t' rule: shrinkStatus.induct)
  case (1 marshal s t)
  let ?big = "\<not> statusSize marshal s \<le> MaxStatusBytes"
  have same: "s = s\<lparr>ist_EvidenceRefs := take (length (ist_EvidenceRefs s)) (ist_EvidenceRefs s),
      ist_Claims := take (length (ist_Claims s)) (ist_Claims s)\<rparr>" by simp
  consider "\<not> ?big" | "?big" "ist_EvidenceRefs s \<noteq> []" | "?big" "ist_EvidenceRefs s = []" "ist_Claims s \<noteq> []"
    | "?big" "ist_EvidenceRefs s = []" "ist_Claims s = []" by blast
  then show ?case
  proof cases
    case 1
    then have "s' = s" "t' = t" using "1.prems" by (simp_all add: shrinkStatus.simps [of marshal s t])
    then show ?thesis using 1 by (intro exI [of _ "length (ist_EvidenceRefs s)"] exI [of _ "length (ist_Claims s)"]) simp
  next
    case 2
    let ?s = "s\<lparr>ist_EvidenceRefs := butlast (ist_EvidenceRefs s)\<rparr>"
    have "shrinkStatus marshal ?s True = (s', t')" using "1.prems" 2 by (simp add: shrinkStatus.simps [of marshal s t])
    from "1.IH"(1) [OF 2 this] obtain i j where ij:
      "s' = ?s\<lparr>ist_EvidenceRefs := take i (ist_EvidenceRefs ?s), ist_Claims := take j (ist_Claims ?s)\<rparr>"
      "j < length (ist_Claims ?s) \<longrightarrow> i = 0"
      "statusSize marshal s' \<le> MaxStatusBytes \<or> ist_EvidenceRefs s' = [] \<and> ist_Claims s' = []"
      "t' = (True \<or> statusSize marshal ?s > MaxStatusBytes)" by blast
    have "take i (butlast (ist_EvidenceRefs s)) = take (min i (length (ist_EvidenceRefs s) - 1)) (ist_EvidenceRefs s)"
      by (simp add: butlast_conv_take min.commute)
    then show ?thesis using ij 2
      by (intro exI [of _ "min i (length (ist_EvidenceRefs s) - 1)"] exI [of _ j]) simp
  next
    case 3
    let ?s = "s\<lparr>ist_Claims := butlast (ist_Claims s)\<rparr>"
    have "shrinkStatus marshal ?s True = (s', t')" using "1.prems" 3 by (simp add: shrinkStatus.simps [of marshal s t])
    from "1.IH"(2) [OF 3(1) _ 3(3) this] obtain i j where ij:
      "s' = ?s\<lparr>ist_EvidenceRefs := take i (ist_EvidenceRefs ?s), ist_Claims := take j (ist_Claims ?s)\<rparr>"
      "statusSize marshal s' \<le> MaxStatusBytes \<or> ist_EvidenceRefs s' = [] \<and> ist_Claims s' = []"
      "t' = (True \<or> statusSize marshal ?s > MaxStatusBytes)" using 3(2) by blast
    have "take j (butlast (ist_Claims s)) = take (min j (length (ist_Claims s) - 1)) (ist_Claims s)"
      by (simp add: butlast_conv_take min.commute)
    then show ?thesis using ij 3
      by (intro exI [of _ 0] exI [of _ "min j (length (ist_Claims s) - 1)"]) simp
  next
    case 4
    then have "s' = s" "t'" using "1.prems" by (simp_all add: shrinkStatus.simps [of marshal s t])
    then show ?thesis using 4 by (intro exI [of _ 0]) simp
  qed
qed

lemma enforced_limits:
  assumes "EnforceInvestigationStatus marshal s = (s', truncated)"
  shows "length (ist_EvidenceRefs s') \<le> 32 \<and> length (ist_Claims s') \<le> 16 \<and> textsBounded s' \<and>
    (statusSize marshal s' \<le> 65536 \<or> ist_EvidenceRefs s' = [] \<and> ist_Claims s' = []) \<and>
    prefix (map ev_ID (ist_EvidenceRefs s')) (map ev_ID (ist_EvidenceRefs s)) \<and>
    cutClaims (ist_Claims s') (ist_Claims s) \<and>
    (length (ist_Claims s') = min 16 (length (ist_Claims s)) \<or> ist_EvidenceRefs s' = []) \<and>
    (\<not> truncated) = (s' = s \<and> statusSize marshal s \<le> 65536)"
proof -
  obtain s1 t1 where l: "limitStatus s = (s1, t1)" by fastforce
  note lim = limitStatus_spec [OF l]
  have "shrinkStatus marshal s1 t1 = (s', truncated)" using assms by (simp add: EnforceInvestigationStatus_def l)
  from shrinkStatus_spec [OF this] obtain i j where
    s': "s' = s1\<lparr>ist_EvidenceRefs := take i (ist_EvidenceRefs s1), ist_Claims := take j (ist_Claims s1)\<rparr>"
    and dropped: "j < length (ist_Claims s1) \<longrightarrow> i = 0"
    and size: "statusSize marshal s' \<le> MaxStatusBytes \<or> ist_EvidenceRefs s' = [] \<and> ist_Claims s' = []"
    and t: "truncated = (t1 \<or> statusSize marshal s1 > MaxStatusBytes)"
    and same: "statusSize marshal s1 \<le> MaxStatusBytes \<longrightarrow> s' = s1" by blast
  have refs: "map ev_ID (ist_EvidenceRefs s') = take i (take MaxEvidenceRefs (map ev_ID (ist_EvidenceRefs s)))"
    using lim(6) by (simp add: s' flip: take_map)
  have claims: "cutClaims (ist_Claims s') (ist_Claims s)"
  proof -
    have "list_all2 P (take j xs) (take j ys)" if "list_all2 P xs ys" for P xs and ys :: "RCAClaim list"
      using that by (rule list_all2_takeI)
    then show ?thesis using lim(5) by (fastforce simp: cutClaims_def s' min_def)
  qed
  have "length (ist_Claims s1) = min 16 (length (ist_Claims s))"
    using l by (auto simp: limitStatus_def split: prod.splits dest!: truncateStatements_spec)
  then have "length (ist_Claims s') = min 16 (length (ist_Claims s)) \<or> ist_EvidenceRefs s' = []"
    using dropped by (cases "j < length (ist_Claims s1)") (auto simp: s' min_def)
  moreover have "textsBounded s'" using lim(2) by (auto simp: textsBounded_def s' list_all_iff dest: in_set_takeD)
  moreover have "(\<not> truncated) = (s' = s \<and> statusSize marshal s \<le> 65536)"
  proof
    assume "\<not> truncated"
    then show "s' = s \<and> statusSize marshal s \<le> 65536" using t lim(1) same by simp
  next
    assume eq: "s' = s \<and> statusSize marshal s \<le> 65536"
    have "length (ist_EvidenceRefs s1) \<le> length (ist_EvidenceRefs s)" using arg_cong [OF lim(6), of length] by simp
    moreover have "length (ist_Claims s1) \<le> length (ist_Claims s)" using lim(5) by (simp add: cutClaims_def)
    moreover have "take i (ist_EvidenceRefs s1) = ist_EvidenceRefs s" "take j (ist_Claims s1) = ist_Claims s"
    proof -
      have "ist_EvidenceRefs s' = ist_EvidenceRefs s" "ist_Claims s' = ist_Claims s" using eq by simp_all
      then show "take i (ist_EvidenceRefs s1) = ist_EvidenceRefs s" "take j (ist_Claims s1) = ist_Claims s"
        unfolding s' by simp_all
    qed
    then have "min (length (ist_EvidenceRefs s1)) i = length (ist_EvidenceRefs s)"
      "min (length (ist_Claims s1)) j = length (ist_Claims s)" by (metis length_take)+
    ultimately have "length (ist_EvidenceRefs s1) \<le> i" "length (ist_Claims s1) \<le> j" by linarith+
    then have "s' = s1" by (simp add: s')
    then have "s1 = s" using eq by simp
    then show "\<not> truncated" using eq t lim(1) by simp
  qed
  moreover have "prefix (map ev_ID (ist_EvidenceRefs s')) (map ev_ID (ist_EvidenceRefs s))"
    unfolding refs by (metis take_is_prefix prefix_order.trans)
  moreover have "length (ist_EvidenceRefs s') \<le> 32" "length (ist_Claims s') \<le> 16"
    using lim(3,4) by (auto simp: s' min_def)
  ultimately show ?thesis using size claims by blast
qed


definition emptyInvestigationStatus :: InvestigationRequestStatus where
  "emptyInvestigationStatus = \<lparr>ist_ResourceStatus = emptyResourceStatus, ist_Outcome = [], ist_Failure = None,
     ist_Summary = [], ist_Hypothesis = [], ist_Confidence = Finite 0, ist_Provider = [], ist_Verdict = None,
     ist_EvidenceCoverage = None, ist_Claims = [], ist_AlternativeHypotheses = [], ist_MissingEvidence = [],
     ist_Degradation = None, ist_Execution = None, ist_StartedAt = None, ist_CompletedAt = None, ist_EvidenceRefs = [],
     ist_Lineage = None, ist_LinkedRiskSignalRef = None, ist_Conditions = []\<rparr>"

definition demoClaim :: RCAClaim where
  "demoClaim = \<lparr>rcl_ID = ''c1'', rcl_Statement = ''s'', rcl_EvidenceRefs = [''e2''], rcl_EvidenceLinks = [],
     rcl_Verification = ''Supported''\<rparr>"

definition demoBudgetStatus :: InvestigationRequestStatus where
  "demoBudgetStatus = emptyInvestigationStatus\<lparr>ist_Claims := [demoClaim],
     ist_EvidenceRefs := [emptyEvidenceRef\<lparr>ev_ID := ''e1''\<rparr>, emptyEvidenceRef\<lparr>ev_ID := ''e2''\<rparr>]\<rparr>"

text \<open>A JSON length that is too long with two references.\<close>

definition demoMarshal :: marshal_fn where
  "demoMarshal s = Some (32768 * length (ist_EvidenceRefs s) + 1)"

lemma demo_enforced:
  "EnforceInvestigationStatus demoMarshal demoBudgetStatus =
     (demoBudgetStatus\<lparr>ist_EvidenceRefs := [emptyEvidenceRef\<lparr>ev_ID := ''e1''\<rparr>]\<rparr>, True)"
  by (simp add: EnforceInvestigationStatus_def limitStatus_def demoBudgetStatus_def emptyInvestigationStatus_def
      truncateStatusString_def TruncateUTF8_def CompactEvidenceRefs_def CompactEvidenceRef_def emptyEvidenceRef_def
      demoClaim_def shrinkStatus.simps statusSize_def demoMarshal_def Let_def)


text \<open> the limits on references do not look at the claims: a claim can remain that cites a reference which was
  dropped.  Here the second of two references is dropped for size, and the claim that is supported by it
  alone stays.\<close>

theorem budget_leaves_dangling_reference:
  "let s = fst (EnforceInvestigationStatus demoMarshal demoBudgetStatus) in
   map ev_ID (ist_EvidenceRefs s) = [''e1''] \<and> map rcl_EvidenceRefs (ist_Claims s) = [[''e2'']] \<and>
   map rcl_Verification (ist_Claims s) = [''Supported'']"
  unfolding Let_def demo_enforced by (simp add: demoBudgetStatus_def demoClaim_def)

text \<open>Within the limits, the operation is the identity.\<close>

lemma TruncateUTF8_id: "int (length v) \<le> m \<Longrightarrow> 0 < m \<Longrightarrow> TruncateUTF8 v m = (v, wrap32 (int (length v)), wrap32 (int (length v)), False)"
  by (simp add: TruncateUTF8_def Let_def)

lemma truncateStatusString_id: "int (length v) \<le> m \<Longrightarrow> 0 < m \<Longrightarrow> truncateStatusString v m t = (v, t)"
  by (simp add: truncateStatusString_def TruncateUTF8_id)

lemma truncateStatements_id:
  "\<forall>c\<in>set cs. int (length (rcl_Statement c)) \<le> MaxClaimStatementBytes \<Longrightarrow> truncateStatements cs t = (cs, t)"
  by (induction cs arbitrary: t) (simp_all add: truncateStatusString_id)

lemma CompactEvidenceRefs_id:
  "\<forall>r\<in>set rs. int (length (ev_Summary r)) \<le> MaxEvidenceSummaryBytes \<Longrightarrow> length rs \<le> MaxEvidenceRefs \<Longrightarrow>
     \<not> snd (CompactEvidenceRefs rs)"
  by (auto simp: CompactEvidenceRefs_def CompactEvidenceRef_def TruncateUTF8_id list_ex_iff Let_def)

lemma limitStatus_id:
  assumes "textsBounded s" "length (ist_Claims s) \<le> MaxClaims" "length (ist_EvidenceRefs s) \<le> MaxEvidenceRefs"
  shows "limitStatus s = (s, False)"
proof -
  have "\<not> snd (CompactEvidenceRefs (ist_EvidenceRefs s))"
    using assms(1,3) by (intro CompactEvidenceRefs_id) (simp_all add: textsBounded_def list_all_iff)
  then obtain rs where rs: "CompactEvidenceRefs (ist_EvidenceRefs s) = (rs, False)"
    by (cases "CompactEvidenceRefs (ist_EvidenceRefs s)") simp
  show ?thesis
    using assms(1,2) unfolding textsBounded_def limitStatus_def
    by (simp add: rs truncateStatusString_id truncateStatements_id list_all_iff split: option.splits)
qed

lemma shrinkStatus_id:
  assumes "statusSize marshal s \<le> MaxStatusBytes \<or> ist_EvidenceRefs s = [] \<and> ist_Claims s = []"
  shows "fst (shrinkStatus marshal s t) = s"
  using assms by (subst shrinkStatus.simps) auto

text \<open> enforcing the limits a second time changes nothing.\<close>

theorem status_budget_idempotent:
  "fst (EnforceInvestigationStatus marshal (fst (EnforceInvestigationStatus marshal s))) =
   fst (EnforceInvestigationStatus marshal s)"
proof -
  obtain s' t where s': "EnforceInvestigationStatus marshal s = (s', t)" by fastforce
  have "limitStatus s' = (s', False)" "fst (shrinkStatus marshal s' False) = s'"
    using enforced_limits [OF s'] limitStatus_id shrinkStatus_id by blast+
  then show ?thesis unfolding s' fst_conv by (simp add: EnforceInvestigationStatus_def)
qed

end
