(* ===== verification/Solution.thy ===== *)
theory Solution
  imports InvestigationTypes
begin

text \<open>
  Two small planners that only propose: the adaptive plan of further queries (\<^verbatim>\<open>internal/adaptive/planner.go\<close>)
  and the assessment of a solution of an investigation (\<^verbatim>\<open>internal/solution/assessment.go\<close>).
\<close>

subsection \<open>Adaptive plans\<close>

record AdaptiveConfig =
  acf_Enabled :: bool
  acf_AllowedTemplates :: "string list"
  acf_MaxSteps :: int
  acf_MaxQueries :: int

record AdaptiveRequest =
  arq_DesiredTemplates :: "string list"
  arq_Reason :: string

record AdaptiveStep =
  ast_ID :: string
  ast_QueryTemplate :: string
  ast_Reason :: string

record AdaptiveIssue =
  ais_Reason :: string
  ais_Message :: string

record AdaptivePlan =
  apl_Enabled :: bool
  apl_Steps :: "AdaptiveStep list"
  apl_Issue :: "AdaptiveIssue option"

definition issuePlan :: "string \<Rightarrow> string \<Rightarrow> AdaptivePlan" where
  "issuePlan reason message = \<lparr>apl_Enabled = True, apl_Steps = [], apl_Issue = Some \<lparr>ais_Reason = reason, ais_Message = message\<rparr>\<rparr>"

definition stepLimit :: "AdaptiveConfig \<Rightarrow> int" where
  "stepLimit c = (if acf_MaxSteps c \<le> 0 \<or> (acf_MaxQueries c > 0 \<and> acf_MaxQueries c < acf_MaxSteps c)
     then acf_MaxQueries c else acf_MaxSteps c)"

text \<open>The loop over the desired templates with the steps so far.\<close>

fun planLoop :: "string set \<Rightarrow> int \<Rightarrow> string \<Rightarrow> AdaptiveStep list \<Rightarrow> string list \<Rightarrow> AdaptivePlan" where
  "planLoop allowed limit reason steps [] = \<lparr>apl_Enabled = True, apl_Steps = steps, apl_Issue = None\<rparr>"
| "planLoop allowed limit reason steps (t # ts) =
     (let template = TrimSpace t in
      if template = [] then planLoop allowed limit reason steps ts
      else if template \<notin> allowed then
        issuePlan ''TemplateNotAllowed'' (''adaptive query template '' @ quote template @ '' is not allowlisted'')
      else
        let steps = steps @ [\<lparr>ast_ID = ''adaptive-step-'' @ itoa3 (length steps + 1), ast_QueryTemplate = template,
              ast_Reason = TrimSpace reason\<rparr>] in
        if int (length steps) \<ge> limit then \<lparr>apl_Enabled = True, apl_Steps = steps, apl_Issue = None\<rparr>
        else planLoop allowed limit reason steps ts)"

definition allowedTemplates :: "AdaptiveConfig \<Rightarrow> string set" where
  "allowedTemplates c = set (filter (\<lambda>n. n \<noteq> []) (map TrimSpace (acf_AllowedTemplates c)))"

definition PlanSteps :: "AdaptiveConfig \<Rightarrow> AdaptiveRequest \<Rightarrow> AdaptivePlan" where
  "PlanSteps config request =
     (if \<not> acf_Enabled config then \<lparr>apl_Enabled = False, apl_Steps = [], apl_Issue = None\<rparr>
      else if allowedTemplates config = {} then
        issuePlan ''NoAllowedTemplates'' ''adaptive investigation requires explicit allowed templates''
      else if stepLimit config \<le> 0 then
        issuePlan ''BudgetExhausted'' ''adaptive investigation query budget is exhausted''
      else planLoop (allowedTemplates config) (stepLimit config) (arq_Reason request) [] (arq_DesiredTemplates request))"

subsection \<open>Solution assessment\<close>

record SolutionSource =
  sls_Namespace :: string
  sls_Name :: string

record SolutionCandidate =
  slc_ID :: string
  slc_Summary :: string
  slc_ActionType :: string
  slc_Risk :: string
  slc_BlastRadius :: string
  slc_Prerequisites :: "string list"
  slc_RollbackNotes :: "string list"
  slc_EvidenceRefs :: "string list"
  slc_Verification :: string
  slc_ApprovalRequired :: bool
  slc_ExecutionAuthorized :: bool

record Assessment =
  asm_SchemaVersion :: string
  asm_Source :: SolutionSource
  asm_Candidates :: "SolutionCandidate list"

text \<open>The loop over the references of the supported claims, with the references seen so far.\<close>

fun collectRefs :: "string list \<Rightarrow> string list \<Rightarrow> string list" where
  "collectRefs out [] = out"
| "collectRefs out (ref # refs) =
     (let r = TrimSpace ref in
      if r = [] \<or> r \<in> set out then collectRefs out refs else collectRefs (out @ [r]) refs)"

definition supportedEvidenceRefs :: "RCAClaim list \<Rightarrow> string list" where
  "supportedEvidenceRefs claims =
     foldl (\<lambda>out c. if EqualFold (rcl_Verification c) ''Supported'' then collectRefs out (rcl_EvidenceRefs c) else out) [] claims"

definition providerAnswer :: "Investigation \<Rightarrow> RCANormalizedResult option" where
  "providerAnswer request = Option.bind (Option.bind (ist_Execution (inv_Status request)) rex_ProviderResult) rpr_NormalizedResult"

definition Assess :: "Investigation option \<Rightarrow> Assessment" where
  "Assess request =
     (let out = \<lparr>asm_SchemaVersion = ''fluxseer-rca-solution-assessment-v1'',
            asm_Source = \<lparr>sls_Namespace = [], sls_Name = []\<rparr>, asm_Candidates = []\<rparr> in
      case request of None \<Rightarrow> out
      | Some request \<Rightarrow>
          let out = out\<lparr>asm_Source := \<lparr>sls_Namespace = om_Namespace (inv_Meta request), sls_Name = om_Name (inv_Meta request)\<rparr>\<rparr> in
          case providerAnswer request of None \<Rightarrow> out
          | Some normalized \<Rightarrow>
              let summary = TrimSpace (rnr_ActionDescription normalized);
                  summary = (if summary = [] then TrimSpace (rnr_ActionType normalized) else summary) in
              if summary = [] then out
              else
                let evidenceRefs = supportedEvidenceRefs (ist_Claims (inv_Status request)) in
                out\<lparr>asm_Candidates := [\<lparr>slc_ID = ''solution-001'', slc_Summary = summary,
                  slc_ActionType = TrimSpace (rnr_ActionType normalized), slc_Risk = ''Unknown'', slc_BlastRadius = ''Unknown'',
                  slc_Prerequisites = [''human review''], slc_RollbackNotes = rnr_RollbackPlan normalized,
                  slc_EvidenceRefs = evidenceRefs,
                  slc_Verification = (if evidenceRefs = [] then ''Unverified'' else ''Supported''),
                  slc_ApprovalRequired = True, slc_ExecutionAuthorized = False\<rparr>]\<rparr>)"

subsection \<open>What the planners promise\<close>

definition wantedTemplates :: "string list \<Rightarrow> string list" where
  "wantedTemplates ts = filter (\<lambda>t. t \<noteq> []) (map TrimSpace ts)"

definition stepFor :: "string \<Rightarrow> nat \<Rightarrow> string \<Rightarrow> AdaptiveStep" where
  "stepFor reason i t = \<lparr>ast_ID = ''adaptive-step-'' @ itoa3 (i + 1), ast_QueryTemplate = t, ast_Reason = TrimSpace reason\<rparr>"

definition templateIssue :: "string \<Rightarrow> AdaptivePlan" where
  "templateIssue t = issuePlan ''TemplateNotAllowed'' (''adaptive query template '' @ quote t @ '' is not allowlisted'')"

lemma planLoop_spec:
  "int (length steps) < limit \<Longrightarrow> planLoop allowed limit reason steps ts =
     (let now = take (nat limit - length steps) (wantedTemplates ts) in
      case find (\<lambda>t. t \<notin> allowed) now of
        Some t \<Rightarrow> templateIssue t
      | None \<Rightarrow> \<lparr>apl_Enabled = True, apl_Steps = steps @ map (\<lambda>(i, t). stepFor reason i t) (enumerate (length steps) now),
          apl_Issue = None\<rparr>)"
proof (induction ts arbitrary: steps)
  case Nil
  then show ?case by (simp add: wantedTemplates_def)
next
  case (Cons t ts)
  let ?t = "TrimSpace t" and ?k = "nat limit - length steps"
  obtain k where k: "?k = Suc k" using Cons.prems by (metis Suc_diff_Suc nat_less_iff of_nat_0_le_iff zless_nat_eq_int_zless)
  let ?steps = "steps @ [stepFor reason (length steps) ?t]"
  consider "?t = []" | "?t \<noteq> []" "?t \<notin> allowed" | "?t \<noteq> []" "?t \<in> allowed" "limit \<le> int (length ?steps)"
    | "?t \<noteq> []" "?t \<in> allowed" "int (length ?steps) < limit" by linarith
  then show ?case
  proof cases
    case 1
    then show ?thesis using Cons by (simp add: wantedTemplates_def)
  next
    case 2
    then show ?thesis by (simp add: wantedTemplates_def k templateIssue_def Let_def)
  next
    case 3
    then have "k = 0" using k Cons.prems by simp
    then show ?thesis using 3 by (simp add: wantedTemplates_def k stepFor_def Let_def)
  next
    case 4
    have "nat limit - length ?steps = k" using k by simp
    then show ?thesis using 4 Cons.IH [OF 4(3)]
      by (simp add: wantedTemplates_def k stepFor_def Let_def split: option.splits)
  qed
qed

lemma PlanSteps_spec:
  "PlanSteps c r =
     (if \<not> acf_Enabled c then \<lparr>apl_Enabled = False, apl_Steps = [], apl_Issue = None\<rparr>
      else if allowedTemplates c = {} then
        issuePlan ''NoAllowedTemplates'' ''adaptive investigation requires explicit allowed templates''
      else if stepLimit c \<le> 0 then
        issuePlan ''BudgetExhausted'' ''adaptive investigation query budget is exhausted''
      else let now = take (nat (stepLimit c)) (wantedTemplates (arq_DesiredTemplates r)) in
        case find (\<lambda>t. t \<notin> allowedTemplates c) now of
          Some t \<Rightarrow> templateIssue t
        | None \<Rightarrow> \<lparr>apl_Enabled = True, apl_Steps = map (\<lambda>(i, t). stepFor (arq_Reason r) i t) (enumerate 0 now), apl_Issue = None\<rparr>)"
  using planLoop_spec [of "[]" "stepLimit c" "allowedTemplates c" "arq_Reason r" "arq_DesiredTemplates r"]
  by (auto simp: PlanSteps_def Let_def split: option.split)

text \<open> an adaptive plan stays within its allowlist and its budgets: it has steps only when enabled and without an
  issue, at most \<^verbatim>\<open>MaxSteps\<close> of them when that is positive and at most \<^verbatim>\<open>MaxQueries\<close> when that is positive, the
  steps are the first desired templates in their order, all of them allowlisted, and one template outside
  the allowlist among these leaves no step at all.\<close>

theorem adaptive_plan_within_budget:
  "(let p = PlanSteps c r; n = length (apl_Steps p) in
    (apl_Steps p = [] \<or> acf_Enabled c = True \<and> apl_Issue p = None) \<and>
    (int n \<le> acf_MaxSteps c \<or> acf_MaxSteps c \<le> 0) \<and> (int n \<le> acf_MaxQueries c \<or> acf_MaxQueries c \<le> 0) \<and>
    map ast_QueryTemplate (apl_Steps p) = take n (wantedTemplates (arq_DesiredTemplates r)) \<and>
    set (map ast_QueryTemplate (apl_Steps p)) \<subseteq> allowedTemplates c \<and>
    (apl_Steps p = [] \<or> set (take (nat (stepLimit c)) (wantedTemplates (arq_DesiredTemplates r))) \<subseteq> allowedTemplates c))"
proof -
  have none: ?thesis if "apl_Steps (PlanSteps c r) = []" using that by (simp add: Let_def) linarith
  let ?now = "take (nat (stepLimit c)) (wantedTemplates (arq_DesiredTemplates r))"
  show ?thesis
  proof (cases "apl_Steps (PlanSteps c r) = []")
    case False
    have enabled: "acf_Enabled c" "0 < stepLimit c" and ok: "find (\<lambda>t. t \<notin> allowedTemplates c) ?now = None"
      and p: "PlanSteps c r = \<lparr>apl_Enabled = True, apl_Steps = map (\<lambda>(i, t). stepFor (arq_Reason r) i t) (enumerate 0 ?now),
        apl_Issue = None\<rparr>"
      using False unfolding PlanSteps_spec
      by (auto simp: issuePlan_def templateIssue_def Let_def split: if_splits option.splits)
    have "ast_QueryTemplate \<circ> (\<lambda>(i, t). stepFor (arq_Reason r) i t) = snd" by (auto simp: stepFor_def)
    then have templates: "map ast_QueryTemplate (apl_Steps (PlanSteps c r)) = ?now" by (simp add: p)
    then have n: "length (apl_Steps (PlanSteps c r)) = length ?now" by (metis length_map)
    have "int (length ?now) \<le> stepLimit c" using enabled(2) by simp
    moreover have "set ?now \<subseteq> allowedTemplates c" using ok by (auto simp: find_None_iff)
    moreover have "?now = take (length ?now) (wantedTemplates (arq_DesiredTemplates r))" by (simp add: min_def)
    moreover have "apl_Issue (PlanSteps c r) = None" by (simp add: p)
    ultimately show ?thesis
      using enabled unfolding Let_def templates n stepLimit_def by (auto split: if_splits)
  qed (rule none)
qed

lemma collectRefs_spec:
  "distinct out \<Longrightarrow> distinct (collectRefs out refs) \<and>
     set (collectRefs out refs) = set out \<union> {r. r \<noteq> [] \<and> r \<in> TrimSpace ` set refs}"
  by (induction out refs rule: collectRefs.induct) (auto simp: Let_def)

lemma supportedEvidenceRefs_spec:
  "distinct (supportedEvidenceRefs claims) \<and>
   set (supportedEvidenceRefs claims) = {r. r \<noteq> [] \<and> (\<exists>c\<in>set claims. EqualFold (rcl_Verification c) ''Supported'' \<and>
     r \<in> TrimSpace ` set (rcl_EvidenceRefs c))}"
proof -
  have "distinct out \<Longrightarrow>
     distinct (foldl (\<lambda>out c. if EqualFold (rcl_Verification c) ''Supported'' then collectRefs out (rcl_EvidenceRefs c) else out) out claims) \<and>
     set (foldl (\<lambda>out c. if EqualFold (rcl_Verification c) ''Supported'' then collectRefs out (rcl_EvidenceRefs c) else out) out claims) =
     set out \<union> {r. r \<noteq> [] \<and> (\<exists>c\<in>set claims. EqualFold (rcl_Verification c) ''Supported'' \<and>
       r \<in> TrimSpace ` set (rcl_EvidenceRefs c))}" for out
    by (induction claims arbitrary: out) (use collectRefs_spec in auto)
  from this [of "[]"] show ?thesis by (simp add: supportedEvidenceRefs_def)
qed

text \<open> an assessed solution is a proposal only: there is at most one candidate, it always asks for approval and is
  never authorised for execution, and it counts as supported exactly when some claim that is verified as
  supported cites a reference; it cites exactly these references, each once.\<close>

theorem assessment_never_authorises:
  "length (asm_Candidates (Assess request)) \<le> 1 \<and>
   list_all (\<lambda>k. slc_ApprovalRequired k \<and> \<not> slc_ExecutionAuthorized k \<and> slc_Summary k \<noteq> [] \<and>
     distinct (slc_EvidenceRefs k) \<and>
     set (slc_EvidenceRefs k) = {r. r \<noteq> [] \<and> (\<exists>c\<in>set (ist_Claims (inv_Status (the request))).
        EqualFold (rcl_Verification c) ''Supported'' \<and> r \<in> TrimSpace ` set (rcl_EvidenceRefs c))} \<and>
     slc_Verification k = (if slc_EvidenceRefs k = [] then ''Unverified'' else ''Supported''))
     (asm_Candidates (Assess request))"
  unfolding supportedEvidenceRefs_spec [THEN conjunct2, symmetric]
  by (auto simp: Assess_def Let_def supportedEvidenceRefs_spec [THEN conjunct1] split: option.split)

end
