(* ===== verification/Floats.thy ===== *)
theory Floats
  imports DomainTypes
begin

text \<open>
  What the code uses of \<^verbatim>\<open>float64\<close>: comparison, conversion of integers, \<^verbatim>\<open>strconv.ParseFloat\<close> and the verb
  \<^verbatim>\<open>%.2f\<close>.  A finite value is its exact rational; the sign of a zero is not kept.
\<close>

subsection \<open>Comparison\<close>

text \<open>\<^verbatim>\<open>Infinite True\<close> is the positive infinity.  A comparison with \<^verbatim>\<open>NaN\<close> is false.\<close>

fun floatLess :: "float64 \<Rightarrow> float64 \<Rightarrow> bool" where
  "floatLess NaN _ = False"
| "floatLess _ NaN = False"
| "floatLess (Finite a) (Finite b) = (a < b)"
| "floatLess (Finite _) (Infinite pos) = pos"
| "floatLess (Infinite pos) (Finite _) = (\<not> pos)"
| "floatLess (Infinite p) (Infinite q) = (\<not> p \<and> q)"

definition floatLeq :: "float64 \<Rightarrow> float64 \<Rightarrow> bool" where
  "floatLeq a b = (floatLess a b \<or> a \<noteq> NaN \<and> a = b)"

subsection \<open>Rounding to 53 bits\<close>

definition roundHalfEven :: "rat \<Rightarrow> int" where
  "roundHalfEven q = (let f = \<lfloor>q\<rfloor>; r = q - of_int f in
     if r < 1/2 then f else if r > 1/2 then f + 1 else if even f then f else f + 1)"

function bitLength :: "int \<Rightarrow> int" where
  "bitLength n = (if n \<le> 0 then 0 else 1 + bitLength (n div 2))"
  by pat_completeness auto
termination by (relation "measure nat") auto

declare bitLength.simps [simp del]

definition pow2 :: "int \<Rightarrow> rat" where
  "pow2 e = (if 0 \<le> e then 2 ^ nat e else 1 / 2 ^ nat (- e))"

text \<open>The position of the leading bit of a positive rational.\<close>

definition binaryExponent :: "rat \<Rightarrow> int" where
  "binaryExponent q =
     (let (n, d) = quotient_of q; k = bitLength n - bitLength d in
      if q < pow2 k then k - 1 else k)"

text \<open>The nearest \<^verbatim>\<open>float64\<close>, ties to even, with gradual underflow; \<open>None\<close> is an overflow.\<close>

definition roundFloat :: "rat \<Rightarrow> rat option" where
  "roundFloat q =
     (if q = 0 then Some 0
      else
        let unit = pow2 (max (binaryExponent \<bar>q\<bar> - 52) (- 1074));
            v = of_int (roundHalfEven (q / unit)) * unit in
        if \<bar>v\<bar> \<ge> 2 ^ 1024 then None else Some v)"

definition floatOfInt :: "int \<Rightarrow> float64" where
  "floatOfInt n = (case roundFloat (of_int n) of Some v \<Rightarrow> Finite v | None \<Rightarrow> Infinite (0 < n))"

subsection \<open>\<^verbatim>\<open>strconv.ParseFloat\<close>\<close>

definition digitValue :: "char \<Rightarrow> int option" where
  "digitValue c =
     (let b = int (byte c) in
      if 48 \<le> b \<and> b \<le> 57 then Some (b - 48)
      else if 97 \<le> b \<and> b \<le> 102 then Some (b - 87)
      else if 65 \<le> b \<and> b \<le> 70 then Some (b - 55) else None)"

definition digitIn :: "int \<Rightarrow> char \<Rightarrow> int option" where
  "digitIn base c = (case digitValue c of Some d \<Rightarrow> if d < base then Some d else None | None \<Rightarrow> None)"

text \<open>Digits and underscores with at most one point: the value of the digits, the number of digits after the point,
  whether a digit was seen, and the rest.\<close>

fun scanMantissa :: "int \<Rightarrow> string \<Rightarrow> int \<Rightarrow> int \<Rightarrow> bool \<Rightarrow> bool \<Rightarrow> int \<times> int \<times> bool \<times> string" where
  "scanMantissa base [] m k dot seen = (m, k, seen, [])"
| "scanMantissa base (c # cs) m k dot seen =
     (if c = CHR ''_'' then scanMantissa base cs m k dot seen
      else if c = CHR ''.'' \<and> \<not> dot then scanMantissa base cs m k True seen
      else case digitIn base c of
        Some d \<Rightarrow> scanMantissa base cs (m * base + d) (if dot then k + 1 else k) dot True
      | None \<Rightarrow> (m, k, seen, c # cs))"

fun decimalValue :: "string \<Rightarrow> int \<Rightarrow> int" where
  "decimalValue [] n = n"
| "decimalValue (c # cs) n = (case digitIn 10 c of Some d \<Rightarrow> decimalValue cs (n * 10 + d) | None \<Rightarrow> decimalValue cs n)"

text \<open>The exponent: a sign and digits or underscores up to the end, beginning with a digit.\<close>

definition scanExponent :: "string \<Rightarrow> int option" where
  "scanExponent s =
     (let neg = HasPrefix s ''-''; ds = (if neg \<or> HasPrefix s ''+'' then tl s else s) in
      if ds = [] \<or> digitIn 10 (hd ds) = None \<or> \<not> list_all (\<lambda>c. c = CHR ''_'' \<or> digitIn 10 c \<noteq> None) ds then None
      else Some (if neg then - decimalValue ds 0 else decimalValue ds 0))"

text \<open>Every underscore stands between two digits; the base prefix counts as a digit.\<close>

fun underscoresFrom :: "bool \<Rightarrow> char \<Rightarrow> string \<Rightarrow> bool" where
  "underscoresFrom hex saw [] = (saw \<noteq> CHR ''_'')"
| "underscoresFrom hex saw (c # cs) =
     (if digitIn (if hex then 16 else 10) c \<noteq> None then underscoresFrom hex (CHR ''0'') cs
      else if c = CHR ''_'' then saw = CHR ''0'' \<and> underscoresFrom hex (CHR ''_'') cs
      else saw \<noteq> CHR ''_'' \<and> underscoresFrom hex (CHR ''!'') cs)"

definition underscoreOK :: "bool \<Rightarrow> string \<Rightarrow> bool" where
  "underscoreOK hex s = (if hex then underscoresFrom True (CHR ''0'') (drop 2 s) else underscoresFrom False (CHR ''^'') s)"

definition parseUnsigned :: "string \<Rightarrow> rat option" where
  "parseUnsigned s =
     (let hex = 2 < length s \<and> ToLower (take 2 s) = ''0x'';
          (m, k, seen, rest) = scanMantissa (if hex then 16 else 10) (if hex then drop 2 s else s) 0 0 False False;
          expo = (if rest = [] then (if hex then None else Some 0)
                  else if ToLower [hd rest] = (if hex then ''p'' else ''e'') then scanExponent (tl rest) else None) in
      if \<not> seen \<or> \<not> underscoreOK hex s then None
      else case expo of
        None \<Rightarrow> None
      | Some e \<Rightarrow>
          Some (if hex then of_int m * pow2 (e - 4 * k)
                else of_int m * (if k \<le> e then 10 ^ nat (e - k) else 1 / 10 ^ nat (k - e))))"

text \<open>\<open>None\<close> is an error: a text that is no number, or a number out of range.\<close>

definition ParseFloat :: "string \<Rightarrow> float64 option" where
  "ParseFloat s =
     (let neg = HasPrefix s ''-''; signed = neg \<or> HasPrefix s ''+''; u = (if signed then tl s else s) in
      if ToLower u \<in> {''inf'', ''infinity''} then Some (Infinite (\<not> neg))
      else if ToLower s = ''nan'' then Some NaN
      else case parseUnsigned u of
        None \<Rightarrow> None
      | Some q \<Rightarrow> map_option Finite (roundFloat (if neg then - q else q)))"

subsection \<open>The verb \<^verbatim>\<open>%.2f\<close>\<close>

definition formatFloat2 :: "float64 \<Rightarrow> string" where
  "formatFloat2 f = (case f of
      NaN \<Rightarrow> ''NaN''
    | Infinite pos \<Rightarrow> (if pos then ''+Inf'' else ''-Inf'')
    | Finite q \<Rightarrow>
        (let n = nat (roundHalfEven (\<bar>q\<bar> * 100)) in
         (if q < 0 then ''-'' else []) @ natDigits (n div 100) @ ''.'' @
         natDigits (n div 10 mod 10) @ natDigits (n mod 10)))"

text \<open>Small integers are represented exactly.\<close>

lemma roundHalfEven_int [simp]: "roundHalfEven (of_int n) = n"
  by (simp add: roundHalfEven_def)

lemma floatLess_Finite_iff [simp]: "floatLess (Finite a) (Finite b) \<longleftrightarrow> a < b"
  by simp

lemma floatLeq_Finite_iff [simp]: "floatLeq (Finite a) (Finite b) \<longleftrightarrow> a \<le> b"
  by (auto simp: floatLeq_def)

lemma floatLeq_NaN [simp]: "\<not> floatLeq NaN a" "\<not> floatLeq a NaN"
  by (cases a; simp add: floatLeq_def)+

lemma floatLess_NaN [simp]: "\<not> floatLess a NaN"
  by (cases a) simp_all

end
