(* ===== verification/RuleTypes.thy ===== *)
theory RuleTypes
  imports InvestigationTypes Floats
begin

text \<open>
  The types of risk rules and risk signals (\<^verbatim>\<open>api/v1alpha1/riskrule_types.go\<close>, \<^verbatim>\<open>types.go\<close>), of data
  sources (\<^verbatim>\<open>internal/datasource/interface.go\<close>) and of the rule package (\<^verbatim>\<open>internal/rule\<close>).  A
  \<^verbatim>\<open>LocalObjectReference\<close> is its name.
\<close>

subsection \<open>Risk rules\<close>

record NamespaceSelector =
  nss_MatchNames :: "string list"

record WorkloadSelector =
  wks_MatchLabels :: "(string \<times> string) list"
  wks_Kinds :: "string list"

record TargetSelector =
  tgs_NamespaceSelector :: NamespaceSelector
  tgs_WorkloadSelector :: WorkloadSelector

record RiskThreshold =
  rth_Operator :: string
  rth_Value :: float64

record RiskRuleSignal =
  rrs_Name :: string
  rrs_Type :: string
  rrs_DatasourceRef :: string
  rrs_QueryType :: string
  rrs_Query :: string
  rrs_QueryTemplate :: string
  rrs_Reasons :: "string list"
  rrs_Threshold :: RiskThreshold

record SecretKeyRef =
  skr_Name :: string
  skr_Key :: string

record RiskRuleNotification =
  rrn_WebhookRef :: "SecretKeyRef option"

record RiskRuleAI =
  rai_RCAEnabled :: bool
  rai_ProviderRef :: string

record RiskRuleInvestigationPolicy =
  rip_Mode :: string
  rip_CreateRiskSignal :: bool
  rip_EvidenceRequirements :: EvidenceRequirements

record RiskRuleSpec =
  rsp_TargetSelector :: TargetSelector
  rsp_Interval :: duration
  rsp_Window :: duration
  rsp_Severity :: string
  rsp_Signals :: "RiskRuleSignal list"
  rsp_Notification :: RiskRuleNotification
  rsp_AI :: RiskRuleAI
  rsp_InvestigationPolicy :: RiskRuleInvestigationPolicy

record RiskRuleCoverage =
  rcv_SupportedTargetKinds :: "string list"
  rcv_UnsupportedDiscoveredKinds :: "string \<rightharpoonup> int"
  rcv_Partial :: bool

record RiskRuleStatus =
  rst_Resource :: ResourceStatus
  rst_Conditions :: "Condition list"
  rst_Coverage :: "RiskRuleCoverage option"

record RiskRule =
  rul_Meta :: ObjectMeta
  rul_Spec :: RiskRuleSpec
  rul_Status :: RiskRuleStatus

subsection \<open>Risk signals\<close>

record RCACause =
  rcc_Cause :: string
  rcc_Confidence :: int

record RiskSignalRCAProjectionStatus =
  rpj_Mode :: string
  rpj_ProjectedFrom :: "NamespacedObjectReference option"
  rpj_CompatibilityPath :: bool
  rpj_Message :: string

record RiskSignalSpec =
  ssp_Target :: TargetRef
  ssp_SignalType :: string
  ssp_FindingIdentity :: "FindingIdentity option"
  ssp_InvestigationRef :: "NamespacedObjectReference option"
  ssp_ActionType :: string
  ssp_Severity :: string
  ssp_Confidence :: int
  ssp_DryRun :: bool
  ssp_TTLSeconds :: int
  ssp_Evidence :: "EvidenceRef list"
  ssp_Parameters :: strmap
  ssp_ApprovalTimeoutSeconds :: int

record RiskSignalStatus =
  sst_Resource :: ResourceStatus
  sst_RCASummary :: string
  sst_RCAHypothesis :: string
  sst_RCAProvider :: string
  sst_RCACauses :: "RCACause list"
  sst_Projection :: "RiskSignalRCAProjectionStatus option"
  sst_Conditions :: "Condition list"

record RiskSignal =
  rsg_Meta :: ObjectMeta
  rsg_CreationTimestamp :: gotime
  rsg_DeletionTimestamp :: "gotime option"
  rsg_Spec :: RiskSignalSpec
  rsg_Status :: RiskSignalStatus

subsection \<open>Data sources\<close>

text \<open>
  A value of a record, of type \<^verbatim>\<open>any\<close>, by its dynamic type; \<open>ROther\<close> is any other type, given by what
  \<^verbatim>\<open>fmt.Sprint\<close> prints of it.
\<close>

datatype recordValue =
    RNil
  | RString string
  | RBool bool
  | RInt int
  | RInt32 int
  | RInt64 int
  | RFloat32 float64
  | RFloat64 float64
  | ROther string

type_synonym sourceRecord = "string \<rightharpoonup> recordValue"

record SourceQuery =
  qrt_Query :: string
  qrt_StartTime :: gotime
  qrt_EndTime :: gotime
  qrt_Step :: duration
  qrt_Labels :: strmap
  qrt_Target :: ResourceRef
  qrt_QueryType :: string
  qrt_Reasons :: "string list"
  qrt_ResultLimits :: QueryResultLimits
  qrt_Classification :: DataClassification

record NativeResultCounts =
  nrc_ResultType :: string
  nrc_Series :: int
  nrc_Samples :: int
  nrc_Streams :: int
  nrc_Entries :: int
  nrc_Records :: int

record NativeResultLimit =
  nrl_Reason :: string
  nrl_Dimension :: string
  nrl_Limit :: int
  nrl_OriginalCount :: int
  nrl_RetainedCount :: int

record QueryResult =
  qrr_Source :: string
  qrr_QueryType :: string
  qrr_Summary :: string
  qrr_Records :: "sourceRecord list"
  qrr_Truncated :: bool
  qrr_TruncationReason :: string
  qrr_LimitDimension :: string
  qrr_Limit :: int
  qrr_OriginalRecordCount :: int
  qrr_RetainedRecordCount :: int
  qrr_NativeCounts :: NativeResultCounts
  qrr_NativeLimit :: "NativeResultLimit option"

record Capabilities =
  cap_Metrics :: bool
  cap_Logs :: bool
  cap_Events :: bool
  cap_DeploymentConditions :: bool
  cap_ServiceConfiguration :: bool
  cap_ProbeConfiguration :: bool
  cap_ContainerTermination :: bool
  cap_Traces :: bool
  cap_RangeQuery :: bool
  cap_InstantQuery :: bool
  cap_LabelQuery :: bool

abbreviation QueryTypeMetric :: string where "QueryTypeMetric \<equiv> ''metric''"
abbreviation QueryTypeLog :: string where "QueryTypeLog \<equiv> ''log''"
abbreviation QueryTypeTrace :: string where "QueryTypeTrace \<equiv> ''trace''"
abbreviation QueryTypeEvent :: string where "QueryTypeEvent \<equiv> ''event''"
abbreviation QueryTypeDeploymentCondition :: string where "QueryTypeDeploymentCondition \<equiv> ''deploymentCondition''"
abbreviation QueryTypeServiceConfiguration :: string where "QueryTypeServiceConfiguration \<equiv> ''serviceConfiguration''"
abbreviation QueryTypeProbeConfiguration :: string where "QueryTypeProbeConfiguration \<equiv> ''probeConfiguration''"
abbreviation QueryTypeContainerTermination :: string where "QueryTypeContainerTermination \<equiv> ''containerTermination''"

definition SupportsQueryType :: "Capabilities \<Rightarrow> string \<Rightarrow> bool" where
  "SupportsQueryType c queryType =
     (if queryType = QueryTypeMetric then cap_Metrics c
      else if queryType = QueryTypeLog then cap_Logs c
      else if queryType = QueryTypeEvent then cap_Events c
      else if queryType = QueryTypeDeploymentCondition then cap_DeploymentConditions c
      else if queryType = QueryTypeServiceConfiguration then cap_ServiceConfiguration c
      else if queryType = QueryTypeProbeConfiguration then cap_ProbeConfiguration c
      else if queryType = QueryTypeContainerTermination then cap_ContainerTermination c
      else if queryType = QueryTypeTrace then cap_Traces c
      else False)"

subsection \<open>Targets and matches\<close>

record PodReference =
  prf_Namespace :: string
  prf_Name :: string
  prf_UID :: string

record WorkloadStatus =
  wst_ReadyReplicas :: int
  wst_AvailableReplicas :: int
  wst_DesiredReplicas :: int
  wst_Succeeded :: int
  wst_Failed :: int
  wst_Active :: int

record Target =
  tgt_Resource :: ResourceRef
  tgt_Labels :: strmap
  tgt_UID :: string
  tgt_Generation :: int
  tgt_Pods :: "PodReference list"
  tgt_Status :: WorkloadStatus
  tgt_OwnerChain :: "ResourceRef list"

record CoverageReport =
  cvr_SupportedTargetKinds :: "string list"
  cvr_UnsupportedDiscoveredKinds :: "string \<rightharpoonup> int"
  cvr_Partial :: bool

record Match =
  mat_Signal :: RiskRuleSignal
  mat_Summary :: string
  mat_Severity :: string
  mat_Evidence :: "EvidenceRef list"

end
