(* ===== verification/RuleEvaluator.thy ===== *)
theory RuleEvaluator
  imports RuleTypes
begin

text \<open>
  Evaluation of the signals of a risk rule on query results (\<^verbatim>\<open>internal/rule/evaluator.go\<close>) and rendering of
  query templates (\<^verbatim>\<open>internal/rule/template.go\<close>).  Parameters: the record \<open>rule_codec\<close> (what \<^verbatim>\<open>fmt.Sprint\<close> prints
  of a float, SHA-256 in hexadecimal, \<^verbatim>\<open>json.Marshal\<close> of a map of strings given by its sorted entries), and
  the package \<^verbatim>\<open>text/template\<close> as the record \<open>template_engine\<close>.  Text is ASCII.
\<close>

subsection \<open>Parameters\<close>

record rule_codec =
  rc_ShowFloat :: "recordValue \<Rightarrow> string"
  rc_Sha256Hex :: "string \<Rightarrow> string"
  rc_MarshalMap :: "(string \<times> string) list \<Rightarrow> string"

record templateData =
  tda_Cluster :: string
  tda_Namespace :: string
  tda_Kind :: string
  tda_Name :: string
  tda_APIVersion :: string
  tda_Service :: string
  tda_App :: string
  tda_Labels :: strmap

record 't template_engine =
  te_Parse :: "string \<Rightarrow> go_error + 't"
  te_Execute :: "'t \<Rightarrow> templateData \<Rightarrow> go_error + string"

subsection \<open>Rendering\<close>

fun firstNonEmptyText :: "string list \<Rightarrow> string" where
  "firstNonEmptyText [] = []"
| "firstNonEmptyText (v # vs) = (if TrimSpace v \<noteq> [] then v else firstNonEmptyText vs)"

definition RenderQuery ::
  "'t template_engine \<Rightarrow> string \<Rightarrow> ResourceRef \<Rightarrow> strmap \<Rightarrow> go_error + string" where
  "RenderQuery te raw target labels =
     (if TrimSpace raw = [] then Inr []
      else case te_Parse te raw of
        Inl e \<Rightarrow> Inl (wrapErr ''parse query template: '' e)
      | Inr tpl \<Rightarrow>
          (let data = \<lparr>tda_Cluster = r_Cluster target, tda_Namespace = r_Namespace target, tda_Kind = r_Kind target,
                 tda_Name = r_Name target, tda_APIVersion = r_APIVersion target, tda_Service = r_Service target,
                 tda_App = firstNonEmptyText [mapGet labels ''app'', r_Service target, r_Name target],
                 tda_Labels = labels\<rparr> in
           case te_Execute te tpl data of
             Inl e \<Rightarrow> Inl (wrapErr ''execute query template: '' e)
           | Inr rendered \<Rightarrow> Inr (TrimSpace rendered)))"

subsection \<open>Signal types and sources\<close>

definition normalizeSignalType :: "string \<Rightarrow> string" where
  "normalizeSignalType value =
     ToLower (filter (\<lambda>c. c \<noteq> CHR ''_'') (filter (\<lambda>c. c \<noteq> CHR ''-'') (TrimSpace value)))"

text \<open>\<open>None\<close> stands for the result \<^verbatim>\<open>false\<close>; the other results are then not used.\<close>

definition LegacySourceForSignalType :: "string \<Rightarrow> (string \<times> string) option" where
  "LegacySourceForSignalType signalType =
     (let t = normalizeSignalType signalType in
      if t = ''prometheus'' then Some (QueryTypeMetric, ''prometheus'')
      else if t = ''loki'' then Some (QueryTypeLog, ''loki'')
      else if t = ''kubernetesevent'' then Some (QueryTypeEvent, ''kubernetes-events'')
      else None)"

definition ParseQueryType :: "string \<Rightarrow> string option" where
  "ParseQueryType raw =
     (let t = normalizeSignalType raw in
      if t \<in> {''metric'', ''metrics'', ''prometheus''} then Some QueryTypeMetric
      else if t \<in> {''log'', ''logs'', ''loki''} then Some QueryTypeLog
      else if t \<in> {''event'', ''events'', ''kubernetesevent''} then Some QueryTypeEvent
      else if t \<in> {''deploymentcondition'', ''deploymentconditions''} then Some QueryTypeDeploymentCondition
      else if t \<in> {''serviceconfiguration'', ''serviceconfig'', ''kubernetesserviceconfiguration''}
        then Some QueryTypeServiceConfiguration
      else if t \<in> {''probeconfiguration'', ''probeconfig'', ''kubernetesprobeconfiguration''}
        then Some QueryTypeProbeConfiguration
      else if t \<in> {''containertermination'', ''containerterminationstatus'', ''kubernetescontainertermination''}
        then Some QueryTypeContainerTermination
      else if t \<in> {''trace'', ''traces'', ''opentelemetry''} then Some QueryTypeTrace
      else None)"

definition QueryTypeForSignal :: "RiskRuleSignal \<Rightarrow> string option" where
  "QueryTypeForSignal signal =
     (case ParseQueryType (rrs_QueryType signal) of
        Some queryType \<Rightarrow> Some queryType
      | None \<Rightarrow> map_option fst (LegacySourceForSignalType (rrs_Type signal)))"

definition QueryTemplateForSignal :: "RiskRuleSignal \<Rightarrow> string" where
  "QueryTemplateForSignal signal =
     (if TrimSpace (rrs_QueryTemplate signal) \<noteq> [] then rrs_QueryTemplate signal else rrs_Query signal)"

text \<open>The name of the data source and the query type.\<close>

definition SourceRefForSignal :: "RiskRuleSignal \<Rightarrow> (string \<times> string) option" where
  "SourceRefForSignal signal =
     (let name = TrimSpace (rrs_DatasourceRef signal) in
      if name \<noteq> [] then map_option (Pair name) (QueryTypeForSignal signal)
      else case LegacySourceForSignalType (rrs_Type signal) of
        None \<Rightarrow> None
      | Some (queryType, sourceName) \<Rightarrow> Some (sourceName, queryType))"

definition SignalTypeForSignal :: "RiskRuleSignal \<Rightarrow> string" where
  "SignalTypeForSignal signal =
     (if TrimSpace (rrs_QueryType signal) \<noteq> [] then ToLower (TrimSpace (rrs_QueryType signal))
      else if TrimSpace (rrs_Type signal) \<noteq> [] then TrimSpace (rrs_Type signal)
      else case QueryTypeForSignal signal of Some queryType \<Rightarrow> queryType | None \<Rightarrow> [])"

subsection \<open>Thresholds\<close>

definition compareThreshold :: "float64 \<Rightarrow> RiskThreshold \<Rightarrow> bool" where
  "compareThreshold value threshold =
     (let operator = TrimSpace (rth_Operator threshold); limit = rth_Value threshold in
      if operator \<in> {''>'', ''gt'', []} then floatLess limit value
      else if operator \<in> {''>='', ''gte'', ''count_gte''} then floatLeq limit value
      else if operator \<in> {''<'', ''lt''} then floatLess value limit
      else if operator \<in> {''<='', ''lte''} then floatLeq value limit
      else if operator = ''count_gt'' then floatLess limit value
      else floatLess limit value)"

definition normalizeCountThreshold :: "RiskThreshold \<Rightarrow> RiskThreshold" where
  "normalizeCountThreshold threshold =
     (if TrimSpace (rth_Operator threshold) \<noteq> [] \<or> rth_Value threshold \<noteq> Finite 0 then threshold
      else \<lparr>rth_Operator = ''count_gt'', rth_Value = Finite 0\<rparr>)"

text \<open>A value of another type, and a text that is no number, count as zero.\<close>

definition parseFloat :: "recordValue option \<Rightarrow> float64" where
  "parseFloat value =
     (case value of
        Some (RFloat64 f) \<Rightarrow> f
      | Some (RFloat32 f) \<Rightarrow> f
      | Some (RInt n) \<Rightarrow> floatOfInt n
      | Some (RInt64 n) \<Rightarrow> floatOfInt n
      | Some (RString s) \<Rightarrow> (case ParseFloat (TrimSpace s) of Some f \<Rightarrow> f | None \<Rightarrow> Finite 0)
      | _ \<Rightarrow> Finite 0)"

subsection \<open>Records\<close>

text \<open>The type assertion \<^verbatim>\<open>s, _ := record[key].(string)\<close>.\<close>

definition assertString :: "sourceRecord \<Rightarrow> string \<Rightarrow> string" where
  "assertString record key = (case record key of Some (RString s) \<Rightarrow> s | _ \<Rightarrow> [])"

fun Sprint :: "rule_codec \<Rightarrow> recordValue \<Rightarrow> string" where
  "Sprint rc RNil = ''<nil>''"
| "Sprint rc (RString s) = s"
| "Sprint rc (RBool b) = (if b then ''true'' else ''false'')"
| "Sprint rc (RInt n) = itoa n"
| "Sprint rc (RInt32 n) = itoa n"
| "Sprint rc (RInt64 n) = itoa n"
| "Sprint rc (RFloat32 f) = rc_ShowFloat rc (RFloat32 f)"
| "Sprint rc (RFloat64 f) = rc_ShowFloat rc (RFloat64 f)"
| "Sprint rc (ROther s) = s"

definition recordString :: "rule_codec \<Rightarrow> sourceRecord \<Rightarrow> string \<Rightarrow> string" where
  "recordString rc record key =
     (case record key of None \<Rightarrow> [] | Some RNil \<Rightarrow> [] | Some value \<Rightarrow> TrimSpace (Sprint rc value))"

subsection \<open>Matching\<close>

text \<open>The loop over the records: it counts the records that match and keeps evidence of the first three.\<close>

fun collectEvidence ::
  "(sourceRecord \<Rightarrow> bool) \<Rightarrow> (sourceRecord \<Rightarrow> EvidenceRef) \<Rightarrow> sourceRecord list \<Rightarrow> EvidenceRef list \<Rightarrow> nat \<Rightarrow>
   EvidenceRef list \<times> nat" where
  "collectEvidence matched ref [] evidence matchCount = (evidence, matchCount)"
| "collectEvidence matched ref (record # records) evidence matchCount =
     (if \<not> matched record then collectEvidence matched ref records evidence matchCount
      else collectEvidence matched ref records
        (if length evidence < 3 then evidence @ [ref record] else evidence) (matchCount + 1))"

text \<open>The length of a list is below \<open>2\<^sup>5\<^sup>3\<close> in any memory, where the conversion is exact.\<close>

definition floatCount :: "nat \<Rightarrow> float64" where
  "floatCount n = Finite (of_nat n)"

definition metricValueMatches :: "RiskRuleSignal \<Rightarrow> sourceRecord \<Rightarrow> bool" where
  "metricValueMatches signal record = compareThreshold (parseFloat (record ''value'')) (rrs_Threshold signal)"

text \<open>The first record whose value crosses the threshold.\<close>

definition evaluatePrometheusSignal ::
  "RiskRuleSignal \<Rightarrow> QueryResult \<Rightarrow> ResourceRef \<Rightarrow> string \<Rightarrow> Match option" where
  "evaluatePrometheusSignal signal result target severity =
     (case find (metricValueMatches signal) (qrr_Records result) of
        None \<Rightarrow> None
      | Some record \<Rightarrow> Some
          \<lparr>mat_Signal = signal,
           mat_Summary = rrs_Name signal @ '' crossed threshold for '' @ r_Name target,
           mat_Severity = severity,
           mat_Evidence = [emptyEvidenceRef
             \<lparr>ev_Kind := ''metric'', ev_Source := qrr_Source result, ev_Query := rrs_Query signal,
              ev_Summary := ''metric value '' @ formatFloat2 (parseFloat (record ''value'')) @ '' matched '' @
                rth_Operator (rrs_Threshold signal) @ '' '' @ formatFloat2 (rth_Value (rrs_Threshold signal))\<rparr>]\<rparr>)"

definition evaluateLokiSignal ::
  "RiskRuleSignal \<Rightarrow> QueryResult \<Rightarrow> ResourceRef \<Rightarrow> string \<Rightarrow> Match option" where
  "evaluateLokiSignal signal result target severity =
     (let n = length (qrr_Records result) in
      if \<not> compareThreshold (floatCount n) (normalizeCountThreshold (rrs_Threshold signal)) then None
      else
        let summary = rrs_Name signal @ '' matched '' @ itoa (int n) @ '' log lines for '' @ r_Name target;
            line = (if 0 < n then assertString (hd (qrr_Records result)) ''line'' else []);
            summary = (if line \<noteq> [] then line else summary) in
        Some \<lparr>mat_Signal = signal,
          mat_Summary = rrs_Name signal @ '' triggered for '' @ r_Name target,
          mat_Severity = severity,
          mat_Evidence = [emptyEvidenceRef
            \<lparr>ev_Kind := ''log'', ev_Source := qrr_Source result, ev_Query := rrs_Query signal,
             ev_Summary := summary @ '' (matched '' @ itoa (int n) @ '' log lines)''\<rparr>]\<rparr>)"

definition eventReasonMatches :: "string \<Rightarrow> string \<Rightarrow> string \<Rightarrow> bool" where
  "eventReasonMatches reason message expected =
     (let expected = normalizeSignalType expected in
      if expected = [] then False
      else if TrimSpace reason \<noteq> [] then normalizeSignalType reason = expected
      else Contains (normalizeSignalType message) expected)"

definition wantedReasons :: "RiskRuleSignal \<Rightarrow> string list \<Rightarrow> string list" where
  "wantedReasons signal defaults =
     (let reasons = map (\<lambda>reason. ToLower (TrimSpace reason)) (rrs_Reasons signal) in
      if reasons = [] then defaults else reasons)"

definition defaultEventReasons :: "string list" where
  "defaultEventReasons = [''unhealthy'', ''backoff'', ''failed'', ''oomkilled'']"

definition eventRecordMatches :: "string list \<Rightarrow> sourceRecord \<Rightarrow> bool" where
  "eventRecordMatches reasons record =
     list_ex (eventReasonMatches (assertString record ''reason'') (assertString record ''message'')) reasons"

text \<open>The payload is a map of strings, which always encodes; its keys are sorted by the encoder.\<close>

definition kubernetesEventEvidenceDigest :: "rule_codec \<Rightarrow> sourceRecord \<Rightarrow> string" where
  "kubernetesEventEvidenceDigest rc record =
     (let str = recordString rc record; eventUID = str ''eventUID''; unnamed = eventUID = [] in
      ''sha256:'' @ rc_Sha256Hex rc (rc_MarshalMap rc (
        (if unnamed then [(''count'', str ''count'')] else []) @
        [(''eventName'', str ''eventName''), (''eventNamespace'', str ''eventNamespace''), (''eventUID'', eventUID),
         (''firstTimestamp'', str ''firstTimestamp''), (''involvedObjectKind'', str ''involvedObjectKind''),
         (''involvedObjectName'', str ''involvedObjectName''), (''involvedObjectUID'', str ''involvedObjectUID'')] @
        (if unnamed then [(''lastTimestamp'', str ''lastTimestamp'')] else []) @
        [(''messageDigest'', rc_Sha256Hex rc (str ''message'')), (''reason'', str ''reason''),
         (''reportingComponent'', str ''reportingComponent''), (''sourceComponent'', str ''sourceComponent'')])))"

definition eventEvidence :: "rule_codec \<Rightarrow> string \<Rightarrow> sourceRecord \<Rightarrow> EvidenceRef" where
  "eventEvidence rc source record = emptyEvidenceRef
     \<lparr>ev_Kind := ''event'', ev_Source := source, ev_Reason := assertString record ''reason'',
      ev_Summary := assertString record ''message'', ev_ContentDigest := kubernetesEventEvidenceDigest rc record,
      ev_DigestAlgorithm := ''sha256'', ev_DigestCanonicalization := ''fluxseer-rca-kubernetes-event-identity-v1''\<rparr>"

definition kubernetesEventMatchSummary ::
  "RiskRuleSignal \<Rightarrow> EvidenceRef list \<Rightarrow> nat \<Rightarrow> ResourceRef \<Rightarrow> string" where
  "kubernetesEventMatchSummary signal evidence matchCount target =
     (let name = TrimSpace (rrs_Name signal);
          description =
            (case evidence of
               [] \<Rightarrow> name
             | ref # _ \<Rightarrow>
                 (let reason = normalizeSignalType (ev_Reason ref) in
                  if reason = ''backoff'' then ''container restart backoff''
                  else if reason = ''crashloopbackoff'' then ''crashloop-backoff''
                  else if reason \<in> {''imagepullbackoff'', ''errimagepull'', ''invalidimagename''} then ''image-pull-failure''
                  else if reason \<in> {''oomkilled'', ''oom''} then ''oom-killed''
                  else if reason = ''unhealthy'' then ''unhealthy-probe''
                  else if reason = ''failedscheduling'' then ''failed-scheduling''
                  else name));
          description = (if description = [] then ''kubernetes-event'' else description);
          unit = (if matchCount = 1 then ''event'' else ''events'') in
      description @ '' detected '' @ itoa (int matchCount) @ '' matching '' @ unit @ '' for '' @ r_Name target)"

definition evaluateKubernetesEventSignal ::
  "rule_codec \<Rightarrow> RiskRuleSignal \<Rightarrow> QueryResult \<Rightarrow> ResourceRef \<Rightarrow> string \<Rightarrow> Match option" where
  "evaluateKubernetesEventSignal rc signal result target severity =
     (let reasons = wantedReasons signal defaultEventReasons;
          (evidence, matchCount) = collectEvidence (eventRecordMatches reasons)
            (eventEvidence rc (qrr_Source result)) (qrr_Records result) [] 0 in
      if \<not> compareThreshold (floatCount matchCount) (normalizeCountThreshold (rrs_Threshold signal)) then None
      else if matchCount = 0 then None
      else Some \<lparr>mat_Signal = signal, mat_Summary = kubernetesEventMatchSummary signal evidence matchCount target,
        mat_Severity = severity, mat_Evidence = evidence\<rparr>)"

definition defaultConditionReasons :: "string list" where
  "defaultConditionReasons = [''available=false'', ''progressing=false'', ''replicafailure=true'',
     ''progressdeadlineexceeded'', ''minimumreplicasunavailable'']"

definition conditionRecordText :: "sourceRecord \<Rightarrow> string" where
  "conditionRecordText record = ToLower (assertString record ''type'' @ ''='' @ assertString record ''status'' @ '' '' @
     assertString record ''reason'' @ '' '' @ assertString record ''message'')"

definition conditionRecordMatches :: "string list \<Rightarrow> sourceRecord \<Rightarrow> bool" where
  "conditionRecordMatches reasons record = list_ex (Contains (conditionRecordText record)) reasons"

definition conditionEvidence :: "string \<Rightarrow> sourceRecord \<Rightarrow> EvidenceRef" where
  "conditionEvidence source record = emptyEvidenceRef
     \<lparr>ev_Kind := ''deploymentCondition'', ev_Source := source, ev_Reason := assertString record ''reason'',
      ev_Summary := assertString record ''type'' @ ''='' @ assertString record ''status'' @ '' '' @ assertString record ''message''\<rparr>"

definition evaluateDeploymentConditionSignal ::
  "RiskRuleSignal \<Rightarrow> QueryResult \<Rightarrow> ResourceRef \<Rightarrow> string \<Rightarrow> Match option" where
  "evaluateDeploymentConditionSignal signal result target severity =
     (let reasons = wantedReasons signal defaultConditionReasons;
          (evidence, matchCount) = collectEvidence (conditionRecordMatches reasons)
            (conditionEvidence (qrr_Source result)) (qrr_Records result) [] 0 in
      if \<not> compareThreshold (floatCount matchCount) (normalizeCountThreshold (rrs_Threshold signal)) then None
      else if matchCount = 0 then None
      else Some \<lparr>mat_Signal = signal,
        mat_Summary = rrs_Name signal @ '' detected '' @ itoa (int matchCount) @
          '' matching deployment conditions for '' @ r_Name target,
        mat_Severity = severity, mat_Evidence = evidence\<rparr>)"

definition mismatchConfirmed :: "rule_codec \<Rightarrow> sourceRecord \<Rightarrow> bool" where
  "mismatchConfirmed rc record = EqualFold (recordString rc record ''mismatchConfirmed'') ''true''"

definition serviceConfigurationEvidenceSummary :: "rule_codec \<Rightarrow> sourceRecord \<Rightarrow> string" where
  "serviceConfigurationEvidenceSummary rc record =
     (let str = recordString rc record in
      ''Service '' @ str ''serviceName'' @ '' targetPort='' @ str ''targetPortRaw'' @ '' resolved='' @
      str ''targetPortResolved'' @ ''; '' @ str ''workloadKind'' @ ''/'' @ str ''workloadName'' @ '' container '' @
      str ''containerName'' @ '' port='' @ str ''containerPort'' @ ''; mismatchConfirmed=true'')"

definition serviceConfigurationEvidence :: "rule_codec \<Rightarrow> string \<Rightarrow> sourceRecord \<Rightarrow> EvidenceRef" where
  "serviceConfigurationEvidence rc source record = emptyEvidenceRef
     \<lparr>ev_Kind := ''serviceConfiguration'', ev_Source := source, ev_Reason := recordString rc record ''reason'',
      ev_Summary := serviceConfigurationEvidenceSummary rc record\<rparr>"

definition evaluateServiceConfigurationSignal ::
  "rule_codec \<Rightarrow> RiskRuleSignal \<Rightarrow> QueryResult \<Rightarrow> ResourceRef \<Rightarrow> string \<Rightarrow> Match option" where
  "evaluateServiceConfigurationSignal rc signal result target severity =
     (let (evidence, matchCount) = collectEvidence (mismatchConfirmed rc)
            (serviceConfigurationEvidence rc (qrr_Source result)) (qrr_Records result) [] 0 in
      if matchCount = 0 \<or> \<not> compareThreshold (floatCount matchCount) (normalizeCountThreshold (rrs_Threshold signal))
      then None
      else Some \<lparr>mat_Signal = signal,
        mat_Summary = rrs_Name signal @ '' detected '' @ itoa (int matchCount) @
          '' confirmed Service/targetPort mismatches for '' @ r_Name target,
        mat_Severity = severity, mat_Evidence = evidence\<rparr>)"

definition probeConfigurationEvidenceSummary :: "rule_codec \<Rightarrow> sourceRecord \<Rightarrow> string" where
  "probeConfigurationEvidenceSummary rc record =
     (let str = recordString rc record in
      str ''workloadKind'' @ ''/'' @ str ''workloadName'' @ '' '' @ str ''probeType'' @ '' probe '' @
      str ''probeScheme'' @ ''://'' @ str ''probePath'' @ '':'' @ str ''probePortRaw'' @ ''; container port='' @
      str ''containerPort'' @ ''; resolution='' @ str ''resolution'' @ ''; mismatchConfirmed=true'')"

definition probeConfigurationEvidence :: "rule_codec \<Rightarrow> string \<Rightarrow> sourceRecord \<Rightarrow> EvidenceRef" where
  "probeConfigurationEvidence rc source record = emptyEvidenceRef
     \<lparr>ev_Kind := ''probeConfiguration'', ev_Source := source, ev_Reason := recordString rc record ''reason'',
      ev_Summary := probeConfigurationEvidenceSummary rc record\<rparr>"

definition evaluateProbeConfigurationSignal ::
  "rule_codec \<Rightarrow> RiskRuleSignal \<Rightarrow> QueryResult \<Rightarrow> ResourceRef \<Rightarrow> string \<Rightarrow> Match option" where
  "evaluateProbeConfigurationSignal rc signal result target severity =
     (let (evidence, matchCount) = collectEvidence (mismatchConfirmed rc)
            (probeConfigurationEvidence rc (qrr_Source result)) (qrr_Records result) [] 0 in
      if matchCount = 0 \<or> \<not> compareThreshold (floatCount matchCount) (normalizeCountThreshold (rrs_Threshold signal))
      then None
      else Some \<lparr>mat_Signal = signal,
        mat_Summary = rrs_Name signal @ '' detected '' @ itoa (int matchCount) @
          '' confirmed probe configuration mismatches for '' @ r_Name target,
        mat_Severity = severity, mat_Evidence = evidence\<rparr>)"

definition EvaluateSignal ::
  "rule_codec \<Rightarrow> RiskRuleSignal \<Rightarrow> string \<Rightarrow> QueryResult \<Rightarrow> ResourceRef \<Rightarrow> string \<Rightarrow> Match option" where
  "EvaluateSignal rc signal queryType result target severity =
     (if queryType = QueryTypeMetric then evaluatePrometheusSignal signal result target severity
      else if queryType = QueryTypeLog then evaluateLokiSignal signal result target severity
      else if queryType = QueryTypeEvent then evaluateKubernetesEventSignal rc signal result target severity
      else if queryType = QueryTypeDeploymentCondition
        then evaluateDeploymentConditionSignal signal result target severity
      else if queryType = QueryTypeServiceConfiguration
        then evaluateServiceConfigurationSignal rc signal result target severity
      else if queryType = QueryTypeProbeConfiguration
        then evaluateProbeConfigurationSignal rc signal result target severity
      else None)"

subsection \<open>What a signal matches\<close>

lemma collectEvidence_spec:
  "collectEvidence p ref rs es n =
   (es @ take (3 - length es) (map ref (filter p rs)), n + length (filter p rs))"
  by (induction rs arbitrary: es n) (auto simp: take_Cons')

text \<open>The records that count for a query type, and the evidence made of one; a log query counts every record.\<close>

definition recordCounts :: "rule_codec \<Rightarrow> RiskRuleSignal \<Rightarrow> string \<Rightarrow> sourceRecord \<Rightarrow> bool" where
  "recordCounts rc signal queryType record =
     (if queryType = QueryTypeMetric then metricValueMatches signal record
      else if queryType = QueryTypeLog then True
      else if queryType = QueryTypeEvent then eventRecordMatches (wantedReasons signal defaultEventReasons) record
      else if queryType = QueryTypeDeploymentCondition
        then conditionRecordMatches (wantedReasons signal defaultConditionReasons) record
      else queryType \<in> {QueryTypeServiceConfiguration, QueryTypeProbeConfiguration} \<and> mismatchConfirmed rc record)"

definition recordEvidence :: "rule_codec \<Rightarrow> string \<Rightarrow> string \<Rightarrow> sourceRecord \<Rightarrow> EvidenceRef" where
  "recordEvidence rc queryType source =
     (if queryType = QueryTypeEvent then eventEvidence rc source
      else if queryType = QueryTypeDeploymentCondition then conditionEvidence source
      else if queryType = QueryTypeServiceConfiguration then serviceConfigurationEvidence rc source
      else probeConfigurationEvidence rc source)"

definition countReached :: "RiskRuleSignal \<Rightarrow> nat \<Rightarrow> bool" where
  "countReached signal n = compareThreshold (floatCount n) (normalizeCountThreshold (rrs_Threshold signal))"

definition signalFires :: "rule_codec \<Rightarrow> RiskRuleSignal \<Rightarrow> string \<Rightarrow> sourceRecord list \<Rightarrow> bool" where
  "signalFires rc signal queryType records =
     (let n = length (filter (recordCounts rc signal queryType) records) in
      if queryType = QueryTypeMetric then 0 < n
      else if queryType = QueryTypeLog then countReached signal n
      else 0 < n \<and> countReached signal n)"

lemma find_filter: "find p xs = (case filter p xs of [] \<Rightarrow> None | x # _ \<Rightarrow> Some x)"
  by (induction xs) auto

lemma counted_evaluation:
  "evaluateKubernetesEventSignal rc signal result target severity = None \<longleftrightarrow>
     \<not> signalFires rc signal QueryTypeEvent (qrr_Records result)"
  "evaluateDeploymentConditionSignal signal result target severity = None \<longleftrightarrow>
     \<not> signalFires rc signal QueryTypeDeploymentCondition (qrr_Records result)"
  "evaluateServiceConfigurationSignal rc signal result target severity = None \<longleftrightarrow>
     \<not> signalFires rc signal QueryTypeServiceConfiguration (qrr_Records result)"
  "evaluateProbeConfigurationSignal rc signal result target severity = None \<longleftrightarrow>
     \<not> signalFires rc signal QueryTypeProbeConfiguration (qrr_Records result)"
  by (auto simp: evaluateKubernetesEventSignal_def evaluateDeploymentConditionSignal_def
      evaluateServiceConfigurationSignal_def evaluateProbeConfigurationSignal_def collectEvidence_spec
      signalFires_def recordCounts_def [abs_def] countReached_def Let_def)

lemma metric_log_evaluation:
  "evaluatePrometheusSignal signal result target severity = None \<longleftrightarrow>
     \<not> signalFires rc signal QueryTypeMetric (qrr_Records result)"
  "evaluateLokiSignal signal result target severity = None \<longleftrightarrow>
     \<not> signalFires rc signal QueryTypeLog (qrr_Records result)"
  by (auto simp: evaluatePrometheusSignal_def evaluateLokiSignal_def find_filter signalFires_def recordCounts_def [abs_def]
      countReached_def Let_def split: list.split)

lemma signalFires_other:
  "queryType \<notin> {QueryTypeMetric, QueryTypeLog, QueryTypeEvent, QueryTypeDeploymentCondition,
     QueryTypeServiceConfiguration, QueryTypeProbeConfiguration} \<Longrightarrow> \<not> signalFires rc signal queryType records"
  by (simp add: signalFires_def recordCounts_def Let_def)

lemma evaluated_fires:
  "EvaluateSignal rc signal queryType result target severity = None \<longleftrightarrow>
   \<not> signalFires rc signal queryType (qrr_Records result)"
  unfolding EvaluateSignal_def using signalFires_other [of queryType rc signal "qrr_Records result"]
  by (simp add: counted_evaluation [where rc = rc] metric_log_evaluation [where rc = rc])

lemma evaluated_match:
  "EvaluateSignal rc signal queryType result target severity = Some m \<Longrightarrow>
     mat_Signal m = signal \<and> mat_Severity m = severity \<and>
     (queryType \<in> {QueryTypeMetric, QueryTypeLog} \<or>
      mat_Evidence m = map (recordEvidence rc queryType (qrr_Source result))
        (take 3 (filter (recordCounts rc signal queryType) (qrr_Records result))))"
  by (auto simp: EvaluateSignal_def evaluatePrometheusSignal_def evaluateLokiSignal_def evaluateKubernetesEventSignal_def
      evaluateDeploymentConditionSignal_def evaluateServiceConfigurationSignal_def evaluateProbeConfigurationSignal_def
      collectEvidence_spec recordCounts_def [abs_def] recordEvidence_def take_map Let_def
      split: if_splits option.splits)




text \<open> a reason of blanks only is contained in every text: among the reasons of a deployment-condition signal it
  makes every condition of every deployment count, healthy ones included.  For events the code excludes a
  blank reason.\<close>

theorem blank_reason_matches_every_condition:
  "signalFires rc (signal\<lparr>rrs_Reasons := before @ '' '' # others, rrs_Threshold := \<lparr>rth_Operator = [], rth_Value = Finite 0\<rparr>\<rparr>)
     QueryTypeDeploymentCondition records = (records \<noteq> []) \<and>
   \<not> signalFires rc (signal\<lparr>rrs_Reasons := ['' '']\<rparr>) QueryTypeEvent records"
proof -
  have blank: "ToLower (TrimSpace '' '') = []" by code_simp
  have count_gt: "TrimSpace ''count_gt'' = ''count_gt''" by code_simp
  have condition: "conditionRecordMatches (wantedReasons (signal\<lparr>rrs_Reasons := before @ '' '' # others,
      rrs_Threshold := \<lparr>rth_Operator = [], rth_Value = Finite 0\<rparr>\<rparr>) ds) r" for ds r
    by (simp add: conditionRecordMatches_def wantedReasons_def blank)
  have event: "\<not> eventRecordMatches (wantedReasons (signal\<lparr>rrs_Reasons := ['' '']\<rparr>) ds) r" for ds r
    by (simp add: eventRecordMatches_def wantedReasons_def blank eventReasonMatches_def normalizeSignalType_def)
  show ?thesis
    by (simp add: signalFires_def recordCounts_def condition event countReached_def normalizeCountThreshold_def
        compareThreshold_def floatCount_def count_gt Let_def)
qed

text \<open> a record without a value counts as the value zero: under the operator \<^verbatim>\<open><\<close> it fires for every positive
  limit, although nothing was measured.\<close>

theorem missing_metric_value_fires:
  "(EvaluateSignal rc (signal\<lparr>rrs_Threshold := \<lparr>rth_Operator = ''<'', rth_Value = Finite limit\<rparr>\<rparr>) QueryTypeMetric
     (result\<lparr>qrr_Records := [record(''value'' := None)]\<rparr>) target severity \<noteq> None) = (0 < limit)"
proof -
  have "TrimSpace ''<'' = ''<''" by code_simp
  then show ?thesis
    by (simp add: evaluated_fires signalFires_def recordCounts_def metricValueMatches_def compareThreshold_def
        parseFloat_def Let_def del: not_None_eq)
qed

end
