(* ===== verification/RuleSelector.thy ===== *)
theory RuleSelector
  imports RuleEvaluator
begin

text \<open>
  Discovery of the targets of a risk rule and its coverage report (\<^verbatim>\<open>internal/rule/selector.go\<close>).  The API client
  is the parameter \<open>workload_reader\<close>: what a list of each kind in a namespace (all namespaces for the empty
  name) and a get return, and how many objects of an unsupported kind there are.  Of the listed objects the
  fields that the code reads are kept.
\<close>

subsection \<open>Objects of the cluster\<close>

record WorkloadObject =
  wo_Meta :: ObjectMeta
  wo_TemplateLabels :: strmap

record ListedDeployment = WorkloadObject +
  ldp_Replicas :: "int option"
  ldp_ReadyReplicas :: int
  ldp_AvailableReplicas :: int

record ListedStatefulSet = WorkloadObject +
  lss_Replicas :: "int option"
  lss_ReadyReplicas :: int

record ListedDaemonSet = WorkloadObject +
  lds_NumberReady :: int
  lds_DesiredNumberScheduled :: int

record ListedJob = WorkloadObject +
  ljb_Active :: int
  ljb_Succeeded :: int
  ljb_Failed :: int

text \<open>A \<^verbatim>\<open>ReplicaSet\<close> and a \<^verbatim>\<open>CronJob\<close> (with the labels of its Pod template) are plain; a \<^verbatim>\<open>Pod\<close> is its metadata.\<close>

record workload_reader =
  wr_ListDeployments :: "string \<Rightarrow> go_error + ListedDeployment list"
  wr_ListStatefulSets :: "string \<Rightarrow> go_error + ListedStatefulSet list"
  wr_ListDaemonSets :: "string \<Rightarrow> go_error + ListedDaemonSet list"
  wr_ListJobs :: "string \<Rightarrow> go_error + ListedJob list"
  wr_ListCronJobs :: "string \<Rightarrow> go_error + WorkloadObject list"
  wr_ListPods :: "string \<Rightarrow> go_error + ObjectMeta list"
  wr_GetReplicaSet :: "NamespacedName \<Rightarrow> go_error + WorkloadObject"
  wr_GetDeployment :: "NamespacedName \<Rightarrow> go_error + ListedDeployment"
  wr_GetStatefulSet :: "NamespacedName \<Rightarrow> go_error + ListedStatefulSet"
  wr_GetDaemonSet :: "NamespacedName \<Rightarrow> go_error + ListedDaemonSet"
  wr_GetJob :: "NamespacedName \<Rightarrow> go_error + ListedJob"
  wr_CountNodes :: "go_error + int"
  wr_CountPersistentVolumes :: "go_error + int"
  wr_CountPersistentVolumeClaims :: "string \<Rightarrow> go_error + int"
  wr_CountServices :: "string \<Rightarrow> go_error + int"

subsection \<open>Targets\<close>

definition emptyWorkloadStatus :: WorkloadStatus where
  "emptyWorkloadStatus = \<lparr>wst_ReadyReplicas = 0, wst_AvailableReplicas = 0, wst_DesiredReplicas = 0,
     wst_Succeeded = 0, wst_Failed = 0, wst_Active = 0\<rparr>"

definition workloadLabels :: "strmap \<Rightarrow> strmap \<Rightarrow> strmap" where
  "workloadLabels objectLabels templateLabels = objectLabels ++ templateLabels"

definition workloadToResource ::
  "string \<Rightarrow> string \<Rightarrow> string \<Rightarrow> string \<Rightarrow> strmap \<Rightarrow> strmap \<Rightarrow> ResourceRef" where
  "workloadToResource kind apiVersion name namespace objectLabels templateLabels =
     \<lparr>r_Cluster = ''in-cluster'', r_Namespace = namespace, r_Kind = kind, r_Name = name, r_APIVersion = apiVersion,
      r_Service = firstNonEmptyText [mapGet objectLabels ''app'', mapGet templateLabels ''app'', name]\<rparr>"

definition desiredReplicas :: "int option \<Rightarrow> int" where
  "desiredReplicas replicas = (case replicas of None \<Rightarrow> 1 | Some n \<Rightarrow> n)"

definition ruleControllerOwner :: "OwnerReference list \<Rightarrow> OwnerReference option" where
  "ruleControllerOwner refs =
     (case find (\<lambda>r. or_Controller r = Some True) refs of
        Some r \<Rightarrow> Some r
      | None \<Rightarrow> (case refs of [] \<Rightarrow> None | r # _ \<Rightarrow> Some r))"

text \<open>The literal that all kinds share: resource, labels, UID and generation of the object.\<close>

definition workloadTarget :: "string \<Rightarrow> string \<Rightarrow> ('a WorkloadObject_scheme) \<Rightarrow> WorkloadStatus \<Rightarrow> Target" where
  "workloadTarget kind apiVersion item status =
     (let m = wo_Meta item in
      \<lparr>tgt_Resource = workloadToResource kind apiVersion (om_Name m) (om_Namespace m) (om_Labels m) (wo_TemplateLabels item),
       tgt_Labels = workloadLabels (om_Labels m) (wo_TemplateLabels item), tgt_UID = om_UID m,
       tgt_Generation = om_Generation m, tgt_Pods = [], tgt_Status = status, tgt_OwnerChain = []\<rparr>)"

definition deploymentTarget :: "ListedDeployment \<Rightarrow> Target" where
  "deploymentTarget item = workloadTarget ''Deployment'' ''apps/v1'' item
     (emptyWorkloadStatus\<lparr>wst_ReadyReplicas := ldp_ReadyReplicas item,
        wst_AvailableReplicas := ldp_AvailableReplicas item, wst_DesiredReplicas := desiredReplicas (ldp_Replicas item)\<rparr>)"

definition statefulSetTarget :: "ListedStatefulSet \<Rightarrow> Target" where
  "statefulSetTarget item = workloadTarget ''StatefulSet'' ''apps/v1'' item
     (emptyWorkloadStatus\<lparr>wst_ReadyReplicas := lss_ReadyReplicas item,
        wst_DesiredReplicas := desiredReplicas (lss_Replicas item)\<rparr>)"

definition daemonSetTarget :: "ListedDaemonSet \<Rightarrow> Target" where
  "daemonSetTarget item = workloadTarget ''DaemonSet'' ''apps/v1'' item
     (emptyWorkloadStatus\<lparr>wst_ReadyReplicas := lds_NumberReady item,
        wst_DesiredReplicas := lds_DesiredNumberScheduled item\<rparr>)"

definition jobTarget :: "ListedJob \<Rightarrow> Target" where
  "jobTarget item = workloadTarget ''Job'' ''batch/v1'' item
     (emptyWorkloadStatus\<lparr>wst_Active := ljb_Active item, wst_Succeeded := ljb_Succeeded item,
        wst_Failed := ljb_Failed item\<rparr>)"

definition replicaSetResource :: "WorkloadObject \<Rightarrow> ResourceRef" where
  "replicaSetResource item = workloadToResource ''ReplicaSet'' ''apps/v1'' (om_Name (wo_Meta item))
     (om_Namespace (wo_Meta item)) (om_Labels (wo_Meta item)) (wo_TemplateLabels item)"

definition replicaSetTarget :: "WorkloadObject \<Rightarrow> Target \<Rightarrow> Target" where
  "replicaSetTarget item pod =
     (workloadTarget ''ReplicaSet'' ''apps/v1'' item emptyWorkloadStatus)
       \<lparr>tgt_Resource := replicaSetResource item, tgt_Pods := tgt_Pods pod, tgt_OwnerChain := [tgt_Resource pod]\<rparr>"

text \<open>The \<^verbatim>\<open>CronJob\<close> that owns a job.\<close>

definition cronJobRef :: "string \<Rightarrow> string \<Rightarrow> strmap \<Rightarrow> ResourceRef" where
  "cronJobRef namespace name labels =
     \<lparr>r_Cluster = ''in-cluster'', r_Namespace = namespace, r_Kind = ''CronJob'', r_Name = name,
      r_APIVersion = ''batch/v1'', r_Service = firstNonEmptyText [mapGet labels ''app'', name]\<rparr>"

definition cronJobOwner :: "ListedJob \<Rightarrow> ResourceRef list" where
  "cronJobOwner item =
     (case ruleControllerOwner (om_OwnerReferences (wo_Meta item)) of
        None \<Rightarrow> []
      | Some owner \<Rightarrow>
          if or_Kind owner = ''CronJob''
          then [cronJobRef (om_Namespace (wo_Meta item)) (or_Name owner) (tgt_Labels (jobTarget item))] else [])"

definition podTarget :: "ObjectMeta \<Rightarrow> Target" where
  "podTarget pod =
     \<lparr>tgt_Resource = \<lparr>r_Cluster = ''in-cluster'', r_Namespace = om_Namespace pod, r_Kind = ''Pod'', r_Name = om_Name pod,
        r_APIVersion = ''v1'', r_Service = firstNonEmptyText [mapGet (om_Labels pod) ''app'', om_Name pod]\<rparr>,
      tgt_Labels = workloadLabels (om_Labels pod) Map.empty, tgt_UID = om_UID pod, tgt_Generation = om_Generation pod,
      tgt_Pods = [\<lparr>prf_Namespace = om_Namespace pod, prf_Name = om_Name pod, prf_UID = om_UID pod\<rparr>],
      tgt_Status = emptyWorkloadStatus, tgt_OwnerChain = []\<rparr>"

text \<open>\<^verbatim>\<open>return target, client.IgnoreNotFound(err)\<close>; the caller drops the target of an error.\<close>

definition orNotFound :: "Target \<Rightarrow> go_error \<Rightarrow> go_error + Target" where
  "orNotFound target e = (case IgnoreNotFound e of None \<Rightarrow> Inr target | Some e \<Rightarrow> Inl e)"

definition podCanonicalTarget :: "workload_reader \<Rightarrow> ObjectMeta \<Rightarrow> go_error + Target" where
  "podCanonicalTarget wr pod =
     (let base = podTarget pod; podRef = tgt_Resource base; ns = om_Namespace pod in
      case ruleControllerOwner (om_OwnerReferences pod) of
        None \<Rightarrow> Inr base
      | Some owner \<Rightarrow>
          if or_Kind owner = ''ReplicaSet'' then
            (case wr_GetReplicaSet wr (ns, or_Name owner) of
               Inl e \<Rightarrow> orNotFound base e
             | Inr rs \<Rightarrow>
                 (case ruleControllerOwner (om_OwnerReferences (wo_Meta rs)) of
                    None \<Rightarrow> Inr (replicaSetTarget rs base)
                  | Some rsOwner \<Rightarrow>
                      if or_Kind rsOwner = ''Deployment'' then
                        (case wr_GetDeployment wr (ns, or_Name rsOwner) of
                           Inl e \<Rightarrow> orNotFound (replicaSetTarget rs base) e
                         | Inr deployment \<Rightarrow> Inr ((deploymentTarget deployment)
                             \<lparr>tgt_Pods := tgt_Pods base, tgt_OwnerChain := [podRef, replicaSetResource rs]\<rparr>))
                      else Inr (replicaSetTarget rs base)))
          else if or_Kind owner = ''StatefulSet'' then
            (case wr_GetStatefulSet wr (ns, or_Name owner) of
               Inl e \<Rightarrow> orNotFound base e
             | Inr item \<Rightarrow> Inr ((statefulSetTarget item)\<lparr>tgt_Pods := tgt_Pods base, tgt_OwnerChain := [podRef]\<rparr>))
          else if or_Kind owner = ''DaemonSet'' then
            (case wr_GetDaemonSet wr (ns, or_Name owner) of
               Inl e \<Rightarrow> orNotFound base e
             | Inr item \<Rightarrow> Inr ((daemonSetTarget item)\<lparr>tgt_Pods := tgt_Pods base, tgt_OwnerChain := [podRef]\<rparr>))
          else if or_Kind owner = ''Job'' then
            (case wr_GetJob wr (ns, or_Name owner) of
               Inl e \<Rightarrow> orNotFound base e
             | Inr job \<Rightarrow> Inr ((jobTarget job)
                 \<lparr>tgt_Pods := tgt_Pods base, tgt_OwnerChain := podRef # cronJobOwner job\<rparr>))
          else Inr (base\<lparr>tgt_OwnerChain := [podRef]\<rparr>))"

subsection \<open>Discovery\<close>

definition normalizeKind :: "string \<Rightarrow> string" where
  "normalizeKind value =
     ToLower (filter (\<lambda>c. c \<noteq> CHR ''_'') (filter (\<lambda>c. c \<noteq> CHR ''-'') (TrimSpace value)))"

definition selectedKinds :: "string list \<Rightarrow> string list" where
  "selectedKinds kinds =
     (if kinds = [] then [''Deployment''] else filter (\<lambda>kind. kind \<noteq> []) (map TrimSpace kinds))"

definition selectedNamespaces :: "string list \<Rightarrow> string list" where
  "selectedNamespaces namespaces = (if namespaces = [] then [[]] else namespaces)"

text \<open>The loop over the namespaces and over the items of each list, up to the first error.\<close>

fun appendItems :: "('a \<Rightarrow> go_error + Target) \<Rightarrow> 'a list \<Rightarrow> Target list \<Rightarrow> go_error + Target list" where
  "appendItems toTarget [] targets = Inr targets"
| "appendItems toTarget (item # items) targets =
     (case toTarget item of Inl e \<Rightarrow> Inl e | Inr t \<Rightarrow> appendItems toTarget items (targets @ [t]))"

fun discoverIn ::
  "(string \<Rightarrow> go_error + 'a list) \<Rightarrow> ('a \<Rightarrow> go_error + Target) \<Rightarrow> string list \<Rightarrow> Target list \<Rightarrow> go_error + Target list" where
  "discoverIn listItems toTarget [] targets = Inr targets"
| "discoverIn listItems toTarget (ns # namespaces) targets =
     (case listItems ns of
        Inl e \<Rightarrow> Inl e
      | Inr items \<Rightarrow>
          (case appendItems toTarget items targets of
             Inl e \<Rightarrow> Inl e
           | Inr targets \<Rightarrow> discoverIn listItems toTarget namespaces targets))"

definition discoverDeployments :: "workload_reader \<Rightarrow> string list \<Rightarrow> go_error + Target list" where
  "discoverDeployments wr ns = discoverIn (wr_ListDeployments wr) (\<lambda>d. Inr (deploymentTarget d)) ns []"

definition discoverStatefulSets :: "workload_reader \<Rightarrow> string list \<Rightarrow> go_error + Target list" where
  "discoverStatefulSets wr ns = discoverIn (wr_ListStatefulSets wr) (\<lambda>s. Inr (statefulSetTarget s)) ns []"

definition discoverDaemonSets :: "workload_reader \<Rightarrow> string list \<Rightarrow> go_error + Target list" where
  "discoverDaemonSets wr ns = discoverIn (wr_ListDaemonSets wr) (\<lambda>d. Inr (daemonSetTarget d)) ns []"

definition discoverJobs :: "workload_reader \<Rightarrow> string list \<Rightarrow> go_error + Target list" where
  "discoverJobs wr ns =
     discoverIn (wr_ListJobs wr) (\<lambda>j. Inr ((jobTarget j)\<lparr>tgt_OwnerChain := cronJobOwner j\<rparr>)) ns []"

definition discoverCronJobs :: "workload_reader \<Rightarrow> string list \<Rightarrow> go_error + Target list" where
  "discoverCronJobs wr ns =
     discoverIn (wr_ListCronJobs wr) (\<lambda>c. Inr (workloadTarget ''CronJob'' ''batch/v1'' c emptyWorkloadStatus)) ns []"

definition discoverPods :: "workload_reader \<Rightarrow> string list \<Rightarrow> go_error + Target list" where
  "discoverPods wr ns = discoverIn (wr_ListPods wr) (podCanonicalTarget wr) ns []"

definition matchesLabels :: "strmap \<Rightarrow> (string \<times> string) list \<Rightarrow> bool" where
  "matchesLabels labels required = list_all (\<lambda>(key, value). mapGet labels key = value) required"

definition filterTargets :: "Target list \<Rightarrow> (string \<times> string) list \<Rightarrow> Target list" where
  "filterTargets targets requiredLabels = filter (\<lambda>t. matchesLabels (tgt_Labels t) requiredLabels) targets"

text \<open>The key of a target; of targets with one key the first is kept, with the Pods of all.\<close>

definition ruleTargetKey :: "Target \<Rightarrow> string" where
  "ruleTargetKey t = (let r = tgt_Resource t in
     r_APIVersion r @ ''/'' @ r_Kind r @ ''/'' @ r_Namespace r @ ''/'' @ r_Name r)"

definition mergeTarget :: "Target \<Rightarrow> Target \<Rightarrow> Target" where
  "mergeTarget existing target =
     (let existing = existing\<lparr>tgt_Pods := tgt_Pods existing @ tgt_Pods target\<rparr> in
      if tgt_UID existing = [] then existing\<lparr>tgt_UID := tgt_UID target\<rparr> else existing)"

fun addTarget :: "Target \<Rightarrow> Target list \<Rightarrow> Target list" where
  "addTarget target [] = [target]"
| "addTarget target (existing # seen) =
     (if ruleTargetKey existing = ruleTargetKey target then mergeTarget existing target # seen
      else existing # addTarget target seen)"

text \<open>\<open>visit\<close> is the order in which the range over the map \<^verbatim>\<open>seen\<close> visits its values.\<close>

definition dedupeTargets :: "(Target list \<Rightarrow> Target list) \<Rightarrow> Target list \<Rightarrow> Target list" where
  "dedupeTargets visit targets = visit (foldl (\<lambda>seen t. addTarget t seen) [] targets)"

definition targetLess :: "Target \<Rightarrow> Target \<Rightarrow> bool" where
  "targetLess a b = (let a = tgt_Resource a; b = tgt_Resource b in
     if r_Namespace a = r_Namespace b then
       if r_Kind a = r_Kind b then r_Name a < r_Name b else r_Kind a < r_Kind b
     else r_Namespace a < r_Namespace b)"

text \<open>\<open>None\<close>: the kind is skipped.\<close>

definition discoverKind :: "workload_reader \<Rightarrow> string list \<Rightarrow> string \<Rightarrow> (go_error + Target list) option" where
  "discoverKind wr namespaces kind =
     (let k = normalizeKind kind in
      if k = ''deployment'' then Some (discoverDeployments wr namespaces)
      else if k = ''statefulset'' then Some (discoverStatefulSets wr namespaces)
      else if k = ''daemonset'' then Some (discoverDaemonSets wr namespaces)
      else if k = ''job'' then Some (discoverJobs wr namespaces)
      else if k = ''cronjob'' then Some (discoverCronJobs wr namespaces)
      else if k = ''pod'' then Some (discoverPods wr namespaces)
      else None)"

fun discoverKinds ::
  "workload_reader \<Rightarrow> string list \<Rightarrow> (string \<times> string) list \<Rightarrow> string list \<Rightarrow> Target list \<Rightarrow> go_error + Target list" where
  "discoverKinds wr namespaces labels [] targets = Inr targets"
| "discoverKinds wr namespaces labels (kind # kinds) targets =
     (case discoverKind wr namespaces kind of
        None \<Rightarrow> discoverKinds wr namespaces labels kinds targets
      | Some (Inl e) \<Rightarrow> Inl e
      | Some (Inr discovered) \<Rightarrow>
          discoverKinds wr namespaces labels kinds (targets @ filterTargets discovered labels))"

text \<open>\<^verbatim>\<open>sort.Slice\<close> is not stable, but the order separates the targets (\<open>discovery_order_irrelevant\<close>).\<close>

definition DiscoverTargets ::
  "(Target list \<Rightarrow> Target list) \<Rightarrow> workload_reader \<Rightarrow> TargetSelector \<Rightarrow> go_error + Target list" where
  "DiscoverTargets visit wr selector =
     (case discoverKinds wr (selectedNamespaces (nss_MatchNames (tgs_NamespaceSelector selector)))
        (wks_MatchLabels (tgs_WorkloadSelector selector)) (selectedKinds (wks_Kinds (tgs_WorkloadSelector selector))) [] of
        Inl e \<Rightarrow> Inl e
      | Inr targets \<Rightarrow> Inr (SliceStable targetLess (dedupeTargets visit targets)))"

subsection \<open>Coverage\<close>

definition canonicalSupportedKind :: "string \<Rightarrow> string option" where
  "canonicalSupportedKind kind =
     (let k = normalizeKind kind in
      if k = ''deployment'' then Some ''Deployment''
      else if k = ''statefulset'' then Some ''StatefulSet''
      else if k = ''daemonset'' then Some ''DaemonSet''
      else if k = ''job'' then Some ''Job''
      else if k = ''cronjob'' then Some ''CronJob''
      else if k = ''pod'' then Some ''Pod''
      else None)"

definition canonicalUnsupportedKind :: "string \<Rightarrow> string" where
  "canonicalUnsupportedKind kind =
     (let k = normalizeKind kind in
      if k = ''node'' then ''Node''
      else if k \<in> {''persistentvolumeclaim'', ''pvc''} then ''PersistentVolumeClaim''
      else if k \<in> {''persistentvolume'', ''pv''} then ''PersistentVolume''
      else if k = ''service'' then ''Service''
      else if k = ''endpointslice'' then ''EndpointSlice''
      else if k = ''ingress'' then ''Ingress''
      else if k \<in> {''hpa'', ''horizontalpodautoscaler''} then ''HorizontalPodAutoscaler''
      else if k \<in> {''pdb'', ''poddisruptionbudget''} then ''PodDisruptionBudget''
      else TrimSpace kind)"

fun countNamespaced :: "(string \<Rightarrow> go_error + int) \<Rightarrow> string list \<Rightarrow> int \<Rightarrow> go_error + int" where
  "countNamespaced size_in [] sum_so_far = Inr sum_so_far"
| "countNamespaced size_in (ns # namespaces) sum_so_far =
     (case size_in ns of Inl e \<Rightarrow> Inl e
      | Inr n \<Rightarrow> countNamespaced size_in namespaces (wrap32 (sum_so_far + wrap32 n)))"

definition countUnsupportedKind :: "workload_reader \<Rightarrow> string \<Rightarrow> string list \<Rightarrow> go_error + int" where
  "countUnsupportedKind wr kind namespaces =
     (let k = normalizeKind kind in
      if k = ''node'' then map_sum id wrap32 (wr_CountNodes wr)
      else if k \<in> {''persistentvolumeclaim'', ''pvc''} then countNamespaced (wr_CountPersistentVolumeClaims wr) namespaces 0
      else if k \<in> {''persistentvolume'', ''pv''} then map_sum id wrap32 (wr_CountPersistentVolumes wr)
      else if k = ''service'' then countNamespaced (wr_CountServices wr) namespaces 0
      else Inr 0)"

definition appendIfMissing :: "string list \<Rightarrow> string \<Rightarrow> string list" where
  "appendIfMissing values value = (if value \<in> set values then values else values @ [value])"

fun coverKinds :: "workload_reader \<Rightarrow> string list \<Rightarrow> string list \<Rightarrow> CoverageReport \<Rightarrow> go_error + CoverageReport" where
  "coverKinds wr namespaces [] report = Inr report"
| "coverKinds wr namespaces (kind # kinds) report =
     (case canonicalSupportedKind kind of
        Some canonical \<Rightarrow> coverKinds wr namespaces kinds
          (report\<lparr>cvr_SupportedTargetKinds := appendIfMissing (cvr_SupportedTargetKinds report) canonical\<rparr>)
      | None \<Rightarrow>
          (case countUnsupportedKind wr kind namespaces of
             Inl e \<Rightarrow> Inl e
           | Inr n \<Rightarrow> coverKinds wr namespaces kinds
               (report\<lparr>cvr_UnsupportedDiscoveredKinds :=
                  (cvr_UnsupportedDiscoveredKinds report)(canonicalUnsupportedKind kind \<mapsto> n),
                  cvr_Partial := True\<rparr>)))"

definition DiscoverCoverage :: "workload_reader \<Rightarrow> TargetSelector \<Rightarrow> go_error + CoverageReport" where
  "DiscoverCoverage wr selector =
     map_sum id (\<lambda>report. report\<lparr>cvr_SupportedTargetKinds := sort (cvr_SupportedTargetKinds report)\<rparr>)
       (coverKinds wr (selectedNamespaces (nss_MatchNames (tgs_NamespaceSelector selector)))
         (selectedKinds (wks_Kinds (tgs_WorkloadSelector selector)))
         \<lparr>cvr_SupportedTargetKinds = [], cvr_UnsupportedDiscoveredKinds = Map.empty, cvr_Partial = False\<rparr>)"

subsection \<open>Every target has the version of its kind\<close>

text \<open>The API version is a function of the kind, so two targets with different keys differ in kind, namespace or name.\<close>

definition versionOf :: "string \<Rightarrow> string" where
  "versionOf kind = (if kind \<in> {''Job'', ''CronJob''} then ''batch/v1'' else if kind = ''Pod'' then ''v1'' else ''apps/v1'')"

definition versioned :: "Target \<Rightarrow> bool" where
  "versioned t \<longleftrightarrow> r_APIVersion (tgt_Resource t) = versionOf (r_Kind (tgt_Resource t))"

lemma versioned_targets [simp]:
  "versioned (deploymentTarget d)" "versioned (statefulSetTarget s)" "versioned (daemonSetTarget e)"
  "versioned (jobTarget j)" "versioned (replicaSetTarget r p)" "versioned (podTarget m)"
  "versioned (workloadTarget ''CronJob'' ''batch/v1'' c st)"
  by (simp_all add: versioned_def versionOf_def deploymentTarget_def statefulSetTarget_def daemonSetTarget_def
      jobTarget_def replicaSetTarget_def replicaSetResource_def podTarget_def workloadTarget_def workloadToResource_def
      Let_def)

lemma versioned_update [simp]:
  "versioned (t\<lparr>tgt_Pods := p\<rparr>) = versioned t" "versioned (t\<lparr>tgt_OwnerChain := c\<rparr>) = versioned t"
  "versioned (t\<lparr>tgt_UID := u\<rparr>) = versioned t"
  by (simp_all add: versioned_def)

lemma orNotFound_versioned: "orNotFound t e = Inr t' \<Longrightarrow> t' = t"
  by (auto simp: orNotFound_def split: option.splits)

lemma podCanonicalTarget_versioned: "podCanonicalTarget wr pod = Inr t \<Longrightarrow> versioned t"
  unfolding podCanonicalTarget_def Let_def
  by (auto split: option.splits if_splits sum.splits dest!: orNotFound_versioned)

lemma appendItems_all:
  "\<lbrakk>appendItems f items ts = Inr ts'; \<And>i t. f i = Inr t \<Longrightarrow> P t; \<forall>t\<in>set ts. P t\<rbrakk> \<Longrightarrow> \<forall>t\<in>set ts'. P t"
  by (induction f items ts rule: appendItems.induct) (auto split: sum.splits)

lemma discoverIn_all:
  "\<lbrakk>discoverIn l f ns ts = Inr ts'; \<And>i t. f i = Inr t \<Longrightarrow> P t; \<forall>t\<in>set ts. P t\<rbrakk> \<Longrightarrow> \<forall>t\<in>set ts'. P t"
proof (induction ns arbitrary: ts)
  case (Cons n ns)
  then show ?case using appendItems_all [of f _ ts _ P] by (auto split: sum.splits)
qed simp

lemma discoverKind_versioned: "discoverKind wr ns kind = Some (Inr ts) \<Longrightarrow> \<forall>t\<in>set ts. versioned t"
  unfolding discoverKind_def discoverDeployments_def discoverStatefulSets_def discoverDaemonSets_def discoverJobs_def
    discoverCronJobs_def discoverPods_def Let_def
  by (auto split: if_splits dest!: discoverIn_all [where P = versioned] dest: podCanonicalTarget_versioned)

text \<open>What a successful discovery finds: for each kind in order, the listed targets that carry the labels.\<close>

definition foundTargets :: "workload_reader \<Rightarrow> TargetSelector \<Rightarrow> Target list" where
  "foundTargets wr selector =
     concat (map (\<lambda>kind. case discoverKind wr (selectedNamespaces (nss_MatchNames (tgs_NamespaceSelector selector))) kind of
         Some (Inr ts) \<Rightarrow> filter (\<lambda>t. matchesLabels (tgt_Labels t) (wks_MatchLabels (tgs_WorkloadSelector selector))) ts
       | _ \<Rightarrow> []) (selectedKinds (wks_Kinds (tgs_WorkloadSelector selector))))"

lemma discoverKinds_found:
  "discoverKinds wr ns labels kinds ts = Inr ts' \<Longrightarrow>
   ts' = ts @ concat (map (\<lambda>kind. case discoverKind wr ns kind of
         Some (Inr ts) \<Rightarrow> filter (\<lambda>t. matchesLabels (tgt_Labels t) labels) ts | _ \<Rightarrow> []) kinds)"
  by (induction wr ns labels kinds ts rule: discoverKinds.induct)
    (auto simp: filterTargets_def split: option.splits sum.splits)

lemma found_versioned: "t \<in> set (foundTargets wr selector) \<Longrightarrow> versioned t"
  by (auto simp: foundTargets_def split: option.splits sum.splits dest: discoverKind_versioned [OF sym])

lemma found_labels:
  "t \<in> set (foundTargets wr selector) \<Longrightarrow> matchesLabels (tgt_Labels t) (wks_MatchLabels (tgs_WorkloadSelector selector))"
  by (auto simp: foundTargets_def split: option.splits sum.splits)

subsection \<open>Merging targets\<close>

lemma mergeTarget_simps [simp]:
  "tgt_Resource (mergeTarget a b) = tgt_Resource a" "tgt_Labels (mergeTarget a b) = tgt_Labels a"
  "tgt_Pods (mergeTarget a b) = tgt_Pods a @ tgt_Pods b" "ruleTargetKey (mergeTarget a b) = ruleTargetKey a"
  "versioned (mergeTarget a b) = versioned a"
  by (simp_all add: mergeTarget_def ruleTargetKey_def Let_def)

lemma addTarget_keys:
  "map ruleTargetKey (addTarget t ts) = (if ruleTargetKey t \<in> ruleTargetKey ` set ts then map ruleTargetKey ts
     else map ruleTargetKey ts @ [ruleTargetKey t])"
  by (induction ts) auto

lemma addTarget_pods:
  "mset (concat (map tgt_Pods (addTarget t ts))) = mset (concat (map tgt_Pods ts)) + mset (tgt_Pods t)"
  by (induction ts) (auto simp: ac_simps)

lemma addTarget_all:
  "\<lbrakk>\<forall>a\<in>set ts. P a; P t; \<And>a b. P a \<Longrightarrow> P b \<Longrightarrow> P (mergeTarget a b)\<rbrakk> \<Longrightarrow> \<forall>a\<in>set (addTarget t ts). P a"
  by (induction ts) auto

abbreviation grouped :: "Target list \<Rightarrow> Target list" where
  "grouped ts \<equiv> foldl (\<lambda>seen t. addTarget t seen) [] ts"

lemma foldl_addTarget:
  assumes "distinct (map ruleTargetKey seen)"
  shows "distinct (map ruleTargetKey (foldl (\<lambda>seen t. addTarget t seen) seen ts)) \<and>
    ruleTargetKey ` set (foldl (\<lambda>seen t. addTarget t seen) seen ts) = ruleTargetKey ` set seen \<union> ruleTargetKey ` set ts \<and>
    mset (concat (map tgt_Pods (foldl (\<lambda>seen t. addTarget t seen) seen ts))) =
      mset (concat (map tgt_Pods seen)) + mset (concat (map tgt_Pods ts))"
  using assms
proof (induction ts arbitrary: seen)
  case (Cons t ts)
  have "distinct (map ruleTargetKey (addTarget t seen))" using Cons.prems by (auto simp: addTarget_keys)
  moreover have "ruleTargetKey ` set (addTarget t seen) = insert (ruleTargetKey t) (ruleTargetKey ` set seen)"
    using arg_cong [OF addTarget_keys [of t seen], of set] by (auto split: if_splits)
  ultimately show ?case using Cons.IH [of "addTarget t seen"] by (simp add: addTarget_pods ac_simps)
qed simp

lemma grouped_all:
  "\<lbrakk>\<forall>a\<in>set ts. P a; \<And>a b. P a \<Longrightarrow> P b \<Longrightarrow> P (mergeTarget a b)\<rbrakk> \<Longrightarrow> \<forall>a\<in>set (grouped ts). P a"
proof (induction ts rule: rev_induct)
  case (snoc t ts)
  then show ?case using addTarget_all [of "grouped ts" P t] by simp
qed simp

lemma same_key:
  assumes "versioned a" "versioned b" "\<not> targetLess a b" "\<not> targetLess b a"
  shows "ruleTargetKey a = ruleTargetKey b"
  using assms unfolding versioned_def ruleTargetKey_def targetLess_def Let_def by (auto split: if_splits)

interpretation targets: precedence targetLess
  by unfold_locales (auto simp: targetLess_def Let_def split: if_splits)

definition kindsFound :: "workload_reader \<Rightarrow> TargetSelector \<Rightarrow> go_error + Target list" where
  "kindsFound wr selector = discoverKinds wr (selectedNamespaces (nss_MatchNames (tgs_NamespaceSelector selector)))
     (wks_MatchLabels (tgs_WorkloadSelector selector)) (selectedKinds (wks_Kinds (tgs_WorkloadSelector selector))) []"

lemma DiscoverTargets_found:
  "DiscoverTargets visit wr selector = (case kindsFound wr selector of
     Inl e \<Rightarrow> Inl e | Inr _ \<Rightarrow> Inr (SliceStable targetLess (visit (grouped (foundTargets wr selector)))))"
proof (cases "kindsFound wr selector")
  case (Inr ts)
  then have "ts = foundTargets wr selector"
    using discoverKinds_found unfolding kindsFound_def foundTargets_def by fastforce
  with Inr show ?thesis by (simp add: DiscoverTargets_def kindsFound_def dedupeTargets_def)
qed (simp add: DiscoverTargets_def kindsFound_def)

text \<open> the result of a discovery does not depend on the order in which the map of targets is visited, nor on the
  unstable sort: targets that the final comparison does not separate have one key and were merged before.\<close>

theorem discovery_order_irrelevant:
  assumes "\<And>ts. mset (visit ts) = mset ts"
  shows "DiscoverTargets visit wr selector = DiscoverTargets id wr selector"
proof -
  have "SliceStable targetLess (visit (grouped ts)) = SliceStable targetLess (grouped ts)"
    if ts: "\<forall>t\<in>set ts. versioned t" for ts
  proof (rule targets.SliceStable_mset_eq [OF assms])
    have keys: "inj_on ruleTargetKey (set (grouped ts))"
      using foldl_addTarget [of "[]" ts] by (simp add: distinct_map)
    have vs: "\<forall>t\<in>set (grouped ts). versioned t" by (rule grouped_all [OF ts]) simp
    fix a b
    assume "a \<in> set (visit (grouped ts))" "b \<in> set (visit (grouped ts))" "\<not> targetLess a b" "\<not> targetLess b a"
    then show "a = b"
      using keys vs same_key [of a b] mset_eq_setD [OF assms [of "grouped ts"]] by (auto dest: inj_onD)
  qed
  from this [of "foundTargets wr selector"] show ?thesis
    using found_versioned by (simp add: DiscoverTargets_found split: sum.split)
qed

lemma mset_concat_pods: "mset (concat (map tgt_Pods ts)) = (\<Sum>t\<in>#mset ts. mset (tgt_Pods t))"
  by (induction ts) auto

lemma sorted_wrt_strict:
  "\<lbrakk>sorted_wrt (\<lambda>a b. \<not> lt b a) xs; distinct xs; \<And>a b. a \<in> set xs \<Longrightarrow> b \<in> set xs \<Longrightarrow> \<not> lt a b \<Longrightarrow> \<not> lt b a \<Longrightarrow> a = b\<rbrakk> \<Longrightarrow>
   sorted_wrt lt xs"
  by (induction xs) auto

text \<open>C33: the targets of a rule are strictly sorted by namespace, kind and name, so no object occurs twice; they are
  exactly the objects that some selected kind finds, all carry the required labels, and no Pod reference is
  lost when targets are merged.\<close>

theorem discovered_targets:
  assumes "DiscoverTargets id wr selector = Inr targets"
  shows "sorted_wrt targetLess targets \<and> ruleTargetKey ` set targets = ruleTargetKey ` set (foundTargets wr selector) \<and>
    (\<forall>t\<in>set targets. matchesLabels (tgt_Labels t) (wks_MatchLabels (tgs_WorkloadSelector selector))) \<and>
    mset (concat (map tgt_Pods targets)) = mset (concat (map tgt_Pods (foundTargets wr selector)))"
proof (intro conjI)
  let ?found = "foundTargets wr selector"
  have t: "targets = SliceStable targetLess (grouped ?found)"
    using assms by (simp add: DiscoverTargets_found split: sum.splits)
  then have m: "mset targets = mset (grouped ?found)" by simp
  have keys: "inj_on ruleTargetKey (set targets)" "distinct targets"
    using foldl_addTarget [of "[]" ?found] mset_eq_setD [OF m] mset_eq_imp_distinct_iff [OF m]
    by (simp_all add: distinct_map)
  have vs: "\<forall>t\<in>set targets. versioned t"
    unfolding mset_eq_setD [OF m] by (rule grouped_all) (auto simp: found_versioned)
  show "sorted_wrt targetLess targets"
  proof (rule sorted_wrt_strict)
    show "sorted_wrt (\<lambda>a b. \<not> targetLess b a) targets" unfolding t by (rule targets.sorted_SliceStable)
    show "a = b" if "a \<in> set targets" "b \<in> set targets" "\<not> targetLess a b" "\<not> targetLess b a" for a b
      using that keys(1) vs same_key [of a b] by (auto dest: inj_onD)
  qed (rule keys(2))
  show "ruleTargetKey ` set targets = ruleTargetKey ` set ?found"
    using foldl_addTarget [of "[]" ?found] mset_eq_setD [OF m] by simp
  show "\<forall>t\<in>set targets. matchesLabels (tgt_Labels t) (wks_MatchLabels (tgs_WorkloadSelector selector))"
    unfolding mset_eq_setD [OF m] by (rule grouped_all) (auto simp: found_labels)
  have "mset (concat (map tgt_Pods targets)) = mset (concat (map tgt_Pods (grouped ?found)))"
    using m by (simp add: mset_concat_pods)
  then show "mset (concat (map tgt_Pods targets)) = mset (concat (map tgt_Pods ?found))"
    using foldl_addTarget [of "[]" ?found] by simp
qed

subsection \<open>Coverage and discovery agree\<close>

lemma discoverKind_None_iff: "discoverKind wr ns kind = None \<longleftrightarrow> canonicalSupportedKind kind = None"
  by (simp add: discoverKind_def canonicalSupportedKind_def Let_def)

lemma set_appendIfMissing [simp]: "set (appendIfMissing vs v) = insert v (set vs)"
  by (auto simp: appendIfMissing_def)

lemma distinct_appendIfMissing [simp]: "distinct (appendIfMissing vs v) = distinct vs"
  by (auto simp: appendIfMissing_def)

lemma coverKinds_spec:
  assumes "coverKinds wr ns kinds r = Inr r'"
  shows "set (cvr_SupportedTargetKinds r') =
      set (cvr_SupportedTargetKinds r) \<union> {c. \<exists>k\<in>set kinds. canonicalSupportedKind k = Some c}"
    and "distinct (cvr_SupportedTargetKinds r') = distinct (cvr_SupportedTargetKinds r)"
    and "dom (cvr_UnsupportedDiscoveredKinds r') = dom (cvr_UnsupportedDiscoveredKinds r) \<union>
      canonicalUnsupportedKind ` {k \<in> set kinds. canonicalSupportedKind k = None}"
    and "cvr_Partial r' = (cvr_Partial r \<or> (\<exists>k\<in>set kinds. canonicalSupportedKind k = None))"
  using assms by (induction wr ns kinds r rule: coverKinds.induct) (auto split: option.splits sum.splits)

text \<open> the coverage report is complete: the supported kinds, sorted and once each, are those of the selection that
  discovery visits, the unsupported ones exactly those that it skips, and the report is partial exactly when
  there is one of these.\<close>

theorem coverage_reports_skipped_kinds:
  assumes "DiscoverCoverage wr selector = Inr report"
  defines "kinds \<equiv> set (selectedKinds (wks_Kinds (tgs_WorkloadSelector selector)))"
    and "skipped \<equiv> (\<lambda>kind. discoverKind wr (selectedNamespaces (nss_MatchNames (tgs_NamespaceSelector selector))) kind = None)"
  shows "cvr_Partial report = (\<exists>kind\<in>kinds. skipped kind)"
    "dom (cvr_UnsupportedDiscoveredKinds report) = canonicalUnsupportedKind ` {kind \<in> kinds. skipped kind}"
    "sorted (cvr_SupportedTargetKinds report)" "distinct (cvr_SupportedTargetKinds report)"
    "Some ` set (cvr_SupportedTargetKinds report) = canonicalSupportedKind ` {kind \<in> kinds. \<not> skipped kind}"
proof -
  let ?ns = "selectedNamespaces (nss_MatchNames (tgs_NamespaceSelector selector))"
  let ?empty = "\<lparr>cvr_SupportedTargetKinds = [], cvr_UnsupportedDiscoveredKinds = Map.empty, cvr_Partial = False\<rparr>"
  obtain r where cover: "coverKinds wr ?ns (selectedKinds (wks_Kinds (tgs_WorkloadSelector selector))) ?empty = Inr r"
    and report: "report = r\<lparr>cvr_SupportedTargetKinds := sort (cvr_SupportedTargetKinds r)\<rparr>"
    using assms(1) unfolding DiscoverCoverage_def
    by (cases "coverKinds wr ?ns (selectedKinds (wks_Kinds (tgs_WorkloadSelector selector))) ?empty") auto
  note c = coverKinds_spec [OF cover, simplified]
  show "cvr_Partial report = (\<exists>kind\<in>kinds. skipped kind)"
    by (simp add: report c kinds_def skipped_def discoverKind_None_iff)
  show "dom (cvr_UnsupportedDiscoveredKinds report) = canonicalUnsupportedKind ` {kind \<in> kinds. skipped kind}"
    by (simp add: report c kinds_def skipped_def discoverKind_None_iff)
  show "sorted (cvr_SupportedTargetKinds report)" "distinct (cvr_SupportedTargetKinds report)"
    using c(2) by (simp_all add: report)
  show "Some ` set (cvr_SupportedTargetKinds report) = canonicalSupportedKind ` {kind \<in> kinds. \<not> skipped kind}"
    unfolding report kinds_def skipped_def discoverKind_None_iff by (auto simp: c image_iff) force
qed

text \<open>A cluster with one Deployment, whose Pod is listed as well, and three nodes.\<close>

definition demoWorkload :: WorkloadObject where
  "demoWorkload = \<lparr>wo_Meta = emptyMeta\<lparr>om_Name := ''web'', om_Namespace := ''prod'', om_UID := ''u1''\<rparr>, wo_TemplateLabels = Map.empty\<rparr>"

definition demoListedDeployment :: ListedDeployment where
  "demoListedDeployment = WorkloadObject.extend demoWorkload
     \<lparr>ldp_Replicas = Some 2, ldp_ReadyReplicas = 1, ldp_AvailableReplicas = 1\<rparr>"

definition demoReplicaSet :: WorkloadObject where
  "demoReplicaSet = \<lparr>wo_Meta = emptyMeta\<lparr>om_Name := ''web-1'', om_Namespace := ''prod'', om_OwnerReferences :=
     [\<lparr>or_Kind = ''Deployment'', or_Name = ''web'', or_UID = ''u1'', or_Controller = Some True\<rparr>]\<rparr>, wo_TemplateLabels = Map.empty\<rparr>"

definition demoPodMeta :: ObjectMeta where
  "demoPodMeta = emptyMeta\<lparr>om_Name := ''web-1-a'', om_Namespace := ''prod'', om_UID := ''p1'', om_OwnerReferences :=
     [\<lparr>or_Kind = ''ReplicaSet'', or_Name = ''web-1'', or_UID = ''r1'', or_Controller = Some True\<rparr>]\<rparr>"

definition demoReader :: workload_reader where
  "demoReader = (let missing = \<lparr>errKind = NotFound, errText = ''not found''\<rparr> in
     \<lparr>wr_ListDeployments = (\<lambda>_. Inr [demoListedDeployment]), wr_ListStatefulSets = (\<lambda>_. Inr []), wr_ListDaemonSets = (\<lambda>_. Inr []),
      wr_ListJobs = (\<lambda>_. Inr []), wr_ListCronJobs = (\<lambda>_. Inr []), wr_ListPods = (\<lambda>_. Inr [demoPodMeta]),
      wr_GetReplicaSet = (\<lambda>_. Inr demoReplicaSet), wr_GetDeployment = (\<lambda>_. Inr demoListedDeployment),
      wr_GetStatefulSet = (\<lambda>_. Inl missing), wr_GetDaemonSet = (\<lambda>_. Inl missing), wr_GetJob = (\<lambda>_. Inl missing),
      wr_CountNodes = Inr 3, wr_CountPersistentVolumes = Inr 0, wr_CountPersistentVolumeClaims = (\<lambda>_. Inr 0),
      wr_CountServices = (\<lambda>_. Inr 0)\<rparr>)"

definition demoSelector :: TargetSelector where
  "demoSelector = \<lparr>tgs_NamespaceSelector = \<lparr>nss_MatchNames = []\<rparr>,
     tgs_WorkloadSelector = \<lparr>wks_MatchLabels = [], wks_Kinds = [''deployment'', '' Pod'', ''Node'']\<rparr>\<rparr>"

theorem discovery_order_irrelevant_witness:
  "DiscoverTargets rev demoReader demoSelector = DiscoverTargets id demoReader demoSelector \<and>
   map_sum id (map (\<lambda>t. r_Name (tgt_Resource t))) (DiscoverTargets id demoReader demoSelector) = Inr [''web'']"
proof -
  have "map_sum id (map (\<lambda>t. r_Name (tgt_Resource t))) (DiscoverTargets id demoReader demoSelector) = Inr [''web'']"
    by code_simp
  then show ?thesis using discovery_order_irrelevant [of rev demoReader demoSelector] by simp
qed

lemma demo_discovered:
  "map_sum id (map (\<lambda>t. (ruleTargetKey t, map prf_Name (tgt_Pods t)))) (DiscoverTargets id demoReader demoSelector) =
     Inr [(''apps/v1/Deployment/prod/web'', [''web-1-a''])]"
  by code_simp

theorem discovered_targets_witness:
  "\<exists>targets. DiscoverTargets id demoReader demoSelector = Inr targets \<and> sorted_wrt targetLess targets \<and>
     ruleTargetKey ` set (foundTargets demoReader demoSelector) = {''apps/v1/Deployment/prod/web''}"
proof -
  obtain targets where t: "DiscoverTargets id demoReader demoSelector = Inr targets"
    and k: "map (\<lambda>t. (ruleTargetKey t, map prf_Name (tgt_Pods t))) targets = [(''apps/v1/Deployment/prod/web'', [''web-1-a''])]"
    using demo_discovered by (cases "DiscoverTargets id demoReader demoSelector") auto
  have "ruleTargetKey ` set targets = {''apps/v1/Deployment/prod/web''}" using k by auto
  then show ?thesis using t discovered_targets [OF t] by auto
qed

theorem coverage_reports_skipped_kinds_witness:
  "\<exists>report. DiscoverCoverage demoReader demoSelector = Inr report \<and> cvr_Partial report \<and>
     canonicalUnsupportedKind ` {kind \<in> set (selectedKinds (wks_Kinds (tgs_WorkloadSelector demoSelector))).
       discoverKind demoReader (selectedNamespaces (nss_MatchNames (tgs_NamespaceSelector demoSelector))) kind = None} =
     dom (cvr_UnsupportedDiscoveredKinds report)"
proof -
  have "map_sum id cvr_Partial (DiscoverCoverage demoReader demoSelector) = Inr True" by code_simp
  then obtain report where r: "DiscoverCoverage demoReader demoSelector = Inr report" "cvr_Partial report"
    by (cases "DiscoverCoverage demoReader demoSelector") auto
  then show ?thesis using coverage_reports_skipped_kinds(2) [OF r(1)] by simp
qed

end
