(* ===== verification/Helpers.thy ===== *)
theory Helpers
  imports AgentActionController RuleTypes
begin

text \<open>
  The shared helpers of the controllers (\<^verbatim>\<open>internal/controllers/helpers.go\<close>) that the investigation, rule and signal
  controllers use: names of annotations and conditions, the setters of the status.  \<^verbatim>\<open>SetStatusCondition\<close> and
  \<^verbatim>\<open>RemoveStatusCondition\<close> are code of the API machinery: they are the parameter \<open>condition_api\<close>, and \<open>conditionLaws\<close>
  is what their documentation promises.
\<close>

subsection \<open>Names\<close>

abbreviation labelRiskRule :: string where
  "labelRiskRule \<equiv> ''fluxseer-rca.aiops.platform/risk-rule''"
abbreviation annotationTargetRef :: string where
  "annotationTargetRef \<equiv> ''fluxseer-rca.aiops.platform/target-ref''"
abbreviation annotationDetectionSource :: string where
  "annotationDetectionSource \<equiv> ''fluxseer-rca.aiops.platform/detection-source''"
abbreviation annotationInvestigationRequest :: string where
  "annotationInvestigationRequest \<equiv> ''fluxseer-rca.aiops.platform/investigation-request''"
abbreviation annotationLineageGeneration :: string where
  "annotationLineageGeneration \<equiv> ''fluxseer-rca.aiops.platform/lineage-generation''"
abbreviation annotationFindingFingerprint :: string where
  "annotationFindingFingerprint \<equiv> ''fluxseer-rca.aiops.platform/finding-fingerprint''"
abbreviation annotationFindingSchema :: string where
  "annotationFindingSchema \<equiv> ''fluxseer-rca.aiops.platform/finding-schema''"
abbreviation annotationFindingType :: string where
  "annotationFindingType \<equiv> ''fluxseer-rca.aiops.platform/finding-type''"
abbreviation annotationObjectFindingID :: string where
  "annotationObjectFindingID \<equiv> ''fluxseer-rca.aiops.platform/object-finding-identity''"
abbreviation annotationLogicalFindingID :: string where
  "annotationLogicalFindingID \<equiv> ''fluxseer-rca.aiops.platform/logical-finding-identity''"
abbreviation annotationIncidentOccurrence :: string where
  "annotationIncidentOccurrence \<equiv> ''fluxseer-rca.aiops.platform/incident-occurrence''"
abbreviation annotationTargetGeneration :: string where
  "annotationTargetGeneration \<equiv> ''fluxseer-rca.aiops.platform/target-generation''"
abbreviation annotationWindowBucket :: string where
  "annotationWindowBucket \<equiv> ''fluxseer-rca.aiops.platform/window-bucket''"

abbreviation conditionReady :: string where "conditionReady \<equiv> ''Ready''"
abbreviation conditionDegraded :: string where "conditionDegraded \<equiv> ''Degraded''"
abbreviation conditionTargetResolved :: string where "conditionTargetResolved \<equiv> ''TargetResolved''"
abbreviation conditionDatasourceResolved :: string where "conditionDatasourceResolved \<equiv> ''DatasourceResolved''"
abbreviation conditionQueryTypeSupported :: string where "conditionQueryTypeSupported \<equiv> ''QueryTypeSupported''"
abbreviation conditionQueryPolicyReady :: string where "conditionQueryPolicyReady \<equiv> ''QueryPolicyReady''"
abbreviation conditionEvidenceReady :: string where "conditionEvidenceReady \<equiv> ''EvidenceCollectionReady''"
abbreviation conditionFindingReady :: string where "conditionFindingReady \<equiv> ''FindingReady''"
abbreviation conditionRCAReady :: string where "conditionRCAReady \<equiv> ''RCAReady''"
abbreviation conditionRemediationReady :: string where "conditionRemediationReady \<equiv> ''RemediationReady''"
abbreviation conditionVerified :: string where "conditionVerified \<equiv> ''Verified''"

abbreviation ConditionTrue :: string where "ConditionTrue \<equiv> ''True''"
abbreviation ConditionFalse :: string where "ConditionFalse \<equiv> ''False''"
abbreviation ConditionUnknown :: string where "ConditionUnknown \<equiv> ''Unknown''"

abbreviation PhaseCollecting :: string where "PhaseCollecting \<equiv> ''Collecting''"
abbreviation PhaseReasoning :: string where "PhaseReasoning \<equiv> ''Reasoning''"

subsection \<open>Conditions\<close>

record condition_api =
  ca_Set :: "Condition list \<Rightarrow> Condition \<Rightarrow> Condition list"
  ca_Remove :: "Condition list \<Rightarrow> string \<Rightarrow> Condition list"

definition conditionOf :: "Condition list \<Rightarrow> string \<Rightarrow> Condition option" where
  "conditionOf cs t = find (\<lambda>c. cnd_Type c = t) cs"

text \<open>All fields but the time of the last transition.\<close>

definition conditionFields :: "Condition \<Rightarrow> string \<times> string \<times> string \<times> int" where
  "conditionFields c = (cnd_Status c, cnd_Reason c, cnd_Message c, cnd_ObservedGeneration c)"

definition conditionFieldsOf :: "Condition list \<Rightarrow> string \<Rightarrow> (string \<times> string \<times> string \<times> int) option" where
  "conditionFieldsOf cs t = map_option conditionFields (conditionOf cs t)"

definition conditionLaws :: "condition_api \<Rightarrow> bool" where
  "conditionLaws ca \<longleftrightarrow>
     (\<forall>cs c t. conditionFieldsOf (ca_Set ca cs c) t =
        (if t = cnd_Type c then Some (conditionFields c) else conditionFieldsOf cs t)) \<and>
     (\<forall>cs u t. conditionFieldsOf (ca_Remove ca cs u) t = (if t = u then None else conditionFieldsOf cs t))"

definition setStatusCondition ::
  "condition_api \<Rightarrow> string \<Rightarrow> string \<Rightarrow> string \<Rightarrow> string \<Rightarrow> int \<Rightarrow> gotime \<Rightarrow> Condition list \<Rightarrow> Condition list" where
  "setStatusCondition ca conditionType status reason msg generation now conditions =
     ca_Set ca conditions \<lparr>cnd_Type = conditionType, cnd_Status = status, cnd_ObservedGeneration = generation,
       cnd_LastTransitionTime = now, cnd_Reason = reason, cnd_Message = msg\<rparr>"

lemma conditionFieldsOf_set:
  "conditionLaws ca \<Longrightarrow> conditionFieldsOf (setStatusCondition ca u s r m g now cs) t =
     (if t = u then Some (s, r, m, g) else conditionFieldsOf cs t)"
  by (simp add: conditionLaws_def setStatusCondition_def conditionFields_def)

lemma conditionFieldsOf_remove:
  "conditionLaws ca \<Longrightarrow> conditionFieldsOf (ca_Remove ca cs u) t = (if t = u then None else conditionFieldsOf cs t)"
  by (simp add: conditionLaws_def)

text \<open>One implementation that keeps the promises, for concrete runs.\<close>

fun putCondition :: "Condition list \<Rightarrow> Condition \<Rightarrow> Condition list" where
  "putCondition [] c = [c]"
| "putCondition (d # ds) c = (if cnd_Type d = cnd_Type c then c # ds else d # putCondition ds c)"

definition demoConditions :: condition_api where
  "demoConditions = \<lparr>ca_Set = putCondition, ca_Remove = (\<lambda>cs u. filter (\<lambda>c. cnd_Type c \<noteq> u) cs)\<rparr>"

lemma conditionOf_put: "conditionOf (putCondition cs c) t = (if t = cnd_Type c then Some c else conditionOf cs t)"
  by (induction cs) (auto simp: conditionOf_def)

lemma conditionOf_filter: "conditionOf (filter (\<lambda>c. cnd_Type c \<noteq> u) cs) t = (if t = u then None else conditionOf cs t)"
  by (induction cs) (auto simp: conditionOf_def)

lemma conditionLaws_demo: "conditionLaws demoConditions"
  by (simp add: conditionLaws_def demoConditions_def conditionFieldsOf_def conditionOf_put conditionOf_filter)

subsection \<open>Status\<close>

definition setInvestigationRequestStatus ::
  "string \<Rightarrow> string \<Rightarrow> int \<Rightarrow> gotime \<Rightarrow> InvestigationRequestStatus \<Rightarrow> InvestigationRequestStatus" where
  "setInvestigationRequestStatus phase msg generation now status =
     status\<lparr>ist_ResourceStatus := setResourceStatus phase msg generation now (ist_ResourceStatus status)\<rparr>"

definition setRiskSignalStatus ::
  "string \<Rightarrow> string \<Rightarrow> int \<Rightarrow> gotime \<Rightarrow> RiskSignalStatus \<Rightarrow> RiskSignalStatus" where
  "setRiskSignalStatus phase msg generation now status =
     status\<lparr>sst_Resource := setResourceStatus phase msg generation now (sst_Resource status)\<rparr>"

definition setRiskRuleStatus ::
  "string \<Rightarrow> string \<Rightarrow> int \<Rightarrow> gotime \<Rightarrow> RiskRuleStatus \<Rightarrow> RiskRuleStatus" where
  "setRiskRuleStatus phase msg generation now status =
     status\<lparr>rst_Resource := setResourceStatus phase msg generation now (rst_Resource status)\<rparr>"

definition resourceToTargetRef :: "ResourceRef \<Rightarrow> TargetRef" where
  "resourceToTargetRef resource = \<lparr>t_Cluster = r_Cluster resource, t_Namespace = r_Namespace resource,
     t_Kind = r_Kind resource, t_Name = r_Name resource, t_APIVersion = r_APIVersion resource,
     t_Service = r_Service resource\<rparr>"

lemma targetToResource_inverse [simp]: "targetToResource (resourceToTargetRef r) = r"
  by (simp add: resourceToTargetRef_def targetToResource_def)

subsection \<open>Formatting and parsing\<close>

text \<open>\<^verbatim>\<open>time.Duration.String\<close>: a fraction of the given precision without trailing zeros.\<close>

definition fractionText :: "int \<Rightarrow> nat \<Rightarrow> string" where
  "fractionText v prec =
     (let ds = natDigits (nat v); padded = replicate (prec - length ds) (CHR ''0'') @ ds;
          kept = rev (dropWhile (\<lambda>c. c = CHR ''0'') (rev padded)) in
      if v = 0 \<or> kept = [] then [] else ''.'' @ kept)"

definition durationText :: "duration \<Rightarrow> string" where
  "durationText d =
     (let u = \<bar>d\<bar>; sign = (if d < 0 then ''-'' else []);
          unit = (\<lambda>scale prec name. sign @ itoa (u div scale) @ fractionText (u mod scale) prec @ name);
          secs = u div second; mins = secs div 60; hours = mins div 60 in
      if u = 0 then ''0s''
      else if u < 1000 then unit 1 0 ''ns''
      else if u < 1000000 then unit 1000 3 [CHR 0xC2, CHR 0xB5, CHR ''s'']
      else if u < second then unit 1000000 6 ''ms''
      else sign @ (if 0 < hours then itoa hours @ ''h'' else []) @
        (if 0 < mins then itoa (mins mod 60) @ ''m'' else []) @
        itoa (secs mod 60) @ fractionText (u mod second) 9 @ ''s'')"

text \<open>\<^verbatim>\<open>strconv.ParseInt(s, 10, bits)\<close>: the value, which is clamped out of range and 0 for a text that is no number, and
  whether there was no error.\<close>

definition ParseInt :: "nat \<Rightarrow> string \<Rightarrow> int \<times> bool" where
  "ParseInt bits s =
     (let neg = HasPrefix s ''-''; ds = (if neg \<or> HasPrefix s ''+'' then tl s else s); cutoff = 2 ^ (bits - 1) :: int in
      if ds = [] \<or> \<not> list_all (\<lambda>c. digitIn 10 c \<noteq> None) ds then (0, False)
      else let v = decimalValue ds 0 in
        if neg then (if cutoff < v then (- cutoff, False) else (- v, True))
        else if cutoff \<le> v then (cutoff - 1, False) else (v, True))"

end
