(* ===== verification/Classification.thy ===== *)
theory Classification
  imports ApiTypes
begin

text \<open>
  The package \<^verbatim>\<open>internal/dataclassification\<close>: levels and sensitivity tags of evidence, their merge over
  a bundle, and the check of a bundle against the data policy of a model provider.

  The tag set of \<^verbatim>\<open>Merge\<close> is a list without duplicates that is sorted at the end.
\<close>

subsection \<open>Data\<close>

abbreviation LevelPublic :: string where "LevelPublic \<equiv> ''Public''"
abbreviation LevelInternal :: string where "LevelInternal \<equiv> ''Internal''"
abbreviation LevelConfidential :: string where "LevelConfidential \<equiv> ''Confidential''"
abbreviation LevelRestricted :: string where "LevelRestricted \<equiv> ''Restricted''"
abbreviation SourceDefault :: string where "SourceDefault \<equiv> ''Default''"
abbreviation SourceInherited :: string where "SourceInherited \<equiv> ''Inherited''"
abbreviation SourceContentDetection :: string where "SourceContentDetection \<equiv> ''ContentDetection''"
abbreviation TagCredentialLike :: string where "TagCredentialLike \<equiv> ''CredentialLike''"
abbreviation TagInfrastructureMetadata :: string where
  "TagInfrastructureMetadata \<equiv> ''InfrastructureMetadata''"
abbreviation ClassificationPolicyVersion :: string where
  "ClassificationPolicyVersion \<equiv> ''fluxseer-rca-data-classification-v1''"

record ModelProviderDataPolicy =
  dp_AllowExternalTransmission :: bool
  dp_AllowedEvidenceKinds :: "string list"
  dp_DeniedSensitivityTags :: "string list"
  dp_AllowLogSamples :: bool
  dp_RequireRedaction :: bool
  dp_MaximumClassification :: string

abbreviation EgressAllowed :: string where "EgressAllowed \<equiv> ''Allowed''"
abbreviation EgressRejected :: string where "EgressRejected \<equiv> ''Rejected''"

record ClassificationDecision =
  cld_Decision :: string
  cld_Reason :: string
  cld_Message :: string
  cld_MaximumObserved :: string
  cld_MaximumAllowed :: string
  cld_MaximumSent :: string
  cld_SensitivityTagsSent :: "string list"
  cld_ClassificationVersion :: string

subsection \<open>Levels and tags\<close>

definition levelRank :: "string \<Rightarrow> int option" where
  "levelRank = map_of [(ToLower LevelPublic, 0), (ToLower LevelInternal, 1),
     (ToLower LevelConfidential, 2), (ToLower LevelRestricted, 3)]"

definition NormalizeLevel :: "string \<Rightarrow> string" where
  "NormalizeLevel level =
     (let l = ToLower (TrimSpace level) in
      if l = ''public'' then LevelPublic
      else if l = ''internal'' \<or> l = [] then LevelInternal
      else if l = ''confidential'' then LevelConfidential
      else if l = ''restricted'' then LevelRestricted
      else TrimSpace level)"

definition levelValue :: "string \<Rightarrow> int" where
  "levelValue level =
     (case levelRank (ToLower (NormalizeLevel level)) of
        Some v \<Rightarrow> v
      | None \<Rightarrow> (case levelRank (ToLower LevelRestricted) of Some v \<Rightarrow> v | None \<Rightarrow> 0))"

definition CompareLevels :: "string \<Rightarrow> string \<Rightarrow> int" where
  "CompareLevels a b = levelValue a - levelValue b"

definition NormalizeSensitivityTag :: "string \<Rightarrow> string" where
  "NormalizeSensitivityTag tag =
     (let t = ToLower (TrimSpace tag) in
      if t = ''credentiallike'' \<or> t = ''secretlike'' then TagCredentialLike
      else if t = ''personaldata'' then ''PersonalData''
      else if t = ''customerdata'' then ''CustomerData''
      else if t = ''sourcecode'' then ''SourceCode''
      else if t = ''infrastructuremetadata'' then TagInfrastructureMetadata
      else if t = ''securitysensitive'' then ''SecuritySensitive''
      else TrimSpace tag)"

definition LooksCredentialLike :: "string \<Rightarrow> bool" where
  "LooksCredentialLike text \<longleftrightarrow>
     (let n = ToLower text in
      Contains n ''token='' \<or> Contains n ''password='' \<or> Contains n ''api_key''
      \<or> Contains n ''apikey'' \<or> Contains n ''secret='' \<or> Contains n ''bearer '')"

subsection \<open>Merge\<close>

text \<open>One round of the loop of \<^verbatim>\<open>Merge\<close>, over the result so far and the tags so far.\<close>

definition mergeItem ::
  "DataClassification \<Rightarrow> DataClassification \<times> string list \<Rightarrow> DataClassification \<times> string list" where
  "mergeItem item acc =
     (case acc of (out, tags) \<Rightarrow>
       (let out1 = (if TrimSpace (dc_Level item) \<noteq> []
                       \<and> CompareLevels (dc_Level item) (dc_Level out) > 0
                    then out\<lparr>dc_Level := NormalizeLevel (dc_Level item)\<rparr> else out);
            out2 = (if TrimSpace (dc_Source item) \<noteq> [] \<and> dc_Source item \<noteq> SourceDefault
                    then out1\<lparr>dc_Source := dc_Source item\<rparr> else out1);
            out3 = (if TrimSpace (dc_PolicyVersion item) \<noteq> []
                    then out2\<lparr>dc_PolicyVersion := dc_PolicyVersion item\<rparr> else out2);
            new = filter (\<lambda>t. t \<noteq> []) (map NormalizeSensitivityTag (dc_SensitivityTags item)) in
        (out3, tags @ new)))"

definition mergeStart :: DataClassification where
  "mergeStart = \<lparr>dc_Level = LevelInternal, dc_SensitivityTags = [], dc_Source = SourceDefault,
     dc_PolicyVersion = ClassificationPolicyVersion\<rparr>"

definition sortedKeys :: "string list \<Rightarrow> string list" where
  "sortedKeys keys = sort (remdups keys)"

definition Merge :: "DataClassification list \<Rightarrow> DataClassification" where
  "Merge items =
     (case fold mergeItem items (mergeStart, []) of
        (out, tags) \<Rightarrow> out\<lparr>dc_SensitivityTags := sortedKeys tags\<rparr>)"

subsection \<open>Defaults\<close>

definition DefaultForObservation :: "string \<Rightarrow> string \<Rightarrow> DataClassification" where
  "DefaultForObservation queryType text =
     (let classification =
            \<lparr>dc_Level = (if queryType = ''log'' then LevelConfidential else LevelInternal),
             dc_SensitivityTags = [TagInfrastructureMetadata], dc_Source = SourceDefault,
             dc_PolicyVersion = ClassificationPolicyVersion\<rparr> in
      if LooksCredentialLike text then
        (Merge [classification,
           \<lparr>dc_Level = LevelRestricted, dc_SensitivityTags = [TagCredentialLike],
            dc_Source = SourceContentDetection, dc_PolicyVersion = ClassificationPolicyVersion\<rparr>])
          \<lparr>dc_Source := SourceContentDetection\<rparr>
      else classification)"

definition queryTypeForKind :: "string \<Rightarrow> string" where
  "queryTypeForKind kind =
     (let k = TrimSuffix (ToLower (TrimSpace kind)) ''observation'' in
      if k = ''metric'' then ''metric''
      else if k = ''log'' then ''log''
      else if k = ''event'' \<or> k = ''kubernetesevent'' then ''event''
      else if k = ''deploymentcondition'' then ''deploymentCondition''
      else if k = ''serviceconfiguration'' then ''serviceConfiguration''
      else if k = ''probeconfiguration'' then ''probeConfiguration''
      else ''event'')"

definition DefaultForEvidenceKind :: "string \<Rightarrow> string \<Rightarrow> DataClassification" where
  "DefaultForEvidenceKind kind text = DefaultForObservation (queryTypeForKind kind) text"

subsection \<open>Bundles and the provider policy\<close>

text \<open>The classification of one reference, as \<^verbatim>\<open>BundleClassification\<close> collects it.\<close>

definition refClassification :: "EvidenceRef \<Rightarrow> DataClassification" where
  "refClassification ref =
     (case ev_Classification ref of
        Some c \<Rightarrow> c
      | None \<Rightarrow> DefaultForEvidenceKind (ev_Kind ref) (ev_Summary ref))"

definition BundleClassification :: "EvidenceRef list \<Rightarrow> DataClassification" where
  "BundleClassification refs =
     (if refs = [] then mergeStart
      else (Merge (map refClassification refs))\<lparr>dc_Source := SourceInherited\<rparr>)"

definition deniedTag :: "string list \<Rightarrow> string list \<Rightarrow> string" where
  "deniedTag tags denied =
     (let deniedSet = filter (\<lambda>t. t \<noteq> []) (map NormalizeSensitivityTag denied) in
      case find (\<lambda>t. NormalizeSensitivityTag t \<in> set deniedSet) tags of
        None \<Rightarrow> []
      | Some t \<Rightarrow> NormalizeSensitivityTag t)"

definition allRefsRedacted :: "EvidenceRef list \<Rightarrow> bool" where
  "allRefsRedacted refs = list_all (\<lambda>ref. TrimSpace (ev_RedactionProfile ref) \<noteq> []) refs"

definition rejectEgress :: "string \<Rightarrow> string \<Rightarrow> ClassificationDecision \<Rightarrow> ClassificationDecision" where
  "rejectEgress reason message d =
     d\<lparr>cld_Decision := EgressRejected, cld_Reason := reason, cld_MaximumSent := [],
       cld_SensitivityTagsSent := [], cld_Message := message\<rparr>"

definition EvaluateProviderPolicy ::
  "ModelProviderDataPolicy \<Rightarrow> EvidenceRef list \<Rightarrow> ClassificationDecision" where
  "EvaluateProviderPolicy policy refs =
     (let observed = BundleClassification refs;
          allowed = NormalizeLevel (dp_MaximumClassification policy);
          allowed = (if allowed = [] then LevelInternal else allowed);
          decision = \<lparr>cld_Decision = EgressAllowed, cld_Reason = ''Allowed'', cld_Message = [],
            cld_MaximumObserved = dc_Level observed, cld_MaximumAllowed = allowed,
            cld_MaximumSent = dc_Level observed,
            cld_SensitivityTagsSent = dc_SensitivityTags observed,
            cld_ClassificationVersion = ClassificationPolicyVersion\<rparr>;
          denied = deniedTag (dc_SensitivityTags observed) (dp_DeniedSensitivityTags policy) in
      if CompareLevels (dc_Level observed) allowed > 0 then
        rejectEgress ''ClassificationExceeded''
          (''evidence classification '' @ dc_Level observed @ '' exceeds allowed maximum '' @ allowed)
          decision
      else if denied \<noteq> [] then
        rejectEgress ''SensitivityTagDenied''
          (''evidence sensitivity tag '' @ denied @ '' is denied by provider data policy'') decision
      else if dp_RequireRedaction policy \<and> \<not> allRefsRedacted refs then
        rejectEgress ''RedactionRequired''
          ''provider data policy requires redaction metadata on all transmitted evidence'' decision
      else decision)"

subsection \<open>Levels\<close>

lemma ToLower_level_literals [simp]:
  "ToLower ''Public'' = ''public''" "ToLower ''Internal'' = ''internal''"
  "ToLower ''Confidential'' = ''confidential''" "ToLower ''Restricted'' = ''restricted''"
  by code_simp+

lemma levelRank_eqs [simp]:
  "levelRank ''public'' = Some 0" "levelRank ''internal'' = Some 1"
  "levelRank ''confidential'' = Some 2" "levelRank ''restricted'' = Some 3"
  by (simp_all add: levelRank_def)

lemma levelRank_None:
  "l \<noteq> ''public'' \<Longrightarrow> l \<noteq> ''internal'' \<Longrightarrow> l \<noteq> ''confidential'' \<Longrightarrow> l \<noteq> ''restricted'' \<Longrightarrow>
   levelRank l = None"
  by (simp add: levelRank_def)

text \<open>The value of a level in one step: an unknown level counts as restricted.\<close>

lemma levelValue_eq:
  "levelValue level =
     (let l = ToLower (TrimSpace level) in
      if l = ''public'' then 0 else if l = ''internal'' \<or> l = [] then 1
      else if l = ''confidential'' then 2 else 3)"
  by (auto simp: levelValue_def NormalizeLevel_def Let_def levelRank_None split: option.splits)

lemma levelValue_range: "0 \<le> levelValue l \<and> levelValue l \<le> 3"
  by (simp add: levelValue_eq Let_def)

lemma TrimSpace_level_literals [simp]:
  "TrimSpace ''Public'' = ''Public''" "TrimSpace ''Internal'' = ''Internal''"
  "TrimSpace ''Confidential'' = ''Confidential''" "TrimSpace ''Restricted'' = ''Restricted''"
  by code_simp+

lemma levelValue_literals [simp]:
  "levelValue ''Public'' = 0" "levelValue ''Internal'' = 1"
  "levelValue ''Confidential'' = 2" "levelValue ''Restricted'' = 3"
  by (simp_all add: levelValue_eq)

lemma levelValue_Normalize [simp]: "levelValue (NormalizeLevel l) = levelValue l"
  by (simp add: levelValue_eq NormalizeLevel_def Let_def)

lemma levelValue_blank: "TrimSpace l = [] \<Longrightarrow> levelValue l = 1"
  by (simp add: levelValue_eq)

lemma NormalizeLevel_nonempty [simp]: "NormalizeLevel l \<noteq> []"
  by (auto simp: NormalizeLevel_def Let_def)

lemma NormalizeTag_Trim: "NormalizeSensitivityTag (TrimSpace t) = NormalizeSensitivityTag t"
  by (simp add: NormalizeSensitivityTag_def Let_def)

lemma NormalizeTag_idem [simp]:
  "NormalizeSensitivityTag (NormalizeSensitivityTag t) = NormalizeSensitivityTag t"
proof -
  have lits: "NormalizeSensitivityTag ''CredentialLike'' = ''CredentialLike''"
    "NormalizeSensitivityTag ''PersonalData'' = ''PersonalData''"
    "NormalizeSensitivityTag ''CustomerData'' = ''CustomerData''"
    "NormalizeSensitivityTag ''SourceCode'' = ''SourceCode''"
    "NormalizeSensitivityTag ''InfrastructureMetadata'' = ''InfrastructureMetadata''"
    "NormalizeSensitivityTag ''SecuritySensitive'' = ''SecuritySensitive''"
    by code_simp+
  have "NormalizeSensitivityTag t \<in> {''CredentialLike'', ''PersonalData'', ''CustomerData'',
      ''SourceCode'', ''InfrastructureMetadata'', ''SecuritySensitive''}
    \<or> NormalizeSensitivityTag t = TrimSpace t"
    by (simp add: NormalizeSensitivityTag_def Let_def)
  then consider "NormalizeSensitivityTag t \<in> {''CredentialLike'', ''PersonalData'', ''CustomerData'',
      ''SourceCode'', ''InfrastructureMetadata'', ''SecuritySensitive''}"
    | "NormalizeSensitivityTag t = TrimSpace t" by blast
  then show ?thesis
  proof cases
    case 1
    then show ?thesis using lits by auto
  next
    case 2
    then show ?thesis by (metis NormalizeTag_Trim)
  qed
qed

subsection \<open>Merge is an upper bound\<close>

lemma mergeItem_level:
  "levelValue (dc_Level (fst (mergeItem item (out, tags)))) =
   max (levelValue (dc_Level item)) (levelValue (dc_Level out))"
  if "1 \<le> levelValue (dc_Level out)"
  using that levelValue_blank [of "dc_Level item"]
  by (auto simp: mergeItem_def CompareLevels_def Let_def)

definition itemTags :: "DataClassification \<Rightarrow> string list" where
  "itemTags item = filter (\<lambda>t. t \<noteq> []) (map NormalizeSensitivityTag (dc_SensitivityTags item))"

lemma mergeItem_tags: "snd (mergeItem item (out, tags)) = tags @ itemTags item"
  by (simp add: mergeItem_def itemTags_def Let_def)

lemma fold_mergeItem:
  "1 \<le> levelValue (dc_Level out) \<Longrightarrow>
   levelValue (dc_Level (fst (fold mergeItem items (out, tags)))) =
     foldr (\<lambda>i m. max (levelValue (dc_Level i)) m) items (levelValue (dc_Level out)) \<and>
   snd (fold mergeItem items (out, tags)) = tags @ concat (map itemTags items)"
proof (induction items arbitrary: out tags)
  case (Cons i items)
  obtain out' tags' where m: "mergeItem i (out, tags) = (out', tags')" by fastforce
  have l: "levelValue (dc_Level out') = max (levelValue (dc_Level i)) (levelValue (dc_Level out))"
    using mergeItem_level [OF Cons.prems, of i tags] by (simp add: m)
  have t: "tags' = tags @ itemTags i" using mergeItem_tags [of i out tags] by (simp add: m)
  have "foldr (\<lambda>i m. max (levelValue (dc_Level i)) m) items (max a b) =
      max a (foldr (\<lambda>i m. max (levelValue (dc_Level i)) m) items b)" for a b :: int
    by (induction items) auto
  then show ?case using Cons.IH [of out' tags'] Cons.prems by (simp add: m l t)
qed simp

lemma Merge_level:
  "levelValue (dc_Level (Merge items)) =
   foldr (\<lambda>i m. max (levelValue (dc_Level i)) m) items 1"
  using fold_mergeItem [of mergeStart items "[]"]
  by (simp add: Merge_def mergeStart_def case_prod_beta)

lemma Merge_tags: "dc_SensitivityTags (Merge items) = sortedKeys (concat (map itemTags items))"
  using fold_mergeItem [of mergeStart items "[]"]
  by (simp add: Merge_def mergeStart_def case_prod_beta)

lemma foldr_max_le:
  "foldr (\<lambda>i m. max (f i) m) xs a \<le> b \<longleftrightarrow> a \<le> b \<and> list_all (\<lambda>i. f i \<le> b) xs" for a b :: int
  by (induction xs) auto

lemma BundleClassification_level:
  "levelValue (dc_Level (BundleClassification refs)) \<le> v \<longleftrightarrow>
   1 \<le> v \<and> list_all (\<lambda>r. levelValue (dc_Level (refClassification r)) \<le> v) refs"
  by (simp add: BundleClassification_def mergeStart_def Merge_level foldr_max_le list.pred_map o_def)

lemma BundleClassification_tags:
  "set (dc_SensitivityTags (BundleClassification refs)) =
   (\<Union>r\<in>set refs. set (itemTags (refClassification r)))"
  by (auto simp: BundleClassification_def mergeStart_def Merge_tags sortedKeys_def)

text \<open>
   a merged classification does not depend on the order of its items, except for its source and
  policy version: the level counts as the highest of the items' levels and at least as internal, and
  the tags are the sorted list of all tags of the items.
\<close>

theorem merge_order_independent:
  assumes "mset items = mset items'"
  shows "levelValue (dc_Level (Merge items)) = levelValue (dc_Level (Merge items')) \<and>
    dc_SensitivityTags (Merge items) = dc_SensitivityTags (Merge items')"
proof -
  have "levelValue (dc_Level (Merge items)) \<le> v \<longleftrightarrow> levelValue (dc_Level (Merge items')) \<le> v" for v
    using mset_eq_setD [OF assms] by (simp add: Merge_level foldr_max_le list_all_iff)
  then have "levelValue (dc_Level (Merge items)) = levelValue (dc_Level (Merge items'))"
    by (meson order_antisym order_refl)
  moreover have "set (concat (map itemTags items)) = set (concat (map itemTags items'))"
    using mset_eq_setD [OF assms] by simp
  then have "dc_SensitivityTags (Merge items) = dc_SensitivityTags (Merge items')"
    unfolding Merge_tags sortedKeys_def
    by (metis sorted_list_of_set_sort_remdups)
  ultimately show ?thesis by blast
qed

theorem merge_order_independent_witness:
  "levelValue (dc_Level (Merge [mergeStart\<lparr>dc_Level := ''restricted'', dc_SensitivityTags := [''secretLike'']\<rparr>,
       mergeStart\<lparr>dc_SensitivityTags := [''B'', ''A'']\<rparr>])) = 3 \<and>
   dc_SensitivityTags (Merge [mergeStart\<lparr>dc_Level := ''restricted'', dc_SensitivityTags := [''secretLike'']\<rparr>,
       mergeStart\<lparr>dc_SensitivityTags := [''B'', ''A'']\<rparr>]) = [''A'', ''B'', ''CredentialLike'']"
proof -
  let ?r = "mergeStart\<lparr>dc_Level := ''restricted'', dc_SensitivityTags := [''secretLike'']\<rparr>"
  let ?i = "mergeStart\<lparr>dc_SensitivityTags := [''B'', ''A'']\<rparr>"
  have "levelValue (dc_Level (Merge [?i, ?r])) = 3" by code_simp
  moreover have "dc_SensitivityTags (Merge [?i, ?r]) = [''A'', ''B'', ''CredentialLike'']" by code_simp
  moreover have "mset [?r, ?i] = mset [?i, ?r]" by simp
  ultimately show ?thesis using merge_order_independent [of "[?r, ?i]" "[?i, ?r]"] by simp
qed

subsection \<open>The provider policy\<close>

definition tagDenied :: "string list \<Rightarrow> string \<Rightarrow> bool" where
  "tagDenied denied t \<longleftrightarrow> NormalizeSensitivityTag t \<noteq> [] \<and>
     list_ex (\<lambda>d. NormalizeSensitivityTag d = NormalizeSensitivityTag t) denied"

lemma tagDenied_iff:
  "tagDenied denied t \<longleftrightarrow>
   NormalizeSensitivityTag t \<in> set (filter (\<lambda>t. t \<noteq> []) (map NormalizeSensitivityTag denied))"
  by (auto simp: tagDenied_def list_ex_iff image_iff eq_commute)

lemma tagDenied_Normalize [simp]: "tagDenied denied (NormalizeSensitivityTag t) = tagDenied denied t"
  by (simp add: tagDenied_def)

lemma itemTags_denied:
  "list_all (\<lambda>t. \<not> tagDenied denied t) (itemTags item) =
   list_all (\<lambda>t. \<not> tagDenied denied t) (dc_SensitivityTags item)"
proof -
  have "list_all (\<lambda>t. \<not> tagDenied denied t)
      (filter (\<lambda>t. t \<noteq> []) (map NormalizeSensitivityTag ts)) =
      list_all (\<lambda>t. \<not> tagDenied denied t) ts" for ts
    by (induction ts) (auto simp: tagDenied_def)
  then show ?thesis by (simp add: itemTags_def)
qed

lemma deniedTag_Nil: "deniedTag tags denied = [] \<longleftrightarrow> list_all (\<lambda>t. \<not> tagDenied denied t) tags"
proof -
  have eq: "deniedTag tags denied =
      (case find (tagDenied denied) tags of None \<Rightarrow> [] | Some t \<Rightarrow> NormalizeSensitivityTag t)"
    by (simp only: deniedTag_def Let_def tagDenied_iff [symmetric])
  show ?thesis
  proof (cases "find (tagDenied denied) tags")
    case None
    then have "list_all (\<lambda>t. \<not> tagDenied denied t) tags" by (auto simp: find_None_iff list_all_iff)
    with None show ?thesis by (simp add: eq)
  next
    case (Some t)
    then have "tagDenied denied t" "t \<in> set tags" by (auto simp: find_Some_iff)
    with Some show ?thesis by (auto simp: eq list_all_iff tagDenied_def)
  qed
qed

lemma EvaluateProviderPolicy_allowed:
  "cld_Decision (EvaluateProviderPolicy policy refs) = EgressAllowed \<longleftrightarrow>
   \<not> CompareLevels (dc_Level (BundleClassification refs))
       (NormalizeLevel (dp_MaximumClassification policy)) > 0 \<and>
   deniedTag (dc_SensitivityTags (BundleClassification refs)) (dp_DeniedSensitivityTags policy) = [] \<and>
   (\<not> dp_RequireRedaction policy \<or> allRefsRedacted refs)"
  by (simp add: EvaluateProviderPolicy_def rejectEgress_def Let_def)

lemma allowed_refs_iff:
  "cld_Decision (EvaluateProviderPolicy policy refs) = EgressAllowed \<longleftrightarrow>
   1 \<le> levelValue (dp_MaximumClassification policy) \<and>
   list_all (\<lambda>r. levelValue (dc_Level (refClassification r))
      \<le> levelValue (dp_MaximumClassification policy)) refs \<and>
   list_all (\<lambda>r. list_all (\<lambda>t. \<not> tagDenied (dp_DeniedSensitivityTags policy) t)
      (dc_SensitivityTags (refClassification r))) refs \<and>
   (\<not> dp_RequireRedaction policy \<or> list_all (\<lambda>r. TrimSpace (ev_RedactionProfile r) \<noteq> []) refs)"
proof -
  let ?max = "levelValue (dp_MaximumClassification policy)"
  let ?b = "BundleClassification refs"
  have level: "CompareLevels (dc_Level ?b) (NormalizeLevel (dp_MaximumClassification policy)) > 0
      \<longleftrightarrow> \<not> (1 \<le> ?max \<and> list_all (\<lambda>r. levelValue (dc_Level (refClassification r)) \<le> ?max) refs)"
    using BundleClassification_level [of refs ?max] by (auto simp: CompareLevels_def)
  have tags: "deniedTag (dc_SensitivityTags ?b) (dp_DeniedSensitivityTags policy) = [] \<longleftrightarrow>
      list_all (\<lambda>r. list_all (\<lambda>t. \<not> tagDenied (dp_DeniedSensitivityTags policy) t)
        (dc_SensitivityTags (refClassification r))) refs"
  proof -
    have "list_all (\<lambda>t. \<not> tagDenied (dp_DeniedSensitivityTags policy) t) (dc_SensitivityTags ?b) \<longleftrightarrow>
        list_all (\<lambda>r. list_all (\<lambda>t. \<not> tagDenied (dp_DeniedSensitivityTags policy) t)
          (itemTags (refClassification r))) refs"
      unfolding list_all_iff BundleClassification_tags by simp
    then show ?thesis by (simp only: deniedTag_Nil itemTags_denied)
  qed
  show ?thesis
    unfolding EvaluateProviderPolicy_allowed level tags allRefsRedacted_def
    by (simp only: not_not conj_assoc)
qed

lemma EvaluateProviderPolicy_decision:
  "cld_Decision (EvaluateProviderPolicy policy refs) \<in> {EgressAllowed, EgressRejected}"
  by (simp add: EvaluateProviderPolicy_def rejectEgress_def Let_def)



text \<open>
   a maximum that is not one of the four levels is not refused; it counts as restricted, so that
  no evidence is ever rejected for its level.
\<close>

theorem unknown_maximum_fails_open:
  assumes "ToLower (TrimSpace (dp_MaximumClassification policy)) \<notin>
      {[], ''public'', ''internal'', ''confidential'', ''restricted''}"
  shows "cld_Reason (EvaluateProviderPolicy policy refs) \<noteq> ''ClassificationExceeded''"
proof -
  have "levelValue (dp_MaximumClassification policy) = 3"
    using assms by (simp add: levelValue_eq)
  then have "\<not> CompareLevels (dc_Level (BundleClassification refs))
      (NormalizeLevel (dp_MaximumClassification policy)) > 0"
    using levelValue_range [of "dc_Level (BundleClassification refs)"] by (simp add: CompareLevels_def)
  then show ?thesis
    by (simp add: EvaluateProviderPolicy_def rejectEgress_def Let_def)
qed

theorem unknown_maximum_fails_open_witness:
  "cld_Reason (EvaluateProviderPolicy
      \<lparr>dp_AllowExternalTransmission = True, dp_AllowedEvidenceKinds = [],
       dp_DeniedSensitivityTags = [], dp_AllowLogSamples = True, dp_RequireRedaction = False,
       dp_MaximumClassification = ''Interna1''\<rparr>
      [emptyEvidenceRef\<lparr>ev_Summary := ''password=x''\<rparr>]) \<noteq> ''ClassificationExceeded''"
  by (rule unknown_maximum_fails_open) code_simp

end
