(* ===== verification/Model.thy ===== *)
theory Model
  imports DomainTypes Classification
begin

text \<open>
  The package \<^verbatim>\<open>internal/model\<close> and its providers: the structured answer of a model (\<^verbatim>\<open>schema.go\<close>), HTTP
  requests with retries (\<^verbatim>\<open>http.go\<close>) and the OpenAI, Claude, Gemini and heuristic providers.

  The outside world is the record \<open>model_env\<close>: each of its functions takes the history of the calls
  made so far, newest first, and every call of the program adds an event.  JSON is a datatype; the
  text format is the parameter \<open>json_codec\<close>, and how \<^verbatim>\<open>json.Unmarshal\<close> fills a struct from a value
  (fields matched without case, null leaves a scalar as it is, the first mismatch is the error) is
  written out.
\<close>

subsection \<open>JSON\<close>

datatype json =
    JNull
  | JBool bool
  | JInt int
  | JFloat rat
  | JString string
  | JArray "json list"
  | JObject "(string \<times> json) list"

text \<open>
  A value of type \<^verbatim>\<open>any\<close>: the integer types are one constructor; a value of any other type is what
  \<^verbatim>\<open>json.Marshal\<close> makes of it.
\<close>

datatype anyValue =
    AnyNil
  | AnyString string
  | AnyInt int
  | AnyFloat float64
  | AnyStrings "string list"
  | AnyList "anyValue list"
  | AnyOther "string + json"

type_synonym anyMap = "(string \<times> anyValue) list"

record ModelContext =
  mcx_service :: string
  mcx_resource :: ResourceRef
  mcx_summary :: string
  mcx_metadata :: strmap
  mcx_signals :: "Signal list"
  mcx_evidence :: EvidenceBundle
  mcx_timeline :: "TimelineEvent list"
  mcx_runbooks :: "string list"
  mcx_docs :: "string list"

record ModelRequest =
  mrq_ProviderHint :: string
  mrq_SystemPrompt :: string
  mrq_Messages :: "ModelMessage list"
  mrq_Context :: ModelContext

record ModelResponse =
  mrs_Provider :: string
  mrs_Model :: string
  mrs_ProviderRequestID :: string
  mrs_InputTokens :: int
  mrs_OutputTokens :: int
  mrs_Output :: anyMap
  mrs_RawText :: string
  mrs_Structured :: bool

text \<open>
  \<open>jc_parse\<close> and \<open>jc_print\<close> are the text format, \<open>jc_typeError\<close> the text of the error for a field and a
  value that does not fit it, \<open>jc_prompt\<close> the indented text of the messages and the context.
\<close>

record json_codec =
  jc_parse :: "string \<Rightarrow> string + json"
  jc_print :: "json \<Rightarrow> string"
  jc_typeError :: "string \<Rightarrow> json \<Rightarrow> string"
  jc_prompt :: "ModelMessage list \<Rightarrow> ModelContext \<Rightarrow> go_error + string"

text \<open>\<^verbatim>\<open>json.Marshal\<close> of a value: an integral float prints like an integer below \<open>10\<^sup>2\<^sup>1\<close>.\<close>

fun marshalAny :: "anyValue \<Rightarrow> string + json"
  and marshalAnys :: "anyValue list \<Rightarrow> string + json list" where
  "marshalAny AnyNil = Inr JNull"
| "marshalAny (AnyString s) = Inr (JString s)"
| "marshalAny (AnyInt n) = Inr (JInt n)"
| "marshalAny (AnyFloat (Finite q)) =
     Inr (if q = of_int \<lfloor>q\<rfloor> \<and> \<bar>q\<bar> < 10 ^ 21 then JInt \<lfloor>q\<rfloor> else JFloat q)"
| "marshalAny (AnyFloat NaN) = Inl ''json: unsupported value: NaN''"
| "marshalAny (AnyFloat (Infinite pos)) =
     Inl (''json: unsupported value: '' @ (if pos then ''+Inf'' else ''-Inf''))"
| "marshalAny (AnyStrings xs) = Inr (JArray (map JString xs))"
| "marshalAny (AnyList xs) = map_sum id JArray (marshalAnys xs)"
| "marshalAny (AnyOther r) = r"
| "marshalAnys [] = Inr []"
| "marshalAnys (x # xs) =
     (case marshalAny x of
        Inl e \<Rightarrow> Inl e
      | Inr v \<Rightarrow> map_sum id (\<lambda>vs. v # vs) (marshalAnys xs))"

text \<open>A map prints its entries in the order of their keys.\<close>

fun marshalEntries :: "anyMap \<Rightarrow> string + (string \<times> json) list" where
  "marshalEntries [] = Inr []"
| "marshalEntries ((k, v) # kvs) =
     (case marshalAny v of
        Inl e \<Rightarrow> Inl e
      | Inr j \<Rightarrow> map_sum id (\<lambda>js. (k, j) # js) (marshalEntries kvs))"

definition marshalMap :: "anyMap \<Rightarrow> string + json" where
  "marshalMap m = map_sum id JObject (marshalEntries (sort_key fst m))"

subsection \<open>Filling a struct\<close>

text \<open>A decoder takes the value, what the variable holds and the first error so far.\<close>

type_synonym 'a decoder = "json \<Rightarrow> 'a \<times> string option \<Rightarrow> 'a \<times> string option"

definition saveError :: "string \<Rightarrow> string option \<Rightarrow> string option" where
  "saveError e err = (case err of None \<Rightarrow> Some e | Some e' \<Rightarrow> Some e')"

definition inInt64 :: "int \<Rightarrow> bool" where
  "inInt64 n \<longleftrightarrow> - (2 ^ 63) \<le> n \<and> n < 2 ^ 63"

definition decString :: "json_codec \<Rightarrow> string \<Rightarrow> string decoder" where
  "decString jc field v = (\<lambda>(old, err).
     (case v of
        JString s \<Rightarrow> (s, err)
      | JNull \<Rightarrow> (old, err)
      | _ \<Rightarrow> (old, saveError (jc_typeError jc field v) err)))"

definition decIntPtr :: "json_codec \<Rightarrow> string \<Rightarrow> int option decoder" where
  "decIntPtr jc field v = (\<lambda>(old, err).
     (case v of
        JInt n \<Rightarrow> if inInt64 n then (Some n, err) else (old, saveError (jc_typeError jc field v) err)
      | JNull \<Rightarrow> (None, err)
      | _ \<Rightarrow> (old, saveError (jc_typeError jc field v) err)))"

definition decInt64 :: "json_codec \<Rightarrow> string \<Rightarrow> int decoder" where
  "decInt64 jc field v = (\<lambda>(old, err).
     (case v of
        JInt n \<Rightarrow> if inInt64 n then (n, err) else (old, saveError (jc_typeError jc field v) err)
      | JNull \<Rightarrow> (old, err)
      | _ \<Rightarrow> (old, saveError (jc_typeError jc field v) err)))"

text \<open>An array reuses the elements the slice already has.\<close>

fun decElems :: "'a decoder \<Rightarrow> 'a \<Rightarrow> json list \<Rightarrow> 'a list \<times> string option \<Rightarrow> 'a list \<times> string option" where
  "decElems dec zero [] (olds, err) = ([], err)"
| "decElems dec zero (v # vs) (olds, err) =
     (let (x, err1) = dec v (case olds of [] \<Rightarrow> zero | old # _ \<Rightarrow> old, err);
          (xs, err2) = decElems dec zero vs (tl olds, err1) in
      (x # xs, err2))"

definition decSlice :: "json_codec \<Rightarrow> string \<Rightarrow> 'a decoder \<Rightarrow> 'a \<Rightarrow> 'a list decoder" where
  "decSlice jc field dec zero v = (\<lambda>(old, err).
     (case v of
        JArray vs \<Rightarrow> decElems dec zero vs (old, err)
      | JNull \<Rightarrow> ([], err)
      | _ \<Rightarrow> (old, saveError (jc_typeError jc field v) err)))"

definition decField :: "('s \<Rightarrow> 'a) \<Rightarrow> ('a \<Rightarrow> 's \<Rightarrow> 's) \<Rightarrow> 'a decoder \<Rightarrow> 's decoder" where
  "decField get put dec v = (\<lambda>(s, err). let (x, err') = dec v (get s, err) in (put x s, err'))"

definition decEntry :: "(string \<times> 's decoder) list \<Rightarrow> string \<times> json \<Rightarrow>
    's \<times> string option \<Rightarrow> 's \<times> string option" where
  "decEntry fs = (\<lambda>(k, v) st.
     (case find (\<lambda>(name, _). EqualFold name k) fs of
        None \<Rightarrow> st
      | Some (_, dec) \<Rightarrow> dec v st))"

definition decStruct :: "json_codec \<Rightarrow> string \<Rightarrow> (string \<times> 's decoder) list \<Rightarrow> 's decoder" where
  "decStruct jc field fs v = (\<lambda>(old, err).
     (case v of
        JObject kvs \<Rightarrow> fold (decEntry fs) kvs (old, err)
      | JNull \<Rightarrow> (old, err)
      | _ \<Rightarrow> (old, saveError (jc_typeError jc field v) err)))"

definition decoded :: "'a \<times> string option \<Rightarrow> string + 'a" where
  "decoded = (\<lambda>(x, err). case err of None \<Rightarrow> Inr x | Some e \<Rightarrow> Inl e)"

definition Unmarshal :: "json_codec \<Rightarrow> 'a decoder \<Rightarrow> 'a \<Rightarrow> string \<Rightarrow> string + 'a" where
  "Unmarshal jc dec zero text =
     (case jc_parse jc text of Inl e \<Rightarrow> Inl e | Inr v \<Rightarrow> decoded (dec v (zero, None)))"

subsection \<open>The structured answer\<close>

record StructuredOutput =
  so_RiskTitle :: string
  so_RiskSummary :: string
  so_Severity :: string
  so_ConfidenceScore :: "int option"
  so_Rationale :: string
  so_RCAHypothesis :: string
  so_RCACauses :: "string list"
  so_ActionType :: string

record ProviderError =
  prv_Reason :: string
  prv_Message :: string

text \<open>The error of a provider: a \<^verbatim>\<open>*model.ProviderError\<close> or any other error.\<close>

datatype model_error = ProviderErr ProviderError | OtherErr go_error

definition invalidResponse :: "string \<Rightarrow> ProviderError" where
  "invalidResponse msg = \<lparr>prv_Reason = ''InvalidProviderResponse'', prv_Message = msg\<rparr>"

definition zeroStructured :: StructuredOutput where
  "zeroStructured = \<lparr>so_RiskTitle = [], so_RiskSummary = [], so_Severity = [], so_ConfidenceScore = None,
     so_Rationale = [], so_RCAHypothesis = [], so_RCACauses = [], so_ActionType = []\<rparr>"

definition structuredFields :: "json_codec \<Rightarrow> (string \<times> StructuredOutput decoder) list" where
  "structuredFields jc =
     [(''riskTitle'', decField so_RiskTitle (\<lambda>x s. s\<lparr>so_RiskTitle := x\<rparr>) (decString jc ''riskTitle'')),
      (''riskSummary'', decField so_RiskSummary (\<lambda>x s. s\<lparr>so_RiskSummary := x\<rparr>) (decString jc ''riskSummary'')),
      (''severity'', decField so_Severity (\<lambda>x s. s\<lparr>so_Severity := x\<rparr>) (decString jc ''severity'')),
      (''confidenceScore'', decField so_ConfidenceScore (\<lambda>x s. s\<lparr>so_ConfidenceScore := x\<rparr>)
         (decIntPtr jc ''confidenceScore'')),
      (''rationale'', decField so_Rationale (\<lambda>x s. s\<lparr>so_Rationale := x\<rparr>) (decString jc ''rationale'')),
      (''rcaHypothesis'', decField so_RCAHypothesis (\<lambda>x s. s\<lparr>so_RCAHypothesis := x\<rparr>)
         (decString jc ''rcaHypothesis'')),
      (''rcaCauses'', decField so_RCACauses (\<lambda>x s. s\<lparr>so_RCACauses := x\<rparr>)
         (decSlice jc ''rcaCauses'' (decString jc ''rcaCauses'') [])),
      (''actionType'', decField so_ActionType (\<lambda>x s. s\<lparr>so_ActionType := x\<rparr>) (decString jc ''actionType''))]"

definition decStructured :: "json_codec \<Rightarrow> StructuredOutput decoder" where
  "decStructured jc = decStruct jc ''StructuredOutput'' (structuredFields jc)"

definition StructuredSystemPrompt :: "string \<Rightarrow> string" where
  "StructuredSystemPrompt base =
     (let base = TrimSpace base;
          base = (if base = [] then ''Transform observability signals into guarded SRE reasoning output.''
                  else base) in
      base @ [CHR 0x0A] @ ''Return only valid JSON with keys riskTitle, riskSummary, severity, confidenceScore, rationale, rcaHypothesis, rcaCauses, actionType.'')"

definition StructuredUserPrompt :: "json_codec \<Rightarrow> ModelRequest \<Rightarrow> go_error + string" where
  "StructuredUserPrompt jc req =
     (case jc_prompt jc (mrq_Messages req) (mrq_Context req) of
        Inl e \<Rightarrow> Inl (wrapErr ''marshal provider prompt: '' e)
      | Inr payload \<Rightarrow>
          Inr (''Analyze this incident context and return JSON only.'' @ [CHR 0x0A] @ payload))"

definition supportedSeverity :: "string \<Rightarrow> bool" where
  "supportedSeverity s \<longleftrightarrow> s \<in> {''low'', ''medium'', ''high'', ''unsafe''}"

definition trimmedOutput :: "StructuredOutput \<Rightarrow> StructuredOutput" where
  "trimmedOutput raw =
     raw\<lparr>so_RiskTitle := TrimSpace (so_RiskTitle raw),
        so_RiskSummary := TrimSpace (so_RiskSummary raw),
        so_Severity := ToLower (TrimSpace (so_Severity raw)),
        so_Rationale := TrimSpace (so_Rationale raw),
        so_RCAHypothesis := TrimSpace (so_RCAHypothesis raw),
        so_ActionType := TrimSpace (so_ActionType raw)\<rparr>"

definition missingField :: "StructuredOutput \<Rightarrow> bool" where
  "missingField payload \<longleftrightarrow> so_RiskTitle payload = [] \<or> so_RiskSummary payload = [] \<or>
     so_Rationale payload = [] \<or> so_RCAHypothesis payload = [] \<or> so_ActionType payload = []"

definition normalizeStructuredOutput :: "StructuredOutput \<Rightarrow> ProviderError + StructuredOutput" where
  "normalizeStructuredOutput raw =
     (let payload = trimmedOutput raw in
      if missingField payload then
        Inl (invalidResponse ''provider response is missing required RCA fields'')
      else case so_ConfidenceScore payload of
        None \<Rightarrow> Inl (invalidResponse ''provider response is missing confidenceScore'')
      | Some score \<Rightarrow>
          if \<not> supportedSeverity (so_Severity payload) then
            Inl (invalidResponse (''provider response used unsupported severity ''
              @ quote (so_Severity payload)))
          else if score < 0 \<or> score > 100 then
            Inl (invalidResponse (''provider response confidenceScore '' @ itoa score
              @ '' is out of range''))
          else
            let causes = filter (\<lambda>c. c \<noteq> []) (map TrimSpace (so_RCACauses payload)) in
            if causes = [] then Inl (invalidResponse ''provider response is missing rcaCauses'')
            else Inr (payload\<lparr>so_RCACauses := causes\<rparr>))"

text \<open>\<^verbatim>\<open>strings.Index\<close> and \<^verbatim>\<open>strings.LastIndex\<close> of one byte, as the text from and up to it.\<close>

definition extractJSON :: "string \<Rightarrow> string" where
  "extractJSON text =
     (let t = TrimSpace (TrimSuffix (TrimPrefix (TrimPrefix (TrimSpace text) ''```json'') ''```'') ''```'');
          before = takeWhile (\<lambda>c. c \<noteq> CHR 0x7B) t;
          after = takeWhile (\<lambda>c. c \<noteq> CHR 0x7D) (rev t) in
      if CHR 0x7B \<in> set t \<and> CHR 0x7D \<in> set t \<and> length before + length after < length t
      then take (length t - length after - length before) (drop (length before) t)
      else t)"

definition decodeStructuredOutput :: "json_codec \<Rightarrow> string \<Rightarrow> ProviderError + StructuredOutput" where
  "decodeStructuredOutput jc text =
     (case Unmarshal jc (decStructured jc) zeroStructured (extractJSON (TrimSpace text)) of
        Inl e \<Rightarrow> Inl (invalidResponse (''decode structured provider response: '' @ e))
      | Inr payload \<Rightarrow> normalizeStructuredOutput payload)"

text \<open>The map is printed and read again; the text in between is that of a JSON value.\<close>

definition normalizedStructuredOutput :: "json_codec \<Rightarrow> anyMap \<Rightarrow> ProviderError + StructuredOutput" where
  "normalizedStructuredOutput jc out =
     (case marshalMap out of
        Inl e \<Rightarrow> Inl (invalidResponse (''marshal structured provider output: '' @ e))
      | Inr v \<Rightarrow>
          (case decoded (decStructured jc v (zeroStructured, None)) of
             Inl e \<Rightarrow> Inl (invalidResponse (''decode structured provider output: '' @ e))
           | Inr payload \<Rightarrow> normalizeStructuredOutput payload))"

text \<open>The score is dereferenced; \<open>None\<close> would panic and is excluded by the normalization.\<close>

definition buildStructuredResponse :: "string \<Rightarrow> string \<Rightarrow> StructuredOutput \<Rightarrow> ModelResponse" where
  "buildStructuredResponse provider modelName payload =
     \<lparr>mrs_Provider = provider, mrs_Model = modelName, mrs_ProviderRequestID = [], mrs_InputTokens = 0,
      mrs_OutputTokens = 0,
      mrs_Output =
        [(''riskTitle'', AnyString (so_RiskTitle payload)),
         (''riskSummary'', AnyString (so_RiskSummary payload)),
         (''severity'', AnyString (so_Severity payload)),
         (''confidenceScore'', AnyInt (the (so_ConfidenceScore payload))),
         (''rationale'', AnyString (so_Rationale payload)),
         (''rcaHypothesis'', AnyString (so_RCAHypothesis payload)),
         (''rcaCauses'', AnyStrings (so_RCACauses payload)),
         (''actionType'', AnyString (so_ActionType payload))],
      mrs_RawText = so_RiskSummary payload, mrs_Structured = True\<rparr>"

definition ParseStructuredText ::
  "json_codec \<Rightarrow> string \<Rightarrow> string \<Rightarrow> string \<Rightarrow> ProviderError + ModelResponse" where
  "ParseStructuredText jc provider modelName text =
     map_sum id (buildStructuredResponse provider modelName) (decodeStructuredOutput jc text)"

definition WithProviderRequestID :: "string \<Rightarrow> ModelResponse \<Rightarrow> ModelResponse" where
  "WithProviderRequestID requestID resp = resp\<lparr>mrs_ProviderRequestID := TrimSpace requestID\<rparr>"

definition WithTokenUsage :: "int \<Rightarrow> int \<Rightarrow> ModelResponse \<Rightarrow> ModelResponse" where
  "WithTokenUsage inputTokens outputTokens resp =
     (let resp = (if inputTokens > 0 then resp\<lparr>mrs_InputTokens := inputTokens\<rparr> else resp) in
      if outputTokens > 0 then resp\<lparr>mrs_OutputTokens := outputTokens\<rparr> else resp)"

definition ValidateModelResponse :: "json_codec \<Rightarrow> ModelResponse \<Rightarrow> ProviderError option" where
  "ValidateModelResponse jc resp =
     (if \<not> mrs_Structured resp then Some (invalidResponse ''provider returned unstructured response'')
      else case normalizedStructuredOutput jc (mrs_Output resp) of
        Inl e \<Rightarrow> Some e
      | Inr _ \<Rightarrow> None)"

subsection \<open>HTTP with retries\<close>

record HTTPRequest =
  hrq_Method :: string
  hrq_URL :: string
  hrq_Headers :: "(string \<times> string) list"
  hrq_Body :: string

text \<open>A reply: status, \<^verbatim>\<open>Header.Get\<close>, and what reading the body gives.\<close>

record HTTPReply =
  hrp_StatusCode :: int
  hrp_Header :: "string \<Rightarrow> string"
  hrp_Body :: "go_error + string"

record HTTPResponse =
  htr_Body :: string
  htr_RequestID :: string

record ModelProviderSpec =
  mps_Provider :: string
  mps_Model :: string
  mps_Endpoint :: string
  mps_APIKeySecretRef :: "(string \<times> string) option"
  mps_Timeout :: duration
  mps_MaxTokens :: int
  mps_DataPolicy :: ModelProviderDataPolicy
  mps_FallbackProviderRef :: string

record ModelProvider =
  mp_Meta :: ObjectMeta
  mp_Spec :: ModelProviderSpec

datatype mevent =
    MDo HTTPRequest
  | MSleep duration
  | MGetProvider NamespacedName
  | MGetSecret NamespacedName

type_synonym mhistory = "mevent list"

text \<open>
  \<open>me_NewRequest\<close> is the error of \<^verbatim>\<open>http.NewRequest\<close> for a URL, \<open>me_Do\<close> the answer to a request under
  a timeout, \<open>me_Sleep\<close> whether the context ends during a wait, \<open>me_Until\<close> the time left until an HTTP
  date if the text is one.
\<close>

record model_env =
  me_JSON :: json_codec
  me_NewRequest :: "string \<Rightarrow> go_error option"
  me_Do :: "HTTPRequest \<Rightarrow> duration \<Rightarrow> mhistory \<Rightarrow> go_error + HTTPReply"
  me_Sleep :: "duration \<Rightarrow> mhistory \<Rightarrow> go_error option"
  me_Until :: "string \<Rightarrow> mhistory \<Rightarrow> duration option"
  me_GetProvider :: "NamespacedName \<Rightarrow> mhistory \<Rightarrow> go_error + ModelProvider"
  me_GetSecret :: "NamespacedName \<Rightarrow> mhistory \<Rightarrow> go_error + (string \<rightharpoonup> string)"

abbreviation defaultProviderMaxAttempts :: nat where "defaultProviderMaxAttempts \<equiv> 3"
abbreviation defaultProviderRetryDelay :: duration where "defaultProviderRetryDelay \<equiv> 100000000"

definition unavailable :: "string \<Rightarrow> ProviderError" where
  "unavailable msg = \<lparr>prv_Reason = ''ProviderUnavailable'', prv_Message = msg\<rparr>"

definition normalizeProviderTimeout :: "duration \<Rightarrow> duration" where
  "normalizeProviderTimeout timeout = (if timeout > 0 then timeout else 15 * second)"

definition providerRequestID :: "HTTPReply \<Rightarrow> string" where
  "providerRequestID resp =
     (case find (\<lambda>v. v \<noteq> []) (map (\<lambda>h. TrimSpace (hrp_Header resp h))
         [''x-request-id'', ''request-id'', ''x-goog-request-id'', ''anthropic-request-id'']) of
        None \<Rightarrow> [] | Some v \<Rightarrow> v)"

definition classifyProviderTransportError :: "string \<Rightarrow> go_error \<Rightarrow> ProviderError \<times> bool" where
  "classifyProviderTransportError provider err =
     (if errKind err = Canceled then
        (unavailable (provider @ '' provider request was canceled: '' @ errText err), False)
      else if errKind err = DeadlineExceeded then
        (unavailable (provider @ '' provider request timed out: '' @ errText err), True)
      else (unavailable (provider @ '' provider transport error: '' @ errText err), True))"

definition classifyProviderHTTPStatus :: "string \<Rightarrow> int \<Rightarrow> string \<Rightarrow> ProviderError \<times> bool" where
  "classifyProviderHTTPStatus provider statusCode body =
     (let detail = TrimSpace body;
          message = provider @ '' provider returned '' @ itoa statusCode
            @ (if detail \<noteq> [] then '': '' @ detail else []) in
      if statusCode = 401 \<or> statusCode = 403 then
        (\<lparr>prv_Reason = ''ProviderAuthFailed'', prv_Message = message\<rparr>, False)
      else if statusCode = 429 then
        (\<lparr>prv_Reason = ''ProviderRateLimited'', prv_Message = message\<rparr>, True)
      else if statusCode = 408 \<or> statusCode = 425 then (unavailable message, True)
      else if 500 \<le> statusCode \<and> statusCode \<le> 599 then (unavailable message, True)
      else if 400 \<le> statusCode \<and> statusCode \<le> 499 then
        (\<lparr>prv_Reason = ''ProviderRequestInvalid'', prv_Message = message\<rparr>, False)
      else (unavailable message, False))"

definition readProviderResponse ::
  "HTTPReply \<Rightarrow> string \<Rightarrow> (ProviderError \<times> bool) + string" where
  "readProviderResponse resp provider =
     (case hrp_Body resp of
        Inl e \<Rightarrow> Inl (unavailable (provider @ '' provider read response: '' @ errText e), True)
      | Inr body \<Rightarrow>
          if 200 \<le> hrp_StatusCode resp \<and> hrp_StatusCode resp < 300 then Inr body
          else Inl (classifyProviderHTTPStatus provider (hrp_StatusCode resp) body))"

definition withAttemptContext :: "ProviderError \<Rightarrow> nat \<Rightarrow> ProviderError" where
  "withAttemptContext err attempts =
     (if attempts \<le> 1 then err
      else err\<lparr>prv_Message := prv_Message err @ '' after '' @ itoa (int attempts) @ '' attempts''\<rparr>)"

text \<open>\<^verbatim>\<open>strconv.Atoi\<close>.\<close>

definition digitsValue :: "string \<Rightarrow> nat" where
  "digitsValue = foldl (\<lambda>n c. 10 * n + (byte c - 48)) 0"

definition Atoi :: "string \<Rightarrow> int option" where
  "Atoi s =
     (let digits = (case s of c # cs \<Rightarrow> if c \<in> {CHR ''+'', CHR ''-''} then cs else s | [] \<Rightarrow> []);
          n = (if s \<noteq> [] \<and> hd s = CHR ''-'' then - int (digitsValue digits) else int (digitsValue digits)) in
      if digits \<noteq> [] \<and> list_all (\<lambda>c. 48 \<le> byte c \<and> byte c \<le> 57) digits \<and> inInt64 n
      then Some n else None)"

definition linearDelay :: "nat \<Rightarrow> duration" where
  "linearDelay attempt = int (max 1 attempt) * defaultProviderRetryDelay"

definition retryDelay :: "model_env \<Rightarrow> nat \<Rightarrow> HTTPReply option \<Rightarrow> mhistory \<Rightarrow> duration" where
  "retryDelay env attempt resp h =
     (case resp of
        None \<Rightarrow> linearDelay attempt
      | Some r \<Rightarrow>
          (let retryAfter = TrimSpace (hrp_Header r ''Retry-After'') in
           if retryAfter = [] then linearDelay attempt
           else case Atoi retryAfter of
             Some seconds \<Rightarrow>
               if seconds > 0 then durationSeconds seconds
               else (case me_Until env retryAfter h of
                       Some wait \<Rightarrow> if wait > 0 then wait else linearDelay attempt
                     | None \<Rightarrow> linearDelay attempt)
           | None \<Rightarrow> (case me_Until env retryAfter h of
                       Some wait \<Rightarrow> if wait > 0 then wait else linearDelay attempt
                     | None \<Rightarrow> linearDelay attempt)))"

text \<open>The end of an attempt that failed: give up, or wait and go on with \<open>next\<close>.\<close>

definition retryOr ::
  "model_env \<Rightarrow> ProviderError \<Rightarrow> bool \<Rightarrow> nat \<Rightarrow> duration \<Rightarrow>
   (mhistory \<Rightarrow> (model_error + HTTPResponse) \<times> mhistory) \<Rightarrow> mhistory \<Rightarrow>
   (model_error + HTTPResponse) \<times> mhistory" where
  "retryOr env err retry attempts delay nextAttempt h =
     (if \<not> retry \<or> attempts \<ge> defaultProviderMaxAttempts then
        (Inl (ProviderErr (withAttemptContext err attempts)), h)
      else case me_Sleep env delay h of
        Some _ \<Rightarrow> (Inl (ProviderErr (withAttemptContext err attempts)), MSleep delay # h)
      | None \<Rightarrow> nextAttempt (MSleep delay # h))"

text \<open>
  The loop from \<open>attempts\<close> attempts on.  The request that \<^verbatim>\<open>buildRequest\<close> returns is the same in every
  attempt; its error is a \<^verbatim>\<open>ProviderError\<close> or any other error.
\<close>

function requestLoop ::
  "model_env \<Rightarrow> string \<Rightarrow> duration \<Rightarrow> model_error + HTTPRequest \<Rightarrow> nat \<Rightarrow> mhistory \<Rightarrow>
   (model_error + HTTPResponse) \<times> mhistory" where
  "requestLoop env provider timeout build attempts h =
     (if attempts \<ge> defaultProviderMaxAttempts then
        (Inl (ProviderErr (unavailable (provider @ '' provider request exhausted retry budget''))), h)
      else
        let attempts' = attempts + 1 in
        case build of
          Inl (ProviderErr e) \<Rightarrow> (Inl (ProviderErr e), h)
        | Inl (OtherErr e) \<Rightarrow> (Inl (ProviderErr (unavailable (errText e))), h)
        | Inr req \<Rightarrow>
            let h' = MDo req # h in
            (case me_Do env req (normalizeProviderTimeout timeout) h of
               Inl e \<Rightarrow>
                 (let (err, retry) = classifyProviderTransportError provider e in
                  retryOr env err retry attempts' (retryDelay env attempts' None h')
                    (requestLoop env provider timeout build attempts') h')
             | Inr resp \<Rightarrow>
                 (case readProviderResponse resp provider of
                    Inr body \<Rightarrow>
                      (Inr \<lparr>htr_Body = body, htr_RequestID = providerRequestID resp\<rparr>, h')
                  | Inl (err, retry) \<Rightarrow>
                      retryOr env err retry attempts' (retryDelay env attempts' (Some resp) h')
                        (requestLoop env provider timeout build attempts') h')))"
  by pat_completeness auto
termination
  by (relation "measure (\<lambda>(env, provider, timeout, build, attempts, h). 3 - attempts)") auto

declare requestLoop.simps [simp del]

definition DoRequestWithRetryMetadata ::
  "model_env \<Rightarrow> string \<Rightarrow> duration \<Rightarrow> model_error + HTTPRequest \<Rightarrow> mhistory \<Rightarrow>
   (model_error + HTTPResponse) \<times> mhistory" where
  "DoRequestWithRetryMetadata env provider timeout build h =
     requestLoop env provider timeout build 0 h"

definition NewJSONRequest ::
  "model_env \<Rightarrow> string \<Rightarrow> string \<Rightarrow> string \<Rightarrow> go_error + HTTPRequest" where
  "NewJSONRequest env httpMethod endpoint payload =
     (case me_NewRequest env endpoint of
        Some e \<Rightarrow> Inl e
      | None \<Rightarrow> Inr \<lparr>hrq_Method = httpMethod, hrq_URL = endpoint,
          hrq_Headers = [(''Content-Type'', ''application/json'')], hrq_Body = payload\<rparr>)"

subsection \<open>Providers\<close>

text \<open>The three hosted providers have the same fields.\<close>

record HostedProvider =
  hp_Model :: string
  hp_Endpoint :: string
  hp_APIKey :: string
  hp_Timeout :: duration
  hp_MaxTokens :: int

record RuntimeConfig =
  cfg_Model :: string
  cfg_Endpoint :: string
  cfg_Timeout :: duration
  cfg_APIKey :: string
  cfg_MaxTokens :: int

definition WithConfig :: "RuntimeConfig \<Rightarrow> HostedProvider \<Rightarrow> HostedProvider" where
  "WithConfig config p =
     (let p = (if cfg_Model config \<noteq> [] then p\<lparr>hp_Model := cfg_Model config\<rparr> else p);
          p = (if cfg_Endpoint config \<noteq> [] then p\<lparr>hp_Endpoint := cfg_Endpoint config\<rparr> else p);
          p = (if cfg_Timeout config > 0 then p\<lparr>hp_Timeout := cfg_Timeout config\<rparr> else p);
          p = (if cfg_MaxTokens config > 0 then p\<lparr>hp_MaxTokens := cfg_MaxTokens config\<rparr> else p) in
      if cfg_APIKey config \<noteq> [] then p\<lparr>hp_APIKey := cfg_APIKey config\<rparr> else p)"

definition maxTokens :: "int \<Rightarrow> int" where
  "maxTokens v = (if v > 0 then v else 800)"

definition firstText :: "string list \<Rightarrow> string" where
  "firstText values = (case find (\<lambda>v. v \<noteq> []) values of None \<Rightarrow> [] | Some v \<Rightarrow> v)"

text \<open>The two configuration errors that every hosted provider reports before it sends anything.\<close>

definition missingConfig :: "string \<Rightarrow> HostedProvider \<Rightarrow> ProviderError option" where
  "missingConfig name p =
     (if hp_Model p = [] then Some (unavailable (name @ '' model is not configured''))
      else if hp_APIKey p = [] then
        Some \<lparr>prv_Reason = ''APIKeyMissing'', prv_Message = name @ '' provider api key is not configured''\<rparr>
      else None)"

text \<open>The request of a provider: the JSON request with further headers.\<close>

definition providerRequest ::
  "model_env \<Rightarrow> string \<Rightarrow> string \<Rightarrow> json \<Rightarrow> (string \<times> string) list \<Rightarrow> model_error + HTTPRequest" where
  "providerRequest env name endpoint payload headers =
     (case NewJSONRequest env ''POST'' endpoint (jc_print (me_JSON env) payload) of
        Inl e \<Rightarrow> Inl (OtherErr (wrapErr (''create '' @ name @ '' request: '') e))
      | Inr req \<Rightarrow> Inr (req\<lparr>hrq_Headers := hrq_Headers req @ headers\<rparr>))"

paragraph \<open>OpenAI\<close>

record openaiDecoded =
  oad_ID :: string
  oad_Choices :: "string list"
  oad_PromptTokens :: int
  oad_CompletionTokens :: int

definition decOpenAI :: "json_codec \<Rightarrow> openaiDecoded decoder" where
  "decOpenAI jc = decStruct jc ''''
     [(''id'', decField oad_ID (\<lambda>x s. s\<lparr>oad_ID := x\<rparr>) (decString jc ''id'')),
      (''choices'', decField oad_Choices (\<lambda>x s. s\<lparr>oad_Choices := x\<rparr>)
         (decSlice jc ''choices'' (decStruct jc ''choices''
            [(''message'', decStruct jc ''choices.message''
               [(''content'', decString jc ''choices.message.content'')])]) [])),
      (''usage'', decStruct jc ''usage''
         [(''prompt_tokens'', decField oad_PromptTokens (\<lambda>x s. s\<lparr>oad_PromptTokens := x\<rparr>)
             (decInt64 jc ''usage.prompt_tokens'')),
          (''completion_tokens'', decField oad_CompletionTokens (\<lambda>x s. s\<lparr>oad_CompletionTokens := x\<rparr>)
             (decInt64 jc ''usage.completion_tokens''))])]"

definition openaiPayload :: "HostedProvider \<Rightarrow> string \<Rightarrow> string \<Rightarrow> json" where
  "openaiPayload p systemPrompt userPrompt = JObject
     [(''max_tokens'', JInt (maxTokens (hp_MaxTokens p))),
      (''messages'', JArray
         [JObject [(''content'', JString systemPrompt), (''role'', JString ''system'')],
          JObject [(''content'', JString userPrompt), (''role'', JString ''user'')]]),
      (''model'', JString (hp_Model p)),
      (''response_format'', JObject [(''type'', JString ''json_object'')])]"

definition openaiRequest ::
  "model_env \<Rightarrow> HostedProvider \<Rightarrow> ModelRequest \<Rightarrow> string \<Rightarrow> model_error + HTTPRequest" where
  "openaiRequest env p req userPrompt =
     providerRequest env ''openai''
       (firstText [hp_Endpoint p, ''https://api.openai.com/v1/chat/completions''])
       (openaiPayload p (StructuredSystemPrompt (mrq_SystemPrompt req)) userPrompt)
       [(''Authorization'', ''Bearer '' @ hp_APIKey p)]"

definition openai_Complete ::
  "model_env \<Rightarrow> HostedProvider \<Rightarrow> ModelRequest \<Rightarrow> mhistory \<Rightarrow> (model_error + ModelResponse) \<times> mhistory" where
  "openai_Complete env p req h =
     (let jc = me_JSON env in
      case missingConfig ''openai'' p of
        Some e \<Rightarrow> (Inl (ProviderErr e), h)
      | None \<Rightarrow>
          (case StructuredUserPrompt jc req of
             Inl e \<Rightarrow> (Inl (OtherErr e), h)
           | Inr userPrompt \<Rightarrow>
               (case DoRequestWithRetryMetadata env ''openai'' (hp_Timeout p)
                   (openaiRequest env p req userPrompt) h of
                  (Inl e, h) \<Rightarrow> (Inl e, h)
                | (Inr httpResp, h) \<Rightarrow>
                    (case Unmarshal jc (decOpenAI jc) \<lparr>oad_ID = [], oad_Choices = [],
                         oad_PromptTokens = 0, oad_CompletionTokens = 0\<rparr> (htr_Body httpResp) of
                       Inl e \<Rightarrow> (Inl (ProviderErr (invalidResponse (''decode openai response: '' @ e))), h)
                     | Inr d \<Rightarrow>
                         if oad_Choices d = [] \<or> hd (oad_Choices d) = [] then
                           (Inl (ProviderErr (invalidResponse
                              ''openai response did not include a message content payload'')), h)
                         else case ParseStructuredText jc ''openai'' (hp_Model p) (hd (oad_Choices d)) of
                           Inl e \<Rightarrow> (Inl (ProviderErr e), h)
                         | Inr resp \<Rightarrow>
                             (Inr (WithTokenUsage (oad_PromptTokens d) (oad_CompletionTokens d)
                                (WithProviderRequestID (firstText [htr_RequestID httpResp, oad_ID d]) resp)),
                              h)))))"

paragraph \<open>Claude\<close>

record claudeDecoded =
  cdd_Content :: "(string \<times> string) list"
  cdd_InputTokens :: int
  cdd_OutputTokens :: int

definition decClaude :: "json_codec \<Rightarrow> claudeDecoded decoder" where
  "decClaude jc = decStruct jc ''''
     [(''content'', decField cdd_Content (\<lambda>x s. s\<lparr>cdd_Content := x\<rparr>)
         (decSlice jc ''content'' (decStruct jc ''content''
            [(''type'', decField fst (\<lambda>x s. (x, snd s)) (decString jc ''content.type'')),
             (''text'', decField snd (\<lambda>x s. (fst s, x)) (decString jc ''content.text''))]) ([], []))),
      (''usage'', decStruct jc ''usage''
         [(''input_tokens'', decField cdd_InputTokens (\<lambda>x s. s\<lparr>cdd_InputTokens := x\<rparr>)
             (decInt64 jc ''usage.input_tokens'')),
          (''output_tokens'', decField cdd_OutputTokens (\<lambda>x s. s\<lparr>cdd_OutputTokens := x\<rparr>)
             (decInt64 jc ''usage.output_tokens''))])]"

definition claudePayload :: "HostedProvider \<Rightarrow> string \<Rightarrow> string \<Rightarrow> json" where
  "claudePayload p systemPrompt userPrompt = JObject
     [(''max_tokens'', JInt (maxTokens (hp_MaxTokens p))),
      (''messages'', JArray [JObject
         [(''content'', JArray [JObject [(''text'', JString userPrompt), (''type'', JString ''text'')]]),
          (''role'', JString ''user'')]]),
      (''model'', JString (hp_Model p)),
      (''system'', JString systemPrompt)]"

definition claudeRequest ::
  "model_env \<Rightarrow> HostedProvider \<Rightarrow> ModelRequest \<Rightarrow> string \<Rightarrow> model_error + HTTPRequest" where
  "claudeRequest env p req userPrompt =
     providerRequest env ''claude''
       (firstText [hp_Endpoint p, ''https://api.anthropic.com/v1/messages''])
       (claudePayload p (StructuredSystemPrompt (mrq_SystemPrompt req)) userPrompt)
       [(''x-api-key'', hp_APIKey p), (''anthropic-version'', ''2023-06-01'')]"

definition claude_Complete ::
  "model_env \<Rightarrow> HostedProvider \<Rightarrow> ModelRequest \<Rightarrow> mhistory \<Rightarrow> (model_error + ModelResponse) \<times> mhistory" where
  "claude_Complete env p req h =
     (let jc = me_JSON env in
      case missingConfig ''claude'' p of
        Some e \<Rightarrow> (Inl (ProviderErr e), h)
      | None \<Rightarrow>
          (case StructuredUserPrompt jc req of
             Inl e \<Rightarrow> (Inl (OtherErr e), h)
           | Inr userPrompt \<Rightarrow>
               (case DoRequestWithRetryMetadata env ''claude'' (hp_Timeout p)
                   (claudeRequest env p req userPrompt) h of
                  (Inl e, h) \<Rightarrow> (Inl e, h)
                | (Inr httpResp, h) \<Rightarrow>
                    (case Unmarshal jc (decClaude jc) \<lparr>cdd_Content = [], cdd_InputTokens = 0,
                         cdd_OutputTokens = 0\<rparr> (htr_Body httpResp) of
                       Inl e \<Rightarrow> (Inl (ProviderErr (invalidResponse (''decode claude response: '' @ e))), h)
                     | Inr d \<Rightarrow>
                         (case find (\<lambda>(ty, text). ty = ''text'' \<and> text \<noteq> []) (cdd_Content d) of
                            None \<Rightarrow> (Inl (ProviderErr (invalidResponse
                              ''claude response did not include text content'')), h)
                          | Some (_, text) \<Rightarrow>
                              (case ParseStructuredText jc ''claude'' (hp_Model p) text of
                                 Inl e \<Rightarrow> (Inl (ProviderErr e), h)
                               | Inr resp \<Rightarrow>
                                   (Inr (WithTokenUsage (cdd_InputTokens d) (cdd_OutputTokens d)
                                      (WithProviderRequestID (htr_RequestID httpResp) resp)), h)))))))"

paragraph \<open>Gemini\<close>

text \<open>\<^verbatim>\<open>url.PathEscape\<close>.\<close>

definition hexUpper :: "nat \<Rightarrow> char" where
  "hexUpper n = (if n < 10 then char_of (48 + n) else char_of (55 + n))"

definition keptInPath :: "char \<Rightarrow> bool" where
  "keptInPath c \<longleftrightarrow> (CHR ''a'' \<le> c \<and> c \<le> CHR ''z'') \<or> (CHR ''A'' \<le> c \<and> c \<le> CHR ''Z'') \<or>
     (CHR ''0'' \<le> c \<and> c \<le> CHR ''9'') \<or> c \<in> set ''-_.~$&+=:@''"

definition PathEscape :: "string \<Rightarrow> string" where
  "PathEscape s = concat (map (\<lambda>c. if keptInPath c then [c]
     else [CHR ''%'', hexUpper (byte c div 16), hexUpper (byte c mod 16)]) s)"

record geminiDecoded =
  gmd_Candidates :: "string list list"
  gmd_PromptTokenCount :: int
  gmd_CandidatesTokenCount :: int

definition decGemini :: "json_codec \<Rightarrow> geminiDecoded decoder" where
  "decGemini jc = decStruct jc ''''
     [(''candidates'', decField gmd_Candidates (\<lambda>x s. s\<lparr>gmd_Candidates := x\<rparr>)
         (decSlice jc ''candidates'' (decStruct jc ''candidates''
            [(''content'', decStruct jc ''candidates.content''
               [(''parts'', decSlice jc ''candidates.content.parts''
                  (decStruct jc ''candidates.content.parts''
                     [(''text'', decString jc ''candidates.content.parts.text'')]) [])])]) [])),
      (''usageMetadata'', decStruct jc ''usageMetadata''
         [(''promptTokenCount'', decField gmd_PromptTokenCount (\<lambda>x s. s\<lparr>gmd_PromptTokenCount := x\<rparr>)
             (decInt64 jc ''usageMetadata.promptTokenCount'')),
          (''candidatesTokenCount'', decField gmd_CandidatesTokenCount
             (\<lambda>x s. s\<lparr>gmd_CandidatesTokenCount := x\<rparr>) (decInt64 jc ''usageMetadata.candidatesTokenCount''))])]"

definition geminiPayload :: "HostedProvider \<Rightarrow> string \<Rightarrow> string \<Rightarrow> json" where
  "geminiPayload p systemPrompt userPrompt = JObject
     [(''contents'', JArray [JObject
         [(''parts'', JArray [JObject [(''text'', JString userPrompt)]]), (''role'', JString ''user'')]]),
      (''generationConfig'', JObject
         [(''maxOutputTokens'', JInt (maxTokens (hp_MaxTokens p))),
          (''responseMimeType'', JString ''application/json''), (''temperature'', JFloat (1 / 5))]),
      (''systemInstruction'', JObject [(''parts'', JArray [JObject [(''text'', JString systemPrompt)]])])]"

definition geminiRequest ::
  "model_env \<Rightarrow> HostedProvider \<Rightarrow> ModelRequest \<Rightarrow> string \<Rightarrow> model_error + HTTPRequest" where
  "geminiRequest env p req userPrompt =
     (let endpoint = (if hp_Endpoint p = [] then
              ''https://generativelanguage.googleapis.com/v1beta/models/'' @ PathEscape (hp_Model p)
                @ '':generateContent''
            else hp_Endpoint p) in
      providerRequest env ''gemini'' endpoint
       (geminiPayload p (StructuredSystemPrompt (mrq_SystemPrompt req)) userPrompt)
       [(''x-goog-api-key'', hp_APIKey p)])"

definition gemini_Complete ::
  "model_env \<Rightarrow> HostedProvider \<Rightarrow> ModelRequest \<Rightarrow> mhistory \<Rightarrow> (model_error + ModelResponse) \<times> mhistory" where
  "gemini_Complete env p req h =
     (let jc = me_JSON env in
      case missingConfig ''gemini'' p of
        Some e \<Rightarrow> (Inl (ProviderErr e), h)
      | None \<Rightarrow>
          (case StructuredUserPrompt jc req of
             Inl e \<Rightarrow> (Inl (OtherErr e), h)
           | Inr userPrompt \<Rightarrow>
               (case DoRequestWithRetryMetadata env ''gemini'' (hp_Timeout p)
                   (geminiRequest env p req userPrompt) h of
                  (Inl e, h) \<Rightarrow> (Inl e, h)
                | (Inr httpResp, h) \<Rightarrow>
                    (case Unmarshal jc (decGemini jc) \<lparr>gmd_Candidates = [], gmd_PromptTokenCount = 0,
                         gmd_CandidatesTokenCount = 0\<rparr> (htr_Body httpResp) of
                       Inl e \<Rightarrow> (Inl (ProviderErr (invalidResponse (''decode gemini response: '' @ e))), h)
                     | Inr d \<Rightarrow>
                         if gmd_Candidates d = [] then
                           (Inl (ProviderErr (invalidResponse
                              ''gemini response did not include any candidates'')), h)
                         else case find (\<lambda>text. text \<noteq> []) (hd (gmd_Candidates d)) of
                           None \<Rightarrow> (Inl (ProviderErr (invalidResponse
                              ''gemini response did not include text content'')), h)
                         | Some text \<Rightarrow>
                             (case ParseStructuredText jc ''gemini'' (hp_Model p) text of
                                Inl e \<Rightarrow> (Inl (ProviderErr e), h)
                              | Inr resp \<Rightarrow>
                                  (Inr (WithTokenUsage (gmd_PromptTokenCount d) (gmd_CandidatesTokenCount d)
                                     (WithProviderRequestID (htr_RequestID httpResp) resp)), h))))))"

paragraph \<open>Heuristic\<close>

definition heuristic_Complete :: "ModelRequest \<Rightarrow> ModelResponse" where
  "heuristic_Complete req =
     (let summary = (if mrq_Messages req = [] then [] else mms_Content (last (mrq_Messages req)));
          crash = Contains (ToLower summary) ''oomkilled'' \<or> Contains (ToLower summary) ''backoff'';
          riskSummary = (if crash then ''Pods are restarting and entering backoff after a deployment change.''
            else ''Service degradation detected from correlated signals.'') in
      \<lparr>mrs_Provider = ''heuristic'', mrs_Model = ''rule-based'', mrs_ProviderRequestID = [],
       mrs_InputTokens = 0, mrs_OutputTokens = 0,
       mrs_Output =
         [(''riskTitle'', AnyString (if crash then ''Crash loop after rollout'' else ''Workload degradation'')),
          (''riskSummary'', AnyString riskSummary),
          (''severity'', AnyString (if crash then ''high'' else ''low'')),
          (''confidenceScore'', AnyInt (if crash then 86 else 35)),
          (''rationale'', AnyString (if crash then ''OOMKilled and BackOff signals raise blast-radius risk''
             else ''default heuristic'')),
          (''rcaHypothesis'', AnyString (if crash
             then ''A recent release likely introduced elevated memory or startup failures.''
             else ''Deployment change increased memory pressure and restart frequency.'')),
          (''rcaCauses'', AnyStrings [''Recent rollout changed workload behavior'',
             ''Pod memory usage crossed safe threshold'']),
          (''actionType'', AnyString (if crash then ''kubernetes.rolloutPause''
             else ''kubernetes.scaleDeployment''))],
       mrs_RawText = riskSummary, mrs_Structured = True\<rparr>)"

datatype modelProvider =
    OpenAI HostedProvider
  | Claude HostedProvider
  | Gemini HostedProvider
  | Heuristic

definition providerName :: "modelProvider \<Rightarrow> string" where
  "providerName p = (case p of OpenAI _ \<Rightarrow> ''openai'' | Claude _ \<Rightarrow> ''claude'' | Gemini _ \<Rightarrow> ''gemini''
     | Heuristic \<Rightarrow> ''heuristic'')"

definition Complete ::
  "model_env \<Rightarrow> modelProvider \<Rightarrow> ModelRequest \<Rightarrow> mhistory \<Rightarrow> (model_error + ModelResponse) \<times> mhistory" where
  "Complete env p req h =
     (case p of
        OpenAI q \<Rightarrow> openai_Complete env q req h
      | Claude q \<Rightarrow> claude_Complete env q req h
      | Gemini q \<Rightarrow> gemini_Complete env q req h
      | Heuristic \<Rightarrow> (Inr (heuristic_Complete req), h))"

text \<open>\<^verbatim>\<open>NewRegistry\<close> and \<^verbatim>\<open>Get\<close>: the registry maps names to providers, a later one replaces an earlier one.\<close>

definition NewRegistry :: "modelProvider list \<Rightarrow> (string \<rightharpoonup> modelProvider)" where
  "NewRegistry items = fold (\<lambda>item m. m(providerName item \<mapsto> item)) items Map.empty"

subsection \<open>Structured answers\<close>

text \<open>What the rest of the program may rely on in a structured answer.\<close>

definition wfStructured :: "StructuredOutput \<Rightarrow> bool" where
  "wfStructured p \<longleftrightarrow>
     list_all (\<lambda>s. s \<noteq> [] \<and> TrimSpace s = s)
       (so_RiskTitle p # so_RiskSummary p # so_Rationale p # so_RCAHypothesis p # so_ActionType p #
        so_RCACauses p) \<and>
     supportedSeverity (so_Severity p) \<and>
     (case so_ConfidenceScore p of None \<Rightarrow> False | Some score \<Rightarrow> 0 \<le> score \<and> score \<le> 100) \<and>
     so_RCACauses p \<noteq> []"

lemma normalize_Inr:
  "normalizeStructuredOutput raw = Inr p \<longleftrightarrow>
   (let q = trimmedOutput raw; causes = filter (\<lambda>c. c \<noteq> []) (map TrimSpace (so_RCACauses q)) in
    \<not> missingField q \<and> supportedSeverity (so_Severity q) \<and> causes \<noteq> [] \<and>
    (case so_ConfidenceScore q of None \<Rightarrow> False | Some score \<Rightarrow> 0 \<le> score \<and> score \<le> 100) \<and>
    p = q\<lparr>so_RCACauses := causes\<rparr>)"
  unfolding normalizeStructuredOutput_def Let_def by (auto split: option.split)

lemma trimmedOutput_wf:
  "\<not> missingField (trimmedOutput raw) \<Longrightarrow>
   list_all (\<lambda>s. s \<noteq> [] \<and> TrimSpace s = s)
     [so_RiskTitle (trimmedOutput raw), so_RiskSummary (trimmedOutput raw), so_Rationale (trimmedOutput raw),
      so_RCAHypothesis (trimmedOutput raw), so_ActionType (trimmedOutput raw)]"
  by (simp add: missingField_def trimmedOutput_def)

lemma normalize_wf:
  assumes "normalizeStructuredOutput raw = Inr p"
  shows "wfStructured p"
  using assms trimmedOutput_wf [of raw]
  unfolding normalize_Inr wfStructured_def Let_def by (auto simp: list_all_iff)

lemma TrimSpace_severity: "supportedSeverity s \<Longrightarrow> ToLower (TrimSpace s) = s"
  unfolding supportedSeverity_def by (elim insertE emptyE; hypsubst; code_simp)

lemma normalize_id:
  assumes "wfStructured p"
  shows "normalizeStructuredOutput p = Inr p"
proof -
  have "trimmedOutput p = p"
    using assms TrimSpace_severity [of "so_Severity p"]
    by (cases p) (simp add: trimmedOutput_def wfStructured_def)
  moreover have "filter (\<lambda>c. c \<noteq> []) (map TrimSpace (so_RCACauses p)) = so_RCACauses p"
    using assms unfolding wfStructured_def list_all_iff
    by (intro filter_id_conv [THEN iffD2, THEN trans]) (auto intro: map_idI)
  ultimately show ?thesis
    using assms by (simp add: normalize_Inr wfStructured_def missingField_def)
qed

lemma decElems_strings: "decElems (decString jc f) [] (map JString xs) ([], err) = (xs, err)"
  by (induction xs) (auto simp: decString_def)

lemma sorted_output:
  "sort_key fst (mrs_Output (buildStructuredResponse provider modelName p)) =
     [(''actionType'', AnyString (so_ActionType p)),
      (''confidenceScore'', AnyInt (the (so_ConfidenceScore p))),
      (''rationale'', AnyString (so_Rationale p)),
      (''rcaCauses'', AnyStrings (so_RCACauses p)),
      (''rcaHypothesis'', AnyString (so_RCAHypothesis p)),
      (''riskSummary'', AnyString (so_RiskSummary p)),
      (''riskTitle'', AnyString (so_RiskTitle p)),
      (''severity'', AnyString (so_Severity p))]"
  by (simp add: buildStructuredResponse_def)

lemma ToLower_field_names:
  "ToLower ''riskTitle'' = ''risktitle''" "ToLower ''riskSummary'' = ''risksummary''"
  "ToLower ''severity'' = ''severity''" "ToLower ''confidenceScore'' = ''confidencescore''"
  "ToLower ''rationale'' = ''rationale''" "ToLower ''rcaHypothesis'' = ''rcahypothesis''"
  "ToLower ''rcaCauses'' = ''rcacauses''" "ToLower ''actionType'' = ''actiontype''"
  by code_simp+

lemma structuredFields_find:
  "decEntry (structuredFields jc) (''actionType'', v) =
     decField so_ActionType (\<lambda>x s. s\<lparr>so_ActionType := x\<rparr>) (decString jc ''actionType'') v"
  "decEntry (structuredFields jc) (''confidenceScore'', v) =
     decField so_ConfidenceScore (\<lambda>x s. s\<lparr>so_ConfidenceScore := x\<rparr>) (decIntPtr jc ''confidenceScore'') v"
  "decEntry (structuredFields jc) (''rationale'', v) =
     decField so_Rationale (\<lambda>x s. s\<lparr>so_Rationale := x\<rparr>) (decString jc ''rationale'') v"
  "decEntry (structuredFields jc) (''rcaCauses'', v) =
     decField so_RCACauses (\<lambda>x s. s\<lparr>so_RCACauses := x\<rparr>)
       (decSlice jc ''rcaCauses'' (decString jc ''rcaCauses'') []) v"
  "decEntry (structuredFields jc) (''rcaHypothesis'', v) =
     decField so_RCAHypothesis (\<lambda>x s. s\<lparr>so_RCAHypothesis := x\<rparr>) (decString jc ''rcaHypothesis'') v"
  "decEntry (structuredFields jc) (''riskSummary'', v) =
     decField so_RiskSummary (\<lambda>x s. s\<lparr>so_RiskSummary := x\<rparr>) (decString jc ''riskSummary'') v"
  "decEntry (structuredFields jc) (''riskTitle'', v) =
     decField so_RiskTitle (\<lambda>x s. s\<lparr>so_RiskTitle := x\<rparr>) (decString jc ''riskTitle'') v"
  "decEntry (structuredFields jc) (''severity'', v) =
     decField so_Severity (\<lambda>x s. s\<lparr>so_Severity := x\<rparr>) (decString jc ''severity'') v"
  unfolding decEntry_def structuredFields_def EqualFold_def
  by (simp_all add: ToLower_field_names)

lemma decode_built:
  assumes "so_ConfidenceScore p = Some score" and "inInt64 score"
  shows "decoded (decStructured jc (JObject
      [(''actionType'', JString (so_ActionType p)), (''confidenceScore'', JInt score),
       (''rationale'', JString (so_Rationale p)), (''rcaCauses'', JArray (map JString (so_RCACauses p))),
       (''rcaHypothesis'', JString (so_RCAHypothesis p)), (''riskSummary'', JString (so_RiskSummary p)),
       (''riskTitle'', JString (so_RiskTitle p)), (''severity'', JString (so_Severity p))])
      (zeroStructured, None)) = Inr p"
  using assms
  by (cases p) (simp add: decoded_def decStructured_def decStruct_def structuredFields_find decField_def
      decString_def decIntPtr_def decSlice_def zeroStructured_def Let_def decElems_strings)

lemma normalized_built:
  assumes "wfStructured p"
  shows "normalizedStructuredOutput jc (mrs_Output (buildStructuredResponse provider modelName p)) = Inr p"
proof -
  obtain score where score: "so_ConfidenceScore p = Some score" "inInt64 score"
    using assms by (auto simp: wfStructured_def inInt64_def split: option.splits)
  then show ?thesis
    unfolding normalizedStructuredOutput_def marshalMap_def sorted_output
    using decode_built [OF score, of jc] normalize_id [OF assms] by simp
qed

lemma parsed_built:
  assumes "ParseStructuredText jc provider modelName text = Inr resp"
  shows "\<exists>p. decodeStructuredOutput jc text = Inr p \<and> wfStructured p \<and>
     resp = buildStructuredResponse provider modelName p"
proof -
  obtain p where "decodeStructuredOutput jc text = Inr p"
    and "resp = buildStructuredResponse provider modelName p"
    using assms by (cases "decodeStructuredOutput jc text") (auto simp: ParseStructuredText_def)
  moreover from this(1) have "wfStructured p"
    by (auto simp: decodeStructuredOutput_def dest: normalize_wf split: sum.splits)
  ultimately show ?thesis by blast
qed

lemma validate_built: "wfStructured p \<Longrightarrow> ValidateModelResponse jc (buildStructuredResponse provider modelName p) = None"
  using normalized_built [of p jc provider modelName]
  by (auto simp: ValidateModelResponse_def) (simp add: buildStructuredResponse_def)

text \<open>C36: the text of a provider that is accepted becomes a response from which the very same answer is
  read back, and that answer is well-formed: all texts are non-empty and trimmed, the severity is one
  of the four, the score is between 0 and 100, and there is a cause.
\<close>

theorem structured_text_roundtrip:
  assumes "ParseStructuredText jc provider modelName text = Inr resp"
  shows "\<exists>p. decodeStructuredOutput jc text = Inr p \<and> wfStructured p \<and>
     normalizedStructuredOutput jc (mrs_Output resp) = Inr p \<and> ValidateModelResponse jc resp = None"
  using parsed_built [OF assms] normalized_built validate_built by blast

definition demoCodecJSON :: json_codec where
  "demoCodecJSON =
     \<lparr>jc_parse = (\<lambda>s. if s = ''{}'' then Inr (JObject
         [(''RiskTitle'', JString '' Crash loop ''), (''riskSummary'', JString ''s''),
          (''severity'', JString ''HIGH''), (''confidenceScore'', JInt 80), (''rationale'', JString ''r''),
          (''rcaHypothesis'', JString ''h''), (''rcaCauses'', JArray [JString ''c'', JString '' '']),
          (''actionType'', JString ''a'')]) else Inl ''no object''),
      jc_print = (\<lambda>_. ''{}''), jc_typeError = (\<lambda>f _. f), jc_prompt = (\<lambda>_ _. Inr [])\<rparr>"

theorem structured_text_roundtrip_witness:
  "ValidateModelResponse demoCodecJSON
     (buildStructuredResponse ''openai'' ''m'' \<lparr>so_RiskTitle = ''Crash loop'', so_RiskSummary = ''s'',
        so_Severity = ''high'', so_ConfidenceScore = Some 80, so_Rationale = ''r'', so_RCAHypothesis = ''h'',
        so_RCACauses = [''c''], so_ActionType = ''a''\<rparr>) = None"
proof -
  have "ParseStructuredText demoCodecJSON ''openai'' ''m'' ''answer: ```{}``` '' =
     Inr (buildStructuredResponse ''openai'' ''m'' \<lparr>so_RiskTitle = ''Crash loop'', so_RiskSummary = ''s'',
        so_Severity = ''high'', so_ConfidenceScore = Some 80, so_Rationale = ''r'', so_RCAHypothesis = ''h'',
        so_RCACauses = [''c''], so_ActionType = ''a''\<rparr>)"
    by code_simp
  from structured_text_roundtrip [OF this] show ?thesis by blast
qed

subsection \<open>Retries\<close>

definition isRequest :: "mevent \<Rightarrow> bool" where
  "isRequest e \<longleftrightarrow> (case e of MDo _ \<Rightarrow> True | _ \<Rightarrow> False)"

lemma isRequest_simps [simp]:
  "isRequest (MDo r)" "\<not> isRequest (MSleep d)" "\<not> isRequest (MGetProvider k)" "\<not> isRequest (MGetSecret k)"
  by (simp_all add: isRequest_def)

text \<open>
  \<open>sends build n h h'\<close>: from \<open>h\<close> to \<open>h'\<close> there are only waits and at most \<open>n\<close> times the request that
  was built.
\<close>

definition sends :: "model_error + HTTPRequest \<Rightarrow> nat \<Rightarrow> mhistory \<Rightarrow> mhistory \<Rightarrow> bool" where
  "sends build n h h' \<longleftrightarrow> (\<exists>es. h' = es @ h \<and> length (filter isRequest es) \<le> n \<and>
     (\<forall>e\<in>set es. (\<exists>d. e = MSleep d) \<or> (\<exists>r. build = Inr r \<and> e = MDo r)))"

lemma sends_refl [simp]: "sends build n h h"
  by (simp add: sends_def)

lemma sends_sleep: "sends build n (MSleep d # h) h' \<Longrightarrow> sends build n h h'"
  unfolding sends_def by (elim exE conjE, intro exI [of _ "_ @ [MSleep d]"]) auto

lemma sends_request: "sends (Inr req) n (MDo req # h) h' \<Longrightarrow> sends (Inr req) (Suc n) h h'"
  unfolding sends_def by (elim exE conjE, intro exI [of _ "_ @ [MDo req]"]) auto

lemma retryOr_sends:
  assumes "\<And>h'. sends build n h' (snd (nextAttempt h'))"
  shows "sends build n h (snd (retryOr env err retry attempts delay nextAttempt h))"
  using sends_sleep [OF assms] sends_sleep [OF sends_refl [of build n "MSleep delay # h"]]
  by (simp add: retryOr_def split: option.split)

lemma requestLoop_sends:
  "sends build (3 - attempts) h (snd (requestLoop env provider timeout build attempts h))"
proof (induction "3 - attempts" arbitrary: attempts h rule: less_induct)
  case less
  consider "attempts \<ge> 3" | e where "attempts < 3" "build = Inl e"
    | req where "attempts < 3" "build = Inr req"
    by (cases build) force+
  then show ?case
  proof cases
    case 3
    have IH: "sends (Inr req) (2 - attempts) h'
        (snd (requestLoop env provider timeout (Inr req) (Suc attempts) h'))" for h'
      using less [of "Suc attempts" h'] 3 by simp
    have "sends (Inr req) (2 - attempts) (MDo req # h)
        (snd (requestLoop env provider timeout (Inr req) attempts h))"
      using 3 retryOr_sends [OF IH]
      by (subst requestLoop.simps) (simp add: Let_def split: prod.split sum.split)
    from sends_request [OF this] show ?thesis using 3 by (simp add: Suc_diff_le numeral_eq_Suc)
  qed (subst requestLoop.simps; auto simp: Let_def split: model_error.split)+
qed

text \<open>
   one call of a provider sends at most three HTTP requests, every one of them the request that was
  built for it, and does nothing else but wait between them.
\<close>

theorem provider_requests_bounded:
  "\<exists>es. snd (DoRequestWithRetryMetadata env provider timeout build h) = es @ h \<and>
     length (filter isRequest es) \<le> 3 \<and>
     list_all (\<lambda>e. case e of MSleep _ \<Rightarrow> True | MDo r \<Rightarrow> build = Inr r | _ \<Rightarrow> False) es"
proof -
  obtain es where "snd (DoRequestWithRetryMetadata env provider timeout build h) = es @ h"
    "length (filter isRequest es) \<le> 3"
    "\<forall>e\<in>set es. (\<exists>d. e = MSleep d) \<or> (\<exists>r. build = Inr r \<and> e = MDo r)"
    using requestLoop_sends [of build 0 h env provider timeout]
    by (auto simp: DoRequestWithRetryMetadata_def sends_def)
  then show ?thesis by (intro exI [of _ es]) (auto simp: list_all_iff)
qed

subsection \<open>Answers of the providers\<close>

lemma validate_With [simp]:
  "ValidateModelResponse jc (WithTokenUsage i out resp) = ValidateModelResponse jc resp"
  "ValidateModelResponse jc (WithProviderRequestID rid resp) = ValidateModelResponse jc resp"
  by (simp_all add: ValidateModelResponse_def WithTokenUsage_def WithProviderRequestID_def Let_def)

lemma validate_parsed:
  "ParseStructuredText jc provider m text = Inr resp \<Longrightarrow> ValidateModelResponse jc resp = None"
  by (auto dest!: parsed_built simp: validate_built)

lemma heuristic_built:
  "\<exists>p. wfStructured p \<and> mrs_Structured (heuristic_Complete req) \<and>
     mrs_Output (heuristic_Complete req) = mrs_Output (buildStructuredResponse ''heuristic'' ''rule-based'' p)"
proof -
  let ?p = "\<lambda>t r s sc ra h a. \<lparr>so_RiskTitle = t, so_RiskSummary = r, so_Severity = s,
     so_ConfidenceScore = Some sc, so_Rationale = ra, so_RCAHypothesis = h,
     so_RCACauses = [''Recent rollout changed workload behavior'', ''Pod memory usage crossed safe threshold''],
     so_ActionType = a\<rparr>"
  let ?crash = "?p ''Crash loop after rollout''
     ''Pods are restarting and entering backoff after a deployment change.'' ''high'' 86
     ''OOMKilled and BackOff signals raise blast-radius risk''
     ''A recent release likely introduced elevated memory or startup failures.'' ''kubernetes.rolloutPause''"
  let ?other = "?p ''Workload degradation'' ''Service degradation detected from correlated signals.'' ''low'' 35
     ''default heuristic'' ''Deployment change increased memory pressure and restart frequency.''
     ''kubernetes.scaleDeployment''"
  have "wfStructured ?crash" "wfStructured ?other" by code_simp+
  moreover have "mrs_Output (heuristic_Complete req) \<in>
      {mrs_Output (buildStructuredResponse ''heuristic'' ''rule-based'' ?crash),
       mrs_Output (buildStructuredResponse ''heuristic'' ''rule-based'' ?other)}"
    unfolding heuristic_Complete_def buildStructuredResponse_def Let_def
    by (cases "Contains (ToLower (if mrq_Messages req = [] then [] else mms_Content (last (mrq_Messages req)))) ''oomkilled'' \<or>
      Contains (ToLower (if mrq_Messages req = [] then [] else mms_Content (last (mrq_Messages req)))) ''backoff''")
      simp_all
  moreover have "mrs_Structured (heuristic_Complete req)" by (simp add: heuristic_Complete_def Let_def)
  ultimately show ?thesis by auto
qed

text \<open>C37: every answer that a provider returns without an error, hosted or heuristic, passes the validation
  of the reasoning engine.
\<close>

theorem provider_answers_valid:
  assumes "fst (Complete env p req h) = Inr resp"
  shows "ValidateModelResponse (me_JSON env) resp = None"
proof (cases p)
  case Heuristic
  then have "resp = heuristic_Complete req" using assms by (simp add: Complete_def)
  then show ?thesis
    using heuristic_built [of req] validate_built [of _ "me_JSON env" "''heuristic''" "''rule-based''"]
    by (auto simp: ValidateModelResponse_def split: if_splits) (auto simp: buildStructuredResponse_def split: if_splits)
qed (use assms in \<open>auto simp: Complete_def openai_Complete_def claude_Complete_def gemini_Complete_def Let_def
    dest!: validate_parsed split: option.splits sum.splits prod.splits if_splits\<close>)

definition demoModelEnv :: model_env where
  "demoModelEnv =
     \<lparr>me_JSON = demoCodecJSON, me_NewRequest = (\<lambda>_. None),
      me_Do = (\<lambda>_ _ _. Inl (Errorf ''refused'')), me_Sleep = (\<lambda>_ _. None), me_Until = (\<lambda>_ _. None),
      me_GetProvider = (\<lambda>_ _. Inl \<lparr>errKind = NotFound, errText = ''not found''\<rparr>),
      me_GetSecret = (\<lambda>_ _. Inl \<lparr>errKind = NotFound, errText = ''not found''\<rparr>)\<rparr>"

definition demoContext :: ModelContext where
  "demoContext = \<lparr>mcx_service = [], mcx_resource = \<lparr>r_Cluster = [], r_Namespace = [], r_Kind = [],
     r_Name = [], r_APIVersion = [], r_Service = []\<rparr>, mcx_summary = [], mcx_metadata = Map.empty,
     mcx_signals = [], mcx_evidence = \<lparr>bun_Logs = [], bun_Metrics = Map.empty, bun_Traces = [],
       bun_Events = [], bun_References = [], bun_Observations = []\<rparr>,
     mcx_timeline = [], mcx_runbooks = [], mcx_docs = []\<rparr>"

theorem provider_answers_valid_witness:
  "ValidateModelResponse (me_JSON demoModelEnv) (heuristic_Complete
     \<lparr>mrq_ProviderHint = [], mrq_SystemPrompt = [],
      mrq_Messages = [\<lparr>mms_Role = ''user'', mms_Content = ''container OOMKilled''\<rparr>],
      mrq_Context = demoContext\<rparr>) = None"
  by (rule provider_answers_valid [where p = Heuristic and h = "[]"]) (simp add: Complete_def)

text \<open>The request that a call of a provider sends.\<close>

definition completeRequest :: "model_env \<Rightarrow> modelProvider \<Rightarrow> ModelRequest \<Rightarrow> model_error + HTTPRequest" where
  "completeRequest env p req =
     (case StructuredUserPrompt (me_JSON env) req of
        Inl e \<Rightarrow> Inl (OtherErr e)
      | Inr userPrompt \<Rightarrow>
          (case p of
             OpenAI q \<Rightarrow> openaiRequest env q req userPrompt
           | Claude q \<Rightarrow> claudeRequest env q req userPrompt
           | Gemini q \<Rightarrow> geminiRequest env q req userPrompt
           | Heuristic \<Rightarrow> Inl (OtherErr (Errorf []))))"

lemma requestLoop_case:
  "requestLoop env provider timeout build attempts h = (r, h') \<Longrightarrow> sends build (3 - attempts) h h'"
  using requestLoop_sends [of build attempts h env provider timeout] by simp

lemma Complete_sends: "sends (completeRequest env p req) 3 h (snd (Complete env p req h))"
proof (cases "StructuredUserPrompt (me_JSON env) req")
  case (Inr userPrompt)
  then show ?thesis
    by (auto simp: Complete_def completeRequest_def openai_Complete_def claude_Complete_def
        gemini_Complete_def DoRequestWithRetryMetadata_def Let_def dest!: requestLoop_case
        split: modelProvider.split option.splits sum.splits prod.splits if_splits)
qed (simp add: Complete_def openai_Complete_def claude_Complete_def gemini_Complete_def Let_def
    split: modelProvider.split option.split)

end
