(* ===== verification/Redactor.thy ===== *)
theory Redactor
  imports DomainTypes
begin

text \<open>
  \<^verbatim>\<open>internal/evidence/redactor.go\<close>: replacement of credentials in the text that goes to a model provider.

  The two regular expressions of the source are values of a small datatype; \<open>runs\<close> lists the ways in
  which an expression matches at a position, in the order of preference of Go's \<^verbatim>\<open>regexp\<close> (leftmost
  first, greedy repetition, left alternative first), so that the head of the list is the match that
  \<^verbatim>\<open>ReplaceAllString\<close> takes.  Repetition is needed over character classes only.
\<close>

subsection \<open>Regular expressions\<close>

datatype re =
    REps
  | RClass "char \<Rightarrow> bool"
  | RStar "char \<Rightarrow> bool"
  | RSeq re re
  | RAlt re re
  | RGroup re
  | RBoundary

text \<open>The byte in front of the position, the rest of the text, the groups captured so far.\<close>

record mstate =
  ms_prev :: "char option"
  ms_rest :: string
  ms_groups :: "string list"

definition isWordChar :: "char \<Rightarrow> bool" where
  "isWordChar c \<longleftrightarrow> (CHR ''a'' \<le> c \<and> c \<le> CHR ''z'') \<or> (CHR ''A'' \<le> c \<and> c \<le> CHR ''Z'') \<or>
     (CHR ''0'' \<le> c \<and> c \<le> CHR ''9'') \<or> c = CHR ''_''"

definition atBoundary :: "char option \<Rightarrow> string \<Rightarrow> bool" where
  "atBoundary prev rest \<longleftrightarrow>
     (case prev of None \<Rightarrow> False | Some c \<Rightarrow> isWordChar c) \<noteq>
     (case rest of [] \<Rightarrow> False | c # _ \<Rightarrow> isWordChar c)"

fun starRuns :: "(char \<Rightarrow> bool) \<Rightarrow> char option \<Rightarrow> string \<Rightarrow> (char option \<times> string) list" where
  "starRuns p prev [] = [(prev, [])]"
| "starRuns p prev (c # cs) =
     (if p c then starRuns p (Some c) cs @ [(prev, c # cs)] else [(prev, c # cs)])"

primrec runs :: "re \<Rightarrow> mstate \<Rightarrow> mstate list" where
  "runs REps m = [m]"
| "runs (RClass p) m =
     (case ms_rest m of
        [] \<Rightarrow> []
      | c # cs \<Rightarrow> if p c then [m\<lparr>ms_prev := Some c, ms_rest := cs\<rparr>] else [])"
| "runs (RStar p) m =
     map (\<lambda>(prev, rest). m\<lparr>ms_prev := prev, ms_rest := rest\<rparr>) (starRuns p (ms_prev m) (ms_rest m))"
| "runs (RSeq a b) m = concat (map (runs b) (runs a m))"
| "runs (RAlt a b) m = runs a m @ runs b m"
| "runs (RGroup a) m =
     map (\<lambda>m'. m'\<lparr>ms_groups := ms_groups m' @
            [take (length (ms_rest m) - length (ms_rest m')) (ms_rest m)]\<rparr>) (runs a m)"
| "runs RBoundary m = (if atBoundary (ms_prev m) (ms_rest m) then [m] else [])"

definition matchAt :: "re \<Rightarrow> char option \<Rightarrow> string \<Rightarrow> mstate option" where
  "matchAt r prev s =
     (case runs r \<lparr>ms_prev = prev, ms_rest = s, ms_groups = []\<rparr> of
        [] \<Rightarrow> None
      | m # _ \<Rightarrow> if length (ms_rest m) < length s then Some m else None)"

text \<open>\<^verbatim>\<open>ReplaceAllString\<close>, for an expression that does not match the empty text.\<close>

function replaceAll :: "re \<Rightarrow> (string list \<Rightarrow> string) \<Rightarrow> char option \<Rightarrow> string \<Rightarrow> string" where
  "replaceAll r repl prev s =
     (case matchAt r prev s of
        Some m \<Rightarrow> repl (ms_groups m) @ replaceAll r repl (ms_prev m) (ms_rest m)
      | None \<Rightarrow> (case s of [] \<Rightarrow> [] | c # cs \<Rightarrow> c # replaceAll r repl (Some c) cs))"
  by pat_completeness auto
termination
  by (relation "measure (\<lambda>(r, repl, prev, s). length s)")
    (auto simp: matchAt_def split: list.splits if_splits)

declare replaceAll.simps [simp del]

subsection \<open>The rules\<close>

definition isReSpace :: "char \<Rightarrow> bool" where
  "isReSpace c \<longleftrightarrow> c \<in> {CHR '' '', CHR 0x09, CHR 0x0A, CHR 0x0C, CHR 0x0D}"

text \<open>A literal under \<^verbatim>\<open>(?i)\<close>.\<close>

definition foldedLiteral :: "string \<Rightarrow> re" where
  "foldedLiteral s = foldr (\<lambda>c r. RSeq (RClass (\<lambda>d. toLowerChar d = c)) r) s REps"

definition rePlus :: "(char \<Rightarrow> bool) \<Rightarrow> re" where
  "rePlus p = RSeq (RClass p) (RStar p)"

definition reOpt :: "re \<Rightarrow> re" where
  "reOpt r = RAlt r REps"

record redactionRule =
  rr_pattern :: re
  rr_replacement :: "string list \<Rightarrow> string"

definition isBearerChar :: "char \<Rightarrow> bool" where
  "isBearerChar c \<longleftrightarrow> \<not> isReSpace c \<and> c \<noteq> CHR 0x22 \<and> c \<noteq> CHR 0x27"

definition bearerRule :: redactionRule where
  "bearerRule =
     \<lparr>rr_pattern =
        RSeq (RGroup (RSeq (foldedLiteral ''authorization'') (RSeq (RStar isReSpace)
           (RSeq (RClass (\<lambda>c. c = CHR '':'')) (RSeq (RStar isReSpace)
           (RSeq (foldedLiteral ''bearer'') (rePlus isReSpace)))))))
          (rePlus isBearerChar),
      rr_replacement = (\<lambda>gs. gs ! 0 @ ''[REDACTED]'')\<rparr>"

definition isSecretChar :: "char \<Rightarrow> bool" where
  "isSecretChar c \<longleftrightarrow> \<not> isReSpace c \<and> c \<noteq> CHR 0x22 \<and> c \<noteq> CHR '','' \<and> c \<noteq> CHR '';''"

definition credentialName :: re where
  "credentialName =
     RAlt (RSeq (foldedLiteral ''api'')
            (RSeq (reOpt (RClass (\<lambda>c. c \<in> {CHR ''-'', CHR ''_'', CHR '' ''}))) (foldedLiteral ''key'')))
       (RAlt (foldedLiteral ''token'') (RAlt (foldedLiteral ''password'') (foldedLiteral ''secret'')))"

definition credentialSeparator :: re where
  "credentialSeparator =
     RAlt (RSeq (RStar isReSpace) (RSeq (RClass (\<lambda>c. c \<in> {CHR ''='', CHR '':''})) (RStar isReSpace)))
       (rePlus isReSpace)"

definition credentialRule :: redactionRule where
  "credentialRule =
     \<lparr>rr_pattern =
        RSeq RBoundary (RSeq (RGroup credentialName) (RSeq (RGroup credentialSeparator)
          (rePlus isSecretChar))),
      rr_replacement = (\<lambda>gs. gs ! 0 @ gs ! 1 @ ''[REDACTED]'')\<rparr>"

definition NewPatternRedactor :: "redactionRule list" where
  "NewPatternRedactor = [bearerRule, credentialRule]"

definition RedactText :: "redactionRule list \<Rightarrow> string \<Rightarrow> string" where
  "RedactText rules input =
     fold (\<lambda>rule out. replaceAll (rr_pattern rule) (rr_replacement rule) None out) rules input"

subsection \<open>Ingestion output\<close>

text \<open>
  The redactor works in place.  Every ingestion output of the program has the same slice as
  \<^verbatim>\<open>Context.Signals\<close> and as \<^verbatim>\<open>Signals\<close>, so that each message is redacted twice.  Observations are
  not touched.
\<close>

definition redactSignal :: "(string \<Rightarrow> string) \<Rightarrow> Signal \<Rightarrow> Signal" where
  "redactSignal f s = s\<lparr>sgn_Message := f (f (sgn_Message s))\<rparr>"

definition redactReference :: "(string \<Rightarrow> string) \<Rightarrow> Evidence \<Rightarrow> Evidence" where
  "redactReference f e =
     e\<lparr>evd_Summary := f (evd_Summary e), evd_Query := f (evd_Query e), evd_Reason := f (evd_Reason e),
       evd_Link := f (evd_Link e)\<rparr>"

definition RedactIngestion :: "redactionRule list \<Rightarrow> IngestionOutput \<Rightarrow> IngestionOutput" where
  "RedactIngestion rules input =
     (let f = RedactText rules; ctx = ing_Context input; ev = ing_Evidence input;
          tl = ing_Timeline input in
      input\<lparr>ing_Context := ctx\<lparr>ict_Summary := f (ict_Summary ctx),
               ict_Signals := map (redactSignal f) (ict_Signals ctx),
               ict_Metadata := map_option f \<circ> ict_Metadata ctx\<rparr>,
            ing_Signals := map (redactSignal f) (ing_Signals input),
            ing_Timeline := tl\<lparr>rtl_Events :=
               map (\<lambda>e. e\<lparr>tle_Summary := f (tle_Summary e)\<rparr>) (rtl_Events tl)\<rparr>,
            ing_Evidence := ev\<lparr>bun_Logs := map f (bun_Logs ev), bun_Events := map f (bun_Events ev),
               bun_Traces := map f (bun_Traces ev),
               bun_References := map (redactReference f) (bun_References ev)\<rparr>\<rparr>)"

subsection \<open>Matching\<close>

lemma replaceAll_skip [simp]:
  "matchAt r prev (c # cs) = None \<Longrightarrow>
   replaceAll r repl prev (c # cs) = c # replaceAll r repl (Some c) cs"
  by (subst replaceAll.simps) simp

lemma replaceAll_hit:
  "matchAt r prev s = Some m \<Longrightarrow>
   replaceAll r repl prev s = repl (ms_groups m) @ replaceAll r repl (ms_prev m) (ms_rest m)"
  by (subst replaceAll.simps) simp

lemma replaceAll_Nil [simp]: "replaceAll r repl prev [] = []"
  by (subst replaceAll.simps) (simp add: matchAt_def split: list.split)

lemma replaceAll_inert:
  "(\<And>prev c cs. c \<in> set s \<Longrightarrow> matchAt r prev (c # cs) = None) \<Longrightarrow> replaceAll r repl prev s = s"
  by (induction s arbitrary: prev) auto

lemma runs_foldedLiteral_hd:
  "ms_rest m = c # cs \<Longrightarrow> toLowerChar c \<noteq> l \<Longrightarrow> runs (foldedLiteral (l # w)) m = []"
  by (simp add: foldedLiteral_def)

lemma runs_foldedLiteral_Nil: "ms_rest m = [] \<Longrightarrow> runs (foldedLiteral (l # w)) m = []"
  by (simp add: foldedLiteral_def)

lemma runs_foldedLiteral:
  "ToLower name = w \<Longrightarrow> ms_rest m = name @ rest \<Longrightarrow>
   runs (foldedLiteral w) m =
     [m\<lparr>ms_prev := if name = [] then ms_prev m else Some (last name), ms_rest := rest\<rparr>]"
proof (induction name arbitrary: m w)
  case Nil
  then show ?case by (simp add: foldedLiteral_def)
next
  case (Cons c name)
  then show ?case
    using Cons.IH [of "ToLower name" "m\<lparr>ms_prev := Some c, ms_rest := name @ rest\<rparr>"]
    by (auto simp: foldedLiteral_def ToLower_def)
qed

lemma starRuns_hd:
  "list_all p xs \<Longrightarrow> (rest = [] \<or> \<not> p (hd rest)) \<Longrightarrow>
   \<exists>ys. starRuns p prev (xs @ rest) = (if xs = [] then prev else Some (last xs), rest) # ys"
proof (induction xs arbitrary: prev)
  case Nil
  then show ?case by (cases rest) auto
next
  case (Cons c xs)
  then obtain ys where "starRuns p (Some c) (xs @ rest) =
      (if xs = [] then Some c else Some (last xs), rest) # ys" by fastforce
  with Cons show ?case by auto
qed

lemma runs_RSeq_hd:
  "runs a m = x # xs \<Longrightarrow> runs b x = y # ys \<Longrightarrow> \<exists>zs. runs (RSeq a b) m = y # zs"
  by simp

lemma runs_RStar_hd:
  "list_all p xs \<Longrightarrow> ms_rest m = xs @ rest \<Longrightarrow> (rest = [] \<or> \<not> p (hd rest)) \<Longrightarrow>
   \<exists>ys. runs (RStar p) m =
     m\<lparr>ms_prev := if xs = [] then ms_prev m else Some (last xs), ms_rest := rest\<rparr> # ys"
  using starRuns_hd [of p xs rest "ms_prev m"] by auto

lemma runs_rePlus_hd:
  assumes "list_all p xs" and "xs \<noteq> []" and "ms_rest m = xs @ rest" and "rest = [] \<or> \<not> p (hd rest)"
  shows "\<exists>ys. runs (rePlus p) m = m\<lparr>ms_prev := Some (last xs), ms_rest := rest\<rparr> # ys"
proof -
  obtain c cs where xs: "xs = c # cs" using assms(2) by (cases xs) auto
  let ?m = "m\<lparr>ms_prev := Some c, ms_rest := cs @ rest\<rparr>"
  obtain ys where "runs (RStar p) ?m =
      ?m\<lparr>ms_prev := if cs = [] then ms_prev ?m else Some (last cs), ms_rest := rest\<rparr> # ys"
    using runs_RStar_hd [of p cs ?m rest] assms(1,4) xs by auto
  with assms(1,3) xs show ?thesis by (auto simp: rePlus_def)
qed

lemma toLowerChar_other: "toLowerChar d = c \<Longrightarrow> \<not> (97 \<le> byte c \<and> byte c \<le> 122) \<Longrightarrow> d = c"
  by (auto simp: toLowerChar_def byte_lower split: if_splits)

lemma toLowerChar_word:
  assumes "toLowerChar d = c" and "97 \<le> byte c \<and> byte c \<le> 122"
  shows "isWordChar d"
proof -
  have "(65 \<le> byte d \<and> byte d \<le> 90) \<or> d = c" using assms(1) by (auto simp: toLowerChar_def split: if_splits)
  then show ?thesis using assms(2) by (auto simp: isWordChar_def less_eq_char_def byte_def)
qed

lemma credentialName_hd:
  assumes "ToLower name \<in> {''apikey'', ''api-key'', ''api_key'', ''api key'', ''token'', ''password'', ''secret''}"
    and "ms_rest m = name @ rest"
  shows "\<exists>zs. runs credentialName m = m\<lparr>ms_prev := Some (last name), ms_rest := rest\<rparr> # zs"
    and "isWordChar (hd name)"
proof -
  have other: "toLowerChar d = CHR ''-'' \<longleftrightarrow> d = CHR ''-''" "toLowerChar d = CHR ''_'' \<longleftrightarrow> d = CHR ''_''"
    "toLowerChar d = CHR '' '' \<longleftrightarrow> d = CHR '' ''" for d
    by (auto simp: byte_def dest: toLowerChar_other) (simp_all add: toLowerChar_def byte_def)
  have letter: "toLowerChar d \<in> {CHR ''a'', CHR ''t'', CHR ''p'', CHR ''s''} \<Longrightarrow> isWordChar d" for d
    using toLowerChar_word [of d "toLowerChar d"] by (auto simp: byte_def)
  show "\<exists>zs. runs credentialName m = m\<lparr>ms_prev := Some (last name), ms_rest := rest\<rparr> # zs"
    using assms by (auto simp: ToLower_def map_eq_Cons_conv credentialName_def foldedLiteral_def reOpt_def other)
  show "isWordChar (hd name)" using assms(1) by (auto simp: ToLower_def map_eq_Cons_conv letter)
qed

lemma credentialSeparator_hd:
  assumes "list_all isReSpace before" and "list_all isReSpace after" and "c \<in> {CHR ''='', CHR '':''}"
    and "ms_rest m = before @ c # after @ rest" and "rest = [] \<or> \<not> isReSpace (hd rest)"
  shows "\<exists>zs. runs credentialSeparator m =
     m\<lparr>ms_prev := Some (last (c # after)), ms_rest := rest\<rparr> # zs"
proof -
  let ?a = "m\<lparr>ms_prev := if before = [] then ms_prev m else Some (last before), ms_rest := c # after @ rest\<rparr>"
  let ?b = "?a\<lparr>ms_prev := Some c, ms_rest := after @ rest\<rparr>"
  obtain x where x: "runs (RStar isReSpace) m = ?a # x"
    using runs_RStar_hd [of isReSpace before m "c # after @ rest"] assms(1,3,4)
    by (auto simp: isReSpace_def)
  obtain y where y: "runs (RStar isReSpace) ?b =
      ?b\<lparr>ms_prev := if after = [] then ms_prev ?b else Some (last after), ms_rest := rest\<rparr> # y"
    using runs_RStar_hd [of isReSpace after ?b rest] assms(2,5) by auto
  have "runs (RClass (\<lambda>c. c \<in> {CHR ''='', CHR '':''})) ?a = [?b]" using assms(3) by auto
  with y have "\<exists>zs. runs (RSeq (RClass (\<lambda>c. c \<in> {CHR ''='', CHR '':''})) (RStar isReSpace)) ?a =
      m\<lparr>ms_prev := Some (last (c # after)), ms_rest := rest\<rparr> # zs"
    by (simp add: last_ConsR)
  with x show ?thesis by (auto simp: credentialSeparator_def)
qed

text \<open> wherever the scan reaches the name of a credential, in any case and not behind a letter, digit or
  underscore, followed by an equals sign or a colon with optional blanks, the value up to the next
  blank, quote, comma or semicolon is replaced, and the scan goes on behind it.
\<close>

theorem credential_redacted:
  assumes "ToLower name \<in> {''apikey'', ''api-key'', ''api_key'', ''api key'', ''token'', ''password'', ''secret''}"
    and "case prev of None \<Rightarrow> True | Some p \<Rightarrow> \<not> isWordChar p"
    and "list_all isReSpace before" and "list_all isReSpace after" and "c \<in> {CHR ''='', CHR '':''}"
    and "list_all isSecretChar secret" and "secret \<noteq> []" and "rest = [] \<or> \<not> isSecretChar (hd rest)"
  shows "replaceAll (rr_pattern credentialRule) (rr_replacement credentialRule) prev
      (name @ before @ [c] @ after @ secret @ rest) =
    name @ before @ [c] @ after @ ''[REDACTED]'' @
      replaceAll (rr_pattern credentialRule) (rr_replacement credentialRule) (Some (last secret)) rest"
proof -
  let ?sep = "before @ [c] @ after"
  let ?m = "\<lparr>ms_prev = prev, ms_rest = name @ ?sep @ secret @ rest, ms_groups = []\<rparr>"
  obtain d ds where name: "name = d # ds" using assms(1) by (cases name) auto
  let ?n = "?m\<lparr>ms_prev := Some (last name), ms_rest := ?sep @ secret @ rest\<rparr>"
  let ?n' = "?n\<lparr>ms_groups := [name]\<rparr>"
  let ?v = "?n'\<lparr>ms_prev := Some (last (c # after)), ms_rest := secret @ rest\<rparr>"
  let ?v' = "?v\<lparr>ms_groups := [name, ?sep]\<rparr>"
  have "isWordChar d" using credentialName_hd(2) [OF assms(1), of ?m] name by simp
  then have boundary: "runs RBoundary ?m = [?m]"
    using assms(2) name by (simp add: atBoundary_def split: option.splits)
  obtain x where "runs credentialName ?m = ?n # x" using credentialName_hd(1) [OF assms(1), of ?m] by auto
  then obtain x' where n: "runs (RGroup credentialName) ?m = ?n' # x'" by simp
  have "\<not> isReSpace (hd secret)" using assms(6,7) by (cases secret) (auto simp: isSecretChar_def)
  then obtain y where "runs credentialSeparator ?n' = ?v # y"
    using credentialSeparator_hd [OF assms(3-5), of ?n' "secret @ rest"] assms(7) by auto
  then obtain y' where sep: "runs (RGroup credentialSeparator) ?n' = ?v' # y'" by simp
  obtain z where "runs (rePlus isSecretChar) ?v' = ?v'\<lparr>ms_prev := Some (last secret), ms_rest := rest\<rparr> # z"
    using runs_rePlus_hd [OF assms(6,7), of ?v' rest] assms(8) by auto
  then have "matchAt (rr_pattern credentialRule) prev (name @ ?sep @ secret @ rest) =
      Some (?v'\<lparr>ms_prev := Some (last secret), ms_rest := rest\<rparr>)"
    using boundary n sep by (simp add: matchAt_def credentialRule_def)
  then show ?thesis by (subst replaceAll_hit) (auto simp: credentialRule_def)
qed

theorem credential_redacted_witness:
  "replaceAll (rr_pattern credentialRule) (rr_replacement credentialRule) None
      (''Password'' @ '' '' @ ''='' @ '' '' @ ''hunter2'' @ '', ok'') = ''Password = [REDACTED], ok''"
  by (subst credential_redacted) code_simp+

text \<open>
  Neither rule can begin at a byte that starts no keyword, and no rule can begin with a name that is
  followed by nothing it accepts.
\<close>

lemma bearer_start: "toLowerChar c \<noteq> CHR ''a'' \<Longrightarrow> matchAt (rr_pattern bearerRule) prev (c # cs) = None"
  by (simp add: matchAt_def bearerRule_def foldedLiteral_def)

lemma credential_start:
  "toLowerChar c \<notin> {CHR ''a'', CHR ''t'', CHR ''p'', CHR ''s''} \<Longrightarrow>
   matchAt (rr_pattern credentialRule) prev (c # cs) = None"
  by (simp add: matchAt_def credentialRule_def credentialName_def foldedLiteral_def)

text \<open> a value in double quotes is not redacted, as in JSON or in quoted log fields, and neither is a
  value whose name continues a longer identifier such as \<^verbatim>\<open>db_password\<close>.
\<close>

theorem quoted_credential_kept:
  assumes "list_all (\<lambda>c. toLowerChar c \<notin> {CHR ''a'', CHR ''t'', CHR ''p'', CHR ''s''}) secret"
  shows "RedactText NewPatternRedactor (''password='' @ [CHR 0x22] @ secret @ [CHR 0x22]) =
      ''password='' @ [CHR 0x22] @ secret @ [CHR 0x22] \<and>
    RedactText NewPatternRedactor (''db_password='' @ secret) = ''db_password='' @ secret"
proof -
  have inert: "replaceAll (rr_pattern bearerRule) f prev (secret @ q) = secret @ q"
    "replaceAll (rr_pattern credentialRule) f prev (secret @ q) = secret @ q"
    if "list_all (\<lambda>c. toLowerChar c \<notin> {CHR ''a'', CHR ''t'', CHR ''p'', CHR ''s''}) q" for f prev q
    using assms that
    by (auto intro!: replaceAll_inert bearer_start credential_start simp: list_all_iff)
  have low: "toLowerChar (CHR ''p'') = CHR ''p''" "toLowerChar (CHR ''a'') = CHR ''a''"
    "toLowerChar (CHR ''s'') = CHR ''s''" "toLowerChar (CHR ''w'') = CHR ''w''"
    "toLowerChar (CHR ''o'') = CHR ''o''" "toLowerChar (CHR ''r'') = CHR ''r''"
    "toLowerChar (CHR ''d'') = CHR ''d''" "toLowerChar (CHR ''='') = CHR ''=''"
    "toLowerChar (CHR ''b'') = CHR ''b''" "toLowerChar (CHR ''_'') = CHR ''_''"
    "toLowerChar (CHR 0x22) = CHR 0x22"
    by code_simp+
  have word: "isWordChar (CHR ''p'')" "isWordChar (CHR ''a'')" "isWordChar (CHR ''s'')"
    "isWordChar (CHR ''w'')" "isWordChar (CHR ''o'')" "isWordChar (CHR ''r'')" "isWordChar (CHR ''d'')"
    "isWordChar (CHR ''_'')" "\<not> isWordChar (CHR ''='')" "\<not> isWordChar (CHR 0x22)"
    by code_simp+
  note ev = matchAt_def bearerRule_def credentialRule_def credentialName_def credentialSeparator_def
    foldedLiteral_def reOpt_def rePlus_def atBoundary_def isReSpace_def isSecretChar_def low word
  have "RedactText NewPatternRedactor (''password='' @ [CHR 0x22] @ secret @ [CHR 0x22]) =
      ''password='' @ [CHR 0x22] @ secret @ [CHR 0x22]"
    using inert [of "[CHR 0x22]"] by (simp add: RedactText_def NewPatternRedactor_def ev)
  moreover have "RedactText NewPatternRedactor (''db_password='' @ secret) = ''db_password='' @ secret"
    using inert [of "[]"] by (simp add: RedactText_def NewPatternRedactor_def ev)
  ultimately show ?thesis ..
qed

theorem quoted_credential_kept_witness:
  "RedactText NewPatternRedactor ''db_password=hunner2'' = ''db_password=hunner2''"
proof -
  have "list_all (\<lambda>c. toLowerChar c \<notin> {CHR ''a'', CHR ''t'', CHR ''p'', CHR ''s''}) ''hunner2''"
    by code_simp
  from conjunct2 [OF quoted_credential_kept [OF this]] show ?thesis by simp
qed

end
