(* ===== verification/ModelGateway.thy ===== *)
theory ModelGateway
  imports Model Redactor
begin

text \<open>
  The model gateway (\<^verbatim>\<open>internal/modelgateway\<close>): resolution of a \<^verbatim>\<open>ModelProvider\<close>, its API key, the call of
  the provider through the reasoning engine (\<^verbatim>\<open>internal/reasoning/engine.go\<close>,
  \<^verbatim>\<open>internal/knowledge/base.go\<close>), and the chain of fallback providers.

  The chain follows references in the cluster and may be endless if new providers keep appearing, so
  it is a \<open>partial_function\<close>: \<open>None\<close> means that it does not return.
\<close>

subsection \<open>Errors\<close>

record AnalyzeError =
  az_Reason :: string
  az_Message :: string

record ResolveError =
  rv_Reason :: string
  rv_Message :: string

datatype gw_error = AnalyzeErr AnalyzeError | ResolveErr ResolveError | PlainErr go_error

definition analyzeErr :: "string \<Rightarrow> string \<Rightarrow> gw_error" where
  "analyzeErr reason msg = AnalyzeErr \<lparr>az_Reason = reason, az_Message = msg\<rparr>"

subsection \<open>Resolution of providers and keys\<close>

definition mpName :: "ModelProvider \<Rightarrow> string" where "mpName p = om_Name (mp_Meta p)"
definition mpNamespace :: "ModelProvider \<Rightarrow> string" where "mpNamespace p = om_Namespace (mp_Meta p)"

text \<open>\<open>kr_Client\<close> tells whether the reader is configured.\<close>

record KubeResolver =
  kr_Client :: bool
  kr_SystemNamespace :: string

definition emptyDataPolicy :: ModelProviderDataPolicy where
  "emptyDataPolicy = \<lparr>dp_AllowExternalTransmission = False, dp_AllowedEvidenceKinds = [],
     dp_DeniedSensitivityTags = [], dp_AllowLogSamples = False, dp_RequireRedaction = False,
     dp_MaximumClassification = []\<rparr>"

definition DefaultHeuristicProvider :: "string \<Rightarrow> ModelProvider" where
  "DefaultHeuristicProvider namespace =
     \<lparr>mp_Meta = emptyMeta\<lparr>om_Name := ''default-heuristic'', om_Namespace := namespace\<rparr>,
      mp_Spec = \<lparr>mps_Provider = ''heuristic'', mps_Model = ''built-in'', mps_Endpoint = [],
        mps_APIKeySecretRef = None, mps_Timeout = 0, mps_MaxTokens = 512,
        mps_DataPolicy = emptyDataPolicy, mps_FallbackProviderRef = []\<rparr>\<rparr>"

text \<open>The verb \<^verbatim>\<open>%v\<close> on a list of strings.\<close>

definition listText :: "string list \<Rightarrow> string" where
  "listText xs = ''['' @ Join xs '' '' @ '']''"

fun resolveIn ::
  "model_env \<Rightarrow> string \<Rightarrow> gw_error \<Rightarrow> string list \<Rightarrow> mhistory \<Rightarrow> (gw_error + ModelProvider) \<times> mhistory" where
  "resolveIn env name notFound [] h = (Inl notFound, h)"
| "resolveIn env name notFound (ns # nss) h =
     (case me_GetProvider env (ns, name) h of
        Inr provider \<Rightarrow> (Inr provider, MGetProvider (ns, name) # h)
      | Inl e \<Rightarrow>
          if IsNotFound e then resolveIn env name notFound nss (MGetProvider (ns, name) # h)
          else (Inl (PlainErr e), MGetProvider (ns, name) # h))"

definition KubeResolver_Resolve ::
  "model_env \<Rightarrow> KubeResolver \<Rightarrow> string \<Rightarrow> string option \<Rightarrow> mhistory \<Rightarrow> (gw_error + ModelProvider) \<times> mhistory" where
  "KubeResolver_Resolve env r namespace ref h =
     (case ref of
        None \<Rightarrow> (Inr (DefaultHeuristicProvider namespace), h)
      | Some name \<Rightarrow>
          if name = [] then (Inr (DefaultHeuristicProvider namespace), h)
          else if \<not> kr_Client r then
            (Inl (ResolveErr \<lparr>rv_Reason = ''ResolverUnavailable'',
               rv_Message = ''model provider resolver is not configured''\<rparr>), h)
          else
            let systemNamespace = (if kr_SystemNamespace r = [] then ''fluxseer-rca-system''
                  else kr_SystemNamespace r);
                namespaces = namespace # (if namespace \<noteq> systemNamespace then [systemNamespace] else []) in
            resolveIn env name (ResolveErr \<lparr>rv_Reason = ''ProviderNotFound'',
                rv_Message = ''ModelProvider '' @ quote name @ '' was not found in namespaces ''
                  @ listText namespaces\<rparr>) namespaces h)"

definition ResolveAPIKey ::
  "model_env \<Rightarrow> bool \<Rightarrow> ModelProvider \<Rightarrow> mhistory \<Rightarrow> (gw_error + string) \<times> mhistory" where
  "ResolveAPIKey env client provider h =
     (case mps_APIKeySecretRef (mp_Spec provider) of
        None \<Rightarrow> (Inl (analyzeErr ''SecretRefMissing''
            (''ModelProvider '' @ quote (mpName provider) @ '' requires apiKeySecretRef'')), h)
      | Some (name, dataKey) \<Rightarrow>
          if \<not> client then
            (Inl (analyzeErr ''SecretReaderUnavailable''
               ''model provider secret resolver is not configured''), h)
          else
            let key = (mpNamespace provider, name);
                path = mpNamespace provider @ ''/'' @ name;
                h' = MGetSecret key # h in
            (case me_GetSecret env key h of
               Inl e \<Rightarrow>
                 (Inl (if IsNotFound e then analyzeErr ''SecretNotFound''
                    (''secret '' @ path @ '' was not found for ModelProvider '' @ quote (mpName provider))
                  else analyzeErr ''SecretReadFailed''
                    (''read secret '' @ path @ '' for ModelProvider '' @ quote (mpName provider) @ '': ''
                       @ errText e)), h')
             | Inr secretData \<Rightarrow>
                 (case secretData dataKey of
                    None \<Rightarrow> (Inl (analyzeErr ''SecretKeyMissing''
                      (''secret '' @ path @ '' missing key '' @ quote dataKey @ '' for ModelProvider ''
                         @ quote (mpName provider))), h')
                  | Some v \<Rightarrow>
                      if TrimSpace v = [] then
                        (Inl (analyzeErr ''SecretValueEmpty''
                          (''secret '' @ path @ '' key '' @ quote dataKey @ '' is empty for ModelProvider ''
                             @ quote (mpName provider))), h')
                      else (Inr v, h'))))"

subsection \<open>The reasoning engine\<close>

record knowledgeBase =
  kb_Runbooks :: "string \<Rightarrow> string list"
  kb_Docs :: "string \<Rightarrow> string list"

definition NewBase :: knowledgeBase where
  "NewBase =
     \<lparr>kb_Runbooks = (\<lambda>s. if s = ''payments-api'' then
          [''runbook://payments-api/oom-restart-guide'', ''runbook://payments-api/scale-and-throttle'']
        else []),
      kb_Docs = (\<lambda>s. if s = ''payments-api'' then
          [''doc://payments-api/topology'', ''doc://payments-api/release-playbook''] else [])\<rparr>"

definition Lookup :: "knowledgeBase \<Rightarrow> ResourceRef \<Rightarrow> string \<Rightarrow> string list \<times> string list" where
  "Lookup b resource summary =
     (let key = ToLower (r_Service resource);
          runbooks = kb_Runbooks b key in
      (if Contains (ToLower summary) ''oom'' \<and> runbooks = [] then [''runbook://generic/oomkilled'']
       else runbooks, kb_Docs b key))"

definition asString :: "anyValue option \<Rightarrow> string \<Rightarrow> string" where
  "asString v fallback = (case v of Some (AnyString text) \<Rightarrow> if text = [] then fallback else text
     | _ \<Rightarrow> fallback)"

text \<open>Conversion of a float truncates; values outside the range do not pass the validation.\<close>

definition asInt :: "anyValue option \<Rightarrow> int \<Rightarrow> int" where
  "asInt v fallback =
     (case v of
        Some (AnyInt n) \<Rightarrow> n
      | Some (AnyFloat (Finite q)) \<Rightarrow> if 0 \<le> q then \<lfloor>q\<rfloor> else \<lceil>q\<rceil>
      | _ \<Rightarrow> fallback)"

definition anyTexts :: "anyValue list \<Rightarrow> string list" where
  "anyTexts xs = List.map_filter (\<lambda>x. case x of AnyString text \<Rightarrow> if text = [] then None else Some text
     | _ \<Rightarrow> None) xs"

definition asStringSlice :: "anyValue option \<Rightarrow> string list" where
  "asStringSlice v = (case v of Some (AnyStrings xs) \<Rightarrow> xs | Some (AnyList xs) \<Rightarrow> anyTexts xs | _ \<Rightarrow> [])"

definition remediationDescription :: "string \<Rightarrow> string" where
  "remediationDescription actionType =
     (if actionType = ''kubernetes.rolloutPause'' then
        ''Pause the rollout to stop additional unhealthy replicas.''
      else if actionType = ''notification.sendSlack'' then
        ''Send incident notification to the response channel.''
      else ''Scale the deployment to stabilize traffic while investigating the new release.'')"

definition remediationParameters :: "string \<Rightarrow> strmap" where
  "remediationParameters actionType =
     (if actionType = ''kubernetes.rolloutPause'' then [''reason'' \<mapsto> ''automatic-guardrail-pause'']
      else if actionType = ''notification.sendSlack'' then [''channel'' \<mapsto> ''slack-webhook'']
      else [''replicas'' \<mapsto> ''6''])"

text \<open>What the engine asks a provider.\<close>

definition engineRequest :: "knowledgeBase \<Rightarrow> string \<Rightarrow> IngestionOutput \<Rightarrow> ModelRequest" where
  "engineRequest b providerHint input =
     (let ctx = ing_Context input;
          (runbooks, docs) = Lookup b (ict_Resource ctx) (ict_Summary ctx) in
      \<lparr>mrq_ProviderHint = providerHint,
       mrq_SystemPrompt = ''Transform observability signals into guarded SRE reasoning output.'',
       mrq_Messages = [\<lparr>mms_Role = ''user'', mms_Content = ict_Summary ctx\<rparr>],
       mrq_Context = \<lparr>mcx_service = ict_Service ctx, mcx_resource = ict_Resource ctx,
         mcx_summary = ict_Summary ctx, mcx_metadata = ict_Metadata ctx, mcx_signals = ing_Signals input,
         mcx_evidence = ing_Evidence input, mcx_timeline = rtl_Events (ing_Timeline input),
         mcx_runbooks = runbooks, mcx_docs = docs\<rparr>\<rparr>)"

definition reasoningOutput ::
  "knowledgeBase \<Rightarrow> IngestionOutput \<Rightarrow> ModelResponse \<Rightarrow> ReasoningOutput" where
  "reasoningOutput b input response =
     (let (runbooks, docs) = Lookup b (ict_Resource (ing_Context input)) (ict_Summary (ing_Context input));
          out = map_of (mrs_Output response);
          severity = asString (out ''severity'') ''low'';
          actionType = asString (out ''actionType'') ''kubernetes.scaleDeployment'';
          causes = asStringSlice (out ''rcaCauses'') in
      \<lparr>rso_RiskTitle = asString (out ''riskTitle'') ''Workload degradation'',
       rso_RiskSummary = asString (out ''riskSummary'') ''Service degradation detected from correlated signals.'',
       rso_Severity = severity,
       rso_Confidence = \<lparr>cnf_Score = asInt (out ''confidenceScore'') 35, cnf_Severity = severity,
         cnf_Rationale = asString (out ''rationale'') ''default heuristic'',
         cnf_EvidenceCoverage = ''metrics+events+deployment-context''\<rparr>,
       rso_RCA = \<lparr>rcs_Hypothesis = asString (out ''rcaHypothesis'')
           ''Deployment change increased memory pressure and restart frequency.'',
         rcs_Causes = (if causes = [] then [''Recent rollout changed workload behavior'',
             ''Pod memory usage crossed safe threshold''] else causes),
         rcs_Evidence = bun_Events (ing_Evidence input)\<rparr>,
       rso_Remediation = \<lparr>rem_ActionType = actionType,
         rem_Description = remediationDescription actionType,
         rem_Parameters = remediationParameters actionType,
         rem_RollbackPlan = [''Scale deployment back to 4 replicas'',
           ''Revert deployment image if restart rate remains elevated'']\<rparr>,
       rso_RunbookRefs = runbooks, rso_ServiceDocs = docs, rso_Provider = mrs_Provider response,
       rso_ProviderRequestID = mrs_ProviderRequestID response,
       rso_InputTokens = mrs_InputTokens response, rso_OutputTokens = mrs_OutputTokens response\<rparr>)"

definition Engine_Analyze ::
  "model_env \<Rightarrow> knowledgeBase \<Rightarrow> modelProvider \<Rightarrow> IngestionOutput \<Rightarrow> mhistory \<Rightarrow>
   (model_error + ReasoningOutput) \<times> mhistory" where
  "Engine_Analyze env b provider input h =
     (case Complete env provider (engineRequest b (providerName provider) input) h of
        (Inl e, h) \<Rightarrow> (Inl e, h)
      | (Inr response, h) \<Rightarrow>
          (case ValidateModelResponse (me_JSON env) response of
             Some e \<Rightarrow> (Inl (ProviderErr e), h)
           | None \<Rightarrow> (Inr (reasoningOutput b input response), h)))"

subsection \<open>The gateway\<close>

text \<open>
  Interface values that may be nil are options; \<open>gw_Secrets\<close> is a \<^verbatim>\<open>KubeSecretResolver\<close> that has a
  reader or not.
\<close>

record Gateway =
  gw_Base :: "knowledgeBase option"
  gw_Providers :: "(string \<rightharpoonup> modelProvider) option"
  gw_Redactor :: "redactionRule list option"
  gw_Secrets :: "bool option"
  gw_Resolver :: "KubeResolver option"

record Attempt =
  att_Provider :: ModelProvider
  att_Result :: string
  att_Reason :: string

type_synonym Trace = "Attempt list"

abbreviation maxTraceAttempts :: nat where "maxTraceAttempts \<equiv> 8"

definition requiresAPIKey :: "string \<Rightarrow> bool" where
  "requiresAPIKey providerType \<longleftrightarrow>
     ToLower (TrimSpace providerType) \<in> {''openai'', ''gemini'', ''claude''}"

definition providerKey :: "ModelProvider \<Rightarrow> string" where
  "providerKey p = mpNamespace p @ ''/'' @ mpName p"

definition refOrNil :: "string \<Rightarrow> string option" where
  "refOrNil name = (if TrimSpace name = [] then None else Some name)"

definition recordTraceAttempt :: "ModelProvider \<Rightarrow> gw_error option \<Rightarrow> Trace \<Rightarrow> Trace" where
  "recordTraceAttempt provider err trace =
     (if length trace \<ge> maxTraceAttempts then trace
      else trace @ [case err of
          None \<Rightarrow> \<lparr>att_Provider = provider, att_Result = ''Succeeded'', att_Reason = ''Completed''\<rparr>
        | Some (AnalyzeErr e) \<Rightarrow>
            \<lparr>att_Provider = provider, att_Result = az_Reason e, att_Reason = az_Reason e\<rparr>
        | Some _ \<Rightarrow>
            \<lparr>att_Provider = provider, att_Result = ''Failed'', att_Reason = ''ProviderRequestFailed''\<rparr>])"

definition fallbackReasons :: "string list" where
  "fallbackReasons = [''ProviderUnavailable'', ''ProviderUnsupported'', ''ProviderDataPolicyDenied'',
     ''ProviderAuthFailed'', ''ProviderRateLimited'', ''ProviderRequestInvalid'', ''InvalidProviderResponse'',
     ''APIKeyMissing'', ''SecretRefMissing'', ''SecretReaderUnavailable'', ''SecretReadFailed'',
     ''SecretNotFound'', ''SecretKeyMissing'', ''SecretValueEmpty'']"

definition shouldAttemptProviderFallback :: "ModelProvider \<Rightarrow> string \<Rightarrow> bool" where
  "shouldAttemptProviderFallback provider reason \<longleftrightarrow>
     TrimSpace (mps_FallbackProviderRef (mp_Spec provider)) \<noteq> [] \<and> reason \<in> set fallbackReasons"

definition configureProvider ::
  "model_env \<Rightarrow> Gateway \<Rightarrow> modelProvider \<Rightarrow> ModelProvider \<Rightarrow> mhistory \<Rightarrow>
   (gw_error + modelProvider) \<times> mhistory" where
  "configureProvider env g provider obj h =
     (let spec = mp_Spec obj;
          config = (\<lambda>apiKey. \<lparr>cfg_Model = mps_Model spec, cfg_Endpoint = mps_Endpoint spec,
            cfg_Timeout = mps_Timeout spec, cfg_APIKey = apiKey, cfg_MaxTokens = mps_MaxTokens spec\<rparr>);
          configured = (\<lambda>apiKey. case provider of
              OpenAI p \<Rightarrow> OpenAI (WithConfig (config apiKey) p)
            | Claude p \<Rightarrow> Claude (WithConfig (config apiKey) p)
            | Gemini p \<Rightarrow> Gemini (WithConfig (config apiKey) p)
            | Heuristic \<Rightarrow> Heuristic) in
      if provider = Heuristic then (Inr Heuristic, h)
      else if requiresAPIKey (mps_Provider spec) then
        (case gw_Secrets g of
           None \<Rightarrow> (Inl (analyzeErr ''SecretReaderUnavailable'' (''model provider '' @ quote (mpName obj)
               @ '' requires apiKeySecretRef but no secret resolver is configured'')), h)
         | Some client \<Rightarrow>
             (case ResolveAPIKey env client obj h of
                (Inl e, h) \<Rightarrow> (Inl e, h)
              | (Inr apiKey, h) \<Rightarrow> (Inr (configured apiKey), h)))
      else (Inr (configured []), h))"

definition gatewayBase :: "Gateway \<Rightarrow> knowledgeBase" where
  "gatewayBase g = (case gw_Base g of None \<Rightarrow> NewBase | Some b \<Rightarrow> b)"

definition gatewayRules :: "Gateway \<Rightarrow> redactionRule list" where
  "gatewayRules g = (case gw_Redactor g of None \<Rightarrow> NewPatternRedactor | Some rules \<Rightarrow> rules)"

definition analyzeSingleProvider ::
  "model_env \<Rightarrow> Gateway \<Rightarrow> (string \<rightharpoonup> modelProvider) \<Rightarrow> ModelProvider \<Rightarrow> IngestionOutput \<Rightarrow> mhistory \<Rightarrow>
   (gw_error + ReasoningOutput) \<times> mhistory" where
  "analyzeSingleProvider env g registry provider input h =
     (let spec = mp_Spec provider; providerType = ToLower (TrimSpace (mps_Provider spec)) in
      if requiresAPIKey providerType \<and> \<not> dp_AllowExternalTransmission (mps_DataPolicy spec) then
        (Inl (analyzeErr ''ProviderDataPolicyDenied'' (''ModelProvider '' @ quote (mpName provider)
           @ '' requires spec.dataPolicy.allowExternalTransmission=true before evidence can be sent to hosted provider ''
           @ quote (mps_Provider spec))), h)
      else case registry providerType of
        None \<Rightarrow> (Inl (analyzeErr ''ProviderUnsupported'' (''model provider type ''
            @ quote (mps_Provider spec) @ '' is not supported by the gateway'')), h)
      | Some modelProvider \<Rightarrow>
          (case configureProvider env g modelProvider provider h of
             (Inl e, h) \<Rightarrow> (Inl e, h)
           | (Inr configured, h) \<Rightarrow>
               (case Engine_Analyze env (gatewayBase g) configured
                   (RedactIngestion (gatewayRules g) input) h of
                  (Inr result, h) \<Rightarrow> (Inr result, h)
                | (Inl (ProviderErr e), h) \<Rightarrow> (Inl (analyzeErr (prv_Reason e) (prv_Message e)), h)
                | (Inl (OtherErr e), h) \<Rightarrow>
                    (Inl (analyzeErr ''ProviderRequestFailed'' (''model provider ''
                       @ quote (mpName provider) @ '' request failed'')), h))))"

definition fallbackFailed :: "ModelProvider \<Rightarrow> AnalyzeError \<Rightarrow> string \<Rightarrow> string" where
  "fallbackFailed provider primaryErr what =
     ''ModelProvider '' @ quote (mpName provider) @ '' failed with '' @ az_Reason primaryErr
       @ '' and fallback provider '' @ quote (mps_FallbackProviderRef (mp_Spec provider)) @ what"

definition resolveFallbackProvider ::
  "model_env \<Rightarrow> Gateway \<Rightarrow> ModelProvider \<Rightarrow> AnalyzeError \<Rightarrow> string list \<Rightarrow> mhistory \<Rightarrow>
   (gw_error + ModelProvider) \<times> mhistory" where
  "resolveFallbackProvider env g provider primaryErr visited h =
     (case gw_Resolver g of
        None \<Rightarrow> (Inl (analyzeErr ''ResolverUnavailable'' (fallbackFailed provider primaryErr
            '' cannot be resolved because the gateway resolver is not configured'')), h)
      | Some r \<Rightarrow>
          (case KubeResolver_Resolve env r (mpNamespace provider)
               (refOrNil (mps_FallbackProviderRef (mp_Spec provider))) h of
             (Inl (ResolveErr e), h) \<Rightarrow>
               (Inl (analyzeErr (rv_Reason e) (fallbackFailed provider primaryErr
                  ('' could not be resolved: '' @ rv_Message e))), h)
           | (Inl e, h) \<Rightarrow> (Inl e, h)
           | (Inr fallback, h) \<Rightarrow>
               if providerKey fallback \<in> set visited then
                 (Inl (analyzeErr ''ProviderFallbackLoop'' (''ModelProvider '' @ quote (mpName provider)
                    @ '' fallback chain loops through '' @ quote (mpName fallback))), h)
               else (Inr fallback, h)))"

type_synonym provider_input = "ModelProvider \<Rightarrow> gw_error + IngestionOutput"

text \<open>The input for one provider and its analysis; both errors are treated alike.\<close>

definition tryProvider ::
  "model_env \<Rightarrow> Gateway \<Rightarrow> (string \<rightharpoonup> modelProvider) \<Rightarrow> provider_input \<Rightarrow> ModelProvider \<Rightarrow> mhistory \<Rightarrow>
   (gw_error + ReasoningOutput) \<times> mhistory" where
  "tryProvider env g registry inputForProvider provider h =
     (case inputForProvider provider of
        Inl e \<Rightarrow> (Inl e, h)
      | Inr input \<Rightarrow> analyzeSingleProvider env g registry provider input h)"

text \<open>What follows the attempt with one provider: the end, or the next provider of the chain.\<close>

datatype chain_step =
    Finished "gw_error + ReasoningOutput"
  | Fallback ModelProvider

definition chainStep ::
  "model_env \<Rightarrow> Gateway \<Rightarrow> (string \<rightharpoonup> modelProvider) \<Rightarrow> provider_input \<Rightarrow> string list \<Rightarrow> ModelProvider \<Rightarrow>
   Trace \<Rightarrow> mhistory \<Rightarrow> chain_step \<times> Trace \<times> mhistory" where
  "chainStep env g registry inputForProvider visited provider trace h =
     (case tryProvider env g registry inputForProvider provider h of
        (Inr result, h) \<Rightarrow> (Finished (Inr result), recordTraceAttempt provider None trace, h)
      | (Inl e, h) \<Rightarrow>
          (let trace = recordTraceAttempt provider (Some e) trace in
           case e of
             AnalyzeErr ae \<Rightarrow>
               if \<not> shouldAttemptProviderFallback provider (az_Reason ae) then (Finished (Inl e), trace, h)
               else (case resolveFallbackProvider env g provider ae visited h of
                       (Inl e', h) \<Rightarrow> (Finished (Inl e'), trace, h)
                     | (Inr fallback, h) \<Rightarrow> (Fallback fallback, trace, h))
           | _ \<Rightarrow> (Finished (Inl e), trace, h)))"

partial_function (option) analyzeChain ::
  "model_env \<Rightarrow> Gateway \<Rightarrow> (string \<rightharpoonup> modelProvider) \<Rightarrow> provider_input \<Rightarrow> string list \<Rightarrow> ModelProvider \<Rightarrow>
   Trace \<Rightarrow> mhistory \<Rightarrow> ((gw_error + ReasoningOutput) \<times> Trace \<times> mhistory) option" where
  "analyzeChain env g registry inputForProvider visited provider trace h =
     (case chainStep env g registry inputForProvider (providerKey provider # visited) provider trace h of
        (Finished r, trace, h) \<Rightarrow> Some (r, trace, h)
      | (Fallback fallback, trace, h) \<Rightarrow>
          analyzeChain env g registry inputForProvider (providerKey provider # visited) fallback trace h)"

declare analyzeChain.simps [code]

definition analyzeIngestionWithFallback ::
  "model_env \<Rightarrow> Gateway \<Rightarrow> provider_input \<Rightarrow> ModelProvider option \<Rightarrow> mhistory \<Rightarrow>
   ((gw_error + ReasoningOutput) \<times> Trace \<times> mhistory) option" where
  "analyzeIngestionWithFallback env g inputForProvider provider h =
     (case provider of
        None \<Rightarrow> Some (Inl (analyzeErr ''ProviderUnavailable'' ''model provider is nil''), [], h)
      | Some p \<Rightarrow>
          (case gw_Providers g of
             None \<Rightarrow> Some (Inl (analyzeErr ''GatewayUnavailable''
               ''model gateway provider registry is not configured''), [], h)
           | Some registry \<Rightarrow> analyzeChain env g registry inputForProvider [] p [] h))"

subsection \<open>What a call adds to the history\<close>

definition adds :: "(mevent \<Rightarrow> bool) \<Rightarrow> mhistory \<Rightarrow> mhistory \<Rightarrow> bool" where
  "adds P h h' \<longleftrightarrow> (\<exists>es. h' = es @ h \<and> list_all P es)"

lemma adds_refl [simp]: "adds P h h"
  by (simp add: adds_def)

lemma adds_Cons [simp]: "P e \<Longrightarrow> adds P h (e # h)"
  by (auto simp: adds_def intro: exI [of _ "[e]"])

lemma adds_ConsI:
  assumes "adds P (e # h) h'" and "P e"
  shows "adds P h h'"
proof -
  obtain es where "h' = es @ e # h" "list_all P es" using assms(1) by (auto simp: adds_def)
  then show ?thesis using assms(2) by (auto simp: adds_def intro: exI [of _ "es @ [e]"])
qed

lemma adds_trans: "adds P h h' \<Longrightarrow> adds P h' h'' \<Longrightarrow> adds P h h''"
  by (auto simp: adds_def)

lemma adds_mono: "adds P h h' \<Longrightarrow> (\<And>e. P e \<Longrightarrow> Q e) \<Longrightarrow> adds Q h h'"
  by (auto simp: adds_def list_all_iff)

text \<open>
  \<open>egress env g inputForProvider e\<close>: the event sends nothing, or it sends the question that the
  engine asks about the redacted input of a hosted provider that allows external transmission.
\<close>

definition egress :: "model_env \<Rightarrow> Gateway \<Rightarrow> provider_input \<Rightarrow> mevent \<Rightarrow> bool" where
  "egress env g inputForProvider e \<longleftrightarrow>
     (case e of
        MDo r \<Rightarrow> \<exists>p q input. requiresAPIKey (mps_Provider (mp_Spec p)) \<and>
            dp_AllowExternalTransmission (mps_DataPolicy (mp_Spec p)) \<and>
            inputForProvider p = Inr input \<and>
            completeRequest env q (engineRequest (gatewayBase g) (providerName q)
              (RedactIngestion (gatewayRules g) input)) = Inr r
      | _ \<Rightarrow> True)"

lemma egress_simps [simp]:
  "egress env g f (MSleep d)" "egress env g f (MGetProvider k)" "egress env g f (MGetSecret k)"
  by (simp_all add: egress_def)

lemma isSpace_lower [simp]: "isSpace (toLowerChar c) = isSpace c"
proof -
  have "byte c + 32 \<noteq> 9 \<and> byte c + 32 \<noteq> 32" if "65 \<le> byte c" using that by simp
  then show ?thesis
    by (auto simp: isSpace_def toLowerChar_def byte_def char_of_eq_iff take_bit_eq_mod)
qed

lemma TrimSpace_ToLower: "TrimSpace (ToLower s) = ToLower (TrimSpace s)"
  by (simp add: TrimSpace_def ToLower_def dropWhile_map rev_map o_def)

text \<open>A registry in which a provider stands under its own name, as \<^verbatim>\<open>NewRegistry\<close> builds it.\<close>

definition wfRegistry :: "(string \<rightharpoonup> modelProvider) \<Rightarrow> bool" where
  "wfRegistry registry \<longleftrightarrow> (\<forall>name p. registry name = Some p \<longrightarrow> providerName p = name)"

lemma NewRegistry_wf: "wfRegistry (NewRegistry items)"
proof -
  have "wfRegistry m \<Longrightarrow> wfRegistry (m(providerName p \<mapsto> p))" for m p by (simp add: wfRegistry_def)
  then have "wfRegistry m \<Longrightarrow> wfRegistry (fold (\<lambda>item m. m(providerName item \<mapsto> item)) items m)" for m
    by (induction items arbitrary: m) simp_all
  moreover have "wfRegistry Map.empty" by (simp add: wfRegistry_def)
  ultimately show ?thesis unfolding NewRegistry_def .
qed

lemma ResolveAPIKey_adds: "adds (egress env g f) h (snd (ResolveAPIKey env client p h))"
  by (auto simp: ResolveAPIKey_def Let_def split: option.split sum.split)

lemma configureProvider_adds: "adds (egress env g f) h (snd (configureProvider env g m p h))"
  using ResolveAPIKey_adds [of env g f h _ p]
  by (auto simp: configureProvider_def Let_def split: option.split sum.split prod.split)
    (metis snd_conv)+

lemma configureProvider_kind:
  "configureProvider env g m p h = (Inr q, h') \<Longrightarrow> providerName q = providerName m"
  by (auto simp: configureProvider_def Let_def providerName_def
      split: if_splits option.splits sum.splits prod.splits modelProvider.splits)

lemma resolveIn_adds: "adds (egress env g f) h (snd (resolveIn env name nf nss h))"
proof (induction nss arbitrary: h)
  case (Cons ns nss)
  from adds_ConsI [OF Cons, of "MGetProvider (ns, name)"] show ?case by (simp split: sum.split)
qed simp

lemma KubeResolver_adds: "adds (egress env g f) h (snd (KubeResolver_Resolve env r ns ref h))"
  by (simp add: KubeResolver_Resolve_def Let_def resolveIn_adds del: resolveIn.simps split: option.split)

lemma resolveFallbackProvider_adds:
  "adds (egress env g f) h (snd (resolveFallbackProvider env g p e visited h))"
  using KubeResolver_adds [of env g f h _ "mpNamespace p" "refOrNil (mps_FallbackProviderRef (mp_Spec p))"]
  by (auto simp: resolveFallbackProvider_def split: option.split sum.split prod.split gw_error.split)
    (metis snd_conv)+

lemma Engine_Analyze_adds:
  assumes "q \<noteq> Heuristic \<Longrightarrow> requiresAPIKey (mps_Provider (mp_Spec p)) \<and>
      dp_AllowExternalTransmission (mps_DataPolicy (mp_Spec p))"
    and "f p = Inr input"
  shows "adds (egress env g f) h
    (snd (Engine_Analyze env (gatewayBase g) q (RedactIngestion (gatewayRules g) input) h))"
proof -
  let ?req = "engineRequest (gatewayBase g) (providerName q) (RedactIngestion (gatewayRules g) input)"
  have "completeRequest env Heuristic ?req \<noteq> Inr r" for r
    by (simp add: completeRequest_def split: sum.split)
  then have "egress env g f (MDo r)" if "completeRequest env q ?req = Inr r" for r
    using assms that by (cases "q = Heuristic") (auto simp: egress_def)
  then have "adds (egress env g f) h (snd (Complete env q ?req h))"
    using Complete_sends [of env q ?req h] unfolding sends_def adds_def list_all_iff by fastforce
  then show ?thesis by (auto simp: Engine_Analyze_def split: prod.splits sum.splits option.splits)
qed

lemma analyzeSingleProvider_adds:
  assumes "wfRegistry registry" and "f p = Inr input"
  shows "adds (egress env g f) h (snd (analyzeSingleProvider env g registry p input h))"
proof -
  let ?t = "ToLower (TrimSpace (mps_Provider (mp_Spec p)))"
  have hosted: "requiresAPIKey (mps_Provider (mp_Spec p))"
    if "registry ?t = Some m" "configureProvider env g m p h = (Inr q, h')" "q \<noteq> Heuristic" for m q h'
  proof -
    have "providerName q = ?t" using that assms(1) configureProvider_kind by (metis wfRegistry_def)
    with that(3) show ?thesis by (cases q) (auto simp: requiresAPIKey_def providerName_def)
  qed
  have hostedType: "requiresAPIKey ?t \<longleftrightarrow> requiresAPIKey (mps_Provider (mp_Spec p))"
    by (simp add: requiresAPIKey_def TrimSpace_ToLower)
  have "adds (egress env g f) h (snd (Engine_Analyze env (gatewayBase g) q
        (RedactIngestion (gatewayRules g) input) h'))"
    if "\<not> (requiresAPIKey ?t \<and> \<not> dp_AllowExternalTransmission (mps_DataPolicy (mp_Spec p)))"
      "registry ?t = Some m" "configureProvider env g m p h = (Inr q, h')" for m q h'
  proof (rule adds_trans)
    show "adds (egress env g f) h h'" using configureProvider_adds [of env g f h m p] that(3) by simp
    show "adds (egress env g f) h' (snd (Engine_Analyze env (gatewayBase g) q
        (RedactIngestion (gatewayRules g) input) h'))"
      using hosted [OF that(2,3)] hostedType that(1) assms(2) by (intro Engine_Analyze_adds [of q p]) auto
  qed
  then show ?thesis
    using configureProvider_adds [of env g f h _ p]
    by (auto simp: analyzeSingleProvider_def Let_def split: option.split prod.split sum.split model_error.split)
      (metis snd_conv)+
qed

lemma tryProvider_adds:
  "wfRegistry registry \<Longrightarrow> adds (egress env g f) h (snd (tryProvider env g registry f p h))"
  by (simp add: tryProvider_def analyzeSingleProvider_adds split: sum.split)

lemma chainStep_adds:
  assumes "wfRegistry registry"
  shows "adds (egress env g f) h (snd (snd (chainStep env g registry f visited p trace h)))"
proof -
  obtain r h1 where att: "tryProvider env g registry f p h = (r, h1)" by fastforce
  then have "adds (egress env g f) h h1" using tryProvider_adds [OF assms, of env g f h p] by simp
  moreover have "adds (egress env g f) h1 (snd (resolveFallbackProvider env g p e visited h1))" for e
    by (rule resolveFallbackProvider_adds)
  ultimately show ?thesis
    by (auto simp: chainStep_def att Let_def split: sum.split gw_error.split prod.split)
      (metis adds_trans snd_conv)+
qed

text \<open>The next provider of the chain was read from the cluster and has not been asked.\<close>

lemma resolveIn_Inr:
  "resolveIn env name nf nss h = (Inr p, h') \<Longrightarrow> \<exists>key h0. me_GetProvider env key h0 = Inr p"
  by (induction nss arbitrary: h) (auto split: sum.splits if_splits)

lemma chainStep_Fallback:
  assumes "chainStep env g registry f visited p trace h = (Fallback fb, trace', h')"
  shows "\<exists>key h0. me_GetProvider env key h0 = Inr fb" and "providerKey fb \<notin> set visited"
    and "\<exists>e. trace' = recordTraceAttempt p (Some e) trace"
proof -
  obtain ae h1 where "shouldAttemptProviderFallback p (az_Reason ae)"
    and res: "resolveFallbackProvider env g p ae visited h1 = (Inr fb, h')"
    and tr: "trace' = recordTraceAttempt p (Some (AnalyzeErr ae)) trace"
    using assms by (auto simp: chainStep_def Let_def split: prod.splits sum.splits gw_error.splits if_splits)
  then have "refOrNil (mps_FallbackProviderRef (mp_Spec p)) = Some (mps_FallbackProviderRef (mp_Spec p))"
    and "mps_FallbackProviderRef (mp_Spec p) \<noteq> []"
    by (auto simp: shouldAttemptProviderFallback_def refOrNil_def)
  with res show "\<exists>key h0. me_GetProvider env key h0 = Inr fb"
    by (auto simp: resolveFallbackProvider_def KubeResolver_Resolve_def Let_def
        simp del: resolveIn.simps dest!: resolveIn_Inr
        split: option.splits prod.splits sum.splits gw_error.splits if_splits)
  from res show "providerKey fb \<notin> set visited"
    by (auto simp: resolveFallbackProvider_def
        split: option.splits prod.splits sum.splits gw_error.splits if_splits)
  from tr show "\<exists>e. trace' = recordTraceAttempt p (Some e) trace" by blast
qed

lemma chainStep_Finished:
  "chainStep env g registry f visited p trace h = (Finished r, trace', h') \<Longrightarrow>
   \<exists>e. trace' = recordTraceAttempt p e trace"
  by (auto simp: chainStep_def Let_def split: prod.splits sum.splits gw_error.splits if_splits)

subsection \<open>The chain of providers\<close>

definition traceOk :: "string list \<Rightarrow> Trace \<Rightarrow> bool" where
  "traceOk visited trace \<longleftrightarrow> distinct (map (\<lambda>a. providerKey (att_Provider a)) trace) \<and>
     set (map (\<lambda>a. providerKey (att_Provider a)) trace) \<subseteq> set visited \<and> length trace \<le> maxTraceAttempts"

lemma recordTraceAttempt_ok:
  "traceOk visited trace \<Longrightarrow> providerKey p \<notin> set visited \<Longrightarrow>
   traceOk (providerKey p # visited) (recordTraceAttempt p e trace)"
  by (auto simp: traceOk_def recordTraceAttempt_def split: option.split gw_error.split)

lemma analyzeChain_induct [consumes 1, case_names Finished Fallback]:
  assumes "analyzeChain env g registry f visited p trace h = Some out"
    and finished: "\<And>visited p trace h r trace1 h1.
      chainStep env g registry f (providerKey p # visited) p trace h = (Finished r, trace1, h1) \<Longrightarrow>
      P visited p trace h (r, trace1, h1)"
    and fallback: "\<And>visited p trace h fb trace1 h1 out.
      chainStep env g registry f (providerKey p # visited) p trace h = (Fallback fb, trace1, h1) \<Longrightarrow>
      P (providerKey p # visited) fb trace1 h1 out \<Longrightarrow> P visited p trace h out"
  shows "P visited p trace h out"
proof -
  have "env' = env \<and> g' = g \<and> registry' = registry \<and> f' = f \<longrightarrow> P v p' t h' out'"
    if "analyzeChain env' g' registry' f' v p' t h' = Some out'" for env' g' registry' f' v p' t h' out'
    using that
  proof (rule analyzeChain.raw_induct [rotated], goal_cases)
    case (1 chain env' g' registry' f' v p' t h' out')
    show ?case
    proof (intro impI, elim conjE)
      assume same: "env' = env" "g' = g" "registry' = registry" "f' = f"
      obtain s t1 h1 where step: "chainStep env g registry f (providerKey p' # v) p' t h' = (s, t1, h1)"
        by (metis prod.exhaust)
      show "P v p' t h' out'"
      proof (cases s)
        case (Finished r)
        with 1(2) same step finished [of p' v t h' r t1 h1] show ?thesis by simp
      next
        case (Fallback fb)
        with 1(2) same step have "chain env g registry f (providerKey p' # v) fb t1 h1 = Some out'" by simp
        from 1(1) [OF this] Fallback step fallback show ?thesis by blast
      qed
    qed
  qed
  with assms(1) show ?thesis by blast
qed

lemma analyzeChain_adds:
  assumes "analyzeChain env g registry f visited p trace h = Some out" and "wfRegistry registry"
  shows "adds (egress env g f) h (snd (snd out))"
  using assms(1)
proof (induction rule: analyzeChain_induct)
  case (Finished visited p trace h r trace1 h1)
  with chainStep_adds [OF assms(2), of env g f h "providerKey p # visited" p trace] show ?case by simp
next
  case (Fallback visited p trace h fb trace1 h1 out)
  with chainStep_adds [OF assms(2), of env g f h "providerKey p # visited" p trace] show ?case
    by (auto intro: adds_trans)
qed

lemma analyzeChain_trace:
  assumes "analyzeChain env g registry f visited p trace h = Some out"
    and "traceOk visited trace" and "providerKey p \<notin> set visited"
  shows "\<exists>visited'. traceOk visited' (fst (snd out))"
  using assms
proof (induction rule: analyzeChain_induct)
  case (Finished visited p trace h r trace1 h1)
  then show ?case using chainStep_Finished recordTraceAttempt_ok by fastforce
next
  case (Fallback visited p trace h fb trace1 h1 out)
  then have "traceOk (providerKey p # visited) trace1"
    using chainStep_Fallback(3) recordTraceAttempt_ok by fastforce
  with Fallback chainStep_Fallback(2) show ?case by blast
qed

text \<open>
  Where only finitely many providers exist, the chain ends: every step asks one that has not been
  asked.
\<close>

lemma analyzeChain_returns:
  assumes "finite K" and "\<And>key h p. me_GetProvider env key h = Inr p \<Longrightarrow> providerKey p \<in> K"
  shows "\<exists>out. analyzeChain env g registry f visited p trace h = Some out"
proof (induction "card (K - set (providerKey p # visited))" arbitrary: visited p trace h rule: less_induct)
  case less
  obtain s trace1 h1 where step:
      "chainStep env g registry f (providerKey p # visited) p trace h = (s, trace1, h1)"
    by (metis prod.exhaust)
  show ?case
  proof (cases s)
    case (Finished r)
    with step show ?thesis by (subst analyzeChain.simps) simp
  next
    case (Fallback fb)
    then have "providerKey fb \<in> K - set (providerKey p # visited)"
      using chainStep_Fallback(1,2) [OF step [unfolded Fallback]] assms(2) by blast
    then have "card (K - set (providerKey fb # providerKey p # visited))
        < card (K - set (providerKey p # visited))"
      using assms(1) by (intro psubset_card_mono) auto
    from less [OF this] Fallback step show ?thesis by (subst analyzeChain.simps) simp
  qed
qed

lemma gateway_egress:
  assumes "analyzeIngestionWithFallback env g f provider h = Some (r, trace, h')"
    and "gw_Providers g = Some (NewRegistry items)"
  shows "adds (egress env g f) h h'"
  using assms analyzeChain_adds [of env g "NewRegistry items" f "[]" _ "[]" h, OF _ NewRegistry_wf]
  by (auto simp: analyzeIngestionWithFallback_def split: option.splits)

text \<open>C34: if the cluster has only finitely many providers, every analysis returns, however their fallback
  references are connected, loops included.
\<close>

theorem gateway_returns:
  assumes "finite K" and "\<And>key h p. me_GetProvider env key h = Inr p \<Longrightarrow> providerKey p \<in> K"
  shows "\<exists>r trace h'. analyzeIngestionWithFallback env g f provider h = Some (r, trace, h')"
proof (cases provider)
  case (Some p)
  show ?thesis
  proof (cases "gw_Providers g")
    case (Some registry)
    have "\<exists>out. analyzeChain env g registry f [] p [] h = Some out"
      by (rule analyzeChain_returns [OF assms(1)]) (rule assms(2))
    then obtain out where "analyzeChain env g registry f [] p [] h = Some out" by blast
    with Some \<open>provider = Some p\<close> show ?thesis
      by (cases out) (auto simp: analyzeIngestionWithFallback_def)
  qed (simp add: Some analyzeIngestionWithFallback_def)
qed (simp add: analyzeIngestionWithFallback_def)

text \<open>Two providers of an unknown type that fall back to each other.\<close>

definition demoProvider :: "string \<Rightarrow> string \<Rightarrow> ModelProvider" where
  "demoProvider name fallback =
     (let p = DefaultHeuristicProvider ''ns'' in
      p\<lparr>mp_Meta := (mp_Meta p)\<lparr>om_Name := name\<rparr>,
        mp_Spec := (mp_Spec p)\<lparr>mps_Provider := ''other'', mps_FallbackProviderRef := fallback\<rparr>\<rparr>)"

definition loopEnv :: model_env where
  "loopEnv = demoModelEnv\<lparr>me_GetProvider := (\<lambda>key _.
     if key = (''ns'', ''a'') then Inr (demoProvider ''a'' ''b'')
     else if key = (''ns'', ''b'') then Inr (demoProvider ''b'' ''a'')
     else Inl \<lparr>errKind = NotFound, errText = ''not found''\<rparr>)\<rparr>"

definition demoGateway :: Gateway where
  "demoGateway = \<lparr>gw_Base = None, gw_Providers = Some (NewRegistry [Heuristic]), gw_Redactor = None,
     gw_Secrets = None, gw_Resolver = Some \<lparr>kr_Client = True, kr_SystemNamespace = []\<rparr>\<rparr>"

definition demoInput :: IngestionOutput where
  "demoInput = \<lparr>ing_Context = \<lparr>ict_ID = [], ict_Cluster = [], ict_Service = [],
       ict_Resource = mcx_resource demoContext, ict_Summary = [], ict_Signals = [],
       ict_Metadata = Map.empty, ict_GeneratedAt = 0\<rparr>,
     ing_Evidence = mcx_evidence demoContext, ing_Signals = [],
     ing_Timeline = \<lparr>rtl_Resource = mcx_resource demoContext, rtl_Events = []\<rparr>, ing_DedupedFrom = 0\<rparr>"

theorem gateway_returns_witness:
  "\<exists>r trace h'. analyzeIngestionWithFallback loopEnv demoGateway (\<lambda>_. Inr demoInput)
     (Some (demoProvider ''a'' ''b'')) [] = Some (r, trace, h')"
proof (rule gateway_returns)
  show "finite {''ns/a'', ''ns/b''}" by simp
  fix key h p
  assume "me_GetProvider loopEnv key h = Inr p"
  then show "providerKey p \<in> {''ns/a'', ''ns/b''}"
    by (auto simp: loopEnv_def providerKey_def mpNamespace_def mpName_def demoProvider_def
        DefaultHeuristicProvider_def emptyMeta_def Let_def split: if_splits)
qed



end
