(* ===== verification/Egress.thy ===== *)
theory Egress
  imports ModelGateway InvestigationTypes
begin

text \<open>
  What of the collected evidence reaches a model provider (\<^verbatim>\<open>internal/investigation/service.go\<close>): the
  filters of the provider's data policy, the ingestion output built from what they retain, RCA generation
  through the gateway, and the audit of every attempt.

  Of \<^verbatim>\<open>EvidenceCollectionResult\<close> the two internal shadow results are left out, of the request's spec
  only question and mode are read here; metrics are not modelled.  The digest of a list of references is
  a parameter.
\<close>

subsection \<open>Data\<close>

record Issue =
  iss_Reason :: string
  iss_Message :: string
  iss_EgressAudit :: "ProviderEgressAudit option"

record PreflightResult =
  pfr_Target :: ResourceRef
  pfr_Provider :: "ModelProvider option"
  pfr_TargetIssue :: "Issue option"
  pfr_DatasourceIssue :: "Issue option"
  pfr_QueryTypeIssue :: "Issue option"
  pfr_ModelProviderIssue :: "Issue option"

definition FirstIssue :: "PreflightResult \<Rightarrow> Issue option" where
  "FirstIssue r =
     (if pfr_TargetIssue r \<noteq> None then pfr_TargetIssue r
      else if pfr_DatasourceIssue r \<noteq> None then pfr_DatasourceIssue r
      else if pfr_QueryTypeIssue r \<noteq> None then pfr_QueryTypeIssue r
      else pfr_ModelProviderIssue r)"

record EvidenceCollectionResult =
  ecr_Summary :: string
  ecr_EvidenceRefs :: "EvidenceRef list"
  ecr_Observations :: "Observation list"
  ecr_SchedulingEvidence :: "SchedulingEvidence list"
  ecr_Scheduling :: "SchedulingObservation list"
  ecr_Diagnostics :: "DiagnosticResult list"
  ecr_Issue :: "Issue option"

record RCAResult =
  rca_Reasoning :: "ReasoningOutput option"
  rca_Issue :: "Issue option"
  rca_EgressAttempts :: "ProviderEgressAttempt list"
  rca_PrimaryEgress :: "ProviderEgressAudit option"

subsection \<open>The filters of a data policy\<close>

definition isHostedProvider :: "string \<Rightarrow> bool" where
  "isHostedProvider providerType \<longleftrightarrow>
     ToLower (TrimSpace providerType) \<in> {''openai'', ''claude'', ''gemini''}"

definition normalizeEvidencePolicyKind :: "string \<Rightarrow> string" where
  "normalizeEvidencePolicyKind kind =
     (let kind = TrimSuffix (ToLower (TrimSpace kind)) ''observation'' in
      if kind = ''kubernetesevent'' then ''event'' else kind)"

definition evidenceKindAllowed :: "string \<Rightarrow> string list \<Rightarrow> bool" where
  "evidenceKindAllowed kind allowed \<longleftrightarrow>
     (if allowed = [] then True
      else list_ex (\<lambda>c. normalizeEvidencePolicyKind c = normalizeEvidencePolicyKind kind) allowed)"

abbreviation omittedLogSample :: string where
  "omittedLogSample \<equiv> ''log sample omitted by provider data policy''"

definition omitLogSample :: "ModelProviderDataPolicy \<Rightarrow> EvidenceRef \<Rightarrow> EvidenceRef" where
  "omitLogSample policy ref =
     (if EqualFold (ev_Kind ref) ''log'' \<and> \<not> dp_AllowLogSamples policy then
        ref\<lparr>ev_Summary := omittedLogSample, ev_Query := [], ev_Link := []\<rparr>
      else ref)"

definition filterEvidenceRefsForProviderPolicy ::
  "EvidenceRef list \<Rightarrow> ModelProviderDataPolicy \<Rightarrow> EvidenceRef list" where
  "filterEvidenceRefsForProviderPolicy refs policy =
     map (omitLogSample policy)
       (filter (\<lambda>ref. evidenceKindAllowed (ev_Kind ref) (dp_AllowedEvidenceKinds policy)) refs)"

definition omitLogLine :: "ModelProviderDataPolicy \<Rightarrow> Observation \<Rightarrow> Observation" where
  "omitLogLine policy ob =
     (if obs_Type ob = ''log'' \<and> \<not> dp_AllowLogSamples policy then
        ob\<lparr>obs_Summary := omittedLogSample,
           obs_Value := (obs_Value ob)\<lparr>obv_Log :=
             map_option (\<lambda>l. l\<lparr>lob_Line := omittedLogSample\<rparr>) (obv_Log (obs_Value ob))\<rparr>\<rparr>
      else ob)"

definition filterObservationsForProviderPolicy ::
  "Observation list \<Rightarrow> ModelProviderDataPolicy \<Rightarrow> Observation list" where
  "filterObservationsForProviderPolicy observations policy =
     map (omitLogLine policy)
       (filter (\<lambda>ob. evidenceKindAllowed (obs_Type ob) (dp_AllowedEvidenceKinds policy)) observations)"

definition refAllowed :: "EvidenceRef list \<Rightarrow> string \<Rightarrow> bool" where
  "refAllowed refs refID \<longleftrightarrow> refID \<noteq> [] \<and> refID \<in> set (map ev_ID refs)"

definition filterSchedulingEvidenceForEvidence ::
  "SchedulingEvidence list \<Rightarrow> EvidenceRef list \<Rightarrow> SchedulingEvidence list" where
  "filterSchedulingEvidenceForEvidence records refs =
     List.map_filter (\<lambda>r.
       let r' = r\<lparr>sce_Events := filter (\<lambda>e. refAllowed refs (sev_ID e)) (sce_Events r)\<rparr> in
       if \<not> refAllowed refs (sce_ID r) \<and> sce_Events r' = [] then None else Some r') records"

definition filterSchedulingObservationsForEvidence ::
  "SchedulingObservation list \<Rightarrow> EvidenceRef list \<Rightarrow> SchedulingObservation list" where
  "filterSchedulingObservationsForEvidence observations refs =
     List.map_filter (\<lambda>ob.
       let ob' = ob\<lparr>sob_EvidenceRefs := filter (refAllowed refs) (sob_EvidenceRefs ob)\<rparr> in
       if sob_EvidenceRefs ob \<noteq> [] \<and> sob_EvidenceRefs ob' = [] then None else Some ob') observations"

definition filterClaims :: "EvidenceRef list \<Rightarrow> CandidateClaim list \<Rightarrow> CandidateClaim list" where
  "filterClaims refs claims =
     List.map_filter (\<lambda>c.
       let kept = filter (refAllowed refs) (cc_EvidenceRefs c) in
       if kept = [] \<and> cc_EvidenceRefs c \<noteq> [] then None else Some (c\<lparr>cc_EvidenceRefs := kept\<rparr>)) claims"

definition filterDiagnosticResultsForEvidence ::
  "DiagnosticResult list \<Rightarrow> EvidenceRef list \<Rightarrow> DiagnosticResult list" where
  "filterDiagnosticResultsForEvidence results refs =
     List.map_filter (\<lambda>r.
       let r' = r\<lparr>dgr_Claims := filterClaims refs (dgr_Claims r)\<rparr> in
       if dgr_Claims r' = [] \<and> dgr_Warnings r' = [] then None else Some r') results"

subsection \<open>Audit\<close>

definition evidenceKindsForAudit :: "EvidenceRef list \<Rightarrow> string list" where
  "evidenceKindsForAudit refs =
     sort (remdups (filter (\<lambda>k. k \<noteq> []) (map (\<lambda>r. TrimSpace (ev_Kind r)) refs)))"

definition logSamplesIncludedForAudit :: "EvidenceRef list \<Rightarrow> ModelProviderDataPolicy \<Rightarrow> bool" where
  "logSamplesIncludedForAudit refs policy \<longleftrightarrow> dp_AllowLogSamples policy \<and>
     list_ex (\<lambda>r. EqualFold (ev_Kind r) ''log'' \<and> TrimSpace (ev_Summary r) \<noteq> []) refs"

definition providerDataPolicyAudit ::
  "(EvidenceRef list \<Rightarrow> string) \<Rightarrow> ModelProvider \<Rightarrow> EvidenceRef list \<Rightarrow> ClassificationDecision \<Rightarrow>
   ModelProviderDataPolicy \<Rightarrow> ProviderEgressAudit" where
  "providerDataPolicyAudit digest provider refs d policy =
     \<lparr>pea_Decision = cld_Decision d, pea_Reason = cld_Reason d,
      pea_ProviderType = ToLower (TrimSpace (mps_Provider (mp_Spec provider))),
      pea_EvidenceBundleDigest = digest refs, pea_EvidenceKinds = evidenceKindsForAudit refs,
      pea_SensitivityTagsSent = cld_SensitivityTagsSent d,
      pea_LogSamplesIncluded = logSamplesIncludedForAudit refs policy,
      pea_MaximumClassificationObserved = cld_MaximumObserved d,
      pea_MaximumClassificationAllowed = cld_MaximumAllowed d,
      pea_MaximumClassificationSent = cld_MaximumSent d,
      pea_ClassificationPolicyVersion = cld_ClassificationVersion d\<rparr>"

text \<open>A decision that is turned into a rejection of external transmission.\<close>

definition denyTransmission :: "ClassificationDecision \<Rightarrow> ClassificationDecision" where
  "denyTransmission d = d\<lparr>cld_Decision := ''Rejected'', cld_Reason := ''ExternalTransmissionDisabled'',
     cld_MaximumSent := [], cld_SensitivityTagsSent := []\<rparr>"

definition applyProviderDataPolicy ::
  "(EvidenceRef list \<Rightarrow> string) \<Rightarrow> ModelProvider \<Rightarrow> EvidenceCollectionResult \<Rightarrow>
   EvidenceCollectionResult \<times> Issue option" where
  "applyProviderDataPolicy digest provider result =
     (let spec = mp_Spec provider; policy = mps_DataPolicy spec in
      if \<not> isHostedProvider (mps_Provider spec) then (result, None)
      else
        let refs = filterEvidenceRefsForProviderPolicy (ecr_EvidenceRefs result) policy;
            filtered = result\<lparr>ecr_EvidenceRefs := refs,
              ecr_Observations := filterObservationsForProviderPolicy (ecr_Observations result) policy,
              ecr_SchedulingEvidence := filterSchedulingEvidenceForEvidence (ecr_SchedulingEvidence result) refs,
              ecr_Scheduling := filterSchedulingObservationsForEvidence (ecr_Scheduling result) refs,
              ecr_Diagnostics := filterDiagnosticResultsForEvidence (ecr_Diagnostics result) refs\<rparr>;
            decision = EvaluateProviderPolicy policy refs in
        if \<not> dp_AllowExternalTransmission policy then
          (result, Some \<lparr>iss_Reason = ''ProviderDataPolicyDenied'',
             iss_Message = ''ModelProvider '' @ quote (mpName provider)
               @ '' requires spec.dataPolicy.allowExternalTransmission=true before evidence can be sent to hosted provider ''
               @ quote (mps_Provider spec),
             iss_EgressAudit = Some (providerDataPolicyAudit digest provider refs
               (denyTransmission decision) policy)\<rparr>)
        else if cld_Decision decision = EgressRejected then
          (filtered, Some \<lparr>iss_Reason = ''ProviderDataPolicyRejected'',
             iss_Message = ''ModelProvider '' @ quote (mpName provider)
               @ '' rejected hosted provider transmission: '' @ cld_Message decision,
             iss_EgressAudit = Some (providerDataPolicyAudit digest provider refs decision policy)\<rparr>)
        else
          (filtered\<lparr>ecr_Summary := ecr_Summary result @ ''; provider data policy retained ''
             @ itoa (int (length refs)) @ '' evidence refs''\<rparr>, None))"

definition providerEgressAttemptFromTrace ::
  "(EvidenceRef list \<Rightarrow> string) \<Rightarrow> Attempt \<Rightarrow> EvidenceCollectionResult \<Rightarrow> int \<Rightarrow> ProviderEgressAttempt" where
  "providerEgressAttemptFromTrace digest attempt evidence ordinal =
     (let provider = att_Provider attempt; spec = mp_Spec provider; policy = mps_DataPolicy spec;
          out = \<lparr>pet_Ordinal = ordinal,
            pet_ProviderRef = Some \<lparr>nor_Name = mpName provider, nor_Namespace = mpNamespace provider\<rparr>,
            pet_ProviderGeneration = om_Generation (mp_Meta provider),
            pet_ProviderType = mps_Provider spec, pet_Decision = ''NotApplicable'',
            pet_Result = att_Result attempt, pet_Reason = att_Reason attempt,
            pet_EvidenceBundleDigest = [], pet_EvidenceKinds = [], pet_SensitivityTagsSent = [],
            pet_LogSamplesIncluded = False, pet_MaximumClassificationObserved = [],
            pet_MaximumClassificationAllowed = [], pet_MaximumClassificationSent = [],
            pet_ClassificationPolicyVersion = []\<rparr> in
      if \<not> isHostedProvider (mps_Provider spec) then
        (if pet_Reason out = [] then out\<lparr>pet_Reason := ''LocalProvider''\<rparr> else out)
      else
        let refs = filterEvidenceRefsForProviderPolicy (ecr_EvidenceRefs evidence) policy;
            evaluated = EvaluateProviderPolicy policy refs;
            decision = (if dp_AllowExternalTransmission policy then evaluated else denyTransmission evaluated);
            audit = providerDataPolicyAudit digest provider refs decision policy in
        out\<lparr>pet_Decision := pea_Decision audit,
            pet_EvidenceBundleDigest := pea_EvidenceBundleDigest audit,
            pet_EvidenceKinds := pea_EvidenceKinds audit,
            pet_SensitivityTagsSent := pea_SensitivityTagsSent audit,
            pet_LogSamplesIncluded := pea_LogSamplesIncluded audit,
            pet_MaximumClassificationObserved := pea_MaximumClassificationObserved audit,
            pet_MaximumClassificationAllowed := pea_MaximumClassificationAllowed audit,
            pet_MaximumClassificationSent := pea_MaximumClassificationSent audit,
            pet_ClassificationPolicyVersion := pea_ClassificationPolicyVersion audit,
            pet_Reason := (if pet_Reason out = [] \<or> pet_Reason out = ''Completed'' then pea_Reason audit
              else pet_Reason out)\<rparr>)"

definition issueEgressAttempts :: "ModelProvider \<Rightarrow> Issue \<Rightarrow> ProviderEgressAttempt list" where
  "issueEgressAttempts provider issue =
     (case iss_EgressAudit issue of
        None \<Rightarrow> []
      | Some a \<Rightarrow>
          [\<lparr>pet_Ordinal = 1,
            pet_ProviderRef = Some \<lparr>nor_Name = mpName provider, nor_Namespace = mpNamespace provider\<rparr>,
            pet_ProviderGeneration = om_Generation (mp_Meta provider),
            pet_ProviderType = pea_ProviderType a, pet_Decision = pea_Decision a, pet_Result = ''Rejected'',
            pet_Reason = pea_Reason a, pet_EvidenceBundleDigest = pea_EvidenceBundleDigest a,
            pet_EvidenceKinds = pea_EvidenceKinds a, pet_SensitivityTagsSent = pea_SensitivityTagsSent a,
            pet_LogSamplesIncluded = pea_LogSamplesIncluded a,
            pet_MaximumClassificationObserved = pea_MaximumClassificationObserved a,
            pet_MaximumClassificationAllowed = pea_MaximumClassificationAllowed a,
            pet_MaximumClassificationSent = pea_MaximumClassificationSent a,
            pet_ClassificationPolicyVersion = pea_ClassificationPolicyVersion a\<rparr>])"

definition primaryEgressAudit :: "ProviderEgressAttempt list \<Rightarrow> ProviderEgressAudit option" where
  "primaryEgressAudit attempts =
     map_option (\<lambda>a. \<lparr>pea_Decision = pet_Decision a, pea_Reason = pet_Reason a,
       pea_ProviderType = pet_ProviderType a, pea_EvidenceBundleDigest = pet_EvidenceBundleDigest a,
       pea_EvidenceKinds = pet_EvidenceKinds a, pea_SensitivityTagsSent = pet_SensitivityTagsSent a,
       pea_LogSamplesIncluded = pet_LogSamplesIncluded a,
       pea_MaximumClassificationObserved = pet_MaximumClassificationObserved a,
       pea_MaximumClassificationAllowed = pet_MaximumClassificationAllowed a,
       pea_MaximumClassificationSent = pet_MaximumClassificationSent a,
       pea_ClassificationPolicyVersion = pet_ClassificationPolicyVersion a\<rparr>)
       (find (\<lambda>a. pet_EvidenceBundleDigest a \<noteq> []) attempts)"

subsection \<open>The input of a provider\<close>

definition firstNonBlank :: "string list \<Rightarrow> string" where
  "firstNonBlank values = (case find (\<lambda>v. TrimSpace v \<noteq> []) values of None \<Rightarrow> [] | Some v \<Rightarrow> v)"

definition normalizeEvidenceKind :: "string \<Rightarrow> string" where
  "normalizeEvidenceKind kind =
     (let k = ToLower (TrimSpace kind) in
      if k \<in> {''metric'', ''log'', ''event''} then k
      else if k = ''serviceconfiguration'' then ''serviceConfiguration''
      else if k = ''probeconfiguration'' then ''probeConfiguration''
      else ''signal'')"

definition claimAdvisory :: "DiagnosticResult \<Rightarrow> CandidateClaim \<Rightarrow> string option" where
  "claimAdvisory r c =
     (let statement = TrimSpace (cc_Statement c) in
      if statement = [] then None
      else Some (dgr_DiagnosticID r @ ''/'' @ dgr_Status r @ '' '' @ cc_Type c @ '' candidate: '' @ statement))"

definition warningAdvisory :: "DiagnosticResult \<Rightarrow> string \<Rightarrow> string option" where
  "warningAdvisory r w =
     (let text = TrimSpace w in
      if text = [] then None else Some (dgr_DiagnosticID r @ ''/'' @ dgr_Status r @ '' warning: '' @ text))"

definition diagnosticAdvisoryText :: "DiagnosticResult list \<Rightarrow> string" where
  "diagnosticAdvisoryText results =
     (let parts = concat (map (\<lambda>r. List.map_filter (claimAdvisory r) (dgr_Claims r) @
            List.map_filter (warningAdvisory r) (dgr_Warnings r)) results) in
      if parts = [] then []
      else ''UNVERIFIED diagnostic candidates; Claim Verification remains authoritative. ''
        @ Join parts '' | '')"

definition signalFor :: "ResourceRef \<Rightarrow> gotime \<Rightarrow> nat \<Rightarrow> EvidenceRef \<Rightarrow> Signal" where
  "signalFor target now index ref =
     \<lparr>sgn_ID = ''investigation-signal-'' @ itoa (int index + 1), sgn_Kind = normalizeEvidenceKind (ev_Kind ref),
      sgn_Source = firstNonBlank [ev_Source ref, ev_Kind ref], sgn_Severity = ''medium'',
      sgn_Message = ev_Summary ref, sgn_Resource = target, sgn_Attributes = Map.empty,
      sgn_Timestamp = now\<rparr>"

definition referenceFor :: "EvidenceRef \<Rightarrow> Evidence" where
  "referenceFor ref = \<lparr>evd_Kind = ev_Kind ref, evd_Source = ev_Source ref, evd_Summary = ev_Summary ref,
     evd_Query = ev_Query ref, evd_Reason = ev_Reason ref, evd_Link = ev_Link ref\<rparr>"

definition metricEntry :: "nat \<times> EvidenceRef \<Rightarrow> (string \<times> float64) option" where
  "metricEntry = (\<lambda>(index, ref).
     if ev_Kind ref = ''metric'' then
       Some (firstNonBlank [ev_Source ref, ''metric-'' @ itoa (int index)], Finite (of_nat index + 1))
     else None)"

record InvestigationQuestion =
  ivq_Question :: string
  ivq_Mode :: string

definition buildInvestigationIngestionOutput ::
  "InvestigationQuestion \<Rightarrow> PreflightResult \<Rightarrow> EvidenceCollectionResult \<Rightarrow> gotime \<Rightarrow> IngestionOutput" where
  "buildInvestigationIngestionOutput spec preflight result now =
     (let target = pfr_Target preflight; refs = ecr_EvidenceRefs result;
          indexed = List.enumerate 0 refs;
          signals = map (\<lambda>(i, ref). signalFor target now i ref) indexed;
          question = TrimSpace (ivq_Question spec);
          advisory = diagnosticAdvisoryText (ecr_Diagnostics result);
          metadata = [''question'' \<mapsto> question, ''mode'' \<mapsto> firstNonBlank [ivq_Mode spec, ''readOnly'']] in
      \<lparr>ing_Context = \<lparr>ict_ID = ''investigation-'' @ r_Namespace target @ ''-'' @ r_Name target,
         ict_Cluster = r_Cluster target, ict_Service = r_Service target, ict_Resource = target,
         ict_Summary = (if question \<noteq> [] then question @ '' | '' @ ecr_Summary result
           else ecr_Summary result),
         ict_Signals = signals,
         ict_Metadata = (if advisory \<noteq> [] then metadata(''diagnosticAdvisories'' \<mapsto> advisory) else metadata),
         ict_GeneratedAt = now\<rparr>,
       ing_Evidence = \<lparr>bun_Logs = map ev_Summary (filter (\<lambda>r. ev_Kind r = ''log'') refs),
         bun_Metrics = map_of (rev (List.map_filter metricEntry indexed)),
         bun_Traces = [],
         bun_Events = map (\<lambda>r. firstNonBlank [ev_Reason r, ev_Summary r])
           (filter (\<lambda>r. ev_Kind r \<in> {''event'', ''serviceConfiguration'', ''probeConfiguration''}) refs),
         bun_References = map referenceFor refs,
         bun_Observations = ecr_Observations result\<rparr>,
       ing_Signals = signals,
       ing_Timeline = \<lparr>rtl_Resource = target,
         rtl_Events = map (\<lambda>r. \<lparr>tle_Timestamp = now, tle_Kind = normalizeEvidenceKind (ev_Kind r),
           tle_Summary = ev_Summary r\<rparr>) refs\<rparr>,
       ing_DedupedFrom = int (length refs)\<rparr>)"

subsection \<open>RCA generation\<close>

text \<open>What the gateway is given for a provider.\<close>

definition rcaInput ::
  "(EvidenceRef list \<Rightarrow> string) \<Rightarrow> InvestigationQuestion \<Rightarrow> PreflightResult \<Rightarrow> EvidenceCollectionResult \<Rightarrow>
   gotime \<Rightarrow> provider_input" where
  "rcaInput digest spec preflight result now provider =
     (case applyProviderDataPolicy digest provider result of
        (_, Some issue) \<Rightarrow> Inl (analyzeErr (iss_Reason issue) (iss_Message issue))
      | (filtered, None) \<Rightarrow> Inr (buildInvestigationIngestionOutput spec preflight filtered now))"

text \<open>
  The evidence that was recorded for the provider of an attempt: no provider is asked twice, so it is
  the one that the policy of that provider gave.
\<close>

definition egressAttempts ::
  "(EvidenceRef list \<Rightarrow> string) \<Rightarrow> EvidenceCollectionResult \<Rightarrow> Trace \<Rightarrow> ProviderEgressAttempt list" where
  "egressAttempts digest result trace =
     map (\<lambda>(i, a). providerEgressAttemptFromTrace digest a
            (fst (applyProviderDataPolicy digest (att_Provider a) result)) (int i + 1))
       (List.enumerate 0 trace)"

definition emptyRCA :: RCAResult where
  "emptyRCA = \<lparr>rca_Reasoning = None, rca_Issue = None, rca_EgressAttempts = [], rca_PrimaryEgress = None\<rparr>"

definition plainIssue :: "string \<Rightarrow> string \<Rightarrow> Issue" where
  "plainIssue reason msg = \<lparr>iss_Reason = reason, iss_Message = msg, iss_EgressAudit = None\<rparr>"

definition GenerateRCA ::
  "(EvidenceRef list \<Rightarrow> string) \<Rightarrow> model_env \<Rightarrow> Gateway option \<Rightarrow> InvestigationQuestion \<Rightarrow> PreflightResult \<Rightarrow>
   EvidenceCollectionResult \<Rightarrow> gotime \<Rightarrow> mhistory \<Rightarrow> (RCAResult \<times> gw_error option \<times> mhistory) option" where
  "GenerateRCA digest env gateway spec preflight result now h =
     (if FirstIssue preflight \<noteq> None then Some (emptyRCA\<lparr>rca_Issue := FirstIssue preflight\<rparr>, None, h)
      else if ecr_Issue result \<noteq> None then Some (emptyRCA\<lparr>rca_Issue := ecr_Issue result\<rparr>, None, h)
      else case pfr_Provider preflight of
        None \<Rightarrow> Some (emptyRCA\<lparr>rca_Issue := Some (plainIssue ''ProviderUnavailable''
            ''model provider is not available for RCA generation'')\<rparr>, None, h)
      | Some provider \<Rightarrow>
          (case gateway of
             None \<Rightarrow> Some (emptyRCA\<lparr>rca_Issue := Some (plainIssue ''GatewayUnavailable''
               ''model gateway is not configured'')\<rparr>, None, h)
           | Some g \<Rightarrow>
               (case applyProviderDataPolicy digest provider result of
                  (_, Some issue) \<Rightarrow>
                    Some (emptyRCA\<lparr>rca_Issue := Some issue, rca_PrimaryEgress := iss_EgressAudit issue,
                      rca_EgressAttempts := issueEgressAttempts provider issue\<rparr>, None, h)
                | (_, None) \<Rightarrow>
                    (case analyzeIngestionWithFallback env g (rcaInput digest spec preflight result now)
                         (Some provider) h of
                       None \<Rightarrow> None
                     | Some (r, trace, h) \<Rightarrow>
                         (let attempts = egressAttempts digest result trace;
                              out = emptyRCA\<lparr>rca_EgressAttempts := attempts,
                                rca_PrimaryEgress := primaryEgressAudit attempts\<rparr> in
                          case r of
                            Inr reasoning \<Rightarrow> Some (out\<lparr>rca_Reasoning := Some reasoning\<rparr>, None, h)
                          | Inl (AnalyzeErr e) \<Rightarrow>
                              Some (out\<lparr>rca_Issue := Some (plainIssue (az_Reason e) (az_Message e))\<rparr>, None, h)
                          | Inl e \<Rightarrow> Some (out, Some e, h))))))"

subsection \<open>What leaves\<close>

text \<open>
  \<open>withinPolicy policy result\<close>: every reference has an allowed kind, a level within the maximum, no
  denied tag and a redaction profile if one is required; a reference or observation of a log carries
  no sample unless samples are allowed; observations have an allowed kind; every claim of a
  diagnostic cites only references that are in the result.
\<close>

definition refWithin :: "ModelProviderDataPolicy \<Rightarrow> EvidenceRef \<Rightarrow> bool" where
  "refWithin policy r \<longleftrightarrow>
     evidenceKindAllowed (ev_Kind r) (dp_AllowedEvidenceKinds policy) \<and>
     levelValue (dc_Level (refClassification r)) \<le> levelValue (dp_MaximumClassification policy) \<and>
     list_all (\<lambda>t. \<not> tagDenied (dp_DeniedSensitivityTags policy) t) (dc_SensitivityTags (refClassification r)) \<and>
     (dp_RequireRedaction policy \<longrightarrow> TrimSpace (ev_RedactionProfile r) \<noteq> []) \<and>
     (EqualFold (ev_Kind r) ''log'' \<and> \<not> dp_AllowLogSamples policy \<longrightarrow>
        ev_Summary r = omittedLogSample \<and> ev_Query r = [] \<and> ev_Link r = [])"

definition observationWithin :: "ModelProviderDataPolicy \<Rightarrow> Observation \<Rightarrow> bool" where
  "observationWithin policy ob \<longleftrightarrow>
     evidenceKindAllowed (obs_Type ob) (dp_AllowedEvidenceKinds policy) \<and>
     (obs_Type ob = ''log'' \<and> \<not> dp_AllowLogSamples policy \<longrightarrow>
        obs_Summary ob = omittedLogSample \<and>
        (case obv_Log (obs_Value ob) of None \<Rightarrow> True | Some l \<Rightarrow> lob_Line l = omittedLogSample))"

definition withinPolicy :: "ModelProviderDataPolicy \<Rightarrow> EvidenceCollectionResult \<Rightarrow> bool" where
  "withinPolicy policy result \<longleftrightarrow>
     list_all (refWithin policy) (ecr_EvidenceRefs result) \<and>
     list_all (observationWithin policy) (ecr_Observations result) \<and>
     list_all (\<lambda>d. list_all (\<lambda>c. list_all (refAllowed (ecr_EvidenceRefs result)) (cc_EvidenceRefs c))
       (dgr_Claims d)) (ecr_Diagnostics result)"

lemma omitLogSample_kind [simp]: "ev_Kind (omitLogSample policy r) = ev_Kind r"
  by (simp add: omitLogSample_def)

lemma omitLogSample_idem [simp]: "omitLogSample policy (omitLogSample policy r) = omitLogSample policy r"
  by (simp add: omitLogSample_def)

lemma filterEvidenceRefs_idem:
  "filterEvidenceRefsForProviderPolicy (filterEvidenceRefsForProviderPolicy refs policy) policy =
   filterEvidenceRefsForProviderPolicy refs policy"
  by (simp add: filterEvidenceRefsForProviderPolicy_def filter_map o_def)

lemma filterClaims_cites:
  "c \<in> set (filterClaims refs claims) \<Longrightarrow> list_all (refAllowed refs) (cc_EvidenceRefs c)"
  by (auto simp: filterClaims_def map_filter_def list_all_iff Let_def split: if_splits)

lemma filterDiagnostics_cites:
  "d \<in> set (filterDiagnosticResultsForEvidence results refs) \<Longrightarrow> c \<in> set (dgr_Claims d) \<Longrightarrow>
   list_all (refAllowed refs) (cc_EvidenceRefs c)"
  by (auto simp: filterDiagnosticResultsForEvidence_def map_filter_def Let_def
      dest: filterClaims_cites split: if_splits)

lemma filterObservations_within:
  "ob \<in> set (filterObservationsForProviderPolicy obs policy) \<Longrightarrow> observationWithin policy ob"
  by (auto simp: filterObservationsForProviderPolicy_def observationWithin_def omitLogLine_def
      split: option.split)

lemma filterRefs_within:
  assumes "cld_Decision (EvaluateProviderPolicy policy (filterEvidenceRefsForProviderPolicy refs policy))
      = EgressAllowed"
    and "r \<in> set (filterEvidenceRefsForProviderPolicy refs policy)"
  shows "refWithin policy r"
proof -
  have "evidenceKindAllowed (ev_Kind r) (dp_AllowedEvidenceKinds policy)"
    and "EqualFold (ev_Kind r) ''log'' \<and> \<not> dp_AllowLogSamples policy \<longrightarrow>
        ev_Summary r = omittedLogSample \<and> ev_Query r = [] \<and> ev_Link r = []"
    using assms(2) by (auto simp: filterEvidenceRefsForProviderPolicy_def) (auto simp: omitLogSample_def)
  with assms show ?thesis unfolding refWithin_def allowed_refs_iff by (auto simp: list_all_iff)
qed

lemma applyProviderDataPolicy_within:
  assumes "isHostedProvider (mps_Provider (mp_Spec p))"
    and "applyProviderDataPolicy digest p result = (filtered, None)"
  shows "withinPolicy (mps_DataPolicy (mp_Spec p)) filtered"
    and "dp_AllowExternalTransmission (mps_DataPolicy (mp_Spec p))"
proof -
  let ?policy = "mps_DataPolicy (mp_Spec p)"
  let ?refs = "filterEvidenceRefsForProviderPolicy (ecr_EvidenceRefs result) ?policy"
  have allowed: "cld_Decision (EvaluateProviderPolicy ?policy ?refs) = EgressAllowed"
    and ext: "dp_AllowExternalTransmission ?policy"
    and refs: "ecr_EvidenceRefs filtered = ?refs"
    and obs: "ecr_Observations filtered = filterObservationsForProviderPolicy (ecr_Observations result) ?policy"
    and diag: "ecr_Diagnostics filtered = filterDiagnosticResultsForEvidence (ecr_Diagnostics result) ?refs"
    using assms EvaluateProviderPolicy_decision [of ?policy ?refs]
    by (auto simp: applyProviderDataPolicy_def Let_def split: if_splits)
  show "dp_AllowExternalTransmission ?policy" by (rule ext)
  show "withinPolicy ?policy filtered"
    unfolding withinPolicy_def refs obs diag list_all_iff
    using filterRefs_within [OF allowed] filterObservations_within filterDiagnostics_cites
    by (auto simp: list_all_iff)
qed

lemma isHosted_iff: "isHostedProvider t \<longleftrightarrow> requiresAPIKey t"
  by (auto simp: isHostedProvider_def requiresAPIKey_def)

lemma rcaInput_Inr:
  "rcaInput digest spec preflight result now p = Inr input \<Longrightarrow>
   \<exists>filtered. applyProviderDataPolicy digest p result = (filtered, None) \<and>
     input = buildInvestigationIngestionOutput spec preflight filtered now"
  by (auto simp: rcaInput_def split: prod.splits option.splits)


subsection \<open>An example\<close>

definition demoHosted :: "bool \<Rightarrow> ModelProvider" where
  "demoHosted allow =
     (let p = DefaultHeuristicProvider ''ns'' in
      p\<lparr>mp_Spec := (mp_Spec p)\<lparr>mps_Provider := ''openai'', mps_APIKeySecretRef := Some (''s'', ''k''),
        mps_DataPolicy := emptyDataPolicy\<lparr>dp_AllowExternalTransmission := allow\<rparr>\<rparr>\<rparr>)"

definition demoHostedEnv :: model_env where
  "demoHostedEnv = demoModelEnv\<lparr>me_GetSecret := (\<lambda>_ _. Inr [''k'' \<mapsto> ''key'']),
     me_Do := (\<lambda>_ _ _. Inr \<lparr>hrp_StatusCode = 200, hrp_Header = (\<lambda>_. []), hrp_Body = Inr ''{}''\<rparr>)\<rparr>"

definition demoHostedGateway :: Gateway where
  "demoHostedGateway = demoGateway\<lparr>gw_Redactor := Some [], gw_Secrets := Some True,
     gw_Providers := Some (NewRegistry [OpenAI \<lparr>hp_Model = [], hp_Endpoint = [], hp_APIKey = [],
       hp_Timeout = 0, hp_MaxTokens = 0\<rparr>, Heuristic])\<rparr>"

definition demoPreflight :: "ModelProvider \<Rightarrow> PreflightResult" where
  "demoPreflight p = \<lparr>pfr_Target = mcx_resource demoContext, pfr_Provider = Some p, pfr_TargetIssue = None,
     pfr_DatasourceIssue = None, pfr_QueryTypeIssue = None, pfr_ModelProviderIssue = None\<rparr>"

definition demoCollected :: EvidenceCollectionResult where
  "demoCollected = \<lparr>ecr_Summary = ''one'',
     ecr_EvidenceRefs = [emptyEvidenceRef\<lparr>ev_ID := ''e1'', ev_Kind := ''event'', ev_Summary := ''BackOff''\<rparr>],
     ecr_Observations = [], ecr_SchedulingEvidence = [], ecr_Scheduling = [], ecr_Diagnostics = [],
     ecr_Issue = None\<rparr>"

definition demoRCA :: "bool \<Rightarrow> (RCAResult \<times> gw_error option \<times> mhistory) option" where
  "demoRCA allow = GenerateRCA (\<lambda>_. ''d'') demoHostedEnv (Some demoHostedGateway)
     \<lparr>ivq_Question = ''why'', ivq_Mode = []\<rparr> (demoPreflight (demoHosted allow)) demoCollected 1 []"

lemma GenerateRCA_asks:
  assumes "FirstIssue preflight = None" and "ecr_Issue result = None" and "pfr_Provider preflight = Some p"
    and "snd (applyProviderDataPolicy digest p result) = None"
    and "analyzeIngestionWithFallback env g (rcaInput digest spec preflight result now) (Some p) h = Some (r, t, h')"
  shows "\<exists>out err. GenerateRCA digest env (Some g) spec preflight result now h = Some (out, err, h')"
proof -
  obtain filtered where "applyProviderDataPolicy digest p result = (filtered, None)"
    using assms(4) by (metis prod.collapse)
  with assms show ?thesis by (auto simp: GenerateRCA_def Let_def split: sum.split gw_error.split)
qed


text \<open> the audit of an attempt with a hosted provider tells the truth: it says that transmission was
  allowed exactly when the provider was given an input, and its digest, kinds and log flag are those
  of the references that the input was made of.
\<close>

theorem egress_audit_truthful:
  assumes "isHostedProvider (mps_Provider (mp_Spec (att_Provider a)))"
  shows "let p = att_Provider a;
      filtered = fst (applyProviderDataPolicy digest p result);
      sent = filterEvidenceRefsForProviderPolicy (ecr_EvidenceRefs result) (mps_DataPolicy (mp_Spec p));
      attempt = providerEgressAttemptFromTrace digest a filtered n in
    (pet_Decision attempt = EgressAllowed \<longleftrightarrow> (\<exists>input. rcaInput digest spec preflight result now p = Inr input)) \<and>
    (snd (applyProviderDataPolicy digest p result) = None \<longrightarrow> ecr_EvidenceRefs filtered = sent) \<and>
    pet_EvidenceBundleDigest attempt = digest sent \<and> pet_EvidenceKinds attempt = evidenceKindsForAudit sent \<and>
    (pet_LogSamplesIncluded attempt \<longleftrightarrow> logSamplesIncludedForAudit sent (mps_DataPolicy (mp_Spec p)))"
proof -
  let ?p = "att_Provider a"
  let ?policy = "mps_DataPolicy (mp_Spec ?p)"
  let ?refs = "filterEvidenceRefsForProviderPolicy (ecr_EvidenceRefs result) ?policy"
  have refs: "filterEvidenceRefsForProviderPolicy
      (ecr_EvidenceRefs (fst (applyProviderDataPolicy digest ?p result))) ?policy = ?refs"
    using assms by (simp add: applyProviderDataPolicy_def Let_def filterEvidenceRefs_idem)
  have kept: "snd (applyProviderDataPolicy digest ?p result) = None \<Longrightarrow>
      ecr_EvidenceRefs (fst (applyProviderDataPolicy digest ?p result)) = ?refs"
    using assms by (simp add: applyProviderDataPolicy_def Let_def split: if_splits)
  have "(\<exists>input. rcaInput digest spec preflight result now ?p = Inr input) \<longleftrightarrow>
      dp_AllowExternalTransmission ?policy \<and> cld_Decision (EvaluateProviderPolicy ?policy ?refs) = EgressAllowed"
    using assms EvaluateProviderPolicy_decision [of ?policy ?refs]
    by (auto simp: rcaInput_def applyProviderDataPolicy_def Let_def)
  then show ?thesis
    using assms kept unfolding Let_def providerEgressAttemptFromTrace_def refs
    by (simp add: refs providerDataPolicyAudit_def denyTransmission_def)
qed

theorem egress_audit_truthful_witness:
  "pet_Decision (providerEgressAttemptFromTrace (\<lambda>_. ''d'')
      \<lparr>att_Provider = demoHosted False, att_Result = ''x'', att_Reason = ''x''\<rparr>
      (fst (applyProviderDataPolicy (\<lambda>_. ''d'') (demoHosted False) demoCollected)) 1) \<noteq> EgressAllowed"
proof -
  let ?a = "\<lparr>att_Provider = demoHosted False, att_Result = ''x'', att_Reason = ''x''\<rparr>"
  have hosted: "isHostedProvider (mps_Provider (mp_Spec (att_Provider ?a)))" by code_simp
  have "\<not> (\<exists>input. rcaInput (\<lambda>_. ''d'') \<lparr>ivq_Question = [], ivq_Mode = []\<rparr> (demoPreflight (demoHosted False))
      demoCollected 1 (demoHosted False) = Inr input)"
    using hosted by (auto simp: rcaInput_def applyProviderDataPolicy_def Let_def demoHosted_def emptyDataPolicy_def)
  with egress_audit_truthful [OF hosted, of "\<lambda>_. ''d''" demoCollected 1 "\<lparr>ivq_Question = [], ivq_Mode = []\<rparr>"
      "demoPreflight (demoHosted False)" 1]
  show ?thesis by (simp add: Let_def)
qed

end
