(* ===== verification/Verifier.thy ===== *)
theory Verifier
  imports DomainTypes
begin

text \<open>
  The claim verifier (\<^verbatim>\<open>internal/verifier/heuristic.go\<close>): claims of a root-cause analysis are compared with
  the evidence by keywords, with stricter rules for claims of a known domain.  The coverage score is the
  exact quotient; its rounding to a \<^verbatim>\<open>float64\<close> is not modelled.
\<close>

subsection \<open>Data\<close>

abbreviation VerificationSupported :: string where "VerificationSupported \<equiv> ''Supported''"
abbreviation VerificationInferred :: string where "VerificationInferred \<equiv> ''Inferred''"
abbreviation VerificationUnsupported :: string where "VerificationUnsupported \<equiv> ''Unsupported''"
abbreviation VerificationContradicted :: string where "VerificationContradicted \<equiv> ''Contradicted''"
abbreviation VerificationUnverified :: string where "VerificationUnverified \<equiv> ''Unverified''"

record VerifierClaim =
  vc_ID :: string
  vc_Statement :: string

record VerifierEvidence =
  ve_ID :: string
  ve_Kind :: string
  ve_Summary :: string
  ve_Source :: string
  ve_Reason :: string

record EvidenceLink =
  vel_EvidenceRef :: string
  vel_Role :: string
  vel_Strength :: string

record ClaimResult =
  vcr_ID :: string
  vcr_EvidenceRefs :: "string list"
  vcr_EvidenceLinks :: "EvidenceLink list"
  vcr_Verification :: string

record VerifierResult =
  vrs_Claims :: "ClaimResult list"
  vrs_CoverageScore :: rat
  vrs_Method :: string

subsection \<open>Text\<close>

definition containsAny :: "string \<Rightarrow> string list \<Rightarrow> bool" where
  "containsAny text needles \<longleftrightarrow> list_ex (Contains text) needles"

definition replaceSeparators :: "string \<Rightarrow> string" where
  "replaceSeparators = map (\<lambda>c. if c \<in> {CHR ''_'', CHR ''-'', CHR ''.'', CHR ''/''} then CHR '' '' else c)"

definition normalizeText :: "string \<Rightarrow> string" where
  "normalizeText text = Join (Fields (replaceSeparators (ToLower (TrimSpace text)))) '' ''"

definition evidenceText :: "VerifierEvidence \<Rightarrow> string" where
  "evidenceText ref = normalizeText (ve_Kind ref @ '' '' @ ve_Source ref @ '' '' @ ve_Reason ref @ '' ''
     @ ve_Summary ref)"

definition importantTokens :: "string \<Rightarrow> string list" where
  "importantTokens text = filter (\<lambda>p. length p \<ge> 5) (Fields text)"

definition evidenceTerms :: "string \<Rightarrow> string list" where
  "evidenceTerms statement =
     (if containsAny statement [''crash'', ''restart'', ''backoff'', ''oom'', ''pod'', ''startup''] then
        [''crash'', ''restart'', ''backoff'', ''oom'', ''pod'', ''startup'']
      else if containsAny statement [''cpu'', ''memory'', ''resource'', ''pressure''] then
        [''cpu'', ''memory'', ''resource'', ''pressure'', ''oom'']
      else if containsAny statement [''latency'', ''timeout'', ''traffic'', ''http'', ''5xx'', ''error''] then
        [''latency'', ''timeout'', ''traffic'', ''http'', ''5xx'', ''error'']
      else if containsAny statement [''rollout'', ''release'', ''image'', ''config'', ''configuration''] then
        [''rollout'', ''release'', ''image'', ''config'', ''configuration'']
      else importantTokens statement)"

subsection \<open>Domains\<close>

definition mentionsImage :: "string \<Rightarrow> bool" where
  "mentionsImage statement \<longleftrightarrow> containsAny statement [''image'', ''registry'', ''pull'']"

definition domainProfile :: "string \<Rightarrow> string" where
  "domainProfile text =
     (let statement = normalizeText text in
      if mentionsImage statement \<and> containsAny statement [''missing image'', ''missing container image'',
           ''image is missing'', ''image does not exist'', ''image not found'', ''repository does not exist'',
           ''manifest unknown''] then ''imagepullmissing''
      else if mentionsImage statement \<and> containsAny statement [''authentication'', ''unauthorized'',
           ''access denied'', ''pull access denied'', ''credential''] then ''registryauth''
      else if mentionsImage statement \<and> containsAny statement [''dns'', ''name resolution'', ''no such host'',
           ''host lookup''] then ''registrydns''
      else if mentionsImage statement \<and> containsAny statement [''registry unavailable'',
           ''registry is unavailable'', ''registry was unavailable'', ''registry outage'', ''registry is down'',
           ''registry timeout'', ''registry connection refused''] then ''registryunavailable''
      else if containsAny statement [''imagepullbackoff'', ''errimagepull'', ''image pull'', ''pull image'',
           ''failed to pull''] then ''imagepullbackoff''
      else if containsAny statement [''failedscheduling'', ''failed scheduling'', ''unschedulable'',
           ''untolerated taint'', ''insufficient cpu'', ''insufficient memory''] then ''schedulingsuccess''
      else if containsAny statement [''crashloopbackoff'', ''crash loop'', ''crashloop'', ''backoff'',
           ''restarting'', ''restart''] then ''crashloopbackoff''
      else if containsAny statement [''readiness probe'', ''liveness probe'', ''probe failure'',
           ''probe failed'', ''unhealthy probe''] then ''probefailure''
      else if containsAny statement [''targetport'', ''target port'', ''service port'', ''container port'',
           ''port mismatch'', ''listener port'', ''targets port'', ''listens on port''] then ''serviceportmismatch''
      else if containsAny statement [''high http error'', ''http 5xx'', ''5xx error'', ''5xx rate'',
           ''error rate''] then ''highhttperror''
      else if containsAny statement [''oomkilled'', ''out of memory'', ''memory limit'', ''memory pressure'',
           ''memory usage'', ''memory threshold'', ''safe threshold''] then ''memorypressure''
      else if containsAny statement [''latency regression'', ''high latency'', ''p95 latency'',
           ''p99 latency'', ''timeout'', ''slow response''] then ''latencyregression''
      else if containsAny statement [''rollout'', ''release'', ''image digest'', ''pod template'',
           ''replicaset'', ''generation changed'', ''deployment change''] then ''rollout''
      else [])"

definition requiredDomainKinds :: "string \<Rightarrow> string list" where
  "requiredDomainKinds profile =
     (if profile \<in> {''imagepullbackoff'', ''imagepullmissing'', ''registryauth'', ''registrydns'',
           ''registryunavailable''} then [''event'']
      else if profile = ''crashloopbackoff'' then [''event'', ''log'']
      else if profile = ''schedulingsuccess'' then [''event'']
      else if profile = ''probefailure'' then [''event'', ''probeconfiguration'']
      else if profile = ''serviceportmismatch'' then [''serviceConfiguration'']
      else if profile = ''highhttperror'' then [''metric'', ''log'']
      else if profile = ''memorypressure'' then [''event'', ''metric'']
      else if profile = ''latencyregression'' then [''metric'']
      else if profile = ''rollout'' then [''deploymentcondition'']
      else [])"

definition evidenceKind :: "VerifierEvidence \<Rightarrow> string" where
  "evidenceKind ref = ToLower (TrimSpace (ve_Kind ref))"

definition domainEvidenceSupports :: "string \<Rightarrow> VerifierEvidence \<Rightarrow> bool" where
  "domainEvidenceSupports profile ref =
     (let kind = evidenceKind ref; text = evidenceText ref in
      if profile = ''imagepullbackoff'' then
        kind = ''event'' \<and> containsAny text [''imagepullbackoff'', ''errimagepull'', ''failed to pull image'',
          ''pull access denied'']
      else if profile = ''imagepullmissing'' then
        kind = ''event'' \<and> containsAny text [''manifest unknown'', ''image not found'', ''image does not exist'',
          ''repository does not exist'', ''no such image'']
      else if profile = ''registryauth'' then
        kind = ''event'' \<and> containsAny text [''pull access denied'', ''unauthorized'',
          ''authentication required'', ''access denied'', ''denied: requested access'']
      else if profile = ''registrydns'' then
        kind = ''event'' \<and> containsAny text [''no such host'', ''dns'', ''name resolution'',
          ''temporary failure in name resolution'', ''host lookup'']
      else if profile = ''registryunavailable'' then
        kind = ''event'' \<and> containsAny text [''connection refused'', ''i/o timeout'', ''registry unavailable'',
          ''service unavailable'', ''registry timeout'']
      else if profile = ''crashloopbackoff'' then
        (if kind = ''event'' then
           containsAny text [''crashloopbackoff'', ''backoff'', ''back off'', ''container crashed'',
             ''restarting failed container'']
         else kind = ''log'' \<and> containsAny text [''panic'', ''fatal'', ''startup error'', ''startup failure'',
             ''failed to initialize'', ''invalid configuration'', ''configuration error'', ''exception'',
             ''segmentation fault''])
      else if profile = ''schedulingsuccess'' then
        (kind = ''event'' \<or> kind = ''scheduling'') \<and>
        (containsAny text [''failedscheduling'', ''failed scheduling'', ''unschedulable'', ''untolerated taint'',
           ''insufficient cpu'', ''insufficient memory''] \<or>
         (kind = ''scheduling'' \<and> Contains text ''podschedul'' \<and> Contains text ''=false''))
      else if profile = ''probefailure'' then
        (kind = ''event'' \<and> containsAny text [''unhealthy'', ''readiness'', ''liveness'', ''probe'', ''not ready'']) \<or>
        (kind = ''probeconfiguration'' \<and> containsAny text [''probeconfigurationmismatch'',
           ''probe configuration mismatch'', ''mismatchconfirmed''])
      else if profile = ''serviceportmismatch'' then
        (kind = ''serviceconfiguration'' \<or> kind = ''event'') \<and>
        containsAny text [''serviceportmismatch'', ''service port mismatch'', ''mismatchconfirmed'',
          ''targetport'', ''target port'', ''targets port'', ''container port'', ''listens on port'',
          ''port mismatch'', ''connection refused'']
      else if profile = ''highhttperror'' then
        (if kind = ''metric'' then containsAny text [''http'', ''5xx'', ''error rate'', ''error ratio'']
         else kind = ''log'' \<and> containsAny text [''connection refused'', ''upstream unavailable'',
           ''dependency unavailable'', ''service unavailable'', ''upstream timeout'', ''failed to connect'',
           ''dial tcp'', ''connection reset''])
      else if profile = ''memorypressure'' then
        (if kind = ''event'' then containsAny text [''oomkilled'', ''out of memory'', ''memory limit'']
         else if kind = ''metric'' then
           containsAny text [''memory'', ''working set'', ''rss'', ''container_memory'']
         else False)
      else if profile = ''latencyregression'' then
        kind = ''metric'' \<and> containsAny text [''latency'', ''duration'', ''response time'', ''p95'', ''p99'',
          ''histogram'']
      else if profile = ''rollout'' then
        kind = ''deploymentcondition'' \<and> containsAny text [''generation'', ''replicaset'', ''replica set'',
          ''pod template'', ''image digest'', ''rollout'', ''progressing'']
      else False)"

text \<open>The identifiers of the references that a test selects.\<close>

definition selectIDs :: "(VerifierEvidence \<Rightarrow> bool) \<Rightarrow> VerifierEvidence list \<Rightarrow> string list" where
  "selectIDs P evidence =
     map (\<lambda>r. TrimSpace (ve_ID r)) (filter (\<lambda>r. TrimSpace (ve_ID r) \<noteq> [] \<and> P r) evidence)"

definition domainSupportEvidenceIDs :: "string \<Rightarrow> VerifierEvidence list \<Rightarrow> string list \<times> bool" where
  "domainSupportEvidenceIDs statement evidence =
     (let profile = domainProfile statement in
      if profile = [] then ([], False)
      else
        let ids = selectIDs (domainEvidenceSupports profile) evidence;
            covered = map evidenceKind (filter (\<lambda>r. TrimSpace (ve_ID r) \<noteq> [] \<and>
              domainEvidenceSupports profile r) evidence) in
        if profile = ''schedulingsuccess'' \<or> profile = ''serviceportmismatch'' then (ids, True)
        else if list_all (\<lambda>k. k \<in> set covered) (requiredDomainKinds profile) then (ids, True)
        else ([], True))"

subsection \<open>Support and contradiction\<close>

definition mentionsTerm :: "string \<Rightarrow> VerifierEvidence \<Rightarrow> bool" where
  "mentionsTerm statement ref \<longleftrightarrow> containsAny (evidenceText ref) (evidenceTerms statement)"

definition evidenceSupportsStatement :: "string \<Rightarrow> VerifierEvidence \<Rightarrow> bool" where
  "evidenceSupportsStatement statement ref \<longleftrightarrow> evidenceText ref \<noteq> [] \<and> mentionsTerm statement ref"

definition containsContradictionMarker :: "string \<Rightarrow> bool" where
  "containsContradictionMarker text \<longleftrightarrow>
     containsAny text [''below threshold'', ''no error'', ''no errors''] \<or>
     list_ex (\<lambda>(marker, negations). marker \<in> set (Fields text) \<and> \<not> containsAny text negations)
       [(''normal'', [''not normal'']), (''healthy'', [''not healthy'']),
        (''ready'', [''not ready'', ''never ready'']), (''available'', [''not available''])]"

definition evidenceContradictsStatement :: "string \<Rightarrow> VerifierEvidence \<Rightarrow> bool" where
  "evidenceContradictsStatement statement ref \<longleftrightarrow>
     evidenceText ref \<noteq> [] \<and> containsContradictionMarker (evidenceText ref) \<and> mentionsTerm statement ref"

definition matchingEvidenceIDs :: "string \<Rightarrow> VerifierEvidence list \<Rightarrow> string list" where
  "matchingEvidenceIDs text evidence =
     (let statement = normalizeText text in
      if statement = [] then [] else selectIDs (evidenceSupportsStatement statement) evidence)"

definition contradictoryEvidenceIDs :: "string \<Rightarrow> VerifierEvidence list \<Rightarrow> string list" where
  "contradictoryEvidenceIDs text evidence =
     (let statement = normalizeText text in
      if statement = [] then [] else selectIDs (evidenceContradictsStatement statement) evidence)"

definition evidenceLinks :: "string list \<Rightarrow> string \<Rightarrow> string \<Rightarrow> EvidenceLink list" where
  "evidenceLinks ids role strength =
     map (\<lambda>i. \<lparr>vel_EvidenceRef = i, vel_Role = role, vel_Strength = strength\<rparr>) ids"

definition claimMatches :: "VerifierEvidence list \<Rightarrow> VerifierClaim \<Rightarrow> string list" where
  "claimMatches evidence claim =
     (case domainSupportEvidenceIDs (vc_Statement claim) evidence of
        (ids, True) \<Rightarrow> ids
      | (_, False) \<Rightarrow> matchingEvidenceIDs (vc_Statement claim) evidence)"

definition verifyClaim :: "VerifierEvidence list \<Rightarrow> VerifierClaim \<Rightarrow> ClaimResult" where
  "verifyClaim evidence claim =
     (let matches = claimMatches evidence claim;
          contradictions = contradictoryEvidenceIDs (vc_Statement claim) evidence;
          verification = VerificationInferred;
          verification = (if evidence = [] then VerificationUnverified else verification);
          verification = (if evidence \<noteq> [] \<and> matches = [] then VerificationUnsupported else verification);
          verification = (if matches \<noteq> [] then VerificationSupported else verification);
          links = evidenceLinks matches ''Supports'' ''Direct'' in
      if contradictions \<noteq> [] then
        \<lparr>vcr_ID = vc_ID claim, vcr_EvidenceRefs = matches,
         vcr_EvidenceLinks = evidenceLinks contradictions ''Contradicts'' ''Direct'',
         vcr_Verification = VerificationContradicted\<rparr>
      else
        \<lparr>vcr_ID = vc_ID claim, vcr_EvidenceRefs = matches, vcr_EvidenceLinks = links,
         vcr_Verification = verification\<rparr>)"

definition claimCounted :: "VerifierEvidence list \<Rightarrow> VerifierClaim \<Rightarrow> bool" where
  "claimCounted evidence claim \<longleftrightarrow> claimMatches evidence claim \<noteq> [] \<and>
     contradictoryEvidenceIDs (vc_Statement claim) evidence = []"

definition VerifyClaims :: "VerifierClaim list \<Rightarrow> VerifierEvidence list \<Rightarrow> VerifierResult" where
  "VerifyClaims claims evidence =
     (if claims = [] then \<lparr>vrs_Claims = [], vrs_CoverageScore = 0, vrs_Method = ''DomainEvidenceCoverageV2''\<rparr>
      else \<lparr>vrs_Claims = map (verifyClaim evidence) claims,
        vrs_CoverageScore = of_nat (length (filter (claimCounted evidence) claims)) / of_nat (length claims),
        vrs_Method = ''DomainEvidenceCoverageV2''\<rparr>)"

subsection \<open>Normalised text\<close>

lemma set_Join: "set (Join xs sep) \<subseteq> \<Union> (set ` set xs) \<union> set sep"
  by (induction xs sep rule: Join.induct) auto

lemma set_Fields: "x \<in> set (Fields s) \<Longrightarrow> set x \<subseteq> set s"
proof (induction s rule: Fields.induct)
  case (1 s)
  show ?case
  proof (cases "dropWhile isSpace s = []")
    case True
    then show ?thesis using "1.prems" by (subst (asm) Fields.simps) (simp add: Let_def)
  next
    case False
    let ?d = "dropWhile isSpace s"
    consider "x = takeWhile (\<lambda>c. \<not> isSpace c) ?d" | "x \<in> set (Fields (dropWhile (\<lambda>c. \<not> isSpace c) ?d))"
      using "1.prems" False by (subst (asm) Fields.simps) (auto simp: Let_def split: if_splits)
    then show ?thesis
    proof cases
      case 1
      then show ?thesis using set_takeWhileD set_dropWhileD by (metis subsetI)
    next
      case 2
      then show ?thesis using "1.IH" [OF refl False 2] set_dropWhileD by (metis subset_eq)
    qed
  qed
qed

lemma set_normalizeText:
  assumes "c \<in> set (normalizeText t)"
  shows "c \<notin> {CHR ''_'', CHR ''-'', CHR ''.'', CHR ''/''}"
proof -
  let ?s = "replaceSeparators (ToLower (TrimSpace t))"
  have no: "d \<notin> {CHR ''_'', CHR ''-'', CHR ''.'', CHR ''/''}" if "d \<in> set ?s" for d
    using that by (auto simp: replaceSeparators_def split: if_splits)
  have "c \<in> \<Union> (set ` set (Fields ?s)) \<union> set '' ''"
    using assms set_Join unfolding normalizeText_def by blast
  then show ?thesis using no set_Fields [of _ ?s] by fastforce
qed

lemma not_Contains_separator:
  assumes "c \<in> set needle" "c \<in> {CHR ''_'', CHR ''-'', CHR ''.'', CHR ''/''}"
  shows "\<not> Contains (normalizeText t) needle"
proof
  assume "Contains (normalizeText t) needle"
  then have "c \<in> set (normalizeText t)" using assms(1) by (auto simp: Contains_iff)
  then show False using set_normalizeText assms(2) by blast
qed

subsection \<open>Verification results\<close>

lemma verifyClaim_simps [simp]:
  "vcr_ID (verifyClaim ev c) = vc_ID c"
  "vcr_EvidenceRefs (verifyClaim ev c) = claimMatches ev c"
  by (simp_all add: verifyClaim_def Let_def)

lemma verifyClaim_verification:
  "vcr_Verification (verifyClaim ev c) =
     (if contradictoryEvidenceIDs (vc_Statement c) ev \<noteq> [] then VerificationContradicted
      else if claimMatches ev c \<noteq> [] then VerificationSupported
      else if ev = [] then VerificationUnverified else VerificationUnsupported)"
  by (simp add: verifyClaim_def Let_def)

lemma verifyClaim_Supported_iff: "vcr_Verification (verifyClaim ev c) = VerificationSupported \<longleftrightarrow> claimCounted ev c"
  by (simp add: verifyClaim_verification claimCounted_def)

lemma vrs_Claims_VerifyClaims [simp]: "vrs_Claims (VerifyClaims cs ev) = map (verifyClaim ev) cs"
  by (simp add: VerifyClaims_def)

lemma selectIDs_iff: "i \<in> set (selectIDs P ev) \<longleftrightarrow> i \<noteq> [] \<and> (\<exists>e\<in>set ev. TrimSpace (ve_ID e) = i \<and> P e)"
  by (auto simp: selectIDs_def)

lemma claimMatches_cases:
  "claimMatches ev c =
     (let p = domainProfile (vc_Statement c) in
      if p = [] then matchingEvidenceIDs (vc_Statement c) ev
      else if p = ''schedulingsuccess'' \<or> p = ''serviceportmismatch'' \<or>
        (\<forall>k\<in>set (requiredDomainKinds p). \<exists>e\<in>set ev. TrimSpace (ve_ID e) \<noteq> [] \<and>
           domainEvidenceSupports p e \<and> evidenceKind e = k)
      then selectIDs (domainEvidenceSupports p) ev else [])"
  by (auto simp: claimMatches_def domainSupportEvidenceIDs_def Let_def list_all_iff image_iff)

lemma claimMatches_in:
  "i \<in> set (claimMatches ev c) \<Longrightarrow> i \<noteq> [] \<and> (\<exists>e\<in>set ev. TrimSpace (ve_ID e) = i)"
  by (auto simp: claimMatches_cases matchingEvidenceIDs_def Let_def selectIDs_iff split: if_splits)

lemma claimMatches_required:
  assumes "claimMatches ev c \<noteq> []" "k \<in> set (requiredDomainKinds (domainProfile (vc_Statement c)))"
    and "domainProfile (vc_Statement c) \<notin> {''schedulingsuccess'', ''serviceportmismatch''}"
  shows "\<exists>e\<in>set ev. evidenceKind e = k \<and> domainEvidenceSupports (domainProfile (vc_Statement c)) e \<and>
    TrimSpace (ve_ID e) \<in> set (claimMatches ev c)"
proof -
  let ?p = "domainProfile (vc_Statement c)"
  have "?p \<noteq> []" using assms(2) by (auto simp: requiredDomainKinds_def)
  then have eq: "claimMatches ev c = selectIDs (domainEvidenceSupports ?p) ev"
    and "\<exists>e\<in>set ev. TrimSpace (ve_ID e) \<noteq> [] \<and> domainEvidenceSupports ?p e \<and> evidenceKind e = k"
    using assms by (auto simp: claimMatches_cases Let_def split: if_splits)
  then show ?thesis by (auto simp: selectIDs_iff)
qed

lemma VerifyClaims_score:
  "vrs_CoverageScore (VerifyClaims cs ev) =
     of_nat (length (filter (\<lambda>r. vcr_Verification r = VerificationSupported) (vrs_Claims (VerifyClaims cs ev))))
       / of_nat (length cs)"
  by (simp add: VerifyClaims_def filter_map o_def verifyClaim_Supported_iff)

text \<open>C26: a claim reported as \<^verbatim>\<open>Supported\<close> is grounded: it cites at least one reference, every cited reference
  is one of the given evidence, each is linked as direct support, no reference contradicts the claim, and
  when the claim belongs to a domain with required evidence kinds, each of these kinds is covered by a cited
  reference that supports the domain (scheduling and service-port claims are exempt in the code).\<close>

theorem supported_claim_grounded:
  assumes "r \<in> set (vrs_Claims (VerifyClaims claims evidence))"
    and "vcr_Verification r = VerificationSupported"
  shows "\<exists>c\<in>set claims. vcr_ID r = vc_ID c \<and> vcr_EvidenceRefs r \<noteq> [] \<and>
    (\<forall>i\<in>set (vcr_EvidenceRefs r). \<exists>e\<in>set evidence. TrimSpace (ve_ID e) = i) \<and>
    vcr_EvidenceLinks r = evidenceLinks (vcr_EvidenceRefs r) ''Supports'' ''Direct'' \<and>
    contradictoryEvidenceIDs (vc_Statement c) evidence = [] \<and>
    (\<forall>k\<in>set (requiredDomainKinds (domainProfile (vc_Statement c))).
       domainProfile (vc_Statement c) \<in> {''schedulingsuccess'', ''serviceportmismatch''} \<or>
       (\<exists>e\<in>set evidence. evidenceKind e = k \<and> domainEvidenceSupports (domainProfile (vc_Statement c)) e \<and>
          TrimSpace (ve_ID e) \<in> set (vcr_EvidenceRefs r)))"
proof -
  obtain c where c: "c \<in> set claims" "r = verifyClaim evidence c" using assms(1) by auto
  have counted: "claimCounted evidence c" using assms(2) c(2) verifyClaim_Supported_iff by blast
  then have "vcr_EvidenceLinks r = evidenceLinks (vcr_EvidenceRefs r) ''Supports'' ''Direct''"
    using c(2) by (simp add: verifyClaim_def claimCounted_def Let_def)
  then show ?thesis
    using c counted claimMatches_in claimMatches_required
    by (intro bexI [of _ c]) (auto simp: claimCounted_def)
qed

theorem supported_claim_grounded_witness:
  "let claim = \<lparr>vc_ID = ''c1'', vc_Statement = ''Container is in CrashLoopBackOff''\<rparr>;
       evs = [\<lparr>ve_ID = ''e1'', ve_Kind = ''Event'', ve_Summary = ''Back-off restarting failed container'',
               ve_Source = ''kubelet'', ve_Reason = ''BackOff''\<rparr>,
              \<lparr>ve_ID = ''e2'', ve_Kind = ''log'', ve_Summary = ''panic: invalid configuration'',
               ve_Source = ''loki'', ve_Reason = ''''\<rparr>];
       r = verifyClaim evs claim in
   vcr_Verification r = VerificationSupported \<and> vcr_EvidenceRefs r = [''e1'', ''e2''] \<and>
   (\<exists>c\<in>set [claim]. vcr_ID r = vc_ID c \<and> contradictoryEvidenceIDs (vc_Statement c) evs = [])"
proof -
  define claim where "claim = \<lparr>vc_ID = ''c1'', vc_Statement = ''Container is in CrashLoopBackOff''\<rparr>"
  define evs where "evs = [\<lparr>ve_ID = ''e1'', ve_Kind = ''Event'', ve_Summary = ''Back-off restarting failed container'',
               ve_Source = ''kubelet'', ve_Reason = ''BackOff''\<rparr>,
              \<lparr>ve_ID = ''e2'', ve_Kind = ''log'', ve_Summary = ''panic: invalid configuration'',
               ve_Source = ''loki'', ve_Reason = ''''\<rparr>]"
  have m: "claimMatches evs claim = [''e1'', ''e2'']" unfolding claim_def evs_def by code_simp
  have n: "contradictoryEvidenceIDs (vc_Statement claim) evs = []" unfolding claim_def evs_def by code_simp
  have s: "vcr_Verification (verifyClaim evs claim) = VerificationSupported"
    by (simp add: verifyClaim_verification m n)
  have "\<exists>c\<in>set [claim]. vcr_ID (verifyClaim evs claim) = vc_ID c \<and>
      contradictoryEvidenceIDs (vc_Statement c) evs = []"
    using supported_claim_grounded [of "verifyClaim evs claim" "[claim]" evs] s by auto
  then show ?thesis using s m unfolding claim_def evs_def Let_def by simp
qed

text \<open> every claim gets exactly one result, in order; the result is \<^verbatim>\<open>Contradicted\<close> exactly when some evidence
  contradicts the claim, otherwise \<^verbatim>\<open>Supported\<close> exactly when a reference matches, otherwise \<^verbatim>\<open>Unverified\<close> or
  \<^verbatim>\<open>Unsupported\<close> as there was no or some evidence (\<^verbatim>\<open>Inferred\<close> is never reported); and the coverage score is
  the share of the results that are \<^verbatim>\<open>Supported\<close>, a number between 0 and 1.\<close>

theorem verification_classified:
  "map vcr_ID (vrs_Claims (VerifyClaims claims evidence)) = map vc_ID claims \<and>
   map vcr_Verification (vrs_Claims (VerifyClaims claims evidence)) =
     map (\<lambda>c. if contradictoryEvidenceIDs (vc_Statement c) evidence \<noteq> [] then ''Contradicted''
              else if claimMatches evidence c \<noteq> [] then ''Supported''
              else if evidence = [] then ''Unverified'' else ''Unsupported'') claims \<and>
   vrs_CoverageScore (VerifyClaims claims evidence) =
     of_nat (length (filter (\<lambda>r. vcr_Verification r = ''Supported'') (vrs_Claims (VerifyClaims claims evidence))))
       / of_nat (length claims) \<and>
   0 \<le> vrs_CoverageScore (VerifyClaims claims evidence) \<and> vrs_CoverageScore (VerifyClaims claims evidence) \<le> 1"
proof -
  let ?n = "length (filter (\<lambda>r. vcr_Verification r = ''Supported'') (vrs_Claims (VerifyClaims claims evidence)))"
  have "?n \<le> length claims" by (rule order_trans [OF length_filter_le]) simp
  then have "(of_nat ?n :: rat) / of_nat (length claims) \<le> 1" by (simp add: divide_le_eq_1)
  then show ?thesis unfolding VerifyClaims_score by (simp add: verifyClaim_verification)
qed

text \<open> evidence texts are normalised with every slash, underscore, hyphen and dot replaced, so the needles
  with such a character never match; in particular a registry claim is reported as unsupported although the
  event carries the \<^verbatim>\<open>i/o timeout\<close> that the domain rule lists.\<close>

theorem separator_needles_never_match:
  "\<not> Contains (evidenceText ref) ''i/o timeout'' \<and> \<not> Contains (evidenceText ref) ''container_memory'' \<and>
   map vcr_Verification (vrs_Claims (VerifyClaims [\<lparr>vc_ID = ''c1'', vc_Statement = ''Image registry timeout''\<rparr>]
     [\<lparr>ve_ID = ''e1'', ve_Kind = ''event'', ve_Summary = ''dial 10.0.0.1:443: i/o timeout'', ve_Source = ''kubelet'',
       ve_Reason = ''Failed''\<rparr>])) = [''Unsupported'']"
proof -
  have "\<not> Contains (evidenceText ref) ''i/o timeout''" "\<not> Contains (evidenceText ref) ''container_memory''"
    unfolding evidenceText_def
    using not_Contains_separator [of "CHR ''/''" "''i/o timeout''"]
      not_Contains_separator [of "CHR ''_''" "''container_memory''"] by simp_all
  moreover have "map vcr_Verification (vrs_Claims (VerifyClaims [\<lparr>vc_ID = ''c1'', vc_Statement = ''Image registry timeout''\<rparr>]
     [\<lparr>ve_ID = ''e1'', ve_Kind = ''event'', ve_Summary = ''dial 10.0.0.1:443: i/o timeout'', ve_Source = ''kubelet'',
       ve_Reason = ''Failed''\<rparr>])) = [''Unsupported'']"
    by code_simp
  ultimately show ?thesis by blast
qed

end
