(* ===== verification/EvidenceGate.thy ===== *)
theory EvidenceGate
  imports Egress Verifier Floats
begin

text \<open>
  The evidence requirements of an investigation (\<^verbatim>\<open>internal/controllers/investigationrequest_controller.go\<close>, from
  \<^verbatim>\<open>evaluateEvidenceRequirements\<close> to \<^verbatim>\<open>metricEvidenceValueAboveZero\<close>): which evidence a profile asks for, whether it
  is complete, and whether it shows no issue.  \<^verbatim>\<open>time.Parse\<close> with the layout RFC 3339 is the parameter \<open>parseTime\<close>.
  \<open>containsAny\<close> is the one of \<open>Verifier\<close>, whose body is the same in both packages.
\<close>

record evidenceRequirementGate =
  erg_Profile :: string
  erg_Complete :: bool
  erg_NoIssueFound :: bool
  erg_Missing :: "RCAMissingEvidence list"
  erg_Coverage :: "RCAEvidenceCoverage option"
  erg_Message :: string

definition missingItem :: "string \<Rightarrow> string \<Rightarrow> RCAMissingEvidence" where
  "missingItem source reason = \<lparr>rme_Source = source, rme_Reason = reason\<rparr>"

definition lowerTrim :: "string \<Rightarrow> string" where
  "lowerTrim s = ToLower (TrimSpace s)"

subsection \<open>What a profile requires\<close>

definition requiredEvidenceKindsForProfile :: "string \<Rightarrow> string list" where
  "requiredEvidenceKindsForProfile profile =
     (let p = lowerTrim profile in
      if p \<in> {''crashloopbackoff'', ''imagepullbackoff''} then [''event'']
      else if p = ''crashloopbackoffv2'' then [''event'', ''containerTermination'']
      else if p = ''oomkilled'' then [''event'', ''metric'']
      else if p = ''latencyregression'' then [''metric'']
      else if p = ''rolloutlatencyregression'' then [''metric'', ''deploymentCondition'']
      else if p \<in> {''highhttperror'', ''highhttperrorrate''} then [''metric'', ''log'']
      else if p = ''serviceportmismatch'' then [''serviceConfiguration'']
      else if p \<in> {''failedscheduling'', ''schedulingsuccess''} then [''event'']
      else if p = ''effectivenessverification'' then [''event'']
      else [])"

definition requiredEvidenceChecksForProfile :: "string \<Rightarrow> string list" where
  "requiredEvidenceChecksForProfile profile =
     (let p = lowerTrim profile in
      if p = ''crashloopbackoff'' then [''event:CrashLoopBackOff'', ''log:ApplicationFailure'']
      else if p = ''crashloopbackoffv2'' then [''event:CrashLoopBackOff'', ''containerTermination:LastTermination'']
      else if p = ''imagepullbackoff'' then [''event:ImagePullBackOff'']
      else if p = ''oomkilled'' then [''event:OOMKilled'', ''metric:Memory'']
      else if p = ''latencyregression'' then [''metric:Latency'']
      else if p = ''rolloutlatencyregression'' then [''metric:Latency'', ''deploymentCondition:Rollout'']
      else if p = ''serviceportmismatch'' then [''serviceConfiguration:ServicePortMismatch'']
      else if p \<in> {''failedscheduling'', ''schedulingsuccess''} then [''event:FailedScheduling'']
      else if p = ''probefailure'' then [''event:Unhealthy'', ''probeConfiguration:ProbeConfigurationMismatch'']
      else if p \<in> {''highhttperror'', ''highhttperrorrate''} then [''metric:HTTP5xx'', ''log:CausalDependency'']
      else [])"

definition isSchedulingProfile :: "string \<Rightarrow> bool" where
  "isSchedulingProfile profile \<longleftrightarrow> lowerTrim profile \<in> {''failedscheduling'', ''schedulingsuccess''}"

subsection \<open>What the evidence shows\<close>

definition joinLower :: "string list \<Rightarrow> string" where
  "joinLower parts = ToLower (Join parts '' '')"

text \<open>The spec counts as well: a declared query of the kind whose texts contain a needle.\<close>

definition queryTexts :: "InvestigationQuery \<Rightarrow> string" where
  "queryTexts query = joinLower ([iq_Name query, iq_Query query, iq_QueryTemplate query] @ iq_Reasons query)"

definition evidenceKindPresent ::
  "InvestigationQuery list \<Rightarrow> EvidenceCollectionResult \<Rightarrow> string \<Rightarrow> string list \<Rightarrow> bool" where
  "evidenceKindPresent queries evidence kind needles =
     (let k = lowerTrim kind in
      list_ex (\<lambda>ref. lowerTrim (ev_Kind ref) = k \<and>
          (needles = [] \<or> containsAny (joinLower [ev_Source ref, ev_Reason ref, ev_Summary ref, ev_Query ref]) needles))
        (ecr_EvidenceRefs evidence) \<or>
      list_ex (\<lambda>query. lowerTrim (iq_QueryType query) = k \<and>
          (needles = [] \<or> containsAny (queryTexts query) needles)) queries)"

definition eventCoveragePresent ::
  "InvestigationQuery list \<Rightarrow> EvidenceCollectionResult \<Rightarrow> string list \<Rightarrow> bool" where
  "eventCoveragePresent queries evidence needles =
     (list_ex (\<lambda>ref. lowerTrim (ev_Kind ref) = ''event'' \<and>
          containsAny (joinLower [ev_Reason ref, ev_Summary ref, ev_Query ref]) needles) (ecr_EvidenceRefs evidence) \<or>
      list_ex (\<lambda>query. lowerTrim (iq_QueryType query) = ''event'' \<and> containsAny (queryTexts query) needles) queries)"

definition crashLoopNeedles :: "string list" where
  "crashLoopNeedles = [''crashloopbackoff'', ''backoff'', ''back-off'', ''unhealthy'', ''killing'', ''container crashed'']"

definition imagePullNeedles :: "string list" where
  "imagePullNeedles = [''imagepullbackoff'', ''errimagepull'', ''failed to pull image'', ''pull access denied'']"

definition oomNeedles :: "string list" where
  "oomNeedles = [''oomkilled'', ''out of memory'', ''memory pressure'', ''memory limit'']"

definition probeEventNeedles :: "string list" where
  "probeEventNeedles = [''unhealthy'', ''readiness probe'', ''liveness probe'', ''probe failed'']"

definition ofKind :: "string \<Rightarrow> EvidenceRef \<Rightarrow> bool" where
  "ofKind kind ref \<longleftrightarrow> EqualFold (TrimSpace (ev_Kind ref)) kind"

definition servicePortMismatchRef :: "EvidenceRef \<Rightarrow> bool" where
  "servicePortMismatchRef ref =
     (let text = joinLower [ev_Reason ref, ev_Summary ref] in
      if \<not> ofKind ''serviceConfiguration'' ref then False
      else if EqualFold (TrimSpace (ev_Reason ref)) ''ServicePortMismatch'' then True
      else if containsAny text [''serviceportmismatch'', ''service port mismatch'', ''mismatchconfirmed=true''] then True
      else if containsAny text [''mismatchconfirmed=false''] then False
      else containsAny text [''does not match'', CHR ''d'' # ''oesn'' @ [CHR 0x27] @ ''t match'', ''not match'', ''mismatch''] \<and>
        containsAny text [''targetport'', ''target port''] \<and> containsAny text [''containerport'', ''container port''])"

definition servicePortMismatchEvidencePresent :: "EvidenceCollectionResult \<Rightarrow> bool" where
  "servicePortMismatchEvidencePresent evidence = list_ex servicePortMismatchRef (ecr_EvidenceRefs evidence)"

definition failedSchedulingRef :: "EvidenceRef \<Rightarrow> bool" where
  "failedSchedulingRef ref =
     (let kind = lowerTrim (ev_Kind ref); text = joinLower [ev_Reason ref, ev_Summary ref] in
      \<not> ev_Truncated ref \<and>
      (kind = ''event'' \<and> containsAny text [''failedscheduling'', ''failed scheduling''] \<or>
       kind = ''scheduling'' \<and> (containsAny text [''unschedulable'', ''failedscheduling'', ''failed scheduling''] \<or>
         Contains text ''podschedul'' \<and> Contains text ''=false'')))"

definition failedSchedulingEvidencePresent :: "EvidenceCollectionResult \<Rightarrow> bool" where
  "failedSchedulingEvidencePresent evidence = list_ex failedSchedulingRef (ecr_EvidenceRefs evidence)"

definition schedulingFailureMechanismEvidencePresent :: "EvidenceCollectionResult \<Rightarrow> bool" where
  "schedulingFailureMechanismEvidencePresent evidence =
     list_ex (\<lambda>result. dgr_DiagnosticID result = ''scheduling'' \<and>
       list_ex (\<lambda>claim. cc_Type claim = ClaimFailureMechanism \<and> Contains (ToLower (cc_Statement claim)) ''could not be scheduled'' \<and>
         cc_EvidenceRefs claim \<noteq> []) (dgr_Claims result)) (ecr_Diagnostics evidence)"

definition probeConfigurationMismatchRef :: "EvidenceRef \<Rightarrow> bool" where
  "probeConfigurationMismatchRef ref =
     (ofKind ''probeConfiguration'' ref \<and>
      (EqualFold (TrimSpace (ev_Reason ref)) ''ProbeConfigurationMismatch'' \<or>
       containsAny (joinLower [ev_Reason ref, ev_Summary ref])
         [''probeconfigurationmismatch'', ''probe configuration mismatch'', ''mismatchconfirmed'']))"

definition probeConfigurationMismatchEvidencePresent :: "EvidenceCollectionResult \<Rightarrow> bool" where
  "probeConfigurationMismatchEvidencePresent evidence = list_ex probeConfigurationMismatchRef (ecr_EvidenceRefs evidence)"

definition fourTexts :: "EvidenceRef \<Rightarrow> string" where
  "fourTexts ref = joinLower [ev_Source ref, ev_Reason ref, ev_Summary ref, ev_Query ref]"

definition http5xxMetricEvidencePresent :: "EvidenceCollectionResult \<Rightarrow> bool" where
  "http5xxMetricEvidencePresent evidence =
     list_ex (\<lambda>ref. ofKind ''metric'' ref \<and> containsAny (fourTexts ref) [''http'', ''5xx'', ''error rate'', ''error ratio''])
       (ecr_EvidenceRefs evidence)"

definition causalDependencyLogEvidencePresent :: "EvidenceCollectionResult \<Rightarrow> bool" where
  "causalDependencyLogEvidencePresent evidence =
     list_ex (\<lambda>ref. ofKind ''log'' ref \<and> ev_RelatedTargets ref \<noteq> [] \<and>
       containsAny (fourTexts ref) [''connection refused'', ''upstream unavailable'', ''dependency unavailable'',
         ''service unavailable'', ''upstream timeout'', ''failed to connect'', ''dial tcp'', ''connection reset''])
       (ecr_EvidenceRefs evidence)"

definition applicationLogEvidencePresent :: "EvidenceCollectionResult \<Rightarrow> bool" where
  "applicationLogEvidencePresent evidence =
     list_ex (\<lambda>ref. ofKind ''log'' ref \<and> containsAny (joinLower [ev_Source ref, ev_Reason ref, ev_Summary ref])
       [''panic'', ''fatal'', ''startup error'', ''startup failure'', ''failed to initialize'', ''invalid configuration'',
        ''configuration error'', ''exception'', ''segmentation fault'']) (ecr_EvidenceRefs evidence)"

text \<open>The loop over the observations with its two flags; the empty result means that a termination was found.\<close>

fun terminationReason ::
  "(string \<Rightarrow> gotime option) \<Rightarrow> Observation list \<Rightarrow> bool \<Rightarrow> bool \<Rightarrow> string" where
  "terminationReason parseTime [] stale truncated =
     (if truncated then ''ContainerTerminationEvidenceTruncated''
      else if stale then ''ContainerTerminationEvidenceStale'' else ''ContainerTerminationEvidenceMissing'')"
| "terminationReason parseTime (o' # os) stale truncated =
     (if obs_Capability o' \<noteq> ''containerTermination'' then terminationReason parseTime os stale truncated
      else if obs_Truncated o' then terminationReason parseTime os stale True
      else case obv_ContainerTermination (obs_Value o') of
        None \<Rightarrow> terminationReason parseTime os stale truncated
      | Some t \<Rightarrow>
          if cto_LastTerminatedReason t = [] \<or> cto_LastTerminatedFinishedAt t = []
          then terminationReason parseTime os stale truncated
          else case parseTime (cto_LastTerminatedFinishedAt t) of
            None \<Rightarrow> terminationReason parseTime os stale truncated
          | Some finishedAt \<Rightarrow>
              let start = trg_Start (obs_TimeRange o'); stop = trg_End (obs_TimeRange o') in
              if start \<noteq> 0 \<and> finishedAt < start then terminationReason parseTime os True truncated
              else if stop \<noteq> 0 \<and> stop < finishedAt then terminationReason parseTime os True truncated
              else [])"

definition containerTerminationEvidenceMissingReason ::
  "(string \<Rightarrow> gotime option) \<Rightarrow> EvidenceCollectionResult \<Rightarrow> string" where
  "containerTerminationEvidenceMissingReason parseTime evidence =
     terminationReason parseTime (ecr_Observations evidence) False False"

definition containerTerminationEvidencePresent ::
  "(string \<Rightarrow> gotime option) \<Rightarrow> EvidenceCollectionResult \<Rightarrow> bool" where
  "containerTerminationEvidencePresent parseTime evidence \<longleftrightarrow>
     containerTerminationEvidenceMissingReason parseTime evidence = []"

subsection \<open>Metric values\<close>

text \<open>\<^verbatim>\<open>strings.FieldsFunc\<close>: the maximal parts without a separator.\<close>

function FieldsFunc :: "(char \<Rightarrow> bool) \<Rightarrow> string \<Rightarrow> string list" where
  "FieldsFunc sep s =
     (let s' = dropWhile sep s in
      if s' = [] then [] else takeWhile (\<lambda>c. \<not> sep c) s' # FieldsFunc sep (dropWhile (\<lambda>c. \<not> sep c) s'))"
  by pat_completeness auto
termination
proof (relation "measure (\<lambda>(_, s). length s)")
  fix sep :: "char \<Rightarrow> bool" and s s' :: string
  assume s': "s' = dropWhile sep s" "s' \<noteq> []"
  then have "\<not> sep (hd s')" using hd_dropWhile [of sep s] by simp
  with s'(2) have "length (dropWhile (\<lambda>c. \<not> sep c) s') < length s'"
    by (cases s') (auto intro: le_imp_less_Suc length_dropWhile_le)
  moreover have "length s' \<le> length s" unfolding s'(1) by (rule length_dropWhile_le)
  ultimately show "((sep, dropWhile (\<lambda>c. \<not> sep c) s'), sep, s) \<in> measure (\<lambda>(_, s). length s)" by simp
qed simp

declare FieldsFunc.simps [simp del]

definition numberSeparator :: "char \<Rightarrow> bool" where
  "numberSeparator c = (c \<noteq> CHR ''.'' \<and> c \<noteq> CHR ''-'' \<and> (byte c < 48 \<or> 57 < byte c))"

text \<open>The last number in the summary of a metric.\<close>

definition metricEvidenceValueAboveZero :: "EvidenceRef \<Rightarrow> bool" where
  "metricEvidenceValueAboveZero ref =
     (lowerTrim (ev_Kind ref) = ''metric'' \<and>
      (case List.map_filter (\<lambda>token. ParseFloat (TrimSpace token)) (FieldsFunc numberSeparator (ev_Summary ref)) of
         [] \<Rightarrow> False
       | v # vs \<Rightarrow> floatLess (Finite 0) (last (v # vs))))"

subsection \<open>Relevance and issues of a profile\<close>

text \<open>Both take the profile in lower case.\<close>

definition evidenceRefRelevantForProfile :: "string \<Rightarrow> EvidenceRef \<Rightarrow> bool" where
  "evidenceRefRelevantForProfile profile ref =
     (let kind = lowerTrim (ev_Kind ref) in
      if profile = ''crashloopbackoff'' then kind \<in> {''event'', ''log''}
      else if profile = ''crashloopbackoffv2'' then kind = ''event'' \<or> kind = ''containerTermination''
      else if profile = ''imagepullbackoff'' then kind = ''event''
      else if profile = ''oomkilled'' then kind \<in> {''event'', ''metric''}
      else if profile = ''latencyregression'' then kind = ''metric''
      else if profile = ''rolloutlatencyregression'' then kind \<in> {''metric'', ''deploymentcondition''}
      else if profile = ''serviceportmismatch'' then kind = ''serviceconfiguration''
      else if profile \<in> {''failedscheduling'', ''schedulingsuccess''} then kind \<in> {''event'', ''scheduling''}
      else if profile = ''effectivenessverification'' then kind = ''event''
      else if profile = ''probefailure'' then kind \<in> {''event'', ''probeconfiguration''}
      else if profile \<in> {''highhttperror'', ''highhttperrorrate''} then kind \<in> {''metric'', ''log''}
      else False)"

definition evidenceRefMatchesProfileIssue :: "string \<Rightarrow> EvidenceRef \<Rightarrow> bool" where
  "evidenceRefMatchesProfileIssue profile ref =
     (let text = joinLower [ev_Kind ref, ev_Source ref, ev_Reason ref, ev_Summary ref] in
      if profile = ''imagepullbackoff'' then containsAny text imagePullNeedles
      else if profile = ''crashloopbackoff'' then
        containsAny text [''crashloopbackoff'', ''backoff'', ''back-off'', ''container crashed'', ''unhealthy'', ''killing'',
          ''panic'', ''fatal'', ''startup error'', ''startup failure'', ''failed to initialize'', ''invalid configuration'',
          ''configuration error'', ''exception'', ''segmentation fault'']
      else if profile = ''crashloopbackoffv2'' then
        containsAny text [''crashloopbackoff'', ''backoff'', ''back-off'', ''container crashed'', ''unhealthy'', ''killing'']
      else if profile \<in> {''highhttperror'', ''highhttperrorrate''} then
        containsAny text [''http'', ''5xx'', ''error rate'', ''error ratio'', ''connection refused'', ''upstream unavailable'',
          ''dependency unavailable'', ''service unavailable'', ''upstream timeout'', ''failed to connect'', ''dial tcp'',
          ''connection reset'']
      else if profile = ''oomkilled'' then containsAny text oomNeedles \<or> metricEvidenceValueAboveZero ref
      else if profile = ''latencyregression'' then metricEvidenceValueAboveZero ref
      else if profile = ''rolloutlatencyregression'' then
        metricEvidenceValueAboveZero ref \<or>
        containsAny text [''progressdeadlinexceeded'', ''unavailable'', ''replicafailure'', ''available=false'', ''progressing=false'']
      else if profile = ''serviceportmismatch'' then
        containsAny text [''serviceportmismatch'', ''service port mismatch'', ''mismatchconfirmed'', ''targetport'',
          ''target port'', ''container port'']
      else if profile \<in> {''failedscheduling'', ''schedulingsuccess''} then
        containsAny text [''failedscheduling'', ''failed scheduling'', ''unschedulable''] \<or>
        Contains text ''podschedul'' \<and> Contains text ''=false''
      else if profile = ''effectivenessverification'' then ofKind ''event'' ref
      else if profile = ''probefailure'' then
        containsAny text [''probeconfigurationmismatch'', ''probe configuration mismatch'', ''mismatchconfirmed'']
      else False)"

definition evidenceProfileIssueMatchCount :: "string \<Rightarrow> EvidenceCollectionResult \<Rightarrow> int" where
  "evidenceProfileIssueMatchCount profile evidence =
     (let profileKey = lowerTrim profile in
      if profileKey = [] then 0
      else int (length (filter (\<lambda>ref. evidenceRefRelevantForProfile profileKey ref \<and>
        evidenceRefMatchesProfileIssue profileKey ref) (ecr_EvidenceRefs evidence))))"

definition evidenceProfileHasNoIssue ::
  "(string \<Rightarrow> gotime option) \<Rightarrow> string \<Rightarrow> InvestigationQuery list \<Rightarrow> EvidenceCollectionResult \<Rightarrow> bool" where
  "evidenceProfileHasNoIssue parseTime profile queries evidence =
     (let profileKey = lowerTrim profile;
          relevant = filter (evidenceRefRelevantForProfile profileKey) (ecr_EvidenceRefs evidence) in
      if profileKey = [] then False
      else if profileKey = ''effectivenessverification'' then \<not> list_ex (ofKind ''event'') (ecr_EvidenceRefs evidence)
      else if list_ex (evidenceRefMatchesProfileIssue profileKey) relevant then False
      else if relevant \<noteq> [] then True
      else if profileKey = ''crashloopbackoff'' then
        eventCoveragePresent queries evidence crashLoopNeedles \<and> applicationLogEvidencePresent evidence
      else if profileKey = ''crashloopbackoffv2'' then
        eventCoveragePresent queries evidence crashLoopNeedles \<and> containerTerminationEvidencePresent parseTime evidence
      else if profileKey = ''imagepullbackoff'' then eventCoveragePresent queries evidence imagePullNeedles
      else if profileKey = ''oomkilled'' then eventCoveragePresent queries evidence oomNeedles
      else if profileKey \<in> {''highhttperror'', ''highhttperrorrate''} then
        http5xxMetricEvidencePresent evidence \<and> causalDependencyLogEvidencePresent evidence
      else False)"

subsection \<open>Coverage\<close>

definition unless :: "bool \<Rightarrow> RCAMissingEvidence \<Rightarrow> RCAMissingEvidence list" where
  "unless present item = (if present then [] else [item])"

definition kindDeclared :: "string \<Rightarrow> InvestigationQuery list \<Rightarrow> EvidenceCollectionResult \<Rightarrow> bool" where
  "kindDeclared kind queries evidence \<longleftrightarrow>
     list_ex (\<lambda>query. lowerTrim (iq_QueryType query) = kind) queries \<or>
     list_ex (\<lambda>ref. lowerTrim (ev_Kind ref) = kind) (ecr_EvidenceRefs evidence)"

definition missingSemanticEvidenceCoverage ::
  "(string \<Rightarrow> gotime option) \<Rightarrow> string \<Rightarrow> InvestigationQuery list \<Rightarrow> EvidenceCollectionResult \<Rightarrow> RCAMissingEvidence list" where
  "missingSemanticEvidenceCoverage parseTime profile queries evidence =
     (let p = lowerTrim profile in
      if p = ''crashloopbackoff'' then
        unless (eventCoveragePresent queries evidence crashLoopNeedles)
          (missingItem ''event'' ''CrashLoopEvidenceCoverageMissing'') @
        unless (applicationLogEvidencePresent evidence) (missingItem ''log'' ''CrashLoopApplicationEvidenceMissing'')
      else if p = ''crashloopbackoffv2'' then
        unless (eventCoveragePresent queries evidence crashLoopNeedles)
          (missingItem ''event'' ''CrashLoopEvidenceCoverageMissing'') @
        (let reason = containerTerminationEvidenceMissingReason parseTime evidence in
         unless (reason = []) (missingItem ''containerTermination'' reason))
      else if p = ''imagepullbackoff'' then
        unless (eventCoveragePresent queries evidence imagePullNeedles)
          (missingItem ''event'' ''ImagePullEvidenceCoverageMissing'')
      else if p = ''oomkilled'' then
        unless (eventCoveragePresent queries evidence oomNeedles) (missingItem ''event'' ''OOMEventEvidenceCoverageMissing'')
      else if p = ''serviceportmismatch'' then
        unless (servicePortMismatchEvidencePresent evidence)
          (missingItem ''serviceConfiguration'' ''ServicePortEvidenceMissing'')
      else if p \<in> {''failedscheduling'', ''schedulingsuccess''} then
        unless (failedSchedulingEvidencePresent evidence) (missingItem ''event'' ''SchedulingPredicateEvidenceMissing'')
      else if p = ''probefailure'' then
        unless (eventCoveragePresent queries evidence probeEventNeedles)
          (missingItem ''event'' ''ProbeFailureEventEvidenceMissing'') @
        unless (probeConfigurationMismatchEvidencePresent evidence)
          (missingItem ''probeConfiguration'' ''ProbeConfigurationEvidenceMissing'')
      else if p \<in> {''highhttperror'', ''highhttperrorrate''} then
        unless (\<not> kindDeclared ''metric'' queries evidence \<or> http5xxMetricEvidencePresent evidence)
          (missingItem ''metric'' ''HTTP5xxMetricEvidenceMissing'') @
        unless (\<not> kindDeclared ''log'' queries evidence \<or> causalDependencyLogEvidencePresent evidence)
          (missingItem ''log'' ''HTTPErrorCausalLogEvidenceMissing'')
      else [])"

definition missingReasonPresent :: "RCAMissingEvidence list \<Rightarrow> string \<Rightarrow> bool" where
  "missingReasonPresent missing reason = list_ex (\<lambda>item. rme_Reason item = reason) missing"

definition evidenceCoverageCheckComplete ::
  "(string \<Rightarrow> gotime option) \<Rightarrow> string \<Rightarrow> InvestigationQuery list \<Rightarrow> EvidenceCollectionResult \<Rightarrow> RCAMissingEvidence list \<Rightarrow> bool" where
  "evidenceCoverageCheckComplete parseTime check queries evidence missing =
     (if check = ''event:CrashLoopBackOff'' then
        \<not> missingReasonPresent missing ''CrashLoopEvidenceCoverageMissing'' \<and>
        eventCoveragePresent queries evidence crashLoopNeedles
      else if check = ''log:ApplicationFailure'' then
        \<not> missingReasonPresent missing ''CrashLoopApplicationEvidenceMissing'' \<and> applicationLogEvidencePresent evidence
      else if check = ''containerTermination:LastTermination'' then
        \<not> missingReasonPresent missing ''ContainerTerminationEvidenceMissing'' \<and>
        \<not> missingReasonPresent missing ''ContainerTerminationEvidenceStale'' \<and>
        \<not> missingReasonPresent missing ''ContainerTerminationEvidenceTruncated'' \<and>
        containerTerminationEvidencePresent parseTime evidence
      else if check = ''event:ImagePullBackOff'' then
        \<not> missingReasonPresent missing ''ImagePullEvidenceCoverageMissing'' \<and>
        eventCoveragePresent queries evidence imagePullNeedles
      else if check = ''event:OOMKilled'' then
        \<not> missingReasonPresent missing ''OOMEventEvidenceCoverageMissing'' \<and> eventCoveragePresent queries evidence oomNeedles
      else if check = ''metric:Memory'' then evidenceKindPresent queries evidence ''metric'' [''memory'', ''oom'', ''container_memory'']
      else if check = ''metric:Latency'' then
        evidenceKindPresent queries evidence ''metric'' [''latency'', ''duration'', ''http_request'']
      else if check = ''deploymentCondition:Rollout'' then
        evidenceKindPresent queries evidence ''deploymentCondition'' [''rollout'', ''deployment'', ''progressing'', ''available'']
      else if check = ''serviceConfiguration:ServicePortMismatch'' then servicePortMismatchEvidencePresent evidence
      else if check = ''event:FailedScheduling'' then failedSchedulingEvidencePresent evidence
      else if check = ''event:Unhealthy'' then eventCoveragePresent queries evidence probeEventNeedles
      else if check = ''probeConfiguration:ProbeConfigurationMismatch'' then probeConfigurationMismatchEvidencePresent evidence
      else if check = ''metric:HTTP5xx'' then http5xxMetricEvidencePresent evidence
      else if check = ''log:CausalDependency'' then causalDependencyLogEvidencePresent evidence
      else False)"

definition evidenceCoverageAudit ::
  "(string \<Rightarrow> gotime option) \<Rightarrow> string \<Rightarrow> InvestigationQuery list \<Rightarrow> EvidenceCollectionResult \<Rightarrow> RCAMissingEvidence list \<Rightarrow>
   RCAEvidenceCoverage option" where
  "evidenceCoverageAudit parseTime profile queries evidence missing =
     (let checks = requiredEvidenceChecksForProfile profile;
          complete = (\<lambda>check. evidenceCoverageCheckComplete parseTime check queries evidence missing) in
      if checks = [] then None
      else Some \<lparr>rec_Profile = TrimSpace profile, rec_RequiredChecks = checks,
        rec_CompletedChecks = filter complete checks, rec_IncompleteChecks = filter (\<lambda>c. \<not> complete c) checks,
        rec_IssueMatches = wrap32 (evidenceProfileIssueMatchCount profile evidence)\<rparr>)"

text \<open>The kinds present, as they are written in the queries and the references.\<close>

definition kindPresent :: "InvestigationQuery list \<Rightarrow> EvidenceCollectionResult \<Rightarrow> string \<Rightarrow> bool" where
  "kindPresent queries evidence kind \<longleftrightarrow>
     kind \<noteq> [] \<and> (list_ex (\<lambda>query. TrimSpace (iq_QueryType query) = kind) queries \<or>
       list_ex (\<lambda>ref. TrimSpace (ev_Kind ref) = kind) (ecr_EvidenceRefs evidence))"

definition requiredKindSatisfied :: "string \<Rightarrow> InvestigationQuery list \<Rightarrow> EvidenceCollectionResult \<Rightarrow> string \<Rightarrow> bool" where
  "requiredKindSatisfied profile queries evidence kind \<longleftrightarrow>
     kindPresent queries evidence kind \<or>
     isSchedulingProfile profile \<and> kind = ''event'' \<and> kindPresent queries evidence ''scheduling''"

definition evaluateEvidenceRequirements ::
  "(string \<Rightarrow> gotime option) \<Rightarrow> InvestigationRequestSpec \<Rightarrow> EvidenceCollectionResult \<Rightarrow> evidenceRequirementGate option" where
  "evaluateEvidenceRequirements parseTime spec evidence =
     (let profile = TrimSpace (ers_Profile (irs_EvidenceRequirements spec)); queries = irs_Queries spec;
          requiredKinds = requiredEvidenceKindsForProfile profile in
      if profile = [] \<or> ecr_Issue evidence \<noteq> None then None
      else if requiredKinds = [] then None
      else
        let missing = map (\<lambda>kind. missingItem kind ''RequiredEvidenceMissing'')
              (filter (\<lambda>kind. \<not> requiredKindSatisfied profile queries evidence kind) requiredKinds) @
              missingSemanticEvidenceCoverage parseTime profile queries evidence;
            coverage = evidenceCoverageAudit parseTime profile queries evidence missing in
        if missing = [] then Some
          \<lparr>erg_Profile = profile, erg_Complete = True,
           erg_NoIssueFound = evidenceProfileHasNoIssue parseTime profile queries evidence, erg_Missing = [],
           erg_Coverage = coverage, erg_Message = ''required evidence profile '' @ quote profile @ '' is complete''\<rparr>
        else Some
          \<lparr>erg_Profile = profile, erg_Complete = False, erg_NoIssueFound = False, erg_Missing = missing,
           erg_Coverage = coverage, erg_Message = ''required evidence profile '' @ quote profile @ '' is incomplete''\<rparr>)"

subsection \<open>Properties of the gate\<close>

lemma coverage_partition:
  assumes "evidenceCoverageAudit parseTime profile queries evidence missing = Some c"
  shows "mset (rec_CompletedChecks c) + mset (rec_IncompleteChecks c) = mset (rec_RequiredChecks c) \<and>
    rec_RequiredChecks c = requiredEvidenceChecksForProfile profile \<and>
    set (rec_CompletedChecks c) \<inter> set (rec_IncompleteChecks c) = {}"
  using assms by (auto simp: evidenceCoverageAudit_def Let_def split: if_splits)

lemma matches_effectiveness:
  "evidenceRefMatchesProfileIssue ''effectivenessverification'' ref \<longleftrightarrow> ofKind ''event'' ref"
  by (simp add: evidenceRefMatchesProfileIssue_def)

lemma no_issue_no_match:
  assumes "evidenceProfileHasNoIssue parseTime profile queries evidence"
  shows "evidenceProfileIssueMatchCount profile evidence = 0"
proof (cases "lowerTrim profile = ''effectivenessverification''")
  case True
  then have "\<not> list_ex (ofKind ''event'') (ecr_EvidenceRefs evidence)"
    using assms by (simp add: evidenceProfileHasNoIssue_def)
  then show ?thesis
    unfolding evidenceProfileIssueMatchCount_def Let_def True matches_effectiveness
    by (auto simp: list_ex_iff filter_empty_conv)
next
  case False
  let ?key = "lowerTrim profile"
  have "\<not> list_ex (evidenceRefMatchesProfileIssue ?key) (filter (evidenceRefRelevantForProfile ?key) (ecr_EvidenceRefs evidence))"
  proof
    assume "list_ex (evidenceRefMatchesProfileIssue ?key) (filter (evidenceRefRelevantForProfile ?key) (ecr_EvidenceRefs evidence))"
    with assms show False unfolding evidenceProfileHasNoIssue_def Let_def if_not_P [OF False] by (metis (full_types))
  qed
  then show ?thesis unfolding evidenceProfileIssueMatchCount_def Let_def by (auto simp: list_ex_iff filter_empty_conv)
qed


text \<open> the profile \<^verbatim>\<open>ProbeFailure\<close> has required checks, but the gate never looks at them: whatever the request
  declares and whatever was collected, no requirement is evaluated, so the investigation goes on to the provider
  without the evidence that the documentation calls required.\<close>

theorem probe_failure_never_gated:
  "requiredEvidenceChecksForProfile ''ProbeFailure'' =
     [''event:Unhealthy'', ''probeConfiguration:ProbeConfigurationMismatch''] \<and>
   evaluateEvidenceRequirements parseTime (spec\<lparr>irs_EvidenceRequirements := \<lparr>ers_Profile = ''ProbeFailure''\<rparr>\<rparr>) evidence = None"
proof -
  have "requiredEvidenceKindsForProfile ''ProbeFailure'' = []" by code_simp
  moreover have "TrimSpace ''ProbeFailure'' = ''ProbeFailure''" by code_simp
  moreover have "requiredEvidenceChecksForProfile ''ProbeFailure'' =
     [''event:Unhealthy'', ''probeConfiguration:ProbeConfigurationMismatch'']" by code_simp
  ultimately show ?thesis by (simp add: evaluateEvidenceRequirements_def Let_def)
qed

subsection \<open>Truncated evidence\<close>

definition truncateAll :: "EvidenceCollectionResult \<Rightarrow> EvidenceCollectionResult" where
  "truncateAll evidence = evidence\<lparr>ecr_EvidenceRefs := map (\<lambda>ref. ref\<lparr>ev_Truncated := True\<rparr>) (ecr_EvidenceRefs evidence)\<rparr>"

lemma truncated_ref [simp]:
  "ofKind k (ref\<lparr>ev_Truncated := b\<rparr>) = ofKind k ref"
  "servicePortMismatchRef (ref\<lparr>ev_Truncated := b\<rparr>) = servicePortMismatchRef ref"
  "probeConfigurationMismatchRef (ref\<lparr>ev_Truncated := b\<rparr>) = probeConfigurationMismatchRef ref"
  "fourTexts (ref\<lparr>ev_Truncated := b\<rparr>) = fourTexts ref"
  "metricEvidenceValueAboveZero (ref\<lparr>ev_Truncated := b\<rparr>) = metricEvidenceValueAboveZero ref"
  by (simp_all add: ofKind_def servicePortMismatchRef_def probeConfigurationMismatchRef_def fourTexts_def
      metricEvidenceValueAboveZero_def)

lemma truncated_issue [simp]:
  "evidenceRefRelevantForProfile p (ref\<lparr>ev_Truncated := b\<rparr>) = evidenceRefRelevantForProfile p ref"
  "evidenceRefMatchesProfileIssue p (ref\<lparr>ev_Truncated := b\<rparr>) = evidenceRefMatchesProfileIssue p ref"
  by (simp_all add: evidenceRefRelevantForProfile_def evidenceRefMatchesProfileIssue_def)

lemma truncateAll_present [simp]:
  "ecr_Issue (truncateAll ev) = ecr_Issue ev"
  "evidenceKindPresent q (truncateAll ev) k n = evidenceKindPresent q ev k n"
  "eventCoveragePresent q (truncateAll ev) n = eventCoveragePresent q ev n"
  "servicePortMismatchEvidencePresent (truncateAll ev) = servicePortMismatchEvidencePresent ev"
  "probeConfigurationMismatchEvidencePresent (truncateAll ev) = probeConfigurationMismatchEvidencePresent ev"
  "http5xxMetricEvidencePresent (truncateAll ev) = http5xxMetricEvidencePresent ev"
  "causalDependencyLogEvidencePresent (truncateAll ev) = causalDependencyLogEvidencePresent ev"
  "applicationLogEvidencePresent (truncateAll ev) = applicationLogEvidencePresent ev"
  "containerTerminationEvidenceMissingReason pt (truncateAll ev) = containerTerminationEvidenceMissingReason pt ev"
  "kindDeclared k q (truncateAll ev) = kindDeclared k q ev"
  "kindPresent q (truncateAll ev) k = kindPresent q ev k"
  by (simp_all add: truncateAll_def evidenceKindPresent_def eventCoveragePresent_def servicePortMismatchEvidencePresent_def
      probeConfigurationMismatchEvidencePresent_def http5xxMetricEvidencePresent_def causalDependencyLogEvidencePresent_def
      applicationLogEvidencePresent_def containerTerminationEvidenceMissingReason_def kindDeclared_def kindPresent_def
      list_ex_iff)

lemma truncateAll_profile:
  "evidenceProfileIssueMatchCount p (truncateAll ev) = evidenceProfileIssueMatchCount p ev"
  "evidenceProfileHasNoIssue pt p q (truncateAll ev) = evidenceProfileHasNoIssue pt p q ev"
proof -
  have f: "filter (evidenceRefRelevantForProfile k) (ecr_EvidenceRefs (truncateAll ev)) =
      map (\<lambda>ref. ref\<lparr>ev_Truncated := True\<rparr>) (filter (evidenceRefRelevantForProfile k) (ecr_EvidenceRefs ev))" for k
    by (simp add: truncateAll_def filter_map o_def)
  have g: "list_ex f (ecr_EvidenceRefs (truncateAll ev)) = list_ex f (ecr_EvidenceRefs ev)"
    if "\<And>ref. f (ref\<lparr>ev_Truncated := True\<rparr>) = f ref" for f
    using that by (simp add: truncateAll_def list_ex_iff)
  have h: "list_ex (evidenceRefMatchesProfileIssue k) (map (\<lambda>ref. ref\<lparr>ev_Truncated := True\<rparr>) refs) =
      list_ex (evidenceRefMatchesProfileIssue k) refs" for k refs
    by (simp add: list_ex_iff)
  show "evidenceProfileIssueMatchCount p (truncateAll ev) = evidenceProfileIssueMatchCount p ev"
    by (simp add: evidenceProfileIssueMatchCount_def truncateAll_def filter_map o_def Let_def)
  show "evidenceProfileHasNoIssue pt p q (truncateAll ev) = evidenceProfileHasNoIssue pt p q ev"
    unfolding evidenceProfileHasNoIssue_def Let_def f h
    by (simp add: g containerTerminationEvidencePresent_def)
qed

lemma truncateAll_missing:
  assumes "\<not> isSchedulingProfile p"
  shows "missingSemanticEvidenceCoverage pt p q (truncateAll ev) = missingSemanticEvidenceCoverage pt p q ev"
    and "evidenceCoverageAudit pt p q (truncateAll ev) missing = evidenceCoverageAudit pt p q ev missing"
proof -
  show "missingSemanticEvidenceCoverage pt p q (truncateAll ev) = missingSemanticEvidenceCoverage pt p q ev"
    using assms unfolding missingSemanticEvidenceCoverage_def isSchedulingProfile_def Let_def by simp
  have "''event:FailedScheduling'' \<notin> set (requiredEvidenceChecksForProfile p)"
    using assms by (auto simp: requiredEvidenceChecksForProfile_def isSchedulingProfile_def Let_def)
  then have same: "evidenceCoverageCheckComplete pt check q (truncateAll ev) missing = evidenceCoverageCheckComplete pt check q ev missing"
    if "check \<in> set (requiredEvidenceChecksForProfile p)" for check
    using that unfolding evidenceCoverageCheckComplete_def containerTerminationEvidencePresent_def
    by (cases "check = ''event:FailedScheduling''") simp_all
  then show "evidenceCoverageAudit pt p q (truncateAll ev) missing = evidenceCoverageAudit pt p q ev missing"
    unfolding evidenceCoverageAudit_def Let_def truncateAll_profile by (simp cong: filter_cong)
qed

lemma truncation_ignored:
  assumes "\<not> isSchedulingProfile (TrimSpace (ers_Profile (irs_EvidenceRequirements spec)))"
  shows "evaluateEvidenceRequirements pt spec (truncateAll ev) = evaluateEvidenceRequirements pt spec ev"
  unfolding evaluateEvidenceRequirements_def Let_def truncateAll_missing [OF assms] truncateAll_profile
    requiredKindSatisfied_def by simp

subsection \<open>Concrete requests\<close>

definition profileSpec :: "string \<Rightarrow> InvestigationQuery list \<Rightarrow> InvestigationRequestSpec" where
  "profileSpec profile queries =
     \<lparr>irs_Target = \<lparr>t_Cluster = [], t_Namespace = ''shop'', t_Kind = ''Deployment'', t_Name = ''api'', t_APIVersion = ''apps/v1'',
        t_Service = []\<rparr>,
      irs_Purpose = [], irs_Correlation = None, irs_TimeRange = \<lparr>itr_Lookback = 10 * minute\<rparr>, irs_Question = [],
      irs_DataSources = [], irs_Queries = queries, irs_ModelProviderRef = [], irs_Mode = ''readOnly'',
      irs_CreateRiskSignal = False, irs_EvidenceRequirements = \<lparr>ers_Profile = profile\<rparr>,
      irs_EvidenceRetention = \<lparr>erp_Mode = [], erp_Retention = 0, erp_StorageRef = [], erp_Encryption = \<lparr>ere_Required = False\<rparr>,
        erp_DeletionPolicy = [], erp_AccessPolicy = \<lparr>eap_NamespaceScoped = False\<rparr>\<rparr>,
      irs_QueryRetention = \<lparr>qrp_Mode = []\<rparr>,
      irs_QueryBudget = \<lparr>iqb_MaxTimeRange = 0, iqb_MaxQueriesTotal = 0, iqb_MaxQueriesPerSource = 0, iqb_MaxConcurrentQueries = 0,
        iqb_MaxCumulativeDuration = 0, iqb_MaxCumulativeResponseBytes = 0,
        iqb_ResultLimits = \<lparr>qrl_Metrics = \<lparr>mrl_MaxSeries = 0, mrl_MaxSamples = 0\<rparr>,
          qrl_Logs = \<lparr>lrl_MaxStreams = 0, lrl_MaxEntries = 0, lrl_MaxLines = 0\<rparr>, qrl_Events = \<lparr>erl_MaxRecords = 0\<rparr>\<rparr>\<rparr>,
      irs_LoopPolicy = \<lparr>ilp_MaxDepth = 0, ilp_AllowRiskSignalSource = False\<rparr>, irs_TTLSeconds = 0\<rparr>"

definition eventQuery :: "string \<Rightarrow> InvestigationQuery" where
  "eventQuery text = \<lparr>iq_Name = ''events'', iq_DatasourceRef = ''cluster'', iq_QueryType = ''event'', iq_Query = text,
     iq_QueryTemplate = [], iq_Reasons = []\<rparr>"

definition collectedRefs :: "EvidenceRef list \<Rightarrow> EvidenceCollectionResult" where
  "collectedRefs refs = \<lparr>ecr_Summary = [], ecr_EvidenceRefs = refs, ecr_Observations = [], ecr_SchedulingEvidence = [],
     ecr_Scheduling = [], ecr_Diagnostics = [], ecr_Issue = None\<rparr>"

definition demoRef :: "string \<Rightarrow> string \<Rightarrow> string \<Rightarrow> string \<Rightarrow> EvidenceRef" where
  "demoRef id' kind reason summary =
     emptyEvidenceRef\<lparr>ev_ID := id', ev_Kind := kind, ev_Source := ''cluster'', ev_Reason := reason, ev_Summary := summary\<rparr>"

definition healthyPull :: EvidenceCollectionResult where
  "healthyPull = collectedRefs [demoRef ''e1'' ''event'' ''Pulled'' ''Container image app:v2 already present on machine'']"

lemma healthyPull_gate:
  "map_option (\<lambda>g. (erg_Complete g, erg_NoIssueFound g, erg_Missing g))
     (evaluateEvidenceRequirements (\<lambda>_. None) (profileSpec ''ImagePullBackOff'' [eventQuery ''ImagePullBackOff'']) healthyPull) =
   Some (True, True, [])"
  by code_simp


text \<open> truncation of the required evidence does not prevent the finding that there is no issue: outside the scheduling
  profiles the gate returns the same when every reference was truncated, and in particular an image-pull investigation
  whose only evidence was cut off is completed with \<^verbatim>\<open>NoIssueFound\<close>.\<close>

theorem truncation_does_not_block_no_issue:
  "(if isSchedulingProfile (TrimSpace (ers_Profile (irs_EvidenceRequirements spec))) then True
    else evaluateEvidenceRequirements parseTime spec (truncateAll evidence) = evaluateEvidenceRequirements parseTime spec evidence) \<and>
   map_option (\<lambda>g. (erg_Complete g, erg_NoIssueFound g, erg_Missing g))
     (evaluateEvidenceRequirements (\<lambda>_. None) (profileSpec ''ImagePullBackOff'' [eventQuery ''ImagePullBackOff''])
        (truncateAll healthyPull)) = Some (True, True, [])"
proof -
  have "\<not> isSchedulingProfile (TrimSpace ''ImagePullBackOff'')" by code_simp
  then show ?thesis using healthyPull_gate by (simp add: truncation_ignored profileSpec_def)
qed

text \<open> under the profile \<^verbatim>\<open>CrashLoopBackOffV2\<close> the references to container terminations are never looked at (their kind
  is compared in lower case with a name in mixed case), so a container that is waiting in
  \<^verbatim>\<open>CrashLoopBackOff\<close> after seven restarts, with its last termination in the evidence, is reported as \<^verbatim>\<open>NoIssueFound\<close> with complete evidence.\<close>

definition terminationQuery :: InvestigationQuery where
  "terminationQuery = (eventQuery ''termination'')\<lparr>iq_QueryType := ''containerTermination''\<rparr>"

definition crashedObservation :: Observation where
  "crashedObservation = emptyObservation\<lparr>obs_Capability := ''containerTermination'',
     obs_TimeRange := \<lparr>trg_Start = 100, trg_End = 200\<rparr>,
     obs_Value := emptyObservationValue\<lparr>obv_ContainerTermination := Some \<lparr>cto_PodName = ''api-1'', cto_PodUID = [],
       cto_ContainerName = ''api'', cto_RestartCount = 7, cto_WaitingReason = ''CrashLoopBackOff'',
       cto_LastTerminatedReason = ''Error'', cto_LastTerminatedExitCode = 1, cto_LastTerminatedSignal = 0,
       cto_LastTerminatedFinishedAt = ''t''\<rparr>\<rparr>\<rparr>"

definition crashedContainer :: EvidenceCollectionResult where
  "crashedContainer = (collectedRefs [demoRef ''evidence-001'' ''containerTermination'' []
     ''Pod api-1 container api restartCount=7 waitingReason=CrashLoopBackOff lastTerminatedReason=Error exitCode=1''])\<lparr>ecr_Observations := [crashedObservation]\<rparr>"

theorem crashed_container_no_issue:
  "evidenceRefRelevantForProfile ''crashloopbackoffv2'' ref = (lowerTrim (ev_Kind ref) = ''event'') \<and>
   map_option (\<lambda>g. (erg_Complete g, erg_NoIssueFound g, erg_Missing g))
     (evaluateEvidenceRequirements (\<lambda>_. Some 150)
        (profileSpec ''CrashLoopBackOffV2'' [eventQuery ''BackOff'', terminationQuery]) crashedContainer) = Some (True, True, [])"
proof -
  have "ToLower s \<noteq> ''containerTermination''" for s
  proof
    assume "ToLower s = ''containerTermination''"
    then have "ToLower ''containerTermination'' = ''containerTermination''" by (metis ToLower_idem)
    then show False by code_simp
  qed
  then have "evidenceRefRelevantForProfile ''crashloopbackoffv2'' ref = (lowerTrim (ev_Kind ref) = ''event'')"
    by (simp add: evidenceRefRelevantForProfile_def lowerTrim_def)
  moreover have "map_option (\<lambda>g. (erg_Complete g, erg_NoIssueFound g, erg_Missing g))
     (evaluateEvidenceRequirements (\<lambda>_. Some 150)
        (profileSpec ''CrashLoopBackOffV2'' [eventQuery ''BackOff'', terminationQuery]) crashedContainer) = Some (True, True, [])"
    by code_simp
  ultimately show ?thesis by blast
qed

end
