(* ===== verification/Verdict.thy ===== *)
theory Verdict
  imports EvidenceGate
begin

text \<open>
  From a provider's reasoning to the claims and the canonical verdict of an investigation
  (\<^verbatim>\<open>internal/controllers/investigationrequest_controller.go\<close>: \<^verbatim>\<open>buildRCAClaims\<close>, \<^verbatim>\<open>evaluateCanonicalVerdict\<close> and
  what they use).  The reasoning is given as such: every caller has checked that it is not nil.  The package's
  \<^verbatim>\<open>firstNonEmptyString\<close> has the same body as \<open>firstNonBlank\<close> of \<open>Egress\<close>.
\<close>

subsection \<open>Claims\<close>

definition zeroPad3 :: "int \<Rightarrow> string" where
  "zeroPad3 index = (if index < 10 then ''00'' @ itoa index else if index < 100 then ''0'' @ itoa index else itoa index)"

definition claimID :: "int \<Rightarrow> string" where
  "claimID index = ''claim-'' @ zeroPad3 index"

definition evidenceID :: "int \<Rightarrow> string" where
  "evidenceID index = ''evidence-'' @ zeroPad3 index"

definition newClaim :: "string \<Rightarrow> string \<Rightarrow> RCAClaim" where
  "newClaim id' statement = \<lparr>rcl_ID = id', rcl_Statement = statement, rcl_EvidenceRefs = [], rcl_EvidenceLinks = [],
     rcl_Verification = []\<rparr>"

definition schedulingMechanismClaimStatement :: string where
  "schedulingMechanismClaimStatement =
     ''SchedulingUnschedulable is confirmed by UID-correlated scheduler condition or FailedScheduling evidence.''"

definition schedulingMechanismRCAClaim :: "EvidenceCollectionResult \<Rightarrow> string option" where
  "schedulingMechanismRCAClaim evidence =
     (if schedulingFailureMechanismEvidencePresent evidence then Some schedulingMechanismClaimStatement else None)"

definition imagePullBackOffRef :: "EvidenceRef \<Rightarrow> bool" where
  "imagePullBackOffRef ref \<longleftrightarrow> ofKind ''event'' ref \<and>
     (EqualFold (TrimSpace (ev_Reason ref)) ''ImagePullBackOff'' \<or>
      Contains (ToLower (Join [ev_Reason ref, ev_Summary ref] '' '')) ''imagepullbackoff'')"

definition imagePullProfileClaim :: "EvidenceCollectionResult \<Rightarrow> string option" where
  "imagePullProfileClaim evidence =
     (if \<not> eventCoveragePresent [] evidence imagePullNeedles then None
      else if list_ex imagePullBackOffRef (ecr_EvidenceRefs evidence) then
        Some ''ImagePullBackOff is confirmed by explicit Kubernetes ImagePullBackOff event evidence.''
      else Some ''ImagePullFailure is confirmed by Kubernetes image-pull failure event evidence.'')"

definition profileBackedRCAClaim :: "string \<Rightarrow> EvidenceCollectionResult \<Rightarrow> string option" where
  "profileBackedRCAClaim profile evidence =
     (let p = lowerTrim profile; backed = (\<lambda>ok statement. if ok then Some statement else None) in
      if p = ''serviceportmismatch'' then
        backed (servicePortMismatchEvidencePresent evidence)
          ''ServicePortMismatch is confirmed by Kubernetes Service targetPort and resolved workload/container port evidence.''
      else if p \<in> {''failedscheduling'', ''schedulingsuccess''} then
        backed (schedulingFailureMechanismEvidencePresent evidence) schedulingMechanismClaimStatement
      else if p = ''probefailure'' then
        backed (eventCoveragePresent [] evidence probeEventNeedles \<and> probeConfigurationMismatchEvidencePresent evidence)
          ''ProbeConfigurationMismatch is confirmed by probe failure and workload probe configuration evidence.''
      else if p = ''crashloopbackoff'' then
        backed (eventCoveragePresent [] evidence crashLoopNeedles \<and> applicationLogEvidencePresent evidence)
          ''CrashLoopBackOff is confirmed by a workload restart symptom and application failure evidence.''
      else if p = ''imagepullbackoff'' then imagePullProfileClaim evidence
      else if p = ''oomkilled'' then
        backed (eventCoveragePresent [] evidence oomNeedles \<and>
            evidenceKindPresent [] evidence ''metric'' [''memory'', ''oom'', ''container_memory''])
          ''OOMKilled is confirmed by Kubernetes OOM event and memory pressure evidence.''
      else if p \<in> {''highhttperror'', ''highhttperrorrate''} then
        backed (http5xxMetricEvidencePresent evidence \<and> causalDependencyLogEvidencePresent evidence)
          ''HighHTTPErrorRate is confirmed by HTTP 5xx metric and causal dependency evidence.''
      else if p = ''effectivenessverification'' then
        backed (list_ex (ofKind ''event'') (ecr_EvidenceRefs evidence))
          ''A post-action workload event remains observed during effectiveness verification.''
      else None)"

definition verifierClaims :: "RCAClaim list \<Rightarrow> VerifierClaim list" where
  "verifierClaims claims = map (\<lambda>claim. \<lparr>vc_ID = rcl_ID claim, vc_Statement = rcl_Statement claim\<rparr>) claims"

definition verifierEvidenceRefs :: "EvidenceRef list \<Rightarrow> VerifierEvidence list" where
  "verifierEvidenceRefs refs =
     map (\<lambda>(index, ref). \<lparr>ve_ID = (let i = TrimSpace (ev_ID ref) in if i = [] then evidenceID (int index + 1) else i),
         ve_Kind = ev_Kind ref, ve_Summary = ev_Summary ref, ve_Source = ev_Source ref, ve_Reason = ev_Reason ref\<rparr>)
       (enumerate 0 refs)"

definition verifierEvidenceLinks :: "EvidenceLink list \<Rightarrow> RCAEvidenceLink list" where
  "verifierEvidenceLinks links = map (\<lambda>link. \<lparr>rel_EvidenceRef = vel_EvidenceRef link, rel_Role = vel_Role link,
     rel_Strength = vel_Strength link\<rparr>) links"

text \<open>\<open>withResult\<close> is the body of the loop; the map by identifier keeps the last result of an identifier.\<close>

definition withResult :: "RCAClaim \<Rightarrow> ClaimResult \<Rightarrow> RCAClaim" where
  "withResult claim result = claim\<lparr>rcl_EvidenceRefs := vcr_EvidenceRefs result,
     rcl_EvidenceLinks := verifierEvidenceLinks (vcr_EvidenceLinks result), rcl_Verification := vcr_Verification result\<rparr>"

definition applyClaimVerification :: "RCAClaim list \<Rightarrow> VerifierResult \<Rightarrow> RCAClaim list" where
  "applyClaimVerification claims verification =
     (let byID = map_of (rev (map (\<lambda>result. (vcr_ID result, result)) (vrs_Claims verification))) in
      map (\<lambda>claim. case byID (rcl_ID claim) of None \<Rightarrow> claim | Some result \<Rightarrow> withResult claim result) claims)"

definition nextClaim :: "RCAClaim list \<Rightarrow> string \<Rightarrow> RCAClaim list" where
  "nextClaim claims statement = claims @ [newClaim (claimID (int (length claims) + 1)) statement]"

definition proposedClaims :: "ReasoningOutput \<Rightarrow> EvidenceCollectionResult \<Rightarrow> string \<Rightarrow> RCAClaim list" where
  "proposedClaims reasoning evidence profile =
     (let claims = (if TrimSpace (rso_RiskSummary reasoning) \<noteq> [] then [newClaim ''claim-001'' (rso_RiskSummary reasoning)]
                    else []);
          claims = fold (\<lambda>cause claims. if TrimSpace cause = [] then claims else nextClaim claims cause)
            (rcs_Causes (rso_RCA reasoning)) claims;
          claims = (case profileBackedRCAClaim profile evidence of
              None \<Rightarrow> claims
            | Some statement \<Rightarrow>
                if HasPrefix statement ''SchedulingUnschedulable is confirmed by''
                then claims @ [newClaim ''claim-scheduling-mechanism'' statement] else nextClaim claims statement) in
      if TrimSpace profile = [] then
        (case schedulingMechanismRCAClaim evidence of
          None \<Rightarrow> claims
        | Some statement \<Rightarrow> claims @ [newClaim ''claim-scheduling-mechanism'' statement])
      else claims)"

definition buildRCAClaims ::
  "ReasoningOutput \<Rightarrow> EvidenceCollectionResult \<Rightarrow> string \<Rightarrow> RCAClaim list \<times> VerifierResult" where
  "buildRCAClaims reasoning evidence profile =
     (let claims = proposedClaims reasoning evidence profile;
          verification = VerifyClaims (verifierClaims claims) (verifierEvidenceRefs (ecr_EvidenceRefs evidence)) in
      (applyClaimVerification claims verification, verification))"

subsection \<open>Root-cause claims\<close>

definition isSchedulingMechanismClaim :: "RCAClaim \<Rightarrow> bool" where
  "isSchedulingMechanismClaim claim \<longleftrightarrow>
     HasPrefix (TrimSpace (rcl_ID claim)) ''claim-scheduling-mechanism'' \<or>
     HasPrefix (TrimSpace (rcl_Statement claim)) ''SchedulingUnschedulable is confirmed by''"

definition rootCauseClaims :: "ReasoningOutput \<Rightarrow> RCAClaim list \<Rightarrow> RCAClaim list" where
  "rootCauseClaims reasoning claims =
     filter (\<lambda>claim. \<not> isSchedulingMechanismClaim claim)
       (drop (if TrimSpace (rso_RiskSummary reasoning) \<noteq> [] then 1 else 0) claims)"

definition claimSupported :: "RCAClaim \<Rightarrow> bool" where
  "claimSupported claim \<longleftrightarrow> rcl_Verification claim = VerificationSupported"

definition countVerifiedRootCauseClaims :: "RCAClaim list \<Rightarrow> int \<times> int" where
  "countVerifiedRootCauseClaims claims =
     (int (length (filter claimSupported claims)),
      int (length (filter (\<lambda>claim. rcl_Verification claim = VerificationContradicted) claims)))"

definition supportedRootCauseClaims :: "RCAClaim list \<Rightarrow> RCAClaim list" where
  "supportedRootCauseClaims claims = filter claimSupported claims"

definition inferRootCauseTypeFromClaims :: "RCAClaim list \<Rightarrow> EvidenceCollectionResult \<Rightarrow> string" where
  "inferRootCauseTypeFromClaims claims evidence =
     (let text = joinLower (map rcl_Statement claims);
          ports = [''targetport'', ''target port'', ''service port'', ''container port'', ''port mismatch'',
            ''listener port'', ''targets port'', ''listens on port''] in
      if containsAny text [''imagepullbackoff'', ''errimagepull'', ''image pull'', ''pull image'', ''failed to pull'']
      then ''ImagePullFailure''
      else if containsAny text [''failedscheduling'', ''failed scheduling'', ''unschedulable'', ''untolerated taint'',
        ''insufficient cpu'', ''insufficient memory''] then ''SchedulingFailure''
      else if servicePortMismatchEvidencePresent evidence \<and>
        containsAny text ([''serviceportmismatch'', ''service port mismatch''] @ ports) then ''ServicePortMismatch''
      else if containsAny text ports then ''ConfigurationMismatch''
      else if containsAny text [''readiness probe'', ''liveness probe'', ''probe failure'', ''probe failed'', ''unhealthy probe'']
      then ''ProbeFailure''
      else if containsAny text [''high http error'', ''http 5xx'', ''5xx error'', ''5xx rate'', ''error rate'']
      then ''HighHTTPErrorRate''
      else if containsAny text [''memory'', ''oom'', ''resource pressure'', ''safe threshold''] then ''ResourcePressure''
      else if containsAny text [''latency'', ''timeout'', ''http'', ''5xx''] then ''LatencyRegression''
      else if containsAny text [''rollout'', ''release'', ''pod template'', ''replicaset'', ''image digest'']
      then ''DeploymentRegression''
      else if containsAny text [''crash'', ''restart'', ''backoff'', ''startup''] then ''CrashLoop''
      else ''WorkloadDegradation'')"

definition sameTargetRef :: "TargetRef \<Rightarrow> TargetRef \<Rightarrow> bool" where
  "sameTargetRef left right \<longleftrightarrow> t_Cluster left = t_Cluster right \<and> t_Namespace left = t_Namespace right \<and>
     t_Kind left = t_Kind right \<and> t_Name left = t_Name right \<and> t_APIVersion left = t_APIVersion right"

text \<open>The target that a cited identifier names: a log reference with exactly one named related target.\<close>

definition evidenceByID :: "EvidenceRef list \<Rightarrow> string \<rightharpoonup> EvidenceRef" where
  "evidenceByID refs = map_of (rev (map (\<lambda>ref. (ev_ID ref, ref)) (filter (\<lambda>ref. ev_ID ref \<noteq> []) refs)))"

definition citedTarget :: "EvidenceRef list \<Rightarrow> string \<Rightarrow> TargetRef option" where
  "citedTarget refs evidenceId =
     (case evidenceByID refs evidenceId of
        None \<Rightarrow> None
      | Some ref \<Rightarrow>
          if \<not> ofKind ''log'' ref \<or> length (ev_RelatedTargets ref) \<noteq> 1 then None
          else let target = hd (ev_RelatedTargets ref) in
            if TrimSpace (t_Kind target) = [] \<or> TrimSpace (t_Name target) = [] then None else Some target)"

fun agreeingTarget :: "TargetRef list \<Rightarrow> TargetRef option \<Rightarrow> TargetRef option" where
  "agreeingTarget [] candidate = candidate"
| "agreeingTarget (t # ts) candidate =
     (case candidate of
        None \<Rightarrow> agreeingTarget ts (Some t)
      | Some c \<Rightarrow> if sameTargetRef c t then agreeingTarget ts candidate else None)"

definition causalRootCauseEntity :: "RCAClaim list \<Rightarrow> EvidenceCollectionResult \<Rightarrow> TargetRef option" where
  "causalRootCauseEntity claims evidence =
     agreeingTarget (List.map_filter (citedTarget (ecr_EvidenceRefs evidence))
       (concat (map rcl_EvidenceRefs (filter claimSupported claims)))) None"

subsection \<open>Summaries\<close>

definition nonEmptyStrings :: "string list \<Rightarrow> string list" where
  "nonEmptyStrings values = filter (\<lambda>v. v \<noteq> []) (map TrimSpace values)"

definition evidenceLine :: "EvidenceRef \<Rightarrow> string option" where
  "evidenceLine ref =
     (let detail = TrimSpace (ev_Summary ref);
          label = TrimSpace (Join (nonEmptyStrings [TrimSpace (ev_Kind ref), TrimSpace (ev_Reason ref),
            TrimSpace (ev_Source ref)]) '' '') in
      if label \<noteq> [] \<and> detail \<noteq> [] then Some (label @ '': '' @ detail)
      else if detail \<noteq> [] then Some detail
      else if label \<noteq> [] then Some label else None)"

definition observedEvidenceSummary :: "EvidenceCollectionResult \<Rightarrow> string" where
  "observedEvidenceSummary evidence = Join (take 3 (List.map_filter evidenceLine (ecr_EvidenceRefs evidence))) ''; ''"

definition verifiedRCASummary :: "EvidenceCollectionResult \<Rightarrow> RCAClaim list \<Rightarrow> string" where
  "verifiedRCASummary evidence supportedClaims =
     (let statements = filter (\<lambda>s. s \<noteq> []) (map (\<lambda>claim. TrimSpace (rcl_Statement claim)) supportedClaims);
          summary = observedEvidenceSummary evidence in
      if statements \<noteq> [] \<and> summary \<noteq> [] then
        ''Verified root-cause evidence supports: '' @ Join statements ''; '' @ ''. Observed evidence: '' @ summary @ ''.''
      else if statements \<noteq> [] then ''Verified root-cause evidence supports: '' @ Join statements ''; '' @ ''.''
      else if summary \<noteq> [] then ''Observed evidence: '' @ summary @ ''.''
      else ''Root-cause claims were verified by collected evidence.'')"

definition failureReasons :: "string list" where
  "failureReasons = [''crashloopbackoff'', ''backoff'', ''imagepullbackoff'', ''errimagepull'', ''invalidimagename'',
     ''failedscheduling'', ''oomkilled'', ''oom'', ''unhealthy'', ''failedcreate'', ''failedreplicacreate'',
     ''progressdeadlineexceeded'', ''minimumreplicasunavailable'']"

definition evidenceSummaryRank :: "EvidenceRef \<Rightarrow> int" where
  "evidenceSummaryRank ref =
     (if containsAny (lowerTrim (ev_Reason ref)) failureReasons then 2
      else if containsAny (lowerTrim (ev_Summary ref @ '' '' @ ev_Kind ref)) failureReasons then 1 else 0)"

definition rankedEvidenceRefsForSummary :: "EvidenceRef list \<Rightarrow> EvidenceRef list" where
  "rankedEvidenceRefsForSummary refs = SliceStable (\<lambda>a b. evidenceSummaryRank b < evidenceSummaryRank a) refs"

definition summaryDetail :: "EvidenceRef \<Rightarrow> string" where
  "summaryDetail ref = firstNonBlank [TrimSpace (ev_Summary ref), TrimSpace (ev_Reason ref), TrimSpace (ev_Source ref)]"

definition unverifiedRCASummary :: "EvidenceCollectionResult \<Rightarrow> string \<Rightarrow> string" where
  "unverifiedRCASummary evidence providerSummary =
     (case find (\<lambda>d. d \<noteq> []) (map summaryDetail (rankedEvidenceRefsForSummary (ecr_EvidenceRefs evidence))) of
        Some detail \<Rightarrow> ''Observed '' @ detail @ '', but collected evidence is insufficient to confirm the proposed root cause.''
      | None \<Rightarrow>
          if TrimSpace providerSummary \<noteq> [] then
            ''Collected evidence is insufficient to confirm the proposed root cause: '' @ TrimSpace providerSummary
          else ''Collected evidence is insufficient to confirm the proposed root cause.'')"

subsection \<open>Missing evidence\<close>

definition missingEvidenceForClaim :: "string \<Rightarrow> string \<Rightarrow> RCAMissingEvidence list" where
  "missingEvidenceForClaim statement profile =
     (let text = ToLower statement in
      if containsAny text [''rollout'', ''release'', ''image'', ''config'', ''configuration''] then
        [missingItem ''deployment-history'' ''RolloutEvidenceRequired'']
      else if containsAny text [''memory'', ''oom'', ''resource pressure''] then
        [missingItem ''prometheus'' ''MemoryMetricsRequired'', missingItem ''kubernetes-events'' ''OOMEventRequired'']
      else if containsAny text [''crash'', ''restart'', ''backoff''] then
        (if EqualFold (TrimSpace profile) ''CrashLoopBackOffV2'' then [missingItem ''loki'' ''CrashLoopApplicationLogRequired'']
         else [missingItem ''kubernetes-events'' ''CrashLoopEventRequired'',
               missingItem ''loki'' ''CrashLoopApplicationLogRequired''])
      else if containsAny text [''latency'', ''timeout'', ''http'', ''5xx''] then
        [missingItem ''prometheus'' ''LatencyMetricsRequired'', missingItem ''loki'' ''ErrorLogEvidenceRequired'']
      else [missingItem ''evidence'' ''SupportingEvidenceRequired''])"

text \<open>The keys seen so far are those of the items kept so far.\<close>

definition missingKey :: "RCAMissingEvidence \<Rightarrow> string" where
  "missingKey item = rme_Source item @ ''/'' @ rme_Reason item"

definition missingEvidenceForClaims :: "RCAClaim list \<Rightarrow> string \<Rightarrow> RCAMissingEvidence list" where
  "missingEvidenceForClaims claims profile =
     fold (\<lambda>item missing. if missingKey item \<in> missingKey ` set missing then missing else missing @ [item])
       (concat (map (\<lambda>claim. missingEvidenceForClaim (rcl_Statement claim) profile)
         (filter (\<lambda>claim. \<not> claimSupported claim) claims))) []"

subsection \<open>The canonical verdict\<close>

text \<open>The quotient of a \<^verbatim>\<open>float64\<close> and a positive integer that is one, rounded.\<close>

definition floatDivInt :: "float64 \<Rightarrow> int \<Rightarrow> float64" where
  "floatDivInt f n = (case f of
      Finite q \<Rightarrow> (case roundFloat (q / of_int n) of Some v \<Rightarrow> Finite v | None \<Rightarrow> Infinite (0 < q))
    | _ \<Rightarrow> f)"

record canonicalVerdictEvaluation =
  cve_Outcome :: string
  cve_Summary :: string
  cve_RootCauseType :: string
  cve_RootCauseEntity :: "TargetRef option"
  cve_Confidence :: float64
  cve_VerifiedScore :: float64
  cve_MissingEvidence :: "RCAMissingEvidence list"

definition verifiedScoreOf :: "int \<Rightarrow> int \<Rightarrow> float64 \<Rightarrow> float64" where
  "verifiedScoreOf supported total' providerConfidence =
     (let score = (if 0 < total' then floatDivInt (floatOfInt supported) total' else Finite 0) in
      if floatLess providerConfidence score then providerConfidence else score)"

definition evaluateCanonicalVerdict ::
  "ReasoningOutput \<Rightarrow> EvidenceCollectionResult \<Rightarrow> RCAClaim list \<Rightarrow> float64 \<Rightarrow> string \<Rightarrow> canonicalVerdictEvaluation" where
  "evaluateCanonicalVerdict reasoning evidence claims providerConfidence profile =
     (let causalClaims = rootCauseClaims reasoning claims;
          (supported, contradicted) = countVerifiedRootCauseClaims causalClaims;
          supportedClaims = supportedRootCauseClaims causalClaims;
          verifiedScore = verifiedScoreOf supported (int (length causalClaims)) providerConfidence in
      if causalClaims = [] \<or> supported = 0 \<or> 0 < contradicted then
        \<lparr>cve_Outcome = InvestigationOutcomeInconclusive,
         cve_Summary = unverifiedRCASummary evidence (rso_RiskSummary reasoning), cve_RootCauseType = [],
         cve_RootCauseEntity = None, cve_Confidence = Finite 0, cve_VerifiedScore = Finite 0,
         cve_MissingEvidence = missingEvidenceForClaims causalClaims profile\<rparr>
      else
        \<lparr>cve_Outcome = InvestigationOutcomeConfirmed, cve_Summary = verifiedRCASummary evidence supportedClaims,
         cve_RootCauseType = inferRootCauseTypeFromClaims supportedClaims evidence,
         cve_RootCauseEntity = causalRootCauseEntity supportedClaims evidence,
         cve_Confidence = verifiedScore, cve_VerifiedScore = verifiedScore, cve_MissingEvidence = []\<rparr>)"

definition confidenceLevel :: "float64 \<Rightarrow> string" where
  "confidenceLevel score =
     (if floatLeq (Finite (the (roundFloat (8 / 10)))) score then ''High''
      else if floatLeq (Finite (1 / 2)) score then ''Medium''
      else if floatLess (Finite 0) score then ''Low'' else ''Unknown'')"

definition providerScore :: "ReasoningOutput \<Rightarrow> float64" where
  "providerScore reasoning = floatDivInt (floatOfInt (cnf_Score (rso_Confidence reasoning))) 100"

definition verifiedCauseStatements :: "RCAClaim list \<Rightarrow> string list" where
  "verifiedCauseStatements claims = map rcl_Statement (filter claimSupported claims)"

subsection \<open>Alternative hypotheses\<close>

definition candidateHypotheses :: "(DiagnosticResult \<Rightarrow> CandidateClaim \<Rightarrow> bool) \<Rightarrow> DiagnosticResult list \<Rightarrow>
  RCAAlternativeHypothesis list" where
  "candidateHypotheses dropped results =
     concat (map (\<lambda>result. map (\<lambda>claim. \<lparr>rah_Statement = cc_Statement claim,
         rah_Disposition = ''DiagnosticCandidateUnverified'', rah_EvidenceRefs = cc_EvidenceRefs claim\<rparr>)
       (filter (\<lambda>claim. \<not> (cc_Type claim = ClaimObservation \<or> TrimSpace (cc_Statement claim) = []) \<and> \<not> dropped result claim)
         (dgr_Claims result))) results)"

definition diagnosticAlternativeHypotheses :: "DiagnosticResult list \<Rightarrow> RCAAlternativeHypothesis list" where
  "diagnosticAlternativeHypotheses = candidateHypotheses (\<lambda>_ _. False)"

definition diagnosticAlternativeHypothesesWithoutConfirmedMechanism ::
  "DiagnosticResult list \<Rightarrow> RCAClaim list \<Rightarrow> RCAAlternativeHypothesis list" where
  "diagnosticAlternativeHypothesesWithoutConfirmedMechanism results claims =
     (if \<not> list_ex (\<lambda>claim. isSchedulingMechanismClaim claim \<and> claimSupported claim) claims
      then diagnosticAlternativeHypotheses results
      else candidateHypotheses (\<lambda>result claim. dgr_DiagnosticID result = ''scheduling'' \<and>
        cc_Type claim = ClaimFailureMechanism \<and> Contains (ToLower (cc_Statement claim)) ''could not be scheduled'') results)"

subsection \<open>Degradation\<close>

definition coverageReason :: "EvidenceRef \<Rightarrow> RCADegradationReason option" where
  "coverageReason ref =
     (let code = TrimSpace (ev_TruncationReason ref) in
      if code = [] \<and> \<not> ev_Truncated ref then None
      else
        let code = (if code = [] then ''EvidenceTruncated'' else code);
            msg = (if code = ''NativeResultLimitExceeded'' then
                ''evidence '' @ ev_ID ref @ '' was truncated by native '' @ firstNonBlank [ev_LimitDimension ref, ''result''] @ '' limit''
              else if code = ''InvestigationQueryBudgetExhausted'' then
                ''evidence '' @ ev_ID ref @ '' is incomplete because the investigation query budget was exhausted''
              else ''evidence '' @ ev_ID ref @ '' was truncated: '' @ code) in
        Some \<lparr>rdr_Code = code, rdr_Stage = ''EvidenceCollection'', rdr_SourceRef = None, rdr_Message = msg\<rparr>)"

definition evidenceCoverageDegradation :: "EvidenceCollectionResult \<Rightarrow> RCADegradation option" where
  "evidenceCoverageDegradation evidence =
     (let reasons = List.map_filter coverageReason (ecr_EvidenceRefs evidence) in
      if reasons = [] then None
      else Some \<lparr>rdg_Partial = True, rdg_UnavailableSources = [], rdg_Reasons = reasons\<rparr>)"

definition evidenceNativeLimitDegradation :: "EvidenceCollectionResult \<Rightarrow> RCADegradation option" where
  "evidenceNativeLimitDegradation evidence =
     (case evidenceCoverageDegradation evidence of
        None \<Rightarrow> None
      | Some degradation \<Rightarrow>
          let filtered = filter (\<lambda>reason. rdr_Code reason = ''NativeResultLimitExceeded'') (rdg_Reasons degradation) in
          if filtered = [] then None else Some (degradation\<lparr>rdg_Reasons := filtered\<rparr>))"

definition evidenceDegradationCondition :: "RCADegradation \<Rightarrow> string \<times> string" where
  "evidenceDegradationCondition degradation =
     (case rdg_Reasons degradation of
        [] \<Rightarrow> (''EvidenceCoverageIncomplete'', ''evidence collection completed with incomplete coverage'')
      | first # _ \<Rightarrow>
          if rdr_Code first = ''InvestigationQueryBudgetExhausted'' then
            (rdr_Code first, ''evidence collection completed with incomplete coverage because the investigation query budget was exhausted'')
          else (rdr_Code first, ''evidence collection completed with bounded evidence truncation''))"

subsection \<open>Identifiers of claims\<close>

lemma decimalValue_snoc: "digitIn 10 d = Some v \<Longrightarrow> decimalValue (xs @ [d]) n = decimalValue xs n * 10 + v"
  by (induction xs arbitrary: n) (auto split: option.splits)

lemma digitIn_char_of: "k < 10 \<Longrightarrow> digitIn 10 (char_of (48 + k)) = Some (int k)"
  by (simp add: digitIn_def digitValue_def byte_def)

lemma decimalValue_natDigits: "decimalValue (natDigits n) 0 = int n"
proof (induction n rule: natDigits.induct)
  case (1 n)
  show ?case
  proof (cases "n < 10")
    case True
    then show ?thesis by (subst natDigits.simps) (simp add: digitIn_char_of)
  next
    case False
    then have "decimalValue (natDigits n) 0 = int (n div 10) * 10 + int (n mod 10)"
      using "1.IH" by (subst natDigits.simps) (simp add: decimalValue_snoc [OF digitIn_char_of])
    also have "\<dots> = int n" by (simp add: zdiv_int zmod_int)
    finally show ?thesis .
  qed
qed

lemma decimalValue_zeroPad3: "0 \<le> i \<Longrightarrow> decimalValue (zeroPad3 i) 0 = i"
  by (simp add: zeroPad3_def itoa_def decimalValue_natDigits digitIn_def digitValue_def byte_def)

lemma claimID_inj: "0 \<le> i \<Longrightarrow> 0 \<le> j \<Longrightarrow> claimID i = claimID j \<longleftrightarrow> i = j"
  unfolding claimID_def using decimalValue_zeroPad3 by (metis same_append_eq)

lemma claimID_not_mechanism: "0 < i \<Longrightarrow> claimID i \<noteq> ''claim-scheduling-mechanism''"
proof
  assume i: "0 < i" "claimID i = ''claim-scheduling-mechanism''"
  then have "zeroPad3 i = ''scheduling-mechanism''" by (simp add: claimID_def)
  then have "i = decimalValue ''scheduling-mechanism'' 0" using decimalValue_zeroPad3 [of i] i by simp
  also have "\<dots> = 0" by code_simp
  finally show False using i by simp
qed

definition numbered :: "RCAClaim list \<Rightarrow> bool" where
  "numbered cs \<longleftrightarrow> map rcl_ID cs = map (\<lambda>k. claimID (int k + 1)) [0..<length cs]"

lemma numbered_nextClaim: "numbered cs \<Longrightarrow> numbered (nextClaim cs s)"
  by (simp add: numbered_def nextClaim_def newClaim_def)

lemma numbered_causes:
  "numbered cs \<Longrightarrow> numbered (fold (\<lambda>cause cs. if TrimSpace cause = [] then cs else nextClaim cs cause) causes cs)"
  by (induction causes arbitrary: cs) (auto simp: numbered_nextClaim)

lemma numbered_distinct:
  assumes "numbered cs"
  shows "distinct (map rcl_ID cs) \<and> ''claim-scheduling-mechanism'' \<notin> set (map rcl_ID cs)"
proof -
  have "inj_on (\<lambda>k. claimID (int k + 1)) {0..<length cs}" by (auto simp: inj_on_def claimID_inj)
  moreover have "''claim-scheduling-mechanism'' \<noteq> claimID (int k + 1)" for k
    using claimID_not_mechanism [of "int k + 1"] by (simp add: eq_commute)
  ultimately show ?thesis using assms by (auto simp: numbered_def distinct_map)
qed

lemma claimID_1: "claimID 1 = ''claim-001''"
  by code_simp

lemma profileBacked_blank: "TrimSpace profile = [] \<Longrightarrow> profileBackedRCAClaim profile evidence = None"
  by (simp add: profileBackedRCAClaim_def lowerTrim_def)

text \<open>The claims before the one of the profile: summary and causes.\<close>

definition providerClaims :: "ReasoningOutput \<Rightarrow> RCAClaim list" where
  "providerClaims reasoning =
     fold (\<lambda>cause claims. if TrimSpace cause = [] then claims else nextClaim claims cause) (rcs_Causes (rso_RCA reasoning))
       (if TrimSpace (rso_RiskSummary reasoning) \<noteq> [] then [newClaim ''claim-001'' (rso_RiskSummary reasoning)] else [])"

lemma numbered_providerClaims: "numbered (providerClaims r)"
  unfolding providerClaims_def by (rule numbered_causes) (simp add: numbered_def newClaim_def claimID_1)

lemma proposedClaims_cases:
  "proposedClaims r ev p = providerClaims r \<or>
   (\<exists>s. profileBackedRCAClaim p ev = Some s \<and> proposedClaims r ev p = nextClaim (providerClaims r) s) \<or>
   (\<exists>s. HasPrefix s ''SchedulingUnschedulable is confirmed by'' \<and>
      proposedClaims r ev p = providerClaims r @ [newClaim ''claim-scheduling-mechanism'' s])"
proof (cases "TrimSpace p = []")
  case True
  have "HasPrefix schedulingMechanismClaimStatement ''SchedulingUnschedulable is confirmed by''" by code_simp
  with True show ?thesis
    by (auto simp: proposedClaims_def providerClaims_def profileBacked_blank schedulingMechanismRCAClaim_def
        split: if_splits)
next
  case False
  then show ?thesis by (auto simp: proposedClaims_def providerClaims_def Let_def split: option.splits)
qed

lemma proposedClaims_distinct: "distinct (map rcl_ID (proposedClaims r ev p))"
  using proposedClaims_cases [of r ev p] numbered_distinct [OF numbered_providerClaims]
    numbered_distinct [OF numbered_nextClaim [OF numbered_providerClaims]]
  by (auto simp: newClaim_def)

lemma applyClaimVerification_each:
  assumes "distinct (map rcl_ID cs)"
  shows "applyClaimVerification cs (VerifyClaims (verifierClaims cs) es) =
    map (\<lambda>c. withResult c (verifyClaim es \<lparr>vc_ID = rcl_ID c, vc_Statement = rcl_Statement c\<rparr>)) cs"
proof -
  define results where "results = map (\<lambda>c. (rcl_ID c, verifyClaim es \<lparr>vc_ID = rcl_ID c, vc_Statement = rcl_Statement c\<rparr>)) cs"
  have "map (\<lambda>r. (vcr_ID r, r)) (vrs_Claims (VerifyClaims (verifierClaims cs) es)) = results"
    by (simp add: verifierClaims_def results_def)
  moreover have "distinct (map fst (rev results))" using assms unfolding rev_map [symmetric] distinct_rev by (simp add: results_def o_def)
  then have "map_of (rev results) (rcl_ID c) = Some (verifyClaim es \<lparr>vc_ID = rcl_ID c, vc_Statement = rcl_Statement c\<rparr>)"
    if "c \<in> set cs" for c using that by (intro map_of_is_SomeI) (auto simp: results_def)
  ultimately show ?thesis by (simp add: applyClaimVerification_def cong: map_cong)
qed

text \<open>C13: joining the verifier's results to the claims by identifier gives every claim exactly the result of its own
  statement, in order: the identifiers that the controller makes up never clash, for any number of causes and any
  text that the provider returns.\<close>

theorem claims_verified_individually:
  "fst (buildRCAClaims reasoning evidence profile) =
     map (\<lambda>c. withResult c (verifyClaim (verifierEvidenceRefs (ecr_EvidenceRefs evidence))
            \<lparr>vc_ID = rcl_ID c, vc_Statement = rcl_Statement c\<rparr>))
       (proposedClaims reasoning evidence profile)"
  by (simp add: buildRCAClaims_def Let_def applyClaimVerification_each proposedClaims_distinct)

subsection \<open>What a confirmed verdict rests on\<close>

lemma statements_causes:
  "map rcl_Statement (fold (\<lambda>cause cs. if TrimSpace cause = [] then cs else nextClaim cs cause) causes cs) =
   map rcl_Statement cs @ filter (\<lambda>cause. TrimSpace cause \<noteq> []) causes"
  by (induction causes arbitrary: cs) (auto simp: nextClaim_def newClaim_def)

definition summaryClaims :: "ReasoningOutput \<Rightarrow> nat" where
  "summaryClaims r = (if TrimSpace (rso_RiskSummary r) \<noteq> [] then 1 else 0)"

lemma providerClaims_statements:
  "map rcl_Statement (drop (summaryClaims r) (providerClaims r)) = filter (\<lambda>cause. TrimSpace cause \<noteq> []) (rcs_Causes (rso_RCA r))"
  unfolding drop_map [symmetric] by (simp add: providerClaims_def statements_causes summaryClaims_def)

lemma summaryClaims_le: "summaryClaims r \<le> length (providerClaims r)"
proof -
  have "length (map rcl_Statement (providerClaims r)) \<ge> summaryClaims r"
    unfolding providerClaims_def statements_causes by (simp add: summaryClaims_def)
  then show ?thesis by simp
qed

definition verifiedClaim :: "EvidenceCollectionResult \<Rightarrow> RCAClaim \<Rightarrow> RCAClaim" where
  "verifiedClaim ev c = withResult c (verifyClaim (verifierEvidenceRefs (ecr_EvidenceRefs ev))
     \<lparr>vc_ID = rcl_ID c, vc_Statement = rcl_Statement c\<rparr>)"

lemma buildRCAClaims_each: "fst (buildRCAClaims r ev p) = map (verifiedClaim ev) (proposedClaims r ev p)"
  by (simp add: buildRCAClaims_def Let_def applyClaimVerification_each proposedClaims_distinct verifiedClaim_def)

lemma verifiedClaim_simps [simp]:
  "rcl_ID (verifiedClaim ev c) = rcl_ID c" "rcl_Statement (verifiedClaim ev c) = rcl_Statement c"
  "isSchedulingMechanismClaim (verifiedClaim ev c) = isSchedulingMechanismClaim c"
  by (simp_all add: verifiedClaim_def withResult_def isSchedulingMechanismClaim_def)

lemma verifiedClaim_supported:
  assumes "claimSupported (verifiedClaim ev c)"
  shows "rcl_EvidenceRefs (verifiedClaim ev c) \<noteq> [] \<and>
    (\<forall>i\<in>set (rcl_EvidenceRefs (verifiedClaim ev c)).
       \<exists>e\<in>set (verifierEvidenceRefs (ecr_EvidenceRefs ev)). TrimSpace (ve_ID e) = i)"
proof -
  let ?c = "\<lparr>vc_ID = rcl_ID c, vc_Statement = rcl_Statement c\<rparr>"
  let ?es = "verifierEvidenceRefs (ecr_EvidenceRefs ev)"
  have "claimCounted ?es ?c"
    using assms by (simp add: claimSupported_def verifiedClaim_def withResult_def verifyClaim_Supported_iff)
  then show ?thesis
    using claimMatches_in [of _ ?es ?c] by (simp add: claimCounted_def verifiedClaim_def withResult_def)
qed

lemma rootCauseClaims_statement:
  assumes "c \<in> set (rootCauseClaims r (fst (buildRCAClaims r ev p)))"
  shows "rcl_Statement c \<in> set (rcs_Causes (rso_RCA r)) \<or> profileBackedRCAClaim p ev = Some (rcl_Statement c)"
proof -
  obtain d where d: "d \<in> set (drop (summaryClaims r) (proposedClaims r ev p))" "c = verifiedClaim ev d"
    and mechanism: "\<not> isSchedulingMechanismClaim d"
    using assms by (auto simp: rootCauseClaims_def buildRCAClaims_each drop_map summaryClaims_def split: if_splits)
  have cause: "rcl_Statement e \<in> set (rcs_Causes (rso_RCA r))" if "e \<in> set (drop (summaryClaims r) (providerClaims r))" for e
    using that providerClaims_statements [of r] by (metis (no_types, lifting) filter_is_subset imageI set_map subsetD)
  have "HasPrefix ''claim-scheduling-mechanism'' ''claim-scheduling-mechanism''" by (simp add: HasPrefix_def)
  moreover have "TrimSpace ''claim-scheduling-mechanism'' = ''claim-scheduling-mechanism''" by code_simp
  ultimately have "isSchedulingMechanismClaim (newClaim ''claim-scheduling-mechanism'' s)" for s
    by (simp add: isSchedulingMechanismClaim_def newClaim_def)
  then show ?thesis
    using proposedClaims_cases [of r ev p] d mechanism cause summaryClaims_le [of r]
    by (auto simp: nextClaim_def newClaim_def)
qed

lemma agreeingTarget_in: "agreeingTarget ts candidate = Some t \<Longrightarrow> candidate = Some t \<or> t \<in> set ts"
  by (induction ts candidate rule: agreeingTarget.induct) (auto split: option.splits if_splits)

lemma evidenceByID_in: "evidenceByID refs i = Some ref \<Longrightarrow> ref \<in> set refs \<and> ev_ID ref = i"
  by (auto simp: evidenceByID_def dest!: map_of_SomeD)

lemma citedTarget_in:
  assumes "citedTarget refs i = Some t"
  shows "\<exists>ref\<in>set refs. ev_ID ref = i \<and> ofKind ''log'' ref \<and> ev_RelatedTargets ref = [t]"
proof -
  obtain ref where ref: "evidenceByID refs i = Some ref" "ofKind ''log'' ref" "length (ev_RelatedTargets ref) = 1"
    "hd (ev_RelatedTargets ref) = t"
    using assms by (auto simp: citedTarget_def Let_def split: option.splits if_splits)
  then have "ev_RelatedTargets ref = [t]" by (cases "ev_RelatedTargets ref") auto
  with ref evidenceByID_in show ?thesis by blast
qed

lemma causalRootCauseEntity_in:
  assumes "causalRootCauseEntity claims ev = Some t"
  shows "\<exists>c\<in>set claims. \<exists>ref\<in>set (ecr_EvidenceRefs ev). claimSupported c \<and> ev_ID ref \<in> set (rcl_EvidenceRefs c) \<and>
    ofKind ''log'' ref \<and> ev_RelatedTargets ref = [t]"
proof -
  have "t \<in> set (List.map_filter (citedTarget (ecr_EvidenceRefs ev))
      (concat (map rcl_EvidenceRefs (filter claimSupported claims))))"
    using assms agreeingTarget_in unfolding causalRootCauseEntity_def by blast
  then obtain c i where "c \<in> set claims" "claimSupported c" "i \<in> set (rcl_EvidenceRefs c)"
    "citedTarget (ecr_EvidenceRefs ev) i = Some t"
    by (auto simp: List.map_filter_def)
  then show ?thesis using citedTarget_in by blast
qed

lemma verdict_Confirmed_iff:
  "cve_Outcome (evaluateCanonicalVerdict r ev claims conf p) = InvestigationOutcomeConfirmed \<longleftrightarrow>
     (\<exists>c\<in>set (rootCauseClaims r claims). claimSupported c) \<and>
     (\<forall>c\<in>set (rootCauseClaims r claims). rcl_Verification c \<noteq> VerificationContradicted)"
  by (auto simp: evaluateCanonicalVerdict_def countVerifiedRootCauseClaims_def Let_def filter_empty_conv)

text \<open>C11: a verdict is \<^verbatim>\<open>Confirmed\<close> only on grounds: some claim that is a cause given by the provider or the claim
  backed by the profile (never the summary of the risk, never the scheduling mechanism alone) is supported and cites
  collected evidence, no root-cause claim is contradicted, the confidence does not exceed the provider's, and a
  root-cause entity is the only related target of a log reference that a supported claim cites.\<close>

theorem confirmed_verdict_grounded:
  assumes "cve_Outcome (evaluateCanonicalVerdict reasoning evidence (fst (buildRCAClaims reasoning evidence profile))
      confidence profile) = InvestigationOutcomeConfirmed"
  shows "let claims = fst (buildRCAClaims reasoning evidence profile);
      verdict = evaluateCanonicalVerdict reasoning evidence claims confidence profile in
    (\<exists>c\<in>set claims. claimSupported c \<and> \<not> isSchedulingMechanismClaim c \<and> rcl_EvidenceRefs c \<noteq> [] \<and>
       (\<forall>i\<in>set (rcl_EvidenceRefs c).
          \<exists>e\<in>set (verifierEvidenceRefs (ecr_EvidenceRefs evidence)). TrimSpace (ve_ID e) = i) \<and>
       (rcl_Statement c \<in> set (rcs_Causes (rso_RCA reasoning)) \<or>
        profileBackedRCAClaim profile evidence = Some (rcl_Statement c))) \<and>
    (\<forall>c\<in>set (rootCauseClaims reasoning claims). rcl_Verification c \<noteq> VerificationContradicted) \<and>
    \<not> floatLess confidence (cve_Confidence verdict) \<and>
    (\<forall>t. cve_RootCauseEntity verdict = Some t \<longrightarrow>
       (\<exists>c\<in>set claims. \<exists>ref\<in>set (ecr_EvidenceRefs evidence). claimSupported c \<and>
          ev_ID ref \<in> set (rcl_EvidenceRefs c) \<and> ofKind ''log'' ref \<and> ev_RelatedTargets ref = [t]))"
proof -
  let ?claims = "fst (buildRCAClaims reasoning evidence profile)"
  let ?verdict = "evaluateCanonicalVerdict reasoning evidence ?claims confidence profile"
  have sub: "set (rootCauseClaims reasoning ?claims) \<subseteq> set ?claims"
    by (auto simp: rootCauseClaims_def dest: in_set_dropD split: if_splits)
  obtain c where c: "c \<in> set (rootCauseClaims reasoning ?claims)" "claimSupported c"
    and contra: "\<forall>c\<in>set (rootCauseClaims reasoning ?claims). rcl_Verification c \<noteq> VerificationContradicted"
    using assms unfolding verdict_Confirmed_iff by blast
  then obtain d where d: "c = verifiedClaim evidence d" using sub by (auto simp: buildRCAClaims_each)
  have eqs: "cve_Confidence ?verdict = verifiedScoreOf (fst (countVerifiedRootCauseClaims (rootCauseClaims reasoning ?claims)))
        (int (length (rootCauseClaims reasoning ?claims))) confidence"
    "cve_RootCauseEntity ?verdict = causalRootCauseEntity (supportedRootCauseClaims (rootCauseClaims reasoning ?claims)) evidence"
    using assms by (auto simp: evaluateCanonicalVerdict_def Let_def split: prod.splits if_splits)
  have "\<not> floatLess confidence confidence" by (cases confidence) auto
  then have "\<not> floatLess confidence (cve_Confidence ?verdict)" by (simp add: eqs verifiedScoreOf_def Let_def)
  moreover have "\<not> isSchedulingMechanismClaim c" using c(1) by (simp add: rootCauseClaims_def)
  moreover have "\<exists>c\<in>set ?claims. \<exists>ref\<in>set (ecr_EvidenceRefs evidence). claimSupported c \<and>
      ev_ID ref \<in> set (rcl_EvidenceRefs c) \<and> ofKind ''log'' ref \<and> ev_RelatedTargets ref = [t]"
    if "cve_RootCauseEntity ?verdict = Some t" for t
    using causalRootCauseEntity_in [OF that [unfolded eqs]] sub by (auto simp: supportedRootCauseClaims_def)
  ultimately show ?thesis
    using c d contra sub verifiedClaim_supported rootCauseClaims_statement [OF c(1)] unfolding Let_def by blast
qed

definition demoReasoning :: "string \<Rightarrow> string list \<Rightarrow> ReasoningOutput" where
  "demoReasoning summary causes =
     \<lparr>rso_RiskTitle = ''risk'', rso_RiskSummary = summary, rso_Severity = ''high'',
      rso_Confidence = \<lparr>cnf_Score = 90, cnf_Severity = ''high'', cnf_Rationale = [], cnf_EvidenceCoverage = []\<rparr>,
      rso_RCA = \<lparr>rcs_Hypothesis = [], rcs_Causes = causes, rcs_Evidence = []\<rparr>,
      rso_Remediation = \<lparr>rem_ActionType = [], rem_Description = [], rem_Parameters = (\<lambda>_. None), rem_RollbackPlan = []\<rparr>,
      rso_RunbookRefs = [], rso_ServiceDocs = [], rso_Provider = ''mock'', rso_ProviderRequestID = [], rso_InputTokens = 0,
      rso_OutputTokens = 0\<rparr>"

definition demoImagePull :: EvidenceCollectionResult where
  "demoImagePull = collectedRefs [demoRef ''e1'' ''event'' ''Failed'' ''Failed to pull image app:v2: manifest unknown'']"

definition unresolvedProbe :: EvidenceCollectionResult where
  "unresolvedProbe = collectedRefs
     [demoRef ''evidence-001'' ''event'' ''Unhealthy'' ''Readiness probe failed: connection refused'',
      demoRef ''evidence-002'' ''probeConfiguration'' ''ProbePortUnresolved''
        ''Deployment/api container api readiness probe http:///healthz:web; resolved=0; container =0; resolution=UnresolvedNamedProbePort; mismatchConfirmed=false'']"


lemma single_cause:
  assumes "proposedClaims r ev p = cs @ [c]" and "length cs = summaryClaims r" and "\<not> isSchedulingMechanismClaim c"
    and "claimMatches (verifierEvidenceRefs (ecr_EvidenceRefs ev)) \<lparr>vc_ID = rcl_ID c, vc_Statement = rcl_Statement c\<rparr> \<noteq> []"
    and "contradictoryEvidenceIDs (rcl_Statement c) (verifierEvidenceRefs (ecr_EvidenceRefs ev)) = []"
  shows "rootCauseClaims r (fst (buildRCAClaims r ev p)) = [verifiedClaim ev c]"
    and "claimSupported (verifiedClaim ev c)"
    and "cve_Outcome (evaluateCanonicalVerdict r ev (fst (buildRCAClaims r ev p)) conf p) = InvestigationOutcomeConfirmed"
proof -
  show causal: "rootCauseClaims r (fst (buildRCAClaims r ev p)) = [verifiedClaim ev c]"
    using assms(1-3) by (simp add: rootCauseClaims_def buildRCAClaims_each summaryClaims_def split: if_splits)
  show supported: "claimSupported (verifiedClaim ev c)"
    using assms(4,5)
    by (simp add: claimSupported_def verifiedClaim_def withResult_def verifyClaim_Supported_iff claimCounted_def)
  then show "cve_Outcome (evaluateCanonicalVerdict r ev (fst (buildRCAClaims r ev p)) conf p) = InvestigationOutcomeConfirmed"
    unfolding verdict_Confirmed_iff causal by (simp add: claimSupported_def)
qed

definition pullClaim :: RCAClaim where
  "pullClaim = newClaim ''claim-002'' ''ImagePullFailure is confirmed by Kubernetes image-pull failure event evidence.''"

lemma demoImagePull_claims:
  "proposedClaims (demoReasoning ''pods fail'' []) demoImagePull ''ImagePullBackOff'' = [newClaim ''claim-001'' ''pods fail''] @ [pullClaim]"
  by code_simp

lemma demoImagePull_matches:
  "claimMatches (verifierEvidenceRefs (ecr_EvidenceRefs demoImagePull))
     \<lparr>vc_ID = rcl_ID pullClaim, vc_Statement = rcl_Statement pullClaim\<rparr> = [''e1'']"
  "contradictoryEvidenceIDs (rcl_Statement pullClaim) (verifierEvidenceRefs (ecr_EvidenceRefs demoImagePull)) = []"
  "summaryClaims (demoReasoning ''pods fail'' []) = 1"
  "\<not> isSchedulingMechanismClaim pullClaim"
  by code_simp+

lemma demoImagePull_confirmed:
  "cve_Outcome (evaluateCanonicalVerdict (demoReasoning ''pods fail'' []) demoImagePull
     (fst (buildRCAClaims (demoReasoning ''pods fail'' []) demoImagePull ''ImagePullBackOff'')) (Finite (9/10)) ''ImagePullBackOff'') =
   InvestigationOutcomeConfirmed"
  by (rule single_cause(3) [OF demoImagePull_claims]) (simp_all add: demoImagePull_matches)

theorem confirmed_verdict_grounded_witness:
  "\<exists>c\<in>set (fst (buildRCAClaims (demoReasoning ''pods fail'' []) demoImagePull ''ImagePullBackOff'')).
     claimSupported c \<and> rcl_EvidenceRefs c \<noteq> [] \<and>
     profileBackedRCAClaim ''ImagePullBackOff'' demoImagePull = Some (rcl_Statement c)"
  using confirmed_verdict_grounded [OF demoImagePull_confirmed] unfolding Let_def
  by (auto simp: demoReasoning_def)

definition probeClaim :: RCAClaim where
  "probeClaim = newClaim ''claim-002''
     ''ProbeConfigurationMismatch is confirmed by probe failure and workload probe configuration evidence.''"

lemma unresolvedProbe_claims:
  "proposedClaims (demoReasoning ''pods not ready'' []) unresolvedProbe ''ProbeFailure'' =
     [newClaim ''claim-001'' ''pods not ready''] @ [probeClaim]"
  by code_simp

lemma unresolvedProbe_matches:
  "claimMatches (verifierEvidenceRefs (ecr_EvidenceRefs unresolvedProbe))
     \<lparr>vc_ID = rcl_ID probeClaim, vc_Statement = rcl_Statement probeClaim\<rparr> = [''evidence-001'', ''evidence-002'']"
  "contradictoryEvidenceIDs (rcl_Statement probeClaim) (verifierEvidenceRefs (ecr_EvidenceRefs unresolvedProbe)) = []"
  "summaryClaims (demoReasoning ''pods not ready'' []) = 1"
  "\<not> isSchedulingMechanismClaim probeClaim"
  by code_simp+

text \<open> an investigation with the profile \<^verbatim>\<open>ProbeFailure\<close> is \<^verbatim>\<open>Confirmed\<close> as a probe configuration mismatch by
  evidence that says the opposite: the only probe record found no mismatch (\<^verbatim>\<open>mismatchConfirmed=false\<close>, the port could
  not be resolved), and the text of that very denial contains the word that counts as proof.\<close>

theorem denied_probe_mismatch_confirmed:
  "map (\<lambda>c. (rcl_Statement c, rcl_Verification c)) (rootCauseClaims (demoReasoning ''pods not ready'' [])
     (fst (buildRCAClaims (demoReasoning ''pods not ready'' []) unresolvedProbe ''ProbeFailure''))) =
     [(''ProbeConfigurationMismatch is confirmed by probe failure and workload probe configuration evidence.'', ''Supported'')] \<and>
   cve_Outcome (evaluateCanonicalVerdict (demoReasoning ''pods not ready'' []) unresolvedProbe
     (fst (buildRCAClaims (demoReasoning ''pods not ready'' []) unresolvedProbe ''ProbeFailure'')) confidence ''ProbeFailure'') =
   InvestigationOutcomeConfirmed"
proof -
  note single = single_cause [OF unresolvedProbe_claims _ unresolvedProbe_matches(4) _ unresolvedProbe_matches(2)]
  show ?thesis
    using single(2) by (simp add: single(1,3) unresolvedProbe_matches claimSupported_def) (simp add: probeClaim_def newClaim_def)
qed

end
