(* ===== verification/InvestigationExecution.thy ===== *)
theory InvestigationExecution
  imports Helpers Verdict
begin

text \<open>
  The record of an RCA execution (\<^verbatim>\<open>internal/controllers/investigationrequest_controller.go\<close>, from \<^verbatim>\<open>providerRef\<close> to
  \<^verbatim>\<open>lineageTargetUID\<close>): the identity of an execution, the normalised result of a provider and its reuse, the audit of
  what left the cluster.  The hash, the canonical JSON encoders of \<^verbatim>\<open>canonicaldigest\<close> and the version set at link time
  are the parameter \<open>investigation_codec\<close>.  The controller's filters of references for the audit have the bodies of
  the service's, which are in \<open>Egress\<close>.
\<close>

subsection \<open>Digests\<close>

record executionInput =
  exi_RequestUID :: string
  exi_RequestGeneration :: int
  exi_Target :: ResourceRef
  exi_TargetUID :: string
  exi_EvidenceBundleDigest :: string
  exi_ProviderType :: string
  exi_ProviderGeneration :: int
  exi_Model :: string
  exi_ReasoningPolicyVersion :: string
  exi_RCASchemaVersion :: string
  exi_CanonicalizationVersion :: string

record investigation_codec =
  ic_sha256 :: "string \<Rightarrow> string"
  ic_refs :: "EvidenceRef list \<Rightarrow> string"
  ic_execution :: "executionInput \<Rightarrow> string"
  ic_attempt :: "string \<times> string \<Rightarrow> string"
  ic_normalized :: "RCANormalizedResult \<Rightarrow> string"
  ic_version :: string

abbreviation RCAJSONV1 :: string where "RCAJSONV1 \<equiv> ''fluxseer-rca-json-v1''"
abbreviation rcaSchemaVersion :: string where "rcaSchemaVersion \<equiv> ''fluxseer-rca-result-v1''"
abbreviation reasoningPolicyVersion :: string where "reasoningPolicyVersion \<equiv> ''rca-v2-compat''"
abbreviation executionStateProviderCompleted :: string where "executionStateProviderCompleted \<equiv> ''ProviderCompleted''"
abbreviation executionStateFinalized :: string where "executionStateFinalized \<equiv> ''Finalized''"
abbreviation defaultExecutionAttemptID :: string where "defaultExecutionAttemptID \<equiv> ''attempt-001''"

definition investigationDigest :: "investigation_codec \<Rightarrow> string \<Rightarrow> string" where
  "investigationDigest ic payload = AlgorithmSHA256 @ '':'' @ hexEncode (ic_sha256 ic payload)"

definition evidenceBundleDigest :: "investigation_codec \<Rightarrow> EvidenceRef list \<Rightarrow> string" where
  "evidenceBundleDigest ic refs = investigationDigest ic (ic_refs ic refs)"

subsection \<open>Projections of the provider\<close>

definition providerRef :: "ModelProvider option \<Rightarrow> NamespacedObjectReference option" where
  "providerRef = map_option (\<lambda>p. \<lparr>nor_Name = mpName p, nor_Namespace = mpNamespace p\<rparr>)"

definition providerGeneration :: "ModelProvider option \<Rightarrow> int" where
  "providerGeneration provider = (case provider of None \<Rightarrow> 0 | Some p \<Rightarrow> om_Generation (mp_Meta p))"

definition providerType :: "ModelProvider option \<Rightarrow> string" where
  "providerType provider = (case provider of None \<Rightarrow> [] | Some p \<Rightarrow> mps_Provider (mp_Spec p))"

definition providerModel :: "ModelProvider option \<Rightarrow> string" where
  "providerModel provider = (case provider of None \<Rightarrow> [] | Some p \<Rightarrow> mps_Model (mp_Spec p))"

text \<open>\<open>statusProvider\<close> is the provider already in the status.\<close>

definition providerNameForStatus :: "string \<Rightarrow> ModelProvider option \<Rightarrow> ReasoningOutput option \<Rightarrow> string" where
  "providerNameForStatus statusProvider provider reasoning =
     (let fallback = (if statusProvider \<noteq> [] then statusProvider
            else case provider of None \<Rightarrow> [] | Some p \<Rightarrow> mpName p) in
      case reasoning of
        None \<Rightarrow> fallback
      | Some r \<Rightarrow> if TrimSpace (rso_Provider r) \<noteq> [] then rso_Provider r else fallback)"

subsection \<open>Identity\<close>

definition executionInputOf ::
  "investigation_codec \<Rightarrow> ObjectMeta \<Rightarrow> InvestigationLineage option \<Rightarrow> 'p PreflightResult_scheme \<Rightarrow> EvidenceCollectionResult \<Rightarrow>
   executionInput" where
  "executionInputOf ic meta lineage preflight evidence =
     \<lparr>exi_RequestUID = om_UID meta, exi_RequestGeneration = om_Generation meta, exi_Target = pfr_Target preflight,
      exi_TargetUID = (case lineage of None \<Rightarrow> [] | Some l \<Rightarrow> ill_TargetUID l),
      exi_EvidenceBundleDigest = evidenceBundleDigest ic (ecr_EvidenceRefs evidence),
      exi_ProviderType = providerType (pfr_Provider preflight),
      exi_ProviderGeneration = providerGeneration (pfr_Provider preflight), exi_Model = providerModel (pfr_Provider preflight),
      exi_ReasoningPolicyVersion = reasoningPolicyVersion, exi_RCASchemaVersion = rcaSchemaVersion,
      exi_CanonicalizationVersion = RCAJSONV1\<rparr>"

definition investigationExecutionID ::
  "investigation_codec \<Rightarrow> ObjectMeta \<Rightarrow> InvestigationLineage option \<Rightarrow> 'p PreflightResult_scheme \<Rightarrow> EvidenceCollectionResult \<Rightarrow>
   string" where
  "investigationExecutionID ic meta lineage preflight evidence =
     investigationDigest ic (ic_execution ic (executionInputOf ic meta lineage preflight evidence))"

definition executionIdempotencyKey :: "investigation_codec \<Rightarrow> string \<Rightarrow> string \<Rightarrow> string" where
  "executionIdempotencyKey ic executionID attemptID = investigationDigest ic (ic_attempt ic (executionID, attemptID))"

subsection \<open>The provider's result\<close>

definition normalizedResultFromReasoning :: "ReasoningOutput \<Rightarrow> RCANormalizedResult" where
  "normalizedResultFromReasoning r =
     \<lparr>rnr_RiskTitle = rso_RiskTitle r, rnr_RiskSummary = rso_RiskSummary r, rnr_Severity = rso_Severity r,
      rnr_ConfidenceScore = cnf_Score (rso_Confidence r), rnr_ConfidenceReason = cnf_Rationale (rso_Confidence r),
      rnr_EvidenceCoverage = cnf_EvidenceCoverage (rso_Confidence r), rnr_RCAHypothesis = rcs_Hypothesis (rso_RCA r),
      rnr_RCACauses = rcs_Causes (rso_RCA r), rnr_RCAEvidence = rcs_Evidence (rso_RCA r),
      rnr_ActionType = rem_ActionType (rso_Remediation r), rnr_ActionDescription = rem_Description (rso_Remediation r),
      rnr_ActionParameters = rem_Parameters (rso_Remediation r), rnr_RollbackPlan = rem_RollbackPlan (rso_Remediation r),
      rnr_RunbookRefs = rso_RunbookRefs r, rnr_ServiceDocs = rso_ServiceDocs r, rnr_Provider = rso_Provider r\<rparr>"

definition providerResultFromReasoning :: "investigation_codec \<Rightarrow> ReasoningOutput option \<Rightarrow> RCAProviderResult option" where
  "providerResultFromReasoning ic reasoning =
     (case reasoning of
        None \<Rightarrow> None
      | Some r \<Rightarrow>
          let normalized = normalizedResultFromReasoning r in
          Some \<lparr>rpr_SchemaVersion = rcaSchemaVersion, rpr_ProviderRequestID = TrimSpace (rso_ProviderRequestID r),
            rpr_Digest = Some \<lparr>rdi_Algorithm = AlgorithmSHA256, rdi_Canonicalization = RCAJSONV1,
              rdi_Value = investigationDigest ic (ic_normalized ic normalized)\<rparr>,
            rpr_Classification = None, rpr_NormalizedResult = Some normalized\<rparr>)"

definition reasoningFromProviderResult :: "RCAProviderResult option \<Rightarrow> ReasoningOutput option" where
  "reasoningFromProviderResult result =
     (case result of
        None \<Rightarrow> None
      | Some res \<Rightarrow>
          (case rpr_NormalizedResult res of
             None \<Rightarrow> None
           | Some n \<Rightarrow> Some
               \<lparr>rso_RiskTitle = rnr_RiskTitle n, rso_RiskSummary = rnr_RiskSummary n, rso_Severity = rnr_Severity n,
                rso_Confidence = \<lparr>cnf_Score = rnr_ConfidenceScore n, cnf_Severity = rnr_Severity n,
                  cnf_Rationale = rnr_ConfidenceReason n, cnf_EvidenceCoverage = rnr_EvidenceCoverage n\<rparr>,
                rso_RCA = \<lparr>rcs_Hypothesis = rnr_RCAHypothesis n, rcs_Causes = rnr_RCACauses n, rcs_Evidence = rnr_RCAEvidence n\<rparr>,
                rso_Remediation = \<lparr>rem_ActionType = rnr_ActionType n, rem_Description = rnr_ActionDescription n,
                  rem_Parameters = rnr_ActionParameters n, rem_RollbackPlan = rnr_RollbackPlan n\<rparr>,
                rso_RunbookRefs = rnr_RunbookRefs n, rso_ServiceDocs = rnr_ServiceDocs n, rso_Provider = rnr_Provider n,
                rso_ProviderRequestID = TrimSpace (rpr_ProviderRequestID res), rso_InputTokens = 0, rso_OutputTokens = 0\<rparr>))"

definition reusableProviderResult :: "RCAExecution option \<Rightarrow> string \<Rightarrow> RCAProviderResult option" where
  "reusableProviderResult execution executionID =
     (case execution of
        None \<Rightarrow> None
      | Some e \<Rightarrow>
          if rex_ID e \<noteq> executionID then None
          else case rex_ProviderResult e of
            None \<Rightarrow> None
          | Some res \<Rightarrow>
              if rpr_NormalizedResult res = None then None
              else if rex_State e \<in> {executionStateProviderCompleted, executionStateFinalized} then Some res else None)"

subsection \<open>What left the cluster\<close>

definition providerEgressAudit ::
  "investigation_codec \<Rightarrow> ModelProvider option \<Rightarrow> EvidenceCollectionResult \<Rightarrow> ProviderEgressAudit option" where
  "providerEgressAudit ic provider evidence =
     (case provider of
        None \<Rightarrow> None
      | Some p \<Rightarrow>
          if \<not> isHostedProvider (mps_Provider (mp_Spec p)) then None
          else
            let policy = mps_DataPolicy (mp_Spec p);
                refs = filterEvidenceRefsForProviderPolicy (ecr_EvidenceRefs evidence) policy in
            Some (providerDataPolicyAudit (evidenceBundleDigest ic) p refs (EvaluateProviderPolicy policy refs) policy))"

definition providerEgressAttempt ::
  "ModelProvider option \<Rightarrow> ProviderEgressAudit \<Rightarrow> int \<Rightarrow> string \<Rightarrow> ProviderEgressAttempt" where
  "providerEgressAttempt provider audit ordinal result =
     \<lparr>pet_Ordinal = ordinal, pet_ProviderRef = providerRef provider, pet_ProviderGeneration = providerGeneration provider,
      pet_ProviderType = (if pea_ProviderType audit = [] then providerType provider else pea_ProviderType audit),
      pet_Decision = pea_Decision audit, pet_Result = result, pet_Reason = pea_Reason audit,
      pet_EvidenceBundleDigest = pea_EvidenceBundleDigest audit, pet_EvidenceKinds = pea_EvidenceKinds audit,
      pet_SensitivityTagsSent = pea_SensitivityTagsSent audit, pet_LogSamplesIncluded = pea_LogSamplesIncluded audit,
      pet_MaximumClassificationObserved = pea_MaximumClassificationObserved audit,
      pet_MaximumClassificationAllowed = pea_MaximumClassificationAllowed audit,
      pet_MaximumClassificationSent = pea_MaximumClassificationSent audit,
      pet_ClassificationPolicyVersion = pea_ClassificationPolicyVersion audit\<rparr>"

definition providerEgressAttempts ::
  "ModelProvider option \<Rightarrow> ProviderEgressAudit option \<Rightarrow> string \<Rightarrow> ProviderEgressAttempt list" where
  "providerEgressAttempts provider audit result =
     (case audit of None \<Rightarrow> [] | Some a \<Rightarrow> [providerEgressAttempt provider a 1 result])"

definition copyProviderEgressAttempts :: "ProviderEgressAttempt list \<Rightarrow> ProviderEgressAttempt list" where
  "copyProviderEgressAttempts attempts = take 8 attempts"

subsection \<open>The record\<close>

text \<open>\<^verbatim>\<open>int64(duration.Seconds())\<close>: the seconds are a rounded \<^verbatim>\<open>float64\<close>.\<close>

definition wholeSeconds :: "duration \<Rightarrow> int" where
  "wholeSeconds d = \<lfloor>the (roundFloat (of_int (d div second) + the (roundFloat (of_int (d mod second) / 10 ^ 9))))\<rfloor>"

definition investigationDurationSeconds :: "gotime option \<Rightarrow> gotime \<Rightarrow> int" where
  "investigationDurationSeconds startedAt now =
     (case startedAt of None \<Rightarrow> 0
      | Some t \<Rightarrow> let d = subTime now t in if d < 0 then 0 else wholeSeconds d)"

definition buildRCAExecution ::
  "investigation_codec \<Rightarrow> Investigation \<Rightarrow> 'p PreflightResult_scheme \<Rightarrow> EvidenceCollectionResult \<Rightarrow> RCAResult \<Rightarrow> string \<Rightarrow>
   string \<Rightarrow> gotime \<Rightarrow> RCAExecution" where
  "buildRCAExecution ic request preflight evidence rca executionID state now =
     (let status = inv_Status request; provider = pfr_Provider preflight; reasoning = rca_Reasoning rca;
          providerResult = map_option (\<lambda>res. case provider of
              Some p \<Rightarrow> if isHostedProvider (mps_Provider (mp_Spec p))
                then res\<lparr>rpr_Classification := Some (BundleClassification
                  (filterEvidenceRefsForProviderPolicy (ecr_EvidenceRefs evidence) (mps_DataPolicy (mp_Spec p))))\<rparr> else res
            | None \<Rightarrow> res) (providerResultFromReasoning ic reasoning);
          egressAudit = (if rca_PrimaryEgress rca \<noteq> None then rca_PrimaryEgress rca else providerEgressAudit ic provider evidence);
          egressAttempts = (if rca_EgressAttempts rca \<noteq> [] then copyProviderEgressAttempts (rca_EgressAttempts rca)
            else providerEgressAttempts provider egressAudit ''Allowed'') in
      \<lparr>rex_ID = executionID, rex_State = state, rex_Provider = providerNameForStatus (ist_Provider status) provider reasoning,
       rex_ProviderRef = providerRef provider, rex_ProviderGeneration = providerGeneration provider,
       rex_ProviderType = providerType provider, rex_Model = providerModel provider, rex_RCASchemaVersion = rcaSchemaVersion,
       rex_CanonicalizationVersion = RCAJSONV1, rex_ReasoningPolicyVersion = reasoningPolicyVersion, rex_VerifierVersion = [],
       rex_EgressAudit = egressAudit, rex_EgressAttempts = egressAttempts, rex_ControllerVersion = ic_version ic,
       rex_AttemptCount = 1,
       rex_Attempts = [\<lparr>rea_ID = defaultExecutionAttemptID,
         rea_ProviderRequestID = (case reasoning of None \<Rightarrow> [] | Some r \<Rightarrow> TrimSpace (rso_ProviderRequestID r)),
         rea_IdempotencyKey = executionIdempotencyKey ic
           (investigationExecutionID ic (inv_Meta request) (ist_Lineage status) preflight evidence) defaultExecutionAttemptID,
         rea_RetryReason = [], rea_Result = ''Completed'', rea_StartedAt = ist_StartedAt status, rea_CompletedAt = Some now\<rparr>],
       rex_DurationSeconds = investigationDurationSeconds (ist_StartedAt status) now,
       rex_InputTokens = (case reasoning of None \<Rightarrow> 0 | Some r \<Rightarrow> rso_InputTokens r),
       rex_OutputTokens = (case reasoning of None \<Rightarrow> 0 | Some r \<Rightarrow> rso_OutputTokens r),
       rex_ProviderResult = providerResult\<rparr>)"

definition buildRejectedRCAExecution ::
  "investigation_codec \<Rightarrow> Investigation \<Rightarrow> 'p PreflightResult_scheme \<Rightarrow> ProviderEgressAudit option \<Rightarrow>
   ProviderEgressAttempt list \<Rightarrow> string \<Rightarrow> gotime \<Rightarrow> RCAExecution" where
  "buildRejectedRCAExecution ic request preflight audit attempts executionID now =
     (let status = inv_Status request; provider = pfr_Provider preflight in
      \<lparr>rex_ID = executionID, rex_State = ''ProviderDataPolicyRejected'',
       rex_Provider = providerNameForStatus (ist_Provider status) provider None,
       rex_ProviderRef = providerRef provider, rex_ProviderGeneration = providerGeneration provider,
       rex_ProviderType = providerType provider, rex_Model = providerModel provider, rex_RCASchemaVersion = rcaSchemaVersion,
       rex_CanonicalizationVersion = RCAJSONV1, rex_ReasoningPolicyVersion = reasoningPolicyVersion, rex_VerifierVersion = [],
       rex_EgressAudit = audit,
       rex_EgressAttempts = (if attempts \<noteq> [] then copyProviderEgressAttempts attempts
         else providerEgressAttempts provider audit ''Rejected''),
       rex_ControllerVersion = ic_version ic, rex_AttemptCount = 0, rex_Attempts = [],
       rex_DurationSeconds = investigationDurationSeconds (ist_StartedAt status) now, rex_InputTokens = 0, rex_OutputTokens = 0,
       rex_ProviderResult = None\<rparr>)"

subsection \<open>Resuming from a checkpoint\<close>

lemma hexDigit_eq_iff: "a < 16 \<Longrightarrow> b < 16 \<Longrightarrow> hexDigit a = hexDigit b \<longleftrightarrow> a = b"
proof -
  assume "a < 16" "b < 16"
  then have "a \<in> set [0..<16]" "b \<in> set [0..<16]" by simp_all
  then show ?thesis unfolding upt_rec_numeral by (auto simp: hexDigit_def)
qed

lemma hexEncode_eq_iff: "hexEncode s = hexEncode t \<longleftrightarrow> s = t"
proof (induction s arbitrary: t)
  case Nil
  then show ?case by (cases t) (simp_all add: hexEncode_def)
next
  case (Cons c s)
  show ?case
  proof (cases t)
    case (Cons d t')
    have "byte x < 256" for x by (simp add: byte_def)
    then have "byte x div 16 < 16" for x by (simp add: less_mult_imp_div_less)
    then have "hexEncode (c # s) = hexEncode (d # t') \<longleftrightarrow>
        byte c div 16 = byte d div 16 \<and> byte c mod 16 = byte d mod 16 \<and> hexEncode s = hexEncode t'"
      by (simp add: hexEncode_def hexDigit_eq_iff)
    also have "\<dots> \<longleftrightarrow> c = d \<and> s = t'"
    proof -
      have "byte c = byte d" if "byte c div 16 = byte d div 16" "byte c mod 16 = byte d mod 16"
        using that by (metis div_mult_mod_eq)
      then show ?thesis using Cons.IH by (auto simp: byte_def)
    qed
    finally show ?thesis by (simp add: Cons)
  qed (simp add: hexEncode_def)
qed

lemma investigationDigest_inj: "investigationDigest ic p = investigationDigest ic q \<longleftrightarrow> ic_sha256 ic p = ic_sha256 ic q"
  by (simp add: investigationDigest_def hexEncode_eq_iff)

text \<open> a result that was stored as a checkpoint and read back is the provider's reasoning again, in every field that the
  verification, the summary and the projection read; the identifier of the provider's request comes back trimmed, the
  severity of the confidence becomes the severity of the result, and the numbers of tokens are lost.\<close>

theorem checkpoint_roundtrip:
  "reasoningFromProviderResult (providerResultFromReasoning ic (Some reasoning)) =
     Some (reasoning\<lparr>rso_Confidence := (rso_Confidence reasoning)\<lparr>cnf_Severity := rso_Severity reasoning\<rparr>,
       rso_ProviderRequestID := TrimSpace (rso_ProviderRequestID reasoning), rso_InputTokens := 0, rso_OutputTokens := 0\<rparr>)"
  by (simp add: reasoningFromProviderResult_def providerResultFromReasoning_def normalizedResultFromReasoning_def Let_def)


definition demoExecutionCodec :: investigation_codec where
  "demoExecutionCodec = \<lparr>ic_sha256 = (\<lambda>s. s), ic_refs = (\<lambda>refs. itoa (int (length refs))), ic_execution = exi_RequestUID,
     ic_attempt = fst, ic_normalized = rnr_RiskTitle, ic_version = ''dev''\<rparr>"

definition demoPlanned :: PreflightResult where
  "demoPlanned = \<lparr>pfr_Target = \<lparr>r_Cluster = [], r_Namespace = ''shop'', r_Kind = ''Deployment'', r_Name = ''api'',
       r_APIVersion = ''apps/v1'', r_Service = []\<rparr>, pfr_Provider = None, pfr_TargetIssue = None, pfr_DatasourceIssue = None,
     pfr_QueryTypeIssue = None, pfr_ModelProviderIssue = None\<rparr>"

definition demoInvestigation :: Investigation where
  "demoInvestigation = \<lparr>inv_Meta = emptyMeta\<lparr>om_Name := ''why'', om_Namespace := ''shop'', om_UID := ''u1'', om_Generation := 1\<rparr>,
     inv_CreationTimestamp = 100, inv_DeletionTimestamp = None,
     inv_Spec = profileSpec ''ImagePullBackOff'' [eventQuery ''ImagePullBackOff''],
     inv_Status = \<lparr>ist_ResourceStatus = emptyResourceStatus, ist_Outcome = [], ist_Failure = None, ist_Summary = [],
       ist_Hypothesis = [], ist_Confidence = Finite 0, ist_Provider = [], ist_Verdict = None, ist_EvidenceCoverage = None,
       ist_Claims = [], ist_AlternativeHypotheses = [], ist_MissingEvidence = [], ist_Degradation = None, ist_Execution = None,
       ist_StartedAt = None, ist_CompletedAt = None, ist_EvidenceRefs = [], ist_Lineage = None, ist_LinkedRiskSignalRef = None,
       ist_Conditions = []\<rparr>\<rparr>"

definition demoExecution :: RCAExecution where
  "demoExecution = buildRCAExecution demoExecutionCodec demoInvestigation demoPlanned demoImagePull
     (emptyRCA\<lparr>rca_Reasoning := Some (demoReasoning ''pods fail'' [])\<rparr>)
     (investigationExecutionID demoExecutionCodec (inv_Meta demoInvestigation) None demoPlanned demoImagePull)
     executionStateProviderCompleted 200"


end
