(* ===== verification/InvestigationValidation.thy ===== *)
theory InvestigationValidation
  imports Helpers EvidenceGate
begin

text \<open>
  The checks of an investigation request before anything is collected
  (\<^verbatim>\<open>internal/controllers/investigationrequest_controller.go\<close>): validation of the specification, lineage from the
  annotations, the loop guard, and the expiry.  A failed validation is the pair of its reason and message.
\<close>

subsection \<open>Validation of the specification\<close>

type_synonym specValidationIssue = "string \<times> string"

definition validateEvidenceRetention :: "EvidenceRetentionPolicy \<Rightarrow> string" where
  "validateEvidenceRetention policy =
     (let mode = TrimSpace (erp_Mode policy); deletion = TrimSpace (erp_DeletionPolicy policy) in
      if mode = [] \<or> mode = ''MetadataOnly'' then []
      else if ere_Required (erp_Encryption policy) then
        ''spec.evidenceRetention.encryption.required is not supported by the current evidence retention adapters''
      else if deletion \<notin> {[], ''Retain'', ''Delete''} then
        ''unsupported evidence retention deletionPolicy: '' @ deletion
      else if mode = ''NormalizedSnapshot'' then
        (if TrimSpace (erp_StorageRef policy) \<noteq> ''local-filesystem'' then
           ''spec.evidenceRetention.mode=NormalizedSnapshot requires spec.evidenceRetention.storageRef.name=local-filesystem''
         else [])
      else if mode = ''RawSnapshot'' then
        ''spec.evidenceRetention.mode=RawSnapshot requires explicit raw evidence retention support and is not supported in this release''
      else ''unsupported evidence retention mode: '' @ mode)"

definition validateQueryRetention :: "QueryRetentionPolicy \<Rightarrow> string" where
  "validateQueryRetention policy =
     (let mode = TrimSpace (qrp_Mode policy) in
      if mode \<in> {[], ''DigestOnly'', ''Redacted'', ''Full''} then [] else ''unsupported queryRetention mode: '' @ mode)"

text \<open>The limits that must not be negative, in the order of the code.\<close>

definition budgetLimits :: "InvestigationQueryBudget \<Rightarrow> (string \<times> int) list" where
  "budgetLimits budget =
     (let limits = iqb_ResultLimits budget in
      [(''maxTimeRange'', iqb_MaxTimeRange budget), (''maxQueriesTotal'', iqb_MaxQueriesTotal budget),
       (''maxQueriesPerSource'', iqb_MaxQueriesPerSource budget), (''maxConcurrentQueries'', iqb_MaxConcurrentQueries budget),
       (''maxCumulativeDuration'', iqb_MaxCumulativeDuration budget),
       (''maxCumulativeResponseBytes'', iqb_MaxCumulativeResponseBytes budget),
       (''resultLimits.metrics.maxSeries'', mrl_MaxSeries (qrl_Metrics limits)),
       (''resultLimits.metrics.maxSamples'', mrl_MaxSamples (qrl_Metrics limits)),
       (''resultLimits.logs.maxLines'', lrl_MaxLines (qrl_Logs limits)),
       (''resultLimits.logs.maxStreams'', lrl_MaxStreams (qrl_Logs limits)),
       (''resultLimits.logs.maxEntries'', lrl_MaxEntries (qrl_Logs limits)),
       (''resultLimits.events.maxRecords'', erl_MaxRecords (qrl_Events limits))])"

text \<open>The two loops that count queries per data source, as one loop over the names with the counts so far.\<close>

fun countSources :: "int \<Rightarrow> string list \<Rightarrow> (string \<Rightarrow> int) \<Rightarrow> string" where
  "countSources limit [] counts = []"
| "countSources limit (n # ns) counts =
     (let name = TrimSpace n; counts' = counts(name := counts name + 1) in
      if name = [] then countSources limit ns counts
      else if limit < counts' name then
        ''datasource '' @ quote name @ '' query count '' @ itoa (counts' name) @
        '' exceeds queryBudget.maxQueriesPerSource '' @ itoa limit
      else countSources limit ns counts')"

definition validateInvestigationQueryBudget :: "InvestigationRequestSpec \<Rightarrow> string" where
  "validateInvestigationQueryBudget spec =
     (let budget = irs_QueryBudget spec; lookback = itr_Lookback (irs_TimeRange spec);
          total' = (if irs_Queries spec = [] then int (length (irs_DataSources spec)) else int (length (irs_Queries spec))) in
      case find (\<lambda>(_, limit). limit < 0) (budgetLimits budget) of
        Some (name, _) \<Rightarrow> ''queryBudget.'' @ name @ '' must not be negative''
      | None \<Rightarrow>
          if 0 < iqb_MaxTimeRange budget \<and> iqb_MaxTimeRange budget < lookback then
            ''spec.timeRange.lookback '' @ durationText lookback @ '' exceeds queryBudget.maxTimeRange '' @
            durationText (iqb_MaxTimeRange budget)
          else if 0 < iqb_MaxQueriesTotal budget \<and> iqb_MaxQueriesTotal budget < wrap32 total' then
            ''investigation query count '' @ itoa total' @ '' exceeds queryBudget.maxQueriesTotal '' @
            itoa (iqb_MaxQueriesTotal budget)
          else if 0 < iqb_MaxQueriesPerSource budget then
            countSources (iqb_MaxQueriesPerSource budget)
              (irs_DataSources spec @ map iq_DatasourceRef (irs_Queries spec)) (\<lambda>_. 0)
          else [])"

definition effectivenessIssue :: "InvestigationRequestSpec \<Rightarrow> specValidationIssue option" where
  "effectivenessIssue spec =
     (if irs_Purpose spec \<noteq> ''effectivenessVerification'' then None
      else if irs_Mode spec \<noteq> ''readOnly'' then
        Some (''UnsupportedInvestigationMode'', ''effectiveness verification must use readOnly mode'')
      else if irs_CreateRiskSignal spec then
        Some (''InvalidSpec'', ''effectiveness verification must not create a RiskSignal'')
      else case irs_Correlation spec of
        None \<Rightarrow> Some (''InvalidSpec'', ''effectiveness verification requires correlation.agentActionRef'')
      | Some cor \<Rightarrow>
          if TrimSpace (nor_Name (cor_AgentActionRef cor)) = [] \<or> TrimSpace (nor_Namespace (cor_AgentActionRef cor)) = []
          then Some (''InvalidSpec'', ''effectiveness verification requires correlation.agentActionRef'')
          else if TrimSpace (cor_ExecutionID cor) = [] \<or> TrimSpace (cor_BaselineDigest cor) = []
          then Some (''InvalidSpec'', ''effectiveness verification requires correlation.executionID and correlation.baselineDigest'')
          else None)"

fun queriesIssue :: "InvestigationQuery list \<Rightarrow> specValidationIssue option" where
  "queriesIssue [] = None"
| "queriesIssue (query # queries) =
     (if TrimSpace (iq_DatasourceRef query) = [] then
        Some (''InvalidSpec'', ''investigation queries require spec.queries[].datasourceRef.name'')
      else if TrimSpace (iq_QueryType query) = [] then
        Some (''InvalidSpec'', ''investigation queries require spec.queries[].queryType'')
      else queriesIssue queries)"

definition missingTargetFields :: "TargetRef \<Rightarrow> string list" where
  "missingTargetFields target =
     (if TrimSpace (t_Namespace target) = [] then [''spec.target.namespace''] else []) @
     (if TrimSpace (t_Kind target) = [] then [''spec.target.kind''] else []) @
     (if TrimSpace (t_Name target) = [] then [''spec.target.name''] else [])"

definition validateInvestigationRequestSpecIssue :: "InvestigationRequestSpec \<Rightarrow> specValidationIssue option" where
  "validateInvestigationRequestSpecIssue spec =
     (let missing = missingTargetFields (irs_Target spec); mode = TrimSpace (irs_Mode spec);
          retention = validateEvidenceRetention (irs_EvidenceRetention spec);
          queryRetention = validateQueryRetention (irs_QueryRetention spec);
          budget = validateInvestigationQueryBudget spec in
      if missing \<noteq> [] then Some (''TargetInvalid'', ''missing required target fields: '' @ Join missing '', '')
      else if mode \<noteq> [] \<and> mode \<noteq> ''readOnly'' then
        Some (''UnsupportedInvestigationMode'', ''unsupported investigation mode: '' @ mode)
      else if effectivenessIssue spec \<noteq> None then effectivenessIssue spec
      else if irs_DataSources spec = [] \<and> irs_Queries spec = [] then
        Some (''InvalidSpec'', ''spec.dataSources or spec.queries must include at least one datasource reference'')
      else if irs_DataSources spec \<noteq> [] \<and> irs_Queries spec \<noteq> [] then
        Some (''InvalidSpec'', ''spec.dataSources and spec.queries are mutually exclusive; use dataSources for controller-planned evidence or queries for user-planned evidence'')
      else if retention \<noteq> [] then
        Some (if erp_Mode (irs_EvidenceRetention spec) = ''RawSnapshot'' then ''UnsupportedRetentionMode'' else ''InvalidSpec'',
          retention)
      else if queryRetention \<noteq> [] then Some (''InvalidSpec'', queryRetention)
      else if budget \<noteq> [] then Some (''InvalidSpec'', budget)
      else queriesIssue (irs_Queries spec))"

definition validateInvestigationRequestSpec :: "InvestigationRequestSpec \<Rightarrow> string" where
  "validateInvestigationRequestSpec spec =
     (case validateInvestigationRequestSpecIssue spec of None \<Rightarrow> [] | Some issue \<Rightarrow> snd issue)"

definition validationFailureIsTargetResolution :: "string \<Rightarrow> bool" where
  "validationFailureIsTargetResolution reason \<longleftrightarrow> reason \<in> {''TargetInvalid'', ''UnsupportedTargetKind''}"

subsection \<open>Lineage\<close>

definition findingIdentityFromAnnotations :: "strmap \<Rightarrow> FindingIdentity option" where
  "findingIdentityFromAnnotations annotations =
     (let ann = (\<lambda>key. TrimSpace (mapGet annotations key)); (generation, ok) = ParseInt 64 (ann annotationTargetGeneration);
          identity = \<lparr>fid_SchemaVersion = ann annotationFindingSchema,
            fid_ObjectFindingIdentity = ann annotationObjectFindingID,
            fid_LogicalFindingIdentity = ann annotationLogicalFindingID,
            fid_IncidentOccurrence = ann annotationIncidentOccurrence, fid_FindingType = ann annotationFindingType,
            fid_TargetGeneration = (if ok then generation else 0), fid_WindowBucket = ann annotationWindowBucket\<rparr> in
      if fid_SchemaVersion identity = [] \<and> fid_ObjectFindingIdentity identity = [] \<and>
         fid_LogicalFindingIdentity identity = [] \<and> fid_IncidentOccurrence identity = [] then None
      else Some identity)"

definition lineageFromAnnotations :: "strmap \<Rightarrow> InvestigationLineage option" where
  "lineageFromAnnotations annotations =
     (let ann = (\<lambda>key. TrimSpace (mapGet annotations key));
          sourceRef = ann annotationLineageSource; fingerprint = ann annotationFindingFingerprint;
          targetUID = ann annotationTargetUID; (namespace, name) = splitNamespacedName sourceRef;
          orElse = (\<lambda>v d. if v = [] then d else v) in
      if sourceRef = [] \<and> fingerprint = [] \<and> targetUID = [] then None
      else Some \<lparr>ill_Source = \<lparr>ils_APIVersion = orElse (ann annotationLineageSourceAPI) GroupVersionString,
          ils_Kind = orElse (ann annotationLineageSourceKind) ''RiskRule'', ils_Namespace = namespace, ils_Name = name,
          ils_UID = ann annotationLineageSourceUID, ils_Generation = fst (ParseInt 64 (ann annotationLineageGeneration))\<rparr>,
        ill_TargetUID = targetUID, ill_FindingFingerprint = fingerprint,
        ill_FindingIdentity = findingIdentityFromAnnotations annotations,
        ill_InvestigationDepth = fst (ParseInt 32 (ann annotationInvestigationDepth))\<rparr>)"

definition lineageForReconcile :: "InvestigationLineage option \<Rightarrow> strmap \<Rightarrow> InvestigationLineage option" where
  "lineageForReconcile existing annotations =
     (case existing of Some l \<Rightarrow> Some l | None \<Rightarrow> lineageFromAnnotations annotations)"

definition lineageTargetUID :: "InvestigationLineage option \<Rightarrow> string" where
  "lineageTargetUID lineage = (case lineage of None \<Rightarrow> [] | Some l \<Rightarrow> ill_TargetUID l)"

subsection \<open>The loop guard\<close>

definition effectiveMaxDepth :: "InvestigationLoopPolicy \<Rightarrow> int" where
  "effectiveMaxDepth policy = (if ilp_MaxDepth policy \<le> 0 then 1 else ilp_MaxDepth policy)"

definition loopFailure :: "string \<Rightarrow> string \<Rightarrow> InvestigationFailure" where
  "loopFailure code msg = \<lparr>ifl_Code = code, ifl_Message = msg, ifl_Stage = ''Validation'', ifl_Retryable = False\<rparr>"

definition investigationLoopFailure ::
  "InvestigationLoopPolicy \<Rightarrow> InvestigationLineage option \<Rightarrow> InvestigationFailure option" where
  "investigationLoopFailure policy lineage =
     (case lineage of
        None \<Rightarrow> None
      | Some l \<Rightarrow>
          let maxDepth = effectiveMaxDepth policy; riskSignal = EqualFold (ils_Kind (ill_Source l)) ''RiskSignal'' in
          if maxDepth \<le> ill_InvestigationDepth l then
            Some (loopFailure ''InvestigationDepthLimitExceeded''
              (''investigation lineage depth '' @ itoa (ill_InvestigationDepth l) @ '' reached maxDepth '' @ itoa maxDepth))
          else if riskSignal \<and> \<not> ilp_AllowRiskSignalSource policy then
            Some (loopFailure ''RiskSignalSourceBlocked'' ''default loop policy blocks investigations sourced from RiskSignal'')
          else if riskSignal \<and> TrimSpace (ils_UID (ill_Source l)) = [] then
            Some (loopFailure ''RiskSignalSourceUIDRequired''
              ''RiskSignal-sourced investigations require lineage source UID for loop prevention'')
          else None)"

subsection \<open>What a valid specification guarantees\<close>

lemma countSources_iff:
  assumes "\<And>name. name \<noteq> [] \<Longrightarrow> counts name \<le> limit"
  shows "countSources limit ns counts = [] \<longleftrightarrow>
    (\<forall>name. name \<noteq> [] \<longrightarrow> counts name + int (count_list (map TrimSpace ns) name) \<le> limit)"
  using assms
proof (induction limit ns counts rule: countSources.induct)
  case (2 limit n ns counts)
  let ?name = "TrimSpace n" and ?counts = "counts(TrimSpace n := counts (TrimSpace n) + 1)"
  consider "?name = []" | "?name \<noteq> []" "limit < ?counts ?name" | "?name \<noteq> []" "\<not> limit < ?counts ?name" by blast
  then show ?case
  proof cases
    case 1
    then show ?thesis using "2.IH"(1) [OF refl refl 1] "2.prems" by auto
  next
    case 2
    then have "limit < counts ?name + int (count_list (map TrimSpace (n # ns)) ?name)" by simp
    with 2 show ?thesis by (auto simp: Let_def not_le intro!: exI [of _ ?name])
  next
    case 3
    have "?counts name + int (count_list (map TrimSpace ns) name) =
        counts name + int (count_list (map TrimSpace (n # ns)) name)" for name by simp
    moreover have "\<And>name. name \<noteq> [] \<Longrightarrow> ?counts name \<le> limit" using 3 "2.prems" by auto
    then have "countSources limit ns ?counts = [] \<longleftrightarrow>
        (\<forall>name. name \<noteq> [] \<longrightarrow> ?counts name + int (count_list (map TrimSpace ns) name) \<le> limit)"
      by (rule "2.IH"(2) [OF refl refl 3])
    moreover have "countSources limit (n # ns) counts = countSources limit ns ?counts" using 3 by (simp add: Let_def)
    ultimately show ?thesis by simp
  qed
qed simp

lemma queriesIssue_None_iff:
  "queriesIssue queries = None \<longleftrightarrow>
     (\<forall>q\<in>set queries. TrimSpace (iq_DatasourceRef q) \<noteq> [] \<and> TrimSpace (iq_QueryType q) \<noteq> [])"
  by (induction queries) auto

definition requestedSources :: "InvestigationRequestSpec \<Rightarrow> string list" where
  "requestedSources spec = irs_DataSources spec @ map iq_DatasourceRef (irs_Queries spec)"

lemma budget_ok:
  assumes "validateInvestigationQueryBudget spec = []"
  shows "(\<forall>(name, limit)\<in>set (budgetLimits (irs_QueryBudget spec)). 0 \<le> limit) \<and>
    (0 < iqb_MaxTimeRange (irs_QueryBudget spec) \<longrightarrow>
       itr_Lookback (irs_TimeRange spec) \<le> iqb_MaxTimeRange (irs_QueryBudget spec)) \<and>
    (0 < iqb_MaxQueriesPerSource (irs_QueryBudget spec) \<longrightarrow>
       (\<forall>name. name \<noteq> [] \<longrightarrow> int (count_list (map TrimSpace (requestedSources spec)) name)
          \<le> iqb_MaxQueriesPerSource (irs_QueryBudget spec)))"
proof -
  have none: "find (\<lambda>(_, limit). limit < 0) (budgetLimits (irs_QueryBudget spec)) = None"
    using assms by (auto simp: validateInvestigationQueryBudget_def Let_def split: option.splits)
  then have limits: "\<forall>(name, limit)\<in>set (budgetLimits (irs_QueryBudget spec)). 0 \<le> limit"
    by (force simp: find_None_iff)
  have "countSources (iqb_MaxQueriesPerSource (irs_QueryBudget spec)) (requestedSources spec) (\<lambda>_. 0) = []"
    if "0 < iqb_MaxQueriesPerSource (irs_QueryBudget spec)"
    using assms none that by (auto simp: validateInvestigationQueryBudget_def requestedSources_def Let_def split: if_splits)
  then have "0 < iqb_MaxQueriesPerSource (irs_QueryBudget spec) \<longrightarrow>
       (\<forall>name. name \<noteq> [] \<longrightarrow> int (count_list (map TrimSpace (requestedSources spec)) name)
          \<le> iqb_MaxQueriesPerSource (irs_QueryBudget spec))"
    using countSources_iff [of "\<lambda>_. 0" "iqb_MaxQueriesPerSource (irs_QueryBudget spec)" "requestedSources spec"] by auto
  moreover have "0 < iqb_MaxTimeRange (irs_QueryBudget spec) \<longrightarrow>
       itr_Lookback (irs_TimeRange spec) \<le> iqb_MaxTimeRange (irs_QueryBudget spec)"
    using assms none by (auto simp: validateInvestigationQueryBudget_def Let_def split: if_splits)
  ultimately show ?thesis using limits by blast
qed

lemma effectiveness_ok:
  assumes "effectivenessIssue spec = None" and "irs_Purpose spec = ''effectivenessVerification''"
  shows "irs_Mode spec = ''readOnly'' \<and> \<not> irs_CreateRiskSignal spec \<and>
    (\<exists>cor. irs_Correlation spec = Some cor \<and> TrimSpace (nor_Name (cor_AgentActionRef cor)) \<noteq> [] \<and>
       TrimSpace (cor_ExecutionID cor) \<noteq> [] \<and> TrimSpace (cor_BaselineDigest cor) \<noteq> [])"
  using assms by (auto simp: effectivenessIssue_def split: option.splits if_splits)

text \<open> a request that passes validation can be run within its own limits: it names its target, its mode is read-only,
  it gives either data sources or queries and every query names a source and a type, no limit is negative, the time range
  and the number of queries to each data source stay within the budget, and an effectiveness verification is tied to an
  action's execution and never creates a risk signal.\<close>

theorem valid_request_within_budget:
  assumes "validateInvestigationRequestSpecIssue spec = None"
  shows "missingTargetFields (irs_Target spec) = [] \<and> TrimSpace (irs_Mode spec) \<in> {[], ''readOnly''} \<and>
    (irs_DataSources spec = []) \<noteq> (irs_Queries spec = []) \<and>
    (\<forall>q\<in>set (irs_Queries spec). TrimSpace (iq_DatasourceRef q) \<noteq> [] \<and> TrimSpace (iq_QueryType q) \<noteq> []) \<and>
    (\<forall>(name, limit)\<in>set (budgetLimits (irs_QueryBudget spec)). 0 \<le> limit) \<and>
    (0 < iqb_MaxTimeRange (irs_QueryBudget spec) \<longrightarrow>
       itr_Lookback (irs_TimeRange spec) \<le> iqb_MaxTimeRange (irs_QueryBudget spec)) \<and>
    (0 < iqb_MaxQueriesPerSource (irs_QueryBudget spec) \<longrightarrow>
       (\<forall>name. name \<noteq> [] \<longrightarrow> int (count_list (map TrimSpace (requestedSources spec)) name)
          \<le> iqb_MaxQueriesPerSource (irs_QueryBudget spec))) \<and>
    (irs_Purpose spec = ''effectivenessVerification'' \<longrightarrow>
       irs_Mode spec = ''readOnly'' \<and> \<not> irs_CreateRiskSignal spec \<and>
       (\<exists>cor. irs_Correlation spec = Some cor \<and> TrimSpace (nor_Name (cor_AgentActionRef cor)) \<noteq> [] \<and>
          TrimSpace (cor_ExecutionID cor) \<noteq> [] \<and> TrimSpace (cor_BaselineDigest cor) \<noteq> []))"
proof -
  have parts: "missingTargetFields (irs_Target spec) = []" "TrimSpace (irs_Mode spec) \<in> {[], ''readOnly''}"
    "effectivenessIssue spec = None" "(irs_DataSources spec = []) \<noteq> (irs_Queries spec = [])"
    "validateInvestigationQueryBudget spec = []" "queriesIssue (irs_Queries spec) = None"
    using assms unfolding validateInvestigationRequestSpecIssue_def Let_def
    by (simp_all del: not_None_eq split: if_splits) blast+
  show ?thesis
    using parts(1,2,4) parts(6) [unfolded queriesIssue_None_iff] budget_ok [OF parts(5)] effectiveness_ok [OF parts(3)]
    by blast
qed

theorem valid_request_within_budget_witness:
  "missingTargetFields (irs_Target (profileSpec [] [eventQuery []])) = [] \<and>
   irs_Queries (profileSpec [] [eventQuery []]) \<noteq> [] \<and> irs_DataSources (profileSpec [] [eventQuery []]) = []"
proof -
  have "validateInvestigationRequestSpecIssue (profileSpec [] [eventQuery []]) = None" by code_simp
  from valid_request_within_budget [OF this] show ?thesis by (simp add: profileSpec_def)
qed

text \<open> the loop guard is open for a lineage whose depth cannot be read: an annotation that is no number counts as
  depth 0, the depth of an investigation that no investigation caused, and passes the guard under every policy.\<close>

theorem unreadable_depth_passes_guard:
  "(case lineageFromAnnotations [annotationLineageSource \<mapsto> ''shop/api'', annotationInvestigationDepth \<mapsto> ''two''] of
      None \<Rightarrow> False
    | Some l \<Rightarrow> ill_InvestigationDepth l = 0 \<and> investigationLoopFailure policy (Some l) = None)"
proof -
  have "ParseInt 32 (TrimSpace ''two'') = (0, False)" by code_simp
  moreover have "TrimSpace [] = []" by simp
  moreover have "\<not> EqualFold ''RiskRule'' ''RiskSignal''" by code_simp
  moreover have "TrimSpace ''shop/api'' \<noteq> []" by code_simp
  ultimately show ?thesis
    by (simp add: lineageFromAnnotations_def investigationLoopFailure_def effectiveMaxDepth_def mapGet_def Let_def
        split: prod.splits)
qed

end
