(* ===== verification/InvestigationStatus.thy ===== *)
theory InvestigationStatus
  imports InvestigationExecution InvestigationValidation StatusBudget
begin

text \<open>
  How a step of an investigation becomes its status (\<^verbatim>\<open>internal/controllers/investigationrequest_controller.go\<close>): the
  classes of failure codes, one function per way an investigation ends, each with the conditions in the order the code
  sets them, the size budget, and the quality metrics computed from a finished status.  The counters that are only
  reported to the metrics registry are not part of the status.
\<close>

subsection \<open>Classes of failure codes\<close>

definition datasourceFailures :: "string list" where
  "datasourceFailures = [''DatasourceQueryFailed'', ''DatasourceAuthFailed'', ''DatasourceRateLimited'',
     ''DatasourceUnavailable'', ''DatasourceRequestInvalid'', ''InvalidDatasourceResponse'']"

definition reasoningFailures :: "string list" where
  "reasoningFailures = [''GatewayUnavailable'', ''ProviderUnavailable'', ''ProviderUnsupported'', ''ProviderAuthFailed'',
     ''ProviderRateLimited'', ''ProviderRequestInvalid'', ''ProviderFallbackLoop'', ''SecretReaderUnavailable'',
     ''SecretReadFailed'', ''SecretRefMissing'', ''SecretNotFound'', ''SecretKeyMissing'', ''SecretValueEmpty'',
     ''APIKeyMissing'', ''InvalidProviderResponse'']"

definition shouldMarkInvestigationDegraded :: "string \<Rightarrow> bool" where
  "shouldMarkInvestigationDegraded reason \<longleftrightarrow>
     reason \<in> set (datasourceFailures @ ''ResolverUnavailable'' # reasoningFailures)"

definition investigationFailureStage :: "string \<Rightarrow> string" where
  "investigationFailureStage reason =
     (if reason \<in> {''TargetNotFound'', ''UnsupportedTargetKind'', ''ResolverUnavailable''} then ''TargetResolution''
      else if reason \<in> {''DataSourceNotSpecified'', ''DatasourceRegistryUnavailable'', ''DataSourceNotFound''}
      then ''DataSourceResolution''
      else if reason \<in> {''CapabilityMismatch'', ''QueryPolicyRejected'', ''QueryTemplateInvalid''} then ''QueryValidation''
      else if reason \<in> set datasourceFailures then ''EvidenceCollection''
      else if reason = ''ProviderNotFound'' then ''ProviderResolution''
      else if reason \<in> {''ProviderDataPolicyDenied'', ''ProviderDataPolicyRejected''} then ''ProviderEgressPolicy''
      else ''Reasoning'')"

definition investigationFailureRetryable :: "string \<Rightarrow> bool" where
  "investigationFailureRetryable reason \<longleftrightarrow>
     reason \<in> {''ResolverUnavailable'', ''DatasourceRegistryUnavailable'', ''DatasourceQueryFailed'',
       ''DatasourceRateLimited'', ''DatasourceUnavailable'', ''GatewayUnavailable'', ''ProviderUnavailable'',
       ''ProviderRateLimited'', ''SecretReaderUnavailable'', ''SecretReadFailed''}"

definition isTerminalInvestigationPhase :: "string \<Rightarrow> bool" where
  "isTerminalInvestigationPhase phase \<longleftrightarrow> phase \<in> {PhaseCompleted, PhaseFailed, PhaseRejected}"

definition shouldSkipInvestigationExecution :: "Investigation \<Rightarrow> bool" where
  "shouldSkipInvestigationExecution request \<longleftrightarrow>
     rs_ObservedGeneration (ist_ResourceStatus (inv_Status request)) = om_Generation (inv_Meta request) \<and>
     isTerminalInvestigationPhase (rs_Phase (ist_ResourceStatus (inv_Status request)))"

subsection \<open>Conditions and status\<close>

type_synonym conditionUpdate = "string \<times> string \<times> string \<times> string"

abbreviation updInvestigation ::
  "(InvestigationRequestStatus \<Rightarrow> InvestigationRequestStatus) \<Rightarrow> Investigation \<Rightarrow> Investigation" where
  "updInvestigation f request \<equiv> request\<lparr>inv_Status := f (inv_Status request)\<rparr>"

definition applyConditions ::
  "condition_api \<Rightarrow> gotime \<Rightarrow> int \<Rightarrow> conditionUpdate list \<Rightarrow> Condition list \<Rightarrow> Condition list" where
  "applyConditions ca now generation =
     fold (\<lambda>(conditionType, status, reason, msg). setStatusCondition ca conditionType status reason msg generation now)"

definition putConditions :: "condition_api \<Rightarrow> gotime \<Rightarrow> conditionUpdate list \<Rightarrow> Investigation \<Rightarrow> Investigation" where
  "putConditions ca now cs request =
     updInvestigation (\<lambda>s. s\<lparr>ist_Conditions := applyConditions ca now (om_Generation (inv_Meta request)) cs (ist_Conditions s)\<rparr>)
       request"

definition putPhase :: "string \<Rightarrow> string \<Rightarrow> gotime \<Rightarrow> Investigation \<Rightarrow> Investigation" where
  "putPhase phase msg now request =
     updInvestigation (setInvestigationRequestStatus phase msg (om_Generation (inv_Meta request)) now) request"

definition remediationBlocked :: "string \<Rightarrow> string \<Rightarrow> conditionUpdate" where
  "remediationBlocked reason msg = (conditionRemediationReady, ConditionFalse, reason, msg)"

definition verificationUnknown :: "string \<Rightarrow> string \<Rightarrow> conditionUpdate" where
  "verificationUnknown reason msg = (conditionVerified, ConditionUnknown, reason, msg)"

definition notRunnableConditions :: "string \<Rightarrow> string \<Rightarrow> conditionUpdate list" where
  "notRunnableConditions reason msg =
     map (\<lambda>t. (t, ConditionUnknown, reason, msg))
       [conditionDatasourceResolved, conditionQueryTypeSupported, conditionQueryPolicyReady, conditionEvidenceReady]"

definition queriesResolved :: "conditionUpdate list" where
  "queriesResolved =
     [(conditionQueryTypeSupported, ConditionTrue, ''AllQueryTypesSupported'', ''all investigation query types were supported''),
      (conditionQueryPolicyReady, ConditionTrue, ''AllQueriesAllowed'',
         ''all investigation queries were allowed by datasource policy'')]"

definition targetResolved :: conditionUpdate where
  "targetResolved = (conditionTargetResolved, ConditionTrue, ''TargetResolved'', ''target resource was resolved successfully'')"

definition datasourcesResolved :: conditionUpdate where
  "datasourcesResolved =
     (conditionDatasourceResolved, ConditionTrue, ''AllDatasourcesResolved'', ''all referenced datasources were resolved'')"

subsection \<open>Endings before reasoning\<close>

definition applyLoopPreventedInvestigationStatus ::
  "condition_api \<Rightarrow> InvestigationFailure \<Rightarrow> gotime \<Rightarrow> Investigation \<Rightarrow> Investigation" where
  "applyLoopPreventedInvestigationStatus ca failure now request =
     putConditions ca now
       ([(conditionReady, ConditionFalse, ifl_Code failure, ifl_Message failure),
         (conditionTargetResolved, ConditionUnknown, ''InvestigationNotRunnable'',
            ''target resolution was not evaluated because loop prevention blocked execution'')] @
        notRunnableConditions ''InvestigationNotRunnable''
          ''investigation request was blocked before target, datasource, query, or evidence execution'' @
        [(conditionRCAReady, ConditionFalse, ifl_Code failure, ifl_Message failure),
         remediationBlocked ''RCAUnavailable'' (''remediation is unavailable because RCA execution was blocked: '' @ ifl_Code failure),
         verificationUnknown ''RCAUnavailable'' ''verification was not performed because RCA execution was blocked'',
         (conditionDegraded, ConditionFalse, ''ValidationFailed'',
            ''request failed validation before evidence collection started'')])
       (updInvestigation (\<lambda>s. s\<lparr>ist_ResourceStatus := (ist_ResourceStatus s)\<lparr>rs_Phase := PhaseFailed,
           rs_Message := ifl_Message failure\<rparr>,
         ist_Outcome := InvestigationOutcomeUnknown, ist_Failure := Some failure, ist_CompletedAt := Some now\<rparr>) request)"

definition applyInvestigationFailure :: "string \<Rightarrow> string \<Rightarrow> string \<Rightarrow> Investigation \<Rightarrow> Investigation" where
  "applyInvestigationFailure code msg stage =
     updInvestigation (\<lambda>s. s\<lparr>ist_Outcome := InvestigationOutcomeUnknown,
       ist_Failure := Some \<lparr>ifl_Code = code, ifl_Message = msg, ifl_Stage = stage,
         ifl_Retryable = investigationFailureRetryable code\<rparr>,
       ist_Degradation := (if shouldMarkInvestigationDegraded code
         then Some \<lparr>rdg_Partial = True, rdg_UnavailableSources = [],
           rdg_Reasons = [\<lparr>rdr_Code = code, rdr_Stage = stage, rdr_SourceRef = None, rdr_Message = msg\<rparr>]\<rparr>
         else None)\<rparr>)"

definition applyInvalidInvestigationStatus ::
  "condition_api \<Rightarrow> string \<Rightarrow> string \<Rightarrow> gotime \<Rightarrow> Investigation \<Rightarrow> Investigation" where
  "applyInvalidInvestigationStatus ca reason msg now request =
     (let reason = (if TrimSpace reason = [] then ''InvalidSpec'' else reason) in
      putConditions ca now
        ([(conditionReady, ConditionFalse, reason, msg),
          if validationFailureIsTargetResolution reason then (conditionTargetResolved, ConditionFalse, reason, msg)
          else (conditionTargetResolved, ConditionUnknown, ''InvestigationNotRunnable'',
            ''target resolution was not evaluated because request validation failed'')] @
         notRunnableConditions ''InvestigationNotRunnable'' ''investigation request did not pass basic validation'' @
         [(conditionRCAReady, ConditionFalse, ''InvestigationNotRunnable'',
             ''RCA execution is blocked because request validation failed''),
          remediationBlocked ''RCAUnavailable'' ''remediation is unavailable because the investigation request is not runnable'',
          verificationUnknown ''RCAUnavailable'' ''verification was not performed because the investigation request is not runnable'',
          (conditionDegraded, ConditionFalse, ''ValidationFailed'',
             ''request failed validation before evidence collection started'')])
        (updInvestigation (\<lambda>s. s\<lparr>ist_CompletedAt := Some now, ist_Provider := []\<rparr>)
          (applyInvestigationFailure reason msg ''Validation'' (putPhase PhaseFailed msg now request))))"

text \<open>What the two endings by the evidence requirements share.\<close>

definition gateVerdict :: "string \<Rightarrow> string \<Rightarrow> RCAVerdict" where
  "gateVerdict outcome summary =
     \<lparr>rvd_Outcome = outcome, rvd_Summary = summary, rvd_RootCauseEntity = resourceToTargetRef emptyResourceRef,
      rvd_RootCauseType = [], rvd_Confidence = Finite 0,
      rvd_ConfidenceDetail = Some \<lparr>rcf_ProviderScore = Finite 0, rcf_VerifiedScore = Finite 0, rcf_Level = ''None'',
        rcf_Method = ''RequiredEvidenceProfileV1''\<rparr>\<rparr>"

definition gateStatus ::
  "EvidenceCollectionResult \<Rightarrow> evidenceRequirementGate \<Rightarrow> string \<Rightarrow> string \<Rightarrow> RCAMissingEvidence list \<Rightarrow> RCADegradation option \<Rightarrow>
   gotime \<Rightarrow> Investigation \<Rightarrow> Investigation" where
  "gateStatus evidence gate outcome msg missing degradation now request =
     putPhase PhaseCompleted msg now (updInvestigation (\<lambda>s. s\<lparr>ist_Provider := [], ist_EvidenceRefs := ecr_EvidenceRefs evidence,
       ist_Summary := msg, ist_Hypothesis := [], ist_Confidence := Finite 0, ist_Outcome := outcome, ist_Failure := None,
       ist_MissingEvidence := missing, ist_Degradation := degradation, ist_Verdict := Some (gateVerdict outcome msg),
       ist_EvidenceCoverage := erg_Coverage gate, ist_Claims := [], ist_AlternativeHypotheses := [], ist_Execution := None,
       ist_CompletedAt := Some now\<rparr>) request)"

definition applyEvidenceRequirementInconclusiveStatus ::
  "condition_api \<Rightarrow> EvidenceCollectionResult \<Rightarrow> evidenceRequirementGate \<Rightarrow> gotime \<Rightarrow> Investigation \<Rightarrow> Investigation" where
  "applyEvidenceRequirementInconclusiveStatus ca evidence gate now request =
     putConditions ca now
       (targetResolved # datasourcesResolved # queriesResolved @
        [(conditionEvidenceReady, ConditionFalse, ''RequiredEvidenceMissing'', erg_Message gate),
         (conditionRCAReady, ConditionFalse, ''RequiredEvidenceMissing'', ''RCA is inconclusive because required evidence is incomplete''),
         remediationBlocked ''RCAUnavailable'' ''remediation is unavailable because required RCA evidence is incomplete'',
         verificationUnknown ''RCAUnavailable'' ''verification was not performed because required RCA evidence is incomplete'',
         (conditionReady, ConditionTrue, ''InvestigationInconclusive'', erg_Message gate),
         (conditionDegraded, ConditionTrue, ''RequiredEvidenceMissing'', erg_Message gate)])
       (gateStatus evidence gate InvestigationOutcomeInconclusive (erg_Message gate) (erg_Missing gate)
         (Some \<lparr>rdg_Partial = True, rdg_UnavailableSources = [],
            rdg_Reasons = [\<lparr>rdr_Code = ''RequiredEvidenceMissing'', rdr_Stage = ''EvidenceCollection'', rdr_SourceRef = None,
              rdr_Message = erg_Message gate\<rparr>]\<rparr>) now request)"

definition applyEvidenceRequirementNoIssueFoundStatus ::
  "condition_api \<Rightarrow> EvidenceCollectionResult \<Rightarrow> evidenceRequirementGate \<Rightarrow> gotime \<Rightarrow> Investigation \<Rightarrow> Investigation" where
  "applyEvidenceRequirementNoIssueFoundStatus ca evidence gate now request =
     (let msg = ''required evidence profile '' @ quote (erg_Profile gate) @ '' is complete and no matching issue evidence was found'' in
      putConditions ca now
        (targetResolved # datasourcesResolved # queriesResolved @
         [(conditionEvidenceReady, ConditionTrue, ''RequiredEvidenceComplete'', erg_Message gate),
          (conditionRCAReady, ConditionTrue, ''NoIssueFound'', msg),
          (conditionVerified, ConditionTrue, ''NoIssueFindingSupported'',
             ''required evidence coverage supports the absence of a matching issue''),
          remediationBlocked ''NoIssueFound'' ''remediation is not available because no issue was found'',
          (conditionReady, ConditionTrue, ''NoIssueFound'', msg),
          (conditionDegraded, ConditionFalse, ''NoDegradation'', ''investigation completed without degradation'')])
        (gateStatus evidence gate InvestigationOutcomeNoIssueFound msg [] None now request))"

subsection \<open>The ending by reasoning\<close>

text \<open>The plan of queries of \<^verbatim>\<open>internal/investigation/service.go\<close>, next to the fields that were needed so far.\<close>

record CollectionStep =
  cst_Name :: string
  cst_DatasourceName :: string
  cst_QueryType :: string
  cst_Query :: string
  cst_Reasons :: "string list"

record PlannedPreflight = PreflightResult +
  ppf_Labels :: strmap
  ppf_DatasourceNames :: "string list"
  ppf_CollectionPlan :: "CollectionStep list"

abbreviation firstIssue :: "PlannedPreflight \<Rightarrow> Issue option" where
  "firstIssue preflight \<equiv> FirstIssue (PreflightResult.truncate preflight)"

definition investigationOutcomeAllowsRiskSignalProjection :: "string \<Rightarrow> bool" where
  "investigationOutcomeAllowsRiskSignalProjection outcome \<longleftrightarrow> outcome = InvestigationOutcomeConfirmed"

definition rootCauseEntityForInvestigationOutcome :: "string \<Rightarrow> ResourceRef \<Rightarrow> TargetRef" where
  "rootCauseEntityForInvestigationOutcome outcome target =
     resourceToTargetRef (if \<not> investigationOutcomeAllowsRiskSignalProjection outcome then emptyResourceRef else target)"

definition applyStructuredRCAStatus ::
  "investigation_codec \<Rightarrow> PlannedPreflight \<Rightarrow> EvidenceCollectionResult \<Rightarrow> RCAResult \<Rightarrow> gotime \<Rightarrow> Investigation \<Rightarrow> Investigation" where
  "applyStructuredRCAStatus ic preflight evidence rca now request =
     (case rca_Reasoning rca of
        None \<Rightarrow> request
      | Some reasoning \<Rightarrow>
          let profile = ers_Profile (irs_EvidenceRequirements (inv_Spec request));
              confidence = providerScore reasoning;
              (claims, verification) = buildRCAClaims reasoning evidence profile;
              evaluation = evaluateCanonicalVerdict reasoning evidence claims confidence profile;
              entity = (case cve_RootCauseEntity evaluation of
                  None \<Rightarrow> rootCauseEntityForInvestigationOutcome (cve_Outcome evaluation) (pfr_Target preflight)
                | Some e \<Rightarrow> e);
              verdict = \<lparr>rvd_Outcome = cve_Outcome evaluation, rvd_Summary = cve_Summary evaluation,
                rvd_RootCauseEntity = entity, rvd_RootCauseType = cve_RootCauseType evaluation,
                rvd_Confidence = cve_Confidence evaluation,
                rvd_ConfidenceDetail = Some \<lparr>rcf_ProviderScore = confidence, rcf_VerifiedScore = cve_VerifiedScore evaluation,
                  rcf_Level = confidenceLevel (cve_VerifiedScore evaluation), rcf_Method = vrs_Method verification\<rparr>\<rparr>;
              request = updInvestigation (\<lambda>s. s\<lparr>ist_Verdict := Some verdict, ist_Summary := cve_Summary evaluation,
                ist_Confidence := cve_Confidence evaluation, ist_Outcome := cve_Outcome evaluation, ist_Claims := claims,
                ist_AlternativeHypotheses :=
                  diagnosticAlternativeHypothesesWithoutConfirmedMechanism (ecr_Diagnostics evidence) claims,
                ist_MissingEvidence := cve_MissingEvidence evaluation,
                ist_Degradation := Some \<lparr>rdg_Partial = False, rdg_UnavailableSources = [], rdg_Reasons = []\<rparr>\<rparr>) request;
              execution = buildRCAExecution ic request preflight evidence rca
                (investigationExecutionID ic (inv_Meta request) (ist_Lineage (inv_Status request)) preflight evidence)
                executionStateFinalized now in
          updInvestigation (\<lambda>s. s\<lparr>ist_Execution := Some (execution\<lparr>rex_VerifierVersion := vrs_Method verification\<rparr>)\<rparr>) request)"

text \<open>The conditions on the dependencies, set whatever the ending is.\<close>

definition evidenceCondition :: "PlannedPreflight \<Rightarrow> EvidenceCollectionResult \<Rightarrow> conditionUpdate" where
  "evidenceCondition preflight evidence =
     (if pfr_ModelProviderIssue preflight \<noteq> None then
        (conditionEvidenceReady, ConditionUnknown, ''ProviderUnavailableBeforeCollection'',
         ''evidence collection was not evaluated because provider resolution failed'')
      else if pfr_QueryTypeIssue preflight \<noteq> None then
        (conditionEvidenceReady, ConditionUnknown, ''QueryValidationFailed'',
         ''evidence collection was not evaluated because query validation failed'')
      else case ecr_Issue evidence of
        Some issue \<Rightarrow> (conditionEvidenceReady, ConditionFalse, iss_Reason issue, iss_Message issue)
      | None \<Rightarrow> (conditionEvidenceReady, ConditionTrue, ''EvidenceCollected'', ecr_Summary evidence))"

definition queryConditions :: "PlannedPreflight \<Rightarrow> conditionUpdate list" where
  "queryConditions preflight =
     (case pfr_QueryTypeIssue preflight of
        Some issue \<Rightarrow>
          if iss_Reason issue = ''QueryPolicyRejected'' then
            [(conditionQueryTypeSupported, ConditionTrue, ''AllQueryTypesSupported'', ''all investigation query types were supported''),
             (conditionQueryPolicyReady, ConditionFalse, iss_Reason issue, iss_Message issue)]
          else
            [(conditionQueryTypeSupported, ConditionFalse, iss_Reason issue, iss_Message issue),
             (conditionQueryPolicyReady, ConditionUnknown, ''QueryTypeUnsupported'',
                ''query policy was not evaluated because query type validation failed'')]
      | None \<Rightarrow>
          if pfr_DatasourceIssue preflight \<noteq> None then
            [(conditionQueryTypeSupported, ConditionUnknown, ''DataSourceUnavailable'',
                ''query type capability was not evaluated because datasource resolution failed''),
             (conditionQueryPolicyReady, ConditionUnknown, ''DataSourceUnavailable'',
                ''query policy was not evaluated because datasource resolution failed'')]
          else queriesResolved)"

definition rcaReadyCondition :: "PlannedPreflight \<Rightarrow> EvidenceCollectionResult \<Rightarrow> RCAResult \<Rightarrow> conditionUpdate" where
  "rcaReadyCondition preflight evidence rca =
     (case pfr_ModelProviderIssue preflight of
        Some issue \<Rightarrow> (conditionRCAReady, ConditionFalse, iss_Reason issue, iss_Message issue)
      | None \<Rightarrow>
          (case ecr_Issue evidence of
             Some issue \<Rightarrow> (conditionRCAReady, ConditionFalse, iss_Reason issue,
               ''RCA execution is blocked until evidence collection succeeds'')
           | None \<Rightarrow>
               (case rca_Issue rca of
                  Some issue \<Rightarrow> (conditionRCAReady, ConditionFalse, iss_Reason issue, iss_Message issue)
                | None \<Rightarrow> (conditionRCAReady, ConditionTrue, ''ProviderSucceeded'',
                    ''RCA generated successfully for investigation request''))))"

definition dependencyConditions :: "PlannedPreflight \<Rightarrow> EvidenceCollectionResult \<Rightarrow> RCAResult \<Rightarrow> conditionUpdate list" where
  "dependencyConditions preflight evidence rca =
     (case pfr_TargetIssue preflight of
        Some issue \<Rightarrow> [(conditionTargetResolved, ConditionFalse, iss_Reason issue, iss_Message issue)]
      | None \<Rightarrow> [targetResolved]) @
     (case pfr_DatasourceIssue preflight of
        Some issue \<Rightarrow>
          [(conditionDatasourceResolved, ConditionFalse, iss_Reason issue, iss_Message issue),
           (conditionEvidenceReady, ConditionFalse, iss_Reason issue, iss_Message issue)]
      | None \<Rightarrow> [datasourcesResolved, evidenceCondition preflight evidence]) @
     queryConditions preflight @ [rcaReadyCondition preflight evidence rca]"

text \<open>The conditions that the three failing endings set; they differ in the message of a failure without degradation.\<close>

definition failureConditions :: "string \<Rightarrow> string \<Rightarrow> string \<Rightarrow> string \<Rightarrow> conditionUpdate list" where
  "failureConditions reason msg undegraded blocked =
     [(conditionReady, ConditionFalse, reason, msg),
      if shouldMarkInvestigationDegraded reason then (conditionDegraded, ConditionTrue, reason, msg)
      else (conditionDegraded, ConditionFalse, reason, undegraded),
      remediationBlocked ''RCAUnavailable'' (blocked @ reason)]"

definition outcomeConditions :: "string \<Rightarrow> string \<Rightarrow> conditionUpdate list" where
  "outcomeConditions outcome summary =
     (if outcome = InvestigationOutcomeConfirmed then
        [(conditionRCAReady, ConditionTrue, ''ProviderSucceeded'', ''RCA generated successfully for investigation request''),
         (conditionVerified, ConditionTrue, ''RootCauseClaimsSupported'', ''root-cause claims are supported by collected evidence''),
         (conditionRemediationReady, ConditionTrue, ''RootCauseVerified'',
            ''remediation planning is allowed after verified root-cause evidence''),
         (conditionReady, ConditionTrue, ''InvestigationCompleted'',
            ''evidence collection and RCA generation completed successfully'')]
      else if outcome = InvestigationOutcomeInconclusive then
        [(conditionRCAReady, ConditionFalse, ''RCAUnverified'',
            ''RCA completed but proposed root-cause claims were not supported by collected evidence''),
         (conditionVerified, ConditionFalse, ''NoSupportedRootCauseClaims'',
            ''no proposed root-cause claim was supported by collected evidence''),
         remediationBlocked ''RCAUnverified'' ''remediation is not allowed without verified root-cause evidence'',
         (conditionReady, ConditionTrue, ''InvestigationInconclusive'', summary)]
      else
        [remediationBlocked ''RCAUnavailable'' ''remediation is unavailable because the investigation outcome is not confirmed'',
         (conditionReady, ConditionTrue, ''InvestigationCompleted'',
            ''evidence collection and RCA generation completed successfully'')])"

definition failedPreflightStatus :: "condition_api \<Rightarrow> Issue \<Rightarrow> gotime \<Rightarrow> Investigation \<Rightarrow> Investigation" where
  "failedPreflightStatus ca issue now request =
     putConditions ca now
       (failureConditions (iss_Reason issue) (iss_Message issue) ''request failed without an optional dependency degradation''
          ''remediation is unavailable because RCA execution was blocked: '' @
        [verificationUnknown ''RCAUnavailable'' ''verification was not performed because RCA execution was blocked''])
       (updInvestigation (\<lambda>s. s\<lparr>ist_CompletedAt := Some now\<rparr>)
         (applyInvestigationFailure (iss_Reason issue) (iss_Message issue) (investigationFailureStage (iss_Reason issue))
           (putPhase PhaseFailed (iss_Message issue) now request)))"

definition failedEvidenceStatus :: "condition_api \<Rightarrow> Issue \<Rightarrow> gotime \<Rightarrow> Investigation \<Rightarrow> Investigation" where
  "failedEvidenceStatus ca issue now request =
     putConditions ca now
       (failureConditions (iss_Reason issue) (iss_Message issue)
          ''request failed during evidence collection without an optional dependency degradation''
          ''remediation is unavailable because evidence collection did not complete: '')
       (updInvestigation (\<lambda>s. s\<lparr>ist_Summary := [], ist_Hypothesis := [], ist_Confidence := Finite 0,
           ist_CompletedAt := Some now\<rparr>)
         (applyInvestigationFailure (iss_Reason issue) (iss_Message issue) ''EvidenceCollection''
           (putPhase PhaseFailed (iss_Message issue) now request)))"

definition failedReasoningStatus ::
  "condition_api \<Rightarrow> investigation_codec \<Rightarrow> PlannedPreflight \<Rightarrow> EvidenceCollectionResult \<Rightarrow> RCAResult \<Rightarrow> Issue \<Rightarrow> gotime \<Rightarrow>
   Investigation \<Rightarrow> Investigation" where
  "failedReasoningStatus ca ic preflight evidence rca issue now request =
     (let request = applyInvestigationFailure (iss_Reason issue) (iss_Message issue) (investigationFailureStage (iss_Reason issue))
            (putPhase PhaseFailed (iss_Message issue) now request);
          audit = (if iss_EgressAudit issue = None then rca_PrimaryEgress rca else iss_EgressAudit issue);
          request = (if iss_EgressAudit issue \<noteq> None \<or> rca_EgressAttempts rca \<noteq> []
            then updInvestigation (\<lambda>s. s\<lparr>ist_Execution := Some ((buildRejectedRCAExecution ic request preflight audit
                (rca_EgressAttempts rca)
                (investigationExecutionID ic (inv_Meta request) (ist_Lineage (inv_Status request)) preflight evidence) now)
                \<lparr>rex_State := iss_Reason issue\<rparr>)\<rparr>) request
            else request) in
      putConditions ca now
        (failureConditions (iss_Reason issue) (iss_Message issue)
           ''request failed during RCA generation without an optional dependency degradation''
           ''remediation is unavailable because RCA generation failed: '')
        (updInvestigation (\<lambda>s. s\<lparr>ist_Summary := ecr_Summary evidence, ist_Hypothesis := [], ist_Confidence := Finite 0,
           ist_CompletedAt := Some now\<rparr>) request))"

definition reasoningApplied ::
  "investigation_codec \<Rightarrow> PlannedPreflight \<Rightarrow> EvidenceCollectionResult \<Rightarrow> RCAResult \<Rightarrow> gotime \<Rightarrow> Investigation \<Rightarrow> Investigation" where
  "reasoningApplied ic preflight evidence rca now request =
     (case rca_Reasoning rca of
        None \<Rightarrow> request
      | Some reasoning \<Rightarrow>
          applyStructuredRCAStatus ic preflight evidence rca now
            (updInvestigation (\<lambda>s. s\<lparr>ist_Summary := rso_RiskSummary reasoning,
               ist_Hypothesis := rcs_Hypothesis (rso_RCA reasoning), ist_Confidence := providerScore reasoning,
               ist_Provider := (if TrimSpace (rso_Provider reasoning) \<noteq> [] then rso_Provider reasoning else ist_Provider s)\<rparr>)
              request))"

definition completedStatus ::
  "condition_api \<Rightarrow> investigation_codec \<Rightarrow> PlannedPreflight \<Rightarrow> EvidenceCollectionResult \<Rightarrow> RCAResult \<Rightarrow> gotime \<Rightarrow> Investigation \<Rightarrow>
   Investigation" where
  "completedStatus ca ic preflight evidence rca now request =
     (let request = reasoningApplied ic preflight evidence rca now request;
          degradation = evidenceCoverageDegradation evidence;
          request = updInvestigation (\<lambda>s. s\<lparr>ist_Degradation := (if degradation \<noteq> None then degradation else ist_Degradation s),
            ist_CompletedAt := Some now,
            ist_Outcome := (if ist_Outcome s = [] then InvestigationOutcomeUnknown else ist_Outcome s),
            ist_Failure := None\<rparr>) request;
          request = putPhase PhaseCompleted (ist_Summary (inv_Status request)) now request in
      putConditions ca now
        (outcomeConditions (ist_Outcome (inv_Status request)) (ist_Summary (inv_Status request)) @
         [case degradation of
            Some d \<Rightarrow> (let (reason, msg) = evidenceDegradationCondition d in (conditionDegraded, ConditionTrue, reason, msg))
          | None \<Rightarrow> (conditionDegraded, ConditionFalse, ''NoDegradation'', ''request completed successfully without degradation'')])
        request)"

definition applyInvestigationExecutionStatus ::
  "condition_api \<Rightarrow> investigation_codec \<Rightarrow> PlannedPreflight \<Rightarrow> EvidenceCollectionResult \<Rightarrow> RCAResult \<Rightarrow> gotime \<Rightarrow> Investigation \<Rightarrow>
   Investigation" where
  "applyInvestigationExecutionStatus ca ic preflight evidence rca now request =
     (let request = putConditions ca now (dependencyConditions preflight evidence rca)
            (updInvestigation (\<lambda>s. s\<lparr>ist_Provider := [], ist_EvidenceRefs := ecr_EvidenceRefs evidence\<rparr>) request) in
      case firstIssue preflight of
        Some issue \<Rightarrow> failedPreflightStatus ca issue now request
      | None \<Rightarrow>
          (case ecr_Issue evidence of
             Some issue \<Rightarrow> failedEvidenceStatus ca issue now request
           | None \<Rightarrow>
               (case rca_Issue rca of
                  Some issue \<Rightarrow> failedReasoningStatus ca ic preflight evidence rca issue now request
                | None \<Rightarrow> completedStatus ca ic preflight evidence rca now request)))"

subsection \<open>The size budget\<close>

definition appendDegradationReason :: "RCADegradationReason list \<Rightarrow> RCADegradationReason \<Rightarrow> RCADegradationReason list" where
  "appendDegradationReason reasons reason =
     (if list_ex (\<lambda>r. rdr_Code r = rdr_Code reason \<and> rdr_Stage r = rdr_Stage reason) reasons then reasons
      else reasons @ [reason])"

definition budgetReason :: RCADegradationReason where
  "budgetReason = \<lparr>rdr_Code = ''StatusBudgetExceeded'', rdr_Stage = ''Persistence'', rdr_SourceRef = None,
     rdr_Message = ''investigation status exceeded compact metadata budget and was truncated''\<rparr>"

definition applyInvestigationStatusBudget :: "condition_api \<Rightarrow> marshal_fn \<Rightarrow> gotime \<Rightarrow> Investigation \<Rightarrow> Investigation" where
  "applyInvestigationStatusBudget ca marshal now request =
     (case EnforceInvestigationStatus marshal (inv_Status request) of
        (status, False) \<Rightarrow> request\<lparr>inv_Status := status\<rparr>
      | (status, True) \<Rightarrow>
          let degradation = (case ist_Degradation status of
                None \<Rightarrow> \<lparr>rdg_Partial = True, rdg_UnavailableSources = [], rdg_Reasons = []\<rparr> | Some d \<Rightarrow> d) in
          putConditions ca now [(conditionDegraded, ConditionTrue, rdr_Code budgetReason, rdr_Message budgetReason)]
            (request\<lparr>inv_Status := status\<lparr>ist_Degradation := Some (degradation\<lparr>rdg_Partial := True,
               rdg_Reasons := appendDegradationReason (rdg_Reasons degradation) budgetReason\<rparr>)\<rparr>\<rparr>))"

subsection \<open>Quality metrics\<close>

datatype qualitySample =
    InvestigationQuality string string string string string
  | EvidenceSufficiency string bool
  | RequiredEvidenceCheck string string string
  | ActionableInconclusive string string bool

definition allRequiredChecksComplete :: "string list \<Rightarrow> RCAEvidenceCoverage option \<Rightarrow> bool" where
  "allRequiredChecksComplete checks coverage \<longleftrightarrow>
     (case coverage of None \<Rightarrow> False
      | Some c \<Rightarrow> rec_IncompleteChecks c = [] \<and> list_all (\<lambda>check. check \<in> set (rec_CompletedChecks c)) checks)"

definition evidenceAvailabilityForMetrics :: "Investigation \<Rightarrow> string list \<Rightarrow> string" where
  "evidenceAvailabilityForMetrics request checks =
     (let s = inv_Status request in
      if checks = [] then ''not_applicable''
      else if rs_Phase (ist_ResourceStatus s) = PhaseFailed then ''unavailable''
      else case ist_EvidenceCoverage s of
        None \<Rightarrow> ''unavailable''
      | Some c \<Rightarrow>
          if allRequiredChecksComplete checks (Some c) then ''available''
          else if rec_CompletedChecks c \<noteq> [] \<or> ist_MissingEvidence s \<noteq> [] \<or> ist_Degradation s \<noteq> None then ''partial''
          else ''unavailable'')"

text \<open>The loop over the missing evidence; \<open>fallback\<close> is the result when no entry decides.\<close>

fun missingCheckResult :: "string \<Rightarrow> RCAMissingEvidence list \<Rightarrow> string \<Rightarrow> string" where
  "missingCheckResult checkSource [] fallback = fallback"
| "missingCheckResult checkSource (m # ms) fallback =
     (if ToLower (TrimSpace (rme_Source m)) \<noteq> checkSource then missingCheckResult checkSource ms fallback
      else if rme_Reason m \<in> set datasourceFailures then ''failed''
      else if rme_Reason m = ''ContainerTerminationEvidenceStale'' then ''stale''
      else if rme_Reason m = ''ContainerTerminationEvidenceTruncated'' then ''truncated''
      else if rme_Reason m \<in> {''DataSourceNotFound'', ''DataSourceNotSpecified'', ''UnsupportedQueryType''} then ''unavailable''
      else missingCheckResult checkSource ms
        (if rme_Reason m \<in> {''RequiredEvidenceMissing'', ''ContainerTerminationEvidenceMissing''} then ''empty'' else ''missing''))"

definition evidenceCheckResultForMetrics :: "Investigation \<Rightarrow> string \<Rightarrow> string" where
  "evidenceCheckResultForMetrics request check =
     (let s = inv_Status request in
      if (case ist_EvidenceCoverage s of None \<Rightarrow> False | Some c \<Rightarrow> check \<in> set (rec_CompletedChecks c)) then ''usable''
      else if ist_Failure s \<noteq> None then ''unavailable''
      else missingCheckResult (ToLower (takeWhile (\<lambda>c. c \<noteq> CHR '':'') check)) (ist_MissingEvidence s) ''missing'')"

definition gapCategory :: "string \<Rightarrow> string" where
  "gapCategory reason =
     (if reason = ''CrashLoopApplicationEvidenceMissing'' then ''application_evidence_missing''
      else if reason = ''CrashLoopApplicationLogRequired'' then ''application_log_required''
      else if reason = ''ContainerTerminationEvidenceMissing'' then ''termination_missing''
      else if reason = ''ContainerTerminationEvidenceStale'' then ''termination_stale''
      else if reason = ''ContainerTerminationEvidenceTruncated'' then ''termination_truncated'' else ''other'')"

definition inconclusiveGapReason :: "Investigation \<Rightarrow> string" where
  "inconclusiveGapReason request =
     (let reasons = map rme_Reason (ist_MissingEvidence (inv_Status request));
          categories = remdups (map gapCategory (filter (\<lambda>r. r \<noteq> ''RequiredEvidenceMissing'') reasons)) in
      case categories of
        [] \<Rightarrow> if ''RequiredEvidenceMissing'' \<in> set reasons then ''other'' else ''none''
      | [c] \<Rightarrow> c
      | _ \<Rightarrow> ''multiple'')"

definition inconclusiveHasSpecificNextStep :: "Investigation \<Rightarrow> bool" where
  "inconclusiveHasSpecificNextStep request \<longleftrightarrow>
     lowerTrim (ers_Profile (irs_EvidenceRequirements (inv_Spec request))) \<in> {''crashloopbackoff'', ''crashloopbackoffv2''} \<and>
     inconclusiveGapReason request \<in> {''application_evidence_missing'', ''application_log_required'', ''termination_missing'',
       ''termination_stale'', ''termination_truncated''}"

definition recordInvestigationQualityMetrics :: "Investigation \<Rightarrow> string \<Rightarrow> qualitySample list" where
  "recordInvestigationQualityMetrics request providerClass =
     (let profile = ers_Profile (irs_EvidenceRequirements (inv_Spec request)); s = inv_Status request;
          phase = rs_Phase (ist_ResourceStatus s); checks = requiredEvidenceChecksForProfile profile in
      InvestigationQuality profile providerClass (evidenceAvailabilityForMetrics request checks) phase (ist_Outcome s) #
      (if checks = [] then []
       else
         EvidenceSufficiency profile (phase = PhaseCompleted \<and> allRequiredChecksComplete checks (ist_EvidenceCoverage s)) #
         map (\<lambda>check. RequiredEvidenceCheck profile check (evidenceCheckResultForMetrics request check)) checks @
         (if phase = PhaseCompleted \<and> ist_Outcome s = InvestigationOutcomeInconclusive
          then [ActionableInconclusive profile (inconclusiveGapReason request) (inconclusiveHasSpecificNextStep request)]
          else [])))"

text \<open>The samples agree: the evidence counts as sufficient only when it is available and every check is usable.\<close>

lemma quality_metrics_agree:
  assumes "EvidenceSufficiency profile True \<in> set (recordInvestigationQualityMetrics request providerClass)"
  shows "InvestigationQuality profile providerClass ''available'' PhaseCompleted (ist_Outcome (inv_Status request))
      \<in> set (recordInvestigationQualityMetrics request providerClass) \<and>
    (\<forall>check result. RequiredEvidenceCheck profile check result \<in> set (recordInvestigationQualityMetrics request providerClass)
       \<longrightarrow> result = ''usable'')"
proof -
  let ?s = "inv_Status request" and ?profile = "ers_Profile (irs_EvidenceRequirements (inv_Spec request))"
  let ?checks = "requiredEvidenceChecksForProfile ?profile"
  have p: "profile = ?profile" "rs_Phase (ist_ResourceStatus ?s) = PhaseCompleted" "?checks \<noteq> []"
    and complete: "allRequiredChecksComplete ?checks (ist_EvidenceCoverage ?s)"
    using assms by (auto simp: recordInvestigationQualityMetrics_def Let_def split: if_splits)
  from complete obtain c where c: "ist_EvidenceCoverage ?s = Some c" "\<And>check. check \<in> set ?checks \<Longrightarrow> check \<in> set (rec_CompletedChecks c)"
    by (auto simp: allRequiredChecksComplete_def list_all_iff split: option.splits)
  have "evidenceAvailabilityForMetrics request ?checks = ''available''"
    using p complete c(1) by (simp add: evidenceAvailabilityForMetrics_def Let_def)
  moreover have "evidenceCheckResultForMetrics request check = ''usable''" if "check \<in> set ?checks" for check
    using c that by (simp add: evidenceCheckResultForMetrics_def Let_def)
  ultimately show ?thesis using p by (auto simp: recordInvestigationQualityMetrics_def Let_def split: if_splits)
qed

subsection \<open>Reading a sequence of conditions\<close>

definition conditionStatus :: "Condition list \<Rightarrow> string \<Rightarrow> string option" where
  "conditionStatus cs t = map_option fst (conditionFieldsOf cs t)"

lemma conditionFieldsOf_apply:
  assumes "conditionLaws ca"
  shows "conditionFieldsOf (applyConditions ca now g cs acc) t =
    (case find (\<lambda>c. fst c = t) (rev cs) of Some (_, s, r, m) \<Rightarrow> Some (s, r, m, g) | None \<Rightarrow> conditionFieldsOf acc t)"
proof (induction cs rule: rev_induct)
  case (snoc c cs)
  then show ?case
    by (cases c) (auto simp: applyConditions_def conditionFieldsOf_set [OF assms])
qed (simp add: applyConditions_def)

lemma conditionStatus_put:
  assumes "conditionLaws ca"
  shows "conditionStatus (ist_Conditions (inv_Status (putConditions ca now cs request))) t =
    (case find (\<lambda>c. fst c = t) (rev cs) of Some (_, s, _) \<Rightarrow> Some s
     | None \<Rightarrow> conditionStatus (ist_Conditions (inv_Status request)) t)"
  by (auto simp: conditionStatus_def putConditions_def conditionFieldsOf_apply [OF assms] split: option.splits)

subsection \<open>Coherent endings\<close>

text \<open>
  What every stored ending of an investigation satisfies: it is completed without a failure or failed with one and
  without an outcome, its verdict is its outcome, it is ready exactly when it is completed, and remediation planning is
  ready exactly when the outcome is confirmed.
\<close>

abbreviation phaseOf :: "Investigation \<Rightarrow> string" where
  "phaseOf request \<equiv> rs_Phase (ist_ResourceStatus (inv_Status request))"

definition coherentStatus :: "Investigation \<Rightarrow> bool" where
  "coherentStatus request \<longleftrightarrow>
     (let s = inv_Status request; cond = conditionStatus (ist_Conditions s) in
      rs_ObservedGeneration (ist_ResourceStatus s) = om_Generation (inv_Meta request) \<and> ist_CompletedAt s \<noteq> None \<and>
      (phaseOf request = PhaseCompleted \<and> ist_Failure s = None \<or>
       phaseOf request = PhaseFailed \<and> ist_Failure s \<noteq> None \<and> ist_Outcome s = InvestigationOutcomeUnknown) \<and>
      map_option rvd_Outcome (ist_Verdict s) =
        (if ist_Outcome s = InvestigationOutcomeUnknown then None else Some (ist_Outcome s)) \<and>
      cond conditionReady = Some (if phaseOf request = PhaseCompleted then ConditionTrue else ConditionFalse) \<and>
      cond conditionRemediationReady =
        Some (if ist_Outcome s = InvestigationOutcomeConfirmed then ConditionTrue else ConditionFalse))"

text \<open>The request at the start of an execution.\<close>

definition freshRequest :: "Investigation \<Rightarrow> bool" where
  "freshRequest request \<longleftrightarrow>
     (let s = inv_Status request in
      ist_Outcome s = [] \<and> ist_Verdict s = None \<and>
      rs_ObservedGeneration (ist_ResourceStatus s) = om_Generation (inv_Meta request))"

lemma putConditions_sel [simp]:
  "inv_Meta (putConditions ca now cs request) = inv_Meta request"
  "inv_Spec (putConditions ca now cs request) = inv_Spec request"
  "ist_ResourceStatus (inv_Status (putConditions ca now cs request)) = ist_ResourceStatus (inv_Status request)"
  "ist_Outcome (inv_Status (putConditions ca now cs request)) = ist_Outcome (inv_Status request)"
  "ist_Failure (inv_Status (putConditions ca now cs request)) = ist_Failure (inv_Status request)"
  "ist_Verdict (inv_Status (putConditions ca now cs request)) = ist_Verdict (inv_Status request)"
  "ist_Summary (inv_Status (putConditions ca now cs request)) = ist_Summary (inv_Status request)"
  "ist_CompletedAt (inv_Status (putConditions ca now cs request)) = ist_CompletedAt (inv_Status request)"
  by (simp_all add: putConditions_def)

lemma putPhase_sel [simp]:
  "inv_Meta (putPhase phase msg now request) = inv_Meta request"
  "inv_Spec (putPhase phase msg now request) = inv_Spec request"
  "phaseOf (putPhase phase msg now request) = phase"
  "rs_ObservedGeneration (ist_ResourceStatus (inv_Status (putPhase phase msg now request))) = om_Generation (inv_Meta request)"
  "ist_Outcome (inv_Status (putPhase phase msg now request)) = ist_Outcome (inv_Status request)"
  "ist_Failure (inv_Status (putPhase phase msg now request)) = ist_Failure (inv_Status request)"
  "ist_Verdict (inv_Status (putPhase phase msg now request)) = ist_Verdict (inv_Status request)"
  "ist_Summary (inv_Status (putPhase phase msg now request)) = ist_Summary (inv_Status request)"
  "ist_CompletedAt (inv_Status (putPhase phase msg now request)) = ist_CompletedAt (inv_Status request)"
  "ist_Conditions (inv_Status (putPhase phase msg now request)) = ist_Conditions (inv_Status request)"
  by (simp_all add: putPhase_def setInvestigationRequestStatus_def setResourceStatus_def)

lemma failure_sel [simp]:
  "inv_Meta (applyInvestigationFailure code msg stage request) = inv_Meta request"
  "ist_ResourceStatus (inv_Status (applyInvestigationFailure code msg stage request)) = ist_ResourceStatus (inv_Status request)"
  "ist_Outcome (inv_Status (applyInvestigationFailure code msg stage request)) = InvestigationOutcomeUnknown"
  "ist_Failure (inv_Status (applyInvestigationFailure code msg stage request)) =
     Some \<lparr>ifl_Code = code, ifl_Message = msg, ifl_Stage = stage, ifl_Retryable = investigationFailureRetryable code\<rparr>"
  "ist_Verdict (inv_Status (applyInvestigationFailure code msg stage request)) = ist_Verdict (inv_Status request)"
  by (simp_all add: applyInvestigationFailure_def)

lemma coherent_loop_prevented:
  "conditionLaws ca \<Longrightarrow> freshRequest request \<Longrightarrow>
     coherentStatus (applyLoopPreventedInvestigationStatus ca failure now request)"
  by (simp add: coherentStatus_def freshRequest_def applyLoopPreventedInvestigationStatus_def conditionStatus_put
      notRunnableConditions_def remediationBlocked_def verificationUnknown_def Let_def)

lemma coherent_invalid:
  "conditionLaws ca \<Longrightarrow> freshRequest request \<Longrightarrow> coherentStatus (applyInvalidInvestigationStatus ca reason msg now request)"
  by (simp add: coherentStatus_def freshRequest_def applyInvalidInvestigationStatus_def conditionStatus_put
      notRunnableConditions_def remediationBlocked_def verificationUnknown_def Let_def)

lemma coherent_gate_inconclusive:
  "conditionLaws ca \<Longrightarrow> coherentStatus (applyEvidenceRequirementInconclusiveStatus ca evidence gate now request)"
  by (simp add: coherentStatus_def applyEvidenceRequirementInconclusiveStatus_def gateStatus_def gateVerdict_def
      conditionStatus_put queriesResolved_def remediationBlocked_def verificationUnknown_def Let_def)

lemma coherent_gate_no_issue:
  "conditionLaws ca \<Longrightarrow> coherentStatus (applyEvidenceRequirementNoIssueFoundStatus ca evidence gate now request)"
  by (simp add: coherentStatus_def applyEvidenceRequirementNoIssueFoundStatus_def gateStatus_def gateVerdict_def
      conditionStatus_put queriesResolved_def remediationBlocked_def verificationUnknown_def Let_def)

lemma coherent_failed_preflight:
  "conditionLaws ca \<Longrightarrow> ist_Verdict (inv_Status request) = None \<Longrightarrow> coherentStatus (failedPreflightStatus ca issue now request)"
  by (simp add: coherentStatus_def failedPreflightStatus_def conditionStatus_put failureConditions_def remediationBlocked_def
      verificationUnknown_def Let_def)

lemma coherent_failed_evidence:
  "conditionLaws ca \<Longrightarrow> ist_Verdict (inv_Status request) = None \<Longrightarrow> coherentStatus (failedEvidenceStatus ca issue now request)"
  by (simp add: coherentStatus_def failedEvidenceStatus_def conditionStatus_put failureConditions_def remediationBlocked_def
      Let_def)

lemma coherent_failed_reasoning:
  "conditionLaws ca \<Longrightarrow> ist_Verdict (inv_Status request) = None \<Longrightarrow>
     coherentStatus (failedReasoningStatus ca ic preflight evidence rca issue now request)"
  by (simp add: coherentStatus_def failedReasoningStatus_def conditionStatus_put failureConditions_def remediationBlocked_def
      Let_def)

lemma verdict_outcome:
  "cve_Outcome (evaluateCanonicalVerdict reasoning evidence claims confidence profile)
     \<in> {InvestigationOutcomeConfirmed, InvestigationOutcomeInconclusive}"
  by (simp add: evaluateCanonicalVerdict_def Let_def split: prod.split)

text \<open>After the reasoning was applied, the outcome is that of the verdict, or there is neither.\<close>

lemma reasoningApplied_outcome:
  fixes request :: Investigation and ic preflight evidence rca now
  assumes "freshRequest request"
  defines "r \<equiv> reasoningApplied ic preflight evidence rca now request"
  shows "inv_Meta r = inv_Meta request \<and>
    (case ist_Verdict (inv_Status r) of None \<Rightarrow> ist_Outcome (inv_Status r) = []
     | Some v \<Rightarrow> rvd_Outcome v = ist_Outcome (inv_Status r) \<and>
         ist_Outcome (inv_Status r) \<in> {InvestigationOutcomeConfirmed, InvestigationOutcomeInconclusive})"
proof (cases "rca_Reasoning rca")
  case None
  then show ?thesis using assms by (simp add: reasoningApplied_def freshRequest_def Let_def)
next
  case (Some reasoning)
  then show ?thesis
    unfolding r_def reasoningApplied_def applyStructuredRCAStatus_def Let_def
    using verdict_outcome by (simp split: prod.split)
qed

lemma coherent_completed:
  assumes "conditionLaws ca" "freshRequest request"
  shows "coherentStatus (completedStatus ca ic preflight evidence rca now request)"
proof -
  define r where "r = reasoningApplied ic preflight evidence rca now request"
  note r = reasoningApplied_outcome [OF assms(2), of ic preflight evidence rca now, folded r_def]
  show ?thesis
    using r unfolding completedStatus_def Let_def r_def [symmetric] coherentStatus_def
    by (auto simp: conditionStatus_put [OF assms(1)] outcomeConditions_def remediationBlocked_def split: option.splits prod.splits)
qed

lemma coherent_execution:
  assumes "conditionLaws ca" "freshRequest request"
  shows "coherentStatus (applyInvestigationExecutionStatus ca ic preflight evidence rca now request)"
proof -
  define r where "r = putConditions ca now (dependencyConditions preflight evidence rca)
    (updInvestigation (\<lambda>s. s\<lparr>ist_Provider := [], ist_EvidenceRefs := ecr_EvidenceRefs evidence\<rparr>) request)"
  have "freshRequest r" using assms(2) by (simp add: r_def freshRequest_def Let_def)
  moreover from this have "ist_Verdict (inv_Status r) = None" by (simp add: freshRequest_def Let_def)
  ultimately show ?thesis
    unfolding applyInvestigationExecutionStatus_def Let_def r_def [symmetric]
    using assms(1) coherent_failed_preflight coherent_failed_evidence coherent_failed_reasoning coherent_completed
    by (simp split: option.split)
qed

text \<open>The size budget keeps coherence.\<close>

definition sameEnding :: "InvestigationRequestStatus \<Rightarrow> InvestigationRequestStatus \<Rightarrow> bool" where
  "sameEnding s' s \<longleftrightarrow>
     ist_ResourceStatus s' = ist_ResourceStatus s \<and> ist_Outcome s' = ist_Outcome s \<and> ist_CompletedAt s' = ist_CompletedAt s \<and>
     ist_Conditions s' = ist_Conditions s \<and> (ist_Failure s' = None) = (ist_Failure s = None) \<and>
     map_option rvd_Outcome (ist_Verdict s') = map_option rvd_Outcome (ist_Verdict s)"

lemma limit_sameEnding: "limitStatus s = (s', truncated) \<Longrightarrow> sameEnding s' s"
proof -
  have "sameEnding (fst (limitStatus s)) s"
    by (cases "ist_Verdict s"; cases "ist_Failure s") (simp_all add: limitStatus_def sameEnding_def Let_def case_prod_beta)
  then show "limitStatus s = (s', truncated) \<Longrightarrow> sameEnding s' s" by simp
qed

lemma enforce_sameEnding:
  assumes "EnforceInvestigationStatus marshal s = (s', truncated)"
  shows "sameEnding s' s"
proof -
  obtain s1 t1 where l: "limitStatus s = (s1, t1)" by fastforce
  then have "shrinkStatus marshal s1 t1 = (s', truncated)" using assms by (simp add: EnforceInvestigationStatus_def)
  from shrinkStatus_spec [OF this] obtain i j where
    "s' = s1\<lparr>ist_EvidenceRefs := take i (ist_EvidenceRefs s1), ist_Claims := take j (ist_Claims s1)\<rparr>" by blast
  then have "sameEnding s' s1" by (simp add: sameEnding_def)
  with limit_sameEnding [OF l] show ?thesis by (simp add: sameEnding_def)
qed

lemma budget_ending:
  fixes request :: Investigation and ca marshal now
  assumes "conditionLaws ca"
  defines "r \<equiv> applyInvestigationStatusBudget ca marshal now request"
  shows "inv_Meta r = inv_Meta request \<and> inv_Spec r = inv_Spec request \<and>
    ist_ResourceStatus (inv_Status r) = ist_ResourceStatus (inv_Status request) \<and>
    ist_Outcome (inv_Status r) = ist_Outcome (inv_Status request) \<and>
    ist_CompletedAt (inv_Status r) = ist_CompletedAt (inv_Status request) \<and>
    (ist_Failure (inv_Status r) = None) = (ist_Failure (inv_Status request) = None) \<and>
    map_option rvd_Outcome (ist_Verdict (inv_Status r)) = map_option rvd_Outcome (ist_Verdict (inv_Status request)) \<and>
    (\<forall>t. t \<noteq> conditionDegraded \<longrightarrow> conditionStatus (ist_Conditions (inv_Status r)) t =
       conditionStatus (ist_Conditions (inv_Status request)) t)"
proof -
  obtain s' truncated where e: "EnforceInvestigationStatus marshal (inv_Status request) = (s', truncated)" by fastforce
  note same = enforce_sameEnding [OF e, unfolded sameEnding_def]
  show ?thesis
    by (cases truncated) (use same in \<open>auto simp: r_def applyInvestigationStatusBudget_def e conditionStatus_put [OF assms(1)] Let_def
        split: option.splits\<close>)
qed

lemma coherent_budget:
  assumes "conditionLaws ca" "coherentStatus request"
  shows "coherentStatus (applyInvestigationStatusBudget ca marshal now request)"
proof -
  note b = budget_ending [OF assms(1), of marshal now request]
  then show ?thesis using assms(2) unfolding coherentStatus_def Let_def by simp
qed

end
