(* ===== verification/RuleFindings.thy ===== *)
theory RuleFindings
  imports Helpers RuleEvaluator Verdict
begin

text \<open>
  The pure part of the risk rule controller (\<^verbatim>\<open>internal/controllers/riskrule_controller.go\<close>): tokens, the names of the
  objects that a rule creates, the identity of a finding, and the result of an analysis in the status of a risk signal.
  The hash and the canonical JSON encoders of \<^verbatim>\<open>canonicaldigest\<close> are the parameter \<open>finding_codec\<close>.  \<^verbatim>\<open>sort.Slice\<close> on
  elements that compare equal is taken in their order, as it is for up to twelve elements.
\<close>

subsection \<open>Tokens\<close>

definition toUpperChar :: "char \<Rightarrow> char" where
  "toUpperChar c = (if 97 \<le> byte c \<and> byte c \<le> 122 then char_of (byte c - 32) else c)"

definition labelSeparator :: "char \<Rightarrow> bool" where
  "labelSeparator c \<longleftrightarrow> byte c < 48 \<or> 122 < byte c \<or> 57 < byte c \<and> byte c < 97"

definition dnsLabelToken :: "string \<Rightarrow> string" where
  "dnsLabelToken value = Join (FieldsFunc labelSeparator (ToLower (TrimSpace value))) ''-''"

definition conditionSeparator :: "char \<Rightarrow> bool" where
  "conditionSeparator c \<longleftrightarrow>
     byte c < 48 \<or> 122 < byte c \<or> 57 < byte c \<and> byte c < 65 \<or> 90 < byte c \<and> byte c < 97"

definition normalizeConditionToken :: "string \<Rightarrow> string" where
  "normalizeConditionToken value = ToLower (concat (FieldsFunc conditionSeparator value))"

definition sanitizeConditionToken :: "string \<Rightarrow> string" where
  "sanitizeConditionToken value =
     concat (map (\<lambda>part. let part = TrimSpace part in
         if part = [] then [] else toUpperChar (hd part) # ToLower (tl part))
       (FieldsFunc conditionSeparator value))"

text \<open>\<^verbatim>\<open>strings.ReplaceAll\<close> with a non-empty text to be replaced.\<close>

function ReplaceAll :: "string \<Rightarrow> string \<Rightarrow> string \<Rightarrow> string" where
  "ReplaceAll s old new =
     (if s = [] then [] else if old \<noteq> [] \<and> HasPrefix s old then new @ ReplaceAll (drop (length old) s) old new
      else hd s # ReplaceAll (tl s) old new)"
  by pat_completeness auto
termination
  by (relation "measure (\<lambda>(s, _, _). length s)") auto

declare ReplaceAll.simps [simp del]

definition conditionReasonToken :: "string \<Rightarrow> string" where
  "conditionReasonToken value =
     (let token = normalizeConditionToken value in
      case map_of [(''backoff'', ''BackOff''), (''crashloopbackoff'', ''CrashLoopBackOff''), (''imagepullbackoff'', ''ImagePullBackOff''),
          (''errimagepull'', ''ErrImagePull''), (''invalidimagename'', ''InvalidImageName''), (''oomkilled'', ''OOMKilled''),
          (''oom'', ''OOM''), (''unhealthy'', ''Unhealthy''), (''failedscheduling'', ''FailedScheduling'')] token of
        Some reason \<Rightarrow> reason
      | None \<Rightarrow> sanitizeConditionToken value)"

definition findingConditionReason :: "Match \<Rightarrow> string" where
  "findingConditionReason m =
     (let name = sanitizeConditionToken (rrs_Name (mat_Signal m));
          fallback = (if name \<noteq> [] then name @ ''Detected'' else ''SignalDetected'') in
      case mat_Evidence m of
        [] \<Rightarrow> fallback
      | ref # _ \<Rightarrow>
          let kind = sanitizeConditionToken (ev_Kind ref); reason = conditionReasonToken (ev_Reason ref) in
          if kind \<noteq> [] \<and> reason \<noteq> [] then kind @ reason @ ''Observed''
          else if kind \<noteq> [] then kind @ ''Observed''
          else if reason \<noteq> [] then reason @ ''Observed''
          else fallback)"

subsection \<open>Matches\<close>

definition appendStringIfMissing :: "string list \<Rightarrow> string \<Rightarrow> string list" where
  "appendStringIfMissing values value =
     (let v = TrimSpace value in if v = [] \<or> v \<in> set values then values else values @ [v])"

definition flattenEvidence :: "Match list \<Rightarrow> EvidenceRef list" where
  "flattenEvidence matches = concat (map mat_Evidence matches)"

definition combineSummaries :: "Match list \<Rightarrow> string" where
  "combineSummaries matches = Join (map mat_Summary matches) '' | ''"

definition ruleSeverity :: "string \<Rightarrow> string" where
  "ruleSeverity severity =
     (let s = ToLower (TrimSpace severity) in
      if s \<in> {''low'', ''medium'', ''high'', ''unsafe''} then s
      else if s = ''warning'' then ''medium'' else if s = ''critical'' then ''high'' else ''medium'')"

definition confidenceForSeverity :: "string \<Rightarrow> int \<Rightarrow> int" where
  "confidenceForSeverity severity matches =
     (let base = (if severity = ''high'' then 86 else if severity = ''unsafe'' then 92 else if severity = ''low'' then 58 else 65);
          base = (if 1 < matches then base + 4 * (matches - 1) else base) in
      if 99 < base then 99 else base)"

definition targetUID :: "Target \<Rightarrow> string" where
  "targetUID target =
     (let r = tgt_Resource target in
      if TrimSpace (tgt_UID target) \<noteq> [] then tgt_UID target
      else r_APIVersion r @ ''/'' @ r_Kind r @ ''/'' @ r_Namespace r @ ''/'' @ r_Name r)"

definition findingType :: "Match list \<Rightarrow> string" where
  "findingType matches =
     Join (sort (foldl appendStringIfMissing [] (map (SignalTypeForSignal \<circ> mat_Signal) matches))) ''+''"

definition failureToken :: "Match \<Rightarrow> string" where
  "failureToken m = normalizeConditionToken
     (firstNonBlank [case mat_Evidence m of [] \<Rightarrow> [] | ref # _ \<Rightarrow> ev_Reason ref, rrs_Name (mat_Signal m)])"

definition restartTokens :: "string list" where
  "restartTokens = [''backoff'', ''crashloopbackoff'']"
definition imagePullTokens :: "string list" where
  "imagePullTokens = [''imagepullbackoff'', ''errimagepull'', ''invalidimagename'', ''imagepullfailure'']"
definition oomTokens :: "string list" where
  "oomTokens = [''oomkilled'', ''oom'', ''oomkilledevent'']"
definition probeTokens :: "string list" where
  "probeTokens = [''unhealthy'', ''unhealthyprobe'']"

definition observedFailureNameToken :: "Match \<Rightarrow> string" where
  "observedFailureNameToken m =
     (let token = failureToken m in
      if token \<in> set restartTokens then ''restart-backoff''
      else if token \<in> set imagePullTokens then ''image-pull''
      else if token \<in> set oomTokens then ''oom-killed''
      else if token \<in> set probeTokens then ''probe-failure''
      else if token = ''failedscheduling'' then ''scheduling'' else [])"

definition observedFailureDescription :: "Match \<Rightarrow> string" where
  "observedFailureDescription m =
     (let token = failureToken m; reason = (case mat_Evidence m of [] \<Rightarrow> [] | ref # _ \<Rightarrow> ev_Reason ref);
          name = TrimSpace (rrs_Name (mat_Signal m)) in
      if token \<in> set restartTokens then ''container restart backoff''
      else if token \<in> set imagePullTokens then ''container image pull failure''
      else if token \<in> set oomTokens then ''OOM termination''
      else if token \<in> set probeTokens then ''readiness or liveness probe failure''
      else if token = ''failedscheduling'' then ''pod scheduling failure''
      else if reason \<noteq> [] then TrimSpace reason @ '' event''
      else if name \<noteq> [] then name @ '' finding'' else [])"

definition observedFailureDescriptions :: "Match list \<Rightarrow> string list" where
  "observedFailureDescriptions matches =
     foldl (\<lambda>ds m. let d = observedFailureDescription m in if d = [] then ds else appendStringIfMissing ds d) [] matches"

definition trimSlashes :: "string \<Rightarrow> string" where
  "trimSlashes s = rev (dropWhile (\<lambda>c. c = CHR ''/'') (rev (dropWhile (\<lambda>c. c = CHR ''/'') s)))"

definition directRiskSignalUnverifiedRCASummary :: "ResourceRef \<Rightarrow> Match list \<Rightarrow> string" where
  "directRiskSignalUnverifiedRCASummary target matches =
     (let ref = r_Namespace target @ ''/'' @ r_Name target;
          ref = (if trimSlashes ref = [] then TrimSpace (r_Name target) else ref);
          ds = observedFailureDescriptions matches;
          what = (if ds = [] then ''a rule-matched finding'' else Join ds ''; '') in
      ''Observed '' @ what @ (if ref \<noteq> [] then '' for '' @ ref else []) @
      ''. Underlying root cause remains unverified by collected evidence.'')"

subsection \<open>Identity of a finding\<close>

record findingAttribute =
  fat_Signal :: string
  fat_SignalType :: string
  fat_Severity :: string
  fat_EvidenceDigests :: "string list"

record fingerprintItem =
  fpi_Signal :: string
  fpi_Summary :: string
  fpi_Severity :: string
  fpi_Evidence :: "EvidenceRef list"

record objectIdentity =
  obi_SourceUID :: string
  obi_TargetUID :: string
  obi_FindingType :: string
  obi_Attributes :: "findingAttribute list"

record logicalIdentity =
  lgi_SourceNamespace :: string
  lgi_SourceName :: string
  lgi_Target :: "string \<times> string \<times> string \<times> string"
  lgi_FindingType :: string
  lgi_Attributes :: "findingAttribute list"

record occurrenceIdentity =
  oci_ObjectFindingIdentity :: string
  oci_SourceGeneration :: int
  oci_TargetGeneration :: int

text \<open>\<open>fc_digest\<close> is \<^verbatim>\<open>canonicaldigest.String\<close> after the encoding; the encoders see the payload of each identity.\<close>

record finding_codec =
  fc_sha256 :: "string \<Rightarrow> string"
  fc_fingerprint :: "fingerprintItem list \<Rightarrow> string"
  fc_object :: "objectIdentity \<Rightarrow> string"
  fc_logical :: "logicalIdentity \<Rightarrow> string"
  fc_occurrence :: "occurrenceIdentity \<Rightarrow> string"

definition findingDigest :: "finding_codec \<Rightarrow> string \<Rightarrow> string" where
  "findingDigest fc payload = AlgorithmSHA256 @ '':'' @ hexEncode (fc_sha256 fc payload)"

abbreviation findingIdentitySchemaVersion :: string where
  "findingIdentitySchemaVersion \<equiv> ''fluxseer-rca-finding-identity-v1''"

definition evidenceDigestOf :: "EvidenceRef \<Rightarrow> string" where
  "evidenceDigestOf ref = firstNonBlank [ev_ContentDigest ref, ev_QueryDigest ref,
     ev_Kind ref @ '':'' @ ev_Source ref @ '':'' @ ev_Summary ref]"

definition normalizedFindingAttributes :: "Match list \<Rightarrow> findingAttribute list" where
  "normalizedFindingAttributes matches =
     SliceStable (\<lambda>a b. fat_Signal a @ fat_SignalType a < fat_Signal b @ fat_SignalType b)
       (map (\<lambda>m. \<lparr>fat_Signal = rrs_Name (mat_Signal m), fat_SignalType = SignalTypeForSignal (mat_Signal m),
           fat_Severity = mat_Severity m, fat_EvidenceDigests = sort (map evidenceDigestOf (mat_Evidence m))\<rparr>) matches)"

definition evidenceSortKey :: "EvidenceRef \<Rightarrow> string" where
  "evidenceSortKey ref = ev_Kind ref @ ev_Source ref @ ev_Summary ref"

definition findingFingerprint :: "finding_codec \<Rightarrow> Match list \<Rightarrow> string" where
  "findingFingerprint fc matches =
     findingDigest fc (fc_fingerprint fc
       (SliceStable (\<lambda>a b. fpi_Signal a @ fpi_Summary a < fpi_Signal b @ fpi_Summary b)
         (map (\<lambda>m. \<lparr>fpi_Signal = rrs_Name (mat_Signal m), fpi_Summary = mat_Summary m, fpi_Severity = mat_Severity m,
             fpi_Evidence = SliceStable (\<lambda>a b. evidenceSortKey a < evidenceSortKey b)
               (map (\<lambda>ref. emptyEvidenceRef\<lparr>ev_Kind := ev_Kind ref, ev_Source := ev_Source ref, ev_Query := ev_Query ref,
                  ev_Summary := ev_Summary ref, ev_Reason := ev_Reason ref\<rparr>) (mat_Evidence m))\<rparr>) matches)))"

definition findingIdentity :: "finding_codec \<Rightarrow> RiskRule \<Rightarrow> Target \<Rightarrow> Match list \<Rightarrow> string \<Rightarrow> FindingIdentity" where
  "findingIdentity fc rule target matches windowBucket =
     (let kind = findingType matches; attributes = normalizedFindingAttributes matches; r = tgt_Resource target;
          object = findingDigest fc (fc_object fc \<lparr>obi_SourceUID = om_UID (rul_Meta rule), obi_TargetUID = targetUID target,
            obi_FindingType = kind, obi_Attributes = attributes\<rparr>);
          logical = findingDigest fc (fc_logical fc \<lparr>lgi_SourceNamespace = om_Namespace (rul_Meta rule),
            lgi_SourceName = om_Name (rul_Meta rule), lgi_Target = (r_APIVersion r, r_Kind r, r_Namespace r, r_Name r),
            lgi_FindingType = kind, lgi_Attributes = attributes\<rparr>);
          occurrence = findingDigest fc (fc_occurrence fc \<lparr>oci_ObjectFindingIdentity = object,
            oci_SourceGeneration = om_Generation (rul_Meta rule), oci_TargetGeneration = tgt_Generation target\<rparr>) in
      \<lparr>fid_SchemaVersion = findingIdentitySchemaVersion, fid_ObjectFindingIdentity = object, fid_LogicalFindingIdentity = logical,
       fid_IncidentOccurrence = occurrence, fid_FindingType = kind, fid_TargetGeneration = tgt_Generation target,
       fid_WindowBucket = windowBucket\<rparr>)"

definition applyFindingIdentityAnnotations :: "FindingIdentity option \<Rightarrow> strmap \<Rightarrow> strmap" where
  "applyFindingIdentityAnnotations identity annotations =
     (case identity of
        None \<Rightarrow> annotations
      | Some i \<Rightarrow> annotations(annotationFindingSchema \<mapsto> fid_SchemaVersion i, annotationFindingType \<mapsto> fid_FindingType i,
          annotationObjectFindingID \<mapsto> fid_ObjectFindingIdentity i, annotationLogicalFindingID \<mapsto> fid_LogicalFindingIdentity i,
          annotationIncidentOccurrence \<mapsto> fid_IncidentOccurrence i,
          annotationTargetGeneration \<mapsto> itoa (fid_TargetGeneration i)))"

subsection \<open>Names\<close>

definition cutLabel :: "string \<Rightarrow> string \<Rightarrow> string" where
  "cutLabel base tail' =
     (if length base + length tail' \<le> 63 then TrimSuffix (base @ tail') ''-''
      else TrimSuffix (take (63 - length tail') base) ''-'' @ tail')"

definition riskSignalName :: "string \<Rightarrow> string \<Rightarrow> string" where
  "riskSignalName ruleName targetName =
     (let name = ReplaceAll (ReplaceAll (ToLower (ruleName @ ''-'' @ targetName @ ''-risk'')) ''_'' ''-'') ''.'' ''-'' in
      if length name \<le> 63 then name else TrimSuffix (take 63 name) ''-'')"

definition abbreviatedRuleName :: "string \<Rightarrow> string" where
  "abbreviatedRuleName value = ReplaceAll value ''kubernetes'' ''k8s''"

definition findingNameToken :: "Match list \<Rightarrow> string" where
  "findingNameToken matches =
     (case matches of
        [] \<Rightarrow> []
      | m # _ \<Rightarrow>
          let token = observedFailureNameToken m; name = TrimSpace (rrs_Name (mat_Signal m));
              reason = (case mat_Evidence m of [] \<Rightarrow> [] | ref # _ \<Rightarrow> TrimSpace (ev_Reason ref)) in
          if token \<noteq> [] then token else if name \<noteq> [] then name else if reason \<noteq> [] then reason else findingType matches)"

definition directRiskSignalNameSuffix :: "finding_codec \<Rightarrow> FindingIdentity option \<Rightarrow> string" where
  "directRiskSignalNameSuffix fc identity =
     (let source = (case identity of None \<Rightarrow> []
            | Some i \<Rightarrow> firstNonBlank [fid_IncidentOccurrence i, fid_LogicalFindingIdentity i, fid_ObjectFindingIdentity i]);
          source = (if source = [] then ''risk-signal'' else source) in
      take 8 (hexEncode (fc_sha256 fc source)))"

definition directRiskSignalName ::
  "finding_codec \<Rightarrow> string \<Rightarrow> string \<Rightarrow> Match list \<Rightarrow> FindingIdentity option \<Rightarrow> string" where
  "directRiskSignalName fc ruleName targetName matches identity =
     (let finding = dnsLabelToken (findingNameToken matches);
          base = dnsLabelToken (Join (nonEmptyStrings [abbreviatedRuleName ruleName, targetName, finding]) ''-'');
          base = (if base = [] then ''risk-signal'' else base) in
      cutLabel base (''-'' @ directRiskSignalNameSuffix fc identity @ ''-risk''))"

definition investigationRequestName :: "finding_codec \<Rightarrow> string \<Rightarrow> string \<Rightarrow> string \<Rightarrow> string" where
  "investigationRequestName fc ruleName targetName incidentOccurrence =
     (let base = dnsLabelToken (ruleName @ ''-'' @ targetName); base = (if base = [] then ''investigation'' else base) in
      cutLabel base (''-'' @ take 12 (hexEncode (fc_sha256 fc incidentOccurrence))))"

subsection \<open>The result of an analysis\<close>

record rcaResult =
  rrt_Reasoning :: "ReasoningOutput option"
  rrt_ProviderName :: string
  rrt_Condition :: "Condition option"
  rrt_Projection :: "RiskSignalRCAProjectionStatus option"
  rrt_Summary :: string

definition emptyRCAOutcome :: rcaResult where
  "emptyRCAOutcome = \<lparr>rrt_Reasoning = None, rrt_ProviderName = [], rrt_Condition = None, rrt_Projection = None, rrt_Summary = []\<rparr>"

definition rcaCondition :: "string \<Rightarrow> string \<Rightarrow> string \<Rightarrow> gotime \<Rightarrow> Condition" where
  "rcaCondition status reason msg now = \<lparr>cnd_Type = conditionRCAReady, cnd_Status = status, cnd_ObservedGeneration = 0,
     cnd_LastTransitionTime = now, cnd_Reason = reason, cnd_Message = msg\<rparr>"

text \<open>The fields of the status that are not conditions.\<close>

definition applyRCAFields :: "rcaResult \<Rightarrow> RiskSignalStatus \<Rightarrow> RiskSignalStatus" where
  "applyRCAFields rca status =
     (let base = status\<lparr>sst_RCASummary := TrimSpace (rrt_Summary rca), sst_RCAHypothesis := [],
            sst_RCAProvider := (if TrimSpace (rrt_ProviderName rca) \<noteq> [] then rrt_ProviderName rca else []),
            sst_RCACauses := []\<rparr>;
          filled = (case rrt_Reasoning rca of
              None \<Rightarrow> base
            | Some r \<Rightarrow> base\<lparr>sst_RCASummary := rso_RiskSummary r, sst_RCAHypothesis := rcs_Hypothesis (rso_RCA r),
                sst_RCAProvider := rrt_ProviderName rca,
                sst_RCACauses := map (\<lambda>cause. \<lparr>rcc_Cause = cause, rcc_Confidence = cnf_Score (rso_Confidence r)\<rparr>)
                  (rcs_Causes (rso_RCA r))\<rparr>) in
      filled\<lparr>sst_Projection := (case rrt_Projection rca of
          Some p \<Rightarrow> Some p
        | None \<Rightarrow> if rrt_Reasoning rca = None then None
            else Some \<lparr>rpj_Mode = ''DirectRiskSignalCompatibility'', rpj_ProjectedFrom = None, rpj_CompatibilityPath = True,
              rpj_Message = ''RCA compatibility fields were written by direct RiskRule analysis; canonical RCA is owned by InvestigationRequest.status.''\<rparr>)\<rparr>)"

definition applyRCAConditions ::
  "condition_api \<Rightarrow> Condition option \<Rightarrow> int \<Rightarrow> gotime \<Rightarrow> Condition list \<Rightarrow> Condition list" where
  "applyRCAConditions ca condition generation now conditions =
     (let cs = ca_Remove ca (ca_Remove ca conditions conditionRCAReady) conditionRemediationReady in
      case condition of
        None \<Rightarrow> cs
      | Some c \<Rightarrow>
          let cs = ca_Set ca cs (c\<lparr>cnd_ObservedGeneration := generation\<rparr>) in
          if cnd_Status c = ConditionTrue then
            setStatusCondition ca conditionRemediationReady ConditionTrue ''RootCauseVerified''
              ''remediation planning is allowed after verified root-cause evidence'' generation now cs
          else
            setStatusCondition ca conditionRemediationReady ConditionFalse (cnd_Reason c)
              ''remediation is not allowed without verified root-cause evidence'' generation now cs)"

definition applyRCAResult :: "condition_api \<Rightarrow> rcaResult \<Rightarrow> int \<Rightarrow> gotime \<Rightarrow> RiskSignalStatus \<Rightarrow> RiskSignalStatus" where
  "applyRCAResult ca rca generation now status =
     (applyRCAFields rca status)\<lparr>sst_Conditions := applyRCAConditions ca (rrt_Condition rca) generation now (sst_Conditions status)\<rparr>"

text \<open>
  \<^verbatim>\<open>int(score * 100)\<close>: the product is rounded, the conversion cuts the fraction off; of a value that does not fit it
  is the smallest integer.
\<close>

definition truncRat :: "rat \<Rightarrow> int" where
  "truncRat q = (if 0 \<le> q then \<lfloor>q\<rfloor> else \<lceil>q\<rceil>)"

definition percentOf :: "float64 \<Rightarrow> int" where
  "percentOf score =
     (case score of
        Finite q \<Rightarrow> (case roundFloat (q * 100) of Some v \<Rightarrow>
            (if - (2 ^ 63) \<le> truncRat v \<and> truncRat v < 2 ^ 63 then truncRat v else - (2 ^ 63)) | None \<Rightarrow> - (2 ^ 63))
      | _ \<Rightarrow> - (2 ^ 63))"

end
