(* ===== verification/InvestigationController.thy ===== *)
theory InvestigationController
  imports InvestigationStatus RuleFindings
begin

text \<open>
  The reconciler of investigation requests (\<^verbatim>\<open>internal/controllers/investigationrequest_controller.go\<close>): expiry, the
  execution from validation to the verdict with the provider checkpoint, and the projection of a confirmed result to a
  risk signal.  The API server, the clock and the investigation service are the parameter \<open>investigation_env\<close>, functions
  of the history of calls; the reconciler appends an event per call.
\<close>

subsection \<open>The environment\<close>

datatype investigationEvent =
    ITick gotime
  | IGet NamespacedName
  | IPreflight string
  | ICollect gotime
  | IGenerate gotime
  | IStatus Investigation "go_error option"
  | IDelete NamespacedName "go_error option"
  | IUpsertSignal NamespacedName "go_error option"
  | ISignalStatus RiskSignal "go_error option"
  | IQuality "qualitySample list"

type_synonym ihistory = "investigationEvent list"

record investigation_env =
  ien_now :: "ihistory \<Rightarrow> gotime"
  ien_get :: "ihistory \<Rightarrow> NamespacedName \<Rightarrow> go_error + Investigation"
  ien_updateStatus :: "ihistory \<Rightarrow> Investigation \<Rightarrow> go_error + Investigation"
  ien_delete :: "ihistory \<Rightarrow> NamespacedName \<Rightarrow> go_error option"
  ien_createOrUpdateSignal :: "ihistory \<Rightarrow> NamespacedName \<Rightarrow> (RiskSignal \<Rightarrow> go_error + RiskSignal) \<Rightarrow> go_error + RiskSignal"
  ien_controllerRef :: "Investigation \<Rightarrow> RiskSignal \<Rightarrow> go_error + RiskSignal"
  ien_updateSignalStatus :: "ihistory \<Rightarrow> RiskSignal \<Rightarrow> go_error + RiskSignal"
  ien_service :: bool
  ien_preflight :: "ihistory \<Rightarrow> string \<Rightarrow> InvestigationRequestSpec \<Rightarrow> go_error + PlannedPreflight"
  ien_collect :: "ihistory \<Rightarrow> InvestigationRequestSpec \<Rightarrow> PlannedPreflight \<Rightarrow> gotime \<Rightarrow> go_error + EvidenceCollectionResult"
  ien_generate :: "ihistory \<Rightarrow> InvestigationRequestSpec \<Rightarrow> PlannedPreflight \<Rightarrow> EvidenceCollectionResult \<Rightarrow> gotime \<Rightarrow>
    go_error + RCAResult"

text \<open>The code that is not in the repository: conditions, hash and encoders, the size of JSON, the parser of times.\<close>

record investigation_lib =
  lib_Conditions :: condition_api
  lib_Codec :: investigation_codec
  lib_Marshal :: marshal_fn
  lib_ParseTime :: "string \<Rightarrow> gotime option"

definition iTick :: "investigation_env \<Rightarrow> ihistory \<Rightarrow> gotime \<times> ihistory" where
  "iTick env h = (ien_now env h, ITick (ien_now env h) # h)"

definition investigationKey :: "Investigation \<Rightarrow> NamespacedName" where
  "investigationKey request = (om_Namespace (inv_Meta request), om_Name (inv_Meta request))"

definition writeStatus_inv ::
  "investigation_env \<Rightarrow> Investigation \<Rightarrow> ihistory \<Rightarrow> (go_error + Investigation) \<times> ihistory" where
  "writeStatus_inv env request h =
     (let r = ien_updateStatus env h request in (r, IStatus request (errorOf r) # h))"

definition unavailableService :: Issue where
  "unavailableService = plainIssue ''InvestigationServiceUnavailable'' ''investigation service is not configured''"

definition emptyPlannedPreflight :: PlannedPreflight where
  "emptyPlannedPreflight = \<lparr>pfr_Target = emptyResourceRef, pfr_Provider = None, pfr_TargetIssue = None, pfr_DatasourceIssue = None,
     pfr_QueryTypeIssue = None, pfr_ModelProviderIssue = None, ppf_Labels = Map.empty, ppf_DatasourceNames = [],
     ppf_CollectionPlan = []\<rparr>"

definition controllerPreflight ::
  "investigation_env \<Rightarrow> Investigation \<Rightarrow> ihistory \<Rightarrow> (go_error + PlannedPreflight) \<times> ihistory" where
  "controllerPreflight env request h =
     (if \<not> ien_service env then (Inr (emptyPlannedPreflight\<lparr>pfr_TargetIssue := Some unavailableService\<rparr>), h)
      else (ien_preflight env h (om_Namespace (inv_Meta request)) (inv_Spec request),
        IPreflight (om_Namespace (inv_Meta request)) # h))"

definition controllerCollectEvidence ::
  "investigation_env \<Rightarrow> Investigation \<Rightarrow> PlannedPreflight \<Rightarrow> gotime \<Rightarrow> ihistory \<Rightarrow>
   (go_error + EvidenceCollectionResult) \<times> ihistory" where
  "controllerCollectEvidence env request preflight now h =
     (if \<not> ien_service env then (Inr ((collectedRefs [])\<lparr>ecr_Issue := Some unavailableService\<rparr>), h)
      else (ien_collect env h (inv_Spec request) preflight now, ICollect now # h))"

definition controllerGenerateRCA ::
  "investigation_env \<Rightarrow> Investigation \<Rightarrow> PlannedPreflight \<Rightarrow> EvidenceCollectionResult \<Rightarrow> gotime \<Rightarrow> ihistory \<Rightarrow>
   (go_error + RCAResult) \<times> ihistory" where
  "controllerGenerateRCA env request preflight evidence now h =
     (if \<not> ien_service env then (Inr (emptyRCA\<lparr>rca_Issue := Some unavailableService\<rparr>), h)
      else (ien_generate env h (inv_Spec request) preflight evidence now, IGenerate now # h))"

subsection \<open>Expiry\<close>

definition investigationExpiryTime :: "Investigation \<Rightarrow> gotime \<Rightarrow> gotime" where
  "investigationExpiryTime request now =
     (let s = inv_Status request;
          base = (case ist_CompletedAt s of
              Some t \<Rightarrow> t
            | None \<Rightarrow> if rs_UpdatedAt (ist_ResourceStatus s) \<noteq> 0 then rs_UpdatedAt (ist_ResourceStatus s)
                else if inv_CreationTimestamp request \<noteq> 0 then inv_CreationTimestamp request else now) in
      base + durationSeconds (irs_TTLSeconds (inv_Spec request)))"

definition deletedAt :: "gotime option \<Rightarrow> bool" where
  "deletedAt t \<longleftrightarrow> t \<noteq> None \<and> t \<noteq> Some 0"

text \<open>The outcome, and whether the reconciliation is finished with it.\<close>

definition investigationHandleTTL ::
  "investigation_env \<Rightarrow> Investigation \<Rightarrow> gotime \<Rightarrow> ihistory \<Rightarrow> outcome \<times> bool \<times> ihistory" where
  "investigationHandleTTL env request now h =
     (if irs_TTLSeconds (inv_Spec request) \<le> 0 \<or> deletedAt (inv_DeletionTimestamp request) \<or>
         \<not> shouldSkipInvestigationExecution request then (Stop, False, h)
      else
        let expiresAt = investigationExpiryTime request now in
        if expiresAt \<le> now then
          (case ien_delete env h (investigationKey request) of
             None \<Rightarrow> (Stop, True, IDelete (investigationKey request) None # h)
           | Some e \<Rightarrow> (if IsNotFound e then Stop else Fail e, True, IDelete (investigationKey request) (Some e) # h))
        else (Requeue (subTime expiresAt now), True, h))"

subsection \<open>The start of an execution\<close>

definition startInvestigation ::
  "investigation_env \<Rightarrow> Investigation \<Rightarrow> ihistory \<Rightarrow> Investigation \<times> ihistory" where
  "startInvestigation env original h =
     (let s = inv_Status original;
          restarting = (rs_ObservedGeneration (ist_ResourceStatus s) \<noteq> om_Generation (inv_Meta original) \<or>
            isTerminalInvestigationPhase (rs_Phase (ist_ResourceStatus s)));
          (now, h) = iTick env h;
          request = putPhase PhaseCollecting ''investigation execution started'' now original;
          (startedAt, h) = (if ist_StartedAt s = None \<or> restarting then (let (t, h) = iTick env h in (Some t, h))
            else (ist_StartedAt s, h)) in
      (updInvestigation (\<lambda>s. s\<lparr>ist_StartedAt := startedAt, ist_CompletedAt := None, ist_Outcome := [], ist_Failure := None,
         ist_Summary := [], ist_Hypothesis := [], ist_Confidence := Finite 0, ist_Provider := [], ist_Verdict := None,
         ist_EvidenceCoverage := None, ist_Claims := [], ist_AlternativeHypotheses := [], ist_MissingEvidence := [],
         ist_Degradation := None, ist_Execution := None, ist_EvidenceRefs := [],
         ist_Lineage := lineageForReconcile (ist_Lineage s) (om_Annotations (inv_Meta original)),
         ist_LinkedRiskSignalRef := None\<rparr>) request, h))"

subsection \<open>The provider checkpoint\<close>

definition checkpointRequest ::
  "investigation_lib \<Rightarrow> PlannedPreflight \<Rightarrow> EvidenceCollectionResult \<Rightarrow> RCAResult \<Rightarrow> string \<Rightarrow> gotime \<Rightarrow> Investigation \<Rightarrow>
   Investigation" where
  "checkpointRequest lib preflight evidence rca executionID now request =
     (let checkpoint = updInvestigation (\<lambda>s. s\<lparr>ist_Provider :=
              providerNameForStatus (ist_Provider s) (pfr_Provider preflight) (rca_Reasoning rca),
            ist_EvidenceRefs := ecr_EvidenceRefs evidence\<rparr>) request;
          execution = buildRCAExecution (lib_Codec lib) checkpoint preflight evidence rca executionID
            executionStateProviderCompleted now;
          checkpoint = putPhase PhaseReasoning ''provider result persisted for RCA verification'' now
            (updInvestigation (\<lambda>s. s\<lparr>ist_Execution := Some execution\<rparr>) checkpoint) in
      applyInvestigationStatusBudget (lib_Conditions lib) (lib_Marshal lib) now checkpoint)"

definition persistProviderCompletedCheckpoint ::
  "investigation_lib \<Rightarrow> investigation_env \<Rightarrow> PlannedPreflight \<Rightarrow> EvidenceCollectionResult \<Rightarrow> RCAResult \<Rightarrow> string \<Rightarrow> gotime \<Rightarrow>
   Investigation \<Rightarrow> ihistory \<Rightarrow> (go_error + Investigation) \<times> ihistory" where
  "persistProviderCompletedCheckpoint lib env preflight evidence rca executionID now request h =
     (case writeStatus_inv env (checkpointRequest lib preflight evidence rca executionID now request) h of
        (Inl e, h) \<Rightarrow> (Inl e, h)
      | (Inr stored, h) \<Rightarrow>
          (Inr (request\<lparr>inv_Meta := (inv_Meta request)\<lparr>om_ResourceVersion := om_ResourceVersion (inv_Meta stored)\<rparr>\<rparr>), h))"

subsection \<open>The projection to a risk signal\<close>

definition investigationRiskSignalName :: "string \<Rightarrow> string \<Rightarrow> string" where
  "investigationRiskSignalName requestName targetName = riskSignalName (requestName @ ''-investigation'') targetName"

definition investigationSignalType :: "PlannedPreflight \<Rightarrow> string" where
  "investigationSignalType preflight =
     (case ppf_CollectionPlan preflight of [] \<Rightarrow> ''investigation'' | step # _ \<Rightarrow> cst_QueryType step)"

definition projectionOf :: "Investigation \<Rightarrow> RiskSignalRCAProjectionStatus" where
  "projectionOf request = \<lparr>rpj_Mode = ''InvestigationRequestProjection'',
     rpj_ProjectedFrom = Some \<lparr>nor_Name = om_Name (inv_Meta request), nor_Namespace = om_Namespace (inv_Meta request)\<rparr>,
     rpj_CompatibilityPath = False,
     rpj_Message = ''RiskSignal contains a compact projection; canonical RCA is owned by InvestigationRequest.status.''\<rparr>"

definition applyProjectedInvestigationRCAResult ::
  "condition_api \<Rightarrow> Investigation \<Rightarrow> int \<Rightarrow> ReasoningOutput \<Rightarrow> gotime \<Rightarrow> RiskSignalStatus \<Rightarrow> RiskSignalStatus" where
  "applyProjectedInvestigationRCAResult ca request generation reasoning now status =
     (let s = inv_Status request in
      case ist_Verdict s of
        None \<Rightarrow> applyRCAResult ca (emptyRCAOutcome\<lparr>rrt_Reasoning := Some reasoning, rrt_ProviderName := ist_Provider s,
          rrt_Condition := Some (rcaCondition ConditionFalse ''RCAUnverified''
            ''RCA projection is unavailable because canonical verdict is missing'' now),
          rrt_Projection := Some (projectionOf request)\<rparr>) generation now status
      | Some verdict \<Rightarrow>
          let confirmed = (ist_Outcome s = InvestigationOutcomeConfirmed);
              rca = \<lparr>rcs_Hypothesis = (if confirmed then ist_Hypothesis s else []),
                rcs_Causes = verifiedCauseStatements (rootCauseClaims reasoning (ist_Claims s)),
                rcs_Evidence = rcs_Evidence (rso_RCA reasoning)\<rparr>;
              score = (if rvd_ConfidenceDetail verdict \<noteq> None then percentOf (rvd_Confidence verdict)
                else cnf_Score (rso_Confidence reasoning));
              projected = reasoning\<lparr>rso_RiskSummary := rvd_Summary verdict, rso_RCA := rca,
                rso_Confidence := (rso_Confidence reasoning)\<lparr>cnf_Score := score\<rparr>\<rparr>;
              condition = (if confirmed
                then rcaCondition ConditionTrue ''RootCauseVerified'' ''RCA promoted from verified investigation request'' now
                else rcaCondition ConditionFalse ''RCAUnverified'' ''canonical investigation verdict is inconclusive'' now) in
          applyRCAResult ca (emptyRCAOutcome\<lparr>rrt_Reasoning := Some projected, rrt_ProviderName := ist_Provider s,
            rrt_Condition := Some condition, rrt_Projection := Some (projectionOf request)\<rparr>) generation now status)"

text \<open>The function that \<^verbatim>\<open>CreateOrUpdate\<close> applies to the stored or new object.\<close>

definition projectSignal ::
  "investigation_env \<Rightarrow> Investigation \<Rightarrow> PlannedPreflight \<Rightarrow> EvidenceCollectionResult \<Rightarrow> ReasoningOutput \<Rightarrow> RiskSignal \<Rightarrow>
   go_error + RiskSignal" where
  "projectSignal env request preflight evidence reasoning signal =
     (let target = pfr_Target preflight; meta = inv_Meta request; lineage = ist_Lineage (inv_Status request);
          identity = (case lineage of None \<Rightarrow> None | Some l \<Rightarrow> ill_FindingIdentity l);
          targetRef = r_Namespace target @ ''/'' @ r_Name target in
      case (if om_Namespace meta = om_Namespace (rsg_Meta signal) then ien_controllerRef env request signal else Inr signal) of
        Inl e \<Rightarrow> Inl e
      | Inr signal \<Rightarrow>
          let m = rsg_Meta signal;
              annotations = (om_Annotations m)(annotationTargetRef \<mapsto> targetRef,
                annotationDetectionSource \<mapsto> ''investigation-request'',
                annotationInvestigationRequest \<mapsto> om_Namespace meta @ ''/'' @ om_Name meta);
              annotations = (case lineage of
                  None \<Rightarrow> annotations
                | Some l \<Rightarrow> applyFindingIdentityAnnotations identity
                    (if ill_TargetUID l \<noteq> [] then annotations(annotationTargetUID \<mapsto> ill_TargetUID l) else annotations));
              parameters = [''channel'' \<mapsto> ''webhook'', ''mode'' \<mapsto> ''read-only'', ''investigationRequest'' \<mapsto> om_Name meta,
                ''targetRef'' \<mapsto> targetRef, ''summaryMode'' \<mapsto> ''investigation-promoted''];
              parameters = (case identity of
                  None \<Rightarrow> parameters
                | Some i \<Rightarrow> parameters(''objectFindingIdentity'' \<mapsto> fid_ObjectFindingIdentity i,
                    ''logicalFindingIdentity'' \<mapsto> fid_LogicalFindingIdentity i, ''incidentOccurrence'' \<mapsto> fid_IncidentOccurrence i)) in
          Inr (signal\<lparr>rsg_Meta := m\<lparr>om_Labels := (om_Labels m)(labelManagedBy \<mapsto> ''investigationrequest-controller''),
              om_Annotations := annotations\<rparr>,
            rsg_Spec := (rsg_Spec signal)\<lparr>ssp_Target := resourceToTargetRef target,
              ssp_SignalType := investigationSignalType preflight,
              ssp_InvestigationRef := Some \<lparr>nor_Name = om_Name meta, nor_Namespace = om_Namespace meta\<rparr>,
              ssp_FindingIdentity := (if identity \<noteq> None then identity else ssp_FindingIdentity (rsg_Spec signal)),
              ssp_Severity := rso_Severity reasoning, ssp_Confidence := cnf_Score (rso_Confidence reasoning), ssp_DryRun := True,
              ssp_TTLSeconds := 3600, ssp_Evidence := ecr_EvidenceRefs evidence, ssp_ActionType := ''notification.sendSlack'',
              ssp_Parameters := parameters\<rparr>\<rparr>))"

definition projectedStatus ::
  "condition_api \<Rightarrow> Investigation \<Rightarrow> EvidenceCollectionResult \<Rightarrow> ReasoningOutput \<Rightarrow> gotime \<Rightarrow> RiskSignal \<Rightarrow> RiskSignal" where
  "projectedStatus ca request evidence reasoning now signal =
     (let s = inv_Status request; generation = om_Generation (rsg_Meta signal);
          phase = (if ist_Outcome s = [] then InvestigationOutcomeUnknown else ist_Outcome s);
          msg = (if TrimSpace (ist_Summary s) = [] then rso_RiskSummary reasoning else ist_Summary s);
          status = setRiskSignalStatus phase msg generation now (rsg_Status signal);
          status = status\<lparr>sst_Conditions := setStatusCondition ca conditionEvidenceReady ConditionTrue ''EvidenceCollected''
            (ecr_Summary evidence) generation now (sst_Conditions status)\<rparr> in
      signal\<lparr>rsg_Status := applyProjectedInvestigationRCAResult ca request generation reasoning now status\<rparr>)"

definition promoteToRiskSignal ::
  "investigation_lib \<Rightarrow> investigation_env \<Rightarrow> Investigation \<Rightarrow> PlannedPreflight \<Rightarrow> EvidenceCollectionResult \<Rightarrow> RCAResult \<Rightarrow> gotime \<Rightarrow>
   ihistory \<Rightarrow> (go_error + NamespacedObjectReference option) \<times> ihistory" where
  "promoteToRiskSignal lib env request preflight evidence rca now h =
     (case rca_Reasoning rca of
        None \<Rightarrow> (Inr None, h)
      | Some reasoning \<Rightarrow>
          if \<not> investigationOutcomeAllowsRiskSignalProjection (ist_Outcome (inv_Status request)) then (Inr None, h)
          else
            let target = pfr_Target preflight;
                key = (r_Namespace target, investigationRiskSignalName (om_Name (inv_Meta request)) (r_Name target));
                stored = ien_createOrUpdateSignal env h key (projectSignal env request preflight evidence reasoning);
                h = IUpsertSignal key (errorOf stored) # h in
            case stored of
              Inl e \<Rightarrow> (Inl e, h)
            | Inr signal \<Rightarrow>
                let updated = projectedStatus (lib_Conditions lib) request evidence reasoning now signal;
                    link = Some \<lparr>nor_Name = om_Name (rsg_Meta signal), nor_Namespace = om_Namespace (rsg_Meta signal)\<rparr> in
                if rsg_Status updated = rsg_Status signal then (Inr link, h)
                else
                  let r = ien_updateSignalStatus env h updated; h = ISignalStatus updated (errorOf r) # h in
                  case r of
                    Inl e \<Rightarrow> (if errKind e = Conflict then Inr link else Inl e, h)
                  | Inr _ \<Rightarrow> (Inr link, h))"

subsection \<open>The execution\<close>

text \<open>Each stage gives the error of the reconciliation, or the request whose status is to be stored.\<close>

definition finishInvestigation ::
  "investigation_lib \<Rightarrow> investigation_env \<Rightarrow> PlannedPreflight \<Rightarrow> EvidenceCollectionResult \<Rightarrow> RCAResult \<Rightarrow> Investigation \<Rightarrow>
   ihistory \<Rightarrow> (go_error + Investigation) \<times> ihistory" where
  "finishInvestigation lib env preflight evidence rca request h =
     (let (now, h) = iTick env h;
          request = applyInvestigationExecutionStatus (lib_Conditions lib) (lib_Codec lib) preflight evidence rca now request in
      if rca_Reasoning rca \<noteq> None \<and> irs_CreateRiskSignal (inv_Spec request) \<and>
         investigationOutcomeAllowsRiskSignalProjection (ist_Outcome (inv_Status request)) then
        let (now, h) = iTick env h in
        case promoteToRiskSignal lib env request preflight evidence rca now h of
          (Inl e, h) \<Rightarrow> (Inl e, h)
        | (Inr link, h) \<Rightarrow> (Inr (updInvestigation (\<lambda>s. s\<lparr>ist_LinkedRiskSignalRef := link\<rparr>) request), h)
      else (Inr request, h))"

definition reasonInvestigation ::
  "investigation_lib \<Rightarrow> investigation_env \<Rightarrow> Investigation \<Rightarrow> PlannedPreflight \<Rightarrow> EvidenceCollectionResult \<Rightarrow> Investigation \<Rightarrow>
   ihistory \<Rightarrow> (go_error + Investigation) \<times> ihistory" where
  "reasonInvestigation lib env original preflight evidence request h =
     (let executionID = investigationExecutionID (lib_Codec lib) (inv_Meta request) (ist_Lineage (inv_Status request)) preflight evidence in
      case reusableProviderResult (ist_Execution (inv_Status original)) executionID of
        Some result \<Rightarrow>
          finishInvestigation lib env preflight evidence
            (emptyRCA\<lparr>rca_Reasoning := reasoningFromProviderResult (Some result)\<rparr>) request h
      | None \<Rightarrow>
          let (now, h) = iTick env h in
          case controllerGenerateRCA env request preflight evidence now h of
            (Inl e, h) \<Rightarrow> (Inl e, h)
          | (Inr rca, h) \<Rightarrow>
              if rca_Reasoning rca = None then finishInvestigation lib env preflight evidence rca request h
              else
                let (now, h) = iTick env h in
                case persistProviderCompletedCheckpoint lib env preflight evidence rca executionID now request h of
                  (Inl e, h) \<Rightarrow>
                    if errKind e = Conflict then finishInvestigation lib env preflight evidence rca request h else (Inl e, h)
                | (Inr request, h) \<Rightarrow> finishInvestigation lib env preflight evidence rca request h)"

definition gateInvestigation ::
  "investigation_lib \<Rightarrow> investigation_env \<Rightarrow> Investigation \<Rightarrow> PlannedPreflight \<Rightarrow> EvidenceCollectionResult \<Rightarrow> Investigation \<Rightarrow>
   ihistory \<Rightarrow> (go_error + Investigation) \<times> ihistory" where
  "gateInvestigation lib env original preflight evidence request h =
     (case evaluateEvidenceRequirements (lib_ParseTime lib) (inv_Spec request) evidence of
        None \<Rightarrow> reasonInvestigation lib env original preflight evidence request h
      | Some gate \<Rightarrow>
          let request = updInvestigation (\<lambda>s. s\<lparr>ist_EvidenceCoverage := erg_Coverage gate\<rparr>) request in
          if \<not> erg_Complete gate then
            let (now, h) = iTick env h in
            (Inr (applyEvidenceRequirementInconclusiveStatus (lib_Conditions lib) evidence gate now request), h)
          else if erg_NoIssueFound gate then
            let (now, h) = iTick env h in
            (Inr (applyEvidenceRequirementNoIssueFoundStatus (lib_Conditions lib) evidence gate now request), h)
          else reasonInvestigation lib env original preflight evidence request h)"

text \<open>The class of the provider for the metrics is the heuristic one until the provider is resolved.\<close>

definition executeInvestigation ::
  "investigation_lib \<Rightarrow> investigation_env \<Rightarrow> Investigation \<Rightarrow> Investigation \<Rightarrow> ihistory \<Rightarrow>
   (go_error + Investigation) \<times> string \<times> ihistory" where
  "executeInvestigation lib env original request h =
     (case investigationLoopFailure (irs_LoopPolicy (inv_Spec request)) (ist_Lineage (inv_Status request)) of
        Some failure \<Rightarrow>
          let (now, h) = iTick env h in
          (Inr (applyLoopPreventedInvestigationStatus (lib_Conditions lib) failure now request), ''heuristic'', h)
      | None \<Rightarrow>
          (case validateInvestigationRequestSpecIssue (inv_Spec request) of
             Some (reason, msg) \<Rightarrow>
               let (now, h) = iTick env h in
               (Inr (applyInvalidInvestigationStatus (lib_Conditions lib) reason msg now request), ''heuristic'', h)
           | None \<Rightarrow>
               (case controllerPreflight env request h of
                  (Inl e, h) \<Rightarrow> (Inl e, ''heuristic'', h)
                | (Inr preflight, h) \<Rightarrow>
                    let (now, h) = iTick env h in
                    (case controllerCollectEvidence env request preflight now h of
                       (Inl e, h) \<Rightarrow> (Inl e, ''heuristic'', h)
                     | (Inr evidence, h) \<Rightarrow>
                         let (r, h) = gateInvestigation lib env original preflight evidence request h in
                         (r, providerType (pfr_Provider preflight), h)))))"

definition persistStatusAndRecordQuality ::
  "investigation_env \<Rightarrow> Investigation \<Rightarrow> Investigation \<Rightarrow> string \<Rightarrow> ihistory \<Rightarrow> go_error option \<times> ihistory" where
  "persistStatusAndRecordQuality env original updated providerClass h =
     (if inv_Status original = inv_Status updated then (None, h)
      else case writeStatus_inv env updated h of
        (Inl e, h) \<Rightarrow> (if errKind e = Conflict then None else Some e, h)
      | (Inr stored, h) \<Rightarrow>
          if phaseOf stored = PhaseCompleted \<or> phaseOf stored = PhaseFailed
          then (None, IQuality (recordInvestigationQualityMetrics stored providerClass) # h) else (None, h))"

definition InvestigationRequest_Reconcile ::
  "investigation_lib \<Rightarrow> investigation_env \<Rightarrow> NamespacedName \<Rightarrow> ihistory \<Rightarrow> outcome \<times> ihistory" where
  "InvestigationRequest_Reconcile lib env key h =
     (let got = ien_get env h key; h = IGet key # h in
      case got of
        Inl e \<Rightarrow> (Done 0 (IgnoreNotFound e), h)
      | Inr original \<Rightarrow>
          let (now, h) = iTick env h; (ttlResult, finished, h) = investigationHandleTTL env original now h in
          if finished then (ttlResult, h)
          else if shouldSkipInvestigationExecution original then (ttlResult, h)
          else
            let (request, h) = startInvestigation env original h in
            case executeInvestigation lib env original request h of
              (Inl e, _, h) \<Rightarrow> (Fail e, h)
            | (Inr request, providerClass, h) \<Rightarrow>
                let (now, h) = iTick env h;
                    updated = applyInvestigationStatusBudget (lib_Conditions lib) (lib_Marshal lib) now request in
                case persistStatusAndRecordQuality env original updated providerClass h of
                  (Some e, h) \<Rightarrow> (Fail e, h)
                | (None, h) \<Rightarrow> (ttlResult, h))"

subsection \<open>What an execution does\<close>

fun isGenerate :: "investigationEvent \<Rightarrow> bool" where
  "isGenerate (IGenerate _) = True"
| "isGenerate _ = False"

fun isSignalEvent :: "investigationEvent \<Rightarrow> bool" where
  "isSignalEvent (IUpsertSignal _ _) = True"
| "isSignalEvent (ISignalStatus _ _) = True"
| "isSignalEvent _ = False"

text \<open>The calls of an execution: the only status it writes itself is the checkpoint.\<close>

fun isRunning :: "investigationEvent \<Rightarrow> bool" where
  "isRunning (IStatus u _) = (phaseOf u = PhaseReasoning)"
| "isRunning (IGet _) = False"
| "isRunning (IDelete _ _) = False"
| "isRunning (IQuality _) = False"
| "isRunning _ = True"

fun isQuiet :: "investigationEvent \<Rightarrow> bool" where
  "isQuiet (ITick _) = True"
| "isQuiet (IPreflight _) = True"
| "isQuiet (ICollect _) = True"
| "isQuiet _ = False"

definition executionTrace :: "bool \<times> int \<Rightarrow> go_error + Investigation \<Rightarrow> ihistory \<Rightarrow> bool" where
  "executionTrace of' r g \<longleftrightarrow>
     list_all isRunning g \<and> length (filter isGenerate g) \<le> 1 \<and>
     (list_ex isSignalEvent g \<longrightarrow> fst of' \<and> (\<forall>u. r = Inr u \<longrightarrow> ist_Outcome (inv_Status u) = InvestigationOutcomeConfirmed)) \<and>
     (\<forall>u. r = Inr u \<longrightarrow> coherentStatus u \<and> om_Generation (inv_Meta u) = snd of')"

abbreviation identityOf :: "Investigation \<Rightarrow> bool \<times> int" where
  "identityOf request \<equiv> (irs_CreateRiskSignal (inv_Spec request), om_Generation (inv_Meta request))"

lemma quiet_running: "isQuiet e \<Longrightarrow> isRunning e \<and> \<not> isGenerate e \<and> \<not> isSignalEvent e"
  by (cases e) simp_all

lemma executionTrace_quiet: "list_all isQuiet q \<Longrightarrow> executionTrace c r g \<Longrightarrow> executionTrace c r (g @ q)"
proof -
  assume q: "list_all isQuiet q" and t: "executionTrace c r g"
  have "list_all isRunning q" "\<not> list_ex isSignalEvent q"
    using q by (auto simp: list_all_iff list_ex_iff dest: quiet_running)
  moreover have "filter isGenerate q = []" using q by (auto simp: list_all_iff filter_empty_conv dest: quiet_running)
  ultimately show ?thesis using t by (simp add: executionTrace_def)
qed

lemma executionTrace_error: "list_all isRunning g \<Longrightarrow> length (filter isGenerate g) \<le> 1 \<Longrightarrow> \<not> list_ex isSignalEvent g \<Longrightarrow>
   executionTrace c (Inl e) g"
  by (simp add: executionTrace_def)

lemma iTick_eq: "iTick env h = (ien_now env h, [ITick (ien_now env h)] @ h)"
  by (simp add: iTick_def)

lemma putPhase_budget_running:
  "conditionLaws ca \<Longrightarrow> phaseOf (applyInvestigationStatusBudget ca marshal now request) = phaseOf request"
  by (simp add: budget_ending)

lemma freshRequest_meta:
  "freshRequest (request\<lparr>inv_Meta := (inv_Meta request)\<lparr>om_ResourceVersion := v\<rparr>\<rparr>) = freshRequest request"
  by (simp add: freshRequest_def)

lemma execution_kept [simp]:
  "inv_Meta (applyInvestigationExecutionStatus ca ic preflight evidence rca now request) = inv_Meta request"
  "inv_Spec (applyInvestigationExecutionStatus ca ic preflight evidence rca now request) = inv_Spec request"
  by (simp_all add: applyInvestigationExecutionStatus_def failedPreflightStatus_def failedEvidenceStatus_def failedReasoningStatus_def
      completedStatus_def reasoningApplied_def applyStructuredRCAStatus_def applyInvestigationFailure_def Let_def
      split: option.split prod.split)

lemma coherent_link: "coherentStatus (updInvestigation (\<lambda>s. s\<lparr>ist_LinkedRiskSignalRef := link\<rparr>) request) = coherentStatus request"
  by (simp add: coherentStatus_def Let_def)

lemma promote_events:
  assumes "promoteToRiskSignal lib env request preflight evidence rca now h = (r, h')"
  obtains g where "h' = g @ h" "list_all isSignalEvent g"
  using assms by (fastforce simp: promoteToRiskSignal_def Let_def split: option.splits if_splits sum.splits)

lemma finish_trace:
  assumes laws: "conditionLaws (lib_Conditions lib)" and fresh: "freshRequest request"
    and run: "finishInvestigation lib env preflight evidence rca request h = (r, h')"
  obtains g where "h' = g @ h" "executionTrace (identityOf request) r g" "\<not> list_ex isGenerate g"
proof -
  define now where "now = ien_now env h"
  define h1 where "h1 = ITick now # h"
  define u where "u = applyInvestigationExecutionStatus (lib_Conditions lib) (lib_Codec lib) preflight evidence rca now request"
  have u: "coherentStatus u" "inv_Spec u = inv_Spec request" "inv_Meta u = inv_Meta request"
    using coherent_execution [OF laws fresh] by (simp_all add: u_def)
  let ?promoted = "rca_Reasoning rca \<noteq> None \<and> irs_CreateRiskSignal (inv_Spec request) \<and>
    ist_Outcome (inv_Status u) = InvestigationOutcomeConfirmed"
  show thesis
  proof (cases ?promoted)
    case False
    then have "r = Inr u" "h' = [ITick now] @ h"
      using run u(2) by (auto simp: finishInvestigation_def iTick_def investigationOutcomeAllowsRiskSignalProjection_def Let_def
          simp flip: now_def u_def)
    then show thesis using u by (intro that) (auto simp: executionTrace_def)
  next
    case True
    define now2 where "now2 = ien_now env h1"
    obtain pr ph where p: "promoteToRiskSignal lib env u preflight evidence rca now2 (ITick now2 # h1) = (pr, ph)" by fastforce
    have r: "h' = ph" "case pr of Inl e \<Rightarrow> r = Inl e
        | Inr link \<Rightarrow> r = Inr (updInvestigation (\<lambda>s. s\<lparr>ist_LinkedRiskSignalRef := link\<rparr>) u)"
      using run True u(2) p by (auto simp: finishInvestigation_def iTick_def investigationOutcomeAllowsRiskSignalProjection_def Let_def
          split: sum.splits simp flip: now_def u_def h1_def now2_def)
    from promote_events [OF p] obtain g where g: "ph = g @ ITick now2 # h1" "list_all isSignalEvent g" .
    let ?g = "g @ [ITick now2, ITick now]"
    have "isSignalEvent e \<Longrightarrow> isRunning e \<and> \<not> isGenerate e" for e by (cases e) simp_all
    then have "list_all isRunning ?g" "\<not> list_ex isGenerate ?g" "filter isGenerate ?g = []"
      using g(2) by (auto simp: list_all_iff list_ex_iff filter_empty_conv)
    moreover have "h' = ?g @ h" using g(1) r(1) by (simp add: h1_def)
    ultimately show thesis using r(2) True u(1,3)
      by (intro that [of ?g]) (auto simp: executionTrace_def coherent_link split: sum.splits)
  qed
qed

lemma reason_trace:
  assumes laws: "conditionLaws (lib_Conditions lib)" and fresh: "freshRequest request"
    and run: "reasonInvestigation lib env original preflight evidence request h = (r, h')"
  obtains g where "h' = g @ h" "executionTrace (identityOf request) r g"
proof -
  let ?c = "identityOf request"
  let ?id = "investigationExecutionID (lib_Codec lib) (inv_Meta request) (ist_Lineage (inv_Status request)) preflight evidence"
  note traced = that
  have finish: thesis
    if f: "finishInvestigation lib env preflight evidence rca req (p @ h) = (r, h')" and req: "freshRequest req" "identityOf req = ?c"
      and p: "list_all isRunning p" "length (filter isGenerate p) \<le> 1" "\<not> list_ex isSignalEvent p" for rca req p
  proof -
    from finish_trace [OF laws req(1) f] obtain g where g: "h' = g @ p @ h" "executionTrace (identityOf req) r g"
      "\<not> list_ex isGenerate g" .
    from g(3) have "filter isGenerate g = []" by (auto simp: filter_empty_conv list_ex_iff)
    then have "executionTrace ?c r (g @ p)" using g(2) p req(2) by (auto simp: executionTrace_def)
    then show thesis using g(1) by (intro traced [of "g @ p"]) simp_all
  qed
  show thesis
  proof (cases "reusableProviderResult (ist_Execution (inv_Status original)) ?id")
    case (Some result)
    then show thesis using run finish [of _ request "[]"] fresh by (simp add: reasonInvestigation_def Let_def)
  next
    case None
    define t where "t = ien_now env h"
    obtain r1 h1 where gen: "controllerGenerateRCA env request preflight evidence t (ITick t # h) = (r1, h1)" by fastforce
    then obtain p where p: "h1 = p @ h" "list_all isRunning p" "length (filter isGenerate p) \<le> 1" "\<not> list_ex isSignalEvent p"
      by (fastforce simp: controllerGenerateRCA_def split: if_splits)
    have run': "(case (r1, h1) of (Inl e, h) \<Rightarrow> (Inl e, h)
        | (Inr rca, h) \<Rightarrow> if rca_Reasoning rca = None then finishInvestigation lib env preflight evidence rca request h
            else let (now, h) = iTick env h in
              case persistProviderCompletedCheckpoint lib env preflight evidence rca ?id now request h of
                (Inl e, h) \<Rightarrow> if errKind e = Conflict then finishInvestigation lib env preflight evidence rca request h else (Inl e, h)
              | (Inr request, h) \<Rightarrow> finishInvestigation lib env preflight evidence rca request h) = (r, h')"
      using run None gen by (simp add: reasonInvestigation_def iTick_def Let_def flip: t_def)
    show thesis
    proof (cases r1)
      case (Inl e)
      then show thesis using run' p by (intro that [of p]) (auto intro: executionTrace_error)
    next
      case (Inr rca)
      show thesis
      proof (cases "rca_Reasoning rca")
        case None
        then show thesis using run' Inr p finish [of rca request p] fresh by simp
      next
        case (Some reasoning)
        define t2 where "t2 = ien_now env h1"
        define cp where "cp = checkpointRequest lib preflight evidence rca ?id t2 request"
        define w where "w = ien_updateStatus env (ITick t2 # h1) cp"
        let ?p = "IStatus cp (errorOf w) # ITick t2 # p"
        have "phaseOf cp = PhaseReasoning"
          by (simp add: cp_def checkpointRequest_def Let_def putPhase_budget_running [OF laws])
        then have p2: "list_all isRunning ?p" "length (filter isGenerate ?p) \<le> 1" "\<not> list_ex isSignalEvent ?p"
          using p by simp_all
        have w': "ien_updateStatus env (ITick t2 # p @ h) cp = w" by (simp add: w_def p(1))
        have stored: "persistProviderCompletedCheckpoint lib env preflight evidence rca ?id t2 request (ITick t2 # h1) =
            (case w of Inl e \<Rightarrow> (Inl e, ?p @ h)
             | Inr s \<Rightarrow> (Inr (request\<lparr>inv_Meta := (inv_Meta request)\<lparr>om_ResourceVersion := om_ResourceVersion (inv_Meta s)\<rparr>\<rparr>), ?p @ h))"
          by (simp add: persistProviderCompletedCheckpoint_def writeStatus_inv_def p(1) w' Let_def split: sum.split flip: cp_def)
        show thesis
        proof (cases w)
          case (Inl e)
          show thesis
          proof (cases "errKind e = Conflict")
            case True
            then show thesis using run' Inr Some stored Inl finish [OF _ fresh refl p2, of rca]
              by (simp add: iTick_def Let_def flip: t2_def)
          next
            case False
            then have "r = Inl e" "h' = ?p @ h" using run' Inr Some stored Inl by (auto simp: iTick_def Let_def simp flip: t2_def)
            then show thesis using p2 by (intro that [of ?p]) (auto intro: executionTrace_error)
          qed
        next
          case (Inr s)
          let ?req = "request\<lparr>inv_Meta := (inv_Meta request)\<lparr>om_ResourceVersion := om_ResourceVersion (inv_Meta s)\<rparr>\<rparr>"
          have "finishInvestigation lib env preflight evidence rca ?req (?p @ h) = (r, h')"
            using run' \<open>r1 = Inr rca\<close> Some stored Inr by (simp add: iTick_def Let_def flip: t2_def)
          then show thesis by (rule finish) (use fresh p2 in \<open>simp_all add: freshRequest_meta\<close>)
        qed
      qed
    qed
  qed
qed

lemma endings_kept [simp]:
  "inv_Meta (applyEvidenceRequirementInconclusiveStatus ca evidence gate now request) = inv_Meta request"
  "inv_Meta (applyEvidenceRequirementNoIssueFoundStatus ca evidence gate now request) = inv_Meta request"
  "inv_Meta (applyLoopPreventedInvestigationStatus ca failure now request) = inv_Meta request"
  "inv_Meta (applyInvalidInvestigationStatus ca reason msg now request) = inv_Meta request"
  by (simp_all add: applyEvidenceRequirementInconclusiveStatus_def applyEvidenceRequirementNoIssueFoundStatus_def gateStatus_def
      applyLoopPreventedInvestigationStatus_def applyInvalidInvestigationStatus_def Let_def)

lemma gate_trace:
  assumes laws: "conditionLaws (lib_Conditions lib)" and fresh: "freshRequest request"
    and run: "gateInvestigation lib env original preflight evidence request h = (r, h')"
  obtains g where "h' = g @ h" "executionTrace (identityOf request) r g"
proof (cases "evaluateEvidenceRequirements (lib_ParseTime lib) (inv_Spec request) evidence")
  case None
  then have "reasonInvestigation lib env original preflight evidence request h = (r, h')"
    using run by (simp add: gateInvestigation_def)
  from reason_trace [OF laws fresh this] show thesis using that .
next
  case (Some gate)
  let ?request = "updInvestigation (\<lambda>s. s\<lparr>ist_EvidenceCoverage := erg_Coverage gate\<rparr>) request"
  have fresh': "freshRequest ?request" using fresh by (simp add: freshRequest_def Let_def)
  consider "erg_Complete gate \<and> \<not> erg_NoIssueFound gate" | "\<not> (erg_Complete gate \<and> \<not> erg_NoIssueFound gate)" by blast
  then show thesis
  proof cases
    case 1
    then have "reasonInvestigation lib env original preflight evidence ?request h = (r, h')"
      using run Some by (simp add: gateInvestigation_def Let_def)
    from reason_trace [OF laws fresh' this] obtain g where "h' = g @ h"
      "executionTrace (identityOf ?request) r g" .
    then show thesis using that by simp
  next
    case 2
    then show thesis
      using run Some coherent_gate_inconclusive [OF laws] coherent_gate_no_issue [OF laws]
      by (intro that [of "[ITick (ien_now env h)]"])
        (auto simp: gateInvestigation_def iTick_def executionTrace_def Let_def split: if_splits)
  qed
qed

lemma execute_trace:
  assumes laws: "conditionLaws (lib_Conditions lib)" and fresh: "freshRequest request"
    and run: "executeInvestigation lib env original request h = (r, cls, h')"
  obtains g where "h' = g @ h" "executionTrace (identityOf request) r g"
proof -
  let ?c = "identityOf request"
  have early: thesis if "h' = ITick t # h" "r = Inr u" "coherentStatus u" "inv_Meta u = inv_Meta request" for t u
    using that by (intro \<open>\<And>g. h' = g @ h \<Longrightarrow> executionTrace ?c r g \<Longrightarrow> thesis\<close> [of "[ITick t]"]) (auto simp: executionTrace_def)
  note traced = that
  show thesis
  proof (cases "investigationLoopFailure (irs_LoopPolicy (inv_Spec request)) (ist_Lineage (inv_Status request))")
    case (Some failure)
    then show thesis using run early coherent_loop_prevented [OF laws fresh]
      by (auto simp: executeInvestigation_def iTick_def Let_def)
  next
    case noloop: None
    show thesis
    proof (cases "validateInvestigationRequestSpecIssue (inv_Spec request)")
      case (Some issue)
      then show thesis using run noloop early coherent_invalid [OF laws fresh]
        by (cases issue) (auto simp: executeInvestigation_def iTick_def Let_def)
    next
      case valid: None
      obtain r1 h1 where pre: "controllerPreflight env request h = (r1, h1)" by fastforce
      then obtain p1 where p1: "h1 = p1 @ h" "list_all isQuiet p1"
        by (fastforce simp: controllerPreflight_def split: if_splits)
      show thesis
      proof (cases r1)
        case (Inl e)
        then have "r = Inl e" "h' = h1" using run noloop valid pre by (simp_all add: executeInvestigation_def)
        moreover have "executionTrace ?c (Inl e) p1"
          using executionTrace_quiet [OF p1(2), of ?c "Inl e" "[]"] by (simp add: executionTrace_def)
        ultimately show thesis using p1(1) by (intro traced) simp_all
      next
        case (Inr preflight)
        define t where "t = ien_now env h1"
        obtain r2 h2 where coll: "controllerCollectEvidence env request preflight t (ITick t # h1) = (r2, h2)" by fastforce
        then obtain p2 where p2: "h2 = p2 @ h1" "list_all isQuiet p2"
          by (fastforce simp: controllerCollectEvidence_def split: if_splits)
        then have q: "h2 = (p2 @ p1) @ h" "list_all isQuiet (p2 @ p1)" using p1 by simp_all
        show thesis
        proof (cases r2)
          case (Inl e)
          then have "r = Inl e" "h' = h2" using run noloop valid pre Inr coll
            by (simp_all add: executeInvestigation_def iTick_def Let_def flip: t_def)
          moreover have "executionTrace ?c (Inl e) (p2 @ p1)"
            using executionTrace_quiet [OF q(2), of ?c "Inl e" "[]"] by (simp add: executionTrace_def)
          ultimately show thesis using q(1) by (intro traced) simp_all
        next
          case evidence: (Inr evidence)
          obtain r3 h3 where g3: "gateInvestigation lib env original preflight evidence request h2 = (r3, h3)" by fastforce
          then have "r = r3" "h' = h3" using run noloop valid pre Inr coll evidence
            by (simp_all add: executeInvestigation_def iTick_def Let_def flip: t_def)
          moreover from gate_trace [OF laws fresh g3] obtain g where "h3 = g @ h2" "executionTrace ?c r3 g" .
          ultimately show thesis using q executionTrace_quiet [OF q(2)] by (intro traced [of "g @ p2 @ p1"]) simp_all
        qed
      qed
    qed
  qed
qed

lemma start_fresh:
  assumes "startInvestigation env original h = (request, h')"
  shows "freshRequest request \<and> identityOf request = identityOf original \<and> (\<exists>q. h' = q @ h \<and> list_all isQuiet q)"
  using assms
  by (auto simp: startInvestigation_def iTick_def freshRequest_def putPhase_def setInvestigationRequestStatus_def
      setResourceStatus_def Let_def split: if_splits)

subsection \<open>Properties of the reconciler\<close>

text \<open>The calls of one reconciliation, newest first.\<close>

definition reconcileCalls :: "investigation_lib \<Rightarrow> investigation_env \<Rightarrow> NamespacedName \<Rightarrow> ihistory \<Rightarrow> ihistory" where
  "reconcileCalls lib env key h =
     (let h' = snd (InvestigationRequest_Reconcile lib env key h) in take (length h' - length h) h')"

text \<open>The last calls: the ending is offered to the API server unless nothing changed, and the metrics follow.\<close>

definition finalCalls :: "Investigation \<Rightarrow> Investigation \<Rightarrow> ihistory \<Rightarrow> bool" where
  "finalCalls original u k \<longleftrightarrow>
     (\<exists>now. k = [ITick now]) \<and> inv_Status original = inv_Status u \<or>
     (\<exists>ms w now. k = ms @ [IStatus u w, ITick now] \<and> list_all (\<lambda>e. \<exists>s. e = IQuality s) ms)"

lemma finalCalls_facts:
  assumes "finalCalls original u k"
  shows "filter isGenerate k = []" "\<not> list_ex isSignalEvent k" "IStatus v e \<in> set k \<Longrightarrow> v = u"
    "inv_Status original \<noteq> inv_Status u \<Longrightarrow> \<exists>e. IStatus u e \<in> set k"
proof -
  have ms: "\<not> isGenerate e \<and> \<not> isSignalEvent e \<and> (\<forall>v w. e \<noteq> IStatus v w)"
    if "list_all (\<lambda>e. \<exists>s. e = IQuality s) ms" "e \<in> set ms" for ms e
    using that by (auto simp: list_all_iff)
  show "filter isGenerate k = []" "\<not> list_ex isSignalEvent k" "IStatus v e \<in> set k \<Longrightarrow> v = u"
    using assms ms by (fastforce simp: finalCalls_def list_ex_iff filter_empty_conv)+
  show "inv_Status original \<noteq> inv_Status u \<Longrightarrow> \<exists>e. IStatus u e \<in> set k"
    using assms by (auto simp: finalCalls_def)
qed

lemma persist_calls:
  assumes "persistStatusAndRecordQuality env original u cls (ITick now # h) = (e, h')"
  obtains k where "h' = k @ h" "finalCalls original u k"
proof (cases "inv_Status original = inv_Status u")
  case True
  then show thesis using assms by (intro that [of "[ITick now]"]) (auto simp: persistStatusAndRecordQuality_def finalCalls_def)
next
  case False
  define w where "w = ien_updateStatus env (ITick now # h) u"
  define ms where "ms = (case w of Inl _ \<Rightarrow> [] | Inr stored \<Rightarrow> if phaseOf stored = PhaseCompleted \<or> phaseOf stored = PhaseFailed
      then [IQuality (recordInvestigationQualityMetrics stored cls)] else [])"
  have "h' = (ms @ [IStatus u (errorOf w), ITick now]) @ h"
    using assms False by (auto simp: persistStatusAndRecordQuality_def writeStatus_inv_def ms_def Let_def
        split: sum.splits if_splits simp flip: w_def)
  moreover have "list_all (\<lambda>e. \<exists>s. e = IQuality s) ms" by (simp add: ms_def split: sum.split)
  ultimately show thesis by (intro that) (auto simp: finalCalls_def)
qed

text \<open>Everything that a reconciliation that executes the investigation does.\<close>

lemma reconcile_trace:
  assumes laws: "conditionLaws (lib_Conditions lib)" and got: "ien_get env h key = Inr original"
    and run: "\<not> shouldSkipInvestigationExecution original"
  obtains (failed) e g q where "reconcileCalls lib env key h = g @ q" "executionTrace (identityOf original) (Inl e) g"
      "filter isGenerate q = []" "\<not> list_ex isSignalEvent q" "\<And>u w. IStatus u w \<notin> set q"
      "fst (InvestigationRequest_Reconcile lib env key h) = Fail e"
  | (ended) u now g k q where "reconcileCalls lib env key h = k @ g @ q" "executionTrace (identityOf original) (Inr u) g"
      "filter isGenerate q = []" "\<not> list_ex isSignalEvent q" "\<And>u w. IStatus u w \<notin> set q"
      "finalCalls original (applyInvestigationStatusBudget (lib_Conditions lib) (lib_Marshal lib) now u) k"
proof -
  define t where "t = ien_now env (IGet key # h)"
  obtain request h1 where start: "startInvestigation env original (ITick t # IGet key # h) = (request, h1)" by fastforce
  note fresh = start_fresh [OF start]
  then obtain q where q: "h1 = q @ ITick t # IGet key # h" "list_all isQuiet q" by blast
  obtain r cls h2 where exec: "executeInvestigation lib env original request h1 = (r, cls, h2)" by (metis prod_cases3)
  from execute_trace [OF laws _ exec] fresh obtain g where g: "h2 = g @ h1" "executionTrace (identityOf original) r g" by metis
  let ?q = "q @ [ITick t, IGet key]"
  have quiet: "filter isGenerate ?q = []" "\<not> list_ex isSignalEvent ?q" "\<And>u w. IStatus u w \<notin> set ?q"
    using q(2) by (auto simp: list_all_iff list_ex_iff filter_empty_conv dest: quiet_running)
  have ttl: "investigationHandleTTL env original t (ITick t # IGet key # h) = (Stop, False, ITick t # IGet key # h)"
    using run by (simp add: investigationHandleTTL_def)
  have rec: "InvestigationRequest_Reconcile lib env key h =
      (case r of Inl e \<Rightarrow> (Fail e, h2)
       | Inr request \<Rightarrow>
           let (now, h) = iTick env h2; updated = applyInvestigationStatusBudget (lib_Conditions lib) (lib_Marshal lib) now request in
           case persistStatusAndRecordQuality env original updated cls h of (Some e, h) \<Rightarrow> (Fail e, h) | (None, h) \<Rightarrow> (Stop, h))"
    using got run ttl start exec
    by (simp add: InvestigationRequest_Reconcile_def iTick_def Let_def split: sum.split flip: t_def)
  show thesis
  proof (cases r)
    case (Inl e)
    then have "reconcileCalls lib env key h = g @ ?q" "fst (InvestigationRequest_Reconcile lib env key h) = Fail e"
      using rec g(1) q(1) by (simp_all add: reconcileCalls_def)
    then show thesis using failed [of g ?q e] g(2) quiet Inl by simp
  next
    case (Inr u)
    define now where "now = ien_now env h2"
    define u' where "u' = applyInvestigationStatusBudget (lib_Conditions lib) (lib_Marshal lib) now u"
    obtain e3 h3 where p: "persistStatusAndRecordQuality env original u' cls (ITick now # h2) = (e3, h3)" by fastforce
    have h3: "snd (InvestigationRequest_Reconcile lib env key h) = h3"
      using rec Inr p by (simp add: iTick_def Let_def split: option.split flip: now_def u'_def)
    from persist_calls [OF p] obtain k where k: "h3 = k @ h2" "finalCalls original u' k" .
    have "reconcileCalls lib env key h = k @ g @ ?q"
      using h3 k(1) g(1) q(1) by (simp add: reconcileCalls_def)
    then show thesis using ended [of k g ?q u now] g(2) quiet k(2) Inr by (simp add: u'_def)
  qed
qed

lemma running_simps [simp]: "isQuiet e \<Longrightarrow> isRunning e" "isQuiet e \<Longrightarrow> \<not> isSignalEvent e" "isQuiet e \<Longrightarrow> \<not> isGenerate e"
  by (auto dest: quiet_running)

lemma skipped_calls:
  assumes "ien_get env h key = Inr original" "shouldSkipInvestigationExecution original"
  defines "now \<equiv> ien_now env (IGet key # h)"
  shows "reconcileCalls lib env key h =
    (if 0 < irs_TTLSeconds (inv_Spec original) \<and> \<not> deletedAt (inv_DeletionTimestamp original) \<and>
        investigationExpiryTime original now \<le> now
     then [IDelete (investigationKey original) (ien_delete env (ITick now # IGet key # h) (investigationKey original))] else []) @
    [ITick now, IGet key]"
  using assms
  by (auto simp: reconcileCalls_def InvestigationRequest_Reconcile_def investigationHandleTTL_def iTick_def Let_def not_le
      split: option.split)

lemma missing_calls:
  "ien_get env h key = Inl e \<Longrightarrow> reconcileCalls lib env key h = [IGet key]"
  by (simp add: reconcileCalls_def InvestigationRequest_Reconcile_def)

text \<open>The calls of any reconciliation: it stores nothing but checkpoints and the ending of its execution.\<close>

lemma calls_spec:
  assumes laws: "conditionLaws (lib_Conditions lib)"
  obtains (rest) "\<And>u e. IStatus u e \<notin> set (reconcileCalls lib env key h)" "filter isGenerate (reconcileCalls lib env key h) = []"
      "\<not> list_ex isSignalEvent (reconcileCalls lib env key h)"
  | (run) original r g where "ien_get env h key = Inr original" "executionTrace (identityOf original) r g"
      "filter isGenerate (reconcileCalls lib env key h) = filter isGenerate g"
      "list_ex isSignalEvent (reconcileCalls lib env key h) = list_ex isSignalEvent g"
      "\<And>u e. IStatus u e \<in> set (reconcileCalls lib env key h) \<Longrightarrow> phaseOf u = PhaseReasoning \<or>
         (\<exists>now v. r = Inr v \<and> u = applyInvestigationStatusBudget (lib_Conditions lib) (lib_Marshal lib) now v)"
proof (cases "ien_get env h key")
  case (Inl e)
  then show thesis by (intro rest) (auto simp: missing_calls)
next
  case (Inr original)
  have checkpoint: "phaseOf u = PhaseReasoning" if "executionTrace c r g" "IStatus u e \<in> set g" for c r g u e
    using that by (fastforce simp: executionTrace_def list_all_iff)
  show thesis
  proof (cases "shouldSkipInvestigationExecution original")
    case True
    then show thesis by (intro rest) (auto simp: skipped_calls [OF Inr])
  next
    case False
    show thesis
    proof (rule reconcile_trace [OF laws Inr False])
      fix e g q
      assume "reconcileCalls lib env key h = g @ q" "executionTrace (identityOf original) (Inl e) g"
        "filter isGenerate q = []" "\<not> list_ex isSignalEvent q" "\<And>u w. IStatus u w \<notin> set q"
      then show thesis using checkpoint by (intro run [OF Inr]) auto
    next
      fix u now g k q
      assume t: "reconcileCalls lib env key h = k @ g @ q" "executionTrace (identityOf original) (Inr u) g"
        "filter isGenerate q = []" "\<not> list_ex isSignalEvent q" "\<And>u w. IStatus u w \<notin> set q"
        "finalCalls original (applyInvestigationStatusBudget (lib_Conditions lib) (lib_Marshal lib) now u) k"
      note k = finalCalls_facts(1-3) [OF t(6)]
      show thesis
      proof (rule run [OF Inr t(2)])
        fix v e assume "IStatus v e \<in> set (reconcileCalls lib env key h)"
        then consider "IStatus v e \<in> set k" | "IStatus v e \<in> set g" using t(1,5) by auto
        then show "phaseOf v = PhaseReasoning \<or>
            (\<exists>now w. Inr u = Inr w \<and> v = applyInvestigationStatusBudget (lib_Conditions lib) (lib_Marshal lib) now w)"
          using k(3) checkpoint [OF t(2)] by cases blast+
      qed (use t k in simp_all)
    qed
  qed
qed

text \<open>C14: every status that a reconciliation stores is either the checkpoint of the provider's result, which is not an ending,
  or a coherent ending: completed without a failure or failed with one, with the verdict's outcome, ready exactly when it
  is completed, and with remediation ready exactly when the outcome is confirmed, whatever the environment does.\<close>

theorem stored_status_coherent:
  assumes "conditionLaws (lib_Conditions lib)" and "IStatus u e \<in> set (reconcileCalls lib env key h)"
  shows "phaseOf u = PhaseReasoning \<or> coherentStatus u"
proof (rule calls_spec [OF assms(1), of env key h])
  assume "\<And>u e. IStatus u e \<notin> set (reconcileCalls lib env key h)"
  then show ?thesis using assms(2) by blast
next
  fix original r g
  assume "executionTrace (identityOf original) r g" "\<And>u e. IStatus u e \<in> set (reconcileCalls lib env key h) \<Longrightarrow>
      phaseOf u = PhaseReasoning \<or> (\<exists>now v. r = Inr v \<and> u = applyInvestigationStatusBudget (lib_Conditions lib) (lib_Marshal lib) now v)"
  then show ?thesis using assms(2) coherent_budget [OF assms(1)] unfolding executionTrace_def by metis
qed


text \<open>The ending is offered even if the status had the same text before: a finished status is never executed again.\<close>

lemma coherent_skipped: "coherentStatus u \<Longrightarrow> shouldSkipInvestigationExecution u"
  by (auto simp: coherentStatus_def shouldSkipInvestigationExecution_def isTerminalInvestigationPhase_def Let_def)

lemma ending_offered:
  assumes laws: "conditionLaws (lib_Conditions lib)" and got: "ien_get env h key = Inr original"
    and executes: "\<not> shouldSkipInvestigationExecution original"
    and ok: "\<And>e. fst (InvestigationRequest_Reconcile lib env key h) \<noteq> Fail e"
  obtains u e where "IStatus u e \<in> set (reconcileCalls lib env key h)" "coherentStatus u"
    "om_Generation (inv_Meta u) = om_Generation (inv_Meta original)"
proof (rule reconcile_trace [OF laws got executes])
  fix e assume "fst (InvestigationRequest_Reconcile lib env key h) = Fail e"
  then show thesis using ok by blast
next
  fix v now g k q
  assume t: "reconcileCalls lib env key h = k @ g @ q" "executionTrace (identityOf original) (Inr v) g"
    "finalCalls original (applyInvestigationStatusBudget (lib_Conditions lib) (lib_Marshal lib) now v) k"
  define u where "u = applyInvestigationStatusBudget (lib_Conditions lib) (lib_Marshal lib) now v"
  have u: "coherentStatus u" "om_Generation (inv_Meta u) = om_Generation (inv_Meta original)"
    using t(2) coherent_budget [OF laws] budget_ending [OF laws] by (simp_all add: executionTrace_def u_def)
  then have "shouldSkipInvestigationExecution u" by (simp add: coherent_skipped)
  then have "inv_Status original \<noteq> inv_Status u"
    using executes u(2) by (auto simp: shouldSkipInvestigationExecution_def)
  then obtain e where "IStatus u e \<in> set k" using finalCalls_facts(4) [OF t(3)] by (auto simp: u_def)
  then have "IStatus u e \<in> set (reconcileCalls lib env key h)" using t(1) by simp
  then show thesis using that u by blast
qed


subsection \<open>A concrete run\<close>

text \<open>An image pull investigation that asks for a risk signal; every call succeeds and stores what it is given.\<close>

definition demoAsking :: Investigation where
  "demoAsking = demoInvestigation\<lparr>inv_Spec := (inv_Spec demoInvestigation)\<lparr>irs_CreateRiskSignal := True\<rparr>\<rparr>"

definition demoPlannedRun :: PlannedPreflight where
  "demoPlannedRun = PreflightResult.extend demoPlanned
     \<lparr>ppf_Labels = Map.empty, ppf_DatasourceNames = [''cluster''], ppf_CollectionPlan = []\<rparr>"

definition demoSignal :: "NamespacedName \<Rightarrow> RiskSignal" where
  "demoSignal key = \<lparr>rsg_Meta = emptyMeta\<lparr>om_Namespace := fst key, om_Name := snd key\<rparr>, rsg_CreationTimestamp = 0,
     rsg_DeletionTimestamp = None,
     rsg_Spec = \<lparr>ssp_Target = resourceToTargetRef emptyResourceRef, ssp_SignalType = [], ssp_FindingIdentity = None,
       ssp_InvestigationRef = None, ssp_ActionType = [], ssp_Severity = [], ssp_Confidence = 0, ssp_DryRun = False,
       ssp_TTLSeconds = 0, ssp_Evidence = [], ssp_Parameters = Map.empty, ssp_ApprovalTimeoutSeconds = 0\<rparr>,
     rsg_Status = \<lparr>sst_Resource = emptyResourceStatus, sst_RCASummary = [], sst_RCAHypothesis = [], sst_RCAProvider = [],
       sst_RCACauses = [], sst_Projection = None, sst_Conditions = []\<rparr>\<rparr>"

definition demoInvestigationEnv :: investigation_env where
  "demoInvestigationEnv = \<lparr>ien_now = (\<lambda>h. second * (int (length h) + 1)), ien_get = (\<lambda>_ _. Inr demoAsking),
     ien_updateStatus = (\<lambda>_ u. Inr u), ien_delete = (\<lambda>_ _. None),
     ien_createOrUpdateSignal = (\<lambda>_ key f. f (demoSignal key)), ien_controllerRef = (\<lambda>_ s. Inr s),
     ien_updateSignalStatus = (\<lambda>_ s. Inr s), ien_service = True, ien_preflight = (\<lambda>_ _ _. Inr demoPlannedRun),
     ien_collect = (\<lambda>_ _ _ _. Inr demoImagePull),
     ien_generate = (\<lambda>_ _ _ _ _. Inr (emptyRCA\<lparr>rca_Reasoning := Some (demoReasoning ''pods fail'' [])\<rparr>))\<rparr>"

definition demoLib :: investigation_lib where
  "demoLib = \<lparr>lib_Conditions = demoConditions, lib_Codec = demoExecutionCodec, lib_Marshal = (\<lambda>_. Some 0), lib_ParseTime = (\<lambda>_. None)\<rparr>"

lemma demoAsking_checks:
  "validateInvestigationRequestSpecIssue (inv_Spec demoAsking) = None"
  "map_option (\<lambda>g. (erg_Complete g, erg_NoIssueFound g)) (evaluateEvidenceRequirements (\<lambda>_. None) (inv_Spec demoAsking) demoImagePull)
     = Some (True, False)"
  "shouldSkipInvestigationExecution demoAsking = False"
  by code_simp+

lemma execution_outcome:
  fixes request :: Investigation
  assumes "firstIssue preflight = None" "ecr_Issue evidence = None" "rca_Issue rca = None" "rca_Reasoning rca = Some reasoning"
  defines "profile \<equiv> ers_Profile (irs_EvidenceRequirements (inv_Spec request))"
  shows "ist_Outcome (inv_Status (applyInvestigationExecutionStatus ca ic preflight evidence rca now request)) =
    cve_Outcome (evaluateCanonicalVerdict reasoning evidence (fst (buildRCAClaims reasoning evidence profile)) (providerScore reasoning) profile)"
    (is "_ = ?outcome")
proof -
  have "?outcome \<noteq> []"
    using verdict_outcome [of reasoning evidence "fst (buildRCAClaims reasoning evidence profile)" "providerScore reasoning" profile] by auto
  then show ?thesis
    using assms(1-4) by (simp add: applyInvestigationExecutionStatus_def completedStatus_def reasoningApplied_def applyStructuredRCAStatus_def
        profile_def Let_def case_prod_beta)
qed

text \<open>The stages of the run, as far as the risk signal is concerned.\<close>

abbreviation demoResult :: RCAResult where
  "demoResult \<equiv> emptyRCA\<lparr>rca_Reasoning := Some (demoReasoning ''pods fail'' [])\<rparr>"

lemma demo_finish:
  assumes "inv_Spec request = inv_Spec demoAsking"
  shows "list_ex isSignalEvent (snd (finishInvestigation demoLib demoInvestigationEnv demoPlannedRun demoImagePull demoResult request h))"
proof -
  have "ers_Profile (irs_EvidenceRequirements (inv_Spec demoAsking)) = ''ImagePullBackOff''"
    by (simp add: demoAsking_def demoInvestigation_def profileSpec_def)
  moreover have "firstIssue demoPlannedRun = None" by (simp add: demoPlannedRun_def demoPlanned_def PreflightResult.defs FirstIssue_def)
  moreover have "ecr_Issue demoImagePull = None" by (simp add: demoImagePull_def collectedRefs_def)
  moreover have "cve_Outcome (evaluateCanonicalVerdict (demoReasoning ''pods fail'' []) demoImagePull
      (fst (buildRCAClaims (demoReasoning ''pods fail'' []) demoImagePull ''ImagePullBackOff'')) conf ''ImagePullBackOff'') =
      InvestigationOutcomeConfirmed" for conf
    by (rule single_cause(3) [OF demoImagePull_claims]) (simp_all add: demoImagePull_matches)
  ultimately have confirmed: "ist_Outcome (inv_Status (applyInvestigationExecutionStatus ca ic demoPlannedRun demoImagePull demoResult now request)) =
      InvestigationOutcomeConfirmed" for ca ic now
    using assms by (subst execution_outcome) (simp_all add: emptyRCA_def)
  have "irs_CreateRiskSignal (inv_Spec request)" using assms by (simp add: demoAsking_def)
  moreover have "list_ex isSignalEvent (snd (promoteToRiskSignal demoLib demoInvestigationEnv u demoPlannedRun demoImagePull demoResult now h))"
    if "ist_Outcome (inv_Status u) = InvestigationOutcomeConfirmed" for u now h
    using that by (simp add: promoteToRiskSignal_def investigationOutcomeAllowsRiskSignalProjection_def emptyRCA_def Let_def
        split: sum.split)
  ultimately show ?thesis
    using confirmed by (simp add: finishInvestigation_def investigationOutcomeAllowsRiskSignalProjection_def emptyRCA_def iTick_def Let_def
        split: sum.split prod.split) (metis snd_conv)
qed

lemma demoEnv_simps [simp]:
  "ien_get demoInvestigationEnv h key = Inr demoAsking" "ien_updateStatus demoInvestigationEnv h u = Inr u"
  "ien_service demoInvestigationEnv" "ien_preflight demoInvestigationEnv h ns spec = Inr demoPlannedRun"
  "ien_collect demoInvestigationEnv h spec p now = Inr demoImagePull"
  "ien_generate demoInvestigationEnv h spec p ev now = Inr demoResult"
  by (simp_all add: demoInvestigationEnv_def)

lemma demo_reason:
  assumes "inv_Spec request = inv_Spec demoAsking"
  shows "list_ex isSignalEvent (snd (reasonInvestigation demoLib demoInvestigationEnv demoAsking demoPlannedRun demoImagePull request h))"
proof -
  have "ist_Execution (inv_Status demoAsking) = None" by (simp add: demoAsking_def demoInvestigation_def)
  moreover have "rca_Reasoning demoResult \<noteq> None" by (simp add: emptyRCA_def)
  ultimately show ?thesis
    using assms by (simp add: reasonInvestigation_def reusableProviderResult_def controllerGenerateRCA_def
        persistProviderCompletedCheckpoint_def writeStatus_inv_def iTick_def Let_def demo_finish)
qed

lemma demo_execute:
  assumes "inv_Spec request = inv_Spec demoAsking" "ist_Lineage (inv_Status request) = None"
  shows "list_ex isSignalEvent (snd (snd (executeInvestigation demoLib demoInvestigationEnv demoAsking request h)))"
proof -
  have gate: "list_ex isSignalEvent (snd (gateInvestigation demoLib demoInvestigationEnv demoAsking demoPlannedRun demoImagePull request h))" for h
    using demoAsking_checks(2) assms(1) by (auto simp: gateInvestigation_def demoLib_def [THEN arg_cong, of lib_ParseTime] demo_reason Let_def
        split: option.split)
  show ?thesis
    using assms demoAsking_checks(1) gate
    by (simp add: executeInvestigation_def investigationLoopFailure_def controllerPreflight_def controllerCollectEvidence_def iTick_def
        Let_def case_prod_beta)
qed

text \<open>Every stage succeeds.\<close>

lemma demo_succeeds:
  assumes "inv_Spec request = inv_Spec demoAsking" "ist_Lineage (inv_Status request) = None"
  shows "\<exists>u. fst (executeInvestigation demoLib demoInvestigationEnv demoAsking request h) = Inr u"
proof -
  let ?E = demoInvestigationEnv
  have projected: "\<exists>s. ien_createOrUpdateSignal ?E h key (projectSignal ?E u demoPlannedRun demoImagePull r) = Inr s" for h key u r
    by (simp add: projectSignal_def demoInvestigationEnv_def Let_def)
  have "ien_updateSignalStatus ?E h s = Inr s" for h s by (simp add: demoInvestigationEnv_def)
  then have promoted: "\<exists>link k. promoteToRiskSignal demoLib ?E u demoPlannedRun demoImagePull demoResult now h = (Inr link, k)" for u now h
    using projected [of h _ u "demoReasoning ''pods fail'' []"]
    by (auto simp: promoteToRiskSignal_def emptyRCA_def Let_def split: sum.split) (metis sum.distinct(1))
  have finish: "\<exists>u. fst (finishInvestigation demoLib ?E demoPlannedRun demoImagePull demoResult request h) = Inr u" for request h
  proof -
    let ?h = "ITick (ien_now ?E h) # h"
    let ?u = "applyInvestigationExecutionStatus (lib_Conditions demoLib) (lib_Codec demoLib) demoPlannedRun demoImagePull demoResult (ien_now ?E h) request"
    obtain link k where "promoteToRiskSignal demoLib ?E ?u demoPlannedRun demoImagePull demoResult (ien_now ?E ?h) (ITick (ien_now ?E ?h) # ?h) = (Inr link, k)"
      using promoted by blast
    then show ?thesis by (simp add: finishInvestigation_def iTick_def Let_def)
  qed
  have "ist_Execution (inv_Status demoAsking) = None" by (simp add: demoAsking_def demoInvestigation_def)
  moreover have "rca_Reasoning demoResult \<noteq> None" by (simp add: emptyRCA_def)
  ultimately have "\<exists>u. fst (reasonInvestigation demoLib demoInvestigationEnv demoAsking demoPlannedRun demoImagePull request h) = Inr u" for request h
    by (simp add: reasonInvestigation_def reusableProviderResult_def controllerGenerateRCA_def
        persistProviderCompletedCheckpoint_def writeStatus_inv_def iTick_def Let_def finish)
  then have "\<exists>u. fst (gateInvestigation demoLib demoInvestigationEnv demoAsking demoPlannedRun demoImagePull request h) = Inr u" for request h
    by (auto simp: gateInvestigation_def iTick_def Let_def split: option.split)
  then show ?thesis
    using assms demoAsking_checks(1)
    by (simp add: executeInvestigation_def investigationLoopFailure_def controllerPreflight_def controllerCollectEvidence_def iTick_def
        Let_def case_prod_beta)
qed

lemma demo_reconcile:
  "fst (InvestigationRequest_Reconcile demoLib demoInvestigationEnv key []) = Stop"
  "list_ex isSignalEvent (reconcileCalls demoLib demoInvestigationEnv key [])"
proof -
  define t where "t = ien_now demoInvestigationEnv [IGet key]"
  obtain request h1 where start: "startInvestigation demoInvestigationEnv demoAsking [ITick t, IGet key] = (request, h1)" by fastforce
  have "ist_Lineage (inv_Status demoAsking) = None" "om_Annotations (inv_Meta demoAsking) = Map.empty"
    by (simp_all add: demoAsking_def demoInvestigation_def emptyMeta_def)
  moreover have no_lineage: "lineageFromAnnotations Map.empty = None" by code_simp
  ultimately have request: "inv_Spec request = inv_Spec demoAsking" "ist_Lineage (inv_Status request) = None"
    using start no_lineage
    by (auto simp: startInvestigation_def iTick_def lineageForReconcile_def putPhase_def setInvestigationRequestStatus_def Let_def
        split: if_splits)
  obtain u cls h2 where exec: "executeInvestigation demoLib demoInvestigationEnv demoAsking request h1 = (Inr u, cls, h2)"
    using demo_succeeds [OF request, of h1] by (metis prod.collapse)
  have signal: "list_ex isSignalEvent h2" using demo_execute [OF request, of h1] exec by simp
  have "irs_TTLSeconds (inv_Spec demoAsking) = 0" by (simp add: demoAsking_def demoInvestigation_def profileSpec_def)
  then have ttl: "investigationHandleTTL demoInvestigationEnv demoAsking t [ITick t, IGet key] = (Stop, False, [ITick t, IGet key])"
    by (simp add: investigationHandleTTL_def)
  let ?now = "ien_now demoInvestigationEnv h2"
  let ?u = "applyInvestigationStatusBudget (lib_Conditions demoLib) (lib_Marshal demoLib) ?now u"
  obtain e h3 where p: "persistStatusAndRecordQuality demoInvestigationEnv demoAsking ?u cls (ITick ?now # h2) = (e, h3)" by fastforce
  then have "e = None" by (auto simp: persistStatusAndRecordQuality_def writeStatus_inv_def Let_def split: if_splits)
  moreover from persist_calls [OF p] obtain k where "h3 = k @ h2" .
  moreover have "InvestigationRequest_Reconcile demoLib demoInvestigationEnv key [] = (case e of Some e \<Rightarrow> (Fail e, h3) | None \<Rightarrow> (Stop, h3))"
    using start exec ttl p demoAsking_checks(3)
    by (simp add: InvestigationRequest_Reconcile_def iTick_def Let_def split: option.split flip: t_def)
  ultimately show "fst (InvestigationRequest_Reconcile demoLib demoInvestigationEnv key []) = Stop"
    "list_ex isSignalEvent (reconcileCalls demoLib demoInvestigationEnv key [])"
    using signal by (simp_all add: reconcileCalls_def)
qed

lemma demoLib_laws: "conditionLaws (lib_Conditions demoLib)"
  by (simp add: demoLib_def conditionLaws_demo)

lemma demo_original: "ien_get demoInvestigationEnv [] key = Inr demoAsking" "\<not> shouldSkipInvestigationExecution demoAsking"
  using demoAsking_checks(3) by simp_all


theorem stored_status_coherent_witness:
  "\<exists>u e. IStatus u e \<in> set (reconcileCalls demoLib demoInvestigationEnv (''shop'', ''why'') []) \<and>
     (phaseOf u = PhaseReasoning \<or> coherentStatus u)"
proof -
  obtain u e where "IStatus u e \<in> set (reconcileCalls demoLib demoInvestigationEnv (''shop'', ''why'') [])"
    by (rule ending_offered [OF demoLib_laws demo_original]) (use demo_reconcile(1) in \<open>auto\<close>)
  with stored_status_coherent [OF demoLib_laws this] show ?thesis by blast
qed


subsection \<open>Weak points\<close>

text \<open>A failed collection leaves the condition \<^verbatim>\<open>Verified\<close> of an earlier generation as it was, also when it is true.\<close>

theorem failed_collection_keeps_verified:
  assumes "conditionLaws ca" and "firstIssue preflight = None" and "ecr_Issue evidence = Some issue"
  shows "phaseOf (applyInvestigationExecutionStatus ca ic preflight evidence rca now request) = PhaseFailed \<and>
    conditionFieldsOf (ist_Conditions (inv_Status (applyInvestigationExecutionStatus ca ic preflight evidence rca now request)))
      conditionVerified = conditionFieldsOf (ist_Conditions (inv_Status request)) conditionVerified"
proof -
  have issues: "pfr_TargetIssue preflight = None" "pfr_DatasourceIssue preflight = None" "pfr_QueryTypeIssue preflight = None"
      "pfr_ModelProviderIssue preflight = None"
    using assms(2) by (auto simp: FirstIssue_def PreflightResult.defs split: if_splits)
  show ?thesis
    using assms(2,3) issues
    by (simp add: applyInvestigationExecutionStatus_def failedEvidenceStatus_def putConditions_def applyInvestigationFailure_def putPhase_def
        setInvestigationRequestStatus_def setResourceStatus_def
        conditionFieldsOf_apply [OF assms(1)] failureConditions_def dependencyConditions_def evidenceCondition_def queryConditions_def
        rcaReadyCondition_def queriesResolved_def targetResolved_def datasourcesResolved_def remediationBlocked_def Let_def)
qed

end
