(* ===== verification/RiskSignalController.thy ===== *)
theory RiskSignalController
  imports Helpers PlanProperties
begin

text \<open>
  The two controllers of risk signals: the one that derives a remediation plan
  (\<^verbatim>\<open>internal/controllers/risksignal_controller.go\<close>) and the one that notifies
  (\<^verbatim>\<open>risksignal_notification_controller.go\<close>).  The API server, the clock and the notifier are the parameter
  \<open>signal_env\<close>, functions of the history of calls; the handlers append an event per call.
\<close>

subsection \<open>Timestamps\<close>

text \<open>\<^verbatim>\<open>time.RFC3339\<close> in UTC.  The days are counted from 1 March of the year 0, so that the leap day ends a year.\<close>

definition zeroPad :: "nat \<Rightarrow> int \<Rightarrow> string" where
  "zeroPad width n = (let ds = natDigits (nat n) in replicate (width - length ds) (CHR ''0'') @ ds)"

definition civilDate :: "int \<Rightarrow> int \<times> int \<times> int" where
  "civilDate days =
     (let z = days + 306; era = z div 146097; doe = z mod 146097;
          yoe = (doe - doe div 1460 + doe div 36524 - doe div 146096) div 365;
          doy = doe - (365 * yoe + yoe div 4 - yoe div 100); mp = (5 * doy + 2) div 153;
          month = (if mp < 10 then mp + 3 else mp - 9) in
      (yoe + era * 400 + (if month \<le> 2 then 1 else 0), month, doy - (153 * mp + 2) div 5 + 1))"

definition formatRFC3339 :: "gotime \<Rightarrow> string" where
  "formatRFC3339 t =
     (let seconds = t div second; (year, month, day) = civilDate (seconds div 86400); s = seconds mod 86400 in
      zeroPad 4 year @ ''-'' @ zeroPad 2 month @ ''-'' @ zeroPad 2 day @ ''T'' @
      zeroPad 2 (s div 3600) @ '':'' @ zeroPad 2 (s div 60 mod 60) @ '':'' @ zeroPad 2 (s mod 60) @ ''Z'')"

subsection \<open>The environment\<close>

abbreviation annotationNotificationAt :: string where
  "annotationNotificationAt \<equiv> ''fluxseer-rca.aiops.platform/notified-at''"
abbreviation annotationNotificationSource :: string where
  "annotationNotificationSource \<equiv> ''fluxseer-rca.aiops.platform/notification-source''"
abbreviation PhaseReadyForApproval :: string where "PhaseReadyForApproval \<equiv> ''ReadyForApproval''"
abbreviation PhaseNotified :: string where "PhaseNotified \<equiv> ''Notified''"

datatype signalEvent =
    STick gotime
  | SGet NamespacedName
  | SDelete NamespacedName "go_error option"
  | SUpsertPlan NamespacedName "go_error + RemediationPlan"
  | SUpdate RiskSignal "go_error option"
  | SStatus RiskSignal "go_error option"
  | SNotify Message "go_error option"

type_synonym shistory = "signalEvent list"

record signal_env =
  sen_now :: "shistory \<Rightarrow> gotime"
  sen_get :: "shistory \<Rightarrow> NamespacedName \<Rightarrow> go_error + RiskSignal"
  sen_delete :: "shistory \<Rightarrow> NamespacedName \<Rightarrow> go_error option"
  sen_createOrUpdatePlan :: "shistory \<Rightarrow> NamespacedName \<Rightarrow> (RemediationPlan \<Rightarrow> go_error + RemediationPlan) \<Rightarrow>
    go_error + RemediationPlan"
  sen_controllerRef :: "RiskSignal \<Rightarrow> RemediationPlan \<Rightarrow> go_error + RemediationPlan"
  sen_update :: "shistory \<Rightarrow> RiskSignal \<Rightarrow> go_error + RiskSignal"
  sen_updateStatus :: "shistory \<Rightarrow> RiskSignal \<Rightarrow> go_error + RiskSignal"
  sen_notify :: "shistory \<Rightarrow> Message \<Rightarrow> go_error option"

definition sTick :: "signal_env \<Rightarrow> shistory \<Rightarrow> gotime \<times> shistory" where
  "sTick env h = (sen_now env h, STick (sen_now env h) # h)"

definition signalKey :: "RiskSignal \<Rightarrow> NamespacedName" where
  "signalKey signal = (om_Namespace (rsg_Meta signal), om_Name (rsg_Meta signal))"

text \<open>A write of the status that fails with a conflict is not an error of the reconciliation.\<close>

definition writeSignalStatus ::
  "signal_env \<Rightarrow> RiskSignal \<Rightarrow> RiskSignalStatus \<Rightarrow> outcome \<Rightarrow> shistory \<Rightarrow> outcome \<times> shistory" where
  "writeSignalStatus env signal before result h =
     (if rsg_Status signal = before then (result, h)
      else case sen_updateStatus env h signal of
          Inr _ \<Rightarrow> (result, SStatus signal None # h)
        | Inl e \<Rightarrow> (if errKind e = Conflict then result else Fail e, SStatus signal (Some e) # h))"

lemmas signal_handler = sTick_def writeSignalStatus_def

subsection \<open>The remediation controller\<close>

definition signalExpiry :: "RiskSignal \<Rightarrow> gotime \<Rightarrow> gotime" where
  "signalExpiry signal now =
     (if rsg_CreationTimestamp signal = 0 then now else rsg_CreationTimestamp signal)
       + durationSeconds (ssp_TTLSeconds (rsg_Spec signal))"

text \<open>The outcome, and whether the reconciliation is finished with it.\<close>

definition signalHandleTTL ::
  "signal_env \<Rightarrow> RiskSignal \<Rightarrow> gotime \<Rightarrow> shistory \<Rightarrow> outcome \<times> bool \<times> shistory" where
  "signalHandleTTL env signal now h =
     (if ssp_TTLSeconds (rsg_Spec signal) \<le> 0 \<or> rsg_DeletionTimestamp signal \<notin> {None, Some 0} then (Stop, False, h)
      else
        let expiresAt = signalExpiry signal now in
        if \<not> now < expiresAt then
          (case sen_delete env h (signalKey signal) of
             None \<Rightarrow> (Stop, True, SDelete (signalKey signal) None # h)
           | Some e \<Rightarrow> (if IsNotFound e then Stop else Fail e, True, SDelete (signalKey signal) (Some e) # h))
        else (Requeue (subTime expiresAt now), False, h))"

definition hasUnverifiedInvestigationProjection :: "RiskSignal \<Rightarrow> bool" where
  "hasUnverifiedInvestigationProjection signal \<longleftrightarrow>
     (if ssp_InvestigationRef (rsg_Spec signal) = None then False
      else case find (\<lambda>c. cnd_Type c = conditionRCAReady \<and> cnd_Status c \<in> {ConditionFalse, ConditionTrue})
             (sst_Conditions (rsg_Status signal)) of
          Some c \<Rightarrow> cnd_Status c = ConditionFalse
        | None \<Rightarrow> rs_Phase (sst_Resource (rsg_Status signal)) \<in>
            {[], InvestigationOutcomeInconclusive, InvestigationOutcomeNoIssueFound, InvestigationOutcomeUnknown})"

definition evidenceSummaries :: "EvidenceRef list \<Rightarrow> string list" where
  "evidenceSummaries evidence = map (\<lambda>item. if ev_Link item \<noteq> [] then ev_Link item else ev_Summary item) evidence"

definition planSpecFor :: "RiskSignal \<Rightarrow> RemediationPlanSpec" where
  "planSpecFor signal =
     (let s = rsg_Spec signal; action = ssp_ActionType s in
      \<lparr>ps_Target = ssp_Target s, ps_RecommendedBy = ''risk-signal-controller'', ps_Severity = ssp_Severity s,
       ps_Confidence = ssp_Confidence s, ps_DryRun = ssp_DryRun s, ps_TTLSeconds = ssp_TTLSeconds s,
       ps_ApprovalTimeoutSeconds = ssp_ApprovalTimeoutSeconds s, ps_Summary = ''Derived remediation plan for '' @ action,
       ps_RollbackPlan = defaultRollbackPlan action, ps_References = evidenceSummaries (ssp_Evidence s),
       ps_Steps = [\<lparr>step_Name = ''prepare-action'', step_ActionType = action,
         step_Description = ''Execute '' @ action @ '' on target resource'', step_Parameters = ssp_Parameters s\<rparr>]\<rparr>)"

definition planAnnotationsFor :: "RiskSignal \<Rightarrow> strmap \<Rightarrow> strmap" where
  "planAnnotationsFor signal annotations =
     (let m = rsg_Meta signal; targetUID = mapGet (om_Annotations m) annotationTargetUID in
      (if targetUID \<noteq> [] then annotations(annotationTargetUID \<mapsto> targetUID) else annotations)
        (annotationRiskSignalRef \<mapsto> om_Namespace m @ ''/'' @ om_Name m, annotationRiskSignalUID \<mapsto> om_UID m))"

text \<open>The function that \<^verbatim>\<open>CreateOrUpdate\<close> applies to the stored or new plan.\<close>

definition materializePlan :: "signal_env \<Rightarrow> RiskSignal \<Rightarrow> RemediationPlan \<Rightarrow> go_error + RemediationPlan" where
  "materializePlan env signal plan =
     (case sen_controllerRef env signal plan of
        Inl e \<Rightarrow> Inl e
      | Inr plan \<Rightarrow> Inr (plan\<lparr>plan_Meta := (plan_Meta plan)
            \<lparr>om_Annotations := planAnnotationsFor signal (om_Annotations (plan_Meta plan))\<rparr>,
          plan_Spec := planSpecFor signal\<rparr>))"

definition signalPlanKey :: "RiskSignal \<Rightarrow> NamespacedName" where
  "signalPlanKey signal = (om_Namespace (rsg_Meta signal), om_Name (rsg_Meta signal) @ ''-plan'')"

definition RiskSignal_Reconcile ::
  "bool \<Rightarrow> signal_env \<Rightarrow> NamespacedName \<Rightarrow> shistory \<Rightarrow> outcome \<times> shistory" where
  "RiskSignal_Reconcile enabled env key h =
     (case sen_get env h key of
        Inl e \<Rightarrow> (if IsNotFound e then Stop else Fail e, SGet key # h)
      | Inr signal \<Rightarrow>
          let (now, h) = sTick env (SGet key # h) in
          case signalHandleTTL env signal now h of
            (result, finished, h) \<Rightarrow>
              if finished \<or> \<not> enabled \<or> hasUnverifiedInvestigationProjection signal then (result, h)
              else
                let stored = sen_createOrUpdatePlan env h (signalPlanKey signal) (materializePlan env signal);
                    h = SUpsertPlan (signalPlanKey signal) stored # h in
                case stored of
                  Inl e \<Rightarrow> (Fail e, h)
                | Inr _ \<Rightarrow>
                    let (now, h) = sTick env h in
                    writeSignalStatus env (signal\<lparr>rsg_Status := setRiskSignalStatus PhaseReadyForApproval
                      ''remediation plan materialized'' (om_Generation (rsg_Meta signal)) now (rsg_Status signal)\<rparr>)
                      (rsg_Status signal) result h)"

subsection \<open>The notification controller\<close>

definition notifierSource :: "RiskSignal \<Rightarrow> string" where
  "notifierSource signal =
     (let source = mapGet (om_Annotations (rsg_Meta signal)) annotationDetectionSource in
      if source \<noteq> [] then source else mapGet (om_Labels (rsg_Meta signal)) labelManagedBy)"

definition notificationBody :: "RiskSignal \<Rightarrow> string" where
  "notificationBody signal =
     (let s = rsg_Status signal; rule = mapGet (om_Labels (rsg_Meta signal)) labelRiskRule in
      Join ([''Summary: '' @ rs_Message (sst_Resource s)]
        @ (if rule \<noteq> [] then [''Rule: '' @ rule] else [])
        @ [''Target: '' @ targetRefString (ssp_Target (rsg_Spec signal))]
        @ (if TrimSpace (sst_RCASummary s) \<noteq> [] then [''RCA Summary: '' @ sst_RCASummary s] else [])
        @ (if TrimSpace (sst_RCAHypothesis s) \<noteq> [] then [''RCA Hypothesis: '' @ sst_RCAHypothesis s] else [])
        @ map (\<lambda>e. ''['' @ (if ev_Source e = [] then ev_Kind e else ev_Source e) @ ''] '' @ ev_Summary e)
            (ssp_Evidence (rsg_Spec signal))) [CHR 0x0A])"

definition notificationFields :: "RiskSignal \<Rightarrow> string \<rightharpoonup> goAny" where
  "notificationFields signal =
     (let m = rsg_Meta signal; s = rsg_Status signal; spec = rsg_Spec signal;
          setText = (\<lambda>k v fields. if v \<noteq> [] then fields(k \<mapsto> GoString v) else fields) in
      setText ''origin'' (notifierSource signal) (setText ''rcaProvider'' (sst_RCAProvider s)
        (setText ''rcaSummary'' (sst_RCASummary s) (setText ''riskRule'' (mapGet (om_Labels m) labelRiskRule)
          [''namespace'' \<mapsto> GoString (om_Namespace m), ''severity'' \<mapsto> GoString (ssp_Severity spec),
           ''signalType'' \<mapsto> GoString (ssp_SignalType spec), ''confidence'' \<mapsto> GoInt (ssp_Confidence spec),
           ''target'' \<mapsto> GoString (targetRefString (ssp_Target spec))]))))"

definition signalNotification :: "RiskSignal \<Rightarrow> Message" where
  "signalNotification signal =
     \<lparr>msg_Title = ''RiskSignal detected: '' @ om_Name (rsg_Meta signal),
      msg_Summary = rs_Message (sst_Resource (rsg_Status signal)), msg_Body = notificationBody signal,
      msg_Fields = notificationFields signal\<rparr>"

definition markNotified :: "gotime \<Rightarrow> RiskSignal \<Rightarrow> RiskSignal" where
  "markNotified now signal = signal\<lparr>rsg_Meta := (rsg_Meta signal)\<lparr>om_Annotations := (om_Annotations (rsg_Meta signal))
     (annotationNotificationAt \<mapsto> formatRFC3339 now, annotationNotificationSource \<mapsto> notifierSource signal)\<rparr>\<rparr>"

text \<open>What follows the write of the annotations: the signal is read again, and its phase is stored.\<close>

definition recordNotified ::
  "signal_env \<Rightarrow> NamespacedName \<Rightarrow> RiskSignal \<Rightarrow> shistory \<Rightarrow> outcome \<times> shistory" where
  "recordNotified env key original h =
     (case sen_get env h key of
        Inl e \<Rightarrow> (if IsNotFound e then Stop else Fail e, SGet key # h)
      | Inr signal \<Rightarrow>
          let (now, h) = sTick env (SGet key # h) in
          writeSignalStatus env (signal\<lparr>rsg_Status := setRiskSignalStatus PhaseNotified
            (rs_Message (sst_Resource (rsg_Status original))) (om_Generation (rsg_Meta signal)) now (rsg_Status signal)\<rparr>)
            (rsg_Status original) Stop h)"

definition RiskSignalNotification_Reconcile ::
  "signal_env \<Rightarrow> NamespacedName \<Rightarrow> shistory \<Rightarrow> outcome \<times> shistory" where
  "RiskSignalNotification_Reconcile env key h =
     (case sen_get env h key of
        Inl e \<Rightarrow> (if IsNotFound e then Stop else Fail e, SGet key # h)
      | Inr signal \<Rightarrow>
          let h = SGet key # h in
          if mapGet (om_Annotations (rsg_Meta signal)) annotationNotificationAt \<noteq> [] then (Stop, h)
          else
            let m = signalNotification signal; sent = sen_notify env h m; h = SNotify m sent # h in
            case sent of
              Some e \<Rightarrow> (Fail e, h)
            | None \<Rightarrow>
                let (now, h) = sTick env h; marked = markNotified now signal; r = sen_update env h marked;
                    h = SUpdate marked (errorOf r) # h in
                case r of
                  Inl e \<Rightarrow> if errKind e = Conflict then recordNotified env key signal h else (Fail e, h)
                | Inr _ \<Rightarrow> recordNotified env key signal h)"


subsection \<open>The calls of a reconciliation\<close>

definition newCalls :: "'a list \<Rightarrow> 'a list \<Rightarrow> 'a list" where
  "newCalls h h' = take (length h' - length h) h'"

lemma newCalls_simps [simp]:
  "newCalls h h = []" "newCalls h (a # h) = [a]" "newCalls h (a # b # h) = [a, b]" "newCalls h (a # b # c # h) = [a, b, c]"
  "newCalls h (a # b # c # d # h) = [a, b, c, d]" "newCalls h (a # b # c # d # e # h) = [a, b, c, d, e]"
  "newCalls h (a # b # c # d # e # f # h) = [a, b, c, d, e, f]"
  "newCalls h (a # b # c # d # e # f # g # h) = [a, b, c, d, e, f, g]"
  by (simp_all add: newCalls_def)

definition planCalls :: "bool \<Rightarrow> signal_env \<Rightarrow> NamespacedName \<Rightarrow> shistory \<Rightarrow> signalEvent list" where
  "planCalls enabled env key h = newCalls h (snd (RiskSignal_Reconcile enabled env key h))"

definition notificationCalls :: "signal_env \<Rightarrow> NamespacedName \<Rightarrow> shistory \<Rightarrow> signalEvent list" where
  "notificationCalls env key h = newCalls h (snd (RiskSignalNotification_Reconcile env key h))"

definition signalExpired :: "RiskSignal \<Rightarrow> gotime \<Rightarrow> bool" where
  "signalExpired signal now \<longleftrightarrow> 0 < ssp_TTLSeconds (rsg_Spec signal) \<and> rsg_DeletionTimestamp signal \<in> {None, Some 0} \<and>
     signalExpiry signal now \<le> now"

text \<open>What one reconciliation calls, newest first: each case is one way through the handler.\<close>

lemma ttl_expired:
  "signalExpired signal now \<Longrightarrow> \<exists>result. signalHandleTTL env signal now h =
     (result, True, SDelete (signalKey signal) (sen_delete env h (signalKey signal)) # h)"
  by (auto simp: signalHandleTTL_def signalExpired_def Let_def split: option.splits)

lemma ttl_live: "\<not> signalExpired signal now \<Longrightarrow> \<exists>result. signalHandleTTL env signal now h = (result, False, h)"
  by (auto simp: signalHandleTTL_def signalExpired_def Let_def)

lemma writeSignalStatus_calls:
  "snd (writeSignalStatus env signal before result h) = h \<or>
   (\<exists>e. snd (writeSignalStatus env signal before result h) = SStatus signal e # h)"
  by (auto simp: writeSignalStatus_def split: sum.splits)

definition planWritten :: "signal_env \<Rightarrow> RiskSignal \<Rightarrow> signalEvent list \<Rightarrow> shistory \<Rightarrow> bool" where
  "planWritten env signal calls h \<longleftrightarrow>
     (\<exists>rest stored. calls = rest @ [SUpsertPlan (signalPlanKey signal) stored] \<and>
        stored = sen_createOrUpdatePlan env h (signalPlanKey signal) (materializePlan env signal) \<and>
        (\<forall>c\<in>set rest. (\<exists>t. c = STick t) \<or> (\<exists>u e. c = SStatus u e)))"

lemma RiskSignal_Reconcile_cases:
  obtains (missing) e where "sen_get env h key = Inl e" "planCalls enabled env key h = [SGet key]"
  | (expired) signal t e where "sen_get env h key = Inr signal" "t = sen_now env (SGet key # h)" "signalExpired signal t"
      "planCalls enabled env key h = [SDelete (signalKey signal) e, STick t, SGet key]"
  | (quiet) signal t where "sen_get env h key = Inr signal" "t = sen_now env (SGet key # h)" "\<not> signalExpired signal t"
      "\<not> enabled \<or> hasUnverifiedInvestigationProjection signal" "planCalls enabled env key h = [STick t, SGet key]"
  | (planned) signal t calls where "sen_get env h key = Inr signal" "t = sen_now env (SGet key # h)"
      "\<not> signalExpired signal t" "enabled" "\<not> hasUnverifiedInvestigationProjection signal"
      "planCalls enabled env key h = calls @ [STick t, SGet key]" "planWritten env signal calls (STick t # SGet key # h)"
proof (cases "sen_get env h key")
  case (Inl e)
  then show thesis using missing by (simp add: planCalls_def RiskSignal_Reconcile_def)
next
  case (Inr signal)
  define t where "t = sen_now env (SGet key # h)"
  show thesis
  proof (cases "signalExpired signal t")
    case True
    from ttl_expired [OF this] obtain result where
      "signalHandleTTL env signal t (STick t # SGet key # h) = (result, True,
         SDelete (signalKey signal) (sen_delete env (STick t # SGet key # h) (signalKey signal)) # STick t # SGet key # h)" by blast
    then have "planCalls enabled env key h =
        [SDelete (signalKey signal) (sen_delete env (STick t # SGet key # h) (signalKey signal)), STick t, SGet key]"
      using Inr by (simp add: planCalls_def RiskSignal_Reconcile_def sTick_def t_def)
    then show thesis using expired [OF Inr t_def True] by blast
  next
    case False
    from ttl_live [OF False] obtain result where
      ttl: "signalHandleTTL env signal t (STick t # SGet key # h) = (result, False, STick t # SGet key # h)" by blast
    show thesis
    proof (cases "\<not> enabled \<or> hasUnverifiedInvestigationProjection signal")
      case True
      then have "planCalls enabled env key h = [STick t, SGet key]"
        using Inr ttl by (auto simp: planCalls_def RiskSignal_Reconcile_def sTick_def t_def)
      then show thesis using quiet [OF Inr t_def False True] by blast
    next
      case allowed: False
      let ?stored = "sen_createOrUpdatePlan env (STick t # SGet key # h) (signalPlanKey signal) (materializePlan env signal)"
      let ?up = "SUpsertPlan (signalPlanKey signal) ?stored"
      have "\<exists>calls. planCalls enabled env key h = calls @ [STick t, SGet key] \<and>
          planWritten env signal calls (STick t # SGet key # h)"
      proof (cases ?stored)
        case (Inl e)
        then have "planCalls enabled env key h = [?up] @ [STick t, SGet key]"
          using Inr ttl allowed by (simp add: planCalls_def RiskSignal_Reconcile_def sTick_def t_def)
        then show ?thesis unfolding planWritten_def by (metis append_Nil empty_iff list.set(1))
      next
        case (Inr p)
        define t2 where "t2 = sen_now env (?up # STick t # SGet key # h)"
        define u where "u = signal\<lparr>rsg_Status := setRiskSignalStatus PhaseReadyForApproval
            ''remediation plan materialized'' (om_Generation (rsg_Meta signal)) t2 (rsg_Status signal)\<rparr>"
        have "planCalls enabled env key h = newCalls h (snd (writeSignalStatus env u (rsg_Status signal) result
            (STick t2 # ?up # STick t # SGet key # h)))"
          using \<open>sen_get env h key = Inr signal\<close> ttl allowed Inr
          by (simp add: planCalls_def RiskSignal_Reconcile_def sTick_def t_def t2_def u_def Let_def)
        with writeSignalStatus_calls [of env u "rsg_Status signal" result "STick t2 # ?up # STick t # SGet key # h"]
        have "planCalls enabled env key h = [STick t2] @ [?up] @ [STick t, SGet key] \<or>
            (\<exists>e. planCalls enabled env key h = [SStatus u e, STick t2] @ [?up] @ [STick t, SGet key])" by auto
        then show ?thesis unfolding planWritten_def by fastforce
      qed
      then show thesis using planned [OF Inr t_def False] allowed by blast
    qed
  qed
qed

subsection \<open>Remediation plans\<close>


text \<open> a signal is deleted exactly when its time to live is over, and then nothing else is done.\<close>

theorem signal_deleted_iff_expired:
  assumes "sen_get env h key = Inr signal"
  shows "list_ex (\<lambda>c. \<exists>k e. c = SDelete k e) (planCalls enabled env key h) =
    signalExpired signal (sen_now env (SGet key # h))"
  by (cases rule: RiskSignal_Reconcile_cases [of env h key enabled])
    (use assms in \<open>auto simp: planWritten_def list_ex_iff\<close>)

text \<open>\<open>controllerutil.CreateOrUpdate\<close> answers with what the mutation made of some object, up to what the server sets itself.\<close>

definition planWellFormed :: "RiskSignal \<Rightarrow> bool" where
  "planWellFormed signal \<longleftrightarrow>
     (let m = rsg_Meta signal; path = om_Namespace m @ ''/'' @ om_Name m in
      om_Namespace m \<noteq> [] \<and> om_Name m \<noteq> [] \<and> CHR ''/'' \<notin> set (om_Namespace m) \<and> TrimSpace path = path)"

lemma split_signal_path:
  assumes "planWellFormed signal"
  shows "splitNamespacedName (om_Namespace (rsg_Meta signal) @ ''/'' @ om_Name (rsg_Meta signal)) = signalKey signal"
proof -
  have "\<And>c. c \<in> set (om_Namespace (rsg_Meta signal)) \<Longrightarrow> c \<noteq> CHR ''/''"
    using assms by (auto simp: planWellFormed_def Let_def)
  then show ?thesis
    using assms by (simp add: splitNamespacedName_def planWellFormed_def signalKey_def Let_def takeWhile_append2 dropWhile_append2)
qed

lemma materializePlan_Inr:
  "materializePlan env signal q = Inr plan \<Longrightarrow> plan_Spec plan = planSpecFor signal \<and>
     (\<exists>p. om_Annotations (plan_Meta plan) = planAnnotationsFor signal p)"
  by (auto simp: materializePlan_def split: sum.splits)

lemma planAnnotationsFor_ref:
  "planAnnotationsFor signal p annotationRiskSignalRef = Some (om_Namespace (rsg_Meta signal) @ ''/'' @ om_Name (rsg_Meta signal))"
  by (simp add: planAnnotationsFor_def Let_def)

text \<open>C23: from a signal to its action: the action that is derived from the plan of a signal has the signal's target, action and
  parameters, and its baseline takes the evidence of exactly that signal.\<close>

theorem action_of_signal_reads_its_evidence:
  assumes plan: "materializePlan env signal q = Inr plan" and action: "actionMutate k plan evaluation t a = Inr action"
    and names: "planWellFormed signal"
  shows "as_Target (act_Spec action) = ssp_Target (rsg_Spec signal) \<and>
    as_ActionType (act_Spec action) = ssp_ActionType (rsg_Spec signal) \<and>
    as_Parameters (act_Spec action) = ssp_Parameters (rsg_Spec signal) \<and>
    (\<forall>evidence h. k_getRiskSignalEvidence k h (signalKey signal) = Inr evidence \<longrightarrow>
      fst (populateBaselineEvidence k (baseline\<lparr>eb_RiskSignalRef := riskSignalRefFromAction action\<rparr>) h) =
        Inr (baseline\<lparr>eb_RiskSignalRef := riskSignalRefFromAction action, eb_EvidenceRefs := evidence\<rparr>))"
proof -
  let ?path = "om_Namespace (rsg_Meta signal) @ ''/'' @ om_Name (rsg_Meta signal)"
  obtain p where p: "plan_Spec plan = planSpecFor signal" "om_Annotations (plan_Meta plan) = planAnnotationsFor signal p"
    using materializePlan_Inr [OF plan] by blast
  have spec: "as_Target (act_Spec action) = ps_Target (plan_Spec plan)"
      "as_ActionType (act_Spec action) = rem_ActionType (remediationFromPlan plan)"
      "as_Parameters (act_Spec action) = rem_Parameters (remediationFromPlan plan)"
      and "mapGet (om_Annotations (act_Meta action)) annotationRiskSignalRef =
        (if mapGet (om_Annotations (plan_Meta plan)) annotationRiskSignalRef \<noteq> []
         then mapGet (om_Annotations (plan_Meta plan)) annotationRiskSignalRef
         else mapGet (om_Annotations (act_Meta action)) annotationRiskSignalRef)"
    using action by (auto simp: actionMutate_def Let_def setIfNonempty_def mapGet_def split: sum.splits)
  then have ref: "mapGet (om_Annotations (act_Meta action)) annotationRiskSignalRef = ?path"
    using p(2) planAnnotationsFor_ref [of signal p] by (simp add: mapGet_def)
  have key: "splitNamespacedName ?path = (om_Namespace (rsg_Meta signal), om_Name (rsg_Meta signal))"
    using split_signal_path [OF names] by (simp add: signalKey_def)
  have fields: "TrimSpace ?path = ?path" "om_Name (rsg_Meta signal) \<noteq> []" "om_Namespace (rsg_Meta signal) \<noteq> []"
    using names by (simp_all add: planWellFormed_def Let_def)
  have "riskSignalRefFromAction action = Some \<lparr>nor_Name = om_Name (rsg_Meta signal), nor_Namespace = om_Namespace (rsg_Meta signal)\<rparr>"
    using fields key by (simp add: riskSignalRefFromAction_def ref)
  then show ?thesis
    using spec p(1) by (simp add: planSpecFor_def remediationFromPlan_def populateBaselineEvidence_def signalKey_def Let_def)
qed

text \<open>A weak point: the handler stores the time of every reconciliation, so a signal whose plan is up to date is written
  again by each one, and each write calls for the next reconciliation.\<close>

theorem enabled_signal_never_settles:
  assumes got: "sen_get env h key = Inr signal" and live: "\<not> signalExpired signal (sen_now env (SGet key # h))"
    and verified: "\<not> hasUnverifiedInvestigationProjection signal"
    and settled: "sst_Resource (rsg_Status signal) = \<lparr>rs_Phase = PhaseReadyForApproval, rs_Message = ''remediation plan materialized'',
      rs_ObservedGeneration = om_Generation (rsg_Meta signal), rs_UpdatedAt = stored\<rparr>"
    and upsert: "\<And>h. \<exists>p. sen_createOrUpdatePlan env h (signalPlanKey signal) (materializePlan env signal) = Inr p" and clock: "\<And>h. sen_now env h \<noteq> stored"
  shows "\<exists>t e. SStatus (signal\<lparr>rsg_Status := (rsg_Status signal)\<lparr>sst_Resource :=
    (sst_Resource (rsg_Status signal))\<lparr>rs_UpdatedAt := t\<rparr>\<rparr>\<rparr>) e \<in> set (planCalls True env key h)"
proof -
  define t where "t = sen_now env (SGet key # h)"
  let ?h = "STick t # SGet key # h"
  obtain result where ttl: "signalHandleTTL env signal t ?h = (result, False, ?h)"
    using ttl_live [of signal t env ?h] live by (auto simp: t_def)
  obtain p where p: "sen_createOrUpdatePlan env ?h (signalPlanKey signal) (materializePlan env signal) = Inr p"
    using upsert by blast
  let ?h2 = "SUpsertPlan (signalPlanKey signal) (Inr p) # ?h"
  define t2 where "t2 = sen_now env ?h2"
  define u where "u = signal\<lparr>rsg_Status := (rsg_Status signal)\<lparr>sst_Resource :=
    (sst_Resource (rsg_Status signal))\<lparr>rs_UpdatedAt := t2\<rparr>\<rparr>\<rparr>"
  have u: "u = signal\<lparr>rsg_Status := setRiskSignalStatus PhaseReadyForApproval ''remediation plan materialized''
      (om_Generation (rsg_Meta signal)) t2 (rsg_Status signal)\<rparr>"
    unfolding u_def setRiskSignalStatus_def setResourceStatus_def using settled by simp
  have "rsg_Status u \<noteq> rsg_Status signal"
    using clock [of ?h2] settled by (auto simp: u_def t2_def dest: arg_cong [where f = "\<lambda>s. rs_UpdatedAt (sst_Resource s)"])
  then have "\<exists>e. snd (writeSignalStatus env u (rsg_Status signal) result (STick t2 # ?h2)) = SStatus u e # STick t2 # ?h2"
    by (auto simp: writeSignalStatus_def split: sum.splits)
  moreover have "planCalls True env key h = newCalls h (snd (writeSignalStatus env u (rsg_Status signal) result (STick t2 # ?h2)))"
    using got ttl p verified unfolding planCalls_def RiskSignal_Reconcile_def u
    by (simp add: sTick_def t_def [symmetric] t2_def Let_def)
  ultimately show ?thesis unfolding u_def by fastforce
qed

subsection \<open>Notifications\<close>

lemma formatRFC3339_nonempty: "formatRFC3339 t \<noteq> []"
  by (simp add: formatRFC3339_def Let_def split: prod.splits)

lemma markNotified_marked: "mapGet (om_Annotations (rsg_Meta (markNotified t signal))) annotationNotificationAt \<noteq> []"
  using formatRFC3339_nonempty by (simp add: markNotified_def mapGet_def)

lemma recordNotified_calls:
  "\<exists>calls. snd (recordNotified env key original h) = calls @ h \<and> (\<forall>m e. SNotify m e \<notin> set calls) \<and> (\<forall>u e. SUpdate u e \<notin> set calls)"
proof (cases "sen_get env h key")
  case (Inl e)
  then show ?thesis by (intro exI [of _ "[SGet key]"]) (auto simp: recordNotified_def)
next
  case (Inr signal)
  define t where "t = sen_now env (SGet key # h)"
  define u where "u = signal\<lparr>rsg_Status := setRiskSignalStatus PhaseNotified
            (rs_Message (sst_Resource (rsg_Status original))) (om_Generation (rsg_Meta signal)) t (rsg_Status signal)\<rparr>"
  have "snd (recordNotified env key original h) = snd (writeSignalStatus env u (rsg_Status original) Stop (STick t # SGet key # h))"
    using Inr by (simp add: recordNotified_def sTick_def t_def u_def Let_def)
  with writeSignalStatus_calls [of env u "rsg_Status original" Stop "STick t # SGet key # h"]
  have "snd (recordNotified env key original h) = [STick t, SGet key] @ h \<or>
      (\<exists>e. snd (recordNotified env key original h) = [SStatus u e, STick t, SGet key] @ h)" by auto
  then show ?thesis
  proof (elim disjE exE)
    assume *: "snd (recordNotified env key original h) = [STick t, SGet key] @ h"
    show ?thesis by (intro exI [of _ "[STick t, SGet key]"]) (use * in auto)
  next
    fix e
    assume *: "snd (recordNotified env key original h) = [SStatus u e, STick t, SGet key] @ h"
    show ?thesis by (intro exI [of _ "[SStatus u e, STick t, SGet key]"]) (use * in auto)
  qed
qed

lemma newCalls_append [simp]: "newCalls h (g @ h) = g"
  by (simp add: newCalls_def)

lemma notification_cases:
  obtains (missing) e where "sen_get env h key = Inl e" "notificationCalls env key h = [SGet key]"
  | (marked) signal where "sen_get env h key = Inr signal" "mapGet (om_Annotations (rsg_Meta signal)) annotationNotificationAt \<noteq> []"
      "notificationCalls env key h = [SGet key]"
  | (unsent) signal e where "sen_get env h key = Inr signal"
      "mapGet (om_Annotations (rsg_Meta signal)) annotationNotificationAt = []"
      "notificationCalls env key h = [SNotify (signalNotification signal) (Some e), SGet key]"
      "fst (RiskSignalNotification_Reconcile env key h) = Fail e"
  | (sent) signal t w rest where "sen_get env h key = Inr signal"
      "mapGet (om_Annotations (rsg_Meta signal)) annotationNotificationAt = []"
      "notificationCalls env key h =
         rest @ [SUpdate (markNotified t signal) w, STick t, SNotify (signalNotification signal) None, SGet key]"
      "\<And>m e. SNotify m e \<notin> set rest" "\<And>u e. SUpdate u e \<notin> set rest"
      "\<And>e. w = Some e \<Longrightarrow> errKind e \<noteq> Conflict \<Longrightarrow> fst (RiskSignalNotification_Reconcile env key h) = Fail e"
proof (cases "sen_get env h key")
  case (Inl e)
  then show thesis using missing by (simp add: notificationCalls_def RiskSignalNotification_Reconcile_def)
next
  case (Inr signal)
  show thesis
  proof (cases "mapGet (om_Annotations (rsg_Meta signal)) annotationNotificationAt \<noteq> []")
    case True
    then have "notificationCalls env key h = [SGet key]"
      using Inr by (simp add: notificationCalls_def RiskSignalNotification_Reconcile_def)
    then show thesis using marked Inr True by blast
  next
    case False
    let ?m = "signalNotification signal"
    show thesis
    proof (cases "sen_notify env (SGet key # h) ?m")
      case (Some e)
      then have "notificationCalls env key h = [SNotify ?m (Some e), SGet key]"
          "fst (RiskSignalNotification_Reconcile env key h) = Fail e"
        using Inr False by (simp_all add: notificationCalls_def RiskSignalNotification_Reconcile_def Let_def)
      then show thesis using unsent Inr False by blast
    next
      case None
      define t where "t = sen_now env (SNotify ?m None # SGet key # h)"
      define u where "u = markNotified t signal"
      let ?h = "STick t # SNotify ?m None # SGet key # h"
      define r where "r = sen_update env ?h u"
      have run: "RiskSignalNotification_Reconcile env key h =
          (case r of Inl e \<Rightarrow> if errKind e = Conflict then recordNotified env key signal (SUpdate u (errorOf r) # ?h)
              else (Fail e, SUpdate u (errorOf r) # ?h)
           | Inr _ \<Rightarrow> recordNotified env key signal (SUpdate u (errorOf r) # ?h))"
        using Inr False None unfolding r_def u_def t_def
        by (simp add: RiskSignalNotification_Reconcile_def sTick_def Let_def errorOf_def split: sum.split)
      obtain calls where calls: "snd (recordNotified env key signal (SUpdate u (errorOf r) # ?h)) = calls @ SUpdate u (errorOf r) # ?h"
          "\<And>m e. SNotify m e \<notin> set calls" "\<And>u e. SUpdate u e \<notin> set calls"
        using recordNotified_calls by blast
      have "\<exists>rest. notificationCalls env key h = rest @ [SUpdate u (errorOf r), STick t, SNotify ?m None, SGet key] \<and>
          (\<forall>m e. SNotify m e \<notin> set rest) \<and> (\<forall>u e. SUpdate u e \<notin> set rest)"
      proof (cases "\<exists>e. r = Inl e \<and> errKind e \<noteq> Conflict")
        case True
        then have "notificationCalls env key h = [] @ [SUpdate u (errorOf r), STick t, SNotify ?m None, SGet key]"
          using run by (auto simp: notificationCalls_def)
        then show ?thesis by (metis empty_iff list.set(1))
      next
        case False
        then have "snd (RiskSignalNotification_Reconcile env key h) = calls @ SUpdate u (errorOf r) # ?h"
          using run calls(1) by (auto split: sum.splits)
        then have "notificationCalls env key h = calls @ [SUpdate u (errorOf r), STick t, SNotify ?m None, SGet key]"
          using newCalls_append [of h "calls @ [SUpdate u (errorOf r), STick t, SNotify ?m None, SGet key]"]
          by (simp add: notificationCalls_def)
        then show ?thesis using calls(2,3) by blast
      qed
      moreover have "fst (RiskSignalNotification_Reconcile env key h) = Fail e"
        if "errorOf r = Some e" "errKind e \<noteq> Conflict" for e
        using that run by (auto simp: errorOf_def split: sum.splits)
      ultimately show thesis using sent Inr False unfolding u_def by blast
    qed
  qed
qed


text \<open>A weak point: the notification is sent before the mark is stored.  A conflict on the mark is no error, so the
  reconciliation succeeds with a signal that is still unmarked, and the next one notifies again.\<close>

theorem conflict_repeats_notification:
  assumes got: "\<And>h. sen_get env h key = Inr signal" and unmarked: "mapGet (om_Annotations (rsg_Meta signal)) annotationNotificationAt = []"
    and works: "\<And>h m. sen_notify env h m = None" "\<And>h u e. sen_updateStatus env h u \<noteq> Inl e"
    and conflict: "\<And>h u. sen_update env h u = Inl e" "errKind e = Conflict"
  shows "fst (RiskSignalNotification_Reconcile env key h) = Stop \<and>
    SNotify (signalNotification signal) None \<in> set (notificationCalls env key h) \<and>
    SNotify (signalNotification signal) None \<in> set (notificationCalls env key (snd (RiskSignalNotification_Reconcile env key h)))"
proof -
  have "SNotify (signalNotification signal) None \<in> set (notificationCalls env key h)" for h
  proof (cases rule: notification_cases [of env h key])
    case (unsent s e)
    have "fst (RiskSignalNotification_Reconcile env key h) = Stop"
      using got unmarked works conflict
      by (auto simp: RiskSignalNotification_Reconcile_def recordNotified_def writeSignalStatus_def sTick_def Let_def split: sum.splits)
    with unsent(4) show ?thesis by simp
  qed (use got unmarked in auto)
  moreover have "fst (RiskSignalNotification_Reconcile env key h) = Stop"
    using got unmarked works conflict
    by (auto simp: RiskSignalNotification_Reconcile_def recordNotified_def writeSignalStatus_def sTick_def Let_def split: sum.splits)
  ultimately show ?thesis by blast
qed

subsection \<open>Concrete runs\<close>

definition demoSignalSpec :: RiskSignalSpec where
  "demoSignalSpec = \<lparr>ssp_Target = \<lparr>t_Cluster = [], t_Namespace = ''shop'', t_Kind = ''Deployment'', t_Name = ''api'',
      t_APIVersion = ''apps/v1'', t_Service = ''api''\<rparr>, ssp_SignalType = ''metric'', ssp_FindingIdentity = None,
     ssp_InvestigationRef = Some \<lparr>nor_Name = ''why'', nor_Namespace = ''shop''\<rparr>, ssp_ActionType = ''kubernetes.rolloutRestart'',
     ssp_Severity = ''low'', ssp_Confidence = 90, ssp_DryRun = True, ssp_TTLSeconds = 3600, ssp_Evidence = [],
     ssp_Parameters = [''mode'' \<mapsto> ''read-only''], ssp_ApprovalTimeoutSeconds = 30\<rparr>"

definition demoSignal :: RiskSignal where
  "demoSignal = \<lparr>rsg_Meta = emptyMeta\<lparr>om_Name := ''hot'', om_Namespace := ''shop'', om_UID := ''uid-7'', om_Generation := 1\<rparr>,
     rsg_CreationTimestamp = 1, rsg_DeletionTimestamp = None, rsg_Spec = demoSignalSpec,
     rsg_Status = \<lparr>sst_Resource = \<lparr>rs_Phase = PhaseReadyForApproval, rs_Message = ''remediation plan materialized'',
         rs_ObservedGeneration = 1, rs_UpdatedAt = 1\<rparr>,
       sst_RCASummary = [], sst_RCAHypothesis = [], sst_RCAProvider = [], sst_RCACauses = [], sst_Projection = None,
       sst_Conditions = [\<lparr>cnd_Type = conditionRCAReady, cnd_Status = ConditionTrue, cnd_ObservedGeneration = 1,
         cnd_LastTransitionTime = 1, cnd_Reason = ''RootCauseVerified'', cnd_Message = []\<rparr>]\<rparr>\<rparr>"

definition emptyPlan :: RemediationPlan where
  "emptyPlan = \<lparr>plan_Meta = emptyMeta, plan_Spec = planSpecFor demoSignal,
     plan_Status = \<lparr>pst_Resource = emptyResourceStatus, pst_FinishedAt = None\<rparr>\<rparr>"

definition demoSignalEnv :: signal_env where
  "demoSignalEnv = \<lparr>sen_now = (\<lambda>h. 1000 + int (length h)), sen_get = (\<lambda>h key. Inr demoSignal), sen_delete = (\<lambda>h key. None),
     sen_createOrUpdatePlan = (\<lambda>h key f. f emptyPlan), sen_controllerRef = (\<lambda>s p. Inr p), sen_update = (\<lambda>h s. Inr s),
     sen_updateStatus = (\<lambda>h s. Inr s), sen_notify = (\<lambda>h m. None)\<rparr>"

abbreviation hotKey :: NamespacedName where "hotKey \<equiv> (''shop'', ''hot'')"

lemma demoSignalEnv_simps [simp]:
  "sen_get demoSignalEnv h key = Inr demoSignal" "sen_now demoSignalEnv h = 1000 + int (length h)"
  "sen_createOrUpdatePlan demoSignalEnv h key f = f emptyPlan" "sen_controllerRef demoSignalEnv s p = Inr p"
  "sen_update demoSignalEnv h s = Inr s" "sen_updateStatus demoSignalEnv h s = Inr s" "sen_notify demoSignalEnv h m = None"
  by (simp_all add: demoSignalEnv_def)

lemma demoSignal_live: "\<not> signalExpired demoSignal (1000 + int n)" if "n < 1000" for n
  using that by (simp add: signalExpired_def signalExpiry_def demoSignal_def demoSignalSpec_def durationSeconds_exact)

lemma demoSignal_verified: "\<not> hasUnverifiedInvestigationProjection demoSignal"
  by (simp add: hasUnverifiedInvestigationProjection_def demoSignal_def demoSignalSpec_def)

lemma demo_materialized: "\<exists>p. materializePlan demoSignalEnv demoSignal q = Inr p"
  by (simp add: materializePlan_def)

lemma demo_planned: "list_ex (\<lambda>c. \<exists>k r. c = SUpsertPlan k r) (planCalls True demoSignalEnv hotKey [])"
proof (cases rule: RiskSignal_Reconcile_cases [of demoSignalEnv "[]" hotKey True])
  case (planned signal t calls)
  then show ?thesis by (auto simp: planWritten_def list_ex_iff)
qed (use demoSignal_live [of 1] demoSignal_verified in auto)


definition demoBaselineKube :: kube where
  "demoBaselineKube = idleKube\<lparr>k_controllerRefAction := (\<lambda>p a. Inr a), k_getRiskSignalEvidence := (\<lambda>h key. Inr [])\<rparr>"

theorem action_of_signal_reads_its_evidence_witness:
  "\<exists>plan action. materializePlan demoSignalEnv demoSignal emptyPlan = Inr plan \<and>
     actionMutate demoBaselineKube plan manualEvaluation 30 demoAction = Inr action \<and>
     as_ActionType (act_Spec action) = ''kubernetes.rolloutRestart'' \<and> as_Target (act_Spec action) = ssp_Target demoSignalSpec"
proof -
  obtain plan where plan: "materializePlan demoSignalEnv demoSignal emptyPlan = Inr plan" using demo_materialized by blast
  have "\<exists>action. actionMutate demoBaselineKube plan manualEvaluation 30 demoAction = Inr action"
    by (simp add: actionMutate_def demoBaselineKube_def Let_def)
  then obtain action where action: "actionMutate demoBaselineKube plan manualEvaluation 30 demoAction = Inr action" by blast
  have "planWellFormed demoSignal" by code_simp
  from action_of_signal_reads_its_evidence [OF plan action this] show ?thesis
    using plan action by (auto simp: demoSignal_def demoSignalSpec_def)
qed

theorem enabled_signal_never_settles_witness:
  "\<exists>t e. SStatus (demoSignal\<lparr>rsg_Status := (rsg_Status demoSignal)\<lparr>sst_Resource :=
    (sst_Resource (rsg_Status demoSignal))\<lparr>rs_UpdatedAt := t\<rparr>\<rparr>\<rparr>) e \<in> set (planCalls True demoSignalEnv hotKey [])"
  by (rule enabled_signal_never_settles [where stored = 1])
    (use demoSignal_live [of 1] demoSignal_verified demo_materialized in \<open>auto simp: demoSignal_def emptyMeta_def\<close>)


theorem conflict_repeats_notification_witness:
  "\<exists>env. fst (RiskSignalNotification_Reconcile env hotKey []) = Stop \<and>
     SNotify (signalNotification demoSignal) None \<in> set (notificationCalls env hotKey
       (snd (RiskSignalNotification_Reconcile env hotKey [])))"
proof -
  let ?env = "demoSignalEnv\<lparr>sen_update := (\<lambda>h s. Inl \<lparr>errKind = Conflict, errText = ''changed''\<rparr>)\<rparr>"
  have "fst (RiskSignalNotification_Reconcile ?env hotKey []) = Stop \<and>
     SNotify (signalNotification demoSignal) None \<in> set (notificationCalls ?env hotKey []) \<and>
     SNotify (signalNotification demoSignal) None \<in> set (notificationCalls ?env hotKey
       (snd (RiskSignalNotification_Reconcile ?env hotKey [])))"
    by (rule conflict_repeats_notification [where e = "\<lparr>errKind = Conflict, errText = ''changed''\<rparr>"])
      (simp_all add: demoSignal_def emptyMeta_def mapGet_def)
  then show ?thesis by blast
qed

end
