(* ===== verification/RuleAnalysis.thy ===== *)
theory RuleAnalysis
  imports RuleFindings ModelGateway
begin

text \<open>
  The direct analysis of a risk rule: the input that \<^verbatim>\<open>Gateway.Analyze\<close> makes of the matches
  (\<^verbatim>\<open>internal/modelgateway/gateway.go\<close>) and \<^verbatim>\<open>analyzeRCA\<close>
  (\<^verbatim>\<open>internal/controllers/riskrule_controller.go\<close>), which keeps only what the verifier supports.
\<close>

subsection \<open>The input of the gateway\<close>

definition signalKind :: "string \<Rightarrow> string" where
  "signalKind signalType =
     (case map_of [(''prometheus'', ''metric''), (''loki'', ''log''), (''kubernetesevent'', ''event'')] (ToLower (TrimSpace signalType)) of
        Some kind \<Rightarrow> kind | None \<Rightarrow> ''signal'')"

definition signalSource :: "string \<Rightarrow> string" where
  "signalSource signalType =
     (case map_of [(''prometheus'', ''prometheus''), (''loki'', ''loki''), (''kubernetesevent'', ''kubernetes-events'')]
         (ToLower (TrimSpace signalType)) of
        Some source \<Rightarrow> source | None \<Rightarrow> signalType)"

definition normalizeMatchSeverity :: "string \<Rightarrow> string" where
  "normalizeMatchSeverity value =
     (let s = ToLower (TrimSpace value) in if s \<in> {''low'', ''high'', ''unsafe''} then s else ''medium'')"

definition matchSignal :: "ResourceRef \<Rightarrow> gotime \<Rightarrow> nat \<Rightarrow> Match \<Rightarrow> Signal" where
  "matchSignal target now index m =
     \<lparr>sgn_ID = ''rule-signal-'' @ itoa (int index + 1), sgn_Kind = signalKind (rrs_Type (mat_Signal m)),
      sgn_Source = signalSource (rrs_Type (mat_Signal m)), sgn_Severity = normalizeMatchSeverity (mat_Severity m),
      sgn_Message = mat_Summary m, sgn_Resource = target, sgn_Attributes = Map.empty, sgn_Timestamp = now\<rparr>"

definition matchReference :: "EvidenceRef \<Rightarrow> Evidence" where
  "matchReference e = \<lparr>evd_Kind = ev_Kind e, evd_Source = ev_Source e, evd_Summary = ev_Summary e, evd_Query = ev_Query e,
     evd_Reason = ev_Reason e, evd_Link = ev_Link e\<rparr>"

text \<open>A signal with metric evidence counts all its evidence; a later match of the same name wins.\<close>

definition matchMetrics :: "Match list \<Rightarrow> string \<rightharpoonup> float64" where
  "matchMetrics matches = map_of (rev (map (\<lambda>m. (rrs_Name (mat_Signal m), floatOfInt (int (length (mat_Evidence m)))))
     (filter (\<lambda>m. list_ex (\<lambda>e. ev_Kind e = ''metric'') (mat_Evidence m)) matches)))"

definition buildIngestionOutput :: "ResourceRef \<Rightarrow> Match list \<Rightarrow> gotime \<Rightarrow> IngestionOutput" where
  "buildIngestionOutput target matches now =
     (let evidence = concat (map mat_Evidence matches);
          signals = map (\<lambda>(i, m). matchSignal target now i m) (List.enumerate 0 matches) in
      \<lparr>ing_Context = \<lparr>ict_ID = ''riskrule-'' @ r_Namespace target @ ''-'' @ r_Name target, ict_Cluster = r_Cluster target,
         ict_Service = r_Service target, ict_Resource = target, ict_Summary = Join (map mat_Summary matches) '' | '',
         ict_Signals = signals, ict_Metadata = Map.empty, ict_GeneratedAt = now\<rparr>,
       ing_Evidence = \<lparr>bun_Logs = map ev_Summary (filter (\<lambda>e. ev_Kind e = ''log'') evidence), bun_Metrics = matchMetrics matches,
         bun_Traces = [], bun_Events = map ev_Summary (filter (\<lambda>e. ev_Kind e = ''event'') evidence),
         bun_References = map matchReference evidence, bun_Observations = []\<rparr>,
       ing_Signals = signals,
       ing_Timeline = \<lparr>rtl_Resource = target, rtl_Events = map (\<lambda>m. \<lparr>tle_Timestamp = now,
         tle_Kind = signalKind (rrs_Type (mat_Signal m)), tle_Summary = mat_Summary m\<rparr>) matches\<rparr>,
       ing_DedupedFrom = int (length matches)\<rparr>)"

definition Gateway_Analyze ::
  "model_env \<Rightarrow> Gateway \<Rightarrow> ModelProvider \<Rightarrow> ResourceRef \<Rightarrow> Match list \<Rightarrow> gotime \<Rightarrow> mhistory \<Rightarrow>
   ((gw_error + ReasoningOutput) \<times> mhistory) option" where
  "Gateway_Analyze env g provider target matches now h =
     map_option (\<lambda>(r, trace, h). (r, h))
       (analyzeIngestionWithFallback env g (\<lambda>_. Inr (buildIngestionOutput target matches now)) (Some provider) h)"

subsection \<open>The analysis of a rule\<close>

definition gatewayError :: "gw_error \<Rightarrow> go_error" where
  "gatewayError e = (case e of AnalyzeErr a \<Rightarrow> Errorf (az_Message a) | ResolveErr r \<Rightarrow> Errorf (rv_Message r) | PlainErr p \<Rightarrow> p)"

definition evidenceCollectionResultFromMatches :: "Match list \<Rightarrow> EvidenceCollectionResult" where
  "evidenceCollectionResultFromMatches matches =
     \<lparr>ecr_Summary = combineSummaries matches, ecr_EvidenceRefs = flattenEvidence matches, ecr_Observations = [],
      ecr_SchedulingEvidence = [], ecr_Scheduling = [], ecr_Diagnostics = [], ecr_Issue = None\<rparr>"

definition notAnalyzed :: "string \<Rightarrow> string \<Rightarrow> string \<Rightarrow> gotime \<Rightarrow> rcaResult" where
  "notAnalyzed provider reason msg now = emptyRCAOutcome\<lparr>rrt_ProviderName := provider,
     rrt_Condition := Some (rcaCondition ConditionFalse reason msg now)\<rparr>"

text \<open>The end of \<^verbatim>\<open>analyzeRCA\<close>: the answer of the provider is judged against the evidence of the matches.\<close>

definition verifiedAnalysis :: "string \<Rightarrow> ResourceRef \<Rightarrow> Match list \<Rightarrow> gotime \<Rightarrow> ReasoningOutput \<Rightarrow> rcaResult" where
  "verifiedAnalysis provider target matches now reasoning =
     (let evidence = evidenceCollectionResultFromMatches matches; claims = fst (buildRCAClaims reasoning evidence []);
          evaluation = evaluateCanonicalVerdict reasoning evidence claims (providerScore reasoning) [] in
      if cve_Outcome evaluation \<noteq> InvestigationOutcomeConfirmed then
        \<lparr>rrt_Reasoning = None, rrt_ProviderName = provider,
         rrt_Condition = Some (rcaCondition ConditionFalse ''RCAUnverified''
           ''RCA completed but proposed root-cause claims were not supported by collected evidence'' now),
         rrt_Projection = Some \<lparr>rpj_Mode = ''DirectRiskSignalCompatibility'', rpj_ProjectedFrom = None, rpj_CompatibilityPath = True,
           rpj_Message = ''Direct RiskRule RCA was not projected because proposed root-cause claims were not verified; canonical RCA is owned by InvestigationRequest.status.''\<rparr>,
         rrt_Summary = directRiskSignalUnverifiedRCASummary target matches\<rparr>
      else
        \<lparr>rrt_Reasoning = Some (reasoning\<lparr>rso_RiskSummary := cve_Summary evaluation,
           rso_RCA := (rso_RCA reasoning)\<lparr>rcs_Causes := verifiedCauseStatements (rootCauseClaims reasoning claims)\<rparr>,
           rso_Confidence := (rso_Confidence reasoning)\<lparr>cnf_Score := percentOf (cve_VerifiedScore evaluation)\<rparr>\<rparr>),
         rrt_ProviderName = provider,
         rrt_Condition = Some (rcaCondition ConditionTrue ''ProviderSucceeded'' (''RCA generated by ModelProvider '' @ quote provider) now),
         rrt_Projection = None, rrt_Summary = []\<rparr>)"

definition analyzeRCA ::
  "model_env \<Rightarrow> KubeResolver option \<Rightarrow> Gateway option \<Rightarrow> RiskRule \<Rightarrow> Target \<Rightarrow> Match list \<Rightarrow> gotime \<Rightarrow> mhistory \<Rightarrow>
   ((go_error + rcaResult) \<times> mhistory) option" where
  "analyzeRCA env resolver gateway riskRule target matches now h =
     (if \<not> rai_RCAEnabled (rsp_AI (rul_Spec riskRule)) then Some (Inr emptyRCAOutcome, h)
      else case resolver of
        None \<Rightarrow> Some (Inr (notAnalyzed [] ''ResolverUnavailable'' ''model provider resolver is not configured'' now), h)
      | Some r \<Rightarrow>
          (case KubeResolver_Resolve env r (om_Namespace (rul_Meta riskRule))
               (refOrNil (rai_ProviderRef (rsp_AI (rul_Spec riskRule)))) h of
             (Inl (ResolveErr e), h) \<Rightarrow> Some (Inr (notAnalyzed [] (rv_Reason e) (rv_Message e) now), h)
           | (Inl e, h) \<Rightarrow> Some (Inl (gatewayError e), h)
           | (Inr provider, h) \<Rightarrow>
               (case gateway of
                  None \<Rightarrow> Some (Inr (notAnalyzed (mpName provider) ''GatewayUnavailable'' ''model gateway is not configured'' now), h)
                | Some g \<Rightarrow>
                    (case Gateway_Analyze env g provider (tgt_Resource target) matches now h of
                       None \<Rightarrow> None
                     | Some (Inl (AnalyzeErr e), h) \<Rightarrow> Some (Inr (notAnalyzed (mpName provider) (az_Reason e) (az_Message e) now), h)
                     | Some (Inl e, h) \<Rightarrow> Some (Inl (gatewayError e), h)
                     | Some (Inr reasoning, h) \<Rightarrow>
                         Some (Inr (verifiedAnalysis (mpName provider) (tgt_Resource target) matches now reasoning), h)))))"

subsection \<open>Only a verified root cause is kept\<close>

lemma notAnalyzed_sel [simp]:
  "rrt_Reasoning (notAnalyzed p r m now) = None" "rrt_Condition (notAnalyzed p r m now) = Some (rcaCondition ConditionFalse r m now)"
  by (simp_all add: notAnalyzed_def emptyRCAOutcome_def)

lemma emptyRCAOutcome_sel [simp]: "rrt_Reasoning emptyRCAOutcome = None" "rrt_Condition emptyRCAOutcome = None"
  by (simp_all add: emptyRCAOutcome_def)

lemma cnd_Status_rcaCondition [simp]: "cnd_Status (rcaCondition s r m now) = s" "cnd_Type (rcaCondition s r m now) = conditionRCAReady"
  by (simp_all add: rcaCondition_def)

lemma analyzeRCA_cases:
  assumes "analyzeRCA env resolver gateway riskRule target matches now h = Some (Inr rca, h')"
  shows "rca = emptyRCAOutcome \<or> (\<exists>p r m. rca = notAnalyzed p r m now) \<or>
    (\<exists>p reasoning. rca = verifiedAnalysis p (tgt_Resource target) matches now reasoning)"
  using assms unfolding analyzeRCA_def
  by (simp split: if_splits option.splits sum.splits gw_error.splits prod.splits) blast+

text \<open> the analysis of a rule keeps the answer of the provider exactly when it reports the root cause as ready, and then the
  verdict over the matched evidence is confirmed and every cause that is kept is a claim which the verifier supports.\<close>

theorem direct_rca_verified:
  assumes "analyzeRCA env resolver gateway riskRule target matches now h = Some (Inr rca, h')"
  shows "(rrt_Reasoning rca \<noteq> None) = (\<exists>c. rrt_Condition rca = Some c \<and> cnd_Status c = ConditionTrue) \<and>
    (case rrt_Reasoning rca of None \<Rightarrow> True
     | Some kept \<Rightarrow> \<exists>reasoning evidence claims. evidence = evidenceCollectionResultFromMatches matches \<and>
         claims = fst (buildRCAClaims reasoning evidence []) \<and>
         cve_Outcome (evaluateCanonicalVerdict reasoning evidence claims (providerScore reasoning) []) = InvestigationOutcomeConfirmed \<and>
         rcs_Causes (rso_RCA kept) = map rcl_Statement (filter claimSupported (rootCauseClaims reasoning claims)))"
  using analyzeRCA_cases [OF assms]
proof (elim disjE exE)
  fix p reasoning
  assume "rca = verifiedAnalysis p (tgt_Resource target) matches now reasoning"
  then show ?thesis by (auto simp: verifiedAnalysis_def verifiedCauseStatements_def Let_def)
qed auto

text \<open> and the signal says so: its condition \<^verbatim>\<open>RemediationReady\<close> is true exactly when the root cause is verified.\<close>

lemma applyRCAResult_remediation:
  assumes "conditionLaws ca" and "\<And>c. rrt_Condition rca = Some c \<Longrightarrow> cnd_Type c = conditionRCAReady"
  shows "map_option fst (conditionFieldsOf (sst_Conditions (applyRCAResult ca rca generation now status)) conditionRemediationReady) =
    map_option (\<lambda>c. if cnd_Status c = ConditionTrue then ConditionTrue else ConditionFalse) (rrt_Condition rca)"
  using assms(2) conditionFieldsOf_set [OF assms(1)] conditionFieldsOf_remove [OF assms(1)] assms(1)
  by (auto simp: applyRCAResult_def applyRCAConditions_def conditionLaws_def Let_def split: option.splits)

subsection \<open>The data policy of the provider\<close>

text \<open>A weak point: unlike an investigation, the direct analysis hands every provider the same input.  Two providers that differ
  only in their data policy, but both allow external transmission, are asked the same, with all the evidence.\<close>

lemma mpName_spec [simp]: "mpName (p\<lparr>mp_Spec := s\<rparr>) = mpName p" "mpNamespace (p\<lparr>mp_Spec := s\<rparr>) = mpNamespace p"
  by (simp_all add: mpName_def mpNamespace_def)

lemma ResolveAPIKey_policy:
  "ResolveAPIKey env client (p\<lparr>mp_Spec := (mp_Spec p)\<lparr>mps_DataPolicy := d\<rparr>\<rparr>) h = ResolveAPIKey env client p h"
  by (cases "mps_APIKeySecretRef (mp_Spec p)") (auto simp: ResolveAPIKey_def Let_def split: sum.split option.split)

lemma configureProvider_policy:
  "configureProvider env g q (p\<lparr>mp_Spec := (mp_Spec p)\<lparr>mps_DataPolicy := d\<rparr>\<rparr>) h = configureProvider env g q p h"
  by (cases "gw_Secrets g"; cases q) (auto simp: configureProvider_def ResolveAPIKey_policy Let_def split: prod.split sum.split)

theorem direct_analysis_ignores_data_policy:
  assumes "dp_AllowExternalTransmission d = dp_AllowExternalTransmission (mps_DataPolicy (mp_Spec p))"
  shows "tryProvider env g registry (\<lambda>_. Inr (buildIngestionOutput target matches now))
      (p\<lparr>mp_Spec := (mp_Spec p)\<lparr>mps_DataPolicy := d\<rparr>\<rparr>) h =
    tryProvider env g registry (\<lambda>_. Inr (buildIngestionOutput target matches now)) p h \<and>
    bun_References (ing_Evidence (buildIngestionOutput target matches now)) = map matchReference (flattenEvidence matches)"
proof (rule conjI)
  have "analyzeSingleProvider env g registry (p\<lparr>mp_Spec := (mp_Spec p)\<lparr>mps_DataPolicy := d\<rparr>\<rparr>) input h =
      analyzeSingleProvider env g registry p input h" for input
    using assms
    by (auto simp: analyzeSingleProvider_def configureProvider_policy Let_def split: option.split prod.split sum.split model_error.split)
  then show "tryProvider env g registry (\<lambda>_. Inr (buildIngestionOutput target matches now))
      (p\<lparr>mp_Spec := (mp_Spec p)\<lparr>mps_DataPolicy := d\<rparr>\<rparr>) h =
    tryProvider env g registry (\<lambda>_. Inr (buildIngestionOutput target matches now)) p h"
    by (simp add: tryProvider_def)
qed (simp add: buildIngestionOutput_def flattenEvidence_def Let_def)

text \<open>The analysis returns when the cluster has only finitely many providers.\<close>

lemma analyzeRCA_returns:
  assumes "finite K" and "\<And>key h p. me_GetProvider env key h = Inr p \<Longrightarrow> providerKey p \<in> K"
  shows "\<exists>out. analyzeRCA env resolver gateway riskRule target matches now h = Some out"
proof -
  have "\<exists>out. analyzeChain env g registry f [] provider [] h = Some out" for g registry f provider h
    by (rule analyzeChain_returns [OF assms(1)]) (rule assms(2))
  then have "Gateway_Analyze env g provider t matches now h \<noteq> None" for g provider t h
    by (fastforce simp: Gateway_Analyze_def analyzeIngestionWithFallback_def split: option.splits)
  then show ?thesis
    by (auto simp: analyzeRCA_def simp del: not_None_eq split: option.split sum.split gw_error.split prod.split)
qed

end
