(* ===== verification/RiskRuleController.thy ===== *)
theory RiskRuleController
  imports RuleAnalysis RuleSelector QueryPolicy InvestigationExecution RiskSignalController
begin

text \<open>
  The reconciler of risk rules (\<^verbatim>\<open>internal/controllers/riskrule_controller.go\<close>): the evaluation of the signals of a rule
  for every target, the risk signal or investigation request of a finding, and the conditions of the rule.  The API
  server, the clock, the data sources and the model providers are the parameter \<open>rule_env\<close>, functions of the history of
  calls; what is library code is the parameter \<open>rule_lib\<close>.
\<close>

subsection \<open>Issues of an evaluation\<close>

record evaluationIssue =
  evi_Reason :: string
  evi_Message :: string

record ruleEvaluationSummary =
  res_MissingDatasource :: "evaluationIssue option"
  res_CapabilityMismatch :: "evaluationIssue option"
  res_QueryFailure :: "evaluationIssue option"
  res_CoveragePartial :: "evaluationIssue option"

definition emptySummary :: ruleEvaluationSummary where
  "emptySummary = \<lparr>res_MissingDatasource = None, res_CapabilityMismatch = None, res_QueryFailure = None,
     res_CoveragePartial = None\<rparr>"

definition firstEvaluationIssue :: "evaluationIssue option \<Rightarrow> evaluationIssue \<Rightarrow> evaluationIssue option" where
  "firstEvaluationIssue current candidate = (case current of Some i \<Rightarrow> Some i | None \<Rightarrow> Some candidate)"

definition firstSome :: "'a option \<Rightarrow> 'a option \<Rightarrow> 'a option" where
  "firstSome current next' = (case current of Some i \<Rightarrow> Some i | None \<Rightarrow> next')"

definition mergeRuleEvaluationSummary :: "ruleEvaluationSummary \<Rightarrow> ruleEvaluationSummary \<Rightarrow> ruleEvaluationSummary" where
  "mergeRuleEvaluationSummary current next' =
     \<lparr>res_MissingDatasource = firstSome (res_MissingDatasource current) (res_MissingDatasource next'),
      res_CapabilityMismatch = firstSome (res_CapabilityMismatch current) (res_CapabilityMismatch next'),
      res_QueryFailure = firstSome (res_QueryFailure current) (res_QueryFailure next'),
      res_CoveragePartial = firstSome (res_CoveragePartial current) (res_CoveragePartial next')\<rparr>"

definition summaryIssues :: "ruleEvaluationSummary \<Rightarrow> evaluationIssue option list" where
  "summaryIssues s = [res_MissingDatasource s, res_CapabilityMismatch s, res_QueryFailure s, res_CoveragePartial s]"

fun firstIssueText :: "(evaluationIssue \<Rightarrow> string) \<Rightarrow> evaluationIssue option list \<Rightarrow> string \<Rightarrow> string" where
  "firstIssueText text [] fallback = fallback"
| "firstIssueText text (None # is) fallback = firstIssueText text is fallback"
| "firstIssueText text (Some i # is) fallback =
     (if TrimSpace (text i) \<noteq> [] then text i else firstIssueText text is fallback)"

definition firstNonEmptyIssueMessage :: "ruleEvaluationSummary \<Rightarrow> string" where
  "firstNonEmptyIssueMessage s = firstIssueText evi_Message (summaryIssues s) ''no evaluation issues recorded''"

definition firstNonEmptyIssueReason :: "ruleEvaluationSummary \<Rightarrow> string" where
  "firstNonEmptyIssueReason s = firstIssueText evi_Reason (summaryIssues s) ''EvaluationDegraded''"

subsection \<open>Conditions\<close>

abbreviation PhaseObserved :: string where "PhaseObserved \<equiv> ''Observed''"
abbreviation PhaseConfirmed :: string where "PhaseConfirmed \<equiv> ''Confirmed''"

definition applyRiskRuleConditions ::
  "condition_api \<Rightarrow> int \<Rightarrow> ruleEvaluationSummary \<Rightarrow> gotime \<Rightarrow> Condition list \<Rightarrow> Condition list" where
  "applyRiskRuleConditions ca generation summary now cs =
     (let put = (\<lambda>t s r m. setStatusCondition ca t s r m generation now);
          cs = (case res_MissingDatasource summary of
              Some i \<Rightarrow> put conditionDatasourceResolved ConditionFalse (evi_Reason i) (evi_Message i) cs
            | None \<Rightarrow> put conditionDatasourceResolved ConditionTrue ''AllDatasourcesResolved''
                ''all referenced datasources were resolved'' cs);
          cs = (case res_CapabilityMismatch summary of
              Some i \<Rightarrow> put conditionQueryTypeSupported ConditionFalse (evi_Reason i) (evi_Message i) cs
            | None \<Rightarrow> put conditionQueryTypeSupported ConditionTrue ''AllQueryTypesSupported''
                ''all datasource query types were supported'' cs) in
      if list_ex (\<lambda>i. i \<noteq> None) (summaryIssues summary) then
        let msg = firstNonEmptyIssueMessage summary; reason = firstNonEmptyIssueReason summary in
        put conditionDegraded ConditionTrue reason msg (put conditionReady ConditionFalse reason msg cs)
      else put conditionDegraded ConditionFalse ''NoDegradation'' ''no datasource resolution or capability issues detected''
        (put conditionReady ConditionTrue ''EvaluationReady'' ''risk rule evaluation inputs are ready'' cs))"

definition applyEvidenceConditions ::
  "condition_api \<Rightarrow> int \<Rightarrow> ruleEvaluationSummary \<Rightarrow> gotime \<Rightarrow> Condition list \<Rightarrow> Condition list" where
  "applyEvidenceConditions ca generation summary now cs =
     (case firstSome (firstSome (res_MissingDatasource summary) (res_CapabilityMismatch summary)) (res_QueryFailure summary) of
        Some i \<Rightarrow> setStatusCondition ca conditionEvidenceReady ConditionFalse (evi_Reason i) (firstNonEmptyIssueMessage summary)
          generation now cs
      | None \<Rightarrow> setStatusCondition ca conditionEvidenceReady ConditionTrue ''AllEvidenceSourcesReady''
          ''all datasource references resolved and supported the requested query types'' generation now cs)"

definition applyFindingCondition ::
  "condition_api \<Rightarrow> int \<Rightarrow> Match list \<Rightarrow> gotime \<Rightarrow> Condition list \<Rightarrow> Condition list" where
  "applyFindingCondition ca generation matches now cs =
     (case matches of
        [] \<Rightarrow> setStatusCondition ca conditionFindingReady ConditionFalse ''NoSignalDetected'' ''no matching risk signal was detected''
          generation now cs
      | m # _ \<Rightarrow>
          let msg = combineSummaries matches;
              msg = (if TrimSpace msg = [] then ''risk finding was detected by RiskRule evaluation'' else msg) in
          setStatusCondition ca conditionFindingReady ConditionTrue (findingConditionReason m) msg generation now cs)"

subsection \<open>The environment\<close>

text \<open>The error of a query: its text, and the reason when a \<^verbatim>\<open>QueryError\<close> is in its chain.\<close>

record query_error =
  qre_Reason :: "string option"
  qre_Text :: string

definition QueryErrorReason :: "query_error \<Rightarrow> string \<Rightarrow> string" where
  "QueryErrorReason e fallback = (case qre_Reason e of Some r \<Rightarrow> if TrimSpace r \<noteq> [] then r else fallback | None \<Rightarrow> fallback)"

datatype ruleEvent =
    RTick gotime
  | RGet NamespacedName
  | RQuery string SourceQuery
  | RAnalyze mhistory
  | RUpsertSignal NamespacedName "go_error option"
  | RSignalStatus RiskSignal "go_error option"
  | RUpsertRequest NamespacedName "go_error option"
  | RStatus RiskRule "go_error option"

type_synonym rhistory = "ruleEvent list"

record rule_source =
  rls_Source :: QuerySource
  rls_Capabilities :: Capabilities
  rls_Query :: "rhistory \<Rightarrow> SourceQuery \<Rightarrow> query_error + QueryResult"

record rule_env =
  ren_now :: "rhistory \<Rightarrow> gotime"
  ren_get :: "rhistory \<Rightarrow> NamespacedName \<Rightarrow> go_error + RiskRule"
  ren_workloads :: "rhistory \<Rightarrow> workload_reader"
  ren_sources :: "(rhistory \<Rightarrow> string \<Rightarrow> rule_source option) option"
  ren_resolver :: "KubeResolver option"
  ren_gateway :: "Gateway option"
  ren_model :: "rhistory \<Rightarrow> model_env"
  ren_upsertSignal :: "rhistory \<Rightarrow> NamespacedName \<Rightarrow> (RiskSignal \<Rightarrow> RiskSignal) \<Rightarrow> go_error + RiskSignal"
  ren_updateSignalStatus :: "rhistory \<Rightarrow> RiskSignal \<Rightarrow> go_error + RiskSignal"
  ren_upsertRequest :: "rhistory \<Rightarrow> NamespacedName \<Rightarrow> (Investigation \<Rightarrow> Investigation) \<Rightarrow> go_error + Investigation"
  ren_updateStatus :: "rhistory \<Rightarrow> RiskRule \<Rightarrow> go_error + RiskRule"

text \<open>\<open>rlb_Visit\<close> is the order in which the map of targets is iterated.\<close>

record 't rule_lib =
  rlb_Conditions :: condition_api
  rlb_Findings :: finding_codec
  rlb_Rules :: rule_codec
  rlb_Template :: "'t template_engine"
  rlb_Visit :: "Target list \<Rightarrow> Target list"

definition rTick :: "rule_env \<Rightarrow> rhistory \<Rightarrow> gotime \<times> rhistory" where
  "rTick env h = (ren_now env h, RTick (ren_now env h) # h)"

subsection \<open>Evaluation of a target\<close>

definition ruleWindow :: "RiskRule \<Rightarrow> duration" where
  "ruleWindow riskRule = (let w = rsp_Window (rul_Spec riskRule) in if w \<le> 0 then 10 * minute else w)"

definition signalWithRenderedQuery :: "RiskRuleSignal \<Rightarrow> string \<Rightarrow> RiskRuleSignal" where
  "signalWithRenderedQuery signal rendered =
     signal\<lparr>rrs_Query := rendered,
       rrs_QueryTemplate := (if rrs_QueryTemplate signal = [] then rendered else rrs_QueryTemplate signal)\<rparr>"

definition policyRequest :: "string \<Rightarrow> string \<Rightarrow> RiskRuleSignal \<Rightarrow> string \<Rightarrow> duration \<Rightarrow> Target \<Rightarrow> QueryRequest" where
  "policyRequest sourceName queryType signal rendered window target =
     \<lparr>qr_DatasourceName = sourceName, qr_TemplateName = rrs_Name signal,
      qr_FromTemplate = (TrimSpace (rrs_QueryTemplate signal) \<noteq> []), qr_Query = rendered, qr_QueryType = queryType,
      qr_Lookback = window, qr_Target = tgt_Resource target, qr_Labels = tgt_Labels target\<rparr>"

definition noResultLimits :: QueryResultLimits where
  "noResultLimits = \<lparr>qrl_Metrics = \<lparr>mrl_MaxSeries = 0, mrl_MaxSamples = 0\<rparr>, qrl_Logs = \<lparr>lrl_MaxStreams = 0, lrl_MaxEntries = 0, lrl_MaxLines = 0\<rparr>,
     qrl_Events = \<lparr>erl_MaxRecords = 0\<rparr>\<rparr>"

definition sourceQuery :: "string \<Rightarrow> string \<Rightarrow> duration \<Rightarrow> Target \<Rightarrow> gotime \<Rightarrow> SourceQuery" where
  "sourceQuery queryType rendered window target now =
     \<lparr>qrt_Query = rendered, qrt_StartTime = now - window, qrt_EndTime = now, qrt_Step = minute, qrt_Labels = tgt_Labels target,
      qrt_Target = tgt_Resource target, qrt_QueryType = queryType, qrt_Reasons = [], qrt_ResultLimits = noResultLimits,
      qrt_Classification = \<lparr>dc_Level = [], dc_SensitivityTags = [], dc_Source = [], dc_PolicyVersion = []\<rparr>\<rparr>"

text \<open>What one signal of the rule contributes: an issue, a match, or nothing.\<close>

datatype signalOutcome =
    Skipped
  | Missing evaluationIssue
  | Mismatched evaluationIssue
  | QueryFailed evaluationIssue
  | Matched Match

definition evaluateRuleSignal ::
  "'t rule_lib \<Rightarrow> (rhistory \<Rightarrow> string \<Rightarrow> rule_source option) \<Rightarrow> RiskRule \<Rightarrow> Target \<Rightarrow> gotime \<Rightarrow> RiskRuleSignal \<Rightarrow> rhistory \<Rightarrow>
   (go_error + signalOutcome) \<times> rhistory" where
  "evaluateRuleSignal lib sources riskRule target now signal h =
     (case SourceRefForSignal signal of
        None \<Rightarrow> (Inr Skipped, h)
      | Some (sourceName, queryType) \<Rightarrow>
          (case sources h sourceName of
             None \<Rightarrow> (Inr (Missing \<lparr>evi_Reason = ''DataSourceNotFound'', evi_Message = ''DataSource '' @ quote sourceName
               @ '' was not found for signal '' @ quote (rrs_Name signal)\<rparr>), h)
           | Some source \<Rightarrow>
               if \<not> SupportsQueryType (rls_Capabilities source) queryType then
                 (Inr (Mismatched \<lparr>evi_Reason = ''CapabilityMismatch'', evi_Message = ''DataSource '' @ quote sourceName
                    @ '' does not support queryType '' @ quote queryType @ '' for signal '' @ quote (rrs_Name signal)\<rparr>), h)
               else
                 (case RenderQuery (rlb_Template lib) (QueryTemplateForSignal signal) (tgt_Resource target) (tgt_Labels target) of
                    Inl e \<Rightarrow> (Inl e, h)
                  | Inr rendered \<Rightarrow>
                      let window = ruleWindow riskRule;
                          decision = Validate durationText (Some (rls_Source source))
                            (policyRequest sourceName queryType signal rendered window target);
                          query = sourceQuery queryType rendered window target now in
                      if d_Decision decision = DecisionRejected then
                        (Inr (QueryFailed \<lparr>evi_Reason = ''QueryPolicyRejected'', evi_Message = d_Message decision\<rparr>), h)
                      else
                        (case rls_Query source h query of
                           Inl e \<Rightarrow> (Inr (QueryFailed \<lparr>evi_Reason = QueryErrorReason e ''DatasourceQueryFailed'',
                             evi_Message = ''query DataSource '' @ quote sourceName @ '' failed for signal ''
                               @ quote (rrs_Name signal) @ '': '' @ qre_Text e\<rparr>), RQuery sourceName query # h)
                         | Inr result \<Rightarrow>
                             (Inr (case EvaluateSignal (rlb_Rules lib) (signalWithRenderedQuery signal rendered) queryType result
                                 (tgt_Resource target) (ruleSeverity (rsp_Severity (rul_Spec riskRule))) of
                               None \<Rightarrow> Skipped | Some m \<Rightarrow> Matched m), RQuery sourceName query # h)))))"

definition noteOutcome ::
  "signalOutcome \<Rightarrow> Match list \<times> ruleEvaluationSummary \<Rightarrow> Match list \<times> ruleEvaluationSummary" where
  "noteOutcome out = (\<lambda>(matches, s).
     case out of
       Skipped \<Rightarrow> (matches, s)
     | Missing i \<Rightarrow> (matches, s\<lparr>res_MissingDatasource := firstEvaluationIssue (res_MissingDatasource s) i\<rparr>)
     | Mismatched i \<Rightarrow> (matches, s\<lparr>res_CapabilityMismatch := firstEvaluationIssue (res_CapabilityMismatch s) i\<rparr>)
     | QueryFailed i \<Rightarrow> (matches, s\<lparr>res_QueryFailure := firstEvaluationIssue (res_QueryFailure s) i\<rparr>)
     | Matched m \<Rightarrow> (matches @ [m], s))"

fun evaluateRuleSignals ::
  "'t rule_lib \<Rightarrow> (rhistory \<Rightarrow> string \<Rightarrow> rule_source option) \<Rightarrow> RiskRule \<Rightarrow> Target \<Rightarrow> gotime \<Rightarrow> RiskRuleSignal list \<Rightarrow>
   Match list \<times> ruleEvaluationSummary \<Rightarrow> rhistory \<Rightarrow> (go_error + Match list \<times> ruleEvaluationSummary) \<times> rhistory" where
  "evaluateRuleSignals lib sources riskRule target now [] acc h = (Inr acc, h)"
| "evaluateRuleSignals lib sources riskRule target now (signal # rest) acc h =
     (case evaluateRuleSignal lib sources riskRule target now signal h of
        (Inl e, h) \<Rightarrow> (Inl e, h)
      | (Inr out, h) \<Rightarrow> evaluateRuleSignals lib sources riskRule target now rest (noteOutcome out acc) h)"

definition evaluateTarget ::
  "'t rule_lib \<Rightarrow> (rhistory \<Rightarrow> string \<Rightarrow> rule_source option) \<Rightarrow> RiskRule \<Rightarrow> Target \<Rightarrow> gotime \<Rightarrow> rhistory \<Rightarrow>
   (go_error + Match list \<times> ruleEvaluationSummary) \<times> rhistory" where
  "evaluateTarget lib sources riskRule target now h =
     evaluateRuleSignals lib sources riskRule target now (rsp_Signals (rul_Spec riskRule)) ([], emptySummary) h"

subsection \<open>What a finding produces\<close>

definition ruleRequeueAfter :: "duration \<Rightarrow> duration" where
  "ruleRequeueAfter interval = (if 0 < interval then interval else minute)"

definition unixSeconds :: "gotime \<Rightarrow> int" where
  "unixSeconds t = t div second - 62135596800"

definition normalizedWindowBucket :: "duration \<Rightarrow> gotime \<Rightarrow> string" where
  "normalizedWindowBucket window now =
     (let w = (if window \<le> 0 then 10 * minute else window) in itoa (unixSeconds (now - now mod w)))"

definition investigationPolicyMode :: "string \<Rightarrow> string" where
  "investigationPolicyMode mode = (if TrimSpace mode = ''DirectRiskSignal'' then ''DirectRiskSignal'' else ''CreateRequest'')"

definition producedObjectKind :: "string \<Rightarrow> string" where
  "producedObjectKind mode =
     (if investigationPolicyMode mode = ''CreateRequest'' then ''InvestigationRequest'' else ''RiskSignal'')"

definition investigationQueriesFromMatches :: "Match list \<Rightarrow> InvestigationQuery list" where
  "investigationQueriesFromMatches matches =
     List.map_filter (\<lambda>m. map_option (\<lambda>(sourceName, queryType).
         \<lparr>iq_Name = rrs_Name (mat_Signal m), iq_DatasourceRef = sourceName, iq_QueryType = queryType,
          iq_Query = rrs_Query (mat_Signal m), iq_QueryTemplate = rrs_QueryTemplate (mat_Signal m),
          iq_Reasons = rrs_Reasons (mat_Signal m)\<rparr>) (SourceRefForSignal (mat_Signal m))) matches"

definition targetPath :: "Target \<Rightarrow> string" where
  "targetPath target = r_Namespace (tgt_Resource target) @ ''/'' @ r_Name (tgt_Resource target)"

text \<open>\<^verbatim>\<open>int64(interval.Seconds()) * 6\<close>.\<close>

definition signalTTLSeconds :: "duration \<Rightarrow> int" where
  "signalTTLSeconds interval = wrap64 (wholeSeconds (ruleRequeueAfter interval) * 6)"

text \<open>The function that \<^verbatim>\<open>CreateOrUpdate\<close> applies to the signal.\<close>

definition ruleSignal :: "RiskRule \<Rightarrow> Target \<Rightarrow> Match list \<Rightarrow> FindingIdentity \<Rightarrow> RiskSignal \<Rightarrow> RiskSignal" where
  "ruleSignal riskRule target matches identity signal =
     (let m = rsg_Meta signal; name = om_Name (rul_Meta riskRule); severity = ruleSeverity (rsp_Severity (rul_Spec riskRule)) in
      signal\<lparr>rsg_Meta := m\<lparr>om_Labels := (om_Labels m)(labelManagedBy \<mapsto> ''riskrule-controller'', labelRiskRule \<mapsto> name),
          om_Annotations := applyFindingIdentityAnnotations (Some identity) ((om_Annotations m)(annotationTargetRef \<mapsto> targetPath target,
            annotationDetectionSource \<mapsto> ''risk-rule'', annotationTargetUID \<mapsto> targetUID target))\<rparr>,
        rsg_Spec := (rsg_Spec signal)\<lparr>ssp_Target := resourceToTargetRef (tgt_Resource target),
          ssp_SignalType := SignalTypeForSignal (mat_Signal (hd matches)), ssp_FindingIdentity := Some identity,
          ssp_Severity := severity, ssp_Confidence := confidenceForSeverity severity (int (length matches)), ssp_DryRun := True,
          ssp_TTLSeconds := signalTTLSeconds (rsp_Interval (rul_Spec riskRule)), ssp_Evidence := flattenEvidence matches,
          ssp_ActionType := ''notification.sendSlack'',
          ssp_Parameters := [''channel'' \<mapsto> ''webhook'', ''mode'' \<mapsto> ''read-only'', ''riskRule'' \<mapsto> name,
            ''targetRef'' \<mapsto> targetPath target, ''summaryMode'' \<mapsto> ''rule-evaluated'',
            ''objectFindingIdentity'' \<mapsto> fid_ObjectFindingIdentity identity,
            ''logicalFindingIdentity'' \<mapsto> fid_LogicalFindingIdentity identity,
            ''incidentOccurrence'' \<mapsto> fid_IncidentOccurrence identity]\<rparr>\<rparr>)"

definition ruleSignalStatus ::
  "condition_api \<Rightarrow> Match list \<Rightarrow> rcaResult \<Rightarrow> ruleEvaluationSummary \<Rightarrow> gotime \<Rightarrow> RiskSignal \<Rightarrow> RiskSignal" where
  "ruleSignalStatus ca matches rca summary now signal =
     (let generation = om_Generation (rsg_Meta signal);
          s = setRiskSignalStatus PhaseConfirmed (combineSummaries matches) generation now (rsg_Status signal);
          s = s\<lparr>sst_Conditions := applyEvidenceConditions ca generation summary now
            (applyFindingCondition ca generation matches now (sst_Conditions s))\<rparr> in
      signal\<lparr>rsg_Status := applyRCAResult ca rca generation now s\<rparr>)"

definition upsertRiskSignal ::
  "'t rule_lib \<Rightarrow> rule_env \<Rightarrow> RiskRule \<Rightarrow> Target \<Rightarrow> Match list \<Rightarrow> rcaResult \<Rightarrow> ruleEvaluationSummary \<Rightarrow> gotime \<Rightarrow> rhistory \<Rightarrow>
   go_error option \<times> rhistory" where
  "upsertRiskSignal lib env riskRule target matches rca summary now h =
     (let identity = findingIdentity (rlb_Findings lib) riskRule target matches
            (normalizedWindowBucket (rsp_Window (rul_Spec riskRule)) now);
          key = (r_Namespace (tgt_Resource target), directRiskSignalName (rlb_Findings lib) (om_Name (rul_Meta riskRule))
            (r_Name (tgt_Resource target)) matches (Some identity));
          stored = ren_upsertSignal env h key (ruleSignal riskRule target matches identity);
          h = RUpsertSignal key (errorOf stored) # h in
      case stored of
        Inl e \<Rightarrow> (Some e, h)
      | Inr signal \<Rightarrow>
          let updated = ruleSignalStatus (rlb_Conditions lib) matches rca summary now signal in
          if rsg_Status updated = rsg_Status signal then (None, h)
          else
            let r = ren_updateSignalStatus env h updated; h = RSignalStatus updated (errorOf r) # h in
            (case r of Inl e \<Rightarrow> (if errKind e = Conflict then None else Some e) | Inr _ \<Rightarrow> None, h))"

definition ruleRequest ::
  "RiskRule \<Rightarrow> Target \<Rightarrow> Match list \<Rightarrow> string \<Rightarrow> string \<Rightarrow> FindingIdentity \<Rightarrow> Investigation \<Rightarrow> Investigation" where
  "ruleRequest riskRule target matches fingerprint windowBucket identity request =
     (let m = inv_Meta request; rm = rul_Meta riskRule; spec = rul_Spec riskRule;
          annotations = (om_Annotations m)(annotationDetectionSource \<mapsto> ''risk-rule'', annotationTargetRef \<mapsto> targetPath target,
            annotationLineageSource \<mapsto> om_Namespace rm @ ''/'' @ om_Name rm, annotationLineageSourceKind \<mapsto> ''RiskRule'',
            annotationLineageSourceAPI \<mapsto> GroupVersionString, annotationLineageSourceUID \<mapsto> om_UID rm,
            annotationLineageGeneration \<mapsto> itoa (om_Generation rm), annotationTargetUID \<mapsto> targetUID target,
            annotationFindingFingerprint \<mapsto> fingerprint) in
      request\<lparr>inv_Meta := m\<lparr>om_Labels := (om_Labels m)(labelManagedBy \<mapsto> ''riskrule-controller'', labelRiskRule \<mapsto> om_Name rm),
          om_Annotations := (applyFindingIdentityAnnotations (Some identity) annotations)(annotationInvestigationDepth \<mapsto> ''0'',
            annotationWindowBucket \<mapsto> windowBucket)\<rparr>,
        inv_Spec := (inv_Spec request)\<lparr>irs_Target := resourceToTargetRef (tgt_Resource target),
          irs_TimeRange := \<lparr>itr_Lookback = rsp_Window spec\<rparr>,
          irs_Question := ''Investigate RiskRule '' @ om_Name rm @ '' for '' @ targetPath target,
          irs_Queries := investigationQueriesFromMatches matches, irs_ModelProviderRef := rai_ProviderRef (rsp_AI spec),
          irs_Mode := ''readOnly'', irs_CreateRiskSignal := rip_CreateRiskSignal (rsp_InvestigationPolicy spec),
          irs_EvidenceRequirements := rip_EvidenceRequirements (rsp_InvestigationPolicy spec)\<rparr>\<rparr>)"

definition upsertInvestigationRequest ::
  "'t rule_lib \<Rightarrow> rule_env \<Rightarrow> RiskRule \<Rightarrow> Target \<Rightarrow> Match list \<Rightarrow> gotime \<Rightarrow> rhistory \<Rightarrow> go_error option \<times> rhistory" where
  "upsertInvestigationRequest lib env riskRule target matches now h =
     (let fc = rlb_Findings lib; bucket = normalizedWindowBucket (rsp_Window (rul_Spec riskRule)) now;
          identity = findingIdentity fc riskRule target matches bucket;
          key = (om_Namespace (rul_Meta riskRule), investigationRequestName fc (om_Name (rul_Meta riskRule))
            (r_Name (tgt_Resource target)) (fid_IncidentOccurrence identity));
          stored = ren_upsertRequest env h key (ruleRequest riskRule target matches (findingFingerprint fc matches) bucket identity) in
      (errorOf stored, RUpsertRequest key (errorOf stored) # h))"

subsection \<open>The reconciler\<close>

text \<open>\<open>None\<close> is an analysis that does not return.\<close>

definition analyzeForRule ::
  "rule_env \<Rightarrow> RiskRule \<Rightarrow> Target \<Rightarrow> Match list \<Rightarrow> gotime \<Rightarrow> rhistory \<Rightarrow> ((go_error + rcaResult) \<times> rhistory) option" where
  "analyzeForRule env riskRule target matches now h =
     map_option (\<lambda>(r, calls). (r, RAnalyze calls # h))
       (analyzeRCA (ren_model env h) (ren_resolver env) (ren_gateway env) riskRule target matches now [])"

definition produceFinding ::
  "'t rule_lib \<Rightarrow> rule_env \<Rightarrow> RiskRule \<Rightarrow> Target \<Rightarrow> Match list \<Rightarrow> ruleEvaluationSummary \<Rightarrow> gotime \<Rightarrow> rhistory \<Rightarrow>
   (go_error option \<times> rhistory) option" where
  "produceFinding lib env riskRule target matches issues now h =
     (if investigationPolicyMode (rip_Mode (rsp_InvestigationPolicy (rul_Spec riskRule))) = ''CreateRequest'' then
        Some (upsertInvestigationRequest lib env riskRule target matches now h)
      else case analyzeForRule env riskRule target matches now h of
        None \<Rightarrow> None
      | Some (Inl e, h) \<Rightarrow> Some (Some e, h)
      | Some (Inr rca, h) \<Rightarrow> Some (upsertRiskSignal lib env riskRule target matches rca issues now h))"

fun reconcileEachTarget ::
  "'t rule_lib \<Rightarrow> rule_env \<Rightarrow> (rhistory \<Rightarrow> string \<Rightarrow> rule_source option) \<Rightarrow> RiskRule \<Rightarrow> gotime \<Rightarrow> Target list \<Rightarrow>
   int \<times> ruleEvaluationSummary \<Rightarrow> rhistory \<Rightarrow> ((go_error + int \<times> ruleEvaluationSummary) \<times> rhistory) option" where
  "reconcileEachTarget lib env sources riskRule now [] acc h = Some (Inr acc, h)"
| "reconcileEachTarget lib env sources riskRule now (target # rest) (riskCount, summary) h =
     (case evaluateTarget lib sources riskRule target now h of
        (Inl e, h) \<Rightarrow> Some (Inl e, h)
      | (Inr (matches, issues), h) \<Rightarrow>
          let summary = mergeRuleEvaluationSummary summary issues in
          if matches = [] then reconcileEachTarget lib env sources riskRule now rest (riskCount, summary) h
          else case produceFinding lib env riskRule target matches issues now h of
            None \<Rightarrow> None
          | Some (Some e, h) \<Rightarrow> Some (Inl e, h)
          | Some (None, h) \<Rightarrow> reconcileEachTarget lib env sources riskRule now rest (riskCount + 1, summary) h)"

text \<open>The number of targets, the number of findings, and the issues.\<close>

definition reconcileTargets ::
  "'t rule_lib \<Rightarrow> rule_env \<Rightarrow> RiskRule \<Rightarrow> gotime \<Rightarrow> rhistory \<Rightarrow>
   ((go_error + int \<times> int \<times> ruleEvaluationSummary) \<times> rhistory) option" where
  "reconcileTargets lib env riskRule now h =
     (case DiscoverTargets (rlb_Visit lib) (ren_workloads env h) (rsp_TargetSelector (rul_Spec riskRule)) of
        Inl e \<Rightarrow> Some (Inl e, h)
      | Inr targets \<Rightarrow>
          (case ren_sources env of
             None \<Rightarrow> Some (Inr (int (length targets), 0, emptySummary), h)
           | Some sources \<Rightarrow>
               map_option (\<lambda>(r, h). (map_sum id (Pair (int (length targets))) r, h))
                 (reconcileEachTarget lib env sources riskRule now targets (0, emptySummary) h)))"

definition rulepkgCoverage :: "workload_reader \<Rightarrow> TargetSelector \<Rightarrow> go_error + RiskRuleCoverage" where
  "rulepkgCoverage wr selector =
     map_sum id (\<lambda>report. \<lparr>rcv_SupportedTargetKinds = cvr_SupportedTargetKinds report,
       rcv_UnsupportedDiscoveredKinds = cvr_UnsupportedDiscoveredKinds report, rcv_Partial = cvr_Partial report\<rparr>)
       (DiscoverCoverage wr selector)"

definition coverageIssue :: evaluationIssue where
  "coverageIssue = \<lparr>evi_Reason = ''PartialCoverage'',
     evi_Message = ''risk rule target selector includes unsupported Kubernetes resource kinds; see status.coverage''\<rparr>"

definition ruleStatusMessage :: "RiskRule \<Rightarrow> int \<Rightarrow> int \<Rightarrow> string" where
  "ruleStatusMessage riskRule targets riskCount =
     (if targets = 0 then ''no matching targets discovered for risk rule''
      else ''processed '' @ itoa targets @ '' targets; '' @ itoa riskCount @ '' produced '' @
        producedObjectKind (rip_Mode (rsp_InvestigationPolicy (rul_Spec riskRule))))"

definition finishRule ::
  "'t rule_lib \<Rightarrow> rule_env \<Rightarrow> RiskRule \<Rightarrow> int \<Rightarrow> int \<Rightarrow> ruleEvaluationSummary \<Rightarrow> rhistory \<Rightarrow> outcome \<times> rhistory" where
  "finishRule lib env riskRule targets riskCount summary h =
     (case rulepkgCoverage (ren_workloads env h) (rsp_TargetSelector (rul_Spec riskRule)) of
        Inl e \<Rightarrow> (Fail e, h)
      | Inr coverage \<Rightarrow>
          let summary = (if rcv_Partial coverage then summary\<lparr>res_CoveragePartial := Some coverageIssue\<rparr> else summary);
              generation = om_Generation (rul_Meta riskRule); (now, h) = rTick env h; (now', h) = rTick env h;
              s = setRiskRuleStatus PhaseObserved (ruleStatusMessage riskRule targets riskCount) generation now (rul_Status riskRule);
              s = s\<lparr>rst_Coverage := Some coverage,
                rst_Conditions := applyRiskRuleConditions (rlb_Conditions lib) generation summary now' (rst_Conditions s)\<rparr>;
              updated = riskRule\<lparr>rul_Status := s\<rparr>; done = Requeue (ruleRequeueAfter (rsp_Interval (rul_Spec riskRule))) in
          if s = rul_Status riskRule then (done, h)
          else
            let r = ren_updateStatus env h updated; h = RStatus updated (errorOf r) # h in
            (case r of Inl e \<Rightarrow> (if errKind e = Conflict then done else Fail e) | Inr _ \<Rightarrow> done, h))"

definition RiskRule_Reconcile ::
  "'t rule_lib \<Rightarrow> rule_env \<Rightarrow> NamespacedName \<Rightarrow> rhistory \<Rightarrow> (outcome \<times> rhistory) option" where
  "RiskRule_Reconcile lib env key h =
     (case ren_get env h key of
        Inl e \<Rightarrow> Some (if IsNotFound e then Stop else Fail e, RGet key # h)
      | Inr riskRule \<Rightarrow>
          let (now, h) = rTick env (RGet key # h) in
          case reconcileTargets lib env riskRule now h of
            None \<Rightarrow> None
          | Some (Inl e, h) \<Rightarrow> Some (Fail e, h)
          | Some (Inr (targets, riskCount, summary), h) \<Rightarrow> Some (finishRule lib env riskRule targets riskCount summary h))"

subsection \<open>What a reconciliation may call\<close>

definition growsBy :: "('a \<Rightarrow> bool) \<Rightarrow> 'a list \<Rightarrow> 'a list \<Rightarrow> bool" where
  "growsBy P h h' \<longleftrightarrow> (\<exists>g. h' = g @ h \<and> list_all P g)"

lemma growsBy_refl [simp, intro]: "growsBy P h h"
  by (simp add: growsBy_def)

lemma growsBy_Cons: "growsBy P h h' \<Longrightarrow> P e \<Longrightarrow> growsBy P h (e # h')"
  unfolding growsBy_def by (elim exE conjE, rule_tac x = "e # g" in exI) simp

lemma growsBy_trans: "growsBy P h h' \<Longrightarrow> growsBy P h' h'' \<Longrightarrow> growsBy P h h''"
  unfolding growsBy_def by (metis append.assoc list_all_append)

lemma growsBy_newCalls: "growsBy P h h' \<Longrightarrow> e \<in> set (newCalls h h') \<Longrightarrow> P e"
  by (auto simp: growsBy_def list_all_iff)

text \<open>A query that the evaluation of a rule may send.\<close>

definition permittedQuery :: "'t rule_lib \<Rightarrow> rule_env \<Rightarrow> RiskRule \<Rightarrow> string \<Rightarrow> SourceQuery \<Rightarrow> bool" where
  "permittedQuery lib env riskRule name q \<longleftrightarrow>
     (\<exists>sources source signal target h now. ren_sources env = Some sources \<and> signal \<in> set (rsp_Signals (rul_Spec riskRule)) \<and>
        SourceRefForSignal signal = Some (name, qrt_QueryType q) \<and> sources h name = Some source \<and>
        SupportsQueryType (rls_Capabilities source) (qrt_QueryType q) \<and>
        RenderQuery (rlb_Template lib) (QueryTemplateForSignal signal) (tgt_Resource target) (tgt_Labels target) = Inr (qrt_Query q) \<and>
        d_Decision (Validate durationText (Some (rls_Source source))
          (policyRequest name (qrt_QueryType q) signal (qrt_Query q) (ruleWindow riskRule) target)) \<noteq> DecisionRejected \<and>
        q = sourceQuery (qrt_QueryType q) (qrt_Query q) (ruleWindow riskRule) target now)"

definition directMode :: "RiskRule \<Rightarrow> bool" where
  "directMode riskRule \<longleftrightarrow> TrimSpace (rip_Mode (rsp_InvestigationPolicy (rul_Spec riskRule))) = ''DirectRiskSignal''"

definition signalCondition :: "RiskSignal \<Rightarrow> string \<Rightarrow> string option" where
  "signalCondition signal t = map_option fst (conditionFieldsOf (sst_Conditions (rsg_Status signal)) t)"

text \<open>The causes of a direct signal, when its root cause counts as verified.\<close>

definition verifiedCauses :: "RiskSignal \<Rightarrow> bool" where
  "verifiedCauses signal \<longleftrightarrow>
     (\<exists>matches reasoning claims. claims = fst (buildRCAClaims reasoning (evidenceCollectionResultFromMatches matches) []) \<and>
        cve_Outcome (evaluateCanonicalVerdict reasoning (evidenceCollectionResultFromMatches matches) claims
          (providerScore reasoning) []) = InvestigationOutcomeConfirmed \<and>
        map rcc_Cause (sst_RCACauses (rsg_Status signal)) =
          map rcl_Statement (filter claimSupported (rootCauseClaims reasoning claims)))"

definition sayingOnlyVerified :: "RiskSignal \<Rightarrow> bool" where
  "sayingOnlyVerified signal \<longleftrightarrow>
     (if signalCondition signal conditionRemediationReady = Some ConditionTrue then verifiedCauses signal
      else sst_RCACauses (rsg_Status signal) = [] \<and> sst_RCAHypothesis (rsg_Status signal) = [])"

definition ruleCondition :: "RiskRule \<Rightarrow> string \<Rightarrow> string option" where
  "ruleCondition riskRule t = map_option fst (conditionFieldsOf (rst_Conditions (rul_Status riskRule)) t)"

definition coherentRule :: "RiskRule \<Rightarrow> bool" where
  "coherentRule riskRule \<longleftrightarrow>
     (ruleCondition riskRule conditionReady = Some ConditionTrue \<and> ruleCondition riskRule conditionDegraded = Some ConditionFalse \<and>
        ruleCondition riskRule conditionDatasourceResolved = Some ConditionTrue \<and>
        ruleCondition riskRule conditionQueryTypeSupported = Some ConditionTrue \<and>
        map_option rcv_Partial (rst_Coverage (rul_Status riskRule)) = Some False) \<or>
     ruleCondition riskRule conditionReady = Some ConditionFalse \<and> ruleCondition riskRule conditionDegraded = Some ConditionTrue"

definition ruleEventOk :: "'t rule_lib \<Rightarrow> rule_env \<Rightarrow> RiskRule \<Rightarrow> ruleEvent \<Rightarrow> bool" where
  "ruleEventOk lib env riskRule e \<longleftrightarrow>
     (case e of
        RQuery name q \<Rightarrow> permittedQuery lib env riskRule name q
      | RAnalyze calls \<Rightarrow> directMode riskRule
      | RUpsertSignal k r \<Rightarrow> directMode riskRule
      | RSignalStatus u r \<Rightarrow> directMode riskRule \<and> sayingOnlyVerified u
      | RUpsertRequest k r \<Rightarrow> \<not> directMode riskRule
      | RStatus u r \<Rightarrow> coherentRule u \<and> rul_Spec u = rul_Spec riskRule
      | _ \<Rightarrow> True)"

lemma ruleEventOk_simps [simp]:
  "ruleEventOk lib env riskRule (RTick t)" "ruleEventOk lib env riskRule (RGet key)"
  "ruleEventOk lib env riskRule (RUpsertRequest key r) = (\<not> directMode riskRule)"
  "ruleEventOk lib env riskRule (RAnalyze calls) = directMode riskRule"
  "ruleEventOk lib env riskRule (RUpsertSignal key r) = directMode riskRule"
  by (simp_all add: ruleEventOk_def)

lemma sourceQuery_sel [simp]:
  "qrt_QueryType (sourceQuery t rendered w target now) = t" "qrt_Query (sourceQuery t rendered w target now) = rendered"
  "qrt_StartTime (sourceQuery t rendered w target now) = now - w" "qrt_EndTime (sourceQuery t rendered w target now) = now"
  by (simp_all add: sourceQuery_def)

lemma permittedQueryI:
  assumes "ren_sources env = Some sources" "signal \<in> set (rsp_Signals (rul_Spec riskRule))"
    "SourceRefForSignal signal = Some (name, t)" "sources h name = Some source" "SupportsQueryType (rls_Capabilities source) t"
    "RenderQuery (rlb_Template lib) (QueryTemplateForSignal signal) (tgt_Resource target) (tgt_Labels target) = Inr rendered"
    "d_Decision (Validate durationText (Some (rls_Source source)) (policyRequest name t signal rendered (ruleWindow riskRule) target))
      \<noteq> DecisionRejected"
  shows "permittedQuery lib env riskRule name (sourceQuery t rendered (ruleWindow riskRule) target now)"
  unfolding permittedQuery_def using assms by (metis sourceQuery_sel)

lemma evaluateRuleSignal_grows:
  assumes "evaluateRuleSignal lib sources riskRule target now signal h = (r, h')"
    and "ren_sources env = Some sources" and "signal \<in> set (rsp_Signals (rul_Spec riskRule))"
  shows "growsBy (ruleEventOk lib env riskRule) h h'"
proof -
  have "h' = h \<or> (\<exists>name q. h' = RQuery name q # h \<and> permittedQuery lib env riskRule name q)"
    using assms(1) unfolding evaluateRuleSignal_def Let_def
    by (auto intro: permittedQueryI [OF assms(2,3)] split: option.splits sum.splits if_splits prod.splits)
  then show ?thesis by (auto intro: growsBy_Cons simp: ruleEventOk_def)
qed

lemma evaluateRuleSignals_grows:
  assumes "evaluateRuleSignals lib sources riskRule target now signals acc h = (r, h')"
    and "ren_sources env = Some sources" and "set signals \<subseteq> set (rsp_Signals (rul_Spec riskRule))"
  shows "growsBy (ruleEventOk lib env riskRule) h h'"
  using assms
proof (induction signals arbitrary: acc h)
  case (Cons signal rest)
  obtain out h1 where first: "evaluateRuleSignal lib sources riskRule target now signal h = (out, h1)" by fastforce
  then have "growsBy (ruleEventOk lib env riskRule) h h1" using evaluateRuleSignal_grows Cons.prems(2,3) by auto
  then show ?case
  proof (cases out)
    case (Inl e)
    with \<open>growsBy (ruleEventOk lib env riskRule) h h1\<close> show ?thesis using Cons.prems first by simp
  next
    case (Inr x)
    then have "growsBy (ruleEventOk lib env riskRule) h1 h'" using Cons.prems first Cons.IH [of "noteOutcome x acc" h1] by simp
    with \<open>growsBy (ruleEventOk lib env riskRule) h h1\<close> show ?thesis by (rule growsBy_trans)
  qed
qed simp

lemma evaluateTarget_grows:
  "evaluateTarget lib sources riskRule target now h = (r, h') \<Longrightarrow> ren_sources env = Some sources \<Longrightarrow>
   growsBy (ruleEventOk lib env riskRule) h h'"
  unfolding evaluateTarget_def by (rule evaluateRuleSignals_grows) auto

lemma ruleSignalStatus_causes:
  "map rcc_Cause (sst_RCACauses (rsg_Status (ruleSignalStatus ca matches rca summary now signal))) =
    (case rrt_Reasoning rca of None \<Rightarrow> [] | Some r \<Rightarrow> rcs_Causes (rso_RCA r))"
  "sst_RCAHypothesis (rsg_Status (ruleSignalStatus ca matches rca summary now signal)) =
    (case rrt_Reasoning rca of None \<Rightarrow> [] | Some r \<Rightarrow> rcs_Hypothesis (rso_RCA r))"
  by (simp_all add: ruleSignalStatus_def applyRCAResult_def applyRCAFields_def Let_def o_def split: option.split)

lemma analyzeRCA_condition:
  assumes "analyzeRCA env resolver gateway riskRule target matches now h = Some (Inr rca, h')"
    and "rrt_Condition rca = Some c"
  shows "cnd_Type c = conditionRCAReady"
  using analyzeRCA_cases [OF assms(1)] assms(2) by (auto simp: verifiedAnalysis_def Let_def split: if_splits)

lemma ruleSignalStatus_verified:
  assumes "conditionLaws ca" and rca: "analyzeRCA env resolver gateway riskRule target matches now h = Some (Inr rca, h')"
  shows "sayingOnlyVerified (ruleSignalStatus ca matches rca summary now signal)"
proof -
  let ?s = "ruleSignalStatus ca matches rca summary now signal"
  have "signalCondition ?s conditionRemediationReady =
      map_option (\<lambda>c. if cnd_Status c = ConditionTrue then ConditionTrue else ConditionFalse) (rrt_Condition rca)"
    using applyRCAResult_remediation [OF assms(1) analyzeRCA_condition [OF rca]]
    by (simp add: signalCondition_def ruleSignalStatus_def Let_def)
  then have ready: "signalCondition ?s conditionRemediationReady = Some ConditionTrue \<longleftrightarrow> rrt_Reasoning rca \<noteq> None"
    using direct_rca_verified [OF rca] by auto
  show ?thesis
  proof (cases "rrt_Reasoning rca")
    case None
    then show ?thesis using ready ruleSignalStatus_causes [of ca matches rca summary now signal] by (simp add: sayingOnlyVerified_def)
  next
    case (Some kept)
    then have "verifiedCauses ?s"
      using direct_rca_verified [OF rca] ruleSignalStatus_causes [of ca matches rca summary now signal]
      unfolding verifiedCauses_def by auto
    with ready Some show ?thesis by (simp add: sayingOnlyVerified_def)
  qed
qed

lemma upsertRiskSignal_grows:
  assumes "conditionLaws (rlb_Conditions lib)" and "directMode riskRule"
    and "analyzeRCA menv resolver gateway riskRule target matches now mh = Some (Inr rca, mh')"
  shows "growsBy (ruleEventOk lib env riskRule) h (snd (upsertRiskSignal lib env riskRule target matches rca summary now h))"
  using ruleSignalStatus_verified [OF assms(1,3)] assms(2)
  by (auto simp: upsertRiskSignal_def Let_def ruleEventOk_def split: sum.splits intro!: growsBy_Cons)

lemma upsertInvestigationRequest_grows:
  "\<not> directMode riskRule \<Longrightarrow>
   growsBy (ruleEventOk lib env riskRule) h (snd (upsertInvestigationRequest lib env riskRule target matches now h))"
  by (auto simp: upsertInvestigationRequest_def Let_def intro!: growsBy_Cons)

lemma produceFinding_grows:
  assumes "conditionLaws (rlb_Conditions lib)" and "produceFinding lib env riskRule target matches issues now h = Some (r, h')"
  shows "growsBy (ruleEventOk lib env riskRule) h h'"
proof (cases "directMode riskRule")
  case False
  then have "h' = snd (upsertInvestigationRequest lib env riskRule target matches now h)"
    using assms(2) by (auto simp: produceFinding_def directMode_def investigationPolicyMode_def dest: arg_cong [where f = snd])
  with upsertInvestigationRequest_grows [OF False] show ?thesis by simp
next
  case True
  then obtain out h1 where a: "analyzeForRule env riskRule target matches now h = Some (out, h1)"
    using assms(2) by (auto simp: produceFinding_def directMode_def investigationPolicyMode_def split: option.splits)
  then obtain calls where calls: "h1 = RAnalyze calls # h"
      "analyzeRCA (ren_model env h) (ren_resolver env) (ren_gateway env) riskRule target matches now [] = Some (out, calls)"
    by (auto simp: analyzeForRule_def)
  have one: "growsBy (ruleEventOk lib env riskRule) h h1" using True calls(1) by (auto intro: growsBy_Cons)
  show ?thesis
  proof (cases out)
    case (Inl e)
    then show ?thesis
      using assms(2) True a one by (auto simp: produceFinding_def directMode_def investigationPolicyMode_def)
  next
    case (Inr rca)
    then have "h' = snd (upsertRiskSignal lib env riskRule target matches rca issues now h1)"
      using assms(2) True a
      by (auto simp: produceFinding_def directMode_def investigationPolicyMode_def dest: arg_cong [where f = snd])
    then show ?thesis
      using upsertRiskSignal_grows [OF assms(1) True calls(2) [unfolded Inr]] one by (auto intro: growsBy_trans)
  qed
qed

lemma reconcileEachTarget_grows:
  assumes "conditionLaws (rlb_Conditions lib)" and "ren_sources env = Some sources"
    and "reconcileEachTarget lib env sources riskRule now targets acc h = Some (r, h')"
  shows "growsBy (ruleEventOk lib env riskRule) h h'"
  using assms(3)
proof (induction targets arbitrary: acc h)
  case (Cons target rest)
  obtain riskCount summary where acc: "acc = (riskCount, summary)" by fastforce
  obtain out h1 where e: "evaluateTarget lib sources riskRule target now h = (out, h1)" by fastforce
  have one: "growsBy (ruleEventOk lib env riskRule) h h1" using evaluateTarget_grows [OF e assms(2)] .
  show ?case
  proof (cases out)
    case (Inl x)
    then show ?thesis using Cons.prems e one by (auto simp: acc)
  next
    case (Inr p)
    obtain matches issues where p: "p = (matches, issues)" by fastforce
    show ?thesis
    proof (cases "matches = []")
      case True
      then show ?thesis using Cons.prems Cons.IH e one Inr p by (auto simp: acc Let_def intro: growsBy_trans)
    next
      case False
      then obtain w h2 where f: "produceFinding lib env riskRule target matches issues now h1 = Some (w, h2)"
        using Cons.prems e Inr p by (auto simp: acc Let_def split: option.splits)
      have "growsBy (ruleEventOk lib env riskRule) h h2"
        using produceFinding_grows [OF assms(1) f] one by (rule growsBy_trans [rotated])
      then show ?thesis
        using Cons.prems Cons.IH e Inr p f False by (auto simp: acc Let_def split: option.splits intro: growsBy_trans)
    qed
  qed
qed simp

lemma reconcileTargets_grows:
  assumes "conditionLaws (rlb_Conditions lib)" and "reconcileTargets lib env riskRule now h = Some (r, h')"
  shows "growsBy (ruleEventOk lib env riskRule) h h'"
  using assms(2) reconcileEachTarget_grows [OF assms(1)]
  by (auto simp: reconcileTargets_def split: sum.splits option.splits)

lemma riskRule_conditions:
  assumes "conditionLaws ca"
  shows "map_option fst (conditionFieldsOf (applyRiskRuleConditions ca g summary now cs) t) =
    (let failed = list_ex (\<lambda>i. i \<noteq> None) (summaryIssues summary);
         as = (\<lambda>ok. if ok then Some ConditionTrue else Some ConditionFalse) in
     if t = conditionReady then as (\<not> failed) else if t = conditionDegraded then as failed
     else if t = conditionDatasourceResolved then as (res_MissingDatasource summary = None)
     else if t = conditionQueryTypeSupported then as (res_CapabilityMismatch summary = None)
     else map_option fst (conditionFieldsOf cs t))"
  by (auto simp: applyRiskRuleConditions_def Let_def conditionFieldsOf_set [OF assms] split: option.splits)

lemma finishRule_grows:
  assumes "conditionLaws (rlb_Conditions lib)"
  shows "growsBy (ruleEventOk lib env riskRule) h (snd (finishRule lib env riskRule targets riskCount summary h))"
proof (cases "rulepkgCoverage (ren_workloads env h) (rsp_TargetSelector (rul_Spec riskRule))")
  case (Inl e)
  then show ?thesis by (simp add: finishRule_def)
next
  case (Inr coverage)
  define s' where "s' = (if rcv_Partial coverage then summary\<lparr>res_CoveragePartial := Some coverageIssue\<rparr> else summary)"
  define u where "u now now' = riskRule\<lparr>rul_Status := (setRiskRuleStatus PhaseObserved (ruleStatusMessage riskRule targets riskCount)
      (om_Generation (rul_Meta riskRule)) now (rul_Status riskRule))\<lparr>rst_Coverage := Some coverage,
      rst_Conditions := applyRiskRuleConditions (rlb_Conditions lib) (om_Generation (rul_Meta riskRule)) s' now'
        (rst_Conditions (rul_Status riskRule))\<rparr>\<rparr>" for now now'
  have "coherentRule (u now now')" for now now'
    by (auto simp: coherentRule_def ruleCondition_def u_def riskRule_conditions [OF assms] Let_def s'_def summaryIssues_def)
  then have ok: "ruleEventOk lib env riskRule (RStatus (u now now') r)" for now now' r
    by (simp add: ruleEventOk_def u_def)
  have "snd (finishRule lib env riskRule targets riskCount summary h) \<in>
      {RTick t' # RTick t # h | t t'. True} \<union> {RStatus (u now now') r # RTick t' # RTick t # h | now now' r t t'. True}"
    using Inr by (auto simp: finishRule_def rTick_def Let_def s'_def u_def setRiskRuleStatus_def split: sum.splits)
  then show ?thesis using ok by (auto intro!: growsBy_Cons)
qed

definition ruleCalls :: "'t rule_lib \<Rightarrow> rule_env \<Rightarrow> NamespacedName \<Rightarrow> rhistory \<Rightarrow> ruleEvent list" where
  "ruleCalls lib env key h = (case RiskRule_Reconcile lib env key h of None \<Rightarrow> [] | Some (r, h') \<Rightarrow> newCalls h h')"

lemma ruleCalls_ok:
  assumes "conditionLaws (rlb_Conditions lib)" and "e \<in> set (ruleCalls lib env key h)" and "e \<noteq> RGet key"
  shows "\<exists>riskRule. ren_get env h key = Inr riskRule \<and> ruleEventOk lib env riskRule e"
proof (cases "ren_get env h key")
  case (Inl x)
  then show ?thesis using assms(2,3) by (simp add: ruleCalls_def RiskRule_Reconcile_def)
next
  case (Inr riskRule)
  let ?P = "ruleEventOk lib env riskRule"
  obtain r h' where run: "RiskRule_Reconcile lib env key h = Some (r, h')"
    using assms(2) by (cases "RiskRule_Reconcile lib env key h") (auto simp: ruleCalls_def)
  define t where "t = ren_now env (RGet key # h)"
  have start: "growsBy ?P h (RTick t # RGet key # h)" by (intro growsBy_Cons) auto
  obtain out h1 where targets: "reconcileTargets lib env riskRule t (RTick t # RGet key # h) = Some (out, h1)"
    using run Inr by (auto simp: RiskRule_Reconcile_def rTick_def t_def split: option.splits)
  have two: "growsBy ?P h h1" using start reconcileTargets_grows [OF assms(1) targets] by (rule growsBy_trans)
  have "growsBy ?P h h'"
  proof (cases out)
    case (Inl x)
    then show ?thesis using run targets two \<open>ren_get env h key = Inr riskRule\<close>
      by (auto simp: RiskRule_Reconcile_def rTick_def t_def)
  next
    case (Inr p)
    obtain a b c where p: "p = (a, b, c)" by (cases p) auto
    have "h' = snd (finishRule lib env riskRule a b c h1)"
      using run targets Inr \<open>ren_get env h key = Inr riskRule\<close>
      by (auto simp: p RiskRule_Reconcile_def rTick_def t_def dest: arg_cong [where f = snd])
    with finishRule_grows [OF assms(1), of env riskRule h1 a b c] two show ?thesis by (auto intro: growsBy_trans)
  qed
  then have "?P e" using growsBy_newCalls assms(2) run by (fastforce simp: ruleCalls_def)
  with Inr show ?thesis by blast
qed

subsection \<open>The reconciler of rules\<close>

text \<open>C17: every query that a rule sends was rendered from one of its signals, for a data source that is registered under that
  name and supports the type, is accepted by the query policy of the source, and covers exactly the window of the rule.\<close>

theorem rule_queries_within_policy:
  assumes "conditionLaws (rlb_Conditions lib)" and "RQuery name q \<in> set (ruleCalls lib env key h)"
  shows "\<exists>riskRule sources source signal target h'. ren_get env h key = Inr riskRule \<and> ren_sources env = Some sources \<and>
    signal \<in> set (rsp_Signals (rul_Spec riskRule)) \<and> SourceRefForSignal signal = Some (name, qrt_QueryType q) \<and>
    sources h' name = Some source \<and> SupportsQueryType (rls_Capabilities source) (qrt_QueryType q) \<and>
    RenderQuery (rlb_Template lib) (QueryTemplateForSignal signal) (tgt_Resource target) (tgt_Labels target) = Inr (qrt_Query q) \<and>
    d_Decision (Validate durationText (Some (rls_Source source))
      (policyRequest name (qrt_QueryType q) signal (qrt_Query q) (ruleWindow riskRule) target)) \<noteq> DecisionRejected \<and>
    qrt_StartTime q = qrt_EndTime q - ruleWindow riskRule"
proof -
  obtain riskRule where r: "ren_get env h key = Inr riskRule" "permittedQuery lib env riskRule name q"
    using ruleCalls_ok [OF assms] by (auto simp: ruleEventOk_def)
  have "qrt_StartTime q = qrt_EndTime q - ruleWindow riskRule"
    using r(2) unfolding permittedQuery_def by (metis sourceQuery_sel(3,4))
  with r show ?thesis unfolding permittedQuery_def by blast
qed


text \<open>C19: the status that is stored for a rule is coherent: it is ready, with every data source resolved, every query type
  supported and the coverage complete, or it is degraded and not ready.\<close>

theorem rule_status_coherent:
  assumes "conditionLaws (rlb_Conditions lib)" and "RStatus u r \<in> set (ruleCalls lib env key h)"
  shows "(ruleCondition u conditionReady = Some ConditionTrue \<and> ruleCondition u conditionDegraded = Some ConditionFalse \<and>
      ruleCondition u conditionDatasourceResolved = Some ConditionTrue \<and>
      ruleCondition u conditionQueryTypeSupported = Some ConditionTrue \<and>
      map_option rcv_Partial (rst_Coverage (rul_Status u)) = Some False) \<or>
    ruleCondition u conditionReady = Some ConditionFalse \<and> ruleCondition u conditionDegraded = Some ConditionTrue"
  using ruleCalls_ok [OF assms] by (auto simp: ruleEventOk_def coherentRule_def)

subsection \<open>Every reconciliation returns\<close>

lemma reconcileEachTarget_returns:
  assumes "\<And>t m now h. analyzeForRule env riskRule t m now h \<noteq> None"
  shows "reconcileEachTarget lib env sources riskRule now targets acc h \<noteq> None"
proof (induction targets arbitrary: acc h)
  case (Cons target rest)
  obtain riskCount summary where acc: "acc = (riskCount, summary)" by fastforce
  have "produceFinding lib env riskRule t m i n g \<noteq> None" for t m i n g
    using assms by (auto simp: produceFinding_def simp del: not_None_eq split: option.split sum.split)
  then show ?case
    using Cons.IH by (auto simp: acc Let_def simp del: not_None_eq split: option.split sum.split prod.split)
qed simp

text \<open>C20: when the cluster has only finitely many model providers, every reconciliation of a rule returns, and a failing data
  source, model provider or write is an outcome of it.\<close>

theorem rule_reconcile_returns:
  assumes "finite K" and "\<And>g key h p. me_GetProvider (ren_model env g) key h = Inr p \<Longrightarrow> providerKey p \<in> K"
  shows "\<exists>out h'. RiskRule_Reconcile lib env key h = Some (out, h')"
proof -
  have "analyzeForRule env riskRule t m now g \<noteq> None" for riskRule t m now g
    using analyzeRCA_returns [OF assms(1), of "ren_model env g" "ren_resolver env" "ren_gateway env" riskRule t m now "[]"] assms(2)
    by (auto simp: analyzeForRule_def)
  then have "reconcileEachTarget lib env sources riskRule now targets acc g \<noteq> None" for sources riskRule now targets acc g
    by (rule reconcileEachTarget_returns)
  then have "reconcileTargets lib env riskRule now g \<noteq> None" for riskRule now g
    by (auto simp: reconcileTargets_def simp del: not_None_eq split: option.split sum.split)
  then have "RiskRule_Reconcile lib env key h \<noteq> None"
    by (auto simp: RiskRule_Reconcile_def rTick_def Let_def simp del: not_None_eq split: option.split sum.split prod.split)
  then show ?thesis by auto
qed

subsection \<open>Unverified signals\<close>

text \<open>A weak point: the remediation controller looks at the verification only for signals with an investigation.  A direct signal
  whose analysis was not confirmed says that remediation is not ready, and gets a remediation plan all the same.\<close>

theorem unverified_direct_signal_planned:
  assumes laws: "conditionLaws ca" and rca: "rca = verifiedAnalysis provider (tgt_Resource target) matches now reasoning"
    and unverified: "rrt_Reasoning rca = None"
    and u: "u = ruleSignalStatus ca matches rca summary now (ruleSignal riskRule target matches identity s)"
    and direct: "ssp_InvestigationRef (rsg_Spec s) = None"
    and got: "sen_get env h key = Inr u" and live: "\<not> signalExpired u (sen_now env (SGet key # h))"
  shows "signalCondition u conditionRemediationReady = Some ConditionFalse \<and>
    list_ex (\<lambda>c. \<exists>k r. c = SUpsertPlan k r) (planCalls True env key h)"
proof
  have "\<exists>c. rrt_Condition rca = Some c \<and> cnd_Status c = ConditionFalse \<and> cnd_Type c = conditionRCAReady"
    using unverified unfolding rca by (auto simp: verifiedAnalysis_def Let_def split: if_splits)
  then show "signalCondition u conditionRemediationReady = Some ConditionFalse"
    using applyRCAResult_remediation [OF laws, of rca] by (auto simp: u signalCondition_def ruleSignalStatus_def Let_def)
  have "ssp_InvestigationRef (rsg_Spec u) = None"
    using direct by (simp add: u ruleSignalStatus_def ruleSignal_def Let_def)
  then have "\<not> hasUnverifiedInvestigationProjection u" by (simp add: hasUnverifiedInvestigationProjection_def)
  then show "list_ex (\<lambda>c. \<exists>k r. c = SUpsertPlan k r) (planCalls True env key h)"
    by (cases rule: RiskSignal_Reconcile_cases [of env h key True])
      (use got live in \<open>auto simp: planWritten_def list_ex_iff\<close>)
qed

subsection \<open>Concrete runs\<close>

definition demoRuleSignal :: RiskRuleSignal where
  "demoRuleSignal = \<lparr>rrs_Name = ''backoff'', rrs_Type = ''kubernetesEvent'', rrs_DatasourceRef = [], rrs_QueryType = [],
     rrs_Query = ''BackOff'', rrs_QueryTemplate = [], rrs_Reasons = [''BackOff''],
     rrs_Threshold = \<lparr>rth_Operator = [], rth_Value = Finite 0\<rparr>\<rparr>"

definition demoRiskRule :: RiskRule where
  "demoRiskRule = \<lparr>rul_Meta = emptyMeta\<lparr>om_Name := ''restarts'', om_Namespace := ''prod'', om_Generation := 1\<rparr>,
     rul_Spec = \<lparr>rsp_TargetSelector = demoSelector, rsp_Interval = minute, rsp_Window = 0, rsp_Severity = ''warning'',
       rsp_Signals = [demoRuleSignal], rsp_Notification = \<lparr>rrn_WebhookRef = None\<rparr>,
       rsp_AI = \<lparr>rai_RCAEnabled = False, rai_ProviderRef = []\<rparr>,
       rsp_InvestigationPolicy = \<lparr>rip_Mode = ''DirectRiskSignal'', rip_CreateRiskSignal = False,
         rip_EvidenceRequirements = \<lparr>ers_Profile = []\<rparr>\<rparr>\<rparr>,
     rul_Status = \<lparr>rst_Resource = emptyResourceStatus, rst_Conditions = [], rst_Coverage = None\<rparr>\<rparr>"

definition blankSignal :: RiskSignal where
  "blankSignal = demoSignal\<lparr>rsg_Spec := demoSignalSpec\<lparr>ssp_InvestigationRef := None\<rparr>, rsg_CreationTimestamp := 0\<rparr>"

definition eventSource :: rule_source where
  "eventSource = \<lparr>rls_Source = \<lparr>qs_Type = ''kubernetes'', qs_Policy = None\<rparr>,
     rls_Capabilities = \<lparr>cap_Metrics = False, cap_Logs = False, cap_Events = True, cap_DeploymentConditions = False,
       cap_ServiceConfiguration = False, cap_ProbeConfiguration = False, cap_ContainerTermination = False, cap_Traces = False,
       cap_RangeQuery = False, cap_InstantQuery = False, cap_LabelQuery = False\<rparr>,
     rls_Query = (\<lambda>h q. Inr \<lparr>qrr_Source = ''cluster'', qrr_QueryType = ''event'', qrr_Summary = [],
       qrr_Records = [[''reason'' \<mapsto> RString ''BackOff'', ''message'' \<mapsto> RString ''restarting failed container'']],
       qrr_Truncated = False, qrr_TruncationReason = [], qrr_LimitDimension = [], qrr_Limit = 0, qrr_OriginalRecordCount = 1,
       qrr_RetainedRecordCount = 1, qrr_NativeCounts = \<lparr>nrc_ResultType = [], nrc_Series = 0, nrc_Samples = 0, nrc_Streams = 0,
         nrc_Entries = 0, nrc_Records = 1\<rparr>, qrr_NativeLimit = None\<rparr>)\<rparr>"

definition demoRuleEnv :: rule_env where
  "demoRuleEnv = \<lparr>ren_now = (\<lambda>h. 1000), ren_get = (\<lambda>h key. Inr demoRiskRule), ren_workloads = (\<lambda>h. demoReader),
     ren_sources = Some (\<lambda>h name. if name = ''kubernetes-events'' then Some eventSource else None), ren_resolver = None,
     ren_gateway = None, ren_model = (\<lambda>h. loopEnv), ren_upsertSignal = (\<lambda>h key f. Inr (f blankSignal)),
     ren_updateSignalStatus = (\<lambda>h s. Inr s), ren_upsertRequest = (\<lambda>h key f. Inl (Errorf ''unavailable'')),
     ren_updateStatus = (\<lambda>h r. Inr r)\<rparr>"

definition demoRuleLib :: "string rule_lib" where
  "demoRuleLib = \<lparr>rlb_Conditions = demoConditions, rlb_Findings = \<lparr>fc_sha256 = id, fc_fingerprint = (\<lambda>_. []),
       fc_object = obi_FindingType, fc_logical = lgi_FindingType, fc_occurrence = oci_ObjectFindingIdentity\<rparr>,
     rlb_Rules = \<lparr>rc_ShowFloat = (\<lambda>_. []), rc_Sha256Hex = id, rc_MarshalMap = (\<lambda>_. [])\<rparr>,
     rlb_Template = \<lparr>te_Parse = Inr, te_Execute = (\<lambda>t d. Inr t)\<rparr>, rlb_Visit = id\<rparr>"

lemma demoRuleEnv_simps [simp]:
  "ren_now demoRuleEnv h = 1000" "ren_get demoRuleEnv h key = Inr demoRiskRule" "ren_workloads demoRuleEnv h = demoReader"
  "ren_resolver demoRuleEnv = None" "ren_gateway demoRuleEnv = None" "ren_model demoRuleEnv h = loopEnv"
  "ren_upsertSignal demoRuleEnv h key f = Inr (f blankSignal)" "ren_updateSignalStatus demoRuleEnv h u = Inr u"
  "ren_updateStatus demoRuleEnv h r = Inr r"
  by (simp_all add: demoRuleEnv_def)

definition demoSources :: "rhistory \<Rightarrow> string \<Rightarrow> rule_source option" where
  "demoSources = (\<lambda>h name. if name = ''kubernetes-events'' then Some eventSource else None)"

lemma demoSources_env [simp]: "ren_sources demoRuleEnv = Some demoSources"
  by (simp add: demoRuleEnv_def demoSources_def)

lemma demo_source:
  "SourceRefForSignal demoRuleSignal = Some (''kubernetes-events'', ''event'')"
  "SupportsQueryType (rls_Capabilities eventSource) ''event''"
  by code_simp+

definition demoEvents :: QueryResult where
  "demoEvents = (case rls_Query eventSource [] undefined of Inr result \<Rightarrow> result)"

lemma eventSource_simps [simp]:
  "rls_Query eventSource h q = Inr demoEvents" "qs_Policy (rls_Source eventSource) = None"
  by (simp_all add: eventSource_def demoEvents_def)

lemma demo_match:
  "\<not> Option.is_none (EvaluateSignal (rlb_Rules demoRuleLib) (signalWithRenderedQuery demoRuleSignal ''BackOff'') ''event'' demoEvents r sev)"
  by code_simp

lemma demo_rendered:
  "map_sum id id (RenderQuery (rlb_Template demoRuleLib) (QueryTemplateForSignal demoRuleSignal) r labels) = Inr ''BackOff''"
  by code_simp

lemma demo_evaluated:
  "\<exists>m q. evaluateRuleSignal demoRuleLib demoSources demoRiskRule target now demoRuleSignal h =
     (Inr (Matched m), RQuery ''kubernetes-events'' q # h)"
proof -
  obtain m where m: "EvaluateSignal (rlb_Rules demoRuleLib) (signalWithRenderedQuery demoRuleSignal ''BackOff'') ''event'' demoEvents
      (tgt_Resource target) (ruleSeverity (rsp_Severity (rul_Spec demoRiskRule))) = Some m"
    using demo_match by (metis Option.is_none_def not_None_eq)
  have "RenderQuery (rlb_Template demoRuleLib) (QueryTemplateForSignal demoRuleSignal) r labels = Inr ''BackOff''" for r labels
    using demo_rendered by (simp add: sum.map_id)
  with m show ?thesis
    by (simp add: evaluateRuleSignal_def demo_source Let_def demoSources_def Validate_def allow_def)
qed

text \<open>The whole reconciliation: a query, a signal with its status, and the status of the rule.\<close>

lemma demo_targets: "\<exists>t. DiscoverTargets (rlb_Visit demoRuleLib) demoReader (rsp_TargetSelector (rul_Spec demoRiskRule)) = Inr [t]"
proof -
  have "map_sum id length (DiscoverTargets id demoReader demoSelector) = Inr 1" by code_simp
  then obtain ts where "DiscoverTargets id demoReader demoSelector = Inr ts" "length ts = 1"
    by (cases "DiscoverTargets id demoReader demoSelector") auto
  then show ?thesis by (simp add: demoRuleLib_def demoRiskRule_def length_Suc_conv)
qed

lemma demo_finding:
  "\<exists>k u. produceFinding demoRuleLib demoRuleEnv demoRiskRule t ms issues now h =
     Some (None, RSignalStatus u None # RUpsertSignal k None # RAnalyze [] # h)"
proof -
  have "rs_Phase (sst_Resource (rsg_Status (ruleSignalStatus (rlb_Conditions demoRuleLib) ms emptyRCAOutcome issues now s))) = PhaseConfirmed" for s
    by (simp add: ruleSignalStatus_def applyRCAResult_def applyRCAFields_def setRiskSignalStatus_def Let_def split: option.split)
  then have confirmed: "rsg_Status s = rsg_Status (ruleSignalStatus (rlb_Conditions demoRuleLib) ms emptyRCAOutcome issues now s) \<Longrightarrow>
      rs_Phase (sst_Resource (rsg_Status s)) = PhaseConfirmed" for s by simp
  have "rs_Phase (sst_Resource (rsg_Status (ruleSignal r t ms i blankSignal))) = PhaseReadyForApproval" for r i
    by (simp add: ruleSignal_def blankSignal_def demoSignal_def Let_def)
  then have "rsg_Status (ruleSignalStatus (rlb_Conditions demoRuleLib) ms emptyRCAOutcome issues now (ruleSignal r t ms i blankSignal))
      \<noteq> rsg_Status (ruleSignal r t ms i blankSignal)" for r i
    using confirmed [of "ruleSignal r t ms i blankSignal"] by auto
  then show ?thesis
    by (simp add: produceFinding_def analyzeForRule_def analyzeRCA_def upsertRiskSignal_def Let_def investigationPolicyMode_def)
      (simp add: demoRiskRule_def TrimSpace_def isSpace_def)
qed

lemma demo_rule_calls:
  "\<exists>q u u'. RQuery ''kubernetes-events'' q \<in> set (ruleCalls demoRuleLib demoRuleEnv (''prod'', ''restarts'') []) \<and>
     RSignalStatus u None \<in> set (ruleCalls demoRuleLib demoRuleEnv (''prod'', ''restarts'') []) \<and>
     RStatus u' None \<in> set (ruleCalls demoRuleLib demoRuleEnv (''prod'', ''restarts'') [])"
proof -
  let ?h = "[RTick 1000, RGet (''prod'', ''restarts'')]"
  obtain t where t: "DiscoverTargets (rlb_Visit demoRuleLib) demoReader (rsp_TargetSelector (rul_Spec demoRiskRule)) = Inr [t]"
    using demo_targets by blast
  obtain m q where e: "evaluateRuleSignal demoRuleLib demoSources demoRiskRule t 1000 demoRuleSignal ?h =
      (Inr (Matched m), RQuery ''kubernetes-events'' q # ?h)" using demo_evaluated by blast
  have signals: "rsp_Signals (rul_Spec demoRiskRule) = [demoRuleSignal]" by (simp add: demoRiskRule_def)
  have target: "evaluateTarget demoRuleLib demoSources demoRiskRule t 1000 ?h = (Inr ([m], emptySummary), RQuery ''kubernetes-events'' q # ?h)"
    by (simp add: evaluateTarget_def signals e noteOutcome_def)
  obtain k u where f: "produceFinding demoRuleLib demoRuleEnv demoRiskRule t [m] emptySummary 1000 (RQuery ''kubernetes-events'' q # ?h) =
      Some (None, RSignalStatus u None # RUpsertSignal k None # RAnalyze [] # RQuery ''kubernetes-events'' q # ?h)"
    using demo_finding by blast
  define h1 where "h1 = RSignalStatus u None # RUpsertSignal k None # RAnalyze [] # RQuery ''kubernetes-events'' q # ?h"
  have run: "reconcileTargets demoRuleLib demoRuleEnv demoRiskRule 1000 ?h =
      Some (Inr (1, 1, mergeRuleEvaluationSummary emptySummary emptySummary), h1)"
    using t target f by (simp add: reconcileTargets_def h1_def)
  obtain coverage where c: "rulepkgCoverage demoReader (rsp_TargetSelector (rul_Spec demoRiskRule)) = Inr coverage"
  proof -
    have "map_sum id (\<lambda>_. ()) (DiscoverCoverage demoReader demoSelector) = Inr ()" by code_simp
    then show thesis using that
      by (cases "DiscoverCoverage demoReader demoSelector") (auto simp: rulepkgCoverage_def demoRiskRule_def)
  qed
  have changed: "setRiskRuleStatus PhaseObserved msg g now (rul_Status demoRiskRule)\<lparr>rst_Coverage := x, rst_Conditions := y\<rparr> \<noteq> rul_Status demoRiskRule"
    for msg g now x y
    by (simp add: setRiskRuleStatus_def setResourceStatus_def demoRiskRule_def emptyResourceStatus_def)
  have "\<exists>u' calls. snd (finishRule demoRuleLib demoRuleEnv demoRiskRule 1 1 s h1) = RStatus u' None # calls @ h1" for s
    using changed by (simp add: finishRule_def c rTick_def Let_def)
  then obtain u' calls where fin: "snd (finishRule demoRuleLib demoRuleEnv demoRiskRule 1 1
      (mergeRuleEvaluationSummary emptySummary emptySummary) h1) = RStatus u' None # calls @ h1" by blast
  have "ruleCalls demoRuleLib demoRuleEnv (''prod'', ''restarts'') [] = RStatus u' None # calls @ h1"
    using fin by (auto simp: ruleCalls_def RiskRule_Reconcile_def rTick_def run newCalls_def split: prod.split)
  then show ?thesis by (auto simp: h1_def)
qed

lemma demoRuleLib_laws: "conditionLaws (rlb_Conditions demoRuleLib)"
  by (simp add: demoRuleLib_def conditionLaws_demo)

theorem rule_queries_within_policy_witness:
  "\<exists>q sources source. RQuery ''kubernetes-events'' q \<in> set (ruleCalls demoRuleLib demoRuleEnv (''prod'', ''restarts'') []) \<and>
     ren_sources demoRuleEnv = Some sources \<and> sources [] ''kubernetes-events'' = Some source \<and>
     SupportsQueryType (rls_Capabilities source) (qrt_QueryType q) \<and> qrt_StartTime q = qrt_EndTime q - 10 * minute"
proof -
  obtain q where q: "RQuery ''kubernetes-events'' q \<in> set (ruleCalls demoRuleLib demoRuleEnv (''prod'', ''restarts'') [])"
    using demo_rule_calls by blast
  have "ruleWindow demoRiskRule = 10 * minute" by (simp add: ruleWindow_def demoRiskRule_def)
  with rule_queries_within_policy [OF demoRuleLib_laws q] q show ?thesis by (auto simp: demoSources_def)
qed


theorem rule_status_coherent_witness:
  "\<exists>u. RStatus u None \<in> set (ruleCalls demoRuleLib demoRuleEnv (''prod'', ''restarts'') []) \<and>
     (ruleCondition u conditionReady = Some ConditionTrue \<or> ruleCondition u conditionDegraded = Some ConditionTrue)"
proof -
  obtain u where u: "RStatus u None \<in> set (ruleCalls demoRuleLib demoRuleEnv (''prod'', ''restarts'') [])"
    using demo_rule_calls by blast
  with rule_status_coherent [OF demoRuleLib_laws u] show ?thesis by blast
qed

theorem rule_reconcile_returns_witness:
  "\<exists>out h'. RiskRule_Reconcile demoRuleLib demoRuleEnv (''prod'', ''restarts'') [] = Some (out, h')"
proof (rule rule_reconcile_returns)
  show "finite {''ns/a'', ''ns/b''}" by simp
  fix g key h p
  assume "me_GetProvider (ren_model demoRuleEnv g) key h = Inr p"
  then show "providerKey p \<in> {''ns/a'', ''ns/b''}"
    by (auto simp: Let_def DefaultHeuristicProvider_def loopEnv_def providerKey_def mpNamespace_def mpName_def demoProvider_def emptyMeta_def split: if_splits)
qed

end
