(* ===== verification/FindingNames.thy ===== *)
theory FindingNames
  imports RuleFindings
begin

text \<open>
  The names that a risk rule gives to the objects of a finding are labels of the DNS, which the API server requires.
\<close>

subsection \<open>Labels\<close>

definition labelChar :: "char \<Rightarrow> bool" where
  "labelChar c \<longleftrightarrow> \<not> labelSeparator c"

text \<open>At most 63 lower-case letters, digits and hyphens, with no hyphen at either end.\<close>

definition validLabel :: "string \<Rightarrow> bool" where
  "validLabel s \<longleftrightarrow> s \<noteq> [] \<and> length s \<le> 63 \<and> list_all (\<lambda>c. labelChar c \<or> c = CHR ''-'') s \<and> labelChar (hd s) \<and> labelChar (last s)"

definition tokenLabel :: "string \<Rightarrow> bool" where
  "tokenLabel s \<longleftrightarrow> list_all (\<lambda>c. labelChar c \<or> c = CHR ''-'') s \<and> (s \<noteq> [] \<longrightarrow> labelChar (hd s))"

lemma labelChar_hyphen [simp]: "\<not> labelChar (CHR ''-'')"
  by (simp add: labelChar_def labelSeparator_def byte_def)

lemma labelChar_hexDigit: "n < 16 \<Longrightarrow> labelChar (hexDigit n)"
proof -
  assume "n < 16"
  then have "n \<in> set [0..<16]" by simp
  then show ?thesis unfolding upt_rec_numeral by (auto simp: hexDigit_def labelChar_def labelSeparator_def byte_def)
qed

lemma labelChar_hexEncode: "list_all labelChar (hexEncode s)"
proof -
  have "byte c < 256" for c by (simp add: byte_def)
  then have "byte c div 16 < 16" "byte c mod 16 < 16" for c by (simp_all add: less_mult_imp_div_less)
  then show ?thesis by (auto simp: hexEncode_def list_all_iff intro!: labelChar_hexDigit)
qed

lemma FieldsFunc_parts: "p \<in> set (FieldsFunc sep s) \<Longrightarrow> p \<noteq> [] \<and> list_all (\<lambda>c. \<not> sep c) p"
proof (induction sep s rule: FieldsFunc.induct)
  case (1 sep s)
  let ?t = "dropWhile sep s"
  show ?case
  proof (cases "?t = []")
    case True
    then show ?thesis using 1(2) by (subst (asm) FieldsFunc.simps) (simp add: Let_def)
  next
    case False
    then have "\<not> sep (hd ?t)" by (rule hd_dropWhile)
    with False have first: "takeWhile (\<lambda>c. \<not> sep c) ?t \<noteq> []" by (cases ?t) auto
    have "FieldsFunc sep s = takeWhile (\<lambda>c. \<not> sep c) ?t # FieldsFunc sep (dropWhile (\<lambda>c. \<not> sep c) ?t)"
      by (subst FieldsFunc.simps) (simp only: Let_def False if_False)
    with 1(2) have "p = takeWhile (\<lambda>c. \<not> sep c) ?t \<or> p \<in> set (FieldsFunc sep (dropWhile (\<lambda>c. \<not> sep c) ?t))" by auto
    then show ?thesis
    proof
      assume "p = takeWhile (\<lambda>c. \<not> sep c) ?t"
      with first show ?thesis by (auto simp: list_all_iff dest: set_takeWhileD)
    next
      assume "p \<in> set (FieldsFunc sep (dropWhile (\<lambda>c. \<not> sep c) ?t))"
      with 1(1) [OF refl False] show ?thesis by blast
    qed
  qed
qed

lemma Join_tokenLabel:
  "list_all (\<lambda>p. p \<noteq> [] \<and> list_all labelChar p) ps \<Longrightarrow> tokenLabel (Join ps ''-'')"
proof (induction ps)
  case (Cons x xs)
  then show ?case by (cases xs; cases x) (auto simp: tokenLabel_def list_all_iff)
qed (simp add: tokenLabel_def)

lemma tokenLabel_dnsLabelToken: "tokenLabel (dnsLabelToken value)"
  unfolding dnsLabelToken_def
  by (rule Join_tokenLabel) (auto simp: list_all_iff labelChar_def dest: FieldsFunc_parts)

subsection \<open>The suffix\<close>

lemma suffix_hyphen: "suffix ''-'' s \<longleftrightarrow> s \<noteq> [] \<and> last s = CHR ''-''"
  by (auto simp: suffix_def) (metis append_butlast_last_id)

lemma TrimSuffix_hyphen: "TrimSuffix s ''-'' = (if s \<noteq> [] \<and> last s = CHR ''-'' then butlast s else s)"
  by (simp add: TrimSuffix_def suffix_hyphen butlast_conv_take)

lemma length_TrimSuffix: "length (TrimSuffix s t) \<le> length s"
  by (simp add: TrimSuffix_def)

lemma tokenLabel_trim:
  assumes "tokenLabel s" and "s \<noteq> []"
  shows "tokenLabel (TrimSuffix s ''-'') \<and> TrimSuffix s ''-'' \<noteq> []"
proof (cases s)
  case (Cons c cs)
  then have "labelChar c" using assms by (simp add: tokenLabel_def)
  then show ?thesis
    using assms Cons by (auto simp: TrimSuffix_hyphen tokenLabel_def list_all_iff dest: in_set_butlastD)
qed (use assms in simp)

lemma cutLabel_valid:
  assumes base: "tokenLabel base" "base \<noteq> []"
    and end': "list_all (\<lambda>c. labelChar c \<or> c = CHR ''-'') end'" "end' \<noteq> []" "labelChar (last end')" "length end' < 63"
  shows "validLabel (cutLabel base end')"
proof (cases "length base + length end' \<le> 63")
  case True
  have "last end' \<noteq> CHR ''-''" using end'(3) by auto
  then show ?thesis using True assms by (auto simp: cutLabel_def TrimSuffix_hyphen validLabel_def tokenLabel_def)
next
  case False
  let ?b = "take (63 - length end') base"
  have "tokenLabel ?b" "?b \<noteq> []"
    using base end'(4) by (auto simp: tokenLabel_def list_all_iff hd_take dest: in_set_takeD)
  from tokenLabel_trim [OF this] have b: "tokenLabel (TrimSuffix ?b ''-'')" "TrimSuffix ?b ''-'' \<noteq> []" by auto
  have "length (TrimSuffix ?b ''-'') \<le> length ?b" by (rule length_TrimSuffix)
  then have "length (TrimSuffix ?b ''-'') \<le> 63 - length end'" by simp
  then show ?thesis using False b end' by (simp add: cutLabel_def validLabel_def tokenLabel_def)
qed

subsection \<open>The names of a finding\<close>

lemma labelled [simp]: "labelChar (CHR ''r'')" "labelChar (CHR ''i'')" "labelChar (CHR ''s'')" "labelChar (CHR ''k'')"
  by (simp_all add: labelChar_def labelSeparator_def byte_def)

lemma hexEncode_label: "list_all (\<lambda>c. labelChar c \<or> c = CHR ''-'') (take n (hexEncode s))"
  using labelChar_hexEncode [of s] by (auto simp: list_all_iff dest: in_set_takeD)

lemma tokenLabel_literals: "tokenLabel ''risk-signal''" "tokenLabel ''investigation''"
  by (simp_all add: tokenLabel_def labelChar_def labelSeparator_def byte_def)

text \<open>C21: whatever the names of the rule and the target are, the risk signal and the investigation request of a finding get a name
  that is a label of the DNS: neither the cut at 63 bytes nor an empty token can make it invalid.\<close>

theorem finding_names_valid:
  assumes "\<And>s. length (fc_sha256 fc s) = 32"
  shows "validLabel (directRiskSignalName fc ruleName targetName matches identity) \<and>
    validLabel (investigationRequestName fc ruleName targetName occurrence)"
proof
  show "validLabel (directRiskSignalName fc ruleName targetName matches identity)"
    unfolding directRiskSignalName_def directRiskSignalNameSuffix_def Let_def
    by (rule cutLabel_valid)
      (simp_all add: tokenLabel_dnsLabelToken tokenLabel_literals hexEncode_label length_hexEncode)
  have "hexEncode (fc_sha256 fc occurrence) \<noteq> []"
    using assms [of occurrence] by (cases "fc_sha256 fc occurrence") (auto simp: hexEncode_def)
  then have "labelChar (last (''-'' @ take 12 (hexEncode (fc_sha256 fc occurrence))))"
    using labelChar_hexEncode [of "fc_sha256 fc occurrence"]
    by (simp add: list_all_iff) (metis in_set_takeD last_in_set take_eq_Nil zero_neq_numeral)
  then show "validLabel (investigationRequestName fc ruleName targetName occurrence)"
    unfolding investigationRequestName_def Let_def
    by (intro cutLabel_valid)
      (auto simp: tokenLabel_dnsLabelToken tokenLabel_literals hexEncode_label length_hexEncode)
qed

definition demoFindings :: finding_codec where
  "demoFindings = \<lparr>fc_sha256 = (\<lambda>s. take 32 (s @ replicate 32 (CHR 0x00))), fc_fingerprint = (\<lambda>_. []), fc_object = obi_FindingType,
     fc_logical = lgi_FindingType, fc_occurrence = oci_ObjectFindingIdentity\<rparr>"

theorem finding_names_valid_witness:
  "validLabel (directRiskSignalName demoFindings ''Latency_rule.of.kubernetes'' (replicate 70 (CHR ''a'')) [] None) \<and>
   validLabel (investigationRequestName demoFindings [] [] ''occurrence'')"
  using finding_names_valid [of demoFindings] by (simp add: demoFindings_def)

end
