(* ===== verification/Spec2Isabelle.thy ===== *)
theory Spec2Isabelle
  imports PlanProperties QueryPolicy Accounting Diagnostics StatusBudget Solution RuleSelector InvestigationExecution
    InvestigationValidation InvestigationController RiskSignalController RiskRuleController FindingNames
begin

text \<open>
  A verification development for the Kubernetes operator FluxSeer RCA (Go).

  \<^bold>\<open>The program.\<close>  The operator watches workloads, investigates risks and proposes remediations.  A
  \<^verbatim>\<open>RemediationPlan\<close> is judged by guardrails and turned into an \<^verbatim>\<open>AgentAction\<close>; the action waits for
  approval, is escalated when nobody answers, is executed by one of four backends, is checked for
  effectiveness and finally expires.  Investigations query data sources under a query policy.

  \<^bold>\<open>The theories\<close>, each with the code under \<^verbatim>\<open>src/\<close> that it models:

  \<^item> \<open>Prelude\<close>: what the code uses of Go and of its standard library: strings of bytes and the
    functions of \<^verbatim>\<open>strings\<close>, wrap-around at 32 and 64 bits, durations, errors with the kinds the
    API server distinguishes, string maps, \<^verbatim>\<open>sort.SliceStable\<close>, and the locale \<open>precedence\<close> for
    selection by a comparison.

  \<^item> \<open>ApiTypes\<close>: the resource types of \<^verbatim>\<open>api/v1alpha1\<close> and \<^verbatim>\<open>internal/domain/types.go\<close> that the
    remediation controllers use, as records with the source's fields, and
    \<^verbatim>\<open>internal/controllers/helpers.go\<close>.

  \<^item> \<open>Guardrails\<close> (\<^verbatim>\<open>internal/guardrails\<close>), \<open>Escalation\<close> (\<^verbatim>\<open>internal/escalation/router.go\<close>) and
    \<open>Thresholds\<close> (\<^verbatim>\<open>internal/thresholds/enforcer.go\<close>): selection of the governing policy, chain
    and threshold, and the decisions they lead to.

  \<^item> \<open>Kube\<close>: the environment.  The API server, the clock, the notifier and the cluster are a record
    \<open>kube\<close> of functions of the history of calls made so far; every call of the program appends an
    event to the history.  A theorem for every \<open>kube\<close> is a theorem for every behaviour of the
    environment, failures, conflicts and stale reads included.

  \<^item> \<open>Executor\<close> (\<^verbatim>\<open>internal/executor\<close>): execution identities, the Kubernetes, GitOps, runbook and
    notification backends, and the router.  The locales \<open>router_backend\<close> and \<open>action_router\<close> state
    what the controller relies on; they are interpreted on the four backends and on the router that
    the operator builds.

  \<^item> \<open>Effectiveness\<close> (\<^verbatim>\<open>internal/controllers/effectiveness.go\<close>): the verdict on a remediation.

  \<^item> \<open>AgentActionController\<close> (\<^verbatim>\<open>internal/controllers/agentaction_controller.go\<close>): the reconcile
    handler of an action.  A handler takes the environment and the history and returns an outcome
    (a result for the work queue, an error, or a nil dereference) with the longer history.
    \<open>ActionSafety\<close> and \<open>ActionProperties\<close> hold the theorems.

  \<^item> \<open>RemediationPlanController\<close> (\<^verbatim>\<open>remediationplan_controller.go\<close>,
    \<^verbatim>\<open>remediationplan_ttl_controller.go\<close>): both handlers of a plan; theorems in \<open>PlanProperties\<close>.

  \<^item> \<open>QueryPolicy\<close> (\<^verbatim>\<open>internal/querypolicy\<close>): validation of rendered PromQL and LogQL queries.

  \<^item> \<open>DomainTypes\<close> (\<^verbatim>\<open>internal/domain\<close>, \<^verbatim>\<open>internal/diagnostic/types.go\<close>): signals, observations, what a
    model provider receives and returns, scheduling evidence, and the results of diagnostics.

  \<^item> \<open>Classification\<close> (\<^verbatim>\<open>internal/dataclassification\<close>) and \<open>Redactor\<close> (\<^verbatim>\<open>internal/evidence/redactor.go\<close>):
    the levels and tags of evidence, the data policy of a provider, and the two redaction patterns with the
    matching order of Go's regular expressions.

  \<^item> \<open>Model\<close> (\<^verbatim>\<open>internal/model\<close>): structured answers, requests with retries and the four providers.
    \<open>ModelGateway\<close> (\<^verbatim>\<open>internal/modelgateway\<close>, \<^verbatim>\<open>internal/reasoning\<close>, \<^verbatim>\<open>internal/knowledge\<close>): provider and
    secret resolution, the reasoning engine and the fallback chain.  \<open>Egress\<close>
    (\<^verbatim>\<open>internal/investigation/service.go\<close>): RCA generation under the data policy of the provider, and its audit.

  \<^item> \<open>Scope\<close> (\<^verbatim>\<open>internal/scope/resolver.go\<close>): the ownership chain of a Deployment.  \<open>Diagnostics\<close>
    (\<^verbatim>\<open>internal/diagnostic\<close>): the image-pull, scheduling and service-port diagnostics and the planner; the
    locale \<open>diagnostic_contract\<close> is what the planner's results rely on, interpreted for each diagnostic.
    \<open>Accounting\<close> (\<^verbatim>\<open>internal/diagnostic/accounting.go\<close>): one disposition per candidate claim.  \<open>Verifier\<close>
    (\<^verbatim>\<open>internal/verifier/heuristic.go\<close>): claims against evidence.

  \<^item> \<open>InvestigationTypes\<close> (\<^verbatim>\<open>api/v1alpha1/investigationrequest_types.go\<close>): the InvestigationRequest resource.
    \<open>StatusBudget\<close> (\<^verbatim>\<open>internal/statusbudget/limits.go\<close>): truncation at a rune and the size budget of its
    status.  \<open>Solution\<close> (\<^verbatim>\<open>internal/adaptive/planner.go\<close>, \<^verbatim>\<open>internal/solution/assessment.go\<close>): follow-up queries
    and the assessment of a proposed solution.

  \<^bold>\<open>What the theorems show.\<close>  Nothing reaches a backend without an approval of exactly the current
  spec, the execution identity is stored before the backend is called, and over any number of
  reconciles with a store that returns what was written an action is dispatched at most once
  (\<open>ActionSafety\<close>).  The Kubernetes backend patches only the object it was asked to and is
  idempotent under one identity (\<open>Executor\<close>).  Editing a spec revokes its approval, escalation
  follows notification, times are ordered, expiry is exact, nothing dereferences nil
  (\<open>ActionProperties\<close>).  Every decision on a plan is the one of its guardrails, and namespaces over
  their threshold get no action (\<open>PlanProperties\<close>).  Selection of policies, chains and thresholds
  is the best candidate and independent of the listing order.  The query scanners are characterised
  against the text.  Where the code falls short of its intention the theorems say so: a manual
  approval under an \<^verbatim>\<open>ApprovalPolicy\<close> resource is never honoured, a failed plan write reopens an
  executed action, the event of a failed execution is lost, a large TTL wraps around, an unknown
  severity limit fails open, a LogQL stage directly after another one is not seen, a quoted credential is
  not redacted, and a verifier needle with a separator never matches.

  In an investigation, what is sent to a hosted provider is exactly the filtered and redacted input that its
  policy allows, the audit of every attempt is truthful, the fallback chain ends and asks no provider twice
  (\<open>Egress\<close>, \<open>ModelGateway\<close>).  Answers are valid and survive a round trip (\<open>Model\<close>).  A resolved scope is
  the validated part of what was listed (\<open>Scope\<close>), diagnostics only propose claims that their evidence
  carries and do not depend on the collection order (\<open>Diagnostics\<close>), candidates are conserved by the
  accounting (\<open>Accounting\<close>), and a supported claim cites evidence of each required kind (\<open>Verifier\<close>).  A
  status stays within its budget, at the price of claims that cite dropped references (\<open>StatusBudget\<close>).

  \<^bold>\<open>Parameters.\<close>  The hash and the canonical JSON encoders are fields of the record \<open>codec\<close>; label
  selectors are a parameter \<open>selector_fn\<close> (the API machinery); the JSON parser and printer are the record
  \<open>json_codec\<close>, the HTTP client, secrets and clock of a provider call the record \<open>model_env\<close>, the lists and
  reads of a scope the record \<open>scope_reader\<close>, the size of the JSON of a status the argument \<open>marshal\<close>; creating or updating an object with a
  mutation function and setting a controller reference are fields of \<open>kube\<close>.  Theorems that need
  more of them say so in a hypothesis, with a witness that instantiates it.

  \<^bold>\<open>Bounds.\<close>  All functions are total; the scanners recurse on the rest of the text with a length
  measure, so no fuel is used.  Only the fallback chain of the gateway, whose length depends on what the API
  server returns, is a \<open>partial_function (option)\<close>; \<open>gateway_returns\<close> proves that it always returns.  Text is ASCII.  Times are nanoseconds as integers; durations wrap at
  64 bits where the code multiplies, and saturate where \<^verbatim>\<open>time.Time.Sub\<close> does.

  \<^bold>\<open>Not modelled.\<close>  Preflight and collection of the investigation service and its controller, the
  risk-rule and data-source controllers, the adapters of data sources, the command line and the evaluation tooling; registration of watches;
  metrics and logging; generated deep copies.
\<close>

end
